(* ===== verification/Prelude.thy ===== *)
theory Prelude
  imports Main "HOL-Library.Sublist"
begin

text \<open>
  Shared material of the development: the fact collections the component theories fill and use,
  and the parts of Python's \<^verbatim>\<open>str\<close> the modelled scripts call.

  A Python \<^verbatim>\<open>str\<close> is a \<^typ>\<open>string\<close> whose characters are the code points below 256 (so
  \<^verbatim>\<open>len\<close>, slicing and comparison agree with Python on that alphabet). Texts with other code
  points, the Chinese messages of some \<^verbatim>\<open>raise\<close> statements, are rendered in English.
\<close>

named_theorems py_simps \<open>evaluation of Python expressions on values\<close>
named_theorems run_simps \<open>evaluation of programs on a state\<close>
named_theorems emits_intros \<open>every event a program adds satisfies a predicate\<close>
named_theorems runs_intros \<open>programs that end and never turn the clock back\<close>
named_theorems succeeds_intros \<open>steps of a run in the witnesses' world\<close>
named_theorems gives_intros \<open>programs that return in the world of the witnesses, whatever their state\<close>
named_theorems wp_intros \<open>what the trace holds when a program returns normally\<close>
named_theorems keeps_intros \<open>invariants of the whole state a program keeps\<close>
named_theorems gwp_intros \<open>what the module variables are when a program returns normally\<close>


section \<open>Lists\<close>

lemma takeWhile_append_stop:
  "(\<forall>x \<in> set xs. P x) \<Longrightarrow> (ys = [] \<or> \<not> P (hd ys)) \<Longrightarrow> takeWhile P (xs @ ys) = xs"
  by (induction xs) (auto simp: takeWhile_eq_Nil_iff)

lemma dropWhile_append_stop:
  "(\<forall>x \<in> set xs. P x) \<Longrightarrow> (ys = [] \<or> \<not> P (hd ys)) \<Longrightarrow> dropWhile P (xs @ ys) = ys"
  by (induction xs) (auto simp: dropWhile_eq_self_iff)

lemma dropWhile_id: "(xs = [] \<or> \<not> P (hd xs)) \<Longrightarrow> dropWhile P xs = xs"
  by (auto simp: dropWhile_eq_self_iff)

lemma list_ex_left: "list_ex P xs \<Longrightarrow> list_ex P (xs @ ys)"
  by simp

lemma map_of_Some_split: "map_of xs k = Some v \<Longrightarrow> (k, v) \<in> set xs"
  by (rule map_of_SomeD)


section \<open>Association lists as Python dicts\<close>

text \<open>
  A \<^verbatim>\<open>dict\<close> keeps insertion order: assigning an existing key keeps its place, a new key goes
  to the end, and \<^verbatim>\<open>pop(key, None)\<close> removes it.
\<close>

fun dict_set :: "('k \<times> 'v) list \<Rightarrow> 'k \<Rightarrow> 'v \<Rightarrow> ('k \<times> 'v) list" where
  "dict_set [] k v = [(k, v)]"
| "dict_set ((k', v') # d) k v =
     (if k' = k then (k, v) # d else (k', v') # dict_set d k v)"

definition dict_pop :: "('k \<times> 'v) list \<Rightarrow> 'k \<Rightarrow> ('k \<times> 'v) list" where
  "dict_pop d k = filter (\<lambda>e. fst e \<noteq> k) d"

definition dict_update :: "('k \<times> 'v) list \<Rightarrow> ('k \<times> 'v) list \<Rightarrow> ('k \<times> 'v) list" where
  "dict_update d e = foldl (\<lambda>acc kv. dict_set acc (fst kv) (snd kv)) d e"

lemma map_of_dict_set [simp]: "map_of (dict_set d k v) = (map_of d)(k \<mapsto> v)"
  by (induction d k v rule: dict_set.induct) auto

lemma keys_dict_set: "set (map fst (dict_set d k v)) = insert k (set (map fst d))"
  by (induction d k v rule: dict_set.induct) auto

lemma distinct_dict_set: "distinct (map fst d) \<Longrightarrow> distinct (map fst (dict_set d k v))"
proof (induction d k v rule: dict_set.induct)
  case (2 k' v' d k v)
  then show ?case by (auto simp: keys_dict_set simp flip: set_map)
qed simp

lemma dict_set_new: "k \<notin> fst ` set d \<Longrightarrow> dict_set d k v = d @ [(k, v)]"
  by (induction d k v rule: dict_set.induct) auto

lemma map_of_dict_pop [simp]: "map_of (dict_pop d k) = (map_of d)(k := None)"
  by (induction d) (auto simp: dict_pop_def fun_eq_iff)

lemma distinct_dict_pop: "distinct (map fst d) \<Longrightarrow> distinct (map fst (dict_pop d k))"
  by (induction d) (auto simp: dict_pop_def)

lemma map_of_dict_update: "map_of (dict_update d e) = map_of d ++ map_of (rev e)"
proof (induction e arbitrary: d)
  case Nil
  show ?case by (simp add: dict_update_def)
next
  case (Cons a e)
  have "map_of (dict_update d (a # e)) = map_of (dict_update (dict_set d (fst a) (snd a)) e)"
    by (simp add: dict_update_def)
  also have "\<dots> = map_of d ++ map_of (rev (a # e))"
    by (simp only: Cons.IH) (cases a, auto simp: map_add_def fun_eq_iff split: option.splits)
  finally show ?case .
qed

lemma dict_update_new: "distinct (map fst (d @ e)) \<Longrightarrow> dict_update d e = d @ e"
proof (induction e arbitrary: d)
  case (Cons a e)
  have "dict_update d (a # e) = dict_update (dict_set d (fst a) (snd a)) e" by (simp add: dict_update_def)
  also have "\<dots> = dict_update (d @ [a]) e" using Cons.prems by (subst dict_set_new) auto
  also have "\<dots> = d @ a # e" using Cons.IH [of "d @ [a]"] Cons.prems by simp
  finally show ?case .
qed (simp add: dict_update_def)


section \<open>Strings\<close>

definition startswith :: "string \<Rightarrow> string \<Rightarrow> bool" where
  "startswith s p \<longleftrightarrow> take (length p) s = p"

definition endswith :: "string \<Rightarrow> string \<Rightarrow> bool" where
  "endswith s p \<longleftrightarrow> startswith (rev s) (rev p)"

text \<open>\<^verbatim>\<open>p in s\<close> for two strings.\<close>

fun contains :: "string \<Rightarrow> string \<Rightarrow> bool" where
  "contains s p = (startswith s p \<or> (case s of [] \<Rightarrow> False | _ # r \<Rightarrow> contains r p))"

declare contains.simps [simp del]

lemma startswith_iff: "startswith s p \<longleftrightarrow> (\<exists>r. s = p @ r)"
  unfolding startswith_def by (metis append_take_drop_id append_eq_conv_conj)

lemma startswith_append [simp]: "startswith (p @ r) p"
  by (auto simp: startswith_iff)

lemma startswith_code [py_simps]:
  "startswith s [] = True"
  "startswith [] (c # p) = False"
  "startswith (d # s) (c # p) = (d = c \<and> startswith s p)"
  by (auto simp: startswith_def)

lemma endswith_iff: "endswith s p \<longleftrightarrow> (\<exists>r. s = r @ p)"
proof -
  have "endswith s p \<longleftrightarrow> (\<exists>r. rev s = rev p @ r)"
    by (simp add: endswith_def startswith_iff)
  also have "\<dots> \<longleftrightarrow> (\<exists>r. s = rev r @ p)"
    by (metis rev_append rev_rev_ident)
  also have "\<dots> \<longleftrightarrow> (\<exists>r. s = r @ p)"
    by (metis rev_rev_ident)
  finally show ?thesis .
qed

lemma endswith_append [simp]: "endswith (r @ p) p"
  by (auto simp: endswith_iff)

lemma contains_iff: "contains s p \<longleftrightarrow> (\<exists>l r. s = l @ p @ r)"
proof (induction s)
  case Nil
  show ?case by (subst contains.simps) (auto simp: startswith_def)
next
  case (Cons c s)
  have "contains (c # s) p \<longleftrightarrow> startswith (c # s) p \<or> contains s p"
    by (subst contains.simps) simp
  also have "\<dots> \<longleftrightarrow> (\<exists>l r. c # s = l @ p @ r)"
    unfolding Cons.IH startswith_iff by (metis append_Cons append_Nil list.exhaust_sel list.sel(3))
  finally show ?case .
qed

lemma contains_append [intro]: "contains s p \<Longrightarrow> contains (l @ s @ r) p"
  unfolding contains_iff by (metis append.assoc)

definition lower_char :: "char \<Rightarrow> char" where
  "lower_char c = (let n = (of_char c :: nat) in
     if (65 \<le> n \<and> n \<le> 90) \<or> (192 \<le> n \<and> n \<le> 222 \<and> n \<noteq> 215) then char_of (n + 32) else c)"

definition lower :: "string \<Rightarrow> string" where
  "lower s = map lower_char s"

text \<open>The white space \<^verbatim>\<open>str.strip()\<close> removes, on the represented alphabet.\<close>

definition is_space :: "char \<Rightarrow> bool" where
  "is_space c \<longleftrightarrow> (of_char c :: nat) \<in> {9, 10, 11, 12, 13, 28, 29, 30, 31, 32, 133, 160}"

definition rstrip :: "string \<Rightarrow> string" where
  "rstrip s = rev (dropWhile is_space (rev s))"

definition strip :: "string \<Rightarrow> string" where
  "strip s = rstrip (dropWhile is_space s)"

text \<open>\<^verbatim>\<open>str.splitlines()\<close>: the line boundaries of the represented alphabet, CR LF counted once.\<close>

definition is_linebreak :: "char \<Rightarrow> bool" where
  "is_linebreak c \<longleftrightarrow> (of_char c :: nat) \<in> {10, 11, 12, 13, 28, 29, 30, 133}"

fun splitlines_aux :: "string \<Rightarrow> string \<Rightarrow> string list" where
  "splitlines_aux cur [] = (if cur = [] then [] else [rev cur])"
| "splitlines_aux cur (c # s) =
     (if is_linebreak c then
        rev cur # splitlines_aux []
          (if of_char c = (13::nat) \<and> s \<noteq> [] \<and> of_char (hd s) = (10::nat) then tl s else s)
      else splitlines_aux (c # cur) s)"

definition splitlines :: "string \<Rightarrow> string list" where
  "splitlines s = splitlines_aux [] s"

text \<open>\<^verbatim>\<open>s.split(c)\<close> for a one-character separator, and \<^verbatim>\<open>sep.join\<close>.\<close>

fun split_on :: "char \<Rightarrow> string \<Rightarrow> string list" where
  "split_on c [] = [[]]"
| "split_on c (x # xs) =
     (if x = c then [] # split_on c xs
      else (case split_on c xs of [] \<Rightarrow> [[x]] | p # ps \<Rightarrow> (x # p) # ps))"

fun join :: "string \<Rightarrow> string list \<Rightarrow> string" where
  "join sep [] = []"
| "join sep [x] = x"
| "join sep (x # y # xs) = x @ sep @ join sep (y # xs)"

lemma split_on_nonempty: "split_on c s \<noteq> []"
  by (induction c s rule: split_on.induct) (auto split: list.splits)

lemma join_split_on: "join [c] (split_on c s) = s"
proof (induction c s rule: split_on.induct)
  case (1 c)
  show ?case by simp
next
  case (2 c x xs)
  obtain p ps where ps: "split_on c xs = p # ps"
    using split_on_nonempty by (metis list.exhaust)
  show ?case
    using 2 ps by (cases "x = c"; cases ps) auto
qed

lemma split_on_no_sep: "p \<in> set (split_on c s) \<Longrightarrow> c \<notin> set p"
  by (induction c s arbitrary: p rule: split_on.induct) (fastforce split: if_splits list.splits)+


section \<open>Decimal numbers\<close>

definition digit :: "nat \<Rightarrow> char" where
  "digit n = char_of (48 + n)"

definition is_digit :: "char \<Rightarrow> bool" where
  "is_digit c \<longleftrightarrow> 48 \<le> (of_char c :: nat) \<and> (of_char c :: nat) \<le> 57"

definition digit_val :: "char \<Rightarrow> nat" where
  "digit_val c = of_char c - 48"

fun nat_str :: "nat \<Rightarrow> string" where
  "nat_str n = (if n < 10 then [digit n] else nat_str (n div 10) @ [digit (n mod 10)])"

declare nat_str.simps [simp del]

definition int_str :: "int \<Rightarrow> string" where
  "int_str i = (if i < 0 then ''-'' @ nat_str (nat (- i)) else nat_str (nat i))"

definition nat_val :: "string \<Rightarrow> nat" where
  "nat_val s = foldl (\<lambda>a c. 10 * a + digit_val c) 0 s"

lemma is_digit_digit [simp]: "n < 10 \<Longrightarrow> is_digit (digit n)"
  by (simp add: is_digit_def digit_def)

lemma digit_val_digit [simp]: "n < 10 \<Longrightarrow> digit_val (digit n) = n"
  by (simp add: digit_val_def digit_def)

lemma nat_str_digits: "c \<in> set (nat_str n) \<Longrightarrow> is_digit c"
proof (induction n arbitrary: c rule: nat_str.induct)
  case (1 n)
  then show ?case by (subst (asm) nat_str.simps) (auto split: if_splits)
qed

lemma nat_str_nonempty [simp]: "nat_str n \<noteq> []"
  by (subst nat_str.simps) simp

lemma nat_val_snoc: "nat_val (s @ [c]) = 10 * nat_val s + digit_val c"
  by (simp add: nat_val_def)

lemma nat_val_nat_str [simp]: "nat_val (nat_str n) = n"
proof (induction n rule: nat_str.induct)
  case (1 n)
  show ?case
  proof (cases "n < 10")
    case True
    then show ?thesis by (subst nat_str.simps) (simp add: nat_val_def)
  next
    case False
    with 1 show ?thesis by (subst nat_str.simps) (simp add: nat_val_snoc)
  qed
qed

lemma nat_str_no_leading_zero: "10 \<le> n \<or> n \<noteq> 0 \<Longrightarrow> hd (nat_str n) \<noteq> digit 0"
proof (induction n rule: nat_str.induct)
  case (1 n)
  show ?case
  proof (cases "n < 10")
    case True
    with 1 have "digit n \<noteq> digit 0"
      by (metis digit_val_digit zero_less_numeral not_less)
    with True show ?thesis by (subst nat_str.simps) simp
  next
    case False
    then have "n div 10 \<noteq> 0" by (simp add: div_eq_0_iff)
    with False 1 show ?thesis by (subst nat_str.simps) (simp add: hd_append)
  qed
qed

lemma nat_str_inject [simp]: "nat_str m = nat_str n \<longleftrightarrow> m = n"
  by (metis nat_val_nat_str)

text \<open>\<^verbatim>\<open>int(s)\<close> on a string: surrounding white space and a sign are accepted.\<close>

definition int_of_str :: "string \<Rightarrow> int option" where
  "int_of_str s = (let t = strip s in
     case t of
       [] \<Rightarrow> None
     | c # r \<Rightarrow>
         if c = CHR ''-'' then (if r \<noteq> [] \<and> list_all is_digit r then Some (- int (nat_val r)) else None)
         else if c = CHR ''+'' then (if r \<noteq> [] \<and> list_all is_digit r then Some (int (nat_val r)) else None)
         else if list_all is_digit t then Some (int (nat_val t)) else None)"

end
