(* ===== verification/PyValue.thy ===== *)
theory PyValue
  imports Prelude
begin

text \<open>
  Python values of the kind \<^verbatim>\<open>json.loads\<close> returns and the scripts build, the exceptions the
  modelled code can raise, and the expressions the scripts evaluate on such values:
  subscripts, \<^verbatim>\<open>.get\<close>, iteration, truth value and \<^verbatim>\<open>==\<close>. An expression that may raise
  has type \<open>exn + 'a\<close>, with \<open>Inl\<close> for the exception.

  A \<^verbatim>\<open>float\<close> is represented by the literal it was written with: no modelled expression
  computes with one.
\<close>

section \<open>Exceptions and values\<close>

datatype exn =
    RuntimeError string
  | AssertionError string
  | TimeoutError string
  | KeyError string
  | IndexError string
  | TypeError string
  | AttributeError string string      \<comment> \<open>type of the object, attribute\<close>
  | ValueError string
  | JSONDecodeError
  | StopIteration
  | CalledProcessError int
  | TimeoutExpired
  | OSError string
  | HTTPError int string              \<comment> \<open>status code, body\<close>
  | SystemExit string                 \<comment> \<open>not an \<^verbatim>\<open>Exception\<close>: \<^verbatim>\<open>except Exception\<close> lets it pass\<close>

datatype json =
    JNull
  | JBool bool
  | JInt int
  | JFloat string
  | JStr string
  | JList "json list"
  | JDict "(string \<times> json) list"

text \<open>
  \<^verbatim>\<open>str(e)\<close>; the message of \<^verbatim>\<open>KeyError\<close> is the \<^verbatim>\<open>repr\<close> of the key. Where the text is the
  library's own (decoding errors, process errors) only the class is kept.
\<close>

definition quoted :: "string \<Rightarrow> string" where
  "quoted s = CHR 0x27 # s @ [CHR 0x27]"

text \<open>
  \<^verbatim>\<open>repr\<close> of a string: double quotes when it has a single quote and no double one, the escapes of
  backslash, quote, tab and line ends, and \<^verbatim>\<open>\xNN\<close> for the other characters that do not print.
\<close>

definition repr_char :: "char \<Rightarrow> char \<Rightarrow> string" where
  "repr_char q c = (let n = (of_char c :: nat) in
     if c = q \<or> n = 92 then [CHR 0x5C, c]
     else if n = 9 then [CHR 0x5C, CHR ''t'']
     else if n = 10 then [CHR 0x5C, CHR ''n'']
     else if n = 13 then [CHR 0x5C, CHR ''r'']
     else if n < 32 \<or> (127 \<le> n \<and> n \<le> 160) \<or> n = 173 then
       [CHR 0x5C, CHR ''x'', ''0123456789abcdef'' ! (n div 16), ''0123456789abcdef'' ! (n mod 16)]
     else [c])"

definition py_repr :: "string \<Rightarrow> string" where
  "py_repr s = (let q = (if CHR 0x27 \<in> set s \<and> CHR 0x22 \<notin> set s then CHR 0x22 else CHR 0x27) in
     q # concat (map (repr_char q) s) @ [q])"

fun exn_str :: "exn \<Rightarrow> string" where
  "exn_str (RuntimeError m) = m"
| "exn_str (AssertionError m) = m"
| "exn_str (TimeoutError m) = m"
| "exn_str (KeyError k) = py_repr k"
| "exn_str (IndexError m) = m"
| "exn_str (TypeError m) = m"
| "exn_str (AttributeError t a) = quoted t @ '' object has no attribute '' @ quoted a"
| "exn_str (ValueError m) = m"
| "exn_str JSONDecodeError = ''JSONDecodeError''"
| "exn_str StopIteration = []"
| "exn_str (CalledProcessError n) = ''CalledProcessError''"
| "exn_str TimeoutExpired = ''TimeoutExpired''"
| "exn_str (OSError m) = m"
| "exn_str (HTTPError n b) = ''HTTP Error''"
| "exn_str (SystemExit m) = m"

fun type_name :: "json \<Rightarrow> string" where
  "type_name JNull = ''NoneType''"
| "type_name (JBool b) = ''bool''"
| "type_name (JInt i) = ''int''"
| "type_name (JFloat s) = ''float''"
| "type_name (JStr s) = ''str''"
| "type_name (JList xs) = ''list''"
| "type_name (JDict d) = ''dict''"

text \<open>A value is well formed when no dict in it has a key twice, as every Python dict.\<close>

fun wf_dicts :: "json \<Rightarrow> bool" where
  "wf_dicts (JList xs) = (\<forall>x \<in> set xs. wf_dicts x)"
| "wf_dicts (JDict d) = (distinct (map fst d) \<and> (\<forall>e \<in> set d. wf_dicts (snd e)))"
| "wf_dicts _ = True"


text \<open>\<^verbatim>\<open>repr(v)\<close> and \<^verbatim>\<open>str(v)\<close>, as f-strings print values.\<close>

fun jrepr :: "json \<Rightarrow> string" where
  "jrepr JNull = ''None''"
| "jrepr (JBool b) = (if b then ''True'' else ''False'')"
| "jrepr (JInt i) = int_str i"
| "jrepr (JFloat s) = s"
| "jrepr (JStr s) = py_repr s"
| "jrepr (JList xs) = ''['' @ join '', '' (map jrepr xs) @ '']''"
| "jrepr (JDict d) = ''{'' @ join '', '' (map (\<lambda>kv. py_repr (fst kv) @ '': '' @ jrepr (snd kv)) d) @ ''}''"

definition py_str :: "json \<Rightarrow> string" where
  "py_str v = (case v of JStr s \<Rightarrow> s | _ \<Rightarrow> jrepr v)"


section \<open>Expressions that may raise\<close>

definition bindE :: "'e + 'a \<Rightarrow> ('a \<Rightarrow> 'e + 'b) \<Rightarrow> 'e + 'b" where
  "bindE m f = (case m of Inl e \<Rightarrow> Inl e | Inr a \<Rightarrow> f a)"

lemma bindE_simps [simp, py_simps]:
  "bindE (Inl e) f = Inl e"
  "bindE (Inr a) f = f a"
  by (simp_all add: bindE_def)

lemma bindE_Inr_iff: "bindE m f = Inr b \<longleftrightarrow> (\<exists>a. m = Inr a \<and> f a = Inr b)"
  by (cases m) auto

text \<open>A list comprehension, the \<^verbatim>\<open>if\<close> of one, and \<^verbatim>\<open>any\<close>/\<^verbatim>\<open>all\<close> over a generator.\<close>

fun mapE :: "('a \<Rightarrow> 'e + 'b) \<Rightarrow> 'a list \<Rightarrow> 'e + 'b list" where
  "mapE f [] = Inr []"
| "mapE f (x # xs) = bindE (f x) (\<lambda>y. bindE (mapE f xs) (\<lambda>ys. Inr (y # ys)))"

fun filterE :: "('a \<Rightarrow> 'e + bool) \<Rightarrow> 'a list \<Rightarrow> 'e + 'a list" where
  "filterE p [] = Inr []"
| "filterE p (x # xs) =
     bindE (p x) (\<lambda>b. bindE (filterE p xs) (\<lambda>ys. Inr (if b then x # ys else ys)))"

fun anyE :: "('a \<Rightarrow> 'e + bool) \<Rightarrow> 'a list \<Rightarrow> 'e + bool" where
  "anyE p [] = Inr False"
| "anyE p (x # xs) = bindE (p x) (\<lambda>b. if b then Inr True else anyE p xs)"

fun everyE :: "('a \<Rightarrow> 'e + bool) \<Rightarrow> 'a list \<Rightarrow> 'e + bool" where
  "everyE p [] = Inr True"
| "everyE p (x # xs) = bindE (p x) (\<lambda>b. if b then everyE p xs else Inr False)"

text \<open>\<^verbatim>\<open>next(x for x in xs if p(x))\<close>.\<close>

fun nextE :: "('a \<Rightarrow> exn + bool) \<Rightarrow> 'a list \<Rightarrow> exn + 'a" where
  "nextE p [] = Inl StopIteration"
| "nextE p (x # xs) = bindE (p x) (\<lambda>b. if b then Inr x else nextE p xs)"

lemma mapE_Inr_iff: "mapE f xs = Inr ys \<longleftrightarrow> list_all2 (\<lambda>x y. f x = Inr y) xs ys"
  by (induction xs arbitrary: ys) (auto simp: bindE_Inr_iff list_all2_Cons1)

lemma mapE_cong [fundef_cong]: "xs = ys \<Longrightarrow> (\<And>x. x \<in> set ys \<Longrightarrow> f x = g x) \<Longrightarrow> mapE f xs = mapE g ys"
  by (induction ys arbitrary: xs) auto

lemma mapE_id: "(\<And>x. x \<in> set xs \<Longrightarrow> f x = Inr x) \<Longrightarrow> mapE f xs = Inr xs"
  by (induction xs) auto

lemma mapE_length: "mapE f xs = Inr ys \<Longrightarrow> length ys = length xs"
  by (simp add: mapE_Inr_iff list_all2_lengthD)

lemma mapE_pure: "mapE (\<lambda>x. Inr (f x)) xs = Inr (map f xs)"
  by (induction xs) auto

lemma filterE_Inr: "filterE p xs = Inr ys \<Longrightarrow> ys = filter (\<lambda>x. p x = Inr True) xs"
  by (induction xs arbitrary: ys) (auto simp: bindE_Inr_iff)

lemma anyE_True: "anyE p xs = Inr True \<Longrightarrow> \<exists>x \<in> set xs. p x = Inr True"
  by (induction xs) (auto simp: bindE_Inr_iff split: if_splits)

lemma everyE_True: "everyE p xs = Inr True \<longleftrightarrow> (\<forall>x \<in> set xs. p x = Inr True)"
  by (induction xs) (auto simp: bindE_Inr_iff)


section \<open>Subscripts, get and iteration\<close>

fun jsub :: "json \<Rightarrow> string \<Rightarrow> exn + json" where
  "jsub (JDict d) k = (case map_of d k of None \<Rightarrow> Inl (KeyError k) | Some v \<Rightarrow> Inr v)"
| "jsub (JList xs) k = Inl (TypeError ''list indices must be integers or slices, not str'')"
| "jsub (JStr s) k = Inl (TypeError (''string indices must be integers, not '' @ quoted ''str''))"
| "jsub v k = Inl (TypeError (quoted (type_name v) @ '' object is not subscriptable''))"

definition list_index :: "'a list \<Rightarrow> int \<Rightarrow> 'a option" where
  "list_index xs i = (let n = int (length xs); j = (if i < 0 then n + i else i) in
     if 0 \<le> j \<and> j < n then Some (xs ! nat j) else None)"

fun jidx :: "json \<Rightarrow> int \<Rightarrow> exn + json" where
  "jidx (JList xs) i =
     (case list_index xs i of None \<Rightarrow> Inl (IndexError ''list index out of range'') | Some v \<Rightarrow> Inr v)"
| "jidx (JStr s) i =
     (case list_index s i of None \<Rightarrow> Inl (IndexError ''string index out of range'') | Some c \<Rightarrow> Inr (JStr [c]))"
| "jidx (JDict d) i = Inl (KeyError (int_str i))"
| "jidx v i = Inl (TypeError (quoted (type_name v) @ '' object is not subscriptable''))"

fun jget :: "json \<Rightarrow> string \<Rightarrow> json \<Rightarrow> exn + json" where
  "jget (JDict d) k dflt = Inr (case map_of d k of None \<Rightarrow> dflt | Some v \<Rightarrow> v)"
| "jget v k dflt = Inl (AttributeError (type_name v) ''get'')"

fun jiter :: "json \<Rightarrow> exn + json list" where
  "jiter (JList xs) = Inr xs"
| "jiter (JDict d) = Inr (map (JStr \<circ> fst) d)"
| "jiter (JStr s) = Inr (map (\<lambda>c. JStr [c]) s)"
| "jiter v = Inl (TypeError (quoted (type_name v) @ '' object is not iterable''))"

fun jlen :: "json \<Rightarrow> exn + int" where
  "jlen (JList xs) = Inr (int (length xs))"
| "jlen (JDict d) = Inr (int (length d))"
| "jlen (JStr s) = Inr (int (length s))"
| "jlen v = Inl (TypeError (''object of type '' @ quoted (type_name v) @ '' has no len()''))"

text \<open>A chain of accesses \<^verbatim>\<open>v["a"].get("b", d)[0]\<close>, evaluated from the left.\<close>

datatype acc = Sub string | Idx int | Get string json

fun access :: "acc \<Rightarrow> json \<Rightarrow> exn + json" where
  "access (Sub k) v = jsub v k"
| "access (Idx i) v = jidx v i"
| "access (Get k d) v = jget v k d"

fun jpath :: "acc list \<Rightarrow> json \<Rightarrow> exn + json" where
  "jpath [] v = Inr v"
| "jpath (a # as) v = bindE (access a v) (jpath as)"

abbreviation get0 :: "string \<Rightarrow> acc" where
  "get0 k \<equiv> Get k JNull"                   \<comment> \<open>\<^verbatim>\<open>.get(k)\<close>\<close>

abbreviation emptyD :: json where
  "emptyD \<equiv> JDict []"

lemma jpath_append: "jpath (as @ bs) v = bindE (jpath as v) (jpath bs)"
  by (induction as arbitrary: v) (auto simp: bindE_def split: sum.splits)


section \<open>Truth value and equality\<close>

text \<open>A float literal is zero when its mantissa has no digit but zeros.\<close>

definition float_zero :: "string \<Rightarrow> bool" where
  "float_zero s \<longleftrightarrow>
     list_all (\<lambda>c. c = CHR ''0'' \<or> \<not> is_digit c) (takeWhile (\<lambda>c. c \<noteq> CHR ''e'' \<and> c \<noteq> CHR ''E'') s)
     \<and> (\<exists>c \<in> set s. is_digit c)"

fun truth :: "json \<Rightarrow> bool" where
  "truth JNull = False"
| "truth (JBool b) = b"
| "truth (JInt i) = (i \<noteq> 0)"
| "truth (JFloat s) = (\<not> float_zero s)"
| "truth (JStr s) = (s \<noteq> [])"
| "truth (JList xs) = (xs \<noteq> [])"
| "truth (JDict d) = (d \<noteq> [])"

text \<open>
  \<^verbatim>\<open>==\<close>: dicts compare without regard to order, and \<^verbatim>\<open>True == 1\<close>. Two floats are equal here
  when their literals are.
\<close>

function py_eq :: "json \<Rightarrow> json \<Rightarrow> bool" where
  "py_eq (JDict d) v =
     (case v of JDict e \<Rightarrow>
        length d = length e \<and>
        (\<forall>kv \<in> set d. case map_of e (fst kv) of None \<Rightarrow> False | Some w \<Rightarrow> py_eq (snd kv) w)
      | _ \<Rightarrow> False)"
| "py_eq (JList xs) v =
     (case v of JList ys \<Rightarrow> length xs = length ys \<and> (\<forall>xy \<in> set (zip xs ys). py_eq (fst xy) (snd xy))
      | _ \<Rightarrow> False)"
| "py_eq (JBool b) v =
     (case v of JBool c \<Rightarrow> b = c | JInt i \<Rightarrow> i = (if b then 1 else 0) | _ \<Rightarrow> False)"
| "py_eq (JInt i) v =
     (case v of JInt j \<Rightarrow> i = j | JBool c \<Rightarrow> i = (if c then 1 else 0) | _ \<Rightarrow> False)"
| "py_eq JNull v = (v = JNull)"
| "py_eq (JFloat s) v = (v = JFloat s)"
| "py_eq (JStr s) v = (v = JStr s)"
  by pat_completeness auto
termination
proof (relation "measure (size \<circ> fst)", goal_cases)
  case (2 d v e kv w)
  then have "size (snd kv) \<le> size_list (size_prod (\<lambda>x. 0) size) d"
    by (intro size_list_estimation') (auto simp: size_prod_simp)
  then show ?case by simp
next
  case (3 xs v ys xy)
  then have "fst xy \<in> set xs" by (metis prod.collapse set_zip_leftD)
  then have "size (fst xy) \<le> size_list size xs"
    by (intro size_list_estimation') auto
  then show ?case by simp
qed auto

lemma py_eq_JStr [simp]: "py_eq v (JStr s) \<longleftrightarrow> v = JStr s"
  by (cases v) auto

lemma py_eq_JNull [simp]: "py_eq v JNull \<longleftrightarrow> v = JNull"
  by (cases v) auto

lemma py_eq_refl: "wf_dicts v \<Longrightarrow> py_eq v v"
proof (induction v)
  case (JList xs)
  then show ?case by (auto simp: set_zip)
next
  case (JDict d)
  have "case map_of d (fst kv) of None \<Rightarrow> False | Some w \<Rightarrow> py_eq (snd kv) w" if kv: "kv \<in> set d" for kv
  proof -
    have "map_of d (fst kv) = Some (snd kv)"
      using JDict.prems kv by (simp add: map_of_eq_Some_iff)
    moreover have "py_eq (snd kv) (snd kv)"
      using JDict kv by (metis prod.collapse snds.intros wf_dicts.simps(2))
    ultimately show ?thesis by simp
  qed
  then show ?case by simp
qed auto

text \<open>\<^verbatim>\<open>x in v\<close> for a value \<^verbatim>\<open>v\<close>: membership in a list, a key of a dict, a substring.\<close>

fun jin :: "json \<Rightarrow> json \<Rightarrow> exn + bool" where
  "jin x (JList ys) = Inr (\<exists>y \<in> set ys. py_eq x y)"
| "jin x (JDict d) = (case x of JStr k \<Rightarrow> Inr (k \<in> fst ` set d) | _ \<Rightarrow> Inr False)"
| "jin x (JStr s) = (case x of JStr p \<Rightarrow> Inr (contains s p)
     | _ \<Rightarrow> Inl (TypeError (quoted ''in <string>'' @ '' requires string as left operand, not '' @ type_name x)))"
| "jin x v = Inl (TypeError (''argument of type '' @ quoted (type_name v) @ '' is not iterable''))"

text \<open>Expressions that need a string or an integer where the value may be anything.\<close>

fun jstr :: "json \<Rightarrow> exn + string" where
  "jstr (JStr s) = Inr s"
| "jstr v = Inl (TypeError (''expected str, not '' @ type_name v))"

text \<open>A string method \<^verbatim>\<open>v.m()\<close>: the string it works on, or the \<^verbatim>\<open>AttributeError\<close> of another type.\<close>

fun str_method :: "string \<Rightarrow> json \<Rightarrow> exn + string" where
  "str_method m (JStr s) = Inr s"
| "str_method m v = Inl (AttributeError (type_name v) m)"

definition jstartswith :: "json \<Rightarrow> string \<Rightarrow> exn + bool" where
  "jstartswith v p = bindE (str_method ''startswith'' v) (\<lambda>s. Inr (startswith s p))"

definition jendswith :: "json \<Rightarrow> string \<Rightarrow> exn + bool" where
  "jendswith v p = bindE (str_method ''endswith'' v) (\<lambda>s. Inr (endswith s p))"

lemma jstartswith_True: "jstartswith v p = Inr True \<longleftrightarrow> (\<exists>n. v = JStr n \<and> startswith n p)"
  by (cases v) (auto simp: jstartswith_def)

text \<open>Assignment \<^verbatim>\<open>v[k] = x\<close> and the path update \<^verbatim>\<open>v[a][b] = x\<close> used on parsed manifests.\<close>

fun jset :: "json \<Rightarrow> string \<Rightarrow> json \<Rightarrow> exn + json" where
  "jset (JDict d) k x = Inr (JDict (dict_set d k x))"
| "jset (JList xs) k x = Inl (TypeError ''list indices must be integers or slices, not str'')"
| "jset v k x = Inl (TypeError (quoted (type_name v) @ '' object does not support item assignment''))"

lemma jsub_jset [simp]: "jset v k x = Inr w \<Longrightarrow> jsub w k = Inr x"
  by (cases v) auto

lemma jsub_jset_other: "jset v k x = Inr w \<Longrightarrow> k' \<noteq> k \<Longrightarrow> jsub w k' = jsub v k'"
  by (cases v) auto

text \<open>\<^verbatim>\<open>v.pop(k, None)\<close>.\<close>

fun jpop :: "string \<Rightarrow> json \<Rightarrow> exn + json" where
  "jpop k (JDict d) = Inr (JDict (dict_pop d k))"
| "jpop k (JList xs) = Inl (TypeError ''pop expected at most 1 argument, got 2'')"
| "jpop k v = Inl (AttributeError (type_name v) ''pop'')"

text \<open>
  Updates deep in a parsed value: \<open>jupd path f v\<close> replaces the value at \<open>path\<close>, as assignments through
  the references \<^verbatim>\<open>d["a"]["b"][0]\<close> do.
\<close>

fun replace_at :: "acc \<Rightarrow> json \<Rightarrow> json \<Rightarrow> json" where
  "replace_at (Sub k) (JDict d) w = JDict (dict_set d k w)"
| "replace_at (Idx i) (JList xs) w = JList (xs[nat (if i < 0 then int (length xs) + i else i) := w])"
| "replace_at a v w = v"

fun jupd :: "acc list \<Rightarrow> (json \<Rightarrow> exn + json) \<Rightarrow> json \<Rightarrow> exn + json" where
  "jupd [] f v = f v"
| "jupd (a # as) f v = bindE (access a v) (\<lambda>w. bindE (jupd as f w) (\<lambda>w'. Inr (replace_at a v w')))"

text \<open>Operators on conditions that may raise: \<^verbatim>\<open>a and b\<close>, \<^verbatim>\<open>a == b\<close>.\<close>

definition andE :: "'e + bool \<Rightarrow> 'e + bool \<Rightarrow> 'e + bool" where
  "andE a b = bindE a (\<lambda>x. if x then b else Inr False)"

definition eqE :: "'e + json \<Rightarrow> json \<Rightarrow> 'e + bool" where
  "eqE m v = bindE m (\<lambda>x. Inr (py_eq x v))"

text \<open>The set comprehension \<^verbatim>\<open>{f(x) for x in xs}\<close>, as the list of its elements; lists and dicts are not hashable.\<close>

definition set_add :: "json \<Rightarrow> json list \<Rightarrow> exn + json list" where
  "set_add v s = (case v of
       JList _ \<Rightarrow> Inl (TypeError (''unhashable type: '' @ quoted ''list''))
     | JDict _ \<Rightarrow> Inl (TypeError (''unhashable type: '' @ quoted ''dict''))
     | _ \<Rightarrow> Inr (if list_ex (py_eq v) s then s else s @ [v]))"

fun set_of :: "('a \<Rightarrow> exn + json) \<Rightarrow> json list \<Rightarrow> 'a list \<Rightarrow> exn + json list" where
  "set_of f s [] = Inr s"
| "set_of f s (x # xs) = bindE (f x) (\<lambda>v. bindE (set_add v s) (\<lambda>s'. set_of f s' xs))"

text \<open>\<^verbatim>\<open>next((x for x in xs if p(x)), d)\<close>, \<^verbatim>\<open>xs.append(x)\<close>, and the part of a string after the first separator.\<close>

fun next_or :: "'a \<Rightarrow> ('a \<Rightarrow> exn + bool) \<Rightarrow> 'a list \<Rightarrow> exn + 'a" where
  "next_or d p [] = Inr d"
| "next_or d p (x # xs) = bindE (p x) (\<lambda>b. if b then Inr x else next_or d p xs)"

fun jappend :: "json \<Rightarrow> json \<Rightarrow> exn + json" where
  "jappend x (JList xs) = Inr (JList (xs @ [x]))"
| "jappend x v = Inl (AttributeError (type_name v) ''append'')"

fun after_sep :: "string \<Rightarrow> string \<Rightarrow> string option" where
  "after_sep sep [] = None"
| "after_sep sep (c # s) = (if startswith (c # s) sep then Some (drop (length sep) (c # s)) else after_sep sep s)"

text \<open>\<^verbatim>\<open>not c\<close> of a condition that may raise, and \<^verbatim>\<open>v in s\<close> for a set, which hashes \<open>v\<close>.\<close>

definition notE :: "exn + bool \<Rightarrow> exn + bool" where
  "notE r = bindE r (\<lambda>b. Inr (\<not> b))"

definition in_setE :: "json \<Rightarrow> json list \<Rightarrow> exn + bool" where
  "in_setE v xs = bindE (set_add v xs) (\<lambda>_. Inr (list_ex (py_eq v) xs))"

end
