(* ===== verification/JsonCodec.thy ===== *)
theory JsonCodec
  imports PyValue
begin

text \<open>
  The standard library's \<^verbatim>\<open>json.dumps\<close> and \<^verbatim>\<open>json.loads\<close> as the scripts use them:
  \<^verbatim>\<open>dumps(v)\<close>, \<^verbatim>\<open>dumps(v, indent=2)\<close> and \<^verbatim>\<open>dumps(v, ensure_ascii=False, indent=2)\<close> on one
  side, a recursive-descent parser of the grammar Python accepts on the other. A \<^verbatim>\<open>\u\<close> escape
  of a code point above 255 is outside the represented alphabet and is refused as undecodable.

  The parser's fuel is twice the length of the text plus one; \<open>pval_fuel\<close> shows that more fuel gives
  the same result, so the bound never decides. \<open>loads_dumps\<close> is the round trip for every layout.
\<close>

section \<open>Printing\<close>

definition hexd :: "nat \<Rightarrow> char" where
  "hexd n = (if n < 10 then digit n else char_of (87 + n))"

text \<open>Escapes of one character; \<open>asc\<close> is \<^verbatim>\<open>ensure_ascii\<close>.\<close>

definition esc :: "bool \<Rightarrow> char \<Rightarrow> string" where
  "esc asc c = (let n = (of_char c :: nat) in
     if n = 34 then [CHR 0x5C, CHR 0x22]
     else if n = 92 then [CHR 0x5C, CHR 0x5C]
     else if n = 10 then [CHR 0x5C, CHR ''n'']
     else if n = 13 then [CHR 0x5C, CHR ''r'']
     else if n = 12 then [CHR 0x5C, CHR ''f'']
     else if n = 9 then [CHR 0x5C, CHR ''t'']
     else if n = 8 then [CHR 0x5C, CHR ''b'']
     else if n < 32 \<or> (asc \<and> 126 < n)
       then [CHR 0x5C, CHR ''u'', CHR ''0'', CHR ''0'', hexd (n div 16), hexd (n mod 16)]
     else [c])"

definition pp_str :: "bool \<Rightarrow> string \<Rightarrow> string" where
  "pp_str asc s = CHR 0x22 # concat (map (esc asc) s) @ [CHR 0x22]"

definition nl :: "nat option \<Rightarrow> nat \<Rightarrow> string" where
  "nl ind l = (case ind of None \<Rightarrow> [] | Some k \<Rightarrow> CHR 0x0A # replicate (k * l) (CHR '' ''))"

definition item_sep :: "nat option \<Rightarrow> nat \<Rightarrow> string" where
  "item_sep ind l = (case ind of None \<Rightarrow> '', '' | Some k \<Rightarrow> CHR '','' # nl ind l)"

fun pp :: "bool \<Rightarrow> nat option \<Rightarrow> nat \<Rightarrow> json \<Rightarrow> string" where
  "pp asc ind l JNull = ''null''"
| "pp asc ind l (JBool b) = (if b then ''true'' else ''false'')"
| "pp asc ind l (JInt i) = int_str i"
| "pp asc ind l (JFloat s) = s"
| "pp asc ind l (JStr s) = pp_str asc s"
| "pp asc ind l (JList xs) = (if xs = [] then ''[]'' else
     CHR ''['' # nl ind (Suc l) @ join (item_sep ind (Suc l)) (map (pp asc ind (Suc l)) xs)
     @ nl ind l @ [CHR '']''])"
| "pp asc ind l (JDict d) = (if d = [] then ''{}'' else
     CHR ''{'' # nl ind (Suc l)
     @ join (item_sep ind (Suc l))
         (map (\<lambda>kv. pp_str asc (fst kv) @ '': '' @ pp asc ind (Suc l) (snd kv)) d)
     @ nl ind l @ [CHR ''}''])"

definition dumps :: "json \<Rightarrow> string" where
  "dumps v = pp True None 0 v"

definition dumps_indent :: "json \<Rightarrow> string" where
  "dumps_indent v = pp True (Some 2) 0 v"          \<comment> \<open>\<^verbatim>\<open>json.dumps(v, indent=2)\<close>\<close>

definition dumps_raw :: "json \<Rightarrow> string" where
  "dumps_raw v = pp False None 0 v"                \<comment> \<open>\<^verbatim>\<open>json.dumps(v, ensure_ascii=False)\<close>\<close>

definition dumps_raw_indent :: "json \<Rightarrow> string" where
  "dumps_raw_indent v = pp False (Some 2) 0 v"     \<comment> \<open>\<^verbatim>\<open>json.dumps(v, ensure_ascii=False, indent=2)\<close>\<close>


section \<open>Parsing\<close>

definition is_ws :: "char \<Rightarrow> bool" where
  "is_ws c \<longleftrightarrow> (of_char c :: nat) \<in> {9, 10, 13, 32}"

abbreviation skip_ws :: "string \<Rightarrow> string" where
  "skip_ws \<equiv> dropWhile is_ws"

definition hex_val :: "char \<Rightarrow> nat option" where
  "hex_val c = (let n = (of_char c :: nat) in
     if 48 \<le> n \<and> n \<le> 57 then Some (n - 48)
     else if 97 \<le> n \<and> n \<le> 102 then Some (n - 87)
     else if 65 \<le> n \<and> n \<le> 70 then Some (n - 55) else None)"

definition unesc :: "char \<Rightarrow> char option" where
  "unesc c = (let n = (of_char c :: nat) in
     if n \<in> {34, 92, 47} then Some c
     else if n = 110 then Some (CHR 0x0A) else if n = 114 then Some (CHR 0x0D)
     else if n = 102 then Some (CHR 0x0C) else if n = 116 then Some (CHR 0x09)
     else if n = 98 then Some (CHR 0x08) else None)"

definition hex4 :: "char \<Rightarrow> char \<Rightarrow> char \<Rightarrow> char \<Rightarrow> nat option" where
  "hex4 a b c d = (case (hex_val a, hex_val b, hex_val c, hex_val d) of
     (Some w, Some x, Some y, Some z) \<Rightarrow> Some (4096 * w + 256 * x + 16 * y + z) | _ \<Rightarrow> None)"

text \<open>A string after its opening quote.\<close>

fun pstr :: "string \<Rightarrow> (string \<times> string) option" where
  "pstr [] = None"
| "pstr (c # cs) =
     (if c = CHR 0x22 then Some ([], cs)
      else if c = CHR 0x5C then
        (case cs of
           [] \<Rightarrow> None
         | e # ds \<Rightarrow>
             if e = CHR ''u'' then
               (case ds of
                  h1 # h2 # h3 # h4 # es \<Rightarrow>
                    (case hex4 h1 h2 h3 h4 of
                       None \<Rightarrow> None
                     | Some n \<Rightarrow> if n < 256 then map_option (\<lambda>(x, r). (char_of n # x, r)) (pstr es) else None)
                | _ \<Rightarrow> None)
             else (case unesc e of
                     None \<Rightarrow> None
                   | Some x \<Rightarrow> map_option (\<lambda>(y, r). (x # y, r)) (pstr ds)))
      else if (of_char c :: nat) < 32 then None
      else map_option (\<lambda>(x, r). (c # x, r)) (pstr cs))"

definition scan_int :: "string \<Rightarrow> (string \<times> string) option" where
  "scan_int s = (case s of
     [] \<Rightarrow> None
   | c # cs \<Rightarrow> if c = CHR ''0'' then Some ([c], cs)
              else if is_digit c then Some (takeWhile is_digit s, dropWhile is_digit s) else None)"

definition scan_frac :: "string \<Rightarrow> string \<times> string" where
  "scan_frac s = (case s of
     c # d # r \<Rightarrow> if c = CHR ''.'' \<and> is_digit d
       then (c # takeWhile is_digit (d # r), dropWhile is_digit (d # r)) else ([], s)
   | _ \<Rightarrow> ([], s))"

definition scan_sign :: "string \<Rightarrow> string \<times> string" where
  "scan_sign s = (case s of
     c # r \<Rightarrow> if c = CHR ''+'' \<or> c = CHR ''-'' then ([c], r) else ([], s) | [] \<Rightarrow> ([], []))"

definition scan_exp :: "string \<Rightarrow> string \<times> string" where
  "scan_exp s = (case s of
     [] \<Rightarrow> ([], [])
   | c # r \<Rightarrow>
       if c = CHR ''e'' \<or> c = CHR ''E'' then
         (case scan_sign r of (sg, t) \<Rightarrow>
            if takeWhile is_digit t = [] then ([], s)
            else (c # sg @ takeWhile is_digit t, dropWhile is_digit t))
       else ([], s))"

definition pnum :: "string \<Rightarrow> (json \<times> string) option" where
  "pnum s =
     (let neg = (s \<noteq> [] \<and> hd s = CHR ''-''); s1 = (if neg then tl s else s) in
      case scan_int s1 of
        None \<Rightarrow> None
      | Some (ip, s2) \<Rightarrow>
          (case scan_frac s2 of (fr, s3) \<Rightarrow>
          (case scan_exp s3 of (ex, s4) \<Rightarrow>
            Some (if fr = [] \<and> ex = []
                    then JInt (if neg then - int (nat_val ip) else int (nat_val ip))
                    else JFloat ((if neg then ''-'' else []) @ ip @ fr @ ex), s4))))"

fun strip_prefix :: "string \<Rightarrow> string \<Rightarrow> string option" where
  "strip_prefix [] s = Some s"
| "strip_prefix (c # p) [] = None"
| "strip_prefix (c # p) (d # s) = (if c = d then strip_prefix p s else None)"

fun plits :: "(string \<times> json) list \<Rightarrow> string \<Rightarrow> (json \<times> string) option" where
  "plits [] s = pnum s"
| "plits ((t, v) # ts) s = (case strip_prefix t s of Some r \<Rightarrow> Some (v, r) | None \<Rightarrow> plits ts s)"

definition literals :: "(string \<times> json) list" where
  "literals = [(''null'', JNull), (''true'', JBool True), (''false'', JBool False),
     (''NaN'', JFloat ''NaN''), (''Infinity'', JFloat ''Infinity''), (''-Infinity'', JFloat ''-Infinity'')]"

fun pval :: "nat \<Rightarrow> string \<Rightarrow> (json \<times> string) option"
  and pelems :: "nat \<Rightarrow> json list \<Rightarrow> string \<Rightarrow> (json \<times> string) option"
  and pmembers :: "nat \<Rightarrow> (string \<times> json) list \<Rightarrow> string \<Rightarrow> (json \<times> string) option" where
  "pval 0 s = None"
| "pval (Suc f) s =
     (case s of
        [] \<Rightarrow> None
      | c # cs \<Rightarrow>
          if c = CHR 0x22 then map_option (\<lambda>(x, r). (JStr x, r)) (pstr cs)
          else if c = CHR ''{'' then
            (case skip_ws cs of
               [] \<Rightarrow> None
             | d # ds \<Rightarrow> if d = CHR ''}'' then Some (JDict [], ds) else pmembers f [] (d # ds))
          else if c = CHR ''['' then
            (case skip_ws cs of
               [] \<Rightarrow> None
             | d # ds \<Rightarrow> if d = CHR '']'' then Some (JList [], ds) else pelems f [] (d # ds))
          else plits literals s)"
| "pelems 0 acc s = None"
| "pelems (Suc f) acc s =
     (case pval f s of
        None \<Rightarrow> None
      | Some (v, r) \<Rightarrow>
          (case skip_ws r of
             [] \<Rightarrow> None
           | c # cs \<Rightarrow> if c = CHR '']'' then Some (JList (acc @ [v]), cs)
                      else if c = CHR '','' then pelems f (acc @ [v]) (skip_ws cs) else None))"
| "pmembers 0 acc s = None"
| "pmembers (Suc f) acc s =
     (case s of
        [] \<Rightarrow> None
      | q # s1 \<Rightarrow>
        if q \<noteq> CHR 0x22 then None else
        (case pstr s1 of
           None \<Rightarrow> None
         | Some (k, s2) \<Rightarrow>
          (case skip_ws s2 of
             [] \<Rightarrow> None
           | c # s3 \<Rightarrow>
             if c \<noteq> CHR '':'' then None else
             (case pval f (skip_ws s3) of
                None \<Rightarrow> None
              | Some (v, r) \<Rightarrow>
                (case skip_ws r of
                   [] \<Rightarrow> None
                 | e # es \<Rightarrow> if e = CHR ''}'' then Some (JDict (dict_set acc k v), es)
                            else if e = CHR '','' then pmembers f (dict_set acc k v) (skip_ws es)
                            else None)))))"

definition loads :: "string \<Rightarrow> exn + json" where
  "loads s =
     (case pval (Suc (2 * length s)) (skip_ws s) of
        Some (v, r) \<Rightarrow> if skip_ws r = [] then Inr v else Inl JSONDecodeError
      | None \<Rightarrow> Inl JSONDecodeError)"

text \<open>The values \<^verbatim>\<open>dumps\<close> and \<^verbatim>\<open>loads\<close> agree on: real dicts, and floats written as JSON numbers.\<close>

fun wf_json :: "json \<Rightarrow> bool" where
  "wf_json (JFloat s) = (pnum s = Some (JFloat s, []))"
| "wf_json (JList xs) = (\<forall>x \<in> set xs. wf_json x)"
| "wf_json (JDict d) = (distinct (map fst d) \<and> (\<forall>e \<in> set d. wf_json (snd e)))"
| "wf_json _ = True"


section \<open>Round trip\<close>

text \<open>A number ends where its text is followed by none of the characters a number can go on with.\<close>

definition num_end :: "string \<Rightarrow> bool" where
  "num_end r \<longleftrightarrow> r = [] \<or> (\<not> is_digit (hd r) \<and> hd r \<notin> set ''.eE+-'')"

lemma num_end_stop: "num_end r \<Longrightarrow> r = [] \<or> \<not> is_digit (hd r)"
  by (auto simp: num_end_def)

lemma takeWhile_num_end:
  assumes "num_end r"
  shows "takeWhile is_digit (s @ r) = takeWhile is_digit s"
    and "dropWhile is_digit (s @ r) = dropWhile is_digit s @ r"
proof -
  have "takeWhile is_digit (s @ r) = takeWhile is_digit s \<and> dropWhile is_digit (s @ r) = dropWhile is_digit s @ r"
    using num_end_stop [OF assms]
    by (induction s) (auto simp: takeWhile_eq_Nil_iff dropWhile_id)
  then show "takeWhile is_digit (s @ r) = takeWhile is_digit s"
    and "dropWhile is_digit (s @ r) = dropWhile is_digit s @ r" by auto
qed

lemma scan_int_append: "scan_int s = Some (ip, t) \<Longrightarrow> num_end r \<Longrightarrow> scan_int (s @ r) = Some (ip, t @ r)"
  by (auto simp: scan_int_def takeWhile_num_end dest: takeWhile_num_end [of r "tl s"]
      split: list.splits if_splits)

lemma scan_frac_append: "num_end r \<Longrightarrow> scan_frac (s @ r) = (fst (scan_frac s), snd (scan_frac s) @ r)"
  by (cases s; cases "tl s"; cases r)
     (auto simp: scan_frac_def takeWhile_num_end num_end_def dest: takeWhile_num_end split: list.splits)

lemma scan_sign_append: "num_end r \<Longrightarrow> scan_sign (s @ r) = (fst (scan_sign s), snd (scan_sign s) @ r)"
  by (cases s; cases r) (auto simp: scan_sign_def num_end_def)

lemma scan_exp_append: "num_end r \<Longrightarrow> scan_exp (s @ r) = (fst (scan_exp s), snd (scan_exp s) @ r)"
proof (cases s)
  case Nil
  assume "num_end r"
  with Nil show ?thesis by (cases r) (auto simp: scan_exp_def num_end_def)
next
  case (Cons c t)
  assume r: "num_end r"
  show ?thesis
    using r Cons scan_sign_append [OF r, of t] takeWhile_num_end [OF r]
    by (auto simp: scan_exp_def split: prod.splits)
qed

lemma pnum_append:
  assumes "pnum s = Some (v, t)" and "num_end r" and "s \<noteq> []"
  shows "pnum (s @ r) = Some (v, t @ r)"
proof -
  obtain ip s2 where ip: "scan_int (if hd s = CHR ''-'' then tl s else s) = Some (ip, s2)"
    using assms(1,3) by (auto simp: pnum_def Let_def split: option.splits if_splits)
  have eq: "(if hd (s @ r) = CHR ''-'' then tl (s @ r) else s @ r) =
      (if hd s = CHR ''-'' then tl s else s) @ r"
    using assms(3) by simp
  show ?thesis
    using assms(1,3) ip scan_int_append [OF ip assms(2)]
    by (auto simp: pnum_def Let_def scan_frac_append [OF assms(2)] scan_exp_append [OF assms(2)]
        split: prod.splits if_splits)
qed

lemma scan_frac_num_end: "num_end r \<Longrightarrow> scan_frac r = ([], r)"
  by (auto simp: scan_frac_def num_end_def split: list.splits)

lemma scan_exp_num_end: "num_end r \<Longrightarrow> scan_exp r = ([], r)"
  by (auto simp: scan_exp_def num_end_def split: list.splits)

lemma scan_int_nat_str:
  assumes "num_end r"
  shows "scan_int (nat_str n @ r) = Some (nat_str n, r)"
proof -
  have stop: "r = [] \<or> \<not> is_digit (hd r)" by (rule num_end_stop [OF assms])
  have digs: "\<forall>c \<in> set (nat_str n). is_digit c" using nat_str_digits by auto
  obtain c cs where n: "nat_str n = c # cs" by (cases "nat_str n") auto
  have z: "(CHR ''0'') = digit 0" by code_simp
  show ?thesis
  proof (cases "c = digit 0")
    case True
    then have "n = 0" using nat_str_no_leading_zero [of n] n by fastforce
    then have "nat_str n = [digit 0]" by (subst nat_str.simps) simp
    then show ?thesis by (simp add: scan_int_def z)
  next
    case False
    then show ?thesis
      using n digs takeWhile_append_stop [OF digs stop] dropWhile_append_stop [OF digs stop]
      by (simp add: scan_int_def z)
  qed
qed

lemma digit_not_minus: "is_digit c \<Longrightarrow> c \<noteq> CHR ''-''"
  by (auto simp: is_digit_def)

lemma pnum_int_str: "num_end r \<Longrightarrow> pnum (int_str i @ r) = Some (JInt i, r)"
proof (cases "i < 0")
  case True
  assume "num_end r"
  with True show ?thesis
    by (simp add: pnum_def int_str_def Let_def scan_int_nat_str scan_frac_num_end scan_exp_num_end)
next
  case False
  assume r: "num_end r"
  obtain c cs where n: "nat_str (nat i) = c # cs" by (cases "nat_str (nat i)") auto
  then have "c \<noteq> CHR ''-''" using nat_str_digits [of c "nat i"] digit_not_minus by auto
  with False n r scan_int_nat_str [OF r, of "nat i"] show ?thesis
    by (auto simp: pnum_def int_str_def Let_def scan_frac_num_end scan_exp_num_end)
       (metis int_nat_eq nat_val_nat_str not_less)
qed

subsection \<open>Strings\<close>

lemma hex_val_hexd: "n < 16 \<Longrightarrow> hex_val (hexd n) = Some n"
  by (auto simp: hex_val_def hexd_def digit_def Let_def)

lemma hex4_escape: "n < 256 \<Longrightarrow> hex4 (CHR ''0'') (CHR ''0'') (hexd (n div 16)) (hexd (n mod 16)) = Some n"
proof -
  assume n: "n < 256"
  have "hex_val (CHR ''0'') = Some 0" by (simp add: hex_val_def)
  moreover have "hex_val (hexd (n div 16)) = Some (n div 16)"
    using n by (intro hex_val_hexd) auto
  moreover have "hex_val (hexd (n mod 16)) = Some (n mod 16)"
    by (intro hex_val_hexd) auto
  ultimately show ?thesis by (simp add: hex4_def)
qed

lemma pstr_escaped:
  "unesc e = Some c \<Longrightarrow> e \<noteq> CHR ''u'' \<Longrightarrow>
     pstr (CHR 0x5C # e # t) = map_option (\<lambda>(x, r). (c # x, r)) (pstr t)"
  by simp

lemma pstr_esc: "pstr (esc asc c @ t) = map_option (\<lambda>(x, r). (c # x, r)) (pstr t)"
proof -
  let ?n = "of_char c :: nat"
  consider (named) e where "esc asc c = [CHR 0x5C, e]" "unesc e = Some c" "e \<noteq> CHR ''u''"
    | (hex) "esc asc c = [CHR 0x5C, CHR ''u'', CHR ''0'', CHR ''0'', hexd (?n div 16), hexd (?n mod 16)]"
    | (plain) "esc asc c = [c]" "c \<noteq> CHR 0x22" "c \<noteq> CHR 0x5C" "\<not> ?n < 32"
  proof -
    have d: "(of_char d :: nat) = ?n \<Longrightarrow> c = d" for d by (metis of_char_eq_iff)
    have "c = CHR 0x22 \<or> c = CHR 0x5C \<or> c = CHR 0x0A \<or> c = CHR 0x0D \<or> c = CHR 0x0C \<or>
        c = CHR 0x09 \<or> c = CHR 0x08 \<or> ?n \<notin> {34, 92, 10, 13, 12, 9, 8}"
      using d [of "CHR 0x22"] d [of "CHR 0x5C"] d [of "CHR 0x0A"] d [of "CHR 0x0D"]
        d [of "CHR 0x0C"] d [of "CHR 0x09"] d [of "CHR 0x08"] by force
    then consider (special) "c \<in> {CHR 0x22, CHR 0x5C, CHR 0x0A, CHR 0x0D, CHR 0x0C, CHR 0x09, CHR 0x08}"
      | (coded) "?n \<notin> {34, 92, 10, 13, 12, 9, 8}" "?n < 32 \<or> (asc \<and> 126 < ?n)"
      | (kept) "?n \<notin> {34, 92, 10, 13, 12, 9, 8}" "\<not> (?n < 32 \<or> (asc \<and> 126 < ?n))"
      by auto
    then show ?thesis
    proof cases
      case special
      then show ?thesis using named by (auto simp: esc_def unesc_def)
    next
      case coded
      then show ?thesis using hex by (simp add: esc_def Let_def)
    next
      case kept
      then have "c \<noteq> CHR 0x22" "c \<noteq> CHR 0x5C" by auto
      with kept show ?thesis using plain by (auto simp: esc_def Let_def)
    qed
  qed
  then show ?thesis
  proof cases
    case named
    then have "esc asc c @ t = CHR 0x5C # e # t" by simp
    with pstr_escaped [OF named(2,3)] show ?thesis by (simp only:)
  next
    case hex
    have "pstr (esc asc c @ t) =
        (case hex4 (CHR ''0'') (CHR ''0'') (hexd (?n div 16)) (hexd (?n mod 16)) of None \<Rightarrow> None
         | Some n \<Rightarrow> if n < 256 then map_option (\<lambda>(x, r). (char_of n # x, r)) (pstr t) else None)"
      by (simp add: hex)
    then show ?thesis by (simp add: hex4_escape)
  next
    case plain
    then show ?thesis by simp
  qed
qed

lemma pstr_pp: "pstr (concat (map (esc asc) s) @ CHR 0x22 # r) = Some (s, r)"
  by (induction s) (simp_all add: pstr_esc)

subsection \<open>Values\<close>

text \<open>The first character of a printed value is no white space and closes nothing.\<close>

definition val_start :: "string \<Rightarrow> bool" where
  "val_start s \<longleftrightarrow> s \<noteq> [] \<and> \<not> is_ws (hd s) \<and> hd s \<noteq> CHR '']'' \<and> hd s \<noteq> CHR ''}''"

lemma digit_start: "is_digit c \<Longrightarrow> \<not> is_ws c \<and> c \<noteq> CHR '']'' \<and> c \<noteq> CHR ''}'' \<and>
    c \<noteq> CHR 0x22 \<and> c \<noteq> CHR ''{'' \<and> c \<noteq> CHR ''['' \<and> c \<noteq> CHR ''n'' \<and> c \<noteq> CHR ''t'' \<and> c \<noteq> CHR ''f''
    \<and> c \<noteq> CHR ''N'' \<and> c \<noteq> CHR ''I'' \<and> c \<noteq> CHR ''-''"
  by (auto simp: is_digit_def is_ws_def)

lemma pnum_start:
  assumes "pnum s = Some (v, r)"
  shows "s \<noteq> [] \<and> (is_digit (hd s) \<or> (hd s = CHR ''-'' \<and> tl s \<noteq> [] \<and> is_digit (hd (tl s))))"
proof -
  have d0: "is_digit (CHR ''0'')" by (simp add: is_digit_def)
  show ?thesis
    using assms d0
    by (cases s; cases "tl s") (auto simp: pnum_def scan_int_def Let_def split: if_splits option.splits)
qed

lemma pnum_val_start: "pnum s = Some (v, r) \<Longrightarrow> val_start s"
  using pnum_start [of s v r] digit_start [of "hd s"] by (auto simp: val_start_def is_ws_def)

text \<open>Text that starts a number starts none of the other literals.\<close>

lemma plits_pnum:
  assumes "pnum s = Some (v, r)"
  shows "plits literals s = pnum s"
proof -
  obtain c t where s: "s = c # t" and c: "is_digit c \<or> (c = CHR ''-'' \<and> t \<noteq> [] \<and> is_digit (hd t))"
    using pnum_start [OF assms] by (cases s) auto
  show ?thesis
  proof (cases "is_digit c")
    case True
    then show ?thesis using digit_start [OF True] by (auto simp: s literals_def)
  next
    case False
    with c obtain d u where "c = CHR ''-''" "t = d # u" "is_digit d" by (cases t) auto
    then show ?thesis using digit_start [of d] by (auto simp: s literals_def)
  qed
qed

lemma pp_val_start: "wf_json v \<Longrightarrow> val_start (pp asc ind l v)"
proof (cases v)
  case (JInt i)
  have "pnum (int_str i @ []) = Some (JInt i, [])" by (rule pnum_int_str) (simp add: num_end_def)
  then show ?thesis using JInt pnum_val_start by fastforce
next
  case (JFloat s)
  assume "wf_json v"
  then show ?thesis using JFloat pnum_val_start by auto
qed (auto simp: val_start_def is_ws_def pp_str_def)

lemma skip_ws_nl [simp]: "skip_ws (nl ind l @ s) = skip_ws s"
proof -
  have "\<forall>c \<in> set (nl ind l). is_ws c"
    by (auto simp: nl_def is_ws_def split: option.splits)
  then show ?thesis by (simp add: dropWhile_append2)
qed

lemma skip_ws_start [simp]: "val_start s \<Longrightarrow> skip_ws (s @ r) = s @ r"
  by (rule dropWhile_id) (auto simp: val_start_def)

lemma is_ws_punct [simp]:
  "\<not> is_ws (CHR '']'')" "\<not> is_ws (CHR ''}'')" "\<not> is_ws (CHR '','')" "\<not> is_ws (CHR '':'')" "is_ws (CHR '' '')"
  by (simp_all add: is_ws_def)

lemma num_end_close:
  "num_end (nl ind l @ CHR '']'' # r)" "num_end (nl ind l @ CHR ''}'' # r)"
  "num_end (item_sep ind l @ r)" "num_end []"
  by (auto simp: num_end_def nl_def item_sep_def is_digit_def split: option.splits)

lemma item_sep_comma: "item_sep ind l @ r = CHR '','' # tl (item_sep ind l) @ r"
  by (auto simp: item_sep_def split: option.splits)

lemma skip_item_sep [simp]: "skip_ws (tl (item_sep ind l) @ r) = skip_ws r"
  by (cases ind) (simp_all add: item_sep_def is_ws_def)

definition pair_text :: "bool \<Rightarrow> nat option \<Rightarrow> nat \<Rightarrow> string \<times> json \<Rightarrow> string" where
  "pair_text asc ind l kv = pp_str asc (fst kv) @ '': '' @ pp asc ind l (snd kv)"

lemma pp_str_start: "val_start (pp_str asc s)"
  by (simp add: val_start_def pp_str_def is_ws_def)

lemma pair_text_start: "val_start (pair_text asc ind l kv)"
  using pp_str_start [of asc "fst kv"] by (simp add: val_start_def pair_text_def pp_str_def)

lemma join_start: "(\<forall>x \<in> set xs. val_start x) \<Longrightarrow> xs \<noteq> [] \<Longrightarrow> val_start (join s xs)"
  by (cases xs; cases "tl xs") (auto simp: val_start_def)

text \<open>One element list and one member list, given the round trip of their values.\<close>

lemma pelems_join:
  assumes "\<And>v r g. v \<in> set xs \<Longrightarrow> num_end r \<Longrightarrow> length (pp asc ind l v) < g \<Longrightarrow>
             pval g (pp asc ind l v @ r) = Some (v, r)"
    and "\<forall>v \<in> set xs. wf_json v" and "xs \<noteq> []"
    and "Suc (length (join (item_sep ind l) (map (pp asc ind l) xs))) < f"
  shows "pelems f acc (join (item_sep ind l) (map (pp asc ind l) xs) @ nl ind m @ CHR '']'' # r)
       = Some (JList (acc @ xs), r)"
  using assms
proof (induction xs arbitrary: f acc)
  case Nil
  then show ?case by simp
next
  case (Cons x xs)
  obtain g where f: "f = Suc g" using Cons.prems(4) by (cases f) auto
  show ?case
  proof (cases xs)
    case Nil
    have "pval g (pp asc ind l x @ nl ind m @ CHR '']'' # r) = Some (x, nl ind m @ CHR '']'' # r)"
      using Cons.prems(4) Nil by (intro Cons.prems(1)) (auto simp: f num_end_close)
    then show ?thesis by (simp add: f Nil)
  next
    case (Cons y ys)
    let ?J = "join (item_sep ind l) (map (pp asc ind l) xs)"
    have J: "val_start ?J"
      using \<open>xs = y # ys\<close> Cons.prems(2) pp_val_start by (intro join_start) auto
    have len: "length (join (item_sep ind l) (map (pp asc ind l) (x # xs)))
        = length (pp asc ind l x) + length (item_sep ind l) + length ?J"
      by (simp add: \<open>xs = y # ys\<close>)
    have sep: "1 \<le> length (item_sep ind l)"
      by (auto simp: item_sep_def split: option.splits)
    have x: "1 \<le> length (pp asc ind l x)"
      using pp_val_start [of x asc ind l] Cons.prems(2) by (cases "pp asc ind l x") (auto simp: val_start_def)
    have "pval g (pp asc ind l x @ item_sep ind l @ ?J @ nl ind m @ CHR '']'' # r)
        = Some (x, item_sep ind l @ ?J @ nl ind m @ CHR '']'' # r)"
      using Cons.prems(4) len by (intro Cons.prems(1)) (auto simp: f num_end_close)
    moreover have "pelems g (acc @ [x]) (?J @ nl ind m @ CHR '']'' # r) = Some (JList ((acc @ [x]) @ xs), r)"
      using Cons.prems len sep x \<open>xs = y # ys\<close> by (intro Cons.IH) (auto simp: f)
    ultimately show ?thesis
      using J by (simp add: f \<open>xs = y # ys\<close> item_sep_comma)
  qed
qed

lemma pmembers_step:
  assumes "pval g (pp asc ind l v @ t) = Some (v, t)" and "wf_json v"
  shows "pmembers (Suc g) acc (pair_text asc ind l (k, v) @ t) =
    (case skip_ws t of
       [] \<Rightarrow> None
     | e # es \<Rightarrow> if e = CHR ''}'' then Some (JDict (dict_set acc k v), es)
                else if e = CHR '','' then pmembers g (dict_set acc k v) (skip_ws es) else None)"
proof -
  have "skip_ws (pp asc ind l v @ t) = pp asc ind l v @ t"
    by (rule skip_ws_start [OF pp_val_start [OF assms(2)]])
  then show ?thesis
    using assms(1) by (simp add: pair_text_def pp_str_def pstr_pp)
qed

lemma pmembers_join:
  assumes "\<And>e r g. e \<in> set d \<Longrightarrow> num_end r \<Longrightarrow> length (pp asc ind l (snd e)) < g \<Longrightarrow>
             pval g (pp asc ind l (snd e) @ r) = Some (snd e, r)"
    and "\<forall>e \<in> set d. wf_json (snd e)" and "d \<noteq> []" and "distinct (map fst (acc @ d))"
    and "Suc (length (join (item_sep ind l) (map (pair_text asc ind l) d))) < f"
  shows "pmembers f acc (join (item_sep ind l) (map (pair_text asc ind l) d) @ nl ind m @ CHR ''}'' # r)
       = Some (JDict (acc @ d), r)"
  using assms
proof (induction d arbitrary: f acc)
  case Nil
  then show ?case by simp
next
  case (Cons e d)
  obtain k v where e: "e = (k, v)" by (cases e)
  obtain g where f: "f = Suc g" using Cons.prems(5) by (cases f) auto
  have wf: "wf_json v" using Cons.prems(2) e by simp
  have new: "dict_set acc k v = acc @ [(k, v)]"
    using Cons.prems(4) e by (intro dict_set_new) auto
  have elen: "length (pp asc ind l v) < length (pair_text asc ind l e)"
    by (simp add: e pair_text_def)
  show ?case
  proof (cases d)
    case Nil
    have "pval g (pp asc ind l v @ nl ind m @ CHR ''}'' # r) = Some (v, nl ind m @ CHR ''}'' # r)"
      using Cons.prems(1) [of e "nl ind m @ CHR ''}'' # r" g] Cons.prems(5) Nil elen
      by (auto simp: f e num_end_close)
    then show ?thesis
      using wf by (simp add: f Nil e pmembers_step new del: pmembers.simps)
  next
    case (Cons e2 es)
    let ?J = "join (item_sep ind l) (map (pair_text asc ind l) d)"
    let ?t = "item_sep ind l @ ?J @ nl ind m @ CHR ''}'' # r"
    have J: "val_start ?J"
      using \<open>d = e2 # es\<close> pair_text_start by (intro join_start) auto
    have len: "length (join (item_sep ind l) (map (pair_text asc ind l) (e # d)))
        = length (pair_text asc ind l e) + length (item_sep ind l) + length ?J"
      by (simp add: \<open>d = e2 # es\<close>)
    have sep: "1 \<le> length (item_sep ind l)"
      by (auto simp: item_sep_def split: option.splits)
    have "pval g (pp asc ind l v @ ?t) = Some (v, ?t)"
      using Cons.prems(1) [of e ?t g] Cons.prems(5) len elen by (auto simp: f e num_end_close)
    then have "pmembers (Suc g) acc (pair_text asc ind l e @ ?t) =
        pmembers g (acc @ [e]) (?J @ nl ind m @ CHR ''}'' # r)"
      using wf J by (simp add: e pmembers_step item_sep_comma new del: pmembers.simps)
    moreover have "pmembers g (acc @ [e]) (?J @ nl ind m @ CHR ''}'' # r) = Some (JDict ((acc @ [e]) @ d), r)"
      using Cons.prems len sep elen \<open>d = e2 # es\<close> by (intro Cons.IH) (auto simp: f)
    ultimately show ?thesis by (simp add: f \<open>d = e2 # es\<close> del: pmembers.simps)
  qed
qed

lemma pp_JDict: "d \<noteq> [] \<Longrightarrow> pp asc ind l (JDict d) =
    CHR ''{'' # nl ind (Suc l) @ join (item_sep ind (Suc l)) (map (pair_text asc ind (Suc l)) d)
    @ nl ind l @ [CHR ''}'']"
  by (simp add: pair_text_def [abs_def])

lemma pval_number:
  assumes "pnum (s @ r) = Some (v, r)" and "0 < f"
  shows "pval f (s @ r) = Some (v, r)"
proof -
  obtain g where f: "f = Suc g" using assms(2) by (cases f) auto
  obtain c t where s: "s @ r = c # t" and c: "is_digit c \<or> c = CHR ''-''"
    using pnum_start [OF assms(1)] by (cases "s @ r") auto
  have "plits literals (s @ r) = Some (v, r)"
    using plits_pnum [OF assms(1)] assms(1) by simp
  moreover have "c \<noteq> CHR 0x22" "c \<noteq> CHR ''{''" "c \<noteq> CHR ''[''"
    using c digit_start [of c] by auto
  ultimately show ?thesis by (simp add: f s)
qed

lemma pval_pp:
  "wf_json v \<Longrightarrow> num_end r \<Longrightarrow> length (pp asc ind l v) < f \<Longrightarrow> pval f (pp asc ind l v @ r) = Some (v, r)"
proof (induction v arbitrary: l f r)
  case (JInt i)
  then show ?case using pval_number [OF pnum_int_str] by fastforce
next
  case (JFloat s)
  then have "pnum (s @ r) = Some (JFloat s, [] @ r)"
    by (intro pnum_append) (auto dest: pnum_start)
  with JFloat show ?case using pval_number [of s r "JFloat s" f] by simp
next
  case (JStr s)
  then obtain g where "f = Suc g" by (cases f) auto
  then show ?case by (simp add: pp_str_def pstr_pp)
next
  case (JList xs)
  obtain g where f: "f = Suc g" using JList.prems(3) by (cases f) auto
  show ?case
  proof (cases "xs = []")
    case True
    then show ?thesis by (simp add: f)
  next
    case False
    let ?J = "join (item_sep ind (Suc l)) (map (pp asc ind (Suc l)) xs)"
    have J: "val_start ?J"
      using False JList.prems(1) pp_val_start by (intro join_start) auto
    then obtain d ds where d: "?J @ nl ind l @ CHR '']'' # r = d # ds" "d \<noteq> CHR '']''" "\<not> is_ws d"
      by (cases ?J) (auto simp: val_start_def)
    have "pelems g [] (?J @ nl ind l @ CHR '']'' # r) = Some (JList ([] @ xs), r)"
      using JList False by (intro pelems_join) (auto simp: f)
    then show ?thesis
      using False J d by (simp add: f)
  qed
next
  case (JDict m)
  obtain g where f: "f = Suc g" using JDict.prems(3) by (cases f) auto
  show ?case
  proof (cases "m = []")
    case True
    then show ?thesis by (simp add: f)
  next
    case False
    let ?J = "join (item_sep ind (Suc l)) (map (pair_text asc ind (Suc l)) m)"
    have J: "val_start ?J"
      using False pair_text_start by (intro join_start) auto
    then obtain d ds where d: "?J @ nl ind l @ CHR ''}'' # r = d # ds" "d \<noteq> CHR ''}''" "\<not> is_ws d"
      by (cases ?J) (auto simp: val_start_def)
    have IH: "pval h (pp asc ind (Suc l) (snd e) @ t) = Some (snd e, t)"
      if "e \<in> set m" "num_end t" "length (pp asc ind (Suc l) (snd e)) < h" for e t h
      using JDict.IH [of e "snd e" t "Suc l" h] JDict.prems(1) that by (cases e) auto
    have "length ?J + 2 < Suc g"
      using JDict.prems(3) False by (simp add: f pp_JDict del: pp.simps)
    then have "pmembers g [] (?J @ nl ind l @ CHR ''}'' # r) = Some (JDict ([] @ m), r)"
      using JDict.prems(1) False IH by (intro pmembers_join) auto
    then show ?thesis
      using False J d by (simp add: f pp_JDict del: pp.simps pmembers.simps)
  qed
qed (auto simp: literals_def gr0_conv_Suc dest!: less_imp_Suc_add)

lemma loads_pp:
  assumes "wf_json v" and "\<forall>c \<in> set t. is_ws c"
  shows "loads (pp asc ind 0 v @ t) = Inr v"
proof -
  let ?s = "pp asc ind 0 v @ t"
  have "num_end t"
    using assms(2) by (cases t) (auto simp: num_end_def is_ws_def is_digit_def)
  then have "pval (Suc (2 * length ?s)) ?s = Some (v, t)"
    using assms(1) by (intro pval_pp) auto
  moreover have "skip_ws ?s = ?s"
    by (rule skip_ws_start [OF pp_val_start [OF assms(1)]])
  moreover have "skip_ws t = []" using assms(2) by simp
  ultimately show ?thesis by (simp add: loads_def)
qed

text \<open>Every layout the scripts print reads back, with or without the newline they append to files.\<close>

lemma loads_dumps [simp]: "wf_json v \<Longrightarrow> loads (dumps v) = Inr v"
  using loads_pp [of v "[]" True None] by (simp add: dumps_def)

lemma loads_dumps_indent [simp]: "wf_json v \<Longrightarrow> loads (dumps_indent v) = Inr v"
  using loads_pp [of v "[]" True "Some 2"] by (simp add: dumps_indent_def)

lemma loads_dumps_raw [simp]: "wf_json v \<Longrightarrow> loads (dumps_raw v) = Inr v"
  using loads_pp [of v "[]" False None] by (simp add: dumps_raw_def)

lemma loads_dumps_raw_indent [simp]: "wf_json v \<Longrightarrow> loads (dumps_raw_indent v @ [CHR 0x0A]) = Inr v"
  using loads_pp [of v "[CHR 0x0A]" False "Some 2"] by (simp add: dumps_raw_indent_def is_ws_def)

lemma loads_dumps_raw_indent' [simp]: "wf_json v \<Longrightarrow> loads (dumps_raw_indent v) = Inr v"
  using loads_pp [of v "[]" False "Some 2"] by (simp add: dumps_raw_indent_def)

lemma dumps_nonempty [simp]: "wf_json v \<Longrightarrow> dumps v \<noteq> []"
  using pp_val_start [of v True None 0] by (simp add: dumps_def val_start_def)

section \<open>The fuel never decides\<close>

lemma pstr_shrinks: "pstr s = Some (x, r) \<Longrightarrow> length r < length s"
proof (induction s arbitrary: x r rule: pstr.induct)
  case (2 c cs)
  then show ?case by (fastforce split: if_splits list.splits option.splits)
qed simp

lemma scan_shrinks:
  "scan_int s = Some (ip, r) \<Longrightarrow> length r < length s"
  "length (snd (scan_frac s)) \<le> length s"
  "length (snd (scan_sign s)) \<le> length s"
  "length (snd (scan_exp s)) \<le> length s"
proof -
  have d: "is_digit c \<Longrightarrow> length (dropWhile is_digit (c # t)) \<le> length t" for c t
    by (simp add: length_dropWhile_le)
  show "scan_int s = Some (ip, r) \<Longrightarrow> length r < length s"
    using d by (auto simp: scan_int_def less_Suc_eq_le split: list.splits if_splits)
  show "length (snd (scan_frac s)) \<le> length s"
    using d by (auto simp: scan_frac_def le_SucI split: list.splits)
  show sg: "length (snd (scan_sign s)) \<le> length s" for s
    by (auto simp: scan_sign_def split: list.splits)
  show "length (snd (scan_exp s)) \<le> length s"
  proof (cases s)
    case (Cons c t)
    have "length (dropWhile is_digit (snd (scan_sign t))) \<le> length t"
      using sg [of t] length_dropWhile_le [of is_digit "snd (scan_sign t)"] by linarith
    then show ?thesis by (auto simp: Cons scan_exp_def split: prod.splits)
  qed (simp add: scan_exp_def)
qed

lemma pnum_shrinks: "pnum s = Some (v, r) \<Longrightarrow> length r < length s"
proof -
  assume p: "pnum s = Some (v, r)"
  let ?s1 = "if s \<noteq> [] \<and> hd s = CHR ''-'' then tl s else s"
  obtain ip s2 where ip: "scan_int ?s1 = Some (ip, s2)" and r: "r = snd (scan_exp (snd (scan_frac s2)))"
    using p by (auto simp: pnum_def Let_def split: option.splits prod.splits)
  have "length r \<le> length s2"
    unfolding r using scan_shrinks(4) [of "snd (scan_frac s2)"] scan_shrinks(2) [of s2] by linarith
  also have "length s2 < length ?s1" using ip by (rule scan_shrinks(1))
  also have "length ?s1 \<le> length s" by simp
  finally show ?thesis .
qed

lemma strip_prefix_length: "strip_prefix p s = Some r \<Longrightarrow> length r + length p = length s"
  by (induction p s rule: strip_prefix.induct) (auto split: if_splits)

lemma plits_shrinks:
  "(\<forall>e \<in> set ls. fst e \<noteq> []) \<Longrightarrow> plits ls s = Some (v, r) \<Longrightarrow> length r < length s"
  by (induction ls s rule: plits.induct)
     (auto simp: pnum_shrinks simp flip: length_greater_0_conv dest!: strip_prefix_length split: option.splits)

lemma skip_ws_length: "skip_ws s = c # t \<Longrightarrow> length t < length s"
  using length_dropWhile_le [of is_ws s] by simp

lemma parse_shrinks:
  "pval f s = Some (v, r) \<Longrightarrow> length r < length s"
  "pelems f acc s = Some (v, r) \<Longrightarrow> length r < length s"
  "pmembers f acc2 s = Some (v, r) \<Longrightarrow> length r < length s"
proof (induction f s and f acc s and f acc2 s arbitrary: v r and v r and v r
    rule: pval_pelems_pmembers.induct)
  case (2 f s)
  have lits: "plits literals s = Some (v, r) \<Longrightarrow> length r < length s"
    using plits_shrinks [of literals s v r] by (simp add: literals_def)
  show ?case
  proof (cases s)
    case (Cons c cs)
    show ?thesis
      using 2 Cons lits skip_ws_length [of cs]
      by (auto split: if_splits list.splits dest!: pstr_shrinks) (fastforce dest: skip_ws_length)+
  qed (use 2 in simp)
next
  case (4 f acc s)
  obtain u t where u: "pval f s = Some (u, t)"
    using "4.prems" by (auto split: option.splits)
  then have lt: "length t < length s" by (rule "4.IH"(1))
  obtain c cs where c: "skip_ws t = c # cs"
    using "4.prems" u by (auto split: list.splits)
  then have cs: "length cs < length t" by (rule skip_ws_length)
  show ?case
  proof (cases "c = CHR '']''")
    case True
    then show ?thesis using "4.prems" u c lt cs by simp
  next
    case False
    then have "pelems f (acc @ [u]) (skip_ws cs) = Some (v, r)" and comma: "c = CHR '',''"
      using "4.prems" u c by (auto split: if_splits)
    then have "length r < length (skip_ws cs)"
      using "4.IH"(2) [of "(u, t)" u t c cs] u c False by simp
    also have "\<dots> \<le> length cs" by (rule length_dropWhile_le)
    finally show ?thesis using lt cs by simp
  qed
next
  case (6 f acc s)
  obtain s1 k s2 c s3 u t e es where
    s: "s = CHR 0x22 # s1" and k: "pstr s1 = Some (k, s2)" and c: "skip_ws s2 = CHR '':'' # s3"
    and u: "pval f (skip_ws s3) = Some (u, t)" and e: "skip_ws t = e # es"
    using "6.prems" by (auto split: list.splits option.splits if_splits)
  have "length s2 < length s1" using k by (rule pstr_shrinks)
  moreover have "length s3 < length s2" using c by (rule skip_ws_length)
  moreover have "length t < length (skip_ws s3)"
    using "6.IH"(1) [of "CHR 0x22" s1 "(k, s2)" k s2 "CHR '':''" s3] s k c u by simp
  moreover have "length (skip_ws s3) \<le> length s3" by (rule length_dropWhile_le)
  moreover have "length es < length t" using e by (rule skip_ws_length)
  ultimately have es: "length es < length s" using s by simp
  show ?case
  proof (cases "e = CHR ''}''")
    case True
    then show ?thesis using "6.prems" s k c u e es by simp
  next
    case False
    then have rec: "pmembers f (dict_set acc k u) (skip_ws es) = Some (v, r)" and comma: "e = CHR '',''"
      using "6.prems" s k c u e by (auto split: if_splits)
    then have "length r < length (skip_ws es)"
      using "6.IH"(2) [of "CHR 0x22" s1 "(k, s2)" k s2 "CHR '':''" s3 "(u, t)" u t e es] s k c u e by simp
    also have "\<dots> \<le> length es" by (rule length_dropWhile_le)
    finally show ?thesis using es by simp
  qed
qed simp_all

lemma parse_fuel:
  "2 * length s < f \<Longrightarrow> f \<le> g \<Longrightarrow> pval g s = pval f s"
  "Suc (2 * length s) < f \<Longrightarrow> f \<le> g \<Longrightarrow> pelems g acc s = pelems f acc s"
  "Suc (2 * length s) < f \<Longrightarrow> f \<le> g \<Longrightarrow> pmembers g acc2 s = pmembers f acc2 s"
proof (induction f s and f acc s and f acc2 s arbitrary: g and g and g
    rule: pval_pelems_pmembers.induct)
  case (2 f s)
  obtain h where g: "g = Suc h" "f \<le> h" using "2.prems" by (cases g) auto
  show ?case
  proof (cases s)
    case (Cons c cs)
    have len: "Suc (2 * length (d # ds)) < f" if "skip_ws cs = d # ds" for d ds
      using "2.prems"(1) Cons that length_dropWhile_le [of is_ws cs] by simp
    have "pmembers h [] (d # ds) = pmembers f [] (d # ds)"
      if "c = CHR ''{''" "skip_ws cs = d # ds" "d \<noteq> CHR ''}''" for d ds
      using "2.IH"(1) [OF Cons _ that(1) that(2,3) len [OF that(2)] g(2)] that(1) by simp
    moreover have "pelems h [] (d # ds) = pelems f [] (d # ds)"
      if "c = CHR ''[''" "skip_ws cs = d # ds" "d \<noteq> CHR '']''" for d ds
      using "2.IH"(2) [OF Cons _ _ that(1) that(2,3) len [OF that(2)] g(2)] that(1) by simp
    ultimately show ?thesis
      by (cases "skip_ws cs") (simp_all add: g Cons del: dropWhile_eq_Nil_conv)
  qed (simp add: g)
next
  case (4 f acc s)
  obtain h where g: "g = Suc h" "f \<le> h" using "4.prems" by (cases g) auto
  have v: "pval h s = pval f s" using "4.IH"(1) [of h] "4.prems" g by simp
  have rest: "pelems h (acc @ [u]) (skip_ws cs) = pelems f (acc @ [u]) (skip_ws cs)"
    if "pval f s = Some (u, t)" "skip_ws t = CHR '','' # cs" for u t cs
  proof (rule "4.IH"(2) [OF that(1) refl that(2)])
    show "Suc (2 * length (skip_ws cs)) < f"
      using "4.prems"(1) parse_shrinks(1) [OF that(1)] skip_ws_length [OF that(2)]
        length_dropWhile_le [of is_ws cs] by simp
  qed (use g in auto)
  show ?case
    using v rest by (auto simp: g simp del: dropWhile_eq_Nil_conv split: option.splits list.splits)
next
  case (6 f acc s)
  obtain h where g: "g = Suc h" "f \<le> h" using "6.prems" by (cases g) auto
  have v: "pval h (skip_ws s3) = pval f (skip_ws s3)"
    and rest: "\<And>u t es. pval f (skip_ws s3) = Some (u, t) \<Longrightarrow> skip_ws t = CHR '','' # es \<Longrightarrow>
       pmembers h (dict_set acc k u) (skip_ws es) = pmembers f (dict_set acc k u) (skip_ws es)"
    if s: "s = CHR 0x22 # s1" and k: "pstr s1 = Some (k, s2)" and c: "skip_ws s2 = CHR '':'' # s3"
    for s1 k s2 s3
  proof -
    have len: "length (skip_ws s3) < length s1"
      using pstr_shrinks [OF k] skip_ws_length [OF c] length_dropWhile_le [of is_ws s3] by simp
    show "pval h (skip_ws s3) = pval f (skip_ws s3)"
      using "6.IH"(1) [OF s _ k refl c, of h] "6.prems"(1) len g s by simp
    fix u t es
    assume u: "pval f (skip_ws s3) = Some (u, t)" and e: "skip_ws t = CHR '','' # es"
    have "length (skip_ws es) < length s1"
      using len parse_shrinks(1) [OF u] skip_ws_length [OF e] length_dropWhile_le [of is_ws es] by simp
    then show "pmembers h (dict_set acc k u) (skip_ws es) = pmembers f (dict_set acc k u) (skip_ws es)"
      using "6.IH"(2) [OF s _ k refl c _ u refl e, of h] "6.prems"(1) g s by simp
  qed
  show ?case
    using v rest by (auto simp: g simp del: dropWhile_eq_Nil_conv split: option.splits list.splits)
qed simp_all

lemma pval_fuel: "pval (Suc (2 * length s) + n) s = pval (Suc (2 * length s)) s"
  by (rule parse_fuel(1)) auto

end
