(* ===== verification/PyProg.thy ===== *)
theory PyProg
  imports JsonCodec
begin

text \<open>
  Programs with effects. A Python statement is a function from the interface to the outside world
  and the interpreter's state to an outcome: a value or an exception, with the state after it.
  \<open>None\<close> is a run that does not end, so a loop without an argument for its end is still defined.

  Everything outside \<^verbatim>\<open>src/\<close> (the processes the scripts start, so kubectl, docker and the
  cluster behind them; the file system; the network; the clock) is the parameter \<open>os\<close> of every
  definition, over a type \<open>'w\<close> of worlds nothing is known of. Each call to it is recorded in the
  trace with its reply, which is what the safety theorems are about.
\<close>

section \<open>The outside world\<close>

record proc =                                   \<comment> \<open>\<^verbatim>\<open>subprocess.CompletedProcess\<close>\<close>
  returncode :: int
  stdout :: string
  stderr :: string

record 'w os =
  environ :: "string \<Rightarrow> string option"                          \<comment> \<open>\<^verbatim>\<open>os.environ\<close>\<close>
  os_run :: "string list \<Rightarrow> string option \<Rightarrow> int option \<Rightarrow> 'w \<Rightarrow> (exn + proc) \<times> 'w"
    \<comment> \<open>\<^verbatim>\<open>subprocess.run\<close> of a command line, with its standard input and a timeout in seconds\<close>
  os_monotonic :: "'w \<Rightarrow> (exn + int) \<times> 'w"                      \<comment> \<open>\<^verbatim>\<open>time.monotonic\<close>, in milliseconds\<close>
  os_sleep :: "int \<Rightarrow> 'w \<Rightarrow> (exn + unit) \<times> 'w"                  \<comment> \<open>\<^verbatim>\<open>time.sleep\<close>, in milliseconds\<close>
  os_write :: "string \<Rightarrow> string \<Rightarrow> 'w \<Rightarrow> (exn + unit) \<times> 'w"      \<comment> \<open>\<^verbatim>\<open>Path.write_text\<close>\<close>
  os_append :: "string \<Rightarrow> string \<Rightarrow> 'w \<Rightarrow> (exn + unit) \<times> 'w"     \<comment> \<open>\<^verbatim>\<open>open("a").write\<close>\<close>
  os_read :: "string \<Rightarrow> 'w \<Rightarrow> (exn + string) \<times> 'w"              \<comment> \<open>\<^verbatim>\<open>Path.read_text\<close>, \<^verbatim>\<open>read_bytes\<close>\<close>
  os_mkdir :: "string \<Rightarrow> 'w \<Rightarrow> (exn + unit) \<times> 'w"               \<comment> \<open>\<^verbatim>\<open>Path.mkdir\<close>\<close>
  os_unlink :: "string \<Rightarrow> 'w \<Rightarrow> (exn + unit) \<times> 'w"              \<comment> \<open>\<^verbatim>\<open>Path.unlink(missing_ok=True)\<close>\<close>
  os_print :: "string \<Rightarrow> 'w \<Rightarrow> (exn + unit) \<times> 'w"               \<comment> \<open>\<^verbatim>\<open>print\<close>\<close>
  os_spawn :: "string list \<Rightarrow> 'w \<Rightarrow> (exn + nat) \<times> 'w"           \<comment> \<open>\<^verbatim>\<open>subprocess.Popen\<close>\<close>
  os_terminate :: "nat \<Rightarrow> 'w \<Rightarrow> (exn + unit) \<times> 'w"              \<comment> \<open>\<^verbatim>\<open>Popen.terminate\<close>\<close>
  os_waitproc :: "nat \<Rightarrow> int option \<Rightarrow> 'w \<Rightarrow> (exn + unit) \<times> 'w" \<comment> \<open>\<^verbatim>\<open>Popen.wait\<close>\<close>
  os_kill :: "nat \<Rightarrow> 'w \<Rightarrow> (exn + unit) \<times> 'w"                   \<comment> \<open>\<^verbatim>\<open>Popen.kill\<close>\<close>
  os_urlopen :: "string \<Rightarrow> string \<Rightarrow> int \<Rightarrow> 'w \<Rightarrow> (exn + (int \<times> nat)) \<times> 'w"
    \<comment> \<open>\<^verbatim>\<open>urlopen\<close> of a method and URL with a timeout: status and response handle\<close>
  os_readline :: "nat \<Rightarrow> 'w \<Rightarrow> (exn + string) \<times> 'w"             \<comment> \<open>\<^verbatim>\<open>response.readline()\<close>\<close>
  os_readall :: "nat \<Rightarrow> 'w \<Rightarrow> (exn + string) \<times> 'w"              \<comment> \<open>\<^verbatim>\<open>response.read()\<close>\<close>
  os_wallclock :: "string \<Rightarrow> 'w \<Rightarrow> (exn + string) \<times> 'w"
    \<comment> \<open>\<^verbatim>\<open>datetime.now(utc)\<close>, printed in a format, which is empty for \<^verbatim>\<open>isoformat()\<close>\<close>
  os_pollproc :: "nat \<Rightarrow> 'w \<Rightarrow> (exn + int option) \<times> 'w"         \<comment> \<open>\<^verbatim>\<open>Popen.poll\<close>\<close>
  os_connect :: "int \<Rightarrow> 'w \<Rightarrow> (exn + unit) \<times> 'w"
    \<comment> \<open>\<^verbatim>\<open>socket.create_connection\<close> to a port of this host, closed again\<close>
  os_chmod :: "string \<Rightarrow> int \<Rightarrow> 'w \<Rightarrow> (exn + unit) \<times> 'w"

datatype event =
    Ran "string list" "string option" "exn + proc"
  | Clock "exn + int"
  | Slept int
  | Wrote string string
  | Appended string string
  | ReadFile string "exn + string"
  | MadeDir string
  | Unlinked string
  | Printed string
  | Spawned "string list" "exn + nat"
  | Terminated nat
  | Waited nat "exn + unit"
  | Killed nat
  | Opened string string "exn + (int \<times> nat)"
  | ReadLine nat "exn + string"
  | ReadAll nat "exn + string"
  | WallClock string "exn + string"
  | Polled nat "exn + int option"
  | Connected int "exn + unit"
  | Chmod string int "exn + unit"

record ('w, 'g) st =
  world :: 'w
  trace :: "event list"
  globals :: 'g                                  \<comment> \<open>the script's own module variables\<close>

type_synonym ('w, 'g, 'a) prog = "'w os \<Rightarrow> ('w, 'g) st \<Rightarrow> ((exn + 'a) \<times> ('w, 'g) st) option"


section \<open>Combinators\<close>

definition returnM :: "'a \<Rightarrow> ('w, 'g, 'a) prog" where
  "returnM a = (\<lambda>os s. Some (Inr a, s))"

definition raiseM :: "exn \<Rightarrow> ('w, 'g, 'a) prog" where
  "raiseM e = (\<lambda>os s. Some (Inl e, s))"

definition bindM :: "('w, 'g, 'a) prog \<Rightarrow> ('a \<Rightarrow> ('w, 'g, 'b) prog) \<Rightarrow> ('w, 'g, 'b) prog" where
  "bindM m f = (\<lambda>os s. case m os s of
       None \<Rightarrow> None
     | Some (Inl e, s') \<Rightarrow> Some (Inl e, s')
     | Some (Inr a, s') \<Rightarrow> f a os s')"

definition thenM :: "('w, 'g, 'a) prog \<Rightarrow> ('w, 'g, 'b) prog \<Rightarrow> ('w, 'g, 'b) prog" where
  "thenM m n = bindM m (\<lambda>_. n)"

text \<open>A statement whose value is not used, and a block of such statements.\<close>

definition ign :: "('w, 'g, 'a) prog \<Rightarrow> ('w, 'g, unit) prog" where
  "ign m = bindM m (\<lambda>_. returnM ())"

fun block :: "('w, 'g, unit) prog list \<Rightarrow> ('w, 'g, unit) prog" where
  "block [] = returnM ()"
| "block (m # ms) = thenM m (block ms)"

definition liftE :: "exn + 'a \<Rightarrow> ('w, 'g, 'a) prog" where
  "liftE r = (\<lambda>os s. Some (r, s))"

definition assertM :: "string \<Rightarrow> bool \<Rightarrow> ('w, 'g, unit) prog" where
  "assertM msg b = (if b then returnM () else raiseM (AssertionError msg))"

definition whenM :: "bool \<Rightarrow> ('w, 'g, unit) prog \<Rightarrow> ('w, 'g, unit) prog" where
  "whenM b m = (if b then m else returnM ())"

text \<open>
  \<^verbatim>\<open>try: m except: h\<close>, where \<open>h e = None\<close> re-raises, and \<^verbatim>\<open>try: m finally: c\<close>: an exception of
  the clean-up replaces the outcome, as in Python.
\<close>

definition catchM :: "('w, 'g, 'a) prog \<Rightarrow> (exn \<Rightarrow> ('w, 'g, 'a) prog option) \<Rightarrow> ('w, 'g, 'a) prog" where
  "catchM m h = (\<lambda>os s. case m os s of
       Some (Inl e, s') \<Rightarrow> (case h e of None \<Rightarrow> Some (Inl e, s') | Some p \<Rightarrow> p os s')
     | r \<Rightarrow> r)"

text \<open>The kinds of handler the scripts have.\<close>

definition on_any :: "(exn \<Rightarrow> ('w, 'g, 'a) prog) \<Rightarrow> exn \<Rightarrow> ('w, 'g, 'a) prog option" where
  "on_any f e = (case e of SystemExit m \<Rightarrow> None | _ \<Rightarrow> Some (f e))"    \<comment> \<open>\<^verbatim>\<open>except Exception\<close>\<close>

definition on_HTTPError :: "(int \<Rightarrow> string \<Rightarrow> ('w, 'g, 'a) prog) \<Rightarrow> exn \<Rightarrow> ('w, 'g, 'a) prog option" where
  "on_HTTPError f e = (case e of HTTPError code body \<Rightarrow> Some (f code body) | _ \<Rightarrow> None)"

definition on_TimeoutExpired :: "('w, 'g, 'a) prog \<Rightarrow> exn \<Rightarrow> ('w, 'g, 'a) prog option" where
  "on_TimeoutExpired p e = (case e of TimeoutExpired \<Rightarrow> Some p | _ \<Rightarrow> None)"

definition on_RuntimeError :: "(string \<Rightarrow> ('w, 'g, 'a) prog) \<Rightarrow> exn \<Rightarrow> ('w, 'g, 'a) prog option" where
  "on_RuntimeError f e = (case e of RuntimeError m \<Rightarrow> Some (f m) | _ \<Rightarrow> None)"

definition on_OSError :: "('w, 'g, 'a) prog \<Rightarrow> exn \<Rightarrow> ('w, 'g, 'a) prog option" where
  "on_OSError p e = (case e of OSError m \<Rightarrow> Some p | TimeoutError m \<Rightarrow> Some p | HTTPError c b \<Rightarrow> Some p | _ \<Rightarrow> None)"
  \<comment> \<open>\<^verbatim>\<open>TimeoutError\<close> and \<^verbatim>\<open>HTTPError\<close> are subclasses of \<^verbatim>\<open>OSError\<close>\<close>

lemma on_simps:
  "on_any f e = Some p \<longleftrightarrow> p = f e \<and> (\<nexists>m. e = SystemExit m)"
  "on_RuntimeError h e = Some p \<longleftrightarrow> (\<exists>m. e = RuntimeError m \<and> p = h m)"
  "on_OSError q e = Some p \<longrightarrow> p = q"
  "on_HTTPError g e = Some p \<longleftrightarrow> (\<exists>code body. e = HTTPError code body \<and> p = g code body)"
  "on_TimeoutExpired q e = Some p \<longleftrightarrow> e = TimeoutExpired \<and> p = q"
  by (auto simp: on_any_def on_HTTPError_def on_TimeoutExpired_def on_RuntimeError_def on_OSError_def split: exn.splits)

definition finallyM :: "('w, 'g, 'a) prog \<Rightarrow> ('w, 'g, unit) prog \<Rightarrow> ('w, 'g, 'a) prog" where
  "finallyM m c = (\<lambda>os s. case m os s of
       None \<Rightarrow> None
     | Some (r, s') \<Rightarrow> (case c os s' of
           None \<Rightarrow> None
         | Some (Inl e, s'') \<Rightarrow> Some (Inl e, s'')
         | Some (Inr _, s'') \<Rightarrow> Some (r, s'')))"

text \<open>A \<^verbatim>\<open>for\<close> loop over a list, and one that collects the values of its body.\<close>

fun forM :: "'a list \<Rightarrow> ('a \<Rightarrow> ('w, 'g, unit) prog) \<Rightarrow> ('w, 'g, unit) prog" where
  "forM [] f = returnM ()"
| "forM (x # xs) f = thenM (f x) (forM xs f)"

fun mapM :: "'a list \<Rightarrow> ('a \<Rightarrow> ('w, 'g, 'b) prog) \<Rightarrow> ('w, 'g, 'b list) prog" where
  "mapM [] f = returnM []"
| "mapM (x # xs) f = bindM (f x) (\<lambda>y. bindM (mapM xs f) (\<lambda>ys. returnM (y # ys)))"

text \<open>\<^verbatim>\<open>any(f(x) for x in xs)\<close> and \<^verbatim>\<open>all(f(x) for x in xs)\<close>, which stop at the first value that decides.\<close>

fun anyM :: "('a \<Rightarrow> ('w, 'g, bool) prog) \<Rightarrow> 'a list \<Rightarrow> ('w, 'g, bool) prog" where
  "anyM f [] = returnM False"
| "anyM f (x # xs) = bindM (f x) (\<lambda>b. if b then returnM True else anyM f xs)"

fun everyM :: "('a \<Rightarrow> ('w, 'g, bool) prog) \<Rightarrow> 'a list \<Rightarrow> ('w, 'g, bool) prog" where
  "everyM f [] = returnM True"
| "everyM f (x # xs) = bindM (f x) (\<lambda>b. if b then everyM f xs else returnM False)"

text \<open>
  \<^verbatim>\<open>while True\<close>: the body returns \<open>None\<close> to go round again and \<open>Some x\<close> to leave the loop with \<open>x\<close>.
\<close>

partial_function (option) loopM :: "('w, 'g, 'a option) prog \<Rightarrow> ('w, 'g, 'a) prog" where
  "loopM body os s = Option.bind (body os s) (\<lambda>(r, s'). case r of
       Inl e \<Rightarrow> Some (Inl e, s')
     | Inr (Some x) \<Rightarrow> Some (Inr x, s')
     | Inr None \<Rightarrow> loopM body os s')"

text \<open>A loop with local variables: the body returns their new values, or leaves the loop with a result.\<close>

partial_function (option) loopP ::
    "('s \<Rightarrow> ('w, 'g, 's + 'a) prog) \<Rightarrow> 'w os \<Rightarrow> 's \<times> ('w, 'g) st \<Rightarrow> ((exn + 'a) \<times> ('w, 'g) st) option" where
  "loopP body os p = Option.bind (body (fst p) os (snd p)) (\<lambda>(r, s'). case r of
       Inl e \<Rightarrow> Some (Inl e, s')
     | Inr (Inr a) \<Rightarrow> Some (Inr a, s')
     | Inr (Inl y) \<Rightarrow> loopP body os (y, s'))"

definition loopS :: "('s \<Rightarrow> ('w, 'g, 's + 'a) prog) \<Rightarrow> 's \<Rightarrow> ('w, 'g, 'a) prog" where
  "loopS body x os s = loopP body os (x, s)"

lemma loopS_unfold:
  "loopS body x os s = Option.bind (body x os s) (\<lambda>(r, s'). case r of
       Inl e \<Rightarrow> Some (Inl e, s')
     | Inr (Inr a) \<Rightarrow> Some (Inr a, s')
     | Inr (Inl y) \<Rightarrow> loopS body y os s')"
  unfolding loopS_def by (subst loopP.simps) simp

text \<open>\<^verbatim>\<open>for _ in range(n): \<dots> else: \<dots>\<close>: at most \<open>n\<close> rounds, the \<^verbatim>\<open>else\<close> branch when none left the loop.\<close>

fun repeatM :: "nat \<Rightarrow> ('w, 'g, 'a option) prog \<Rightarrow> ('w, 'g, 'a) prog \<Rightarrow> ('w, 'g, 'a) prog" where
  "repeatM 0 body els = els"
| "repeatM (Suc n) body els =
     bindM body (\<lambda>r. case r of Some x \<Rightarrow> returnM x | None \<Rightarrow> repeatM n body els)"


section \<open>Calls to the outside world\<close>

definition prim :: "((exn + 'r) \<Rightarrow> event) \<Rightarrow> ('w os \<Rightarrow> 'w \<Rightarrow> (exn + 'r) \<times> 'w) \<Rightarrow> ('w, 'g, 'r) prog" where
  "prim ev f = (\<lambda>os s. case f os (world s) of (r, w) \<Rightarrow>
     Some (r, s\<lparr>world := w, trace := trace s @ [ev r]\<rparr>))"

definition run_process :: "string list \<Rightarrow> string option \<Rightarrow> int option \<Rightarrow> ('w, 'g, proc) prog" where
  "run_process args input timeout = prim (Ran args input) (\<lambda>os. os_run os args input timeout)"

definition monotonic :: "('w, 'g, int) prog" where
  "monotonic = prim Clock os_monotonic"

definition sleep :: "int \<Rightarrow> ('w, 'g, unit) prog" where
  "sleep ms = prim (\<lambda>_. Slept ms) (\<lambda>os. os_sleep os ms)"

definition write_text :: "string \<Rightarrow> string \<Rightarrow> ('w, 'g, unit) prog" where
  "write_text path t = prim (\<lambda>_. Wrote path t) (\<lambda>os. os_write os path t)"

definition append_text :: "string \<Rightarrow> string \<Rightarrow> ('w, 'g, unit) prog" where
  "append_text path t = prim (\<lambda>_. Appended path t) (\<lambda>os. os_append os path t)"

definition read_text :: "string \<Rightarrow> ('w, 'g, string) prog" where
  "read_text path = prim (ReadFile path) (\<lambda>os. os_read os path)"

definition mkdir :: "string \<Rightarrow> ('w, 'g, unit) prog" where
  "mkdir path = prim (\<lambda>_. MadeDir path) (\<lambda>os. os_mkdir os path)"

definition unlink :: "string \<Rightarrow> ('w, 'g, unit) prog" where
  "unlink path = prim (\<lambda>_. Unlinked path) (\<lambda>os. os_unlink os path)"

definition py_print :: "string \<Rightarrow> ('w, 'g, unit) prog" where
  "py_print t = prim (\<lambda>_. Printed t) (\<lambda>os. os_print os t)"

definition popen :: "string list \<Rightarrow> ('w, 'g, nat) prog" where
  "popen args = prim (Spawned args) (\<lambda>os. os_spawn os args)"

definition terminate :: "nat \<Rightarrow> ('w, 'g, unit) prog" where
  "terminate p = prim (\<lambda>_. Terminated p) (\<lambda>os. os_terminate os p)"

definition wait_process :: "nat \<Rightarrow> int option \<Rightarrow> ('w, 'g, unit) prog" where
  "wait_process p timeout = prim (Waited p) (\<lambda>os. os_waitproc os p timeout)"

definition kill_process :: "nat \<Rightarrow> ('w, 'g, unit) prog" where
  "kill_process p = prim (\<lambda>_. Killed p) (\<lambda>os. os_kill os p)"

definition urlopen :: "string \<Rightarrow> string \<Rightarrow> int \<Rightarrow> ('w, 'g, int \<times> nat) prog" where
  "urlopen meth url timeout = prim (Opened meth url) (\<lambda>os. os_urlopen os meth url timeout)"

definition readline :: "nat \<Rightarrow> ('w, 'g, string) prog" where
  "readline h = prim (ReadLine h) (\<lambda>os. os_readline os h)"

definition read_all :: "nat \<Rightarrow> ('w, 'g, string) prog" where
  "read_all h = prim (ReadAll h) (\<lambda>os. os_readall os h)"

definition wallclock :: "string \<Rightarrow> ('w, 'g, string) prog" where
  "wallclock fmt = prim (WallClock fmt) (\<lambda>os. os_wallclock os fmt)"

definition poll_process :: "nat \<Rightarrow> ('w, 'g, int option) prog" where
  "poll_process p = prim (Polled p) (\<lambda>os. os_pollproc os p)"

definition connect :: "int \<Rightarrow> ('w, 'g, unit) prog" where
  "connect port = prim (Connected port) (\<lambda>os. os_connect os port)"

definition chmod :: "string \<Rightarrow> int \<Rightarrow> ('w, 'g, unit) prog" where
  "chmod path perm = prim (Chmod path perm) (\<lambda>os. os_chmod os path perm)"

definition getenv :: "string \<Rightarrow> ('w, 'g, string option) prog" where
  "getenv k = (\<lambda>os s. Some (Inr (environ os k), s))"

definition getG :: "('w, 'g, 'g) prog" where
  "getG = (\<lambda>os s. Some (Inr (globals s), s))"

definition modG :: "('g \<Rightarrow> 'g) \<Rightarrow> ('w, 'g, unit) prog" where
  "modG f = (\<lambda>os s. Some (Inr (), s\<lparr>globals := f (globals s)\<rparr>))"

lemmas prim_defs = run_process_def monotonic_def sleep_def write_text_def append_text_def
  read_text_def mkdir_def unlink_def py_print_def popen_def terminate_def wait_process_def
  kill_process_def urlopen_def readline_def read_all_def wallclock_def poll_process_def connect_def chmod_def

definition py_loads :: "string \<Rightarrow> ('w, 'g, json) prog" where
  "py_loads t = liftE (loads t)"


section \<open>Evaluation\<close>

lemma run_combinators [run_simps]:
  "returnM a os s = Some (Inr a, s)"
  "raiseM e os s = Some (Inl e, s)"
  "liftE r os s = Some (r, s)"
  "bindM m f os s = (case m os s of None \<Rightarrow> None | Some (Inl e, s') \<Rightarrow> Some (Inl e, s')
     | Some (Inr a, s') \<Rightarrow> f a os s')"
  "thenM m n os s = (case m os s of None \<Rightarrow> None | Some (Inl e, s') \<Rightarrow> Some (Inl e, s')
     | Some (Inr a, s') \<Rightarrow> n os s')"
  "getenv k os s = Some (Inr (environ os k), s)"
  "getG os s = Some (Inr (globals s), s)"
  "modG g os s = Some (Inr (), s\<lparr>globals := g (globals s)\<rparr>)"
  by (simp_all add: returnM_def raiseM_def liftE_def bindM_def thenM_def getenv_def getG_def modG_def)

lemma bindM_return [simp]: "bindM (returnM a) f = f a"
  by (simp add: bindM_def returnM_def)

lemma bindM_raise [simp]: "bindM (raiseM e) f = raiseM e"
  by (simp add: bindM_def raiseM_def fun_eq_iff)

lemma bindM_returnM_right [simp]: "bindM m returnM = m"
  by (auto simp: bindM_def returnM_def fun_eq_iff split: option.splits sum.splits)

lemma bindM_assoc: "bindM (bindM m f) g = bindM m (\<lambda>x. bindM (f x) g)"
  by (auto simp: bindM_def fun_eq_iff split: option.splits sum.splits)

lemma liftE_simps [simp]: "liftE (Inr a) = returnM a" "liftE (Inl e) = raiseM e"
  by (simp_all add: liftE_def returnM_def raiseM_def)

lemma liftE_bindE: "liftE (bindE m f) = bindM (liftE m) (\<lambda>a. liftE (f a))"
  by (cases m) simp_all

lemma assertM_simps [simp]: "assertM msg True = returnM ()" "assertM msg False = raiseM (AssertionError msg)"
  by (simp_all add: assertM_def)

text \<open>What a normal return says of the steps of a sequence.\<close>

lemma bindM_InrE:
  assumes "bindM m f os s = Some (Inr b, s')"
  obtains a s1 where "m os s = Some (Inr a, s1)" and "f a os s1 = Some (Inr b, s')"
  using assms by (auto simp: bindM_def split: option.splits sum.splits)

lemma thenM_InrE:
  assumes "thenM m n os s = Some (Inr b, s')"
  obtains a s1 where "m os s = Some (Inr a, s1)" and "n os s1 = Some (Inr b, s')"
  using assms unfolding thenM_def by (rule bindM_InrE)

lemma bindM_SomeE:
  assumes "bindM m f os s = Some (r, s')"
  obtains e where "m os s = Some (Inl e, s')" and "r = Inl e"
    | a s1 where "m os s = Some (Inr a, s1)" and "f a os s1 = Some (r, s')"
  using assms by (auto simp: bindM_def split: option.splits sum.splits)

lemma liftE_InrE:
  assumes "liftE r os s = Some (Inr a, s')"
  obtains "r = Inr a" and "s' = s"
  using assms by (simp add: liftE_def)

lemma assertM_InrE:
  assumes "assertM msg b os s = Some (Inr u, s')"
  obtains "b" and "s' = s"
  using assms by (auto simp: assertM_def returnM_def raiseM_def split: if_splits)

lemma catchM_SomeE:
  assumes "catchM m h os s = Some (r, s')"
  obtains "m os s = Some (r, s')" and "\<And>e. r = Inl e \<Longrightarrow> h e = None"
    | e s1 p where "m os s = Some (Inl e, s1)" and "h e = Some p" and "p os s1 = Some (r, s')"
  using assms by (auto simp: catchM_def split: option.splits sum.splits)

lemma finallyM_SomeE:
  assumes "finallyM m c os s = Some (r, s')"
  obtains r1 s1 rc where "m os s = Some (r1, s1)" and "c os s1 = Some (rc, s')"
    and "r = (case rc of Inl e \<Rightarrow> Inl e | Inr _ \<Rightarrow> r1)"
  using assms by (auto simp: finallyM_def split: option.splits sum.splits prod.splits)

text \<open>
  A loop that ends went through states that satisfy an invariant of its rounds, and ended in the
  round that left it.
\<close>

lemma loopM_SomeE:
  assumes ret: "loopM body os s = Some (r, s')" and "I s"
    and "\<And>t t1. I t \<Longrightarrow> body os t = Some (Inr None, t1) \<Longrightarrow> I t1"
  obtains t where "I t" and "body os t = Some (map_sum id Some r, s')"
proof -
  have "\<forall>I. I s \<longrightarrow> (\<forall>t t1. I t \<longrightarrow> body os t = Some (Inr None, t1) \<longrightarrow> I t1) \<longrightarrow>
     (\<exists>t. I t \<and> body os t = Some (map_sum id Some (fst (r, s')), snd (r, s')))"
  proof (rule loopM.raw_induct [where P = "\<lambda>body os s y. \<forall>I. I s \<longrightarrow>
      (\<forall>t t1. I t \<longrightarrow> body os t = Some (Inr None, t1) \<longrightarrow> I t1) \<longrightarrow>
      (\<exists>t. I t \<and> body os t = Some (map_sum id Some (fst y), snd y))", OF _ ret], intro allI impI)
    fix loop :: "('w, 'g, 'a option) prog \<Rightarrow> ('w, 'g, 'a) prog"
      and body :: "('w, 'g, 'a option) prog" and os s y I
    assume IH: "\<And>body os s y. loop body os s = Some y \<Longrightarrow> \<forall>I. I s \<longrightarrow>
        (\<forall>t t1. I t \<longrightarrow> body os t = Some (Inr None, t1) \<longrightarrow> I t1) \<longrightarrow>
        (\<exists>t. I t \<and> body os t = Some (map_sum id Some (fst y), snd y))"
      and eq: "Option.bind (body os s) (\<lambda>(r, s'). case r of Inl e \<Rightarrow> Some (Inl e, s')
        | Inr None \<Rightarrow> loop body os s' | Inr (Some x) \<Rightarrow> Some (Inr x, s')) = Some y"
      and I: "I s" "\<forall>t t1. I t \<longrightarrow> body os t = Some (Inr None, t1) \<longrightarrow> I t1"
    obtain r1 s1 where b: "body os s = Some (r1, s1)"
      and k: "(case r1 of Inl e \<Rightarrow> Some (Inl e, s1) | Inr None \<Rightarrow> loop body os s1
        | Inr (Some x) \<Rightarrow> Some (Inr x, s1)) = Some y"
      using eq by (auto simp: bind_eq_Some_conv)
    show "\<exists>t. I t \<and> body os t = Some (map_sum id Some (fst y), snd y)"
    proof (cases "r1 = Inr None")
      case True
      then have lp: "loop body os s1 = Some y" and "I s1" using k b I by auto
      with IH [OF lp, THEN spec, of I] I(2) show ?thesis by blast
    next
      case False
      then have "r1 = map_sum id Some (fst y)" "s1 = snd y"
        using k by (auto split: sum.splits option.splits)
      with b I(1) show ?thesis by blast
    qed
  qed
  then have "I s \<longrightarrow> (\<forall>t t1. I t \<longrightarrow> body os t = Some (Inr None, t1) \<longrightarrow> I t1) \<longrightarrow>
     (\<exists>t. I t \<and> body os t = Some (map_sum id Some r, s'))"
    by (auto dest: spec [of _ I])
  with assms(2,3) that show ?thesis by blast
qed

lemma loopS_SomeE:
  fixes body :: "'a \<Rightarrow> ('b, 'c, 'a + 'd) prog"
  assumes ret: "loopS body x os s = Some (r, s')" and "I x s"
    and "\<And>y t z t1. I y t \<Longrightarrow> body y os t = Some (Inr (Inl z), t1) \<Longrightarrow> I z t1"
  obtains y t where "I y t" and "body y os t = Some (map_sum id Inr r, s')"
proof -
  define inv where "inv I body os \<longleftrightarrow> (\<forall>y t z t1. I y t \<longrightarrow> body y os t = Some (Inr (Inl z), t1) \<longrightarrow> I z t1)"
    for I :: "'a \<Rightarrow> ('b, 'c) st \<Rightarrow> bool" and body :: "'a \<Rightarrow> ('b, 'c, 'a + 'd) prog" and os
  define goal where "goal body os p q \<longleftrightarrow> (\<forall>I. I (fst p) (snd p) \<longrightarrow> inv I body os \<longrightarrow>
      (\<exists>y t. I y t \<and> body y os t = Some (map_sum id Inr (fst q), snd q)))"
    for body :: "'a \<Rightarrow> ('b, 'c, 'a + 'd) prog" and os p q
  have "goal body os (x, s) (r, s')"
  proof (rule loopP.raw_induct [where P = goal, OF _ ret [unfolded loopS_def]])
    fix loop :: "('a \<Rightarrow> ('b, 'c, 'a + 'd) prog) \<Rightarrow> 'b os \<Rightarrow> 'a \<times> ('b, 'c) st \<Rightarrow> ((exn + 'd) \<times> ('b, 'c) st) option"
      and body :: "'a \<Rightarrow> ('b, 'c, 'a + 'd) prog" and os p q
    assume IH: "\<And>body os p q. loop body os p = Some q \<Longrightarrow> goal body os p q"
      and eq: "Option.bind (body (fst p) os (snd p)) (\<lambda>(r, s'). case r of Inl e \<Rightarrow> Some (Inl e, s')
        | Inr (Inl y) \<Rightarrow> loop body os (y, s') | Inr (Inr a) \<Rightarrow> Some (Inr a, s')) = Some q"
    obtain r1 s1 where b: "body (fst p) os (snd p) = Some (r1, s1)"
      and k: "(case r1 of Inl e \<Rightarrow> Some (Inl e, s1) | Inr (Inl y) \<Rightarrow> loop body os (y, s1)
        | Inr (Inr a) \<Rightarrow> Some (Inr a, s1)) = Some q"
      using eq by (auto simp: bind_eq_Some_conv)
    show "goal body os p q"
      unfolding goal_def
    proof (intro allI impI)
      fix I
      assume I: "I (fst p) (snd p)" and inv: "inv I body os"
      show "\<exists>y t. I y t \<and> body y os t = Some (map_sum id Inr (fst q), snd q)"
      proof (cases "\<exists>z. r1 = Inr (Inl z)")
        case True
        then obtain z where z: "r1 = Inr (Inl z)" by blast
        then have "loop body os (z, s1) = Some q" and "I z s1" using k b I inv by (auto simp: inv_def)
        with IH inv show ?thesis unfolding goal_def by (metis fst_conv snd_conv)
      next
        case False
        then have "r1 = map_sum id Inr (fst q)" "s1 = snd q" using k by (auto split: sum.splits)
        with b I show ?thesis by blast
      qed
    qed
  qed
  moreover have "inv I body os" using assms(3) by (auto simp: inv_def)
  ultimately show ?thesis using assms(2) that by (auto simp: goal_def)
qed

lemma prim_SomeE:
  assumes "prim ev f os s = Some (r, s')"
  obtains w where "f os (world s) = (r, w)" and "s' = s\<lparr>world := w, trace := trace s @ [ev r]\<rparr>"
  using assms by (auto simp: prim_def split: prod.splits)

lemma prim_globals: "prim ev f os s = Some (r, s') \<Longrightarrow> globals s' = globals s"
  by (erule prim_SomeE) simp

lemma catch_any_Inr:
  assumes "catchM m (on_any (\<lambda>e. returnM (h e))) os s = Some (Inr v, s')"
  shows "m os s = Some (Inr v, s') \<or> (\<exists>e. m os s = Some (Inl e, s') \<and> v = h e)"
  using assms by (cases rule: catchM_SomeE) (auto simp: on_any_def run_simps split: exn.splits)


section \<open>What a program adds to the trace\<close>

text \<open>
  \<open>emits os P m\<close>: whenever \<open>m\<close> ends, normally or with an exception, it has appended to the trace,
  and every event it appended satisfies \<open>P\<close>.
\<close>

definition emits :: "'w os \<Rightarrow> (event \<Rightarrow> bool) \<Rightarrow> ('w, 'g, 'a) prog \<Rightarrow> bool" where
  "emits os P m \<longleftrightarrow> (\<forall>s r s'. m os s = Some (r, s') \<longrightarrow>
     (\<exists>es. trace s' = trace s @ es \<and> list_all P es))"

lemma emitsI:
  "(\<And>s r s'. m os s = Some (r, s') \<Longrightarrow> \<exists>es. trace s' = trace s @ es \<and> list_all P es) \<Longrightarrow> emits os P m"
  by (auto simp: emits_def)

lemma emitsD:
  assumes "emits os P m" and "m os s = Some (r, s')"
  obtains es where "trace s' = trace s @ es" and "list_all P es"
  using assms unfolding emits_def by blast

lemma emits_mono: "emits os P m \<Longrightarrow> (\<And>e. P e \<Longrightarrow> Q e) \<Longrightarrow> emits os Q m"
  unfolding emits_def by (metis list.pred_mono_strong)

lemma emits_trans:
  "trace s1 = trace s @ es \<Longrightarrow> list_all P es \<Longrightarrow> \<exists>fs. trace s2 = trace s1 @ fs \<and> list_all P fs \<Longrightarrow>
     \<exists>gs. trace s2 = trace s @ gs \<and> list_all P gs"
  by auto

lemma emits_silent [emits_intros]:
  "emits os P (returnM a)" "emits os P (raiseM e)" "emits os P (liftE r)"
  "emits os P (getenv k)" "emits os P getG" "emits os P (modG g)" "emits os P (assertM msg b)"
  "emits os P (py_loads t)"
  by (auto simp: emits_def run_simps assertM_def py_loads_def)

lemma emits_bindM [emits_intros]:
  assumes "emits os P m" and "\<And>a. emits os P (f a)"
  shows "emits os P (bindM m f)"
proof (rule emitsI)
  fix s r s'
  assume "bindM m f os s = Some (r, s')"
  then show "\<exists>es. trace s' = trace s @ es \<and> list_all P es"
  proof (cases rule: bindM_SomeE)
    case (1 e)
    with assms(1) show ?thesis by (auto elim: emitsD)
  next
    case (2 a s1)
    from assms(1) 2(1) obtain es where "trace s1 = trace s @ es" "list_all P es" by (rule emitsD)
    then show ?thesis
      by (rule emits_trans) (use assms(2) 2(2) in \<open>auto simp: emits_def\<close>)
  qed
qed

lemma emits_thenM [emits_intros]: "emits os P m \<Longrightarrow> emits os P n \<Longrightarrow> emits os P (thenM m n)"
  by (simp add: thenM_def emits_bindM)

lemma emits_ign [emits_intros]: "emits os P m \<Longrightarrow> emits os P (ign m)"
  by (simp add: ign_def emits_bindM emits_silent)

lemma emits_block [emits_intros]: "list_all (emits os P) ms \<Longrightarrow> emits os P (block ms)"
  by (induction ms) (auto intro: emits_intros)

lemma emits_whenM [emits_intros]: "(b \<Longrightarrow> emits os P m) \<Longrightarrow> emits os P (whenM b m)"
  by (simp add: whenM_def emits_silent)

lemma emits_if [emits_intros]:
  "(b \<Longrightarrow> emits os P m) \<Longrightarrow> (\<not> b \<Longrightarrow> emits os P n) \<Longrightarrow> emits os P (if b then m else n)"
  by simp

lemma emits_case_option [emits_intros]:
  "(x = None \<Longrightarrow> emits os P m) \<Longrightarrow> (\<And>y. x = Some y \<Longrightarrow> emits os P (f y)) \<Longrightarrow>
     emits os P (case x of None \<Rightarrow> m | Some y \<Rightarrow> f y)"
  by (cases x) auto

lemma emits_case_prod [emits_intros]:
  "(\<And>a b. x = (a, b) \<Longrightarrow> emits os P (f a b)) \<Longrightarrow> emits os P (case x of (a, b) \<Rightarrow> f a b)"
  by (cases x) auto

lemma emits_let [emits_intros]: "(\<And>x. x = a \<Longrightarrow> emits os P (f x)) \<Longrightarrow> emits os P (let x = a in f x)"
  by simp

lemma emits_catchM:
  assumes "emits os P m" and "\<And>e p. h e = Some p \<Longrightarrow> emits os P p"
  shows "emits os P (catchM m h)"
proof (rule emitsI)
  fix s r s'
  assume "catchM m h os s = Some (r, s')"
  then show "\<exists>es. trace s' = trace s @ es \<and> list_all P es"
  proof (cases rule: catchM_SomeE)
    case 1
    with assms(1) show ?thesis by (auto elim: emitsD)
  next
    case (2 e s1 p)
    from assms(1) 2(1) obtain es where "trace s1 = trace s @ es" "list_all P es" by (rule emitsD)
    then show ?thesis
      by (rule emits_trans) (use assms(2) [OF 2(2)] 2(3) in \<open>auto simp: emits_def\<close>)
  qed
qed

lemma emits_handlers [emits_intros]:
  "emits os P m \<Longrightarrow> (\<And>e. emits os P (f e)) \<Longrightarrow> emits os P (catchM m (on_any f))"
  "emits os P m \<Longrightarrow> (\<And>c b. emits os P (g c b)) \<Longrightarrow> emits os P (catchM m (on_HTTPError g))"
  "emits os P m \<Longrightarrow> emits os P q \<Longrightarrow> emits os P (catchM m (on_TimeoutExpired q))"
  "emits os P m \<Longrightarrow> (\<And>x. emits os P (h x)) \<Longrightarrow> emits os P (catchM m (on_RuntimeError h))"
  "emits os P m \<Longrightarrow> emits os P q \<Longrightarrow> emits os P (catchM m (on_OSError q))"
  by (rule emits_catchM; auto simp: on_simps dest!: on_simps(3) [rule_format])+

lemma emits_finallyM [emits_intros]:
  assumes "emits os P m" and "emits os P c"
  shows "emits os P (finallyM m c)"
proof (rule emitsI)
  fix s r s'
  assume "finallyM m c os s = Some (r, s')"
  then obtain r1 s1 rc where "m os s = Some (r1, s1)" and c: "c os s1 = Some (rc, s')"
    by (rule finallyM_SomeE)
  with assms(1) obtain es where "trace s1 = trace s @ es" "list_all P es" by (auto elim: emitsD)
  then show "\<exists>es. trace s' = trace s @ es \<and> list_all P es"
    by (rule emits_trans) (use assms(2) c in \<open>auto simp: emits_def\<close>)
qed

lemma emits_forM [emits_intros]: "(\<And>x. x \<in> set xs \<Longrightarrow> emits os P (f x)) \<Longrightarrow> emits os P (forM xs f)"
  by (induction xs) (auto intro: emits_intros)

lemma emits_mapM [emits_intros]: "(\<And>x. x \<in> set xs \<Longrightarrow> emits os P (f x)) \<Longrightarrow> emits os P (mapM xs f)"
  by (induction xs) (auto intro!: emits_intros)

lemma emits_anyM [emits_intros]:
  "(\<And>x. x \<in> set xs \<Longrightarrow> emits os P (f x)) \<Longrightarrow> emits os P (anyM f xs)"
  "(\<And>x. x \<in> set xs \<Longrightarrow> emits os P (f x)) \<Longrightarrow> emits os P (everyM f xs)"
  by (induction xs) (auto intro!: emits_intros)

lemma emits_repeatM [emits_intros]:
  "emits os P body \<Longrightarrow> emits os P els \<Longrightarrow> emits os P (repeatM n body els)"
  by (induction n) (auto intro!: emits_intros)

lemma emits_loopM [emits_intros]:
  assumes "emits os P body"
  shows "emits os P (loopM body)"
proof (rule emitsI)
  fix s r s'
  assume "loopM body os s = Some (r, s')"
  then show "\<exists>es. trace s' = trace s @ es \<and> list_all P es"
  proof (rule loopM_SomeE [where I = "\<lambda>t. \<exists>es. trace t = trace s @ es \<and> list_all P es"])
    fix t t1
    assume "\<exists>es. trace t = trace s @ es \<and> list_all P es" and "body os t = Some (Inr None, t1)"
    then show "\<exists>es. trace t1 = trace s @ es \<and> list_all P es"
      using assms by (elim exE conjE emitsD [OF assms]) auto
  next
    fix t
    assume "\<exists>es. trace t = trace s @ es \<and> list_all P es" and "body os t = Some (map_sum id Some r, s')"
    then show ?thesis
      using assms by (elim exE conjE emitsD [OF assms]) auto
  qed simp
qed

lemma emits_loopS [emits_intros]:
  assumes "\<And>x. emits os P (body x)"
  shows "emits os P (loopS body x)"
proof (rule emitsI)
  fix s r s'
  assume "loopS body x os s = Some (r, s')"
  then obtain y t where "\<exists>es. trace t = trace s @ es \<and> list_all P es"
    and "body y os t = Some (map_sum id Inr r, s')"
  proof (rule loopS_SomeE [where I = "\<lambda>_ t. \<exists>es. trace t = trace s @ es \<and> list_all P es"])
    fix y t z t1
    assume "\<exists>es. trace t = trace s @ es \<and> list_all P es" and "body y os t = Some (Inr (Inl z), t1)"
    then show "\<exists>es. trace t1 = trace s @ es \<and> list_all P es"
      by (elim exE conjE emitsD [OF assms]) auto
  qed simp_all
  then show "\<exists>es. trace s' = trace s @ es \<and> list_all P es"
    by (elim exE conjE emitsD [OF assms]) auto
qed

lemma emits_prim: "(\<And>r. P (ev r)) \<Longrightarrow> emits os P (prim ev f)"
  by (rule emitsI) (auto elim!: prim_SomeE)

lemma emits_prims [emits_intros]:
  "(\<And>r. P (Ran args input r)) \<Longrightarrow> emits os P (run_process args input tmo)"
  "(\<And>r. P (Clock r)) \<Longrightarrow> emits os P monotonic"
  "P (Slept ms) \<Longrightarrow> emits os P (sleep ms)"
  "P (Wrote path t) \<Longrightarrow> emits os P (write_text path t)"
  "P (Appended path t) \<Longrightarrow> emits os P (append_text path t)"
  "(\<And>r. P (ReadFile path r)) \<Longrightarrow> emits os P (read_text path)"
  "P (MadeDir path) \<Longrightarrow> emits os P (mkdir path)"
  "P (Unlinked path) \<Longrightarrow> emits os P (unlink path)"
  "P (Printed t) \<Longrightarrow> emits os P (py_print t)"
  "(\<And>r. P (Spawned args r)) \<Longrightarrow> emits os P (popen args)"
  "P (Terminated p) \<Longrightarrow> emits os P (terminate p)"
  "(\<And>r. P (Waited p r)) \<Longrightarrow> emits os P (wait_process p tmo)"
  "P (Killed p) \<Longrightarrow> emits os P (kill_process p)"
  "(\<And>r. P (Opened meth url r)) \<Longrightarrow> emits os P (urlopen meth url n)"
  "(\<And>r. P (ReadLine h r)) \<Longrightarrow> emits os P (readline h)"
  "(\<And>r. P (ReadAll h r)) \<Longrightarrow> emits os P (read_all h)"
  "(\<And>r. P (WallClock fmt r)) \<Longrightarrow> emits os P (wallclock fmt)"
  "(\<And>r. P (Polled p r)) \<Longrightarrow> emits os P (poll_process p)"
  "(\<And>r. P (Connected port r)) \<Longrightarrow> emits os P (connect port)"
  "(\<And>r. P (Chmod path perm r)) \<Longrightarrow> emits os P (chmod path perm)"
  by (auto simp: prim_defs intro!: emits_prim)

text \<open>Every program only appends to the trace, so what was recorded stays recorded.\<close>

lemma emits_extends: "emits os P m \<Longrightarrow> m os s = Some (r, s') \<Longrightarrow> set (trace s) \<subseteq> set (trace s')"
  by (auto elim!: emitsD)


section \<open>What a normal return says of the trace\<close>

text \<open>
  \<open>wp os m Q es\<close>: when \<open>m\<close> starts with the trace \<open>es\<close> and returns a value \<open>v\<close> normally, \<open>Q v\<close> holds of the
  trace then. The rules walk through a script from its first statement on and leave what the
  script has observed and checked as premises. A program treated as a whole goes by \<open>wp_frame\<close>.
\<close>

definition wp :: "'w os \<Rightarrow> ('w, 'g, 'a) prog \<Rightarrow> ('a \<Rightarrow> event list \<Rightarrow> bool) \<Rightarrow> event list \<Rightarrow> bool" where
  "wp os m Q es \<longleftrightarrow> (\<forall>s v s'. trace s = es \<longrightarrow> m os s = Some (Inr v, s') \<longrightarrow> Q v (trace s'))"

lemma wpD: "wp os m Q (trace s) \<Longrightarrow> m os s = Some (Inr v, s') \<Longrightarrow> Q v (trace s')"
  by (simp add: wp_def)

lemma wp_conseq: "wp os m Q es \<Longrightarrow> (\<And>v fs. Q v fs \<Longrightarrow> R v fs) \<Longrightarrow> wp os m R es"
  by (simp add: wp_def)

lemma wp_conj: "wp os m Q es \<Longrightarrow> wp os m R es \<Longrightarrow> wp os m (\<lambda>v fs. Q v fs \<and> R v fs) es"
  by (simp add: wp_def)

lemma wp_frame: "emits os (\<lambda>_. True) m \<Longrightarrow> (\<And>v fs. Q v (es @ fs)) \<Longrightarrow> wp os m Q es"
  unfolding wp_def by (metis emitsD)

lemma wp_emits: "emits os P m \<Longrightarrow> (\<And>v fs. list_all P fs \<Longrightarrow> Q v (es @ fs)) \<Longrightarrow> wp os m Q es"
  unfolding wp_def by (metis emitsD)

lemma wp_phase:
  assumes "emits os (\<lambda>_. True) m" and "wp os m (\<lambda>_ gs. P gs) es" and "\<And>v fs. P (es @ fs) \<Longrightarrow> Q v (es @ fs)"
  shows "wp os m Q es"
  unfolding wp_def
proof (intro allI impI)
  fix s v s'
  assume es: "trace s = es" and m: "m os s = Some (Inr v, s')"
  from assms(1) m obtain fs where "trace s' = trace s @ fs" by (rule emitsD)
  with assms(2,3) es m show "Q v (trace s')" by (auto simp: wp_def)
qed

lemma wp_bindM [wp_intros]: "wp os m (\<lambda>a fs. wp os (f a) Q fs) es \<Longrightarrow> wp os (bindM m f) Q es"
  unfolding wp_def by (metis bindM_InrE)

lemma wp_thenM [wp_intros]: "wp os m (\<lambda>_ fs. wp os n Q fs) es \<Longrightarrow> wp os (thenM m n) Q es"
  by (simp add: thenM_def wp_bindM)

lemma wp_returnM [wp_intros]: "Q a es \<Longrightarrow> wp os (returnM a) Q es"
  by (simp add: wp_def returnM_def)

lemma wp_ign [wp_intros]: "wp os m (\<lambda>_ fs. Q () fs) es \<Longrightarrow> wp os (ign m) Q es"
  unfolding ign_def by (rule wp_bindM) (auto elim!: wp_conseq intro: wp_returnM)

lemma wp_silent [wp_intros]:
  "wp os (raiseM e) Q0 es"
  "(\<And>v. r = Inr v \<Longrightarrow> Q1 v es) \<Longrightarrow> wp os (liftE r) Q1 es"
  "(\<And>v. loads t = Inr v \<Longrightarrow> Q2 v es) \<Longrightarrow> wp os (py_loads t) Q2 es"
  "(b \<Longrightarrow> Q () es) \<Longrightarrow> wp os (assertM msg b) Q es"
  "Q3 (environ os k) es \<Longrightarrow> wp os (getenv k) Q3 es"
  "(\<And>g. Q4 g es) \<Longrightarrow> wp os getG Q4 es"
  "Q () es \<Longrightarrow> wp os (modG h) Q es"
  by (auto simp: wp_def run_simps assertM_def py_loads_def split: if_splits)

lemma wp_branch [wp_intros]:
  "(b \<Longrightarrow> wp os m Q es) \<Longrightarrow> (\<not> b \<Longrightarrow> wp os n Q es) \<Longrightarrow> wp os (if b then m else n) Q es"
  "(b \<Longrightarrow> wp os u R es) \<Longrightarrow> (\<not> b \<Longrightarrow> R () es) \<Longrightarrow> wp os (whenM b u) R es"
  "(x = None \<Longrightarrow> wp os m Q es) \<Longrightarrow> (\<And>y. x = Some y \<Longrightarrow> wp os (f y) Q es) \<Longrightarrow>
     wp os (case x of None \<Rightarrow> m | Some y \<Rightarrow> f y) Q es"
  "(\<And>a b. p = (a, b) \<Longrightarrow> wp os (h a b) Q es) \<Longrightarrow> wp os (case p of (a, b) \<Rightarrow> h a b) Q es"
  "(\<And>z. z = t \<Longrightarrow> wp os (l z) Q es) \<Longrightarrow> wp os (let z = t in l z) Q es"
  by (auto simp: whenM_def wp_returnM split: option.splits prod.splits)

lemma wp_prim: "(\<And>v. Q v (es @ [ev (Inr v)])) \<Longrightarrow> wp os (prim ev f) Q es"
  by (auto simp: wp_def elim!: prim_SomeE)

lemma wp_prims [wp_intros]:
  "(\<And>r. Q1 r (es @ [Ran args input (Inr r)])) \<Longrightarrow> wp os (run_process args input tmo) Q1 es"
  "(\<And>t. Q2 t (es @ [Clock (Inr t)])) \<Longrightarrow> wp os monotonic Q2 es"
  "Q () (es @ [Slept ms]) \<Longrightarrow> wp os (sleep ms) Q es"
  "Q () (es @ [Wrote path x]) \<Longrightarrow> wp os (write_text path x) Q es"
  "Q () (es @ [Appended path x]) \<Longrightarrow> wp os (append_text path x) Q es"
  "(\<And>x. Q3 x (es @ [ReadFile path (Inr x)])) \<Longrightarrow> wp os (read_text path) Q3 es"
  "Q () (es @ [MadeDir path]) \<Longrightarrow> wp os (mkdir path) Q es"
  "Q () (es @ [Unlinked path]) \<Longrightarrow> wp os (unlink path) Q es"
  "Q () (es @ [Printed x]) \<Longrightarrow> wp os (py_print x) Q es"
  "(\<And>p. Q4 p (es @ [Spawned args (Inr p)])) \<Longrightarrow> wp os (popen args) Q4 es"
  "Q () (es @ [Terminated p]) \<Longrightarrow> wp os (terminate p) Q es"
  "Q () (es @ [Waited p (Inr ())]) \<Longrightarrow> wp os (wait_process p tmo2) Q es"
  "Q () (es @ [Killed p]) \<Longrightarrow> wp os (kill_process p) Q es"
  by (auto simp: prim_defs intro!: wp_prim)

lemma wp_reads [wp_intros]:
  "(\<And>l. Q2 l (es @ [WallClock fmt (Inr l)])) \<Longrightarrow> wp os (wallclock fmt) Q2 es"
  "(\<And>l. Q3 l (es @ [Polled p (Inr l)])) \<Longrightarrow> wp os (poll_process p) Q3 es"
  "Q () (es @ [Connected port (Inr ())]) \<Longrightarrow> wp os (connect port) Q es"
  "Q () (es @ [Chmod path perm (Inr ())]) \<Longrightarrow> wp os (chmod path perm) Q es"
  "(\<And>st h. Q1 (st, h) (es @ [Opened md url (Inr (st, h))])) \<Longrightarrow> wp os (urlopen md url n) Q1 es"
  "(\<And>l. Q2 l (es @ [ReadLine h (Inr l)])) \<Longrightarrow> wp os (readline h) Q2 es"
  "(\<And>l. Q2 l (es @ [ReadAll h (Inr l)])) \<Longrightarrow> wp os (read_all h) Q2 es"
  by (auto simp: prim_defs intro!: wp_prim)

lemma wp_finallyM [wp_intros]:
  "wp os m (\<lambda>v fs. wp os c (\<lambda>_ gs. Q v gs) fs) es \<Longrightarrow> wp os (finallyM m c) Q es"
  unfolding wp_def by (auto elim!: finallyM_SomeE split: sum.splits)

lemma wp_catchM:
  assumes "emits os (\<lambda>_. True) m" and "wp os m Q es" and "\<And>e p fs. h e = Some p \<Longrightarrow> wp os p Q (es @ fs)"
  shows "wp os (catchM m h) Q es"
  unfolding wp_def
proof (intro allI impI)
  fix s v s'
  assume es: "trace s = es" and "catchM m h os s = Some (Inr v, s')"
  from this(2) show "Q v (trace s')"
  proof (cases rule: catchM_SomeE)
    case 1
    with assms(2) es show ?thesis by (auto simp: wp_def)
  next
    case (2 e s1 p)
    from assms(1) 2(1) obtain fs where "trace s1 = trace s @ fs" by (rule emitsD)
    with assms(3) [OF 2(2)] 2(3) es show ?thesis by (auto simp: wp_def)
  qed
qed

lemma wp_handlers [wp_intros]:
  "emits os (\<lambda>_. True) m \<Longrightarrow> wp os m Q es \<Longrightarrow> (\<And>e fs. wp os (f e) Q (es @ fs)) \<Longrightarrow> wp os (catchM m (on_any f)) Q es"
  "emits os (\<lambda>_. True) m \<Longrightarrow> wp os m Q es \<Longrightarrow> (\<And>c b fs. wp os (g c b) Q (es @ fs)) \<Longrightarrow>
     wp os (catchM m (on_HTTPError g)) Q es"
  "emits os (\<lambda>_. True) m \<Longrightarrow> wp os m Q es \<Longrightarrow> (\<And>fs. wp os q Q (es @ fs)) \<Longrightarrow>
     wp os (catchM m (on_TimeoutExpired q)) Q es"
  "emits os (\<lambda>_. True) m \<Longrightarrow> wp os m Q es \<Longrightarrow> (\<And>x fs. wp os (h x) Q (es @ fs)) \<Longrightarrow>
     wp os (catchM m (on_RuntimeError h)) Q es"
  "emits os (\<lambda>_. True) m \<Longrightarrow> wp os m Q es \<Longrightarrow> (\<And>fs. wp os q Q (es @ fs)) \<Longrightarrow>
     wp os (catchM m (on_OSError q)) Q es"
  by (rule wp_catchM; auto simp: on_simps dest!: on_simps(3) [rule_format])+

lemma wp_loopS:
  assumes "I x es" and "\<And>y fs. I y fs \<Longrightarrow> wp os (body y) (\<lambda>r gs. case r of Inl z \<Rightarrow> I z gs | Inr v \<Rightarrow> Q v gs) fs"
  shows "wp os (loopS body x) Q es"
  unfolding wp_def
proof (intro allI impI)
  fix s v s'
  assume es: "trace s = es" and "loopS body x os s = Some (Inr v, s')"
  from this(2) obtain y t where "I y (trace t)" and "body y os t = Some (map_sum id Inr (Inr v), s')"
  proof (rule loopS_SomeE [where I = "\<lambda>y t. I y (trace t)"])
    fix y t z t1
    assume "I y (trace t)" and "body y os t = Some (Inr (Inl z), t1)"
    then show "I z (trace t1)" using assms(2) [of y "trace t"] by (auto simp: wp_def)
  qed (use assms(1) es in simp_all)
  then show "Q v (trace s')" using assms(2) [of y "trace t"] by (auto simp: wp_def)
qed

lemma wp_loopM:
  assumes "emits os (\<lambda>_. True) body"
    and "\<And>fs. wp os body (\<lambda>r gs. case r of None \<Rightarrow> True | Some v \<Rightarrow> Q v gs) (es @ fs)"
  shows "wp os (loopM body) Q es"
  unfolding wp_def
proof (intro allI impI)
  fix s v s'
  assume es: "trace s = es" and "loopM body os s = Some (Inr v, s')"
  from this(2) show "Q v (trace s')"
  proof (rule loopM_SomeE [where I = "\<lambda>t. \<exists>fs. trace t = es @ fs"])
    show "\<exists>fs. trace s = es @ fs" using es by simp
  next
    fix t t1
    assume "\<exists>fs. trace t = es @ fs" and "body os t = Some (Inr None, t1)"
    then show "\<exists>fs. trace t1 = es @ fs" by (elim exE emitsD [OF assms(1)]) auto
  next
    fix t
    assume "\<exists>fs. trace t = es @ fs" and "body os t = Some (map_sum id Some (Inr v), s')"
    then show ?thesis using assms(2) by (fastforce simp: wp_def)
  qed
qed

end
