(* ===== verification/Polling.thy ===== *)
theory Polling
  imports PyProg
begin

text \<open>
  Programs that end, and the polling loop every harness of the repository has:
  read the clock, run the check, sleep, until the check succeeds or the deadline has passed.

  Whether such a loop ends depends on the clock, so its theorems assume \<open>clock_ok os now\<close>: reading
  the clock returns \<open>now\<close>, \<^verbatim>\<open>time.sleep(d)\<close> lets at least \<open>d\<close> pass (guaranteed since Python 3.5)
  and no other call turns the monotonic clock back. The locale \<open>poller\<close> is the contract of the
  harnesses' own \<^verbatim>\<open>wait\<close> functions; each harness theory interprets it.
\<close>

section \<open>Programs that end under a clock that advances\<close>

definition clock_ok :: "'w os \<Rightarrow> ('w \<Rightarrow> int) \<Rightarrow> bool" where
  "clock_ok os now \<longleftrightarrow>
     (\<forall>w. fst (os_monotonic os w) = Inr (now w) \<and> now w \<le> now (snd (os_monotonic os w))) \<and>
     (\<forall>d w. 0 \<le> d \<longrightarrow> fst (os_sleep os d w) = Inr () \<and> now w + d \<le> now (snd (os_sleep os d w))) \<and>
     (\<forall>a i t w. now w \<le> now (snd (os_run os a i t w))) \<and>
     (\<forall>p t w. now w \<le> now (snd (os_write os p t w))) \<and>
     (\<forall>p t w. now w \<le> now (snd (os_append os p t w))) \<and>
     (\<forall>p w. now w \<le> now (snd (os_read os p w))) \<and>
     (\<forall>p w. now w \<le> now (snd (os_mkdir os p w))) \<and>
     (\<forall>p w. now w \<le> now (snd (os_unlink os p w))) \<and>
     (\<forall>t w. now w \<le> now (snd (os_print os t w))) \<and>
     (\<forall>a w. now w \<le> now (snd (os_spawn os a w))) \<and>
     (\<forall>p w. now w \<le> now (snd (os_terminate os p w))) \<and>
     (\<forall>p t w. now w \<le> now (snd (os_waitproc os p t w))) \<and>
     (\<forall>p w. now w \<le> now (snd (os_kill os p w))) \<and>
     (\<forall>m u t w. now w \<le> now (snd (os_urlopen os m u t w))) \<and>
     (\<forall>h w. now w \<le> now (snd (os_readline os h w))) \<and>
     (\<forall>h w. now w \<le> now (snd (os_readall os h w))) \<and>
     (\<forall>f w. now w \<le> now (snd (os_wallclock os f w))) \<and>
     (\<forall>p w. now w \<le> now (snd (os_pollproc os p w))) \<and>
     (\<forall>p w. now w \<le> now (snd (os_connect os p w))) \<and>
     (\<forall>p m w. now w \<le> now (snd (os_chmod os p m w)))"

definition runs :: "'w os \<Rightarrow> ('w \<Rightarrow> int) \<Rightarrow> ('w, 'g, 'a) prog \<Rightarrow> bool" where
  "runs os now m \<longleftrightarrow> (\<forall>s. \<exists>r s'. m os s = Some (r, s') \<and> now (world s) \<le> now (world s'))"

lemma runsE:
  assumes "runs os now m"
  obtains r s' where "m os s = Some (r, s')" and "now (world s) \<le> now (world s')"
  using assms unfolding runs_def by blast

lemma runs_returns: "runs os now m \<Longrightarrow> m os s \<noteq> None"
  by (erule runsE [of os now m s]) simp

lemma runs_forward: "runs os now m \<Longrightarrow> m os s = Some (r, s') \<Longrightarrow> now (world s) \<le> now (world s')"
  unfolding runs_def by (metis option.inject prod.inject)

lemma runs_silent [runs_intros]:
  "runs os now (returnM a)" "runs os now (raiseM e)" "runs os now (liftE r)"
  "runs os now (getenv k)" "runs os now getG" "runs os now (modG g)" "runs os now (assertM msg b)"
  "runs os now (py_loads t)"
  by (auto simp: runs_def run_simps assertM_def py_loads_def)

lemma runs_bindM [runs_intros]:
  assumes "runs os now m" and "\<And>a. runs os now (f a)"
  shows "runs os now (bindM m f)"
  unfolding runs_def
proof
  fix s
  obtain r s1 where m: "m os s = Some (r, s1)" "now (world s) \<le> now (world s1)"
    using assms(1) by (rule runsE)
  show "\<exists>r s'. bindM m f os s = Some (r, s') \<and> now (world s) \<le> now (world s')"
  proof (cases r)
    case (Inl e)
    with m show ?thesis by (simp add: bindM_def)
  next
    case (Inr a)
    obtain r2 s2 where "f a os s1 = Some (r2, s2)" "now (world s1) \<le> now (world s2)"
      using assms(2) by (rule runsE)
    with m Inr show ?thesis by (auto simp: bindM_def)
  qed
qed

lemma runs_thenM [runs_intros]: "runs os now m \<Longrightarrow> runs os now n \<Longrightarrow> runs os now (thenM m n)"
  by (simp add: thenM_def runs_bindM)

lemma runs_ign [runs_intros]: "runs os now m \<Longrightarrow> runs os now (ign m)"
  by (simp add: ign_def runs_bindM runs_silent)

lemma runs_block [runs_intros]: "list_all (runs os now) ms \<Longrightarrow> runs os now (block ms)"
  by (induction ms) (auto intro: runs_intros)

lemma runs_whenM [runs_intros]: "(b \<Longrightarrow> runs os now m) \<Longrightarrow> runs os now (whenM b m)"
  by (simp add: whenM_def runs_silent)

lemma runs_if [runs_intros]:
  "(b \<Longrightarrow> runs os now m) \<Longrightarrow> (\<not> b \<Longrightarrow> runs os now n) \<Longrightarrow> runs os now (if b then m else n)"
  by simp

lemma runs_case_option [runs_intros]:
  "(x = None \<Longrightarrow> runs os now m) \<Longrightarrow> (\<And>y. x = Some y \<Longrightarrow> runs os now (f y)) \<Longrightarrow>
     runs os now (case x of None \<Rightarrow> m | Some y \<Rightarrow> f y)"
  by (cases x) auto

lemma runs_case_prod [runs_intros]:
  "(\<And>a b. x = (a, b) \<Longrightarrow> runs os now (f a b)) \<Longrightarrow> runs os now (case x of (a, b) \<Rightarrow> f a b)"
  by (cases x) auto

lemma runs_let [runs_intros]: "(\<And>x. x = a \<Longrightarrow> runs os now (f x)) \<Longrightarrow> runs os now (let x = a in f x)"
  by simp

lemma runs_catchM:
  assumes "runs os now m" and "\<And>e p. h e = Some p \<Longrightarrow> runs os now p"
  shows "runs os now (catchM m h)"
  unfolding runs_def
proof
  fix s
  obtain r s1 where m: "m os s = Some (r, s1)" "now (world s) \<le> now (world s1)"
    using assms(1) by (rule runsE)
  show "\<exists>r s'. catchM m h os s = Some (r, s') \<and> now (world s) \<le> now (world s')"
  proof (cases "\<exists>e p. r = Inl e \<and> h e = Some p")
    case True
    then obtain e p where p: "r = Inl e" "h e = Some p" by blast
    obtain r2 s2 where "p os s1 = Some (r2, s2)" "now (world s1) \<le> now (world s2)"
      using assms(2) [OF p(2)] by (rule runsE)
    with m p show ?thesis by (auto simp: catchM_def)
  next
    case False
    with m show ?thesis by (auto simp: catchM_def split: sum.splits option.splits)
  qed
qed

lemma runs_handlers [runs_intros]:
  "runs os now m \<Longrightarrow> (\<And>e. runs os now (f e)) \<Longrightarrow> runs os now (catchM m (on_any f))"
  "runs os now m \<Longrightarrow> (\<And>c b. runs os now (g c b)) \<Longrightarrow> runs os now (catchM m (on_HTTPError g))"
  "runs os now m \<Longrightarrow> runs os now q \<Longrightarrow> runs os now (catchM m (on_TimeoutExpired q))"
  "runs os now m \<Longrightarrow> (\<And>x. runs os now (h x)) \<Longrightarrow> runs os now (catchM m (on_RuntimeError h))"
  "runs os now m \<Longrightarrow> runs os now q \<Longrightarrow> runs os now (catchM m (on_OSError q))"
  by (rule runs_catchM; auto simp: on_simps dest!: on_simps(3) [rule_format])+

lemma runs_finallyM [runs_intros]:
  assumes "runs os now m" and "runs os now c"
  shows "runs os now (finallyM m c)"
  unfolding runs_def
proof
  fix s
  obtain r s1 where m: "m os s = Some (r, s1)" "now (world s) \<le> now (world s1)"
    using assms(1) by (rule runsE)
  obtain r2 s2 where "c os s1 = Some (r2, s2)" "now (world s1) \<le> now (world s2)"
    using assms(2) by (rule runsE)
  with m show "\<exists>r s'. finallyM m c os s = Some (r, s') \<and> now (world s) \<le> now (world s')"
    by (auto simp: finallyM_def split: sum.splits)
qed

lemma runs_forM [runs_intros]: "(\<And>x. x \<in> set xs \<Longrightarrow> runs os now (f x)) \<Longrightarrow> runs os now (forM xs f)"
  by (induction xs) (auto intro: runs_intros)

lemma runs_mapM [runs_intros]: "(\<And>x. x \<in> set xs \<Longrightarrow> runs os now (f x)) \<Longrightarrow> runs os now (mapM xs f)"
  by (induction xs) (auto intro!: runs_intros)

lemma runs_anyM [runs_intros]:
  "(\<And>x. x \<in> set xs \<Longrightarrow> runs os now (f x)) \<Longrightarrow> runs os now (anyM f xs)"
  "(\<And>x. x \<in> set xs \<Longrightarrow> runs os now (f x)) \<Longrightarrow> runs os now (everyM f xs)"
  by (induction xs) (auto intro!: runs_intros)

lemma runs_repeatM [runs_intros]:
  "runs os now body \<Longrightarrow> runs os now els \<Longrightarrow> runs os now (repeatM n body els)"
  by (induction n) (auto intro!: runs_intros)

lemma runs_prim:
  assumes "\<And>w. now w \<le> now (snd (f os w))"
  shows "runs os now (prim ev f)"
  using assms by (auto simp: runs_def prim_def split: prod.splits) (metis snd_conv)

lemma runs_prims [runs_intros]:
  assumes "clock_ok os now"
  shows "runs os now (run_process args input rtmo)" "runs os now monotonic"
    "0 \<le> ms \<Longrightarrow> runs os now (sleep ms)"
    "runs os now (write_text path t)" "runs os now (append_text path t)" "runs os now (read_text path)"
    "runs os now (mkdir path)" "runs os now (unlink path)" "runs os now (py_print t)"
    "runs os now (popen args)" "runs os now (terminate p)" "runs os now (wait_process p tmo)"
    "runs os now (kill_process p)" "runs os now (urlopen meth url n)"
    "runs os now (readline h)" "runs os now (read_all h)"
    "runs os now (wallclock fmt)" "runs os now (poll_process p)" "runs os now (connect port)" "runs os now (chmod path perm)"
proof -
  have sl: "0 \<le> ms \<Longrightarrow> now w \<le> now (snd (os_sleep os ms w))" for w
    using assms unfolding clock_ok_def by (meson add_increasing2 order_refl order_trans)
  show "0 \<le> ms \<Longrightarrow> runs os now (sleep ms)"
    unfolding sleep_def by (rule runs_prim) (rule sl)
qed (use assms in \<open>simp_all add: prim_defs clock_ok_def runs_prim\<close>)

text \<open>A loop ends when every round that goes on starts before a deadline and takes a tick.\<close>

lemma runs_loopM:
  assumes "runs os now body"
    and "\<And>s s'. body os s = Some (Inr None, s') \<Longrightarrow> now (world s) < D \<and> now (world s) < now (world s')"
  shows "runs os now (loopM body)"
proof -
  have "\<exists>r s'. loopM body os s = Some (r, s') \<and> now (world s) \<le> now (world s')" for s
  proof (induction "nat (D - now (world s))" arbitrary: s rule: less_induct)
    case less
    obtain r s1 where b: "body os s = Some (r, s1)" "now (world s) \<le> now (world s1)"
      using assms(1) by (rule runsE)
    show ?case
    proof (cases "r = Inr None")
      case True
      with b have lt: "now (world s) < D" "now (world s) < now (world s1)" using assms(2) by auto
      then have "nat (D - now (world s1)) < nat (D - now (world s))" by auto
      from less [OF this] obtain r2 s2 where
        "loopM body os s1 = Some (r2, s2)" "now (world s1) \<le> now (world s2)" by blast
      then show ?thesis using b True by (subst loopM.simps) auto
    next
      case False
      then show ?thesis using b by (subst loopM.simps) (auto split: sum.splits option.splits)
    qed
  qed
  then show ?thesis by (simp add: runs_def)
qed

text \<open>A loop that uses up something, in its variables or in the world, with every round that goes on.\<close>

lemma runs_loopS:
  fixes \<mu> :: "'s \<Rightarrow> 'w \<Rightarrow> nat"
  assumes "\<And>x. runs os now (body x)"
    and "\<And>x s y s'. body x os s = Some (Inr (Inl y), s') \<Longrightarrow> \<mu> y (world s') < \<mu> x (world s)"
  shows "runs os now (loopS body x)"
proof -
  have "\<exists>r s'. loopS body x os s = Some (r, s') \<and> now (world s) \<le> now (world s')" for s
  proof (induction "\<mu> x (world s)" arbitrary: x s rule: less_induct)
    case less
    obtain r s1 where b: "body x os s = Some (r, s1)" "now (world s) \<le> now (world s1)"
      using assms(1) by (rule runsE)
    show ?case
    proof (cases "\<exists>y. r = Inr (Inl y)")
      case True
      then obtain y where y: "r = Inr (Inl y)" by blast
      with b have "\<mu> y (world s1) < \<mu> x (world s)" using assms(2) by blast
      from less [OF this] obtain r2 s2 where
        "loopS body y os s1 = Some (r2, s2)" "now (world s1) \<le> now (world s2)" by blast
      then show ?thesis using b y by (subst loopS_unfold) auto
    next
      case False
      then show ?thesis using b by (subst loopS_unfold) (auto split: sum.splits)
    qed
  qed
  then show ?thesis by (simp add: runs_def)
qed

text \<open>The same for a loop whose rounds end only in states that satisfy an invariant.\<close>

lemma loopS_ends:
  fixes now :: "'w \<Rightarrow> int" and \<mu> :: "'s \<Rightarrow> nat"
  assumes "I x s"
    and "\<And>x s. I x s \<Longrightarrow> \<exists>r s'. body x os s = Some (r, s') \<and> now (world s) \<le> now (world s') \<and>
      (\<forall>y. r = Inr (Inl y) \<longrightarrow> I y s' \<and> \<mu> y < \<mu> x)"
  shows "\<exists>r s'. loopS body x os s = Some (r, s') \<and> now (world s) \<le> now (world s')"
  using assms(1)
proof (induction "\<mu> x" arbitrary: x s rule: less_induct)
  case less
  obtain r s1 where b: "body x os s = Some (r, s1)" "now (world s) \<le> now (world s1)"
    and n: "\<forall>y. r = Inr (Inl y) \<longrightarrow> I y s1 \<and> \<mu> y < \<mu> x"
    using assms(2) [OF less.prems] by blast
  show ?case
  proof (cases "\<exists>y. r = Inr (Inl y)")
    case True
    then obtain y where y: "r = Inr (Inl y)" by blast
    with n less.hyps obtain r2 s2 where "loopS body y os s1 = Some (r2, s2)" "now (world s1) \<le> now (world s2)"
      by blast
    then show ?thesis using b y by (subst loopS_unfold) auto
  next
    case False
    then show ?thesis using b by (subst loopS_unfold) (auto split: sum.splits)
  qed
qed

lemma monotonic_clock:
  assumes "clock_ok os now" and "monotonic os s = Some (r, s')"
  shows "r = Inr (now (world s))" and "now (world s) \<le> now (world s')"
  using assms by (auto simp: monotonic_def prim_def clock_ok_def split: prod.splits) (metis fst_conv snd_conv)+

lemma sleep_clock:
  assumes "clock_ok os now" and "0 \<le> d" and "sleep d os s = Some (r, s')"
  shows "r = Inr ()" and "now (world s) + d \<le> now (world s')"
  using assms by (auto simp: sleep_def prim_def clock_ok_def split: prod.splits) (metis fst_conv snd_conv)+


text \<open>
  Loops with a deadline of their own shape, \<^verbatim>\<open>while time.monotonic() < end: m\<close>: they end when every round
  that goes on takes time. \<open>ticks os now C m\<close>: a return with a value in \<open>C\<close> comes later than the start.
\<close>

definition ticks :: "'w os \<Rightarrow> ('w \<Rightarrow> int) \<Rightarrow> ('a \<Rightarrow> bool) \<Rightarrow> ('w, 'g, 'a) prog \<Rightarrow> bool" where
  "ticks os now C m \<longleftrightarrow> (\<forall>s v s'. m os s = Some (Inr v, s') \<longrightarrow> C v \<longrightarrow> now (world s) < now (world s'))"

lemma ticks_bindM:
  assumes "runs os now m" and "\<And>a. ticks os now C (f a)"
  shows "ticks os now C (bindM m f)"
  unfolding ticks_def
proof (intro allI impI)
  fix s v s'
  assume "bindM m f os s = Some (Inr v, s')" and "C v"
  from this(1) obtain a s1 where m: "m os s = Some (Inr a, s1)" and f: "f a os s1 = Some (Inr v, s')"
    by (rule bindM_InrE)
  from runs_forward [OF assms(1) m] have "now (world s) \<le> now (world s1)" .
  also have "now (world s1) < now (world s')" using assms(2) f \<open>C v\<close> by (auto simp: ticks_def)
  finally show "now (world s) < now (world s')" .
qed

lemma ticks_sleep:
  assumes "clock_ok os now" and "0 < d"
  shows "ticks os now C (thenM (sleep d) (returnM x))"
  unfolding ticks_def
proof (intro allI impI)
  fix s v s'
  assume "thenM (sleep d) (returnM x) os s = Some (Inr v, s')"
  then obtain u where "sleep d os s = Some (Inr u, s')" by (auto simp: returnM_def elim!: thenM_InrE)
  from sleep_clock(2) [OF assms(1) _ this] assms(2) show "now (world s) < now (world s')" by simp
qed

lemma ticks_thenM: "runs os now m \<Longrightarrow> ticks os now C n \<Longrightarrow> ticks os now C (thenM m n)"
  by (simp add: thenM_def ticks_bindM)

lemma ticks_returnM: "\<not> C v \<Longrightarrow> ticks os now C (returnM v)"
  by (simp add: ticks_def returnM_def)

lemma ticks_raiseM: "ticks os now C (raiseM e)"
  by (simp add: ticks_def raiseM_def)

lemma ticks_if: "ticks os now C m \<Longrightarrow> ticks os now C n \<Longrightarrow> ticks os now C (if b then m else n)"
  by simp

lemma ticks_first: "ticks os now (\<lambda>_. True) m \<Longrightarrow> (\<And>a. runs os now (f a)) \<Longrightarrow> ticks os now C (bindM m f)"
  unfolding ticks_def by (auto elim!: bindM_InrE) (meson less_le_trans runs_forward)

text \<open>A loop without a pause takes time if its processes do: \<open>busy\<close> says that running one advances the clock.\<close>

definition busy :: "'w os \<Rightarrow> ('w \<Rightarrow> int) \<Rightarrow> bool" where
  "busy os now \<longleftrightarrow> (\<forall>args i t w. now w < now (snd (os_run os args i t w)))"

lemma ticks_run_process: "busy os now \<Longrightarrow> ticks os now C (run_process args i t)"
  unfolding ticks_def run_process_def busy_def by (auto elim!: prim_SomeE) (metis snd_conv)

text \<open>
  A loop may also check its deadline at the end of a round. \<open>within os now D C m\<close>: a return with a value in \<open>C\<close> means that \<open>m\<close>
  started before \<open>D\<close>.
\<close>

definition within :: "'w os \<Rightarrow> ('w \<Rightarrow> int) \<Rightarrow> int \<Rightarrow> ('a \<Rightarrow> bool) \<Rightarrow> ('w, 'g, 'a) prog \<Rightarrow> bool" where
  "within os now D C m \<longleftrightarrow> (\<forall>s v s'. m os s = Some (Inr v, s') \<longrightarrow> C v \<longrightarrow> now (world s) < D)"

lemma within_bindM:
  assumes "runs os now m" and "\<And>a. within os now D C (f a)"
  shows "within os now D C (bindM m f)"
  unfolding within_def
proof (intro allI impI)
  fix s v s'
  assume "bindM m f os s = Some (Inr v, s')" and "C v"
  from this(1) obtain a s1 where m: "m os s = Some (Inr a, s1)" and f: "f a os s1 = Some (Inr v, s')"
    by (rule bindM_InrE)
  from runs_forward [OF assms(1) m] have "now (world s) \<le> now (world s1)" .
  also have "now (world s1) < D" using assms(2) f \<open>C v\<close> by (auto simp: within_def)
  finally show "now (world s) < D" .
qed

lemma within_thenM: "runs os now m \<Longrightarrow> within os now D C n \<Longrightarrow> within os now D C (thenM m n)"
  by (simp add: thenM_def within_bindM)

lemma within_if: "within os now D C m \<Longrightarrow> within os now D C n \<Longrightarrow> within os now D C (if b then m else n)"
  by simp

lemma within_returnM: "\<not> C v \<Longrightarrow> within os now D C (returnM v)"
  by (simp add: within_def returnM_def)

lemma within_deadline:
  assumes "clock_ok os now"
  shows "within os now D C (bindM monotonic (\<lambda>t. if D \<le> t then raiseM e else n))"
  unfolding within_def
proof (intro allI impI)
  fix s v s'
  assume "bindM monotonic (\<lambda>t. if D \<le> t then raiseM e else n) os s = Some (Inr v, s')"
  then obtain t s1 where "monotonic os s = Some (Inr t, s1)" and "(if D \<le> t then raiseM e else n) os s1 = Some (Inr v, s')"
    by (rule bindM_InrE)
  with monotonic_clock(1) [OF assms, of s "Inr t" s1] show "now (world s) < D" by (auto simp: raiseM_def split: if_splits)
qed

lemma runs_loop_within:
  assumes "runs os now body" and "ticks os now (\<lambda>v. v = None) body" and "within os now D (\<lambda>v. v = None) body"
  shows "runs os now (loopM body)"
  using assms(1) by (rule runs_loopM [where D = D]) (use assms(2,3) in \<open>auto simp: ticks_def within_def\<close>)

lemma timed_round:
  assumes "clock_ok os now" and "ticks os now C m" and "\<And>t u t'. n os t = Some (Inr u, t') \<Longrightarrow> \<not> C u"
    and "bindM monotonic (\<lambda>t. if t < D then m else n) os s = Some (Inr v, s')" and "C v"
  shows "now (world s) < D \<and> now (world s) < now (world s')"
proof -
  from assms(4) obtain t s1 where t: "monotonic os s = Some (Inr t, s1)"
    and k: "(if t < D then m else n) os s1 = Some (Inr v, s')" by (rule bindM_InrE)
  have "t < D" using k assms(3,5) by (auto split: if_splits)
  with k have "m os s1 = Some (Inr v, s')" by simp
  with assms(2,5) have "now (world s1) < now (world s')" by (auto simp: ticks_def)
  with monotonic_clock [OF assms(1) t] \<open>t < D\<close> show ?thesis by auto
qed

lemma runs_timed:
  "clock_ok os now \<Longrightarrow> runs os now m \<Longrightarrow> runs os now n \<Longrightarrow> runs os now (bindM monotonic (\<lambda>t. if t < D then m else n))"
  by (intro runs_bindM runs_if runs_prims(2))

lemma runs_timed_loopM:
  assumes "clock_ok os now" and "runs os now m" and "runs os now n" and "ticks os now (\<lambda>v. v = None) m"
    and "\<And>t u t'. n os t = Some (Inr u, t') \<Longrightarrow> u \<noteq> None"
  shows "runs os now (loopM (bindM monotonic (\<lambda>t. if t < D then m else n)))"
  by (rule runs_loopM [OF runs_timed [OF assms(1-3)], where D = D], rule timed_round [OF assms(1,4)]) (auto dest: assms(5))

lemma runs_timed_loopS:
  assumes "clock_ok os now" and "\<And>x. runs os now (m x)" and "\<And>x. runs os now (n x)"
    and "\<And>x. ticks os now (\<lambda>v. \<exists>y. v = Inl y) (m x)" and "\<And>x t u t'. n x os t = Some (Inr u, t') \<Longrightarrow> \<nexists>y. u = Inl y"
  shows "runs os now (loopS (\<lambda>x. bindM monotonic (\<lambda>t. if t < D then m x else n x)) x)"
proof (rule runs_loopS [where \<mu> = "\<lambda>_ w. nat (D - now w)"])
  show "runs os now (bindM monotonic (\<lambda>t. if t < D then m x else n x))" for x
    using assms(1-3) by (intro runs_timed)
next
  fix x s y s'
  assume "bindM monotonic (\<lambda>t. if t < D then m x else n x) os s = Some (Inr (Inl y), s')"
  from timed_round [OF assms(1,4,5) this] have "now (world s) < D" "now (world s) < now (world s')" by auto
  then show "nat (D - now (world s')) < nat (D - now (world s))" by simp
qed


section \<open>The polling loop\<close>

definition poll_round :: "('a \<Rightarrow> bool) \<Rightarrow> ('w, 'g, 'a) prog \<Rightarrow> int \<Rightarrow> int \<Rightarrow> exn \<Rightarrow> ('w, 'g, 'a option) prog" where
  "poll_round ok fn deadline period err =
     bindM monotonic (\<lambda>t.
       if t < deadline then
         bindM fn (\<lambda>r. if ok r then returnM (Some r) else thenM (sleep period) (returnM None))
       else raiseM err)"

definition poll :: "('a \<Rightarrow> bool) \<Rightarrow> ('w, 'g, 'a) prog \<Rightarrow> int \<Rightarrow> int \<Rightarrow> exn \<Rightarrow> ('w, 'g, 'a) prog" where
  "poll ok fn timeout period err =
     bindM monotonic (\<lambda>t0. loopM (poll_round ok fn (t0 + timeout) period err))"

lemma emits_poll [emits_intros]:
  assumes "emits os P fn" and "\<And>r. P (Clock r)" and "P (Slept period)"
  shows "emits os P (poll ok fn timeout period err)"
  using assms by (auto simp: poll_def poll_round_def intro!: emits_intros)

lemma poll_round_continue:
  assumes "clock_ok os now" and "runs os now fn" and "0 < period"
    and "poll_round ok fn D period err os s = Some (Inr None, s')"
  shows "now (world s) < D" and "now (world s) + period \<le> now (world s')"
proof -
  from assms(4) obtain t s1 where m: "monotonic os s = Some (Inr t, s1)"
    and k: "(if t < D then bindM fn (\<lambda>r. if ok r then returnM (Some r)
        else thenM (sleep period) (returnM None)) else raiseM err) os s1 = Some (Inr None, s')"
    unfolding poll_round_def by (rule bindM_InrE)
  have t: "t = now (world s)" "now (world s) \<le> now (world s1)"
    using monotonic_clock [OF assms(1) m] by auto
  have lt: "t < D" using k by (auto simp: raiseM_def split: if_splits)
  then obtain r s2 where f: "fn os s1 = Some (Inr r, s2)"
    and k2: "(if ok r then returnM (Some r) else thenM (sleep period) (returnM None)) os s2 = Some (Inr None, s')"
    using k by (auto elim: bindM_InrE)
  obtain u s3 where sl: "sleep period os s2 = Some (Inr u, s3)" and "s' = s3"
    using k2 by (auto simp: returnM_def split: if_splits elim!: thenM_InrE)
  show "now (world s) < D" using lt t by simp
  show "now (world s) + period \<le> now (world s')"
    using t runs_forward [OF assms(2) f] sleep_clock(2) [OF assms(1) _ sl] assms(3) \<open>s' = s3\<close> by simp
qed

lemma runs_poll [runs_intros]:
  assumes "clock_ok os now" and "runs os now fn" and "0 < period"
  shows "runs os now (poll ok fn timeout period err)"
  unfolding poll_def
proof (intro runs_bindM runs_loopM)
  show "runs os now monotonic" by (rule runs_prims(2) [OF assms(1)])
next
  fix t0
  show "runs os now (poll_round ok fn (t0 + timeout) period err)"
    using assms by (auto simp: poll_round_def intro!: runs_intros)
next
  fix t0 s s'
  assume "poll_round ok fn (t0 + timeout) period err os s = Some (Inr None, s')"
  from poll_round_continue [OF assms this] assms(3)
  show "now (world s) < t0 + timeout \<and> now (world s) < now (world s')" by simp
qed

text \<open>A value returned by the loop passed the check in the state the loop ends in.\<close>

lemma poll_returns:
  assumes "poll ok fn timeout period err os s = Some (Inr v, s')"
  shows "ok v" and "\<exists>t. fn os t = Some (Inr v, s')"
proof -
  from assms obtain t0 s0 where "loopM (poll_round ok fn (t0 + timeout) period err) os s0 = Some (Inr v, s')"
    unfolding poll_def by (rule bindM_InrE)
  then obtain t where "poll_round ok fn (t0 + timeout) period err os t = Some (map_sum id Some (Inr v), s')"
    by (rule loopM_SomeE [where I = "\<lambda>_. True"]) auto
  then have "poll_round ok fn (t0 + timeout) period err os t = Some (Inr (Some v), s')" by simp
  then have "ok v \<and> (\<exists>t. fn os t = Some (Inr v, s'))"
    by (auto simp: poll_round_def returnM_def raiseM_def split: if_splits elim!: bindM_InrE thenM_InrE) blast
  then show "ok v" and "\<exists>t. fn os t = Some (Inr v, s')" by auto
qed

lemma poll_returns_trace:
  assumes "emits os (\<lambda>_. True) fn" and "poll ok fn timeout period err os s = Some (Inr v, s')"
  shows "ok v \<and> (\<exists>t fs. trace t = trace s @ fs \<and> fn os t = Some (Inr v, s'))"
proof -
  define I where "I t \<longleftrightarrow> (\<exists>fs. trace t = trace s @ fs)" for t :: "('a, 'b) st"
  have round: "emits os (\<lambda>_. True) (poll_round ok fn D period err)" for D
    unfolding poll_round_def using assms(1) by (auto intro!: emits_intros)
  from assms(2) obtain t0 s0 where m: "monotonic os s = Some (Inr t0, s0)"
    and l: "loopM (poll_round ok fn (t0 + timeout) period err) os s0 = Some (Inr v, s')"
    unfolding poll_def by (rule bindM_InrE)
  have "I s0" using m unfolding I_def monotonic_def by (auto elim: prim_SomeE)
  with l obtain t where "I t"
    and t: "poll_round ok fn (t0 + timeout) period err os t = Some (map_sum id Some (Inr v), s')"
  proof (rule loopM_SomeE)
    fix t t1
    assume "I t" and "poll_round ok fn (t0 + timeout) period err os t = Some (Inr None, t1)"
    moreover from round this(2) obtain es where "trace t1 = trace t @ es" by (rule emitsD)
    ultimately show "I t1" unfolding I_def by auto
  qed
  from t obtain c t1 where mt: "monotonic os t = Some (Inr c, t1)"
    and k: "(if c < t0 + timeout then bindM fn (\<lambda>r. if ok r then returnM (Some r)
       else thenM (sleep period) (returnM None)) else raiseM err) os t1 = Some (Inr (Some v), s')"
    unfolding poll_round_def by (auto elim: bindM_InrE)
  have "I t1" using mt \<open>I t\<close> unfolding I_def monotonic_def by (auto elim!: prim_SomeE)
  moreover have "ok v \<and> fn os t1 = Some (Inr v, s')"
    using k by (auto simp: returnM_def raiseM_def split: if_splits elim!: bindM_InrE thenM_InrE)
  ultimately show ?thesis unfolding I_def by blast
qed

lemma wp_poll:
  assumes "emits os (\<lambda>_. True) fn" and "\<And>fs. wp os fn (\<lambda>v gs. ok v \<longrightarrow> Q v gs) (es @ fs)"
  shows "wp os (poll ok fn timeout period err) Q es"
  unfolding wp_def
proof (intro allI impI)
  fix s v s'
  assume es: "trace s = es" and p: "poll ok fn timeout period err os s = Some (Inr v, s')"
  obtain t fs where "ok v" and t: "trace t = es @ fs" "fn os t = Some (Inr v, s')"
    using poll_returns_trace [OF assms(1) p] es by auto
  with assms(2) [of fs] wpD [of os fn _ t v s'] show "Q v (trace s')" by fastforce
qed

text \<open>An exception is the check's own, or the deadline's: then the last clock reading was not before it.\<close>

lemma poll_raises:
  fixes fn :: "('w, 'g, 'a) prog"
  assumes "clock_ok os now" and "runs os now fn" and "0 < period"
    and "poll ok fn timeout period err os s = Some (Inl e, s')"
  shows "(\<exists>t. fn os t = Some (Inl e, s')) \<or> (e = err \<and> now (world s) + timeout \<le> now (world s'))"
proof -
  from assms(4) obtain s0 where
    l: "loopM (poll_round ok fn (now (world s) + timeout) period err) os s0 = Some (Inl e, s')"
    unfolding poll_def
    by (rule bindM_SomeE) (use monotonic_clock(1) [OF assms(1)] in \<open>fastforce+\<close>)
  then obtain t where t: "poll_round ok fn (now (world s) + timeout) period err os t = Some (Inl e, s')"
    by (rule loopM_SomeE [where I = "\<lambda>_. True"]) auto
  from t obtain t1 where m: "monotonic os t = Some (Inr (now (world t)), t1)"
    and k: "(if now (world t) < now (world s) + timeout then bindM fn (\<lambda>r. if ok r then returnM (Some r)
        else thenM (sleep period) (returnM None)) else raiseM err) os t1 = Some (Inl e, s')"
    unfolding poll_round_def
    by (rule bindM_SomeE) (use monotonic_clock(1) [OF assms(1)] in \<open>fastforce+\<close>)
  have fwd: "now (world t) \<le> now (world t1)" by (rule monotonic_clock(2) [OF assms(1) m])
  show ?thesis
  proof (cases "now (world t) < now (world s) + timeout")
    case True
    with k have "bindM fn (\<lambda>r. if ok r then returnM (Some r)
        else thenM (sleep period) (returnM None)) os t1 = Some (Inl e, s')" by simp
    then show ?thesis
    proof (cases rule: bindM_SomeE)
      case (2 a s1)
      then have "thenM (sleep period) (returnM (None :: 'a option)) os s1 = Some (Inl e, s')"
        by (simp add: run_simps split: if_splits)
      then show ?thesis
        unfolding thenM_def
        by (rule bindM_SomeE)
           (auto simp: returnM_def dest!: sleep_clock(1) [OF assms(1) less_imp_le [OF assms(3)]])
    qed auto
  next
    case False
    then show ?thesis using k fwd by (auto simp: raiseM_def)
  qed
qed

text \<open>
  The loop is a counted loop: with a period \<open>p\<close> and a timeout \<open>T\<close> it makes at most \<open>T / p + 1\<close>
  rounds that run the check, so the counted loop below never reaches its \<open>els\<close>.
\<close>

lemma poll_round_late:
  assumes "clock_ok os now" and "D \<le> now (world s)"
  shows "\<exists>s'. poll_round ok fn D period err os s = Some (Inl err, s')"
proof -
  obtain r s1 where m: "monotonic os s = Some (r, s1)"
    using runs_prims(2) [OF assms(1)] by (rule runsE)
  then have "r = Inr (now (world s))" by (rule monotonic_clock(1) [OF assms(1)])
  with m assms(2) show ?thesis by (auto simp: poll_round_def bindM_def raiseM_def)
qed

lemma loopM_repeatM:
  assumes "clock_ok os now" and "runs os now fn" and "0 < period"
    and "D - now (world s) \<le> int n * period"
  shows "loopM (poll_round ok fn D period err) os s =
         repeatM (Suc n) (poll_round ok fn D period err) els os s"
  using assms(4)
proof (induction n arbitrary: s)
  case 0
  then have "D \<le> now (world s)" by simp
  from poll_round_late [OF assms(1) this]
  obtain s' where "poll_round ok fn D period err os s = Some (Inl err, s')" by blast
  then show ?case by (subst loopM.simps) (simp add: bindM_def)
next
  case (Suc n)
  have "runs os now (poll_round ok fn D period err)"
    using assms by (auto simp: poll_round_def intro!: runs_intros)
  then obtain r s1 where b: "poll_round ok fn D period err os s = Some (r, s1)" by (rule runsE)
  show ?case
  proof (cases "r = Inr None")
    case True
    with b have "now (world s) + period \<le> now (world s1)"
      using poll_round_continue(2) [OF assms(1-3)] by simp
    then have "D - now (world s1) \<le> int n * period"
      using Suc.prems by (simp add: algebra_simps)
    with Suc.IH b True show ?thesis
      by (subst loopM.simps) (simp add: bindM_def)
  next
    case False
    with b show ?thesis
      by (subst loopM.simps) (auto simp: bindM_def returnM_def split: sum.splits option.splits)
  qed
qed

lemma poll_bounded:
  assumes "clock_ok os now" and "runs os now fn" and "0 < period" and "timeout \<le> int n * period"
  shows "poll ok fn timeout period err os s =
         bindM monotonic (\<lambda>t0. repeatM (Suc n) (poll_round ok fn (t0 + timeout) period err) els) os s"
proof -
  obtain r s1 where m: "monotonic os s = Some (r, s1)"
    using runs_prims(2) [OF assms(1)] by (rule runsE)
  have r: "r = Inr (now (world s))" and le: "now (world s) \<le> now (world s1)"
    using monotonic_clock [OF assms(1) m] by auto
  have "loopM (poll_round ok fn (now (world s) + timeout) period err) os s1 =
      repeatM (Suc n) (poll_round ok fn (now (world s) + timeout) period err) els os s1"
    using assms le by (intro loopM_repeatM) auto
  with m r show ?thesis by (simp add: poll_def bindM_def del: repeatM.simps)
qed


section \<open>The contract of the harnesses' wait functions\<close>

text \<open>
  \<open>wait ok fn timeout\<close> runs \<open>fn\<close> until its value is true in Python's sense (\<open>ok\<close>), at most
  \<open>timeout\<close> seconds long, with a pause of \<open>period\<close> milliseconds, and raises \<open>err timeout\<close> otherwise.
\<close>

locale poller =
  fixes wait :: "('a \<Rightarrow> bool) \<Rightarrow> ('w, 'g, 'a) prog \<Rightarrow> int \<Rightarrow> ('w, 'g, 'a) prog"
    and period :: int
    and err :: "int \<Rightarrow> exn"
  assumes wait_poll: "wait ok fn timeout = poll ok fn (1000 * timeout) period (err timeout)"
    and period_pos: "0 < period"
begin

lemma wait_returns:
  assumes "wait ok fn timeout os s = Some (Inr v, s')"
  shows "ok v" and "\<exists>t. fn os t = Some (Inr v, s')"
  using assms unfolding wait_poll by (rule poll_returns)+

lemma wait_wp:
  assumes "emits os (\<lambda>_. True) fn" and "\<And>fs. wp os fn (\<lambda>v gs. ok v \<longrightarrow> Q v gs) (es @ fs)"
  shows "wp os (wait ok fn timeout) Q es"
  unfolding wait_poll using assms by (rule wp_poll)

lemma wait_raises:
  assumes "clock_ok os now" and "runs os now fn" and "wait ok fn timeout os s = Some (Inl e, s')"
  shows "(\<exists>t. fn os t = Some (Inl e, s')) \<or> (e = err timeout \<and> now (world s) + 1000 * timeout \<le> now (world s'))"
  using poll_raises [OF assms(1,2) period_pos assms(3) [unfolded wait_poll]] .

lemma wait_emits:
  assumes "emits os P fn" and "\<And>r. P (Clock r)" and "P (Slept period)"
  shows "emits os P (wait ok fn timeout)"
  unfolding wait_poll using assms by (rule emits_poll)

lemma wait_runs:
  assumes "clock_ok os now" and "runs os now fn"
  shows "runs os now (wait ok fn timeout)"
  unfolding wait_poll using assms period_pos by (rule runs_poll)

lemma wait_bounded:
  assumes "clock_ok os now" and "runs os now fn" and "1000 * timeout \<le> int n * period"
  shows "wait ok fn timeout os s =
    bindM monotonic (\<lambda>t0. repeatM (Suc n) (poll_round ok fn (t0 + 1000 * timeout) period (err timeout)) els) os s"
  unfolding wait_poll using assms(1,2) period_pos assms(3) by (rule poll_bounded)

end

end
