(* ===== verification/Kubectl.thy ===== *)
theory Kubectl
  imports Polling
begin

text \<open>
  The interface every harness has to the cluster: a function that runs kubectl against one named
  context. \<open>launched\<close> reads the command line off an event; \<open>on_context\<close> says that a command line
  is a kubectl command pinned to a context, or one of the other tools a script names.
  The locale \<open>pinned_kubectl\<close> is the contract of such a runner, the locale \<open>lab_api\<close> extends it by
  the evidence and object operations of the \<^verbatim>\<open>Lab\<close> classes.
\<close>

section \<open>Command lines\<close>

fun launched :: "event \<Rightarrow> string list option" where
  "launched (Ran args input r) = Some args"
| "launched (Spawned args r) = Some args"
| "launched _ = None"

fun pinned :: "string \<Rightarrow> string list \<Rightarrow> bool" where
  "pinned c (b # f # c' # args) = (f = ''--context'' \<and> c' = c)"
| "pinned c _ = False"

definition on_context :: "string list \<Rightarrow> string \<Rightarrow> event \<Rightarrow> bool" where
  "on_context tools c e \<longleftrightarrow>
     (case launched e of None \<Rightarrow> True | Some args \<Rightarrow> pinned c args \<or> (args \<noteq> [] \<and> hd args \<in> set tools))"

lemma on_context_simps [simp]:
  "on_context tools c (Ran (b # f # c' # args) i r) \<longleftrightarrow> (f = ''--context'' \<and> c' = c) \<or> b \<in> set tools"
  "on_context tools c (Spawned (b # f # c' # args) h) \<longleftrightarrow> (f = ''--context'' \<and> c' = c) \<or> b \<in> set tools"
  "on_context tools c (Clock t)" "on_context tools c (Slept d)" "on_context tools c (Wrote p x)"
  "on_context tools c (Appended p x)" "on_context tools c (ReadFile p q)" "on_context tools c (MadeDir p)"
  "on_context tools c (Unlinked p)" "on_context tools c (Printed x)" "on_context tools c (Terminated n)"
  "on_context tools c (Waited n v)" "on_context tools c (Killed n)" "on_context tools c (Opened m u q')"
  "on_context tools c (ReadLine n q)" "on_context tools c (ReadAll n q)" "on_context tools c (WallClock p q)"
  "on_context tools c (Polled n o')" "on_context tools c (Connected pt v)" "on_context tools c (Chmod p k v)"
  by (auto simp: on_context_def)

lemma on_context_tool: "b \<in> set tools \<Longrightarrow> on_context tools c (Ran (b # args) i r)"
  by (simp add: on_context_def)

text \<open>The kubectl verb of a pinned command; a \<^verbatim>\<open>get\<close> or \<^verbatim>\<open>version\<close> leaves the cluster as it is.\<close>

fun verb :: "event \<Rightarrow> string option" where
  "verb e = (case launched e of Some (b # f # c # v # args) \<Rightarrow> Some v | _ \<Rightarrow> None)"

definition mutates :: "event \<Rightarrow> bool" where
  "mutates e \<longleftrightarrow> launched e \<noteq> None \<and> verb e \<notin> {Some ''get'', Some ''version''}"

text \<open>\<^verbatim>\<open>repr\<close> of a list of strings, as the error messages print command lines.\<close>

definition repr_args :: "string list \<Rightarrow> string" where
  "repr_args args = ''['' @ join '', '' (map py_repr args) @ '']''"

text \<open>A command, without its first three words, that was answered by a result with property \<open>Q\<close>.\<close>

definition answered :: "string list \<Rightarrow> (proc \<Rightarrow> bool) \<Rightarrow> event \<Rightarrow> bool" where
  "answered args Q e = (case e of Ran a i (Inr r) \<Rightarrow> drop 3 a = args \<and> Q r | _ \<Rightarrow> False)"

lemma answered_simps [simp]:
  "answered args Q (Ran (b # f # c # a) i (Inr r)) \<longleftrightarrow> a = args \<and> Q r"
  "\<not> answered args Q (Wrote p x)" "\<not> answered args Q (Printed x)" "\<not> answered args Q (Slept d)"
  "\<not> answered args Q (Clock t)"
  by (simp_all add: answered_def)

text \<open>The body of every \<^verbatim>\<open>command\<close> helper: run, and raise when the exit status is to be checked.\<close>

definition checked :: "bool \<Rightarrow> (proc \<Rightarrow> exn) \<Rightarrow> proc \<Rightarrow> ('w, 'g, proc) prog" where
  "checked check fail r = (if check \<and> returncode r \<noteq> 0 then raiseM (fail r) else returnM r)"

lemma emits_checked [emits_intros]: "emits os P (checked check fail r)"
  by (auto simp: checked_def intro!: emits_intros)

lemma runs_checked [runs_intros]: "runs os now (checked check fail r)"
  by (auto simp: checked_def intro!: runs_intros)

lemma wp_checked [wp_intros]:
  "((check \<Longrightarrow> returncode r = 0) \<Longrightarrow> Q r es) \<Longrightarrow> wp os (checked check fail r) Q es"
  by (auto simp: checked_def wp_def run_simps split: if_splits)

lemma checked_Inr: "checked check fail r os s = Some (Inr q, s') \<Longrightarrow>
    q = r \<and> s' = s \<and> (check \<longrightarrow> returncode r = 0)"
  by (auto simp: checked_def run_simps split: if_splits)


text \<open>\<^verbatim>\<open>subprocess.run(args, check=True)\<close> and \<^verbatim>\<open>subprocess.check_output(args)\<close>.\<close>

definition check_run :: "string list \<Rightarrow> string option \<Rightarrow> ('w, 'g, proc) prog" where
  "check_run args data = bindM (run_process args data None) (checked True (\<lambda>r. CalledProcessError (returncode r)))"

definition check_output :: "string list \<Rightarrow> string option \<Rightarrow> ('w, 'g, string) prog" where
  "check_output args data = bindM (check_run args data) (\<lambda>r. returnM (stdout r))"

lemma emits_check_run [emits_intros]:
  "(\<And>r. P (Ran args data r)) \<Longrightarrow> emits os P (check_run args data)"
  "(\<And>r. P (Ran args data r)) \<Longrightarrow> emits os P (check_output args data)"
  unfolding check_run_def check_output_def by (intro emits_intros; simp)+

lemma runs_check_run [runs_intros]:
  "clock_ok os now \<Longrightarrow> runs os now (check_run args data)" "clock_ok os now \<Longrightarrow> runs os now (check_output args data)"
  unfolding check_run_def check_output_def by (intro runs_intros; simp)+

lemma wp_check_run [wp_intros]:
  "(\<And>r. returncode r = 0 \<Longrightarrow> Q r (es @ [Ran args data (Inr r)])) \<Longrightarrow> wp os (check_run args data) Q es"
  "(\<And>r. returncode r = 0 \<Longrightarrow> Q' (stdout r) (es @ [Ran args data (Inr r)])) \<Longrightarrow> wp os (check_output args data) Q' es"
  unfolding check_run_def check_output_def by (intro wp_intros; simp)+

section \<open>A runner pinned to one context\<close>

locale pinned_kubectl =
  fixes k :: "string list \<Rightarrow> string option \<Rightarrow> bool \<Rightarrow> ('w, 'g, proc) prog"
    and bin :: "'w os \<Rightarrow> string"
    and ctx :: "'w os \<Rightarrow> string"
    and timeout :: "int option"
    and fail :: "string list \<Rightarrow> proc \<Rightarrow> exn"
  assumes k_unfold: "k args data check os s =
    bindM (run_process (bin os # ''--context'' # ctx os # args) data timeout)
      (checked check (fail (bin os # ''--context'' # ctx os # args))) os s"
begin

lemma k_emits:
  assumes "\<And>r. P (Ran (bin os # ''--context'' # ctx os # args) data r)"
  shows "emits os P (k args data check)"
proof -
  have "emits os P (bindM (run_process (bin os # ''--context'' # ctx os # args) data timeout)
      (checked check (fail (bin os # ''--context'' # ctx os # args))))"
    using assms by (auto intro!: emits_intros)
  then show ?thesis unfolding emits_def k_unfold .
qed

lemma k_pinned: "emits os (on_context tools (ctx os)) (k args data check)"
  by (rule k_emits) simp

lemma k_runs:
  assumes "clock_ok os now"
  shows "runs os now (k args data check)"
proof -
  have "runs os now (bindM (run_process (bin os # ''--context'' # ctx os # args) data timeout)
      (checked check (fail (bin os # ''--context'' # ctx os # args))))"
    using assms by (auto intro!: runs_intros)
  then show ?thesis unfolding runs_def k_unfold .
qed

lemma k_InrE:
  assumes "k args data check os s = Some (Inr r, s')"
  obtains w where "os_run os (bin os # ''--context'' # ctx os # args) data timeout (world s) = (Inr r, w)"
    and "s' = s\<lparr>world := w, trace := trace s @ [Ran (bin os # ''--context'' # ctx os # args) data (Inr r)]\<rparr>"
    and "check \<Longrightarrow> returncode r = 0"
proof -
  from assms obtain q s1 where
    p: "run_process (bin os # ''--context'' # ctx os # args) data timeout os s = Some (Inr q, s1)" and
    c: "checked check (fail (bin os # ''--context'' # ctx os # args)) q os s1 = Some (Inr r, s')"
    unfolding k_unfold by (rule bindM_InrE)
  have q: "r = q" "s' = s1" "check \<longrightarrow> returncode q = 0" using checked_Inr [OF c] by auto
  from p show ?thesis
    unfolding run_process_def by (rule prim_SomeE) (use q that in auto)
qed

lemma k_wp:
  assumes "\<And>r. (check \<Longrightarrow> returncode r = 0) \<Longrightarrow>
    Q r (es @ [Ran (bin os # ''--context'' # ctx os # args) data (Inr r)])"
  shows "wp os (k args data check) Q es"
  unfolding wp_def using assms by (auto elim!: k_InrE)

text \<open>Whatever the outcome, exactly one command was run.\<close>

lemma k_trace:
  assumes "k args data check os s = Some (r, s')"
  shows "\<exists>p. trace s' = trace s @ [Ran (bin os # ''--context'' # ctx os # args) data p]"
  using assms unfolding k_unfold run_process_def
  by (rule bindM_SomeE) (auto simp: checked_def run_simps elim!: prim_SomeE split: if_splits)

lemma k_status:
  assumes "k args data True os s = Some (Inr r, s')"
  shows "returncode r = 0"
  using assms by (rule k_InrE) simp

text \<open>A checked command that the process answered with another status raises the runner's error.\<close>

lemma k_fails:
  assumes "os_run os (bin os # ''--context'' # ctx os # args) data timeout (world s) = (Inr r, w)"
    and "returncode r \<noteq> 0"
  shows "k args data True os s = Some (Inl (fail (bin os # ''--context'' # ctx os # args) r),
     s\<lparr>world := w, trace := trace s @ [Ran (bin os # ''--context'' # ctx os # args) data (Inr r)]\<rparr>)"
  using assms by (simp add: k_unfold bindM_def run_process_def prim_def checked_def raiseM_def)

end


section \<open>The operations of a lab\<close>

text \<open>
  What the two \<^verbatim>\<open>Lab\<close> classes promise to the experiment scripts: \<open>get\<close> parses kubectl's JSON answer
  in the lab's namespace, \<open>save\<close> writes a value as an evidence file and nothing else, \<open>apply\<close> saves
  the object and then sends it.
\<close>

locale lab_api = pinned_kubectl k bin ctx timeout fail
  for k :: "string list \<Rightarrow> string option \<Rightarrow> bool \<Rightarrow> ('w, 'g, proc) prog" and bin ctx timeout fail +
  fixes ns :: "'l \<Rightarrow> string"
    and out :: "'l \<Rightarrow> string"
    and save :: "'l \<Rightarrow> string \<Rightarrow> json \<Rightarrow> ('w, 'g, unit) prog"
    and get :: "'l \<Rightarrow> string \<Rightarrow> string option \<Rightarrow> ('w, 'g, json) prog"
    and width :: nat
  assumes save_unfold: "save L name v =
      thenM (write_text (out L @ ''/'' @ name @ ''.json'') (dumps_raw_indent v @ [CHR 0x0A]))
        (py_print (name @ '': '' @ take width (dumps_raw v)))"
    and get_unfold: "get L kind nm =
      bindM (k ([''get'', kind] @ (case nm of None \<Rightarrow> [] | Some n \<Rightarrow> if n = [] then [] else [n])
          @ [''-n'', ns L, ''-o'', ''json'']) None True)
        (\<lambda>r. py_loads (stdout r))"
begin

lemma save_emits:
  assumes "P (Wrote (out L @ ''/'' @ name @ ''.json'') (dumps_raw_indent v @ [CHR 0x0A]))" and "\<And>x. P (Printed x)"
  shows "emits os P (save L name v)"
  unfolding save_unfold using assms by (auto intro!: emits_intros)

lemma save_wp:
  assumes "\<And>x. Q () (es @ [Wrote (out L @ ''/'' @ name @ ''.json'') (dumps_raw_indent v @ [CHR 0x0A]), Printed x])"
  shows "wp os (save L name v) Q es"
  unfolding save_unfold using assms by (auto intro!: wp_intros)

lemma save_runs: "clock_ok os now \<Longrightarrow> runs os now (save L name v)"
  unfolding save_unfold by (auto intro!: runs_intros)

lemma save_writes:
  assumes "save L name v os s = Some (r, s')"
  shows "Wrote (out L @ ''/'' @ name @ ''.json'') (dumps_raw_indent v @ [CHR 0x0A]) \<in> set (trace s')"
  using assms
  by (auto simp: save_unfold thenM_def write_text_def py_print_def elim!: bindM_SomeE prim_SomeE)

text \<open>What an evidence file holds is the value that was saved.\<close>

lemma save_roundtrip:
  assumes "wf_json v" and "save L name v os s = Some (r, s')"
  shows "\<exists>t. Wrote (out L @ ''/'' @ name @ ''.json'') t \<in> set (trace s') \<and> loads t = Inr v"
  using save_writes [OF assms(2)] assms(1) by (auto intro!: exI)

lemma get_emits:
  assumes "\<And>args r. P (Ran (bin os # ''--context'' # ctx os # ''get'' # args) None r)"
  shows "emits os P (get L kind nm)"
  unfolding get_unfold using assms by (auto intro!: emits_bindM emits_silent k_emits)

lemma get_wp:
  assumes "\<And>r v. returncode r = 0 \<Longrightarrow> loads (stdout r) = Inr v \<Longrightarrow>
    Q v (es @ [Ran (bin os # ''--context'' # ctx os #
      [''get'', kind] @ (case nm of None \<Rightarrow> [] | Some n \<Rightarrow> if n = [] then [] else [n])
      @ [''-n'', ns L, ''-o'', ''json'']) None (Inr r)])"
  shows "wp os (get L kind nm) Q es"
  unfolding get_unfold using assms by (auto intro!: wp_intros k_wp)

lemma get_runs: "clock_ok os now \<Longrightarrow> runs os now (get L kind nm)"
  unfolding get_unfold by (auto intro!: runs_intros k_runs)

lemma get_InrE:
  assumes "get L kind nm os s = Some (Inr v, s')"
  obtains r where "k ([''get'', kind] @ (case nm of None \<Rightarrow> [] | Some n \<Rightarrow> if n = [] then [] else [n])
          @ [''-n'', ns L, ''-o'', ''json'']) None True os s = Some (Inr r, s')"
    and "loads (stdout r) = Inr v"
  using assms unfolding get_unfold py_loads_def by (elim bindM_InrE liftE_InrE) simp

end


section \<open>A set-up behind a guard\<close>

text \<open>
  The constructors of the \<^verbatim>\<open>Lab\<close> classes delete and create a namespace. The contract of the checks
  they make first: the guard only reads, and when it returns, what it read is \<open>evidence\<close> that this
  is the experiment's own cluster. Then nothing is changed before that evidence was seen.
\<close>

locale guarded_setup =
  fixes guard :: "('w, 'g, unit) prog"
    and init :: "'t \<Rightarrow> ('w, 'g, 'l) prog"
    and dir :: "'t \<Rightarrow> string"
    and prepare :: "'t \<Rightarrow> ('w, 'g, 'l) prog"
    and evidence :: "'w os \<Rightarrow> event list \<Rightarrow> bool"
  assumes init_unfold: "init t = thenM (mkdir (dir t)) (thenM guard (prepare t))"
    and guard_reads: "emits os (\<lambda>e. \<not> mutates e) guard"
    and guard_evidence: "guard os s = Some (Inr u, s') \<Longrightarrow> trace s' = trace s @ es \<Longrightarrow> evidence os es"
    and prepare_appends: "emits os (\<lambda>_. True) (prepare t)"
begin

lemma init_guarded:
  assumes "init t os s = Some (r, s')"
  shows "\<exists>es fs. trace s' = trace s @ MadeDir (dir t) # es @ fs \<and> list_all (\<lambda>e. \<not> mutates e) es \<and>
    (fs \<noteq> [] \<longrightarrow> evidence os es)"
proof -
  have made: "trace q = trace s @ [MadeDir (dir t)]" if "mkdir (dir t) os s = Some (v, q)" for v q
    using that unfolding mkdir_def by (auto elim: prim_SomeE)
  obtain s0 where s0: "trace s0 = trace s @ [MadeDir (dir t)]"
    and k: "thenM guard (prepare t) os s0 = Some (r, s') \<or> s' = s0"
    using assms unfolding init_unfold thenM_def [of "mkdir (dir t)"]
    by (rule bindM_SomeE) (blast intro: made)+
  show ?thesis
  proof (cases "s' = s0")
    case True
    with s0 show ?thesis by (intro exI [of _ "[]"]) simp
  next
    case False
    with k have "bindM guard (\<lambda>_. prepare t) os s0 = Some (r, s')" by (simp add: thenM_def)
    then show ?thesis
    proof (cases rule: bindM_SomeE)
      case (1 e)
      with guard_reads obtain es where "trace s' = trace s0 @ es" "list_all (\<lambda>e. \<not> mutates e) es"
        by (auto elim: emitsD)
      with s0 show ?thesis by (intro exI [of _ es] exI [of _ "[]"]) simp
    next
      case (2 u s1)
      from guard_reads 2(1) obtain es where es: "trace s1 = trace s0 @ es" "list_all (\<lambda>e. \<not> mutates e) es"
        by (rule emitsD)
      from prepare_appends 2(2) obtain fs where "trace s' = trace s1 @ fs" by (rule emitsD)
      with es s0 guard_evidence [OF 2(1) es(1)] show ?thesis
        by (intro exI [of _ es] exI [of _ fs]) simp
    qed
  qed
qed

end

end
