(* ===== verification/Cleanup.thy ===== *)
theory Cleanup
  imports Kubectl
begin

text \<open>
  What a run leaves behind. \<open>leaves os P m\<close> says that the events of every run of \<open>m\<close>, however it ends,
  have the property \<open>P\<close>. For a property that is closed under concatenation (the locale \<open>trace_closed\<close>)
  the judgement goes through the combinators. The property the scripts need is \<open>followed down up\<close>:
  every event of one kind (a process started, a component scaled to zero) is followed by
  one of another kind (the process told to terminate, the component scaled back), which is what their
  \<^verbatim>\<open>try\<close>/\<^verbatim>\<open>finally\<close> statements are for: \<open>leaves_bracket\<close>.
\<close>

definition leaves :: "'w os \<Rightarrow> (event list \<Rightarrow> bool) \<Rightarrow> ('w, 'g, 'a) prog \<Rightarrow> bool" where
  "leaves os P m \<longleftrightarrow> (\<forall>s r s'. m os s = Some (r, s') \<longrightarrow> (\<exists>es. trace s' = trace s @ es \<and> P es))"

lemma leavesI:
  "(\<And>s r s'. m os s = Some (r, s') \<Longrightarrow> \<exists>es. trace s' = trace s @ es \<and> P es) \<Longrightarrow> leaves os P m"
  by (simp add: leaves_def)

lemma leavesD:
  assumes "leaves os P m" and "m os s = Some (r, s')"
  obtains es where "trace s' = trace s @ es" and "P es"
  using assms unfolding leaves_def by blast

lemma leaves_mono: "leaves os P m \<Longrightarrow> (\<And>es. P es \<Longrightarrow> Q es) \<Longrightarrow> leaves os Q m"
  unfolding leaves_def by blast

lemma leaves_list_all: "emits os Q m \<Longrightarrow> (\<And>es. list_all Q es \<Longrightarrow> P es) \<Longrightarrow> leaves os P m"
  by (rule leavesI) (auto elim: emitsD)

lemma leaves_prim: "(\<And>r. P [ev r]) \<Longrightarrow> leaves os P (prim ev f)"
  by (rule leavesI) (auto elim!: prim_SomeE)

text \<open>Something the first statement records is there at the end, however the rest goes.\<close>

lemma leaves_first:
  assumes "leaves os P m" and "\<And>a. emits os (\<lambda>_. True) (f a)" and "\<And>es fs. P es \<Longrightarrow> P (es @ fs)"
  shows "leaves os P (bindM m f)"
proof (rule leavesI)
  fix s r s'
  assume "bindM m f os s = Some (r, s')"
  then show "\<exists>es. trace s' = trace s @ es \<and> P es"
  proof (cases rule: bindM_SomeE)
    case (1 e)
    with assms(1) show ?thesis by (auto elim: leavesD)
  next
    case (2 a s1)
    from assms(1) 2(1) obtain es where "trace s1 = trace s @ es" "P es" by (rule leavesD)
    moreover from assms(2) 2(2) obtain fs where "trace s' = trace s1 @ fs" by (rule emitsD)
    ultimately show ?thesis using assms(3) by auto
  qed
qed


section \<open>Properties closed under concatenation\<close>

locale trace_closed =
  fixes P :: "event list \<Rightarrow> bool"
  assumes P_Nil: "P []" and P_append: "P es \<Longrightarrow> P fs \<Longrightarrow> P (es @ fs)"
begin

lemma P_single: "(\<And>e. e \<in> set es \<Longrightarrow> P [e]) \<Longrightarrow> P es"
proof (induction es)
  case (Cons e es)
  then have "P [e]" "P es" by simp_all
  then show ?case using P_append [of "[e]" es] by simp
qed (rule P_Nil)

lemma leaves_emits: "emits os (\<lambda>e. P [e]) m \<Longrightarrow> leaves os P m"
  by (rule leaves_list_all) (auto simp: list_all_iff intro: P_single)

lemma leaves_silent: "leaves os P (returnM a)" "leaves os P (raiseM e)" "leaves os P (liftE r)"
  "leaves os P (assertM msg b)" "leaves os P (py_loads t)" "leaves os P getG" "leaves os P (modG g)"
  by (auto intro!: leaves_emits emits_intros)

lemma leaves_step:
  assumes "trace s1 = trace s @ es" and "P es" and "leaves os P m" and "m os s1 = Some (r, s')"
  shows "\<exists>fs. trace s' = trace s @ fs \<and> P fs"
  using assms(3,4) by (rule leavesD) (use assms(1,2) P_append in auto)

lemma leaves_bindM:
  assumes "leaves os P m" and "\<And>a. leaves os P (f a)"
  shows "leaves os P (bindM m f)"
proof (rule leavesI)
  fix s r s'
  assume "bindM m f os s = Some (r, s')"
  then show "\<exists>es. trace s' = trace s @ es \<and> P es"
  proof (cases rule: bindM_SomeE)
    case (1 e)
    with assms(1) show ?thesis by (auto elim: leavesD)
  next
    case (2 a s1)
    from assms(1) 2(1) obtain es where "trace s1 = trace s @ es" "P es" by (rule leavesD)
    then show ?thesis using assms(2) 2(2) by (rule leaves_step)
  qed
qed

lemma leaves_thenM: "leaves os P m \<Longrightarrow> leaves os P n \<Longrightarrow> leaves os P (thenM m n)"
  by (simp add: thenM_def leaves_bindM)

lemma leaves_ign: "leaves os P m \<Longrightarrow> leaves os P (ign m)"
  by (simp add: ign_def leaves_bindM leaves_silent)

lemma leaves_if: "leaves os P m \<Longrightarrow> leaves os P n \<Longrightarrow> leaves os P (if b then m else n)"
  by simp

lemma leaves_let: "leaves os P (f a) \<Longrightarrow> leaves os P (let x = a in f x)"
  by simp

lemma leaves_forM: "(\<And>x. leaves os P (f x)) \<Longrightarrow> leaves os P (forM xs f)"
  by (induction xs) (auto intro: leaves_thenM leaves_silent)

lemma leaves_finallyM:
  assumes "leaves os P m" and "leaves os P c"
  shows "leaves os P (finallyM m c)"
proof (rule leavesI)
  fix s r s'
  assume "finallyM m c os s = Some (r, s')"
  then obtain r1 s1 rc where "m os s = Some (r1, s1)" and c: "c os s1 = Some (rc, s')"
    by (rule finallyM_SomeE)
  with assms(1) obtain es where "trace s1 = trace s @ es" "P es" by (auto elim: leavesD)
  then show "\<exists>es. trace s' = trace s @ es \<and> P es" using assms(2) c by (rule leaves_step)
qed

lemma leaves_catchM:
  assumes "leaves os P m" and "\<And>e p. h e = Some p \<Longrightarrow> leaves os P p"
  shows "leaves os P (catchM m h)"
proof (rule leavesI)
  fix s r s'
  assume "catchM m h os s = Some (r, s')"
  then show "\<exists>es. trace s' = trace s @ es \<and> P es"
  proof (cases rule: catchM_SomeE)
    case 1
    with assms(1) show ?thesis by (auto elim: leavesD)
  next
    case (2 e s1 p)
    from assms(1) 2(1) obtain es where "trace s1 = trace s @ es" "P es" by (rule leavesD)
    then show ?thesis using assms(2) [OF 2(2)] 2(3) by (rule leaves_step)
  qed
qed

lemmas leaves_rules = leaves_silent leaves_bindM leaves_thenM leaves_ign leaves_if leaves_let leaves_forM

end


section \<open>Every start is followed by a stop\<close>

fun followed :: "('e \<Rightarrow> bool) \<Rightarrow> ('e \<Rightarrow> bool) \<Rightarrow> 'e list \<Rightarrow> bool" where
  "followed down up [] = True"
| "followed down up (e # es) = ((down e \<longrightarrow> list_ex up es) \<and> followed down up es)"

lemma followed_append: "followed down up es \<Longrightarrow> followed down up fs \<Longrightarrow> followed down up (es @ fs)"
  by (induction es) auto

lemma followed_snoc: "followed down up es \<or> up e \<Longrightarrow> \<not> down e \<Longrightarrow> followed down up (es @ [e])"
  by (induction es) auto

lemma followed_close: "followed down up es \<Longrightarrow> followed down up fs \<Longrightarrow> list_ex up fs \<Longrightarrow> followed down up (e # es @ fs)"
  by (simp add: followed_append)

lemma followed_split: "followed down up es \<longleftrightarrow> (\<forall>us e vs. es = us @ e # vs \<longrightarrow> down e \<longrightarrow> list_ex up vs)"
proof (induction es)
  case (Cons x es)
  show ?case
  proof
    assume "followed down up (x # es)"
    with Cons show "\<forall>us e vs. x # es = us @ e # vs \<longrightarrow> down e \<longrightarrow> list_ex up vs"
      by (auto simp: Cons_eq_append_conv)
  next
    assume a: "\<forall>us e vs. x # es = us @ e # vs \<longrightarrow> down e \<longrightarrow> list_ex up vs"
    have "followed down up es" unfolding Cons using a by (metis append_Cons)
    moreover have "down x \<longrightarrow> list_ex up es" using a by (metis append_Nil)
    ultimately show "followed down up (x # es)" by simp
  qed
qed simp

lemma followed_at:
  assumes "followed down up es" and "e \<in> set es" and "down e"
  shows "\<exists>us vs ws f. es = us @ e # vs @ f # ws \<and> up f"
proof -
  obtain us vs where vs: "es = us @ e # vs" using assms(2) by (meson split_list)
  with assms(1,3) have "list_ex up vs" unfolding followed_split by blast
  then obtain f where f: "f \<in> set vs" "up f" by (auto simp: list_ex_iff)
  then obtain v1 v2 where "vs = v1 @ f # v2" by (meson split_list)
  with vs f(2) show ?thesis by blast
qed

interpretation followed: trace_closed "followed down up"
  for down up
  by unfold_locales (auto intro: followed_append)

lemma leaves_quiet: "emits os (\<lambda>e. \<not> down e) m \<Longrightarrow> leaves os (followed down up) m"
  by (rule followed.leaves_emits) simp

text \<open>
  \<^verbatim>\<open>acquire; try: body; finally: release\<close>: if the acquiring call recorded a \<open>down\<close> event then it returned,
  so the clean-up runs, and it records an \<open>up\<close> event.
\<close>

lemma leaves_bracket:
  assumes acq: "\<And>s r s'. acquire os s = Some (r, s') \<Longrightarrow> \<exists>e. trace s' = trace s @ [e] \<and>
      (down e \<longrightarrow> (\<exists>a. r = Inr a \<and> leaves os (list_ex up) (release a)))"
    and body: "\<And>a. leaves os (followed down up) (body a)"
    and rel: "\<And>a. leaves os (followed down up) (release a)"
  shows "leaves os (followed down up) (bindM acquire (\<lambda>a. finallyM (body a) (release a)))"
proof (rule leavesI)
  fix s r s'
  assume run: "bindM acquire (\<lambda>a. finallyM (body a) (release a)) os s = Some (r, s')"
  then show "\<exists>es. trace s' = trace s @ es \<and> followed down up es"
  proof (cases rule: bindM_SomeE)
    case (1 x)
    then show ?thesis using acq [OF 1(1)] by auto
  next
    case (2 a s1)
    obtain e where e: "trace s1 = trace s @ [e]" "down e \<longrightarrow> leaves os (list_ex up) (release a)"
      using acq [OF 2(1)] by auto
    from 2(2) obtain r1 s2 rc where b: "body a os s1 = Some (r1, s2)" and c: "release a os s2 = Some (rc, s')"
      by (rule finallyM_SomeE)
    from body b obtain es where es: "trace s2 = trace s1 @ es" "followed down up es" by (rule leavesD)
    from rel c obtain fs where fs: "trace s' = trace s2 @ fs" "followed down up fs" by (rule leavesD)
    have "down e \<longrightarrow> list_ex up fs" using e(2) c fs(1) by (auto elim: leavesD)
    with e(1) es fs followed_append [OF es(2) fs(2)] show ?thesis by (intro exI [of _ "e # es @ fs"]) auto
  qed
qed

text \<open>\<^verbatim>\<open>try: m; finally: c\<close>: whatever \<open>m\<close> has done, the clean-up comes after it.\<close>

lemma followed_before: "list_ex up fs \<Longrightarrow> followed down up fs \<Longrightarrow> followed down up (es @ fs)"
  by (induction es) auto

lemma leaves_finally:
  assumes "emits os (\<lambda>_. True) m" and "leaves os (list_ex up) c" and "leaves os (followed down up) c"
  shows "leaves os (followed down up) (finallyM m c)" and "leaves os (list_ex up) (finallyM m c)"
proof -
  have *: "\<exists>es fs. trace s' = trace s @ es @ fs \<and> list_ex up fs \<and> followed down up fs" if run: "finallyM m c os s = Some (r, s')" for s r s'
  proof -
    from run obtain r1 s1 rc where m: "m os s = Some (r1, s1)" and c: "c os s1 = Some (rc, s')" by (rule finallyM_SomeE)
    from assms(1) m obtain es where "trace s1 = trace s @ es" by (rule emitsD)
    moreover from assms(2) c obtain fs where "trace s' = trace s1 @ fs" "list_ex up fs" by (rule leavesD)
    moreover from assms(3) c obtain gs where "trace s' = trace s1 @ gs" "followed down up gs" by (rule leavesD)
    ultimately show ?thesis by auto
  qed
  show "leaves os (followed down up) (finallyM m c)" by (rule leavesI) (drule *, auto intro: followed_before)
  show "leaves os (list_ex up) (finallyM m c)" by (rule leavesI) (drule *, auto)
qed

lemma bindM_thenM: "bindM m (\<lambda>a. thenM (f a) n) = thenM (bindM m f) n"
  by (auto simp: fun_eq_iff thenM_def bindM_def split: option.splits sum.splits)

text \<open>The process started by \<^verbatim>\<open>Popen\<close> and stopped in the clean-up.\<close>

definition started :: "nat \<Rightarrow> event \<Rightarrow> bool" where
  "started p e = (case e of Spawned args (Inr q) \<Rightarrow> q = p | _ \<Rightarrow> False)"

lemma popen_acquires:
  assumes "popen args os s = Some (r, s')" and "\<And>q. leaves os (list_ex (\<lambda>e. e = Terminated q)) (release q)"
  shows "\<exists>e. trace s' = trace s @ [e] \<and>
    (started p e \<longrightarrow> (\<exists>a. r = Inr a \<and> leaves os (list_ex (\<lambda>e. e = Terminated p)) (release a)))"
  using assms unfolding popen_def by (cases r) (auto simp: started_def elim!: prim_SomeE)

lemma leaves_terminate:
  "emits os (\<lambda>_. True) m \<Longrightarrow> leaves os (list_ex (\<lambda>e. e = Terminated p)) (thenM (terminate p) m)"
  unfolding thenM_def by (rule leaves_first) (auto simp: terminate_def intro!: leaves_prim)


section \<open>A command and the one that undoes it\<close>

definition carried_out :: "string list \<Rightarrow> event \<Rightarrow> bool" where
  "carried_out args e = (case e of Ran a _ (Inr r) \<Rightarrow> a = args \<and> returncode r = 0 | _ \<Rightarrow> False)"

definition attempted :: "string list \<Rightarrow> event \<Rightarrow> bool" where
  "attempted args e = (case e of Ran a _ _ \<Rightarrow> a = args | _ \<Rightarrow> False)"

lemma command_simps [simp]:
  "carried_out args (Ran a i x) \<longleftrightarrow> a = args \<and> (\<exists>r. x = Inr r \<and> returncode r = 0)" "attempted args (Ran a i x) \<longleftrightarrow> a = args"
  "\<not> carried_out args (Clock t)" "\<not> carried_out args (Slept d)" "\<not> carried_out args (Wrote p v)" "\<not> carried_out args (Printed v)"
  "\<not> carried_out args (MadeDir p)" "\<not> carried_out args (ReadFile p z)"
  by (auto simp: carried_out_def attempted_def split: sum.splits)

lemma command_trace:
  assumes "bindM (run_process args data t) (checked True f) os s = Some (r, s')"
  shows "\<exists>p. trace s' = trace s @ [Ran args data p] \<and> ((\<exists>q. p = Inr q \<and> returncode q = 0) \<longrightarrow> (\<exists>a. r = Inr a))"
  using assms unfolding run_process_def
  by (rule bindM_SomeE) (auto simp: checked_def run_simps elim!: prim_SomeE split: if_splits)

lemma command_leaves: "leaves os (list_ex (attempted args)) (bindM (run_process args data t) (checked True f))"
  by (rule leavesI) (auto dest!: command_trace)

text \<open>\<^verbatim>\<open>command(down); try: body; finally: release\<close>: a command that was carried out is followed by the one that undoes it.\<close>

lemma command_bracket:
  assumes rel: "args = down \<Longrightarrow> leaves os (list_ex (attempted up)) release"
    and "leaves os (followed (carried_out down) (attempted up)) body"
    and "leaves os (followed (carried_out down) (attempted up)) release"
  shows "leaves os (followed (carried_out down) (attempted up))
    (thenM (bindM (run_process args data t) (checked True f)) (finallyM body release))"
  unfolding thenM_def
proof (rule leaves_bracket)
  fix s r s'
  assume "bindM (run_process args data t) (checked True f) os s = Some (r, s')"
  from command_trace [OF this] show "\<exists>e. trace s' = trace s @ [e] \<and>
      (carried_out down e \<longrightarrow> (\<exists>a. r = Inr a \<and> leaves os (list_ex (attempted up)) release))"
    using rel by fastforce
qed (rule assms)+

end
