(* ===== verification/Demo.thy ===== *)
theory Demo
  imports Cleanup
begin

text \<open>
  A concrete outside world for the witnesses. The world is the clock in milliseconds; a process
  takes one, \<^verbatim>\<open>sleep\<close> takes what it is asked to, and a function of the command line and the clock says
  what a process answers. \<open>succeeds os m w v w'\<close> says that \<open>m\<close>,
  started in the world \<open>w\<close>, returns \<open>v\<close> in the world \<open>w'\<close>; its rules execute a script symbolically.
\<close>

section \<open>The world\<close>

definition printed :: "int \<Rightarrow> json \<Rightarrow> proc" where
  "printed code doc = \<lparr>returncode = code, stdout = dumps doc, stderr = []\<rparr>"

lemma printed_simps [simp]:
  "returncode (printed code doc) = code" "stdout (printed code doc) = dumps doc" "stderr (printed code doc) = []"
  by (simp_all add: printed_def)

definition demo_os :: "(string list \<Rightarrow> nat \<Rightarrow> proc) \<Rightarrow> nat os" where
  "demo_os answer = \<lparr>
     environ = (\<lambda>k. if k = ''KUBECONFIG'' then Some ''/tmp/kubeconfig'' else None),
     os_run = (\<lambda>args input timeout w. (Inr (answer args w), Suc w)),
     os_monotonic = (\<lambda>w. (Inr (int w), w)),
     os_sleep = (\<lambda>d w. (Inr (), w + nat d)),
     os_write = (\<lambda>p t w. (Inr (), w)), os_append = (\<lambda>p t w. (Inr (), w)),
     os_read = (\<lambda>p w. (Inr [], w)), os_mkdir = (\<lambda>p w. (Inr (), w)), os_unlink = (\<lambda>p w. (Inr (), w)),
     os_print = (\<lambda>t w. (Inr (), w)), os_spawn = (\<lambda>a w. (Inr 1, w)), os_terminate = (\<lambda>p w. (Inr (), w)),
     os_waitproc = (\<lambda>p t w. (Inr (), w)), os_kill = (\<lambda>p w. (Inr (), w)),
     os_urlopen = (\<lambda>m u t w. (Inr (returncode (answer [''urlopen'', u] w), 1), Suc w)),
     os_readline = (\<lambda>h w. (Inr (stdout (answer [''readline''] w)), Suc w)),
     os_readall = (\<lambda>h w. (Inr (stdout (answer [''read''] w)), Suc w)),
     os_wallclock = (\<lambda>f w. (Inr ''2026-01-01'', w)), os_pollproc = (\<lambda>p w. (Inr None, w)),
     os_connect = (\<lambda>p w. (Inr (), w)), os_chmod = (\<lambda>p m w. (Inr (), w))\<rparr>"

definition demo_start :: "'g \<Rightarrow> (nat, 'g) st" where
  "demo_start g = \<lparr>world = 0, trace = [], globals = g\<rparr>"

lemma demo_start_simps [simp]: "trace (demo_start g) = []" "world (demo_start g) = 0"
  by (simp_all add: demo_start_def)

lemma demo_clock: "clock_ok (demo_os answer) int"
  by (simp add: clock_ok_def demo_os_def)

lemma demo_busy: "busy (demo_os answer) int"
  by (simp add: busy_def demo_os_def)

lemma demo_environ [simp]:
  "environ (demo_os answer) k = (if k = ''KUBECONFIG'' then Some ''/tmp/kubeconfig'' else None)"
  by (simp add: demo_os_def)


section \<open>Symbolic execution\<close>

definition succeeds :: "'w os \<Rightarrow> ('w, 'g, 'a) prog \<Rightarrow> 'w \<Rightarrow> 'a \<Rightarrow> 'w \<Rightarrow> bool" where
  "succeeds os m w v w' \<longleftrightarrow> (\<forall>s. world s = w \<longrightarrow> (\<exists>s'. m os s = Some (Inr v, s') \<and> world s' = w'))"

lemma succeedsD: "succeeds os m (world s) v w' \<Longrightarrow> \<exists>s'. m os s = Some (Inr v, s')"
  by (auto simp: succeeds_def)

lemma demo_succeeds:
  fixes m :: "(nat, 'g, 'a) prog"
  assumes "\<exists>w'. succeeds os m 0 v w'"
  obtains s' where "m os (demo_start g) = Some (Inr v, s')"
  using assms succeedsD [of os m "demo_start g" v] by auto

lemma succeeds_bindM [succeeds_intros]:
  fixes m :: "('w, 'g, 'a) prog"
  assumes "succeeds os m w a w1" and "succeeds os (f a) w1 b w2"
  shows "succeeds os (bindM m f) w b w2"
  unfolding succeeds_def
proof (intro allI impI)
  fix s :: "('w, 'g) st"
  assume "world s = w"
  with assms(1) obtain s1 where "m os s = Some (Inr a, s1)" "world s1 = w1"
    unfolding succeeds_def by blast
  moreover from this assms(2) obtain s2 where "f a os s1 = Some (Inr b, s2)" "world s2 = w2"
    unfolding succeeds_def by blast
  ultimately show "\<exists>s'. bindM m f os s = Some (Inr b, s') \<and> world s' = w2" by (simp add: bindM_def)
qed

lemma succeeds_thenM [succeeds_intros]:
  "succeeds os m w a w1 \<Longrightarrow> succeeds os n w1 b w2 \<Longrightarrow> succeeds os (thenM m n) w b w2"
  by (simp add: thenM_def succeeds_bindM)

lemma succeeds_silent [succeeds_intros]:
  "succeeds os (returnM a) w a w"
  "r = Inr v \<Longrightarrow> succeeds os (liftE r) w v w"
  "loads t = Inr j \<Longrightarrow> succeeds os (py_loads t) w j w"
  "b \<Longrightarrow> succeeds os (assertM msg b) w () w"
  "succeeds os (getenv k) w (environ os k) w"
  by (auto simp: succeeds_def run_simps py_loads_def)

lemma succeeds_ign [succeeds_intros]: "succeeds os m w a w1 \<Longrightarrow> succeeds os (ign m) w () w1"
  unfolding ign_def by (auto intro: succeeds_intros)

lemma succeeds_if_True: "b \<Longrightarrow> succeeds os m w v w' \<Longrightarrow> succeeds os (if b then m else n) w v w'"
  by simp

lemma succeeds_if_False: "\<not> b \<Longrightarrow> succeeds os n w v w' \<Longrightarrow> succeeds os (if b then m else n) w v w'"
  by simp

lemma succeeds_let [succeeds_intros]: "succeeds os (f t) w v w' \<Longrightarrow> succeeds os (let x = t in f x) w v w'"
  by simp

lemma succeeds_case_prod [succeeds_intros]:
  "succeeds os (f a b) w v w' \<Longrightarrow> succeeds os (case (a, b) of (x, y) \<Rightarrow> f x y) w v w'"
  by simp

lemma succeeds_prims [succeeds_intros]:
  "succeeds (demo_os answer) (run_process args input tmo) w (answer args w) (Suc w)"
  "succeeds (demo_os answer) monotonic w (int w) w"
  "succeeds (demo_os answer) (sleep d) w () (w + nat d)"
  "succeeds (demo_os answer) (write_text p x) w () w"
  "succeeds (demo_os answer) (append_text p x) w () w"
  "succeeds (demo_os answer) (read_text p) w [] w"
  "succeeds (demo_os answer) (mkdir p) w () w"
  "succeeds (demo_os answer) (unlink p) w () w"
  "succeeds (demo_os answer) (py_print x) w () w"
  "succeeds (demo_os answer) (popen args) w 1 w"
  "succeeds (demo_os answer) (terminate n) w () w"
  "succeeds (demo_os answer) (wait_process n tmo) w () w"
  "succeeds (demo_os answer) (urlopen md url t) w (returncode (answer [''urlopen'', url] w), 1) (Suc w)"
  "succeeds (demo_os answer) (readline h) w (stdout (answer [''readline''] w)) (Suc w)"
  "succeeds (demo_os answer) (read_all h) w (stdout (answer [''read''] w)) (Suc w)"
  "succeeds (demo_os answer) (wallclock fmt) w ''2026-01-01'' w"
  "succeeds (demo_os answer) (poll_process n) w None w"
  "succeeds (demo_os answer) (connect i) w () w"
  "succeeds (demo_os answer) (chmod p perm) w () w"
  by (auto simp: succeeds_def prim_defs prim_def demo_os_def)

lemma succeeds_checked [succeeds_intros]:
  "(check \<longrightarrow> returncode r = 0) \<Longrightarrow> succeeds os (checked check fail r) w r w"
  by (auto simp: checked_def succeeds_def run_simps)

lemma succeeds_catchM [succeeds_intros]: "succeeds os m w v w' \<Longrightarrow> succeeds os (catchM m h) w v w'"
  by (fastforce simp: succeeds_def catchM_def)

lemma succeeds_finallyM [succeeds_intros]:
  "succeeds os m w v w1 \<Longrightarrow> succeeds os c w1 () w2 \<Longrightarrow> succeeds os (finallyM m c) w v w2"
  by (fastforce simp: succeeds_def finallyM_def)

lemma succeeds_repeatM [succeeds_intros]:
  "0 < n \<Longrightarrow> succeeds os body w (Some v) w' \<Longrightarrow> succeeds os (repeatM n body els) w v w'"
  by (cases n) (auto intro!: succeeds_bindM succeeds_silent)

lemma succeeds_loopS [succeeds_intros]:
  "succeeds os (body x) w (Inr v) w' \<Longrightarrow> succeeds os (loopS body x) w v w'"
  by (fastforce simp: succeeds_def loopS_unfold)

text \<open>A check that holds at once is one round of the polling loop.\<close>

lemma succeeds_poll [succeeds_intros]:
  fixes fn :: "(nat, 'g, 'a) prog"
  assumes "0 < timeout" and "succeeds (demo_os answer) fn w v w'" and "ok v"
  shows "succeeds (demo_os answer) (poll ok fn timeout period err) w v w'"
  unfolding succeeds_def
proof (intro allI impI)
  fix s :: "(nat, 'g) st"
  assume s: "world s = w"
  have mono: "monotonic (demo_os answer) t =
      Some (Inr (int (world t)), t\<lparr>trace := trace t @ [Clock (Inr (int (world t)))]\<rparr>)" for t :: "(nat, 'g) st"
    by (simp add: monotonic_def prim_def demo_os_def)
  define t where "t = s\<lparr>trace := trace s @ [Clock (Inr (int w)), Clock (Inr (int w))]\<rparr>"
  obtain s' where f: "fn (demo_os answer) t = Some (Inr v, s')" "world s' = w'"
    using assms(2) [unfolded succeeds_def, rule_format, of t] s by (auto simp: t_def)
  have "poll_round ok fn (int w + timeout) period err (demo_os answer)
      (s\<lparr>trace := trace s @ [Clock (Inr (int w))]\<rparr>) = Some (Inr (Some v), s')"
    using f assms(1,3) s by (simp add: poll_round_def bindM_def mono returnM_def t_def)
  then have "poll ok fn timeout period err (demo_os answer) s = Some (Inr v, s')"
    using s by (simp add: poll_def bindM_def mono loopM.simps)
  with f(2) show "\<exists>s'. poll ok fn timeout period err (demo_os answer) s = Some (Inr v, s') \<and> world s' = w'"
    by blast
qed

text \<open>A runner of kubectl, in any world.\<close>

context pinned_kubectl
begin

lemma k_succeeds:
  assumes "os_run os (bin os # ''--context'' # ctx os # args) data timeout w = (Inr r, w')"
    and "check \<longrightarrow> returncode r = 0"
  shows "succeeds os (k args data check) w r w'"
  using assms by (auto simp: succeeds_def k_unfold run_process_def prim_def checked_def run_simps)

end

lemma demo_os_run [simp]: "os_run (demo_os answer) args i t w = (Inr (answer args w), Suc w)"
  by (simp add: demo_os_def)

section \<open>Programs with global variables\<close>

text \<open>
  \<open>gives os m Q\<close>: from every state \<open>m\<close> returns normally, with a value that satisfies \<open>Q\<close>. Used where what a script does next
  depends on its global variables, and the answers of the world do not depend on time.
\<close>

definition gives :: "'w os \<Rightarrow> ('w, 'g, 'a) prog \<Rightarrow> ('a \<Rightarrow> bool) \<Rightarrow> bool" where
  "gives os m Q \<longleftrightarrow> (\<forall>s. \<exists>v s'. m os s = Some (Inr v, s') \<and> Q v)"

lemma givesE:
  assumes "gives os m Q"
  obtains v s' where "m os s = Some (Inr v, s')" and "Q v"
  using assms unfolding gives_def by meson

lemma gives_bindM [gives_intros]: "gives os m (\<lambda>v. gives os (f v) Q) \<Longrightarrow> gives os (bindM m f) Q"
  unfolding gives_def bindM_def
proof
  fix s
  assume *: "\<forall>s. \<exists>v s'. m os s = Some (Inr v, s') \<and> (\<forall>s. \<exists>va s'. f v os s = Some (Inr va, s') \<and> Q va)"
  then obtain v s1 where "m os s = Some (Inr v, s1)" and "\<exists>va s'. f v os s1 = Some (Inr va, s') \<and> Q va" by meson
  then show "\<exists>v s'. (case m os s of None \<Rightarrow> None | Some (Inl e, s') \<Rightarrow> Some (Inl e, s') | Some (Inr a, s') \<Rightarrow> f a os s') =
      Some (Inr v, s') \<and> Q v" by simp
qed

lemma gives_thenM [gives_intros]: "gives os m (\<lambda>_. gives os n Q) \<Longrightarrow> gives os (thenM m n) Q"
  unfolding thenM_def by (rule gives_bindM)

lemma gives_ign [gives_intros]: "gives os m (\<lambda>_. Q ()) \<Longrightarrow> gives os (ign m) Q"
  unfolding ign_def by (rule gives_bindM) (auto simp: gives_def run_simps)

lemma gives_silent [gives_intros]:
  "Q1 a \<Longrightarrow> gives os (returnM a) Q1"
  "(case r of Inl e \<Rightarrow> False | Inr v \<Rightarrow> Q2 v) \<Longrightarrow> gives os (liftE r) Q2"
  "(case loads t of Inl e \<Rightarrow> False | Inr v \<Rightarrow> Q3 v) \<Longrightarrow> gives os (py_loads t) Q3"
  "b \<Longrightarrow> Q () \<Longrightarrow> gives os (assertM msg b) Q"
  "Q4 (environ os k) \<Longrightarrow> gives os (getenv k) Q4"
  "(\<And>g. Q5 g) \<Longrightarrow> gives os getG Q5"
  "Q () \<Longrightarrow> gives os (modG h) Q"
  by (auto simp: gives_def run_simps py_loads_def assertM_def split: sum.splits)

lemma gives_prims [gives_intros]:
  "(\<And>w. Q1 (answer args w)) \<Longrightarrow> gives (demo_os answer) (run_process args input tmo) Q1"
  "(\<And>t. Q2 t) \<Longrightarrow> gives (demo_os answer) monotonic Q2"
  "Q () \<Longrightarrow> gives (demo_os answer) (sleep d) Q"
  "Q () \<Longrightarrow> gives (demo_os answer) (write_text p x) Q"
  "Q () \<Longrightarrow> gives (demo_os answer) (mkdir p) Q"
  "Q () \<Longrightarrow> gives (demo_os answer) (py_print x) Q"
  by (auto simp: gives_def prim_defs prim_def demo_os_def)

lemma gives_checked [gives_intros]: "(check \<longrightarrow> returncode r = 0) \<Longrightarrow> Q r \<Longrightarrow> gives os (checked check fail r) Q"
  by (auto simp: checked_def gives_def run_simps)

lemma gives_catchM [gives_intros]: "gives os m Q \<Longrightarrow> gives os (catchM m h) Q"
  unfolding gives_def
proof
  fix s
  assume "\<forall>s. \<exists>v s'. m os s = Some (Inr v, s') \<and> Q v"
  then obtain v s' where "m os s = Some (Inr v, s')" and "Q v" by meson
  then show "\<exists>v s'. catchM m h os s = Some (Inr v, s') \<and> Q v" by (simp add: catchM_def)
qed

lemma gives_forM [gives_intros]: "(\<And>x. x \<in> set xs \<Longrightarrow> gives os (f x) (\<lambda>_. True)) \<Longrightarrow> Q () \<Longrightarrow> gives os (forM xs f) Q"
proof (induction xs)
  case (Cons x xs)
  then have "gives os (f x) (\<lambda>_. gives os (forM xs f) Q)" by (auto simp: gives_def)
  then show ?case by (simp add: gives_thenM)
qed (auto simp: gives_def run_simps)

end
