(* ===== verification/ArticleLab.thy ===== *)
theory ArticleLab
  imports Demo
begin

text \<open>
  \<^verbatim>\<open>article-next-common/lab.py\<close>: the kubectl runner, the polling function and the class \<^verbatim>\<open>Lab\<close> that
  the \<^verbatim>\<open>article-next\<close> experiments share. A \<^verbatim>\<open>Lab\<close> object is its namespace and its evidence directory;
  paths are relative to the repository's root, as every path of the scripts starts there.
  The module variable \<^verbatim>\<open>CONTEXT\<close> is read from the environment, which no script changes.
\<close>

section \<open>Runner and polling\<close>

definition CONTEXT :: "'w os \<Rightarrow> string" where
  "CONTEXT os = (case environ os ''ARTICLE_CONTEXT'' of None \<Rightarrow> ''kind-article-next'' | Some c \<Rightarrow> c)"

definition KUBECTL :: "'w os \<Rightarrow> string" where
  "KUBECTL os = (case environ os ''KUBECTL'' of None \<Rightarrow> ''kubectl'' | Some b \<Rightarrow> b)"

definition command_failed :: "string list \<Rightarrow> proc \<Rightarrow> exn" where
  "command_failed args r = RuntimeError (repr_args args @ '': '' @ stderr r @ [CHR 0x0A] @ stdout r)"

definition lab_command :: "string list \<Rightarrow> string option \<Rightarrow> bool \<Rightarrow> int \<Rightarrow> ('w, 'g, proc) prog" where
  "lab_command args data check timeout =
     bindM (run_process args data (Some timeout)) (checked check (command_failed args))"

definition lab_k :: "string list \<Rightarrow> string option \<Rightarrow> bool \<Rightarrow> int \<Rightarrow> ('w, 'g, proc) prog" where
  "lab_k args data check timeout = (\<lambda>os s.
     lab_command (KUBECTL os # ''--context'' # CONTEXT os # args) data check timeout os s)"

text \<open>\<^verbatim>\<open>k(*args)\<close> with the defaults of its keyword arguments, and with \<^verbatim>\<open>check=False\<close>.\<close>

abbreviation kcmd :: "string list \<Rightarrow> ('w, 'g, proc) prog" where
  "kcmd args \<equiv> lab_k args None True 300"

abbreviation ktry :: "string list \<Rightarrow> ('w, 'g, proc) prog" where
  "ktry args \<equiv> lab_k args None False 300"

definition not_converged :: "int \<Rightarrow> exn" where
  "not_converged timeout = TimeoutError (''condition did not converge in '' @ int_str timeout @ ''s'')"

definition lab_wait :: "('a \<Rightarrow> bool) \<Rightarrow> ('w, 'g, 'a) prog \<Rightarrow> int \<Rightarrow> ('w, 'g, 'a) prog" where
  "lab_wait ok fn timeout =
     bindM monotonic (\<lambda>t0. let deadline = t0 + 1000 * timeout in
       loopM (bindM monotonic (\<lambda>t.
         if t < deadline then
           bindM fn (\<lambda>result.
             if ok result then returnM (Some result)
             else thenM (sleep 2000) (returnM None))
         else raiseM (not_converged timeout))))"


section \<open>The class Lab\<close>

record lab =
  ns :: string
  out :: string

definition lab_save :: "lab \<Rightarrow> string \<Rightarrow> json \<Rightarrow> ('w, 'g, unit) prog" where
  "lab_save L name v =
     thenM (write_text (out L @ ''/'' @ name @ ''.json'') (dumps_raw_indent v @ [CHR 0x0A]))
       (py_print (name @ '': '' @ take 1200 (dumps_raw v)))"

definition lab_of :: "string \<Rightarrow> lab" where
  "lab_of topic = \<lparr>ns = ''article-'' @ topic, out = ''article-'' @ topic @ ''/evidence''\<rparr>"

text \<open>
  \<^verbatim>\<open>Lab.__init__\<close>: the checks that the environment is the experiment's own (\<open>lab_guard\<close>), then a fresh
  namespace and the version evidence.
\<close>

definition is_lab_node :: "string \<Rightarrow> json \<Rightarrow> exn + bool" where
  "is_lab_node px node = bindE (jpath [Sub ''metadata'', Sub ''name''] node) (\<lambda>n. jstartswith n px)"

definition lab_guard :: "('w, 'g, unit) prog" where
  "lab_guard =
     bindM (getenv ''KUBECONFIG'') (\<lambda>kc.
       if kc = None \<or> kc = Some [] then raiseM (RuntimeError ''set the KUBECONFIG of this lab explicitly'')
       else
         bindM (kcmd [''get'', ''nodes'', ''-o'', ''json'']) (\<lambda>r.
         bindM (py_loads (stdout r)) (\<lambda>doc.
         bindM (liftE (bindE (jsub doc ''items'') jiter)) (\<lambda>nodes.
         bindM (liftE (anyE (is_lab_node ''article-next-'') nodes)) (\<lambda>found.
           if found then returnM ()
           else raiseM (RuntimeError ''the current context is not the article-next cluster''))))))"

definition lab_setup :: "lab \<Rightarrow> ('w, 'g, lab) prog" where
  "lab_setup L =
     thenM (kcmd [''delete'', ''namespace'', ns L, ''--ignore-not-found'', ''--wait=true''])
       (thenM (kcmd [''create'', ''namespace'', ns L])
         (bindM (kcmd [''version'', ''-o'', ''json'']) (\<lambda>r.
          bindM (py_loads (stdout r)) (\<lambda>v.
          thenM (lab_save L ''version'' v) (returnM L)))))"

definition lab_init :: "string \<Rightarrow> ('w, 'g, lab) prog" where
  "lab_init topic = (let L = lab_of topic in
     thenM (mkdir (out L)) (thenM lab_guard (lab_setup L)))"

definition lab_apply :: "lab \<Rightarrow> json \<Rightarrow> ('w, 'g, proc) prog" where
  "lab_apply L obj =
     bindM (liftE (bindE (jsub obj ''kind'') (str_method ''lower''))) (\<lambda>kind.
     bindM (liftE (bindE (jpath [Sub ''metadata'', Sub ''name''] obj) jstr)) (\<lambda>name.
     thenM (lab_save L (''input-'' @ lower kind @ ''-'' @ name) obj)
       (lab_k [''apply'', ''-n'', ns L, ''-f'', ''-''] (Some (dumps obj)) True 300)))"

definition lab_get :: "lab \<Rightarrow> string \<Rightarrow> string option \<Rightarrow> ('w, 'g, json) prog" where
  "lab_get L kind name =
     bindM (kcmd ([''get'', kind] @ (case name of None \<Rightarrow> [] | Some n \<Rightarrow> if n = [] then [] else [n])
         @ [''-n'', ns L, ''-o'', ''json'']))
       (\<lambda>r. py_loads (stdout r))"

definition lab_patch :: "lab \<Rightarrow> string \<Rightarrow> string \<Rightarrow> json \<Rightarrow> bool \<Rightarrow> ('w, 'g, proc) prog" where
  "lab_patch L kind name v check =
     lab_k [''patch'', kind, name, ''-n'', ns L, ''--type=merge'', ''-p'', dumps v] None check 300"

definition lab_ready :: "lab \<Rightarrow> string \<Rightarrow> string \<Rightarrow> ('w, 'g, unit) prog" where
  "lab_ready L name timeout =
     ign (kcmd [''wait'', ''-n'', ns L, ''--for=condition=Ready'', ''pod/'' @ name, ''--timeout='' @ timeout])"

definition lab_exec :: "lab \<Rightarrow> string \<Rightarrow> string list \<Rightarrow> bool \<Rightarrow> ('w, 'g, proc) prog" where
  "lab_exec L name args check = lab_k ([''exec'', ''-n'', ns L, name, ''--''] @ args) None check 300"

definition lab_events :: "lab \<Rightarrow> ('w, 'g, json) prog" where
  "lab_events L = lab_get L ''events'' None"


section \<open>The interfaces it implements\<close>

lemma lab_wait_poll: "lab_wait ok fn timeout = poll ok fn (1000 * timeout) 2000 (not_converged timeout)"
  by (simp add: lab_wait_def poll_def poll_round_def)

interpretation article: poller lab_wait 2000 not_converged
  by unfold_locales (simp_all add: lab_wait_poll)

interpretation article_k: pinned_kubectl "\<lambda>args data check. lab_k args data check timeout"
    KUBECTL CONTEXT "Some timeout" command_failed
  for timeout
  by unfold_locales (simp add: lab_k_def lab_command_def)

interpretation article_lab: lab_api "\<lambda>args data check. lab_k args data check 300"
    KUBECTL CONTEXT "Some 300" command_failed ns out lab_save lab_get 1200
  by unfold_locales (simp_all add: lab_save_def lab_get_def)

lemmas article_emits [emits_intros] = article.wait_emits article_k.k_emits article_lab.save_emits
  article_lab.get_emits

lemmas article_wp [wp_intros] = article.wait_wp article_k.k_wp article_lab.save_wp article_lab.get_wp

lemmas article_runs [runs_intros] = article.wait_runs article_k.k_runs article_lab.save_runs
  article_lab.get_runs

text \<open>Every operation of the class runs kubectl against the lab's context only, writes, prints, and ends.\<close>

lemma lab_emits [emits_intros]:
  assumes "\<And>args data r. P (Ran (KUBECTL os # ''--context'' # CONTEXT os # args) data r)"
    and "\<And>p x. P (Wrote p x)" and "\<And>x. P (Printed x)" and "\<And>p. P (MadeDir p)"
  shows "emits os P (lab_apply L obj)" "emits os P (lab_patch L kind name v check)"
    "emits os P (lab_ready L name timeout)" "emits os P (lab_exec L name args check)"
    "emits os P (lab_events L)" "emits os P (lab_init topic)"
  unfolding lab_apply_def lab_patch_def lab_ready_def lab_exec_def lab_events_def lab_init_def
      lab_setup_def lab_guard_def Let_def by (intro emits_intros; simp add: assms)+

lemma lab_runs [runs_intros]:
  assumes "clock_ok os now"
  shows "runs os now (lab_apply L obj)" "runs os now (lab_patch L kind name v check)"
    "runs os now (lab_ready L name timeout)" "runs os now (lab_exec L name args check)"
    "runs os now (lab_events L)" "runs os now (lab_init topic)"
  using assms by (auto simp: lab_apply_def lab_patch_def lab_ready_def lab_exec_def lab_events_def
      lab_init_def lab_setup_def lab_guard_def Let_def intro!: runs_intros)


text \<open>The lab's own operations only append to the trace.\<close>

lemma lab_appends:
  "emits os (\<lambda>_. True) (lab_apply L obj)" "emits os (\<lambda>_. True) (lab_patch L kind name v check)"
  "emits os (\<lambda>_. True) (lab_ready L name timeout)" "emits os (\<lambda>_. True) (lab_events L)"
  by (intro lab_emits; simp)+

lemmas lab_frames [wp_intros] = lab_appends [THEN wp_frame]

lemma lab_exec_wp [wp_intros]:
  assumes "\<And>r. (check \<Longrightarrow> returncode r = 0) \<Longrightarrow>
    Q r (es @ [Ran (KUBECTL os # ''--context'' # CONTEXT os # [''exec'', ''-n'', ns L, name, ''--''] @ args) None (Inr r)])"
  shows "wp os (lab_exec L name args check) Q es"
  unfolding lab_exec_def using assms by (auto intro!: wp_intros)

lemma lab_init_wp [wp_intros]:
  assumes "\<And>fs. Q (lab_of topic) (es @ fs)"
  shows "wp os (lab_init topic) Q es"
proof -
  have "emits os (\<lambda>_. True) (lab_guard :: ('a, 'b, unit) prog)"
    by (auto simp: lab_guard_def intro!: emits_intros)
  then show ?thesis
    unfolding lab_init_def lab_setup_def Let_def
    by (intro wp_thenM wp_prims wp_frame [where m = lab_guard]) (auto intro!: wp_intros assms)
qed


text \<open>The operations in the world of the witnesses.\<close>

lemma lab_k_succeeds [succeeds_intros]:
  assumes "check \<longrightarrow> returncode (answer (''kubectl'' # ''--context'' # ''kind-article-next'' # args) w) = 0"
  shows "succeeds (demo_os answer) (lab_k args data check timeout) w
    (answer (''kubectl'' # ''--context'' # ''kind-article-next'' # args) w) (Suc w)"
proof -
  have "succeeds (demo_os answer) (lab_command (''kubectl'' # ''--context'' # ''kind-article-next'' # args)
       data check timeout) w (answer (''kubectl'' # ''--context'' # ''kind-article-next'' # args) w) (Suc w)"
    unfolding lab_command_def by (rule succeeds_intros)+ (use assms in simp)
  then show ?thesis by (simp add: lab_k_def succeeds_def KUBECTL_def CONTEXT_def)
qed

lemma lab_save_succeeds [succeeds_intros]: "succeeds (demo_os answer) (lab_save L name v) w () w"
  unfolding lab_save_def by (rule succeeds_intros)+

lemma lab_wait_succeeds [succeeds_intros]:
  "0 < timeout \<Longrightarrow> succeeds (demo_os answer) fn w y w' \<Longrightarrow> ok y \<Longrightarrow>
     succeeds (demo_os answer) (lab_wait ok fn timeout) w y w'"
  unfolding lab_wait_poll by (intro succeeds_poll) auto

lemma lab_init_succeeds:
  assumes "wf_json doc" and "bindE (jsub doc ''items'') jiter = Inr nodes"
    and "anyE (is_lab_node ''article-next-'') nodes = Inr True"
    and "\<forall>u < 4. \<forall>args. answer args (w + u) = printed 0 doc"
  shows "succeeds (demo_os answer) (lab_init topic) w (lab_of topic) (w + 4)"
proof -
  have c: "answer args w = printed 0 doc" "answer args (Suc w) = printed 0 doc"
    "answer args (Suc (Suc w)) = printed 0 doc" "answer args (Suc (Suc (Suc w))) = printed 0 doc" for args
    using assms(4) [rule_format, of 0] assms(4) [rule_format, of 1] assms(4) [rule_format, of 2]
      assms(4) [rule_format, of 3] by (simp_all add: eval_nat_numeral)
  have four: "w + 4 = Suc (Suc (Suc (Suc w)))" by simp
  show ?thesis
    unfolding lab_init_def lab_guard_def lab_setup_def Let_def four
    by (rule succeeds_intros | (rule succeeds_if_False, (simp; fail)) | (rule succeeds_if_True, (simp; fail))
        | (simp add: assms c; fail))+
qed

lemma lab_apply_succeeds [succeeds_intros]:
  assumes "bindE (jsub obj ''kind'') (str_method ''lower'') = Inr kind"
    and "bindE (jpath [Sub ''metadata'', Sub ''name''] obj) jstr = Inr name"
    and "returncode (answer [''kubectl'', ''--context'', ''kind-article-next'', ''apply'', ''-n'', ns L, ''-f'', ''-''] w) = 0"
  shows "succeeds (demo_os answer) (lab_apply L obj) w
    (answer [''kubectl'', ''--context'', ''kind-article-next'', ''apply'', ''-n'', ns L, ''-f'', ''-''] w) (Suc w)"
  unfolding lab_apply_def by (rule succeeds_intros | rule assms | (simp add: assms(3); fail))+

section \<open>What has been checked when the namespace is deleted\<close>

text \<open>An answer of the cluster that lists a node of the lab.\<close>

definition lists_lab_node :: "string \<Rightarrow> event \<Rightarrow> bool" where
  "lists_lab_node px e = (case e of
       Ran args data (Inr r) \<Rightarrow>
         drop 3 args = [''get'', ''nodes'', ''-o'', ''json''] \<and> returncode r = 0 \<and>
         (case bindE (loads (stdout r)) (\<lambda>doc. bindE (jsub doc ''items'') jiter) of
            Inl e \<Rightarrow> False
          | Inr nodes \<Rightarrow> list_ex (\<lambda>n. is_lab_node px n = Inr True) nodes)
     | _ \<Rightarrow> False)"

definition lab_evidence :: "'w os \<Rightarrow> event list \<Rightarrow> bool" where
  "lab_evidence os es \<longleftrightarrow> environ os ''KUBECONFIG'' \<noteq> None \<and> environ os ''KUBECONFIG'' \<noteq> Some [] \<and>
     list_ex (lists_lab_node ''article-next-'') es"

lemma lab_guard_InrE:
  assumes "lab_guard os s = Some (Inr u, s')"
  obtains kc r doc nodes where "environ os ''KUBECONFIG'' = Some kc" and "kc \<noteq> []" and "returncode r = 0"
    and "loads (stdout r) = Inr doc" and "bindE (jsub doc ''items'') jiter = Inr nodes"
    and "anyE (is_lab_node ''article-next-'') nodes = Inr True"
    and "trace s' = trace s @ [Ran [KUBECTL os, ''--context'', CONTEXT os, ''get'', ''nodes'', ''-o'', ''json''] None (Inr r)]"
  using assms unfolding lab_guard_def py_loads_def
  by (auto simp: run_simps bind_eq_Some_conv split: if_splits option.splits sum.splits
      elim!: bindM_InrE article_k.k_InrE liftE_InrE)

lemma lab_init_needs_kubeconfig:
  assumes "lab_init topic os s = Some (Inr L, s')"
  shows "environ os ''KUBECONFIG'' \<noteq> None"
  using assms unfolding lab_init_def Let_def by (elim thenM_InrE lab_guard_InrE) simp

interpretation article_init: guarded_setup lab_guard lab_init "\<lambda>t. out (lab_of t)" "\<lambda>t. lab_setup (lab_of t)"
    lab_evidence
proof unfold_locales
  show "lab_init t = thenM (mkdir (out (lab_of t))) (thenM lab_guard (lab_setup (lab_of t)))" for t
    by (simp add: lab_init_def Let_def)
  show "emits os (\<lambda>e. \<not> mutates e) lab_guard" for os
    by (auto simp: lab_guard_def mutates_def intro!: emits_intros)
  show "emits os (\<lambda>_. True) (lab_setup (lab_of t))" for os t
    by (auto simp: lab_setup_def intro!: emits_intros)
next
  fix os :: "'a os" and s s' :: "('a, 'b) st" and u es
  assume "lab_guard os s = Some (Inr u, s')" and "trace s' = trace s @ es"
  then show "lab_evidence os es"
    by (elim lab_guard_InrE)
       (auto simp: lab_evidence_def lists_lab_node_def list_ex_iff dest: anyE_True)
qed

end
