(* ===== verification/DeepDiveLab.thy ===== *)
theory DeepDiveLab
  imports ArticleLab
begin

text \<open>
  \<^verbatim>\<open>deep-dive-common/lab.py\<close>: the harness of the \<^verbatim>\<open>deep-dive\<close> experiments. It differs from the other
  \<^verbatim>\<open>Lab\<close> in the fixed context, the process timeout, the guard (an \<^verbatim>\<open>assert\<close> on the first node) and has
  the object builders \<^verbatim>\<open>pod\<close>, \<^verbatim>\<open>deployment\<close> and \<^verbatim>\<open>service\<close>.
\<close>

section \<open>Runner and polling\<close>

definition IMAGE :: string where
  "IMAGE = ''python:3.12-alpine''"

definition CTX :: string where
  "CTX = ''kind-deep-dive''"

definition dd_command :: "string list \<Rightarrow> string option \<Rightarrow> bool \<Rightarrow> ('w, 'g, proc) prog" where
  "dd_command args data check =
     bindM (run_process args data (Some 180)) (checked check (command_failed args))"

definition dd_k :: "string list \<Rightarrow> string option \<Rightarrow> bool \<Rightarrow> ('w, 'g, proc) prog" where
  "dd_k args data check = dd_command (''kubectl'' # ''--context'' # CTX # args) data check"

definition dd_wait :: "('a \<Rightarrow> bool) \<Rightarrow> ('w, 'g, 'a) prog \<Rightarrow> int \<Rightarrow> ('w, 'g, 'a) prog" where
  "dd_wait ok fn timeout =
     bindM monotonic (\<lambda>t0. let deadline = t0 + 1000 * timeout in
       loopM (bindM monotonic (\<lambda>t.
         if t < deadline then
           bindM fn (\<lambda>result.
             if ok result then returnM (Some result)
             else thenM (sleep 2000) (returnM None))
         else raiseM (not_converged timeout))))"

abbreviation ddcmd :: "string list \<Rightarrow> ('w, 'g, proc) prog" where
  "ddcmd args \<equiv> dd_k args None True"

abbreviation ddtry :: "string list \<Rightarrow> ('w, 'g, proc) prog" where
  "ddtry args \<equiv> dd_k args None False"


section \<open>The class Lab\<close>

definition dd_of :: "string \<Rightarrow> lab" where
  "dd_of topic = \<lparr>ns = ''dd-'' @ topic, out = ''deep-dive-'' @ topic @ ''/evidence''\<rparr>"

definition dd_save :: "lab \<Rightarrow> string \<Rightarrow> json \<Rightarrow> ('w, 'g, unit) prog" where
  "dd_save L name v =
     thenM (write_text (out L @ ''/'' @ name @ ''.json'') (dumps_raw_indent v @ [CHR 0x0A]))
       (py_print (name @ '': '' @ take 1600 (dumps_raw v)))"

definition dd_guard :: "('w, 'g, unit) prog" where
  "dd_guard =
     bindM (getenv ''KUBECONFIG'') (\<lambda>kc.
     thenM (assertM ''set the KUBECONFIG of this lab explicitly'' (kc \<noteq> None \<and> kc \<noteq> Some []))
       (bindM (ddcmd [''get'', ''node'', ''-o'', ''json'']) (\<lambda>r.
        bindM (py_loads (stdout r)) (\<lambda>doc.
        bindM (liftE (bindE (jpath [Sub ''items'', Idx 0, Sub ''metadata'', Sub ''name''] doc)
            (\<lambda>n. jstartswith n ''deep-dive-'')))
          (assertM [])))))"

definition dd_setup :: "lab \<Rightarrow> ('w, 'g, lab) prog" where
  "dd_setup L =
     thenM (ddcmd [''delete'', ''namespace'', ns L, ''--ignore-not-found'', ''--wait=true''])
       (thenM (ddcmd [''create'', ''namespace'', ns L])
         (bindM (ddcmd [''version'', ''-o'', ''json'']) (\<lambda>r.
          bindM (py_loads (stdout r)) (\<lambda>v.
          thenM (dd_save L ''version'' v) (returnM L)))))"

definition dd_init :: "string \<Rightarrow> ('w, 'g, lab) prog" where
  "dd_init topic = (let L = dd_of topic in
     thenM (mkdir (out L)) (thenM dd_guard (dd_setup L)))"

definition dd_apply :: "lab \<Rightarrow> json \<Rightarrow> ('w, 'g, proc) prog" where
  "dd_apply L obj =
     bindM (liftE (bindE (jsub obj ''kind'') (str_method ''lower''))) (\<lambda>kind.
     bindM (liftE (bindE (jpath [Sub ''metadata'', Sub ''name''] obj) jstr)) (\<lambda>name.
     thenM (dd_save L (''input-'' @ lower kind @ ''-'' @ name) obj)
       (dd_k [''apply'', ''-n'', ns L, ''-f'', ''-''] (Some (dumps obj)) True)))"

definition dd_get :: "lab \<Rightarrow> string \<Rightarrow> string option \<Rightarrow> ('w, 'g, json) prog" where
  "dd_get L kind name =
     bindM (ddcmd ([''get'', kind] @ (case name of None \<Rightarrow> [] | Some n \<Rightarrow> if n = [] then [] else [n])
         @ [''-n'', ns L, ''-o'', ''json'']))
       (\<lambda>r. py_loads (stdout r))"

definition dd_patch :: "lab \<Rightarrow> string \<Rightarrow> string \<Rightarrow> json \<Rightarrow> ('w, 'g, proc) prog" where
  "dd_patch L kind name v =
     ddcmd [''patch'', kind, name, ''-n'', ns L, ''--type=merge'', ''-p'', dumps v]"

definition dd_ready :: "lab \<Rightarrow> string \<Rightarrow> ('w, 'g, unit) prog" where
  "dd_ready L name =
     ign (ddcmd [''wait'', ''-n'', ns L, ''--for=condition=Ready'', ''pod/'' @ name, ''--timeout=180s''])"

definition dd_exec :: "lab \<Rightarrow> string \<Rightarrow> string list \<Rightarrow> bool \<Rightarrow> string option \<Rightarrow> ('w, 'g, proc) prog" where
  "dd_exec L name args check container =
     dd_k ([''exec'', ''-n'', ns L, name]
         @ (case container of None \<Rightarrow> [] | Some c \<Rightarrow> if c = [] then [] else [''-c'', c])
         @ ''--'' # args) None check"

definition pod_labelled :: "string \<Rightarrow> json \<Rightarrow> exn + bool" where
  "pod_labelled app p =
     bindE (jpath [Sub ''metadata'', Get ''labels'' emptyD, get0 ''app''] p) (\<lambda>a. Inr (py_eq a (JStr app)))"

definition dd_pods :: "lab \<Rightarrow> string \<Rightarrow> ('w, 'g, json list) prog" where
  "dd_pods L app =
     bindM (dd_get L ''pods'' None) (\<lambda>doc.
       liftE (bindE (bindE (jsub doc ''items'') jiter) (filterE (pod_labelled app))))"

definition dd_rollout :: "lab \<Rightarrow> string \<Rightarrow> ('w, 'g, unit) prog" where
  "dd_rollout L name =
     ign (ddcmd [''rollout'', ''status'', ''-n'', ns L, ''deployment/'' @ name, ''--timeout=180s''])"

definition dd_snapshot :: "lab \<Rightarrow> string \<Rightarrow> ('w, 'g, unit) prog" where
  "dd_snapshot L name =
     thenM (bindM (dd_get L ''pods'' None) (dd_save L name))
       (bindM (dd_get L ''events'' None) (dd_save L (name @ ''-events'')))"


section \<open>Object builders\<close>

definition SLEEPER :: string where                  \<comment> \<open>the default of the parameter \<^verbatim>\<open>code\<close>\<close>
  "SLEEPER = ''import time; time.sleep(3600)''"

definition pod :: "string \<Rightarrow> string \<Rightarrow> (string \<times> json) list \<Rightarrow> json" where
  "pod name code spec = JDict
     [(''apiVersion'', JStr ''v1''), (''kind'', JStr ''Pod''),
      (''metadata'', JDict [(''name'', JStr name), (''labels'', JDict [(''app'', JStr name)])]),
      (''spec'', JDict (dict_update
         [(''terminationGracePeriodSeconds'', JInt 2),
          (''containers'', JList [JDict [(''name'', JStr ''app''), (''image'', JStr IMAGE),
             (''imagePullPolicy'', JStr ''IfNotPresent''),
             (''command'', JList [JStr ''python'', JStr ''-u'', JStr ''-c'', JStr code])]])]
         spec))]"

definition deployment :: "string \<Rightarrow> string \<Rightarrow> int \<Rightarrow> (string \<times> json) list \<Rightarrow> exn + json" where
  "deployment name code replicas spec = bindE (jsub (pod name code spec) ''spec'') (\<lambda>podspec. Inr (JDict
     [(''apiVersion'', JStr ''apps/v1''), (''kind'', JStr ''Deployment''),
      (''metadata'', JDict [(''name'', JStr name)]),
      (''spec'', JDict
         [(''replicas'', JInt replicas),
          (''selector'', JDict [(''matchLabels'', JDict [(''app'', JStr name)])]),
          (''template'', JDict
             [(''metadata'', JDict [(''labels'', JDict [(''app'', JStr name)])]), (''spec'', podspec)])])]))"

definition service :: "string \<Rightarrow> json" where
  "service name = JDict
     [(''apiVersion'', JStr ''v1''), (''kind'', JStr ''Service''), (''metadata'', JDict [(''name'', JStr name)]),
      (''spec'', JDict [(''selector'', JDict [(''app'', JStr name)]),
         (''ports'', JList [JDict [(''port'', JInt 8080), (''targetPort'', JInt 8080)]])])]"

text \<open>The source text of the HTTP server the pods run, a constant of the harness.\<close>

definition SERVER :: string where
  "SERVER = concat (map (\<lambda>line. line @ [CHR 0x0A])
     [''import http.server, pathlib, time, os, urllib.request'',
      ''class H(http.server.BaseHTTPRequestHandler):'',
      '' def do_GET(self):'',
      ''  status=200; body=b'' @ [CHR 0x27] @ ''ok'' @ [CHR 0x27],
      ''  if self.path == '' @ [CHR 0x27] @ ''/ready'' @ [CHR 0x27] @ '' and pathlib.Path('' @ [CHR 0x27] @ ''/state/not-ready'' @ [CHR 0x27] @ '').exists(): status=503'',
      ''  if self.path == '' @ [CHR 0x27] @ ''/live'' @ [CHR 0x27] @ '' and pathlib.Path('' @ [CHR 0x27] @ ''/state/not-live'' @ [CHR 0x27] @ '').exists(): status=503'',
      ''  if self.path == '' @ [CHR 0x27] @ ''/startup'' @ [CHR 0x27] @ '' and not pathlib.Path('' @ [CHR 0x27] @ ''/state/started'' @ [CHR 0x27] @ '').exists(): status=503'',
      ''  if self.path == '' @ [CHR 0x27] @ ''/work'' @ [CHR 0x27] @ '':'',
      ''   end=time.thread_time()+0.02'',
      ''   while time.thread_time()<end: pass'',
      ''  if self.path == '' @ [CHR 0x27] @ ''/slow'' @ [CHR 0x27] @ '': time.sleep(0.2)'',
      ''  if self.path == '' @ [CHR 0x27] @ ''/proxy'' @ [CHR 0x27] @ '':'',
      ''   with urllib.request.urlopen(os.environ['' @ [CHR 0x27] @ ''BACKEND'' @ [CHR 0x27] @ '']+'' @ [CHR 0x27] @ ''/slow'' @ [CHR 0x27] @ '',timeout=10) as r: body=r.read()'',
      ''  self.send_response(status); self.end_headers(); self.wfile.write(body)'',
      '' def log_message(self,*args): pass'',
      ''http.server.ThreadingHTTPServer(('' @ [CHR 0x27] @ ''0.0.0.0'' @ [CHR 0x27] @ '',8080),H).serve_forever()''])"


section \<open>The interfaces it implements\<close>

lemma dd_wait_poll: "dd_wait ok fn timeout = poll ok fn (1000 * timeout) 2000 (not_converged timeout)"
  by (simp add: dd_wait_def poll_def poll_round_def)

interpretation deepdive: poller dd_wait 2000 not_converged
  by unfold_locales (simp_all add: dd_wait_poll)

interpretation deepdive_lab: lab_api dd_k "\<lambda>_. ''kubectl''" "\<lambda>_. CTX" "Some 180" command_failed
    ns out dd_save dd_get 1600
  by unfold_locales (simp_all add: dd_k_def dd_command_def dd_save_def dd_get_def)

lemmas deepdive_emits [emits_intros] = deepdive.wait_emits deepdive_lab.k_emits deepdive_lab.save_emits
  deepdive_lab.get_emits

lemmas deepdive_wp [wp_intros] = deepdive.wait_wp deepdive_lab.k_wp deepdive_lab.save_wp deepdive_lab.get_wp

lemmas deepdive_runs [runs_intros] = deepdive.wait_runs deepdive_lab.k_runs deepdive_lab.save_runs
  deepdive_lab.get_runs

lemma dd_emits [emits_intros]:
  assumes "\<And>args data r. P (Ran (''kubectl'' # ''--context'' # CTX # args) data r)"
    and "\<And>p x. P (Wrote p x)" and "\<And>x. P (Printed x)" and "\<And>p. P (MadeDir p)"
  shows "emits os P (dd_apply L obj)" "emits os P (dd_patch L kind name v)" "emits os P (dd_ready L name)"
    "emits os P (dd_exec L name args check container)" "emits os P (dd_pods L app)" "emits os P (dd_rollout L name)"
    "emits os P (dd_snapshot L name)" "emits os P (dd_init topic)"
  unfolding dd_apply_def dd_patch_def dd_ready_def dd_exec_def dd_pods_def dd_rollout_def
      dd_snapshot_def dd_init_def dd_setup_def dd_guard_def Let_def by (intro emits_intros; simp add: assms)+

lemma dd_appends:
  "emits os (\<lambda>_. True) (dd_apply L obj)" "emits os (\<lambda>_. True) (dd_patch L kind name v)"
  "emits os (\<lambda>_. True) (dd_ready L name)" "emits os (\<lambda>_. True) (dd_pods L app)"
  "emits os (\<lambda>_. True) (dd_rollout L name)" "emits os (\<lambda>_. True) (dd_snapshot L name)"
  by (intro dd_emits; simp)+

lemmas dd_frames [wp_intros] = dd_appends(5,6) [THEN wp_frame]

text \<open>What the trace holds after the operations.\<close>

lemma dd_apply_wp [wp_intros]:
  assumes "\<And>fs r. returncode r = 0 \<Longrightarrow> Q r (es @ fs @
    [Ran [''kubectl'', ''--context'', CTX, ''apply'', ''-n'', ns L, ''-f'', ''-''] (Some (dumps obj)) (Inr r)])"
  shows "wp os (dd_apply L obj) Q es"
  unfolding dd_apply_def by (intro wp_intros) (simp only: append_assoc, rule assms, simp)

lemma dd_calls_wp [wp_intros]:
  "(\<And>r. returncode r = 0 \<Longrightarrow> Q r (es @ [Ran [''kubectl'', ''--context'', CTX, ''patch'', kind, name, ''-n'', ns L,
      ''--type=merge'', ''-p'', dumps v] None (Inr r)])) \<Longrightarrow> wp os (dd_patch L kind name v) Q es"
  "(\<And>r. returncode r = 0 \<Longrightarrow> Q' () (es @ [Ran [''kubectl'', ''--context'', CTX, ''wait'', ''-n'', ns L,
      ''--for=condition=Ready'', ''pod/'' @ name, ''--timeout=180s''] None (Inr r)])) \<Longrightarrow> wp os (dd_ready L name) Q' es"
  "(\<And>r. (check \<Longrightarrow> returncode r = 0) \<Longrightarrow> Q r (es @ [Ran (''kubectl'' # ''--context'' # CTX # [''exec'', ''-n'', ns L, name]
      @ (case container of None \<Rightarrow> [] | Some c \<Rightarrow> if c = [] then [] else [''-c'', c]) @ ''--'' # args) None (Inr r)])) \<Longrightarrow>
    wp os (dd_exec L name args check container) Q es"
  unfolding dd_patch_def dd_ready_def dd_exec_def by (intro wp_intros; simp)+

lemma dd_pods_wp [wp_intros]:
  assumes "\<And>fs ps. Q ps (es @ fs)"
  shows "wp os (dd_pods L app) Q es"
  using dd_appends(4) assms by (rule wp_frame)

lemma dd_init_wp [wp_intros]:
  assumes "\<And>fs. Q (dd_of topic) (es @ fs)"
  shows "wp os (dd_init topic) Q es"
proof -
  have "emits os (\<lambda>_. True) (dd_guard :: ('a, 'b, unit) prog)"
    by (auto simp: dd_guard_def intro!: emits_intros)
  then show ?thesis
    unfolding dd_init_def dd_setup_def Let_def
    by (intro wp_thenM wp_prims wp_frame [where m = dd_guard]) (auto intro!: wp_intros assms)
qed

lemma dd_runs [runs_intros]:
  assumes "clock_ok os now"
  shows "runs os now (dd_apply L obj)" "runs os now (dd_patch L kind name v)"
    "runs os now (dd_ready L name)" "runs os now (dd_exec L name args check container)"
    "runs os now (dd_pods L app)" "runs os now (dd_rollout L name)" "runs os now (dd_snapshot L name)"
    "runs os now (dd_init topic)"
  using assms by (auto simp: dd_apply_def dd_patch_def dd_ready_def dd_exec_def dd_pods_def
      dd_rollout_def dd_snapshot_def dd_init_def dd_setup_def dd_guard_def Let_def intro!: runs_intros)

definition dd_evidence :: "'w os \<Rightarrow> event list \<Rightarrow> bool" where
  "dd_evidence os es \<longleftrightarrow> environ os ''KUBECONFIG'' \<noteq> None \<and> environ os ''KUBECONFIG'' \<noteq> Some [] \<and>
     (\<exists>r n. Ran [''kubectl'', ''--context'', CTX, ''get'', ''node'', ''-o'', ''json''] None (Inr r) \<in> set es \<and>
        returncode r = 0 \<and>
        bindE (loads (stdout r)) (jpath [Sub ''items'', Idx 0, Sub ''metadata'', Sub ''name'']) = Inr (JStr n) \<and>
        startswith n ''deep-dive-'')"

lemma dd_guard_evidence:
  assumes "dd_guard os s = Some (Inr u, s')" and "trace s' = trace s @ es"
  shows "dd_evidence os es"
  using assms unfolding dd_guard_def py_loads_def dd_evidence_def
  by (auto simp: run_simps bindE_Inr_iff jstartswith_True split: if_splits option.splits sum.splits
      elim!: bindM_InrE thenM_InrE deepdive_lab.k_InrE liftE_InrE assertM_InrE)

interpretation deepdive_init: guarded_setup dd_guard dd_init "\<lambda>t. out (dd_of t)" "\<lambda>t. dd_setup (dd_of t)"
    dd_evidence
proof unfold_locales
  show "dd_init t = thenM (mkdir (out (dd_of t))) (thenM dd_guard (dd_setup (dd_of t)))" for t
    by (simp add: dd_init_def Let_def)
  show "emits os (\<lambda>e. \<not> mutates e) dd_guard" for os
    by (auto simp: dd_guard_def mutates_def intro!: emits_intros)
  show "emits os (\<lambda>_. True) (dd_setup (dd_of t))" for os t
    by (auto simp: dd_setup_def intro!: emits_intros)
qed (rule dd_guard_evidence)

end
