(* ===== verification/Http.thy ===== *)
theory Http
  imports PyProg
begin

text \<open>
  What the two webhook servers use of \<^verbatim>\<open>http.server\<close>, \<^verbatim>\<open>urllib.parse\<close> and \<^verbatim>\<open>base64\<close>: a request with
  its headers and the bytes waiting on the connection, a reply, the path of a request target, and
  base64 in both directions. A request body is its decoded text; \<^verbatim>\<open>content-length\<close> counts its
  characters, which for ASCII bodies (all that \<^verbatim>\<open>json.dumps\<close> writes) are its bytes.
\<close>

section \<open>Requests and replies\<close>

record http_request =
  target :: string                                   \<comment> \<open>\<^verbatim>\<open>self.path\<close>\<close>
  headers :: "(string \<times> string) list"
  rfile :: string

datatype http_reply =
    Reply int "(string \<times> string) list" string        \<comment> \<open>status, headers sent, body\<close>
  | ErrorPage int                                     \<comment> \<open>\<^verbatim>\<open>self.send_error\<close>: the page is the library's\<close>

text \<open>\<^verbatim>\<open>self.headers.get(name)\<close>: header names are compared without regard to case.\<close>

fun header :: "(string \<times> string) list \<Rightarrow> string \<Rightarrow> string option" where
  "header [] name = None"
| "header ((h, v) # hs) name = (if lower h = lower name then Some v else header hs name)"

definition py_int :: "string \<Rightarrow> exn + int" where
  "py_int s = (case int_of_str s of
     None \<Rightarrow> Inl (ValueError (''invalid literal for int() with base 10: '' @ py_repr s))
   | Some i \<Rightarrow> Inr i)"

text \<open>\<^verbatim>\<open>rfile.read(n)\<close>: at most \<open>n\<close>, everything for a negative count.\<close>

definition rfile_read :: "http_request \<Rightarrow> int \<Rightarrow> string" where
  "rfile_read q n = (if n < 0 then rfile q else take (nat n) (rfile q))"


section \<open>The path of a request target\<close>

definition is_scheme_char :: "char \<Rightarrow> bool" where
  "is_scheme_char c \<longleftrightarrow> (let n = (of_char c :: nat) in
     (48 \<le> n \<and> n \<le> 57) \<or> (65 \<le> n \<and> n \<le> 90) \<or> (97 \<le> n \<and> n \<le> 122) \<or> n \<in> {43, 45, 46})"

definition is_ascii_alpha :: "char \<Rightarrow> bool" where
  "is_ascii_alpha c \<longleftrightarrow> (let n = (of_char c :: nat) in (65 \<le> n \<and> n \<le> 90) \<or> (97 \<le> n \<and> n \<le> 122))"

definition before :: "char set \<Rightarrow> string \<Rightarrow> string" where
  "before cs s = takeWhile (\<lambda>c. c \<notin> cs) s"

text \<open>Removal of \<^verbatim>\<open>scheme:\<close> and of \<^verbatim>\<open>//netloc\<close>, the first two steps of \<^verbatim>\<open>urlsplit\<close>.\<close>

definition drop_scheme :: "string \<Rightarrow> string" where
  "drop_scheme u = (let p = before {CHR '':''} u in
     if p \<noteq> [] \<and> p \<noteq> u \<and> is_ascii_alpha (hd p) \<and> list_all is_scheme_char p
     then drop (Suc (length p)) u else u)"

definition drop_netloc :: "string \<Rightarrow> exn + string" where
  "drop_netloc u = (if startswith u ''//'' then
       (let netloc = before {CHR ''/'', CHR ''?'', CHR ''#''} (drop 2 u) in
        if (CHR ''['' \<in> set netloc) \<noteq> (CHR '']'' \<in> set netloc) then Inl (ValueError ''Invalid IPv6 URL'')
        else Inr (drop (2 + length netloc) u))
     else Inr u)"

definition urlsplit_path :: "string \<Rightarrow> exn + string" where
  "urlsplit_path url =
     (let u = filter (\<lambda>c. (of_char c :: nat) \<notin> {9, 10, 13}) (dropWhile (\<lambda>c. (of_char c :: nat) \<le> 32) url) in
      bindE (drop_netloc (drop_scheme u)) (\<lambda>r. Inr (before {CHR ''?''} (before {CHR ''#''} r))))"

text \<open>A target that is a plain absolute path, with or without a query, has that path.\<close>

definition plain_path :: "string \<Rightarrow> bool" where
  "plain_path p \<longleftrightarrow> startswith p ''/'' \<and> \<not> startswith p ''//'' \<and>
     list_all (\<lambda>c. 32 < (of_char c :: nat) \<and> c \<noteq> CHR ''?'' \<and> c \<noteq> CHR ''#'') p"

definition plain_query :: "string \<Rightarrow> bool" where
  "plain_query q \<longleftrightarrow> q = [] \<or> (hd q = CHR ''?'' \<and> list_all (\<lambda>c. 32 < (of_char c :: nat) \<and> c \<noteq> CHR ''#'') q)"

lemma plain_pathE:
  assumes "plain_path p"
  obtains r where "p = CHR ''/'' # r" and "r = [] \<or> hd r \<noteq> CHR ''/''"
  using assms by (cases p; cases "tl p") (auto simp: plain_path_def startswith_def)

lemma before_append_stop: "(\<forall>c \<in> set p. c \<notin> cs) \<Longrightarrow> q = [] \<or> hd q \<in> cs \<Longrightarrow> before cs (p @ q) = p"
  unfolding before_def by (rule takeWhile_append_stop) auto

lemma above_32: "32 < n \<Longrightarrow> n \<notin> {9, 10, 13}" for n :: nat
  by auto

lemma urlsplit_path_plain:
  assumes "plain_path p" and "plain_query q"
  shows "urlsplit_path (p @ q) = Inr p"
proof -
  obtain r where r: "p = CHR ''/'' # r" "r = [] \<or> hd r \<noteq> CHR ''/''"
    using assms(1) by (rule plain_pathE)
  have "\<forall>c \<in> set p. 32 < (of_char c :: nat) \<and> c \<noteq> CHR ''#''"
    using assms(1) unfolding plain_path_def list_all_iff by blast
  moreover have "\<forall>c \<in> set q. 32 < (of_char c :: nat) \<and> c \<noteq> CHR ''#''"
    using assms(2) unfolding plain_query_def list_all_iff by (metis empty_iff list.set(1))
  ultimately have ok: "\<forall>c \<in> set (p @ q). 32 < (of_char c :: nat) \<and> c \<noteq> CHR ''#''"
    by (simp only: set_append ball_Un)
  have strip: "dropWhile (\<lambda>c. (of_char c :: nat) \<le> 32) (p @ q) = p @ q"
    using ok r(1) by (intro dropWhile_id disjI2) (simp add: not_le)
  have keep: "filter (\<lambda>c. (of_char c :: nat) \<notin> {9, 10, 13}) (p @ q) = p @ q"
    using ok above_32 by (intro filter_True) blast
  have scheme: "drop_scheme (p @ q) = p @ q"
  proof -
    have "before {CHR '':''} (p @ q) = CHR ''/'' # before {CHR '':''} (r @ q)"
      using r(1) by (simp add: before_def)
    moreover have "\<not> is_ascii_alpha (CHR ''/'')" by code_simp
    ultimately show ?thesis by (simp add: drop_scheme_def Let_def)
  qed
  have netloc: "drop_netloc (p @ q) = Inr (p @ q)"
    using r assms(2) by (cases r; cases q) (auto simp: drop_netloc_def startswith_code plain_query_def)
  have "before {CHR ''#''} (p @ q) = p @ q"
    using ok before_append_stop [of "p @ q" "{CHR ''#''}" "[]"] by auto
  moreover have "before {CHR ''?''} (p @ q) = p"
    using assms by (intro before_append_stop) (auto simp: plain_path_def plain_query_def list_all_iff)
  ultimately show ?thesis
    by (simp only: urlsplit_path_def Let_def strip keep scheme netloc bindE_simps)
qed


section \<open>Base64\<close>

definition b64_alphabet :: string where
  "b64_alphabet = ''ABCDEFGHIJKLMNOPQRSTUVWXYZabcdefghijklmnopqrstuvwxyz0123456789+/''"

definition b64_char :: "nat \<Rightarrow> char" where
  "b64_char n = b64_alphabet ! n"

fun b64encode :: "string \<Rightarrow> string" where
  "b64encode [] = []"
| "b64encode [a] = (let x = (of_char a :: nat) in
     [b64_char (x div 4), b64_char (x mod 4 * 16), CHR ''='', CHR ''=''])"
| "b64encode [a, b] = (let x = (of_char a :: nat); y = (of_char b :: nat) in
     [b64_char (x div 4), b64_char (x mod 4 * 16 + y div 16), b64_char (y mod 16 * 4), CHR ''=''])"
| "b64encode (a # b # c # s) =
     (let x = (of_char a :: nat); y = (of_char b :: nat); z = (of_char c :: nat) in
      [b64_char (x div 4), b64_char (x mod 4 * 16 + y div 16), b64_char (y mod 16 * 4 + z div 64),
       b64_char (z mod 64)]) @ b64encode s"

text \<open>The decoder on the other side of the connection (RFC 4648, padding required).\<close>

fun index_of :: "'a list \<Rightarrow> 'a \<Rightarrow> nat option" where
  "index_of [] x = None"
| "index_of (y # ys) x = (if y = x then Some 0 else map_option Suc (index_of ys x))"

definition b64_val :: "char \<Rightarrow> nat option" where
  "b64_val c = index_of b64_alphabet c"

fun b64decode :: "string \<Rightarrow> string option" where
  "b64decode [] = Some []"
| "b64decode (a # b # c # d # s) =
     (case (b64_val a, b64_val b) of
        (Some p, Some q) \<Rightarrow>
          (if c = CHR ''='' then
             (if d = CHR ''='' \<and> s = [] then Some [char_of (4 * p + q div 16)] else None)
           else (case b64_val c of
               None \<Rightarrow> None
             | Some r \<Rightarrow>
                 if d = CHR ''='' then
                   (if s = [] then Some [char_of (4 * p + q div 16), char_of (q mod 16 * 16 + r div 4)] else None)
                 else (case (b64_val d, b64decode s) of
                     (Some t, Some rest) \<Rightarrow>
                       Some (char_of (4 * p + q div 16) # char_of (q mod 16 * 16 + r div 4) #
                         char_of (r mod 4 * 64 + t) # rest)
                   | _ \<Rightarrow> None)))
      | _ \<Rightarrow> None)"
| "b64decode _ = None"

lemma index_of_nth: "distinct xs \<Longrightarrow> n < length xs \<Longrightarrow> index_of xs (xs ! n) = Some n"
proof (induction xs arbitrary: n)
  case (Cons x xs)
  then show ?case by (cases n) auto
qed simp

lemma b64_alphabet_props: "distinct b64_alphabet" "length b64_alphabet = 64" "CHR ''='' \<notin> set b64_alphabet"
  by code_simp+

lemma b64_val_char [simp]: "n < 64 \<Longrightarrow> b64_val (b64_char n) = Some n"
  unfolding b64_val_def b64_char_def using b64_alphabet_props by (intro index_of_nth) auto

lemma b64_char_not_pad [simp]: "n < 64 \<Longrightarrow> b64_char n \<noteq> CHR ''=''"
  unfolding b64_char_def using b64_alphabet_props by (metis nth_mem)

lemma byte_parts:
  fixes x y z :: nat
  assumes "x < 256" and "y < 256" and "z < 256"
  shows "x div 4 < 64" "x mod 4 * 16 < 64" "x mod 4 * 16 + y div 16 < 64" "y mod 16 * 4 < 64"
    "y mod 16 * 4 + z div 64 < 64" "z mod 64 < 64"
    "4 * (x div 4) + x mod 4 * 16 div 16 = x"
    "4 * (x div 4) + (x mod 4 * 16 + y div 16) div 16 = x"
    "(x mod 4 * 16 + y div 16) mod 16 * 16 + y mod 16 * 4 div 4 = y"
    "(x mod 4 * 16 + y div 16) mod 16 * 16 + (y mod 16 * 4 + z div 64) div 4 = y"
    "(y mod 16 * 4 + z div 64) mod 4 * 64 + z mod 64 = z"
proof -
  have y16: "y div 16 < 16" and z64: "z div 64 < 4" using assms by (simp_all add: less_mult_imp_div_less)
  have x: "4 * (x div 4) + x mod 4 = x" and y: "y div 16 * 16 + y mod 16 = y"
    and z: "z div 64 * 64 + z mod 64 = z" by simp_all
  show "x div 4 < 64" "z mod 64 < 64" using assms by (simp_all add: less_mult_imp_div_less)
  have "x mod 4 < 4" "y mod 16 < 16" by simp_all
  then show "x mod 4 * 16 < 64" "x mod 4 * 16 + y div 16 < 64" "y mod 16 * 4 < 64"
    "y mod 16 * 4 + z div 64 < 64" using y16 z64 by linarith+
  show "4 * (x div 4) + x mod 4 * 16 div 16 = x" using x by simp
  show "4 * (x div 4) + (x mod 4 * 16 + y div 16) div 16 = x" using x y16 by simp
  show "(x mod 4 * 16 + y div 16) mod 16 * 16 + y mod 16 * 4 div 4 = y" using y y16 by simp
  show "(x mod 4 * 16 + y div 16) mod 16 * 16 + (y mod 16 * 4 + z div 64) div 4 = y" using y y16 z64 by simp
  show "(y mod 16 * 4 + z div 64) mod 4 * 64 + z mod 64 = z" using z z64 by simp
qed

lemma of_char_byte [simp]: "(of_char c :: nat) < 256"
  by (rule nat_of_char_less_256)

lemma of_char_parts:
  "of_char c div 16 div 16 = (0::nat)" "of_char c div 16 mod 16 = (of_char c div 16 :: nat)"
  "of_char c div 64 div 4 = (0::nat)" "of_char c div 64 mod 4 = (of_char c div 64 :: nat)"
  using of_char_byte [of c] by (simp_all add: div_mult2_eq [symmetric] less_mult_imp_div_less)

lemma b64decode_b64encode [simp]: "b64decode (b64encode s) = Some s"
  by (induction s rule: b64encode.induct) (simp_all add: Let_def byte_parts [OF of_char_byte of_char_byte of_char_byte] of_char_parts)

end
