(* ===== verification/PyNum.thy ===== *)
theory PyNum
  imports Http
begin

text \<open>
  \<^verbatim>\<open>int(v)\<close> on a parsed value, and what the scripts do with lists of integers. A float is truncated
  towards zero, computed exactly from its decimal literal.
\<close>

definition literal_parts :: "string \<Rightarrow> (int \<times> int) option" where
  "literal_parts s =
     (let neg = (s \<noteq> [] \<and> hd s = CHR ''-''); s1 = (if neg then tl s else s) in
      case scan_int s1 of
        None \<Rightarrow> None
      | Some (ip, s2) \<Rightarrow>
          (case scan_frac s2 of (fr, s3) \<Rightarrow>
            let m = int (nat_val (ip @ tl fr));
                e = (case int_of_str (tl (fst (scan_exp s3))) of None \<Rightarrow> 0 | Some i \<Rightarrow> i) - int (length (tl fr)) in
            Some (if neg then - m else m, e)))"       \<comment> \<open>the literal is \<open>m * 10 ^ e\<close>\<close>

definition trunc_literal :: "string \<Rightarrow> int option" where
  "trunc_literal s = map_option (\<lambda>(m, e).
     if 0 \<le> e then m * 10 ^ nat e else sgn m * (\<bar>m\<bar> div 10 ^ nat (- e))) (literal_parts s)"

fun jint :: "json \<Rightarrow> exn + int" where
  "jint (JInt i) = Inr i"
| "jint (JBool b) = Inr (if b then 1 else 0)"
| "jint (JStr s) = py_int s"
| "jint (JFloat s) = (case trunc_literal s of
     None \<Rightarrow> Inl (ValueError (''cannot convert float '' @ s @ '' to integer'')) | Some i \<Rightarrow> Inr i)"
| "jint v = Inl (TypeError (''int() argument must be a string, a bytes-like object or a real number, not ''
     @ quoted (type_name v)))"

lemma jint_examples:
  "jint (JFloat ''12.75'') = Inr 12" "jint (JFloat ''-1.5e2'') = Inr (- 150)" "jint (JStr '' 42 '') = Inr 42"
  by code_simp+

text \<open>
  A comparison \<^verbatim>\<open>v > n\<close>, \<^verbatim>\<open>v >= n\<close>, \<^verbatim>\<open>v < n\<close> of a parsed value with an integer constant, and the sum \<^verbatim>\<open>v + n\<close>,
  which is only defined here for integers: the counters of the experiments are.
\<close>

definition jcmp :: "string \<Rightarrow> (int \<Rightarrow> int \<Rightarrow> bool) \<Rightarrow> json \<Rightarrow> int \<Rightarrow> exn + bool" where
  "jcmp opr rel v n = (case v of
       JInt i \<Rightarrow> Inr (rel i n)
     | JBool b \<Rightarrow> Inr (rel (if b then 1 else 0) n)
     | JFloat s \<Rightarrow> (case literal_parts s of
         None \<Rightarrow> Inl (ValueError s)
       | Some (m, e) \<Rightarrow> Inr (if 0 \<le> e then rel (m * 10 ^ nat e) n else rel m (n * 10 ^ nat (- e))))
     | _ \<Rightarrow> Inl (TypeError (quoted opr @ '' not supported between instances of '' @ quoted (type_name v) @ '' and ''
         @ quoted ''int'')))"

fun jplus :: "json \<Rightarrow> int \<Rightarrow> exn + json" where
  "jplus (JInt i) n = Inr (JInt (i + n))"
| "jplus (JBool b) n = Inr (JInt ((if b then 1 else 0) + n))"
| "jplus (JFloat s) n = Inl (ValueError s)"
| "jplus v n = Inl (TypeError (''unsupported operand type(s) for +: '' @ quoted (type_name v) @ '' and '' @ quoted ''int''))"

definition ints :: "int list \<Rightarrow> json" where
  "ints is = JList (map JInt is)"

text \<open>
  \<^verbatim>\<open>a >= b\<close> of two parsed values: strings by their characters, integers by value. The other combinations, floats with
  integers among them, do not occur and are given the error of unordered types.
\<close>

fun str_le :: "string \<Rightarrow> string \<Rightarrow> bool" where
  "str_le [] t \<longleftrightarrow> True"
| "str_le (c # s) [] \<longleftrightarrow> False"
| "str_le (c # s) (d # t) \<longleftrightarrow> of_char c < (of_char d :: nat) \<or> c = d \<and> str_le s t"

fun jge :: "json \<Rightarrow> json \<Rightarrow> exn + bool" where
  "jge (JStr a) (JStr b) = Inr (str_le b a)"
| "jge (JInt a) (JInt b) = Inr (b \<le> a)"
| "jge a b = Inl (TypeError (quoted ''>='' @ '' not supported between instances of '' @ quoted (type_name a) @ '' and ''
     @ quoted (type_name b)))"

text \<open>\<^verbatim>\<open>a > b\<close>, likewise.\<close>

fun jgt :: "json \<Rightarrow> json \<Rightarrow> exn + bool" where
  "jgt (JStr a) (JStr b) = Inr (\<not> str_le a b)"
| "jgt (JInt a) (JInt b) = Inr (b < a)"
| "jgt a b = Inl (TypeError (quoted ''>'' @ '' not supported between instances of '' @ quoted (type_name a) @ '' and ''
     @ quoted (type_name b)))"

end
