(* ===== verification/DeepDiveRuns.thy ===== *)
theory DeepDiveRuns
  imports DeepDiveLab PyNum
begin

text \<open>
  Five experiments over the deep-dive harness: \<^verbatim>\<open>deep-dive-reconcile\<close>, \<^verbatim>\<open>deep-dive-pdb\<close>, \<^verbatim>\<open>deep-dive-network-policy\<close>,
  \<^verbatim>\<open>deep-dive-probes\<close> and \<^verbatim>\<open>deep-dive-pod-stages\<close>, each its \<^verbatim>\<open>run.py\<close>, a definition per phase.
  They end, and every process they start is kubectl on the cluster of the harness; what they have seen is in \<open>DeepDiveSeen\<close>.
\<close>

section \<open>Reconciliation\<close>

definition desired_map :: json where
  "desired_map = (JDict
    [(''apiVersion'', JStr ''v1''), (''kind'', JStr ''ConfigMap''),
     (''metadata'', JDict [(''name'', JStr ''desired'')]), (''data'', JDict [(''value'', JStr ''one'')])])"

text \<open>An update from a stale copy is refused.\<close>

definition stale_phase :: "lab \<Rightarrow> ('w, 'g, unit) prog" where
  "stale_phase L =
    (thenM (dd_apply L desired_map) (
     bindM (dd_get L ''configmap'' (Some ''desired'')) (\<lambda>cached.
     thenM (dd_patch L ''configmap'' ''desired'' (JDict [(''data'', JDict [(''value'', JStr ''two'')])])) (
     bindM (liftE (jupd [Sub ''data''] (\<lambda>m. jset m ''value'' (JStr ''stale-write'')) cached)) (\<lambda>stale.
     bindM (dd_k [''replace'', ''-n'', ns L, ''-f'', ''-''] (Some (dumps stale)) False) (\<lambda>r.
     thenM (assertM [] (returncode r \<noteq> 0 \<and> contains (stderr r) ''Conflict'')) (
     bindM (liftE (jpath [Sub ''data'', Sub ''value''] cached)) (\<lambda>old.
     bindM (dd_get L ''configmap'' (Some ''desired'')) (\<lambda>current.
     bindM (liftE (jpath [Sub ''data'', Sub ''value''] current)) (\<lambda>new.
     dd_save L ''stale-update'' (JDict [(''cached_value'', old), (''current_value'', new), (''error'', JStr (stderr r))])))))))))))"

text \<open>One reconciliation; its row for the list \<^verbatim>\<open>attempts\<close> is returned.\<close>

definition effect_map :: "string \<Rightarrow> json \<Rightarrow> json" where
  "effect_map name data =
     JDict [(''apiVersion'', JStr ''v1''), (''kind'', JStr ''ConfigMap''),
       (''metadata'', JDict [(''name'', JStr name), (''labels'', JDict [(''app'', JStr ''effect'')])]), (''data'', data)]"

definition reconcile :: "lab \<Rightarrow> bool \<Rightarrow> ('w, 'g, json) prog" where
  "reconcile L crash =
    (bindM (dd_get L ''configmap'' (Some ''desired'')) (\<lambda>desired.
     bindM (liftE (bindE (jpath [Sub ''metadata'', Sub ''uid''] desired) jstr)) (\<lambda>uid.
     let name = ''effect-'' @ uid in
     bindM (liftE (jsub desired ''data'')) (\<lambda>data.
     bindM (dd_k [''create'', ''-n'', ns L, ''-f'', ''-''] (Some (dumps (effect_map name data))) False) (\<lambda>r.
     thenM (if returncode r \<noteq> 0
        then thenM (assertM (stderr r) (contains (stderr r) ''AlreadyExists''))
               (ign (dd_patch L ''configmap'' name (JDict [(''data'', data)])))
        else returnM ()) (
     bindM (liftE (jpath [Sub ''data'', Sub ''value''] desired)) (\<lambda>v.
     thenM (if crash then returnM ()
        else ign (dd_patch L ''configmap'' ''desired''
               (JDict [(''metadata'', JDict [(''annotations'', JDict [(''lab.example.com/observed'', v)])])]))) (
     returnM (JDict [(''created'', JBool (returncode r = 0)), (''name'', JStr name), (''value'', v),
         (''crash_before_ack'', JBool crash)])))))))))"

definition is_effect :: "json \<Rightarrow> exn + bool" where
  "is_effect c = bindE (jpath [Sub ''metadata'', Get ''labels'' emptyD, get0 ''app''] c) (\<lambda>a. Inr (py_eq a (JStr ''effect'')))"

definition one_effect :: "json list \<Rightarrow> exn + bool" where
  "one_effect effects = (if length effects = 1
     then bindE (jpath [Idx 0, Sub ''data'', Sub ''value''] (JList effects)) (\<lambda>v. Inr (py_eq v (JStr ''two'')))
     else Inr False)"

text \<open>The note of the result: Chinese text, here as the bytes of its UTF-8 encoding, which is how the file holds it.\<close>

definition reconcile_note :: string where
  "reconcile_note = map char_of [
     228, 186, 186, 229, 183, 165, 233, 135, 141, 229, 164, 141, 229, 133, 165, 233, 152, 159, 229,
     185, 182, 230, 168, 161, 230, 139, 159, 230, 147, 141, 228, 189, 156, 229, 144, 142, 230, 156,
     170, 231, 161, 174, 232, 174, 164, 239, 188, 155, 228, 184, 141, 230, 152, 175, 32, 99, 108,
     105, 101, 110, 116, 45, 103, 111, 32, 231, 188, 147, 229, 173, 152, 229, 187, 182, 232, 191,
     159, 230, 181, 139, 233, 135, 143 :: nat]"

definition effects_phase :: "lab \<Rightarrow> json list \<Rightarrow> ('w, 'g, unit) prog" where
  "effects_phase L attempts =
    (bindM (dd_get L ''configmaps'' None) (\<lambda>doc.
     bindM (liftE (bindE (bindE (jsub doc ''items'') jiter) (filterE is_effect))) (\<lambda>effects.
     bindM (liftE (one_effect effects)) (\<lambda>b.
     thenM (assertM [] b) (
     thenM (dd_save L ''attempts'' (JList attempts)) (
     bindM (dd_get L ''configmaps'' None) (\<lambda>doc2.
     thenM (dd_save L ''objects'' doc2) (
     dd_save L ''result'' (JDict [(''attempts'', JInt (int (length attempts))), (''effects'', JInt (int (length effects))),
         (''final_value'', JStr ''two''), (''note'', JStr reconcile_note)])))))))))"

definition reconcile_run :: "('w, 'g, unit) prog" where
  "reconcile_run =
    (bindM (dd_init ''reconcile'') (\<lambda>L.
     thenM (stale_phase L) (
     bindM (reconcile L True) (\<lambda>a1.
     bindM (reconcile L False) (\<lambda>a2.
     bindM (reconcile L False) (\<lambda>a3.
     effects_phase L [a1, a2, a3]))))))"


section \<open>Disruption budgets\<close>

definition budget_healthy :: "lab \<Rightarrow> int \<Rightarrow> ('w, 'g, bool) prog" where
  "budget_healthy L n =
    (bindM (dd_get L ''pdb'' (Some ''keep-two'')) (\<lambda>b.
     bindM (liftE (jpath [Get ''status'' emptyD, get0 ''currentHealthy''] b)) (\<lambda>h.
     returnM (py_eq h (JInt n)))))"

text \<open>The later check of the same field has subscripts.\<close>

definition budget_degraded :: "lab \<Rightarrow> ('w, 'g, bool) prog" where
  "budget_degraded L =
    (bindM (dd_get L ''pdb'' (Some ''keep-two'')) (\<lambda>b.
     bindM (liftE (jpath [Sub ''status'', Sub ''currentHealthy''] b)) (\<lambda>h.
     returnM (py_eq h (JInt 1)))))"

definition first_pod :: "lab \<Rightarrow> ('w, 'g, json) prog" where
  "first_pod L = bindM (dd_pods L ''app'') (\<lambda>ps. liftE (jpath [Idx 0, Sub ''metadata'', Sub ''name''] (JList ps)))"

definition pod_names :: "lab \<Rightarrow> ('w, 'g, json list) prog" where
  "pod_names L = bindM (dd_pods L ''app'') (\<lambda>ps. liftE (mapE (jpath [Sub ''metadata'', Sub ''name'']) ps))"

definition evict :: "lab \<Rightarrow> json \<Rightarrow> bool \<Rightarrow> ('w, 'g, proc) prog" where
  "evict L name check = dd_k
     [''create'', ''--raw'', ''/api/v1/namespaces/'' @ ns L @ ''/pods/'' @ py_str name @ ''/eviction'', ''-f'', ''-'']
     (Some (dumps (JDict [(''apiVersion'', JStr ''policy/v1''), (''kind'', JStr ''Eviction''),
        (''metadata'', JDict [(''name'', name), (''namespace'', JStr (ns L))])]))) check"

definition refused :: "proc \<Rightarrow> bool" where
  "refused r \<longleftrightarrow> returncode r \<noteq> 0 \<and> contains (lower (stderr r)) ''disruption budget''"

definition readiness_patch :: json where
  "readiness_patch = (JDict
    [(''spec'',
       JDict
         [(''template'',
            JDict
              [(''spec'',
                 JDict
                   [(''containers'',
                      JList
                        [JDict
                           [(''name'', JStr ''app''), (''image'', JStr ''python:3.12-alpine''),
                            (''command'',
                              JList
                                [JStr ''python'',
                                 JStr ''-c'',
                                 JStr ''import time; time.sleep(3600)'']),
                            (''readinessProbe'',
                              JDict
                                [(''exec'',
                                   JDict
                                     [(''command'',
                                        JList
                                          [JStr ''python'',
                                           JStr ''-c'',
                                           JStr (''import pathlib,sys; sys.exit(pathlib.Path('' @ [CHR 0x27] @ ''/unhealthy'' @ [CHR 0x27] @ '').exists())'')])]),
                                 (''periodSeconds'', JInt 2), (''failureThreshold'', JInt 1)])]])])])])])"

definition pdb_evict :: "lab \<Rightarrow> ('w, 'g, unit) prog" where
  "pdb_evict L =
    (bindM (liftE (deployment ''app'' SLEEPER 2 [])) (\<lambda>d.
     thenM (dd_apply L d) (
     thenM (dd_rollout L ''app'') (
     thenM (dd_apply L (JDict
         [(''apiVersion'', JStr ''policy/v1''), (''kind'', JStr ''PodDisruptionBudget''),
          (''metadata'', JDict [(''name'', JStr ''keep-two'')]),
          (''spec'',
            JDict
              [(''minAvailable'', JInt 2),
               (''selector'', JDict [(''matchLabels'', JDict [(''app'', JStr ''app'')])])])])) (
     thenM (dd_wait (\<lambda>b. b) (budget_healthy L 2) 180) (
     bindM (dd_get L ''pdb'' (Some ''keep-two'')) (\<lambda>b.
     thenM (dd_save L ''budget'' b) (
     bindM (first_pod L) (\<lambda>name.
     bindM (evict L name False) (\<lambda>r.
     thenM (assertM [] (refused r)) (
     thenM (dd_save L ''eviction-denied'' (JDict [(''code'', JInt (returncode r)), (''stderr'', JStr (stderr r))])) (
     bindM (liftE (jstr name)) (\<lambda>n.
     thenM (ddcmd [''delete'', ''pod'', n, ''-n'', ns L, ''--wait=true'']) (
     thenM (dd_rollout L ''app'') (
     bindM (pod_names L) (\<lambda>names.
     thenM (dd_save L ''direct-delete'' (JDict [(''old_name'', name), (''new_names'', JList names)])) (
     bindM (pod_names L) (\<lambda>names2.
     bindM (liftE (jin name (JList names2))) (\<lambda>b2.
     thenM (assertM [] (\<not> b2)) (
     thenM (dd_patch L ''deployment'' ''app'' (JDict
         [(''spec'',
            JDict
              [(''template'',
                 JDict
                   [(''metadata'',
                      JDict [(''annotations'', JDict [(''lab.example.com/revision'', JStr ''2'')])])])])])) (
     thenM (dd_rollout L ''app'') (
     thenM (dd_snapshot L ''rollout-complete'') (
     dd_save L ''result'' (JDict
         [(''eviction_blocked'', JBool True), (''direct_delete_completed'', JBool True),
          (''deployment_rollout_completed'', JBool True)]))))))))))))))))))))))))"

definition pdb_unhealthy :: "lab \<Rightarrow> ('w, 'g, unit) prog" where
  "pdb_unhealthy L =
    (thenM (dd_patch L ''deployment'' ''app'' readiness_patch) (
     thenM (dd_rollout L ''app'') (
     thenM (dd_wait (\<lambda>b. b) (budget_healthy L 2) 180) (
     bindM (first_pod L) (\<lambda>unhealthy.
     bindM (liftE (jstr unhealthy)) (\<lambda>n.
     thenM (dd_exec L n [''touch'', ''/unhealthy''] True None) (
     thenM (dd_wait (\<lambda>b. b) (budget_degraded L) 180) (
     bindM (evict L unhealthy False) (\<lambda>r.
     thenM (assertM [] (refused r)) (
     bindM (dd_get L ''pdb'' (Some ''keep-two'')) (\<lambda>b.
     thenM (dd_save L ''unhealthy-default-denied'' (JDict [(''stderr'', JStr (stderr r)), (''budget'', b)])) (
     thenM (dd_patch L ''pdb'' ''keep-two'' (JDict [(''spec'', JDict [(''unhealthyPodEvictionPolicy'', JStr ''AlwaysAllow'')])])) (
     thenM (evict L unhealthy True) (
     thenM (ddcmd [''wait'', ''-n'', ns L, ''--for=delete'', ''pod/'' @ n, ''--timeout=60s'']) (
     thenM (dd_rollout L ''app'') (
     bindM (dd_get L ''pdb'' (Some ''keep-two'')) (\<lambda>b2.
     dd_save L ''unhealthy-always-allow'' (JDict [(''old_pod'', unhealthy), (''evicted'', JBool True), (''budget'', b2)]))))))))))))))))))"

definition pdb_run :: "('w, 'g, unit) prog" where
  "pdb_run =
    (bindM (dd_init ''pdb'') (\<lambda>L.
     thenM (pdb_evict L) (
     pdb_unhealthy L)))"


section \<open>Network policies\<close>

definition connects :: "lab \<Rightarrow> string \<Rightarrow> string \<Rightarrow> ('w, 'g, bool) prog" where
  "connects L client host =
     bindM (dd_exec L client [''python'', ''-c'',
         ''import urllib.request; print(urllib.request.urlopen('' @ quoted (''http://'' @ host @ '':8080'') @ '',timeout=2).status)'']
       False None) (\<lambda>r. returnM (returncode r = 0))"

definition blocked :: "lab \<Rightarrow> string \<Rightarrow> string \<Rightarrow> ('w, 'g, bool) prog" where
  "blocked L client host = bindM (connects L client host) (\<lambda>b. returnM (\<not> b))"

definition net_policy :: "string \<Rightarrow> json \<Rightarrow> json \<Rightarrow> (string \<times> json) list \<Rightarrow> json" where
  "net_policy name selector types rules = JDict
     [(''apiVersion'', JStr ''networking.k8s.io/v1''), (''kind'', JStr ''NetworkPolicy''),
      (''metadata'', JDict [(''name'', JStr name)]),
      (''spec'', JDict (dict_update
         [(''podSelector'', JDict [(''matchLabels'', selector)]), (''policyTypes'', types)] rules))]"

definition app_label :: "string \<Rightarrow> json" where
  "app_label name = JDict [(''app'', JStr name)]"

definition deny_good_egress :: json where
  "deny_good_egress = net_policy ''deny-good-egress'' (app_label ''good'') (JList [JStr ''Egress'']) []"

definition deny_server :: json where
  "deny_server = net_policy ''deny-server'' (app_label ''server'') (JList [JStr ''Ingress'']) []"

definition allow_good :: json where
  "allow_good = net_policy ''allow-good'' (app_label ''server'') (JList [JStr ''Ingress''])
     [(''ingress'', (JList
       [JDict
          [(''from'',
             JList
               [JDict [(''podSelector'', JDict [(''matchLabels'', JDict [(''app'', JStr ''good'')])])]]),
           (''ports'', JList [JDict [(''protocol'', JStr ''TCP''), (''port'', JInt 8080)]])]]))]"

definition allow_server_egress :: json where
  "allow_server_egress = net_policy ''allow-server-egress'' (app_label ''good'') (JList [JStr ''Egress''])
     [(''egress'', (JList
       [JDict
          [(''to'',
             JList
               [JDict [(''podSelector'', JDict [(''matchLabels'', JDict [(''app'', JStr ''server'')])])]]),
           (''ports'', JList [JDict [(''protocol'', JStr ''TCP''), (''port'', JInt 8080)]])]]))]"

definition allow_dns :: json where
  "allow_dns = net_policy ''allow-dns'' (app_label ''good'') (JList [JStr ''Egress''])
     [(''egress'', (JList
       [JDict
          [(''to'',
             JList
               [JDict
                  [(''namespaceSelector'',
                     JDict
                       [(''matchLabels'',
                          JDict [(''kubernetes.io/metadata.name'', JStr ''kube-system'')])]),
                   (''podSelector'', JDict [(''matchLabels'', JDict [(''k8s-app'', JStr ''kube-dns'')])])]]),
           (''ports'',
             JList
               [JDict [(''protocol'', JStr ''UDP''), (''port'', JInt 53)],
                JDict [(''protocol'', JStr ''TCP''), (''port'', JInt 53)]])]]))]"

definition start_pods :: "lab \<Rightarrow> ('w, 'g, unit) prog" where
  "start_pods L = forM [''server'', ''good'', ''other''] (\<lambda>name.
     thenM (dd_apply L (pod name (if name = ''server'' then SERVER else SLEEPER) [])) (dd_ready L name))"

definition ingress_phase :: "lab \<Rightarrow> string \<Rightarrow> string \<Rightarrow> ('w, 'g, unit) prog" where
  "ingress_phase L ip svc =
    (bindM (connects L ''good'' ip) (\<lambda>a.
     bindM (if a then connects L ''other'' ip else returnM False) (\<lambda>b.
     thenM (assertM [] b) (
     thenM (dd_apply L deny_server) (
     thenM (dd_wait (\<lambda>x. x) (blocked L ''good'' ip) 180) (
     thenM (dd_apply L allow_good) (
     thenM (dd_wait (\<lambda>x. x) (connects L ''good'' ip) 180) (
     bindM (connects L ''other'' ip) (\<lambda>c.
     thenM (assertM [] (\<not> c)) (
     bindM (connects L ''good'' svc) (\<lambda>d.
     thenM (assertM [] d) (
     dd_save L ''ingress'' (JDict
         [(''default_open'', JBool True), (''default_deny_blocks'', JBool True),
          (''good_allowed'', JBool True), (''other_blocked'', JBool True),
          (''service_ip_allowed'', JBool True)])))))))))))))"

definition egress_phase :: "lab \<Rightarrow> string \<Rightarrow> ('w, 'g, unit) prog" where
  "egress_phase L ip =
    (thenM (dd_apply L deny_good_egress) (
     thenM (dd_wait (\<lambda>x. x) (blocked L ''good'' ip) 180) (
     thenM (dd_apply L allow_server_egress) (
     thenM (dd_wait (\<lambda>x. x) (connects L ''good'' ip) 180) (
     bindM (connects L ''good'' ''server'') (\<lambda>c.
     thenM (assertM [] (\<not> c)) (
     thenM (dd_apply L allow_dns) (
     thenM (dd_wait (\<lambda>x. x) (connects L ''good'' ''server'') 180) (
     dd_save L ''egress'' (JDict
         [(''ingress_alone_insufficient'', JBool True), (''pod_ip_works_before_dns_rule'', JBool True),
          (''dns_works_after_rule'', JBool True)]))))))))))"

definition addresses :: "lab \<Rightarrow> ('w, 'g, string \<times> string) prog" where
  "addresses L =
    (thenM (start_pods L) (
     thenM (dd_apply L (service ''server'')) (
     bindM (dd_get L ''pod'' (Some ''server'')) (\<lambda>p.
     bindM (liftE (jpath [Sub ''status'', Sub ''podIP''] p)) (\<lambda>ip.
     bindM (dd_get L ''service'' (Some ''server'')) (\<lambda>s.
     bindM (liftE (jpath [Sub ''spec'', Sub ''clusterIP''] s)) (\<lambda>svc.
     returnM (py_str ip, py_str svc))))))))"

definition network_policy_run :: "('w, 'g, unit) prog" where
  "network_policy_run =
    (bindM (dd_init ''network-policy'') (\<lambda>L.
     bindM (addresses L) (\<lambda>hosts.
     thenM (ingress_phase L (fst hosts) (snd hosts)) (
     thenM (egress_phase L (fst hosts)) (
     bindM (dd_get L ''networkpolicies'' None) (\<lambda>ps.
     dd_save L ''policies'' ps))))))"


section \<open>Probes\<close>

text \<open>The three probes are assigned to the container of the pod, one after the other.\<close>

definition http_probe :: "string \<Rightarrow> string \<Rightarrow> json" where
  "http_probe kind path = JDict
     [(''httpGet'', JDict [(''path'', JStr (''/'' @ path)), (''port'', JInt 8080)]), (''periodSeconds'', JInt 2),
      (''failureThreshold'', JInt (if kind = ''startupProbe'' then 60 else 2))]"

definition probed_container :: "json \<Rightarrow> exn + json" where
  "probed_container c =
     bindE (jset c ''volumeMounts'' (JList [JDict [(''name'', JStr ''state''), (''mountPath'', JStr ''/state'')]])) (\<lambda>c1.
     bindE (jset c1 ''startupProbe'' (http_probe ''startupProbe'' ''startup'')) (\<lambda>c2.
     bindE (jset c2 ''readinessProbe'' (http_probe ''readinessProbe'' ''ready'')) (\<lambda>c3.
       jset c3 ''livenessProbe'' (http_probe ''livenessProbe'' ''live''))))"

definition probed_pod :: "exn + json" where
  "probed_pod = jupd [Sub ''spec'', Sub ''containers'', Idx 0] probed_container
     (pod ''app'' SERVER [(''volumes'', JList [JDict [(''name'', JStr ''state''), (''emptyDir'', emptyD)]])])"

definition container_value :: "lab \<Rightarrow> acc list \<Rightarrow> ('w, 'g, json) prog" where
  "container_value L path = bindM (dd_get L ''pod'' (Some ''app''))
     (\<lambda>p. liftE (jpath (Sub ''status'' # path) p))"

definition container_field :: "lab \<Rightarrow> string \<Rightarrow> ('w, 'g, json) prog" where
  "container_field L field = container_value L [Sub ''containerStatuses'', Idx 0, Sub field]"

definition startup_failed :: "json \<Rightarrow> exn + bool" where
  "startup_failed e = andE (eqE (jget e ''reason'' JNull) (JStr ''Unhealthy''))
     (bindE (jget e ''message'' (JStr [])) (jin (JStr ''Startup probe failed'')))"

definition any_event :: "lab \<Rightarrow> (json \<Rightarrow> exn + bool) \<Rightarrow> ('w, 'g, bool) prog" where
  "any_event L p = bindM (dd_get L ''events'' None)
     (\<lambda>doc. liftE (bindE (bindE (jsub doc ''items'') jiter) (anyE p)))"

definition endpoint_not_ready :: "json \<Rightarrow> exn + bool" where
  "endpoint_not_ready e = bindE (jpath [Get ''conditions'' emptyD, get0 ''ready''] e) (\<lambda>v. Inr (v = JBool False))"

definition endpoints_not_ready :: "json \<Rightarrow> exn + bool" where
  "endpoints_not_ready s = bindE (bindE (jget s ''endpoints'' (JList [])) jiter) (anyE endpoint_not_ready)"

definition any_not_ready :: "lab \<Rightarrow> ('w, 'g, bool) prog" where
  "any_not_ready L = bindM (dd_get L ''endpointslices'' None)
     (\<lambda>doc. liftE (bindE (bindE (jsub doc ''items'') jiter)
        (anyE endpoints_not_ready)))"

definition startup_phase :: "lab \<Rightarrow> ('w, 'g, unit) prog" where
  "startup_phase L =
    (bindM (liftE probed_pod) (\<lambda>p.
     thenM (dd_apply L p) (
     thenM (dd_apply L (service ''app'')) (
     thenM (dd_wait truth (container_value L
         [Get ''containerStatuses'' (JList [emptyD]), Idx 0, Get ''state'' emptyD, get0 ''running'']) 180) (
     thenM (dd_wait (\<lambda>b. b) (any_event L startup_failed) 180) (
     thenM (dd_snapshot L ''startup-blocked'') (
     bindM (container_field L ''started'') (\<lambda>started.
     thenM (assertM [] (\<not> truth started)) (
     thenM (dd_exec L ''app'' [''touch'', ''/state/started''] True None) (
     dd_ready L ''app''))))))))))"

definition readiness_phase :: "lab \<Rightarrow> ('w, 'g, unit) prog" where
  "readiness_phase L =
    (thenM (dd_exec L ''app'' [''touch'', ''/state/not-ready''] True None) (
     thenM (dd_wait (\<lambda>v. \<not> truth v) (container_field L ''ready'') 180) (
     bindM (dd_get L ''pod'' (Some ''app'')) (\<lambda>p.
     thenM (dd_save L ''readiness-failed'' p) (
     thenM (dd_wait (\<lambda>b. b) (any_not_ready L) 180) (
     bindM (dd_get L ''endpointslices'' None) (\<lambda>slices.
     thenM (dd_save L ''not-ready-endpoint'' slices) (
     bindM (container_field L ''restartCount'') (\<lambda>n.
     thenM (assertM [] (py_eq n (JInt 0))) (
     thenM (dd_exec L ''app'' [''rm'', ''/state/not-ready''] True None) (
     dd_ready L ''app'')))))))))))"

definition liveness_phase :: "lab \<Rightarrow> ('w, 'g, unit) prog" where
  "liveness_phase L =
    (thenM (dd_exec L ''app'' [''touch'', ''/state/not-live''] True None) (
     thenM (dd_wait (\<lambda>b. b) (bindM (container_field L ''restartCount'') (\<lambda>n. liftE (jcmp ''>='' (\<ge>) n 1))) 180) (
     bindM (dd_get L ''pod'' (Some ''app'')) (\<lambda>p.
     thenM (dd_save L ''liveness-restarted'' p) (
     thenM (dd_wait (\<lambda>b. b) (bindM (container_field L ''state'') (\<lambda>v. liftE (jin (JStr ''running'') v))) 180) (
     thenM (dd_exec L ''app'' [''rm'', ''/state/not-live''] True None) (
     thenM (dd_ready L ''app'') (
     dd_snapshot L ''recovered''))))))))"

definition probes_run :: "('w, 'g, unit) prog" where
  "probes_run =
    (bindM (dd_init ''probes'') (\<lambda>L.
     thenM (startup_phase L) (
     thenM (readiness_phase L) (
     liveness_phase L))))"


section \<open>Stages of a pod\<close>

definition not_scheduled :: "json \<Rightarrow> exn + bool" where
  "not_scheduled c = andE (eqE (jsub c ''type'') (JStr ''PodScheduled'')) (eqE (jsub c ''status'') (JStr ''False''))"

definition unscheduled :: "lab \<Rightarrow> ('w, 'g, bool) prog" where
  "unscheduled L = bindM (dd_get L ''pod'' (Some ''unscheduled''))
     (\<lambda>p. liftE (bindE (bindE (jpath [Sub ''status'', Get ''conditions'' (JList [])] p) jiter) (anyE not_scheduled)))"

definition mounting_pod :: "exn + json" where
  "mounting_pod = jupd [Sub ''spec'', Sub ''containers'', Idx 0]
     (\<lambda>c. jset c ''volumeMounts'' (JList [JDict [(''name'', JStr ''config''), (''mountPath'', JStr ''/config'')]]))
     (pod ''mount-blocked'' SLEEPER
        [(''volumes'', JList [JDict [(''name'', JStr ''config''), (''configMap'', JDict [(''name'', JStr ''missing-config'')])]])])"

definition unschedulable_pod :: json where
  "unschedulable_pod = pod ''unscheduled'' SLEEPER [(''nodeSelector'', JDict [(''lab.example.com/missing'', JStr ''true'')])]"

definition failed_mount :: "json \<Rightarrow> exn + bool" where
  "failed_mount e = eqE (jget e ''reason'' JNull) (JStr ''FailedMount'')"

definition missing_config :: json where
  "missing_config = (JDict
    [(''apiVersion'', JStr ''v1''), (''kind'', JStr ''ConfigMap''),
     (''metadata'', JDict [(''name'', JStr ''missing-config'')]),
     (''data'', JDict [(''value'', JStr ''ready'')])])"

definition pod_stages :: "lab \<Rightarrow> ('w, 'g, unit) prog" where
  "pod_stages L =
    (thenM (dd_apply L unschedulable_pod) (
     thenM (dd_wait (\<lambda>b. b) (unscheduled L) 180) (
     bindM (dd_get L ''pod'' (Some ''unscheduled'')) (\<lambda>u.
     thenM (dd_save L ''unscheduled'' u) (
     bindM (liftE mounting_pod) (\<lambda>p.
     thenM (dd_apply L p) (
     thenM (dd_wait truth (bindM (dd_get L ''pod'' (Some ''mount-blocked'')) (\<lambda>q. liftE (jpath [Sub ''spec'', get0 ''nodeName''] q))) 180) (
     thenM (dd_wait (\<lambda>b. b) (any_event L failed_mount) 180) (
     thenM (dd_snapshot L ''mount-blocked'') (
     thenM (dd_apply L missing_config) (
     thenM (dd_ready L ''mount-blocked'') (
     bindM (dd_get L ''pod'' (Some ''mount-blocked'')) (\<lambda>m.
     dd_save L ''mount-recovered'' m)))))))))))))"

definition pod_stages_run :: "('w, 'g, unit) prog" where
  "pod_stages_run = bindM (dd_init ''pod-stages'') pod_stages"


section \<open>They stay on their cluster, and end\<close>

lemmas reconcile_defs = reconcile_run_def effects_phase_def stale_phase_def reconcile_def
lemmas pdb_defs = pdb_run_def pdb_evict_def pdb_unhealthy_def budget_healthy_def budget_degraded_def first_pod_def
  pod_names_def evict_def
lemmas network_defs = network_policy_run_def addresses_def start_pods_def ingress_phase_def egress_phase_def connects_def blocked_def
lemmas probes_defs = probes_run_def startup_phase_def readiness_phase_def liveness_phase_def container_value_def
  container_field_def any_event_def any_not_ready_def
lemmas stages_defs = pod_stages_run_def pod_stages_def unscheduled_def any_event_def

lemma deep_dive_emits:
  assumes "\<And>args data r. P (Ran (''kubectl'' # ''--context'' # CTX # args) data r)" and "\<And>p x. P (Wrote p x)"
    and "\<And>x. P (Printed x)" and "\<And>p. P (MadeDir p)" and "\<And>r. P (Clock r)" and "\<And>d. P (Slept d)"
  shows "emits os P reconcile_run" "emits os P pdb_run" "emits os P network_policy_run" "emits os P probes_run"
    "emits os P pod_stages_run"
  unfolding reconcile_defs pdb_defs network_defs probes_defs stages_defs Let_def
  by (intro emits_intros; simp add: assms)+

lemma deep_dive_runs:
  assumes "clock_ok os now"
  shows "runs os now reconcile_run" "runs os now pdb_run" "runs os now network_policy_run" "runs os now probes_run"
    "runs os now pod_stages_run"
  unfolding reconcile_defs pdb_defs network_defs probes_defs stages_defs Let_def
  by (intro runs_intros assms)+

end
