(* ===== verification/DeepDiveMore.thy ===== *)
theory DeepDiveMore
  imports DeepDiveRuns
begin

text \<open>
  Six more experiments over the deep-dive harness: \<^verbatim>\<open>deep-dive-ephemeral\<close>, \<^verbatim>\<open>deep-dive-node-failure\<close>, \<^verbatim>\<open>deep-dive-scheduling\<close>,
  \<^verbatim>\<open>deep-dive-secret-refresh\<close>, \<^verbatim>\<open>deep-dive-storage\<close> and \<^verbatim>\<open>deep-dive-terminating\<close>, each its \<^verbatim>\<open>run.py\<close>. Three of them
  inject a failure into a node; that they take it back, and what all of them have seen, is in \<open>DeepDiveSafety\<close>.
\<close>

section \<open>Ephemeral containers\<close>

definition target_code :: string where
  "target_code = (''import pathlib,time; pathlib.Path('' @ [CHR 0x27] @ ''/application-only'' @ [CHR 0x27] @ '').write_text('' @ [CHR 0x27] @ ''app-private-root'' @ [CHR 0x27] @ ''); time.sleep(3600)'')"

definition debug_code :: string where
  "debug_code = (''import pathlib,os,json'' @ [CHR 0x0A] @ ''found=[]'' @ [CHR 0x0A] @ ''for p in pathlib.Path('' @ [CHR 0x27] @ ''/proc'' @ [CHR 0x27] @ '').glob('' @ [CHR 0x27] @ ''[0-9]*/root/application-only'' @ [CHR 0x27] @ ''):'' @ [CHR 0x0A] @ '' try: found.append({'' @ [CHR 0x27] @ ''path'' @ [CHR 0x27] @ '':str(p),'' @ [CHR 0x27] @ ''content'' @ [CHR 0x27] @ '':p.read_text()})'' @ [CHR 0x0A] @ '' except (PermissionError,FileNotFoundError,ProcessLookupError): pass'' @ [CHR 0x0A] @ ''print(json.dumps({'' @ [CHR 0x27] @ ''own_root_has_file'' @ [CHR 0x27] @ '':pathlib.Path('' @ [CHR 0x27] @ ''/application-only'' @ [CHR 0x27] @ '').exists(),'' @ [CHR 0x27] @ ''target_files'' @ [CHR 0x27] @ '':found,'' @ [CHR 0x27] @ ''uid'' @ [CHR 0x27] @ '':os.getuid(),'' @ [CHR 0x27] @ ''netns'' @ [CHR 0x27] @ '':os.readlink('' @ [CHR 0x27] @ ''/proc/self/ns/net'' @ [CHR 0x27] @ '')}))'' @ [CHR 0x0A])"

definition identity_code :: string where
  "identity_code = (''import os,json; print(json.dumps({'' @ [CHR 0x27] @ ''uid'' @ [CHR 0x27] @ '':os.getuid(),'' @ [CHR 0x27] @ ''netns'' @ [CHR 0x27] @ '':os.readlink('' @ [CHR 0x27] @ ''/proc/self/ns/net'' @ [CHR 0x27] @ '')}))'')"

definition debugger_running :: "json \<Rightarrow> exn + bool" where
  "debugger_running s = andE (eqE (jsub s ''name'') (JStr ''debugger'')) (bindE (jsub s ''state'') (jin (JStr ''running'')))"

definition debugger_up :: "json \<Rightarrow> exn + bool" where
  "debugger_up p = bindE (bindE (jpath [Sub ''status'', Get ''ephemeralContainerStatuses'' (JList [])] p) jiter) (anyE debugger_running)"

definition debugger_done :: "json \<Rightarrow> exn + bool" where
  "debugger_done p = bindE (jpath [Sub ''status'', Sub ''ephemeralContainerStatuses'', Idx 0, Sub ''state''] p) (jin (JStr ''terminated''))"

text \<open>\<^verbatim>\<open>not result['own_root_has_file'] and result['target_files']\<close>.\<close>

definition only_through_proc :: "json \<Rightarrow> exn + bool" where
  "only_through_proc r = bindE (jsub r ''own_root_has_file'') (\<lambda>a. if truth a then Inr False
     else bindE (jsub r ''target_files'') (\<lambda>t. Inr (truth t)))"

definition pod_is :: "lab \<Rightarrow> string \<Rightarrow> (json \<Rightarrow> exn + bool) \<Rightarrow> ('w, 'g, bool) prog" where
  "pod_is L name c = bindM (dd_get L ''pod'' (Some name)) (\<lambda>p. liftE (c p))"

definition exec_json :: "lab \<Rightarrow> string \<Rightarrow> string \<Rightarrow> string option \<Rightarrow> ('w, 'g, json) prog" where
  "exec_json L name code container =
     bindM (dd_exec L name [''python'', ''-c'', code] True container) (\<lambda>r. py_loads (stdout r))"

definition ephemeral :: "lab \<Rightarrow> ('w, 'g, unit) prog" where
  "ephemeral L =
    (thenM (dd_apply L (pod ''target'' target_code [])) (
     thenM (dd_ready L ''target'') (
     thenM (ddcmd ([''debug'', ''-n'', ns L, ''pod/target'', ''--image='' @ IMAGE, ''--target=app'', ''--container=debugger'',
         ''--profile=general'', ''--attach=false'', ''--'', ''python'', ''-c'', ''import time; time.sleep(45)''])) (
     thenM (dd_wait (\<lambda>b. b) (pod_is L ''target'' debugger_up) 180) (
     bindM (exec_json L ''target'' debug_code (Some ''debugger'')) (\<lambda>result.
     bindM (liftE (only_through_proc result)) (\<lambda>b.
     thenM (assertM [] b) (
     thenM (dd_save L ''filesystem-view'' result) (
     bindM (exec_json L ''target'' identity_code (Some ''app'')) (\<lambda>ident.
     thenM (dd_save L ''app-identity'' ident) (
     thenM (dd_wait (\<lambda>b. b) (pod_is L ''target'' debugger_done) 180) (
     bindM (dd_get L ''pod'' (Some ''target'')) (\<lambda>p.
     dd_save L ''terminated'' p)))))))))))))"

definition ephemeral_run :: "('w, 'g, unit) prog" where
  "ephemeral_run = bindM (dd_init ''ephemeral'') ephemeral"


section \<open>Failure of a node\<close>

definition lost_node :: string where                  \<comment> \<open>the global \<^verbatim>\<open>target\<close>\<close>
  "lost_node = ''deep-dive-worker''"

definition toleration :: "string \<Rightarrow> json" where
  "toleration key = JDict [(''key'', JStr key), (''operator'', JStr ''Exists''), (''effect'', JStr ''NoExecute''),
     (''tolerationSeconds'', JInt 15)]"

definition tolerant :: "exn + json" where
  "tolerant = deployment ''app'' SLEEPER 1
     [(''tolerations'', JList (map toleration [''node.kubernetes.io/not-ready'', ''node.kubernetes.io/unreachable'']))]"

definition condition_is :: "string \<Rightarrow> json \<Rightarrow> exn + bool" where
  "condition_is status c = andE (eqE (jsub c ''type'') (JStr ''Ready'')) (eqE (jsub c ''status'') (JStr status))"

definition node_unknown :: "json \<Rightarrow> exn + bool" where
  "node_unknown node = bindE (bindE (jpath [Sub ''status'', Sub ''conditions''] node) jiter) (anyE (condition_is ''Unknown''))"

definition lost :: "('w, 'g, json) prog" where
  "lost =
    (bindM (ddcmd [''get'', ''node'', lost_node, ''-o'', ''json'']) (\<lambda>r.
     bindM (py_loads (stdout r)) (\<lambda>node.
     bindM (liftE (node_unknown node)) (\<lambda>b.
     returnM (if b then node else JNull)))))"

definition replaces :: "json \<Rightarrow> json \<Rightarrow> exn + bool" where
  "replaces old p =
     bindE (jpath [Sub ''metadata'', Sub ''uid''] p) (\<lambda>u.
     bindE (jpath [Sub ''metadata'', Sub ''uid''] old) (\<lambda>v. if py_eq u v then Inr False
       else bindE (bindE (jpath [Get ''status'' emptyD, Get ''conditions'' (JList [])] p) jiter) (anyE (condition_is ''True''))))"

definition replaced :: "lab \<Rightarrow> json \<Rightarrow> ('w, 'g, json) prog" where
  "replaced L old = bindM (dd_pods L ''app'') (\<lambda>ps. liftE (next_or JNull (replaces old) ps))"

definition place_app :: "lab \<Rightarrow> ('w, 'g, unit) prog" where
  "place_app L =
    (bindM (liftE tolerant) (\<lambda>d.
     thenM (ddcmd [''cordon'', ''deep-dive-worker2'']) (
     finallyM (thenM (dd_apply L d) (dd_rollout L ''app'')) (ign (ddcmd [''uncordon'',
           ''deep-dive-worker2''])))))"

text \<open>The body of the \<^verbatim>\<open>try\<close> statement; \<open>seconds\<close> prints the time that has passed, \<^verbatim>\<open>round(t, 2)\<close> in seconds.\<close>

definition while_paused :: "(int \<Rightarrow> string) \<Rightarrow> lab \<Rightarrow> json \<Rightarrow> int \<Rightarrow> ('w, 'g, unit) prog" where
  "while_paused seconds L old start =
    (bindM (dd_wait truth lost 120) (\<lambda>node.
     thenM (dd_save L ''node-unknown'' node) (
     bindM monotonic (\<lambda>t1.
     bindM (dd_wait truth (replaced L old) 180) (\<lambda>new.
     thenM (dd_save L ''replacement'' new) (
     thenM (dd_snapshot L ''while-paused'') (
     bindM monotonic (\<lambda>t2.
     dd_save L ''timing'' (JDict [(''unknown_seconds'', JFloat (seconds (t1 - start))),
         (''replacement_ready_seconds'', JFloat (seconds (t2 - start))),
         (''toleration_seconds'', JInt 15), (''injection'', JStr ''docker pause worker (not host power failure)'')])))))))))"

definition lose_node :: "(int \<Rightarrow> string) \<Rightarrow> lab \<Rightarrow> json \<Rightarrow> ('w, 'g, unit) prog" where
  "lose_node seconds L old =
    (bindM monotonic (\<lambda>start.
     thenM (dd_command [''docker'', ''pause'', lost_node] None True) (
     finallyM (while_paused seconds L old start) (ign (dd_command [''docker'', ''unpause'', lost_node] None True)))))"

definition chosen_pod :: "lab \<Rightarrow> ('w, 'g, json) prog" where
  "chosen_pod L =
    (bindM (dd_pods L ''app'') (\<lambda>ps.
     bindM (liftE (jidx (JList ps) 0)) (\<lambda>old.
     bindM (liftE (eqE (jpath [Sub ''spec'', Sub ''nodeName''] old) (JStr lost_node))) (\<lambda>b.
     thenM (assertM [] b) (
     returnM old)))))"

definition fail_over :: "(int \<Rightarrow> string) \<Rightarrow> lab \<Rightarrow> json \<Rightarrow> ('w, 'g, unit) prog" where
  "fail_over seconds L old =
    (thenM (dd_save L ''before'' old) (
     thenM (lose_node seconds L old) (
     thenM (ddcmd [''wait'', ''--for=condition=Ready'', ''node/'' @ lost_node, ''--timeout=180s'']) (
     bindM (liftE (bindE (jpath [Sub ''metadata'', Sub ''name''] old) jstr)) (\<lambda>name.
     thenM (ddcmd [''wait'', ''-n'', ns L, ''--for=delete'', ''pod/'' @ name, ''--timeout=180s'']) (
     dd_snapshot L ''recovered''))))))"

definition node_failure_run :: "(int \<Rightarrow> string) \<Rightarrow> ('w, 'g, unit) prog" where
  "node_failure_run seconds =
    (bindM (dd_init ''node-failure'') (\<lambda>L.
     thenM (place_app L) (
     bindM (chosen_pod L) (\<lambda>old.
     fail_over seconds L old))))"


section \<open>Scheduling\<close>

definition too_large :: "exn + json" where
  "too_large = jupd [Sub ''spec'', Sub ''containers'', Idx 0]
     (\<lambda>c. jset c ''resources'' (JDict [(''requests'', JDict [(''cpu'', JStr ''1000'')])])) (pod ''too-large'' SLEEPER [])"

definition affinity_pod :: json where
  "affinity_pod = pod ''affinity'' SLEEPER [(''nodeSelector'', (JDict [(''lab.example.com/zone'', JStr ''missing'')]))]"

definition insufficient_cpu :: "json \<Rightarrow> exn + bool" where
  "insufficient_cpu e = andE (eqE (jget e ''reason'' JNull) (JStr ''FailedScheduling''))
     (bindE (jget e ''message'' (JStr [])) (jin (JStr ''Insufficient cpu'')))"

definition pod_unscheduled :: "json \<Rightarrow> exn + bool" where
  "pod_unscheduled p = bindE (bindE (jpath [Sub ''status'', Get ''conditions'' (JList [])] p) jiter) (anyE not_scheduled)"

definition on_worker2 :: "json \<Rightarrow> exn + bool" where
  "on_worker2 p = eqE (jpath [Sub ''spec'', Sub ''nodeName''] p) (JStr ''deep-dive-worker2'')"

definition after_label :: "lab \<Rightarrow> ('w, 'g, unit) prog" where
  "after_label L =
    (thenM (dd_ready L ''affinity'') (
     bindM (pod_is L ''affinity'' on_worker2) (\<lambda>b.
     thenM (assertM [] b) (
     bindM (dd_get L ''pod'' (Some ''affinity'')) (\<lambda>p.
     dd_save L ''selector-recovered'' p)))))"

definition label_node :: "lab \<Rightarrow> ('w, 'g, unit) prog" where
  "label_node L =
    (thenM (ddcmd [''label'', ''node'', ''deep-dive-worker2'', ''lab.example.com/zone=missing'',
           ''--overwrite'']) (
     finallyM (after_label L) (ign (ddcmd [''label'', ''node'', ''deep-dive-worker2'',
           ''lab.example.com/zone-'']))))"

definition not_placed :: "lab \<Rightarrow> ('w, 'g, unit) prog" where
  "not_placed L =
    (bindM (liftE too_large) (\<lambda>p.
     thenM (dd_apply L p) (
     thenM (dd_wait (\<lambda>b. b) (any_event L insufficient_cpu) 180) (
     thenM (dd_snapshot L ''request-does-not-fit'') (
     thenM (dd_apply L affinity_pod) (
     thenM (dd_wait (\<lambda>b. b) (pod_is L ''affinity'' pod_unscheduled) 180) (
     bindM (dd_get L ''pod'' (Some ''affinity'')) (\<lambda>q.
     dd_save L ''selector-mismatch'' q))))))))"

definition scheduling_run :: "('w, 'g, unit) prog" where
  "scheduling_run =
    (bindM (dd_init ''scheduling'') (\<lambda>L.
     thenM (not_placed L) (
     label_node L)))"


section \<open>Refresh of secrets\<close>

definition settings :: json where
  "settings = (JDict
    [(''apiVersion'', JStr ''v1''), (''kind'', JStr ''Secret''),
     (''metadata'', JDict [(''name'', JStr ''settings'')]),
     (''stringData'', JDict [(''value'', JStr ''old'')])])"

definition reader_code :: string where
  "reader_code = (''import time,pathlib'' @ [CHR 0x0A] @ ''p=pathlib.Path('' @ [CHR 0x27] @ ''/config/value'' @ [CHR 0x27] @ ''); cached=p.read_text(); pathlib.Path('' @ [CHR 0x27] @ ''/cached'' @ [CHR 0x27] @ '').write_text(cached)'' @ [CHR 0x0A] @ ''while True: time.sleep(1)'' @ [CHR 0x0A])"

definition reader_pod :: "exn + json" where
  "reader_pod = jupd [Sub ''spec'', Sub ''containers'', Idx 0]
     (\<lambda>c. bindE (jset c ''env'' (JList
       [JDict
          [(''name'', JStr ''VALUE''),
           (''valueFrom'',
             JDict
               [(''secretKeyRef'', JDict [(''name'', JStr ''settings''), (''key'', JStr ''value'')])])]])) (\<lambda>c1.
       jset c1 ''volumeMounts'' (JList
         [JDict
            [(''name'', JStr ''settings''), (''mountPath'', JStr ''/config''),
             (''readOnly'', JBool True)],
          JDict
            [(''name'', JStr ''settings''), (''mountPath'', JStr ''/subpath-value''),
             (''subPath'', JStr ''value''), (''readOnly'', JBool True)]])))
     (pod ''reader'' reader_code [(''volumes'', (JList
       [JDict [(''name'', JStr ''settings''), (''secret'', JDict [(''secretName'', JStr ''settings'')])]]))])"

definition read_code :: string where
  "read_code = (''import os,json,pathlib; print(json.dumps({'' @ [CHR 0x27] @ ''env'' @ [CHR 0x27] @ '':os.environ['' @ [CHR 0x27] @ ''VALUE'' @ [CHR 0x27] @ ''],'' @ [CHR 0x27] @ ''volume'' @ [CHR 0x27] @ '':pathlib.Path('' @ [CHR 0x27] @ ''/config/value'' @ [CHR 0x27] @ '').read_text(),'' @ [CHR 0x27] @ ''subPath'' @ [CHR 0x27] @ '':pathlib.Path('' @ [CHR 0x27] @ ''/subpath-value'' @ [CHR 0x27] @ '').read_text(),'' @ [CHR 0x27] @ ''cached'' @ [CHR 0x27] @ '':pathlib.Path('' @ [CHR 0x27] @ ''/cached'' @ [CHR 0x27] @ '').read_text()}))'')"

definition volume_new :: "json \<Rightarrow> exn + bool" where
  "volume_new v = eqE (jsub v ''volume'') (JStr ''new'')"

definition refreshed :: json where
  "refreshed = (JDict
    [(''env'', JStr ''old''), (''volume'', JStr ''new''), (''subPath'', JStr ''old''),
     (''cached'', JStr ''old'')])"

definition secret_refresh :: "lab \<Rightarrow> ('w, 'g, unit) prog" where
  "secret_refresh L =
    (thenM (dd_apply L settings) (
     bindM (liftE reader_pod) (\<lambda>p.
     thenM (dd_apply L p) (
     thenM (dd_ready L ''reader'') (
     bindM (exec_json L ''reader'' read_code None) (\<lambda>b.
     thenM (dd_save L ''before'' b) (
     thenM (dd_patch L ''secret'' ''settings'' (JDict [(''stringData'', JDict [(''value'', JStr ''new'')])])) (
     thenM (dd_wait (\<lambda>b. b) (bindM (exec_json L ''reader'' read_code None) (\<lambda>v. liftE (volume_new v))) 180) (
     bindM (exec_json L ''reader'' read_code None) (\<lambda>after.
     thenM (assertM [] (py_eq after refreshed)) (
     dd_save L ''after'' after)))))))))))"

definition secret_refresh_run :: "('w, 'g, unit) prog" where
  "secret_refresh_run = bindM (dd_init ''secret-refresh'') secret_refresh"


section \<open>Storage\<close>

definition dd_storage_class :: "string \<Rightarrow> string \<Rightarrow> json" where
  "dd_storage_class name mode = (JDict
    [(''apiVersion'', JStr ''storage.k8s.io/v1''), (''kind'', JStr ''StorageClass''),
     (''metadata'', JDict [(''name'', JStr name)]), (''provisioner'', JStr ''hostpath.csi.k8s.io''),
     (''volumeBindingMode'', JStr mode), (''reclaimPolicy'', JStr ''Delete'')])"

definition dd_pvc :: "string \<Rightarrow> string \<Rightarrow> string \<Rightarrow> json" where
  "dd_pvc name sc access_mode = (JDict
    [(''apiVersion'', JStr ''v1''), (''kind'', JStr ''PersistentVolumeClaim''),
     (''metadata'', JDict [(''name'', JStr name)]),
     (''spec'',
       JDict
         [(''storageClassName'', JStr sc), (''accessModes'', JList [JStr access_mode]),
          (''resources'', JDict [(''requests'', JDict [(''storage'', JStr ''64Mi'')])])])])"

definition dd_consumer :: "json \<Rightarrow> string \<Rightarrow> string \<Rightarrow> exn + json" where
  "dd_consumer node name claim = jupd [Sub ''spec'', Sub ''containers'', Idx 0]
     (\<lambda>c. jset c ''volumeMounts'' (JList [JDict [(''name'', JStr ''data''), (''mountPath'', JStr ''/data'')]]))
     (pod name SLEEPER [(''nodeSelector'', JDict [(''kubernetes.io/hostname'', node)]),
        (''volumes'', (JList
          [JDict
             [(''name'', JStr ''data''),
              (''persistentVolumeClaim'', JDict [(''claimName'', JStr claim)])]]))])"

definition first_consumer :: "json \<Rightarrow> exn + json" where
  "first_consumer node = bindE (dd_consumer node ''first'' ''disk'') (\<lambda>p.
     bindE (jupd [Sub ''spec'', Sub ''volumes''] (jappend (JDict [(''name'', JStr ''config''), (''secret'', JDict [(''secretName'', JStr ''missing'')])])) p)
       (jupd [Sub ''spec'', Sub ''containers'', Idx 0, Sub ''volumeMounts''] (jappend (JDict [(''name'', JStr ''config''), (''mountPath'', JStr ''/config'')]))))"

definition claim_bound :: "json \<Rightarrow> exn + bool" where
  "claim_bound p = eqE (jpath [Get ''status'' emptyD, get0 ''phase''] p) (JStr ''Bound'')"

definition waits_for_consumer :: "json \<Rightarrow> exn + bool" where
  "waits_for_consumer e = eqE (jget e ''reason'' JNull) (JStr ''WaitForFirstConsumer'')"

definition claim_pending :: "json \<Rightarrow> exn + bool" where
  "claim_pending p = eqE (jpath [Sub ''status'', Sub ''phase''] p) (JStr ''Pending'')"

definition storage_driver :: "lab \<Rightarrow> ('w, 'g, json) prog" where
  "storage_driver L =
    (bindM (ddcmd [''get'', ''pod'', ''csi-hostpathplugin-0'', ''-o'', ''json'']) (\<lambda>r.
     bindM (py_loads (stdout r)) (\<lambda>driver.
     bindM (liftE (jpath [Sub ''spec'', Sub ''nodeName''] driver)) (\<lambda>node.
     thenM (ddcmd [''wait'', ''--for=condition=Ready'', ''pod/csi-hostpathplugin-0'', ''--timeout=300s'']) (
     thenM (dd_save L ''driver'' driver) (
     thenM (dd_apply L (dd_storage_class ''dd-immediate'' ''Immediate'')) (
     thenM (dd_apply L (dd_storage_class ''dd-delayed'' ''WaitForFirstConsumer'')) (
     returnM node))))))))"

definition apply_consumer :: "lab \<Rightarrow> json \<Rightarrow> string \<Rightarrow> string \<Rightarrow> ('w, 'g, proc) prog" where
  "apply_consumer L node name claim = bindM (liftE (dd_consumer node name claim)) (dd_apply L)"

definition proof_is_there :: "lab \<Rightarrow> ('w, 'g, unit) prog" where
  "proof_is_there L = bindM (dd_exec L ''second'' [''cat'', ''/data/proof''] True None)
     (\<lambda>r. assertM [] (stdout r = ''persistent''))"

definition late_secret :: json where
  "late_secret = (JDict
    [(''apiVersion'', JStr ''v1''), (''kind'', JStr ''Secret''),
     (''metadata'', JDict [(''name'', JStr ''missing'')]),
     (''stringData'', JDict [(''value'', JStr ''ok'')])])"

definition bound_phase :: "lab \<Rightarrow> json \<Rightarrow> ('w, 'g, unit) prog" where
  "bound_phase L node =
    (thenM (dd_apply L (dd_pvc ''disk'' ''dd-immediate'' ''ReadWriteOnce'')) (
     thenM (dd_wait (\<lambda>b. b) (bindM (dd_get L ''pvc'' (Some ''disk'')) (\<lambda>p. liftE (claim_bound p))) 180) (
     bindM (liftE (first_consumer node)) (\<lambda>p.
     thenM (dd_apply L p) (
     thenM (dd_wait (\<lambda>b. b) (any_event L failed_mount) 180) (
     bindM (dd_get L ''pvc'' (Some ''disk'')) (\<lambda>c.
     bindM (dd_get L ''pod'' (Some ''first'')) (\<lambda>q.
     thenM (dd_save L ''bound-before-running'' (JDict [(''pvc'', c), (''pod'', q)])) (
     thenM (dd_apply L late_secret) (
     dd_ready L ''first''))))))))))"

definition shared_phase :: "lab \<Rightarrow> json \<Rightarrow> ('w, 'g, unit) prog" where
  "shared_phase L node =
    (thenM (dd_exec L ''first'' [''python'', ''-c'', (''from pathlib import Path; Path('' @ [CHR 0x27] @ ''/data/proof'' @ [CHR 0x27] @ '').write_text('' @ [CHR 0x27] @ ''persistent'' @ [CHR 0x27] @ '')'')] True None) (
     thenM (apply_consumer L node ''second'' ''disk'') (
     thenM (dd_ready L ''second'') (
     thenM (proof_is_there L) (
     bindM (dd_get L ''pods'' None) (\<lambda>ps.
     thenM (dd_save L ''rwo-two-pods'' ps) (
     bindM (ddcmd [''get'', ''volumeattachments'', ''-o'', ''json'']) (\<lambda>r.
     bindM (py_loads (stdout r)) (\<lambda>va.
     thenM (dd_save L ''attachments'' va) (
     thenM (ddcmd [''delete'', ''pod'', ''first'', ''-n'', ns L, ''--wait=true'']) (
     proof_is_there L)))))))))))"

definition delayed_phase :: "lab \<Rightarrow> json \<Rightarrow> ('w, 'g, unit) prog" where
  "delayed_phase L node =
    (thenM (dd_apply L (dd_pvc ''late'' ''dd-delayed'' ''ReadWriteOnce'')) (
     thenM (dd_wait (\<lambda>b. b) (any_event L waits_for_consumer) 180) (
     bindM (dd_get L ''pvc'' (Some ''late'')) (\<lambda>c.
     thenM (dd_save L ''delayed-before-consumer'' c) (
     bindM (dd_get L ''pvc'' (Some ''late'')) (\<lambda>c2.
     bindM (liftE (claim_pending c2)) (\<lambda>b.
     thenM (assertM [] b) (
     thenM (apply_consumer L node ''late'' ''late'') (
     thenM (dd_ready L ''late'') (
     bindM (dd_get L ''pvc'' (Some ''late'')) (\<lambda>c3.
     dd_save L ''delayed-after-consumer'' c3)))))))))))"

definition exclusive_phase :: "lab \<Rightarrow> json \<Rightarrow> ('w, 'g, unit) prog" where
  "exclusive_phase L node =
    (thenM (dd_apply L (dd_pvc ''exclusive'' ''dd-immediate'' ''ReadWriteOncePod'')) (
     thenM (apply_consumer L node ''exclusive-one'' ''exclusive'') (
     thenM (dd_ready L ''exclusive-one'') (
     thenM (apply_consumer L node ''exclusive-two'' ''exclusive'') (
     thenM (dd_wait (\<lambda>b. b) (pod_is L ''exclusive-two'' pod_unscheduled) 180) (
     thenM (dd_snapshot L ''rwop-blocked'') (
     bindM (ddcmd [''logs'', ''csi-hostpathplugin-0'', ''-c'', ''hostpath'', ''--tail=350'']) (\<lambda>r.
     thenM (dd_save L ''driver-rpc-log'' (JDict [(''text'', JStr (stdout r))])) (
     dd_save L ''result'' (JDict
         [(''rwo_same_node_two_pods'', JBool True), (''rwop_second_pod_blocked'', JBool True),
          (''bound_not_running'', JBool True), (''delayed_binding'', JBool True)]))))))))))"

definition storage_run :: "('w, 'g, unit) prog" where
  "storage_run =
    (bindM (dd_init ''storage'') (\<lambda>L.
     bindM (storage_driver L) (\<lambda>node.
     thenM (bound_phase L node) (
     thenM (shared_phase L node) (
     thenM (delayed_phase L node) (
     exclusive_phase L node))))))"


section \<open>Deletion\<close>

definition held_pod :: "exn + json" where
  "held_pod = jupd [Sub ''metadata''] (\<lambda>m. jset m ''finalizers'' (JList [JStr ''lab.example.com/cleanup''])) (pod ''held'' SLEEPER [])"

definition still_held :: "json \<Rightarrow> exn + bool" where
  "still_held p = eqE (jpath [Sub ''metadata'', Sub ''finalizers''] p) (JList [JStr ''lab.example.com/cleanup''])"

definition deletion_time :: "lab \<Rightarrow> ('w, 'g, json) prog" where
  "deletion_time L = bindM (dd_get L ''pod'' (Some ''held'')) (\<lambda>p. liftE (jpath [Sub ''metadata'', get0 ''deletionTimestamp''] p))"

definition finalizer_phase :: "lab \<Rightarrow> ('w, 'g, unit) prog" where
  "finalizer_phase L =
    (bindM (liftE held_pod) (\<lambda>p.
     thenM (dd_apply L p) (
     thenM (dd_ready L ''held'') (
     thenM (ddcmd [''delete'', ''pod'', ''held'', ''-n'', ns L, ''--wait=false'']) (
     thenM (dd_wait truth (deletion_time L) 180) (
     bindM (dd_get L ''pod'' (Some ''held'')) (\<lambda>q.
     thenM (dd_save L ''deletion-requested'' q) (
     bindM (ddcmd [''delete'', ''pod'', ''held'', ''-n'', ns L, ''--force'', ''--grace-period=0'',
           ''--wait=false'']) (\<lambda>r.
     thenM (dd_save L ''force-result'' (JDict [(''stdout'', JStr (stdout r)), (''stderr'', JStr (stderr r))])) (
     bindM (dd_get L ''pod'' (Some ''held'')) (\<lambda>q2.
     thenM (dd_save L ''after-force'' q2) (
     bindM (pod_is L ''held'' still_held) (\<lambda>b.
     thenM (assertM [] b) (
     thenM (dd_patch L ''pod'' ''held'' (JDict [(''metadata'', JDict [(''finalizers'', JList [])])])) (
     thenM (ddcmd [''wait'', ''-n'', ns L, ''--for=delete'', ''pod/held'', ''--timeout=60s'']) (
     dd_save L ''result'' (JDict [(''force_did_not_remove_finalizer'', JBool True), (''deleted_after_cleanup'', JBool True)])))))))))))))))))"

text \<open>\<^verbatim>\<open>s.split('://')[1]\<close>: from the first separator up to the next one.\<close>

definition second_part :: "string \<Rightarrow> exn + string" where
  "second_part s = (case after_sep ''://'' s of
       None \<Rightarrow> Inl (IndexError ''list index out of range'')
     | Some t \<Rightarrow> Inr (case after_sep ''://'' t of None \<Rightarrow> t | Some u \<Rightarrow> take (length t - length u - 3) t))"

definition orphan_id :: "json \<Rightarrow> exn + string" where
  "orphan_id p = bindE (bindE (jpath [Sub ''status'', Sub ''containerStatuses'', Idx 0, Sub ''containerID''] p) (str_method ''split''))
     second_part"

definition on_node :: "string list \<Rightarrow> bool \<Rightarrow> ('w, 'g, proc) prog" where
  "on_node args check = dd_command ([''docker'', ''exec'', ''deep-dive-worker2''] @ args) None check"

definition kubelet_stopped :: "lab \<Rightarrow> string \<Rightarrow> ('w, 'g, unit) prog" where
  "kubelet_stopped L cid =
    (thenM (ddcmd [''delete'', ''pod'', ''orphan-process'', ''-n'', ns L, ''--force'', ''--grace-period=0'',
           ''--wait=true'']) (
     bindM (on_node [''crictl'', ''inspect'', cid] True) (\<lambda>r.
     bindM (py_loads (stdout r)) (\<lambda>state.
     bindM (liftE (jpath [Sub ''status'', Sub ''state''] state)) (\<lambda>v.
     thenM (assertM [] (py_eq v (JStr ''CONTAINER_RUNNING''))) (
     dd_save L ''force-object-gone-process-running''
         (JDict [(''api_object_exists'', JBool False), (''container_state'', v), (''container_id'', JStr cid)])))))))"

definition stopped :: "string \<Rightarrow> ('w, 'g, bool) prog" where
  "stopped cid =
    (bindM (on_node [''crictl'', ''inspect'', cid] False) (\<lambda>r.
     (if returncode r \<noteq> 0 then returnM True
        else liftE (bindE (bindE (loads (stdout r)) (jpath [Sub ''status'', Sub ''state'']))
          (\<lambda>v. Inr (\<not> py_eq v (JStr ''CONTAINER_RUNNING'')))))))"

definition stop_kubelet :: "lab \<Rightarrow> string \<Rightarrow> ('w, 'g, unit) prog" where
  "stop_kubelet L cid =
    (thenM (on_node [''systemctl'', ''stop'', ''kubelet''] True) (
     finallyM (kubelet_stopped L cid) (ign (on_node [''systemctl'', ''start'', ''kubelet''] True))))"

definition orphan_pod :: json where
  "orphan_pod = pod ''orphan-process'' SLEEPER [(''nodeName'', JStr ''deep-dive-worker2'')]"

definition orphan_container :: "lab \<Rightarrow> ('w, 'g, string) prog" where
  "orphan_container L =
    (thenM (dd_apply L orphan_pod) (
     thenM (dd_ready L ''orphan-process'') (
     bindM (dd_get L ''pod'' (Some ''orphan-process'')) (\<lambda>p.
     liftE (orphan_id p)))))"

definition orphan_phase :: "lab \<Rightarrow> string \<Rightarrow> ('w, 'g, unit) prog" where
  "orphan_phase L cid =
    (thenM (stop_kubelet L cid) (
     thenM (dd_wait (\<lambda>b. b) (stopped cid) 180) (
     dd_save L ''orphan-cleaned'' (JDict [(''kubelet_restarted'', JBool True), (''old_container_running'', JBool False)]))))"

definition terminating_run :: "('w, 'g, unit) prog" where
  "terminating_run =
    (bindM (dd_init ''terminating'') (\<lambda>L.
     thenM (finalizer_phase L) (
     bindM (orphan_container L) (\<lambda>cid.
     orphan_phase L cid))))"


section \<open>They stay on their cluster, and end\<close>

lemmas ephemeral_defs = ephemeral_run_def ephemeral_def pod_is_def exec_json_def
lemmas node_failure_defs = node_failure_run_def chosen_pod_def fail_over_def lose_node_def while_paused_def place_app_def replaced_def lost_def
lemmas scheduling_defs = scheduling_run_def not_placed_def label_node_def after_label_def pod_is_def any_event_def
lemmas secret_defs = secret_refresh_run_def secret_refresh_def exec_json_def
lemmas storage_defs = storage_run_def storage_driver_def bound_phase_def shared_phase_def delayed_phase_def exclusive_phase_def
  apply_consumer_def proof_is_there_def pod_is_def any_event_def
lemmas terminating_defs = terminating_run_def finalizer_phase_def orphan_container_def orphan_phase_def stop_kubelet_def kubelet_stopped_def stopped_def
  on_node_def deletion_time_def pod_is_def

lemma dd_command_runs [runs_intros]: "clock_ok os now \<Longrightarrow> runs os now (dd_command args data check)"
  unfolding dd_command_def by (intro runs_intros)

lemma dd_command_emits [emits_intros]: "(\<And>r. P (Ran args data r)) \<Longrightarrow> emits os P (dd_command args data check)"
  unfolding dd_command_def by (intro emits_intros)

lemma deep_dive_more_emits:
  assumes "\<And>args data r. P (Ran (''kubectl'' # ''--context'' # CTX # args) data r)" and "\<And>p x. P (Wrote p x)"
    and "\<And>x. P (Printed x)" and "\<And>p. P (MadeDir p)" and "\<And>r. P (Clock r)" and "\<And>d. P (Slept d)"
  shows "emits os P ephemeral_run" "emits os P scheduling_run" "emits os P secret_refresh_run" "emits os P storage_run"
    "(\<And>args data r. P (Ran (''docker'' # args) data r)) \<Longrightarrow> emits os P (node_failure_run seconds)"
    "(\<And>args data r. P (Ran (''docker'' # args) data r)) \<Longrightarrow> emits os P terminating_run"
  unfolding ephemeral_defs scheduling_defs secret_defs storage_defs node_failure_defs terminating_defs Let_def
  by (intro emits_intros; simp add: assms)+

lemma deep_dive_more_runs:
  assumes "clock_ok os now"
  shows "runs os now ephemeral_run" "runs os now (node_failure_run seconds)" "runs os now scheduling_run"
    "runs os now secret_refresh_run" "runs os now storage_run" "runs os now terminating_run"
  unfolding ephemeral_defs scheduling_defs secret_defs storage_defs node_failure_defs terminating_defs Let_def
  by (intro runs_intros assms)+

end
