(* ===== verification/Observe.thy ===== *)
theory Observe
  imports PyProg "HOL-Library.Sublist"
begin

text \<open>
  What a script has seen when it returns normally: \<open>in_order ps es\<close> says that the trace \<open>es\<close> has an event for
  each of the predicates \<open>ps\<close>, in this order, and \<open>observes os m ps\<close> that every normal return of \<open>m\<close> has added
  such a stretch to the trace. The judgement composes along the statements of a script; a phase is taken apart with the rules of \<open>wp\<close>.
\<close>

fun in_order :: "('e \<Rightarrow> bool) list \<Rightarrow> 'e list \<Rightarrow> bool" where
  "in_order [] es \<longleftrightarrow> True"
| "in_order (p # ps) [] \<longleftrightarrow> False"
| "in_order (p # ps) (e # es) \<longleftrightarrow> p e \<and> in_order ps es \<or> in_order (p # ps) es"

lemma in_order_Cons: "in_order ps es \<Longrightarrow> in_order ps (e # es)"
  by (cases ps) auto

lemma in_order_left: "in_order ps es \<Longrightarrow> in_order ps (fs @ es)"
  by (induction fs) (auto intro: in_order_Cons)

text \<open>Taking the first event that matches is never wrong.\<close>

lemma in_order_tl: "in_order (p # ps) es \<Longrightarrow> in_order ps es"
  by (induction es) (auto intro: in_order_Cons)

lemma in_order_hit: "p e \<Longrightarrow> in_order (p # ps) (e # es) \<longleftrightarrow> in_order ps es"
  using in_order_tl by auto

lemma in_order_miss: "\<not> p e \<Longrightarrow> in_order (p # ps) (e # es) \<longleftrightarrow> in_order (p # ps) es"
  by simp

lemma in_order_append: "in_order ps es \<Longrightarrow> in_order qs fs \<Longrightarrow> in_order (ps @ qs) (es @ fs)"
  by (induction ps es rule: in_order.induct) (auto intro: in_order_left)

text \<open>Being in order is having a subsequence that matches one by one, the usual notion of the library.\<close>

lemma in_order_iff_subseq: "in_order ps es \<longleftrightarrow> (\<exists>xs. subseq xs es \<and> list_all2 (\<lambda>p e. p e) ps xs)"
proof
  show "in_order ps es \<Longrightarrow> \<exists>xs. subseq xs es \<and> list_all2 (\<lambda>p e. p e) ps xs"
  proof (induction ps es rule: in_order.induct)
    case (3 p ps e es)
    then consider xs where "p e" "subseq xs es" "list_all2 (\<lambda>p e. p e) ps xs"
      | xs where "subseq xs es" "list_all2 (\<lambda>p e. p e) (p # ps) xs" by auto
    then show ?case
    proof cases
      case 1
      then show ?thesis by (intro exI [of _ "e # xs"]) simp
    qed (blast intro: list_emb_Cons)
  qed auto
next
  assume "\<exists>xs. subseq xs es \<and> list_all2 (\<lambda>p e. p e) ps xs"
  then obtain xs where "subseq xs es" and "list_all2 (\<lambda>p e. p e) ps xs" by blast
  then show "in_order ps es"
    by (induction xs es arbitrary: ps rule: list_emb.induct) (auto simp: list_all2_Cons2 intro: in_order_Cons)
qed


definition observes :: "'w os \<Rightarrow> ('w, 'g, 'a) prog \<Rightarrow> (event \<Rightarrow> bool) list \<Rightarrow> bool" where
  "observes os m ps \<longleftrightarrow> (\<forall>s v s'. m os s = Some (Inr v, s') \<longrightarrow> (\<exists>fs. trace s' = trace s @ fs \<and> in_order ps fs))"

lemma observesI:
  assumes "\<And>es. wp os m (\<lambda>_ gs. \<exists>fs. gs = es @ fs \<and> in_order ps fs) es"
  shows "observes os m ps"
  using assms by (auto simp: observes_def wp_def)

lemma observesD: "observes os m ps \<Longrightarrow> wp os m (\<lambda>_ gs. \<exists>fs. gs = es @ fs \<and> in_order ps fs) es"
  by (auto simp: observes_def wp_def)

text \<open>\<open>yields os m P\<close> adds the value: a normal return of \<open>v\<close> has added a stretch \<open>fs\<close> with \<open>P v fs\<close>. A phase proved so is a rule of \<open>wp\<close>.\<close>

definition yields :: "'w os \<Rightarrow> ('w, 'g, 'a) prog \<Rightarrow> ('a \<Rightarrow> event list \<Rightarrow> bool) \<Rightarrow> bool" where
  "yields os m P \<longleftrightarrow> (\<forall>es. wp os m (\<lambda>v gs. \<exists>fs. gs = es @ fs \<and> P v fs) es)"

lemma yieldsI: "(\<And>es. wp os m (\<lambda>v gs. \<exists>fs. gs = es @ fs \<and> P v fs) es) \<Longrightarrow> yields os m P"
  by (simp add: yields_def)

lemma wp_yields: "yields os m P \<Longrightarrow> (\<And>v fs. P v fs \<Longrightarrow> Q v (es @ fs)) \<Longrightarrow> wp os m Q es"
  unfolding yields_def by (fastforce elim!: wp_conseq)

lemma observes_nil: "emits os (\<lambda>_. True) m \<Longrightarrow> observes os m []"
  unfolding observes_def by (auto elim!: emitsD)

lemma observes_bindM:
  assumes "observes os m ps" and "\<And>v. observes os (f v) qs"
  shows "observes os (bindM m f) (ps @ qs)"
  unfolding observes_def
proof (intro allI impI)
  fix s v s'
  assume "bindM m f os s = Some (Inr v, s')"
  then obtain a t where m: "m os s = Some (Inr a, t)" and f: "f a os t = Some (Inr v, s')" by (rule bindM_InrE)
  obtain es fs where "trace t = trace s @ es" "in_order ps es" "trace s' = trace t @ fs" "in_order qs fs"
    using assms(1) m assms(2) [of a] f unfolding observes_def by blast
  then show "\<exists>fs. trace s' = trace s @ fs \<and> in_order (ps @ qs) fs" by (auto intro: in_order_append)
qed

lemma observes_thenM: "observes os m ps \<Longrightarrow> observes os n qs \<Longrightarrow> observes os (thenM m n) (ps @ qs)"
  unfolding thenM_def by (rule observes_bindM)

lemma observes_skip: "emits os (\<lambda>_. True) m \<Longrightarrow> (\<And>v. observes os (f v) qs) \<Longrightarrow> observes os (bindM m f) qs"
  using observes_bindM [OF observes_nil, of os m f qs] by simp

lemma observes_then_skip: "emits os (\<lambda>_. True) m \<Longrightarrow> observes os n qs \<Longrightarrow> observes os (thenM m n) qs"
  unfolding thenM_def by (rule observes_skip)

lemma observes_last: "observes os m ps \<Longrightarrow> emits os (\<lambda>_. True) n \<Longrightarrow> observes os (thenM m n) ps"
  using observes_thenM [OF _ observes_nil, of os m ps n] by simp

text \<open>
  The answers may depend on something the run has chosen, such as the pod it found: \<open>observes_any os m F\<close> says that for some \<open>x\<close> the
  stretch has the answers \<open>F x\<close>.
\<close>

definition observes_any :: "'w os \<Rightarrow> ('w, 'g, 'a) prog \<Rightarrow> ('x \<Rightarrow> (event \<Rightarrow> bool) list) \<Rightarrow> bool" where
  "observes_any os m F \<longleftrightarrow> (\<forall>s v s'. m os s = Some (Inr v, s') \<longrightarrow> (\<exists>fs x. trace s' = trace s @ fs \<and> in_order (F x) fs))"

lemma observes_anyI:
  assumes "\<And>es. wp os m (\<lambda>v gs. \<exists>fs. gs = es @ fs \<and> in_order (ps v) fs) es" and "\<And>v. observes os (f v) (qs v)"
  shows "observes_any os (bindM m f) (\<lambda>v. ps v @ qs v)"
  unfolding observes_any_def
proof (intro allI impI)
  fix s v s'
  assume "bindM m f os s = Some (Inr v, s')"
  then obtain a t where m: "m os s = Some (Inr a, t)" and f: "f a os t = Some (Inr v, s')" by (rule bindM_InrE)
  from assms(1) [of "trace s"] m obtain es where "trace t = trace s @ es" "in_order (ps a) es" unfolding wp_def by blast
  moreover from assms(2) [of a] f obtain fs where "trace s' = trace t @ fs" "in_order (qs a) fs" unfolding observes_def by blast
  ultimately show "\<exists>fs x. trace s' = trace s @ fs \<and> in_order (ps x @ qs x) fs" by (auto intro: in_order_append)
qed

lemma observes_any_thenM:
  assumes "observes os m ps" and "observes_any os n F"
  shows "observes_any os (thenM m n) (\<lambda>x. ps @ F x)"
  unfolding observes_any_def
proof (intro allI impI)
  fix s v s'
  assume "thenM m n os s = Some (Inr v, s')"
  then obtain a t where m: "m os s = Some (Inr a, t)" and n: "n os t = Some (Inr v, s')" by (rule thenM_InrE)
  obtain es fs x where "trace t = trace s @ es" "in_order ps es" "trace s' = trace t @ fs" "in_order (F x) fs"
    using assms m n unfolding observes_def observes_any_def by blast
  then show "\<exists>fs x. trace s' = trace s @ fs \<and> in_order (ps @ F x) fs" by (auto intro: in_order_append)
qed

lemma in_order_right: "in_order ps es \<Longrightarrow> in_order ps (es @ fs)"
  using in_order_append [of ps es "[]" fs] by simp

lemma observes_any_finallyM:
  assumes "observes_any os m F" and "emits os (\<lambda>_. True) c"
  shows "observes_any os (finallyM m c) F"
  unfolding observes_any_def
proof (intro allI impI)
  fix s v s'
  assume "finallyM m c os s = Some (Inr v, s')"
  then obtain s1 rc where m: "m os s = Some (Inr v, s1)" and c: "c os s1 = Some (rc, s')"
    by (auto simp: finallyM_def split: option.splits sum.splits)
  from assms(2) c obtain gs where "trace s' = trace s1 @ gs" by (rule emitsD)
  moreover obtain fs x where "trace s1 = trace s @ fs" "in_order (F x) fs" using assms(1) m unfolding observes_any_def by blast
  ultimately have "trace s' = trace s @ fs @ gs" "in_order (F x) (fs @ gs)" by (auto intro: in_order_right)
  then show "\<exists>fs x. trace s' = trace s @ fs \<and> in_order (F x) fs" by blast
qed

lemma observes_any_last:
  assumes "observes_any os m F" and "emits os (\<lambda>_. True) n"
  shows "observes_any os (thenM m n) F"
  unfolding observes_any_def
proof (intro allI impI)
  fix s v s'
  assume "thenM m n os s = Some (Inr v, s')"
  then obtain a s1 where m: "m os s = Some (Inr a, s1)" and n: "n os s1 = Some (Inr v, s')" by (rule thenM_InrE)
  from assms(2) n obtain gs where "trace s' = trace s1 @ gs" by (rule emitsD)
  moreover obtain fs x where "trace s1 = trace s @ fs" "in_order (F x) fs" using assms(1) m unfolding observes_any_def by blast
  ultimately have "trace s' = trace s @ fs @ gs" "in_order (F x) (fs @ gs)" by (auto intro: in_order_right)
  then show "\<exists>fs x. trace s' = trace s @ fs \<and> in_order (F x) fs" by blast
qed

lemma observes_eq_any: "observes os m ps \<longleftrightarrow> observes_any os m (\<lambda>_ :: unit. ps)"
  by (simp add: observes_def observes_any_def)

lemma observes_finallyM: "observes os m ps \<Longrightarrow> emits os (\<lambda>_. True) c \<Longrightarrow> observes os (finallyM m c) ps"
  unfolding observes_eq_any by (rule observes_any_finallyM)

lemma observes_any_skip: "emits os (\<lambda>_. True) m \<Longrightarrow> observes_any os n F \<Longrightarrow> observes_any os (thenM m n) F"
  using observes_any_thenM [OF observes_nil, of os m n F] by simp

text \<open>A command that was answered by a result with property \<open>P\<close>; a result that is JSON with property \<open>c\<close>.\<close>

definition replied :: "string list \<Rightarrow> (proc \<Rightarrow> bool) \<Rightarrow> event \<Rightarrow> bool" where
  "replied args P e \<longleftrightarrow> (case e of Ran a _ (Inr r) \<Rightarrow> a = args \<and> P r | _ \<Rightarrow> False)"

definition answered_json :: "(json \<Rightarrow> exn + bool) \<Rightarrow> proc \<Rightarrow> bool" where
  "answered_json c r \<longleftrightarrow> returncode r = 0 \<and> bindE (loads (stdout r)) c = Inr True"

lemma replied_simps [simp]:
  "replied args P (Ran a i (Inr r)) \<longleftrightarrow> a = args \<and> P r" "\<not> replied args P (Printed x)" "\<not> replied args P (Wrote f x)"
  "\<not> replied args P (Clock c)" "\<not> replied args P (Slept d)"
  by (simp_all add: replied_def)

text \<open>
  A phase is taken apart by \<open>observesI\<close> and the rules of \<open>wp\<close>; what is left is its trace, which these facts match from
  the first event on.
\<close>

declare in_order.simps(3) [simp del]

lemmas observed = append_assoc append_Cons append_Nil in_order_left in_order_hit in_order_miss

end
