(* ===== verification/DeepDiveSeen.thy ===== *)
theory DeepDiveSeen
  imports DeepDiveRuns Observe
begin

text \<open>
  What the deep-dive experiments of \<open>DeepDiveRuns\<close> have seen when they return normally: for each script the list of the answers
  its result rests on, in their order, and that the script observes it.
\<close>

section \<open>Answers of the cluster\<close>

text \<open>A kubectl command with the given first arguments whose answer satisfies \<open>P\<close>.\<close>

definition ran_like :: "string list \<Rightarrow> (proc \<Rightarrow> bool) \<Rightarrow> event \<Rightarrow> bool" where
  "ran_like pre P e \<longleftrightarrow> (case e of
       Ran a _ (Inr r) \<Rightarrow> take (3 + length pre) a = ''kubectl'' # ''--context'' # CTX # pre \<and> P r
     | _ \<Rightarrow> False)"

definition succeeded :: "string list \<Rightarrow> event \<Rightarrow> bool" where
  "succeeded pre = ran_like pre (\<lambda>r. returncode r = 0)"

definition applied :: "lab \<Rightarrow> json \<Rightarrow> event \<Rightarrow> bool" where
  "applied L obj e \<longleftrightarrow> (case e of
       Ran a d (Inr r) \<Rightarrow> a = [''kubectl'', ''--context'', CTX, ''apply'', ''-n'', ns L, ''-f'', ''-''] \<and> d = Some (dumps obj) \<and>
         returncode r = 0
     | _ \<Rightarrow> False)"

text \<open>A listing or an object that was read and satisfied the condition \<open>c\<close>, a Python expression that may raise.\<close>

definition got :: "lab \<Rightarrow> string \<Rightarrow> string option \<Rightarrow> (json \<Rightarrow> exn + bool) \<Rightarrow> event \<Rightarrow> bool" where
  "got L kind nm c e \<longleftrightarrow> (case e of
       Ran a _ (Inr r) \<Rightarrow>
         a = ''kubectl'' # ''--context'' # CTX # [''get'', kind] @ (case nm of None \<Rightarrow> [] | Some n \<Rightarrow> [n]) @ [''-n'', ns L, ''-o'', ''json''] \<and>
         returncode r = 0 \<and> bindE (loads (stdout r)) c = Inr True
     | _ \<Rightarrow> False)"

definition reached :: "lab \<Rightarrow> string \<Rightarrow> bool \<Rightarrow> event \<Rightarrow> bool" where
  "reached L client b = ran_like [''exec'', ''-n'', ns L, client, ''--'', ''python'', ''-c''] (\<lambda>r. (returncode r = 0) = b)"

definition exec_ok :: "lab \<Rightarrow> string list \<Rightarrow> event \<Rightarrow> bool" where
  "exec_ok L args = succeeded ([''exec'', ''-n'', ns L, ''app'', ''--''] @ args)"

definition pod_ready :: "lab \<Rightarrow> string \<Rightarrow> event \<Rightarrow> bool" where
  "pod_ready L name = succeeded [''wait'', ''-n'', ns L, ''--for=condition=Ready'', ''pod/'' @ name]"

definition field_is :: "string \<Rightarrow> (json \<Rightarrow> exn + bool) \<Rightarrow> json \<Rightarrow> exn + bool" where
  "field_is f c p = bindE (jpath [Sub ''status'', Sub ''containerStatuses'', Idx 0, Sub f] p) c"

definition false_value :: "json \<Rightarrow> exn + bool" where
  "false_value v = Inr (\<not> truth v)"

definition any_item :: "(json \<Rightarrow> exn + bool) \<Rightarrow> json \<Rightarrow> exn + bool" where
  "any_item p doc = bindE (bindE (jsub doc ''items'') jiter) (anyE p)"

lemmas seen_defs = ran_like_def succeeded_def applied_def got_def reached_def exec_ok_def pod_ready_def field_is_def
  false_value_def any_item_def


lemma observes_init:
  assumes "observes os (f (dd_of topic)) ps"
  shows "observes os (bindM (dd_init topic) f) ps"
proof (rule observesI, rule wp_bindM, rule dd_init_wp)
  fix es fs
  show "wp os (f (dd_of topic)) (\<lambda>_ gs. \<exists>fs. gs = es @ fs \<and> in_order ps fs) (es @ fs)"
    by (rule wp_conseq [OF observesD [OF assms]]) (auto intro: in_order_left)
qed


section \<open>Reconciliation\<close>

definition effects_ok :: "json \<Rightarrow> exn + bool" where
  "effects_ok doc = bindE (bindE (bindE (jsub doc ''items'') jiter) (filterE is_effect)) one_effect"

definition conflicted :: "lab \<Rightarrow> event \<Rightarrow> bool" where
  "conflicted L = ran_like [''replace'', ''-n'', ns L, ''-f'', ''-''] (\<lambda>r. returncode r \<noteq> 0 \<and> contains (stderr r) ''Conflict'')"

definition created_or_exists :: "lab \<Rightarrow> event \<Rightarrow> bool" where
  "created_or_exists L = ran_like [''create'', ''-n'', ns L, ''-f'', ''-'']
     (\<lambda>r. returncode r = 0 \<or> contains (stderr r) ''AlreadyExists'')"

definition reconcile_seen :: "lab \<Rightarrow> (event \<Rightarrow> bool) list" where
  "reconcile_seen L = [applied L desired_map, conflicted L] @ [created_or_exists L] @ [created_or_exists L] @
     [created_or_exists L] @ [got L ''configmaps'' None effects_ok]"

lemma stale_observes: "observes os (stale_phase L) [applied L desired_map, conflicted L]"
  unfolding stale_phase_def
  by (rule observesI, intro wp_intros) (simp add: observed seen_defs conflicted_def)

lemma reconcile_observes: "observes os (reconcile L crash) [created_or_exists L]"
  unfolding reconcile_def
  by (rule observesI, intro wp_intros; simp add: observed seen_defs created_or_exists_def)

lemma effects_observes: "observes os (effects_phase L attempts) [got L ''configmaps'' None effects_ok]"
  unfolding effects_phase_def
  by (rule observesI, intro wp_intros) (simp add: observed seen_defs effects_ok_def)

lemma reconcile_run_observes: "observes os reconcile_run (reconcile_seen (dd_of ''reconcile''))"
  unfolding reconcile_run_def reconcile_seen_def
  by (intro observes_init observes_thenM observes_bindM stale_observes reconcile_observes effects_observes)


section \<open>Disruption budgets\<close>

definition healthy_is :: "acc list \<Rightarrow> int \<Rightarrow> json \<Rightarrow> exn + bool" where
  "healthy_is path n b = eqE (jpath path b) (JInt n)"

definition evicted :: "(proc \<Rightarrow> bool) \<Rightarrow> event \<Rightarrow> bool" where
  "evicted = ran_like [''create'', ''--raw'']"

definition all_healthy :: "lab \<Rightarrow> event \<Rightarrow> bool" where
  "all_healthy L = got L ''pdb'' (Some ''keep-two'') (healthy_is [Get ''status'' emptyD, get0 ''currentHealthy''] 2)"

definition one_unhealthy :: "lab \<Rightarrow> event \<Rightarrow> bool" where
  "one_unhealthy L = got L ''pdb'' (Some ''keep-two'') (healthy_is [Sub ''status'', Sub ''currentHealthy''] 1)"

definition pdb_seen :: "lab \<Rightarrow> (event \<Rightarrow> bool) list" where
  "pdb_seen L = [all_healthy L, evicted refused, succeeded [''delete'', ''pod'']] @
     [all_healthy L, one_unhealthy L, evicted refused, succeeded [''patch'', ''pdb'', ''keep-two''],
      evicted (\<lambda>r. returncode r = 0)]"

lemmas pdb_seen_defs = healthy_is_def evicted_def all_healthy_def one_unhealthy_def eqE_def

lemma pdb_evict_observes: "observes os (pdb_evict L) [all_healthy L, evicted refused, succeeded [''delete'', ''pod'']]"
  unfolding pdb_defs
  by (rule observesI, intro wp_intros emits_intros impI; simp add: observed seen_defs pdb_seen_defs)

lemma pdb_unhealthy_observes:
  "observes os (pdb_unhealthy L) [all_healthy L, one_unhealthy L, evicted refused, succeeded [''patch'', ''pdb'', ''keep-two''],
     evicted (\<lambda>r. returncode r = 0)]"
  unfolding pdb_defs
  by (rule observesI, intro wp_intros emits_intros impI; simp add: observed seen_defs pdb_seen_defs)

lemma pdb_run_observes: "observes os pdb_run (pdb_seen (dd_of ''pdb''))"
  unfolding pdb_run_def pdb_seen_def
  by (intro observes_init observes_thenM pdb_evict_observes pdb_unhealthy_observes)


section \<open>Network policies\<close>

definition network_policy_seen :: "lab \<Rightarrow> (event \<Rightarrow> bool) list" where
  "network_policy_seen L =
     [reached L ''good'' True, reached L ''other'' True, applied L deny_server, reached L ''good'' False,
      applied L allow_good, reached L ''good'' True, reached L ''other'' False, reached L ''good'' True] @
     [applied L deny_good_egress, reached L ''good'' False, applied L allow_server_egress, reached L ''good'' True,
      reached L ''good'' False, applied L allow_dns, reached L ''good'' True]"

lemma ingress_observes:
  "observes os (ingress_phase L ip svc)
     [reached L ''good'' True, reached L ''other'' True, applied L deny_server, reached L ''good'' False,
      applied L allow_good, reached L ''good'' True, reached L ''other'' False, reached L ''good'' True]"
  unfolding network_defs
  by (rule observesI, intro wp_intros emits_intros impI; simp add: observed seen_defs)

lemma egress_observes:
  "observes os (egress_phase L ip)
     [applied L deny_good_egress, reached L ''good'' False, applied L allow_server_egress, reached L ''good'' True,
      reached L ''good'' False, applied L allow_dns, reached L ''good'' True]"
  unfolding network_defs
  by (rule observesI, intro wp_intros emits_intros impI; simp add: observed seen_defs)

lemma addresses_emits: "emits os (\<lambda>_. True) (addresses L)"
  unfolding network_defs by (intro emits_intros; simp)

lemma network_policy_run_observes: "observes os network_policy_run (network_policy_seen (dd_of ''network-policy''))"
  unfolding network_policy_run_def network_policy_seen_def
  by (intro observes_init observes_skip [OF addresses_emits] observes_thenM ingress_observes observes_last egress_observes
      emits_intros) simp_all


section \<open>Probes\<close>

definition probes_seen :: "lab \<Rightarrow> (event \<Rightarrow> bool) list" where
  "probes_seen L =
     [got L ''events'' None (any_item startup_failed), got L ''pod'' (Some ''app'') (field_is ''started'' false_value),
      exec_ok L [''touch'', ''/state/started''], pod_ready L ''app''] @
     [exec_ok L [''touch'', ''/state/not-ready''], got L ''pod'' (Some ''app'') (field_is ''ready'' false_value),
      got L ''endpointslices'' None (any_item endpoints_not_ready),
      got L ''pod'' (Some ''app'') (field_is ''restartCount'' (\<lambda>n. Inr (py_eq n (JInt 0)))),
      exec_ok L [''rm'', ''/state/not-ready''], pod_ready L ''app''] @
     [exec_ok L [''touch'', ''/state/not-live''], got L ''pod'' (Some ''app'') (field_is ''restartCount'' (\<lambda>n. jcmp ''>='' (\<ge>) n 1)),
      got L ''pod'' (Some ''app'') (\<lambda>_. Inr True), got L ''pod'' (Some ''app'') (field_is ''state'' (jin (JStr ''running''))),
      exec_ok L [''rm'', ''/state/not-live''], pod_ready L ''app'']"

lemma startup_observes:
  "observes os (startup_phase L)
     [got L ''events'' None (any_item startup_failed), got L ''pod'' (Some ''app'') (field_is ''started'' false_value),
      exec_ok L [''touch'', ''/state/started''], pod_ready L ''app'']"
  unfolding probes_defs
  by (rule observesI, intro wp_intros emits_intros impI; simp add: observed seen_defs)

lemma readiness_observes:
  "observes os (readiness_phase L)
     [exec_ok L [''touch'', ''/state/not-ready''], got L ''pod'' (Some ''app'') (field_is ''ready'' false_value),
      got L ''endpointslices'' None (any_item endpoints_not_ready),
      got L ''pod'' (Some ''app'') (field_is ''restartCount'' (\<lambda>n. Inr (py_eq n (JInt 0)))),
      exec_ok L [''rm'', ''/state/not-ready''], pod_ready L ''app'']"
  unfolding probes_defs
  by (rule observesI, intro wp_intros emits_intros impI; simp add: observed seen_defs)

lemma liveness_observes:
  "observes os (liveness_phase L)
     [exec_ok L [''touch'', ''/state/not-live''], got L ''pod'' (Some ''app'') (field_is ''restartCount'' (\<lambda>n. jcmp ''>='' (\<ge>) n 1)),
      got L ''pod'' (Some ''app'') (\<lambda>_. Inr True), got L ''pod'' (Some ''app'') (field_is ''state'' (jin (JStr ''running''))),
      exec_ok L [''rm'', ''/state/not-live''], pod_ready L ''app'']"
  unfolding probes_defs
  by (rule observesI, intro wp_intros emits_intros impI; simp add: observed seen_defs)

lemma probes_run_observes: "observes os probes_run (probes_seen (dd_of ''probes''))"
  unfolding probes_run_def probes_seen_def
  by (intro observes_init observes_thenM startup_observes readiness_observes liveness_observes)


section \<open>Stages of a pod\<close>

definition scheduled :: "json \<Rightarrow> exn + bool" where
  "scheduled p = bindE (jpath [Sub ''spec'', get0 ''nodeName''] p) (\<lambda>v. Inr (truth v))"

definition condition_unscheduled :: "json \<Rightarrow> exn + bool" where
  "condition_unscheduled p = bindE (bindE (jpath [Sub ''status'', Get ''conditions'' (JList [])] p) jiter) (anyE not_scheduled)"

definition pod_stages_seen :: "lab \<Rightarrow> (event \<Rightarrow> bool) list" where
  "pod_stages_seen L =
     [applied L unschedulable_pod, got L ''pod'' (Some ''unscheduled'') condition_unscheduled,
      got L ''pod'' (Some ''mount-blocked'') scheduled, got L ''events'' None (any_item failed_mount),
      applied L missing_config, pod_ready L ''mount-blocked'']"

lemma pod_stages_observes: "observes os (pod_stages L) (pod_stages_seen L)"
  unfolding stages_defs pod_stages_seen_def
  by (rule observesI, intro wp_intros emits_intros impI; simp add: observed seen_defs scheduled_def condition_unscheduled_def)

lemma pod_stages_run_observes: "observes os pod_stages_run (pod_stages_seen (dd_of ''pod-stages''))"
  unfolding pod_stages_run_def by (intro observes_init pod_stages_observes)

end
