(* ===== verification/DeepDiveSafety.thy ===== *)
theory DeepDiveSafety
  imports DeepDiveMore DeepDiveSeen
begin

text \<open>
  The experiments of \<open>DeepDiveMore\<close>: what they inject into a node (a cordon, a pause, a label, a stopped kubelet) is taken back
  however the run ends, and what they have seen when they return normally.
\<close>

section \<open>Events of the harness\<close>

text \<open>
  The operations of the harness never touch a node: a predicate that holds of every event except of such commands and of docker holds of
  everything they do.
\<close>

locale dd_events =
  fixes P :: "event \<Rightarrow> bool"
  assumes verbs: "v \<notin> {''cordon'', ''uncordon'', ''label''} \<Longrightarrow> P (Ran (''kubectl'' # ''--context'' # CTX # v # args) data r)"
    and others: "P (Wrote p x)" "P (Printed x)" "P (MadeDir p)" "P (Clock c)" "P (Slept d)"
begin

lemma k_emits: "v \<notin> {''cordon'', ''uncordon'', ''label''} \<Longrightarrow> emits os P (dd_k (v # args) data check)"
  by (rule deepdive_lab.k_emits) (rule verbs)

lemma get_emits: "emits os P (dd_get L kind name)"
  unfolding dd_get_def append_Cons by (intro emits_intros k_emits; simp add: verbs)

lemma save_emits: "emits os P (dd_save L name v)"
  unfolding dd_save_def by (intro emits_intros others)

lemma ops_emit:
  "emits os P (dd_apply L obj)" "emits os P (dd_patch L kind name v)" "emits os P (dd_ready L name)"
  "emits os P (dd_exec L name args check container)" "emits os P (dd_pods L app)" "emits os P (dd_rollout L name)"
  "emits os P (dd_snapshot L name)"
  unfolding dd_apply_def dd_patch_def dd_ready_def dd_exec_def dd_pods_def dd_rollout_def dd_snapshot_def append_Cons
  by (intro emits_bindM emits_thenM emits_ign emits_silent save_emits get_emits k_emits; simp)+

lemma init_emits: "emits os P (dd_init topic)"
  unfolding dd_init_def dd_setup_def dd_guard_def Let_def
  by (intro emits_bindM emits_thenM emits_silent emits_prims save_emits k_emits others; simp)

lemma wait_emits: "emits os P fn \<Longrightarrow> emits os P (dd_wait ok fn timeout)"
  by (intro deepdive.wait_emits others)

lemmas quiet = emits_bindM emits_thenM emits_ign emits_silent emits_if emits_let emits_finallyM save_emits get_emits ops_emit init_emits
  wait_emits k_emits

end


section \<open>What is injected is taken back\<close>

datatype injury = Cordon | Pause | Label | StopKubelet

fun hurt :: "injury \<Rightarrow> string list" where
  "hurt Cordon = [''kubectl'', ''--context'', CTX, ''cordon'', ''deep-dive-worker2'']"
| "hurt Pause = [''docker'', ''pause'', lost_node]"
| "hurt Label = [''kubectl'', ''--context'', CTX, ''label'', ''node'', ''deep-dive-worker2'', ''lab.example.com/zone=missing'', ''--overwrite'']"
| "hurt StopKubelet = [''docker'', ''exec'', ''deep-dive-worker2'', ''systemctl'', ''stop'', ''kubelet'']"

fun heal :: "injury \<Rightarrow> string list" where
  "heal Cordon = [''kubectl'', ''--context'', CTX, ''uncordon'', ''deep-dive-worker2'']"
| "heal Pause = [''docker'', ''unpause'', lost_node]"
| "heal Label = [''kubectl'', ''--context'', CTX, ''label'', ''node'', ''deep-dive-worker2'', ''lab.example.com/zone-'']"
| "heal StopKubelet = [''docker'', ''exec'', ''deep-dive-worker2'', ''systemctl'', ''start'', ''kubelet'']"

definition healed :: "injury \<Rightarrow> event list \<Rightarrow> bool" where
  "healed i = followed (carried_out (hurt i)) (attempted (heal i))"

interpretation unhurt: dd_events "\<lambda>e. \<not> carried_out (hurt i) e"
  for i
  by unfold_locales (cases i; auto)+

interpretation healed: trace_closed "healed i"
  for i
  unfolding healed_def by unfold_locales (auto intro: followed_append)

lemma healed_quiet: "emits os (\<lambda>e. \<not> carried_out (hurt i) e) m \<Longrightarrow> leaves os (healed i) m"
  unfolding healed_def by (rule leaves_quiet)

lemma dd_k_command: "dd_k args data check = dd_command (''kubectl'' # ''--context'' # CTX # args) data check"
  by (simp add: dd_k_def)

lemma dd_bracket:
  assumes "args = hurt i \<Longrightarrow> back = heal i" and "emits os (\<lambda>e. \<not> carried_out (hurt i) e) body" and "back \<noteq> hurt i"
  shows "leaves os (healed i) (thenM (dd_command args None True) (finallyM body (ign (dd_command back None True))))"
  unfolding dd_command_def healed_def
proof (rule command_bracket)
  show "leaves os (list_ex (attempted (heal i))) (ign (bindM (run_process back None (Some 180)) (checked True (command_failed back))))"
    if "args = hurt i"
    using assms(1) [OF that] unfolding ign_def by (auto intro!: leaves_first [OF command_leaves] emits_intros)
qed (use assms(2,3) in \<open>auto intro!: leaves_quiet emits_intros\<close>)

lemma place_app_healed: "leaves os (healed i) (place_app L)"
  unfolding place_app_def dd_k_command
  by (intro healed.leaves_rules dd_bracket unhurt.quiet; cases i; simp)

lemma while_paused_unhurt: "emits os (\<lambda>e. \<not> carried_out (hurt i) e) (while_paused seconds L old start)"
  unfolding while_paused_def lost_def replaced_def
  by (intro unhurt.quiet emits_prims; simp)

lemma lose_node_healed: "leaves os (healed i) (lose_node seconds L old)"
  unfolding lose_node_def
  by (intro healed.leaves_rules dd_bracket while_paused_unhurt healed_quiet [OF emits_prims(2)]; cases i; simp)

lemma label_node_healed: "leaves os (healed i) (label_node L)"
  unfolding label_node_def after_label_def pod_is_def dd_k_command
  by (intro dd_bracket unhurt.quiet; cases i; simp)

lemma stop_kubelet_healed: "leaves os (healed i) (stop_kubelet L cid)"
  unfolding stop_kubelet_def kubelet_stopped_def on_node_def
  by (intro dd_bracket unhurt.quiet emits_intros; cases i; simp)

lemmas unhurt_quiet = unhurt.quiet [THEN healed_quiet]

lemma node_failure_healed: "leaves os (healed i) (node_failure_run seconds)"
  unfolding node_failure_run_def chosen_pod_def fail_over_def
  by (intro healed.leaves_rules place_app_healed lose_node_healed unhurt_quiet(8-); simp)

lemma scheduling_healed: "leaves os (healed i) scheduling_run"
  unfolding scheduling_run_def
  by (intro healed.leaves_bindM healed.leaves_thenM label_node_healed healed_quiet unhurt.quiet;
      simp add: not_placed_def pod_is_def any_event_def unhurt.quiet)

lemma checks_unhurt:
  "emits os (\<lambda>e. \<not> carried_out (hurt i) e) (deletion_time L)" "emits os (\<lambda>e. \<not> carried_out (hurt i) e) (pod_is L name c)"
  "emits os (\<lambda>e. \<not> carried_out (hurt i) e) (stopped cid)"
  unfolding deletion_time_def pod_is_def stopped_def on_node_def
  by (intro unhurt.quiet emits_intros; cases i; simp)+

lemma terminating_healed: "leaves os (healed i) terminating_run"
  unfolding terminating_run_def orphan_container_def orphan_phase_def finalizer_phase_def
  by (intro healed.leaves_rules stop_kubelet_healed unhurt_quiet(8-) checks_unhurt checks_unhurt(2) [THEN healed_quiet]; simp)


section \<open>What they have seen\<close>

abbreviation ran_docker :: "string list \<Rightarrow> (proc \<Rightarrow> bool) \<Rightarrow> event \<Rightarrow> bool" where
  "ran_docker args \<equiv> replied (''docker'' # args)"

definition exec_seen :: "lab \<Rightarrow> string \<Rightarrow> string list \<Rightarrow> (proc \<Rightarrow> bool) \<Rightarrow> event \<Rightarrow> bool" where
  "exec_seen L name args = ran_like ([''exec'', ''-n'', ns L, name] @ args)"

lemmas more_seen_defs = seen_defs answered_json_def exec_seen_def

lemma dd_command_wp [wp_intros]:
  assumes "\<And>r. (check \<Longrightarrow> returncode r = 0) \<Longrightarrow> Q r (es @ [Ran args data (Inr r)])"
  shows "wp os (dd_command args data check) Q es"
  unfolding dd_command_def by (intro wp_intros) (use assms in auto)

lemma observes_any_init:
  assumes "observes_any os (f (dd_of topic)) F"
  shows "observes_any os (bindM (dd_init topic) f) F"
  unfolding observes_any_def
proof (intro allI impI)
  fix s v s'
  assume "bindM (dd_init topic) f os s = Some (Inr v, s')"
  then obtain L t where L: "dd_init topic os s = Some (Inr L, t)" and f: "f L os t = Some (Inr v, s')" by (rule bindM_InrE)
  have "wp os (dd_init topic) (\<lambda>v gs. v = dd_of topic \<and> (\<exists>fs. gs = trace s @ fs)) (trace s)" by (rule dd_init_wp) simp
  with L obtain es where "L = dd_of topic" "trace t = trace s @ es" by (blast dest: wpD)
  with assms f show "\<exists>fs x. trace s' = trace s @ fs \<and> in_order (F x) fs"
    unfolding observes_any_def by (metis append_assoc in_order_left)
qed

text \<open>A debug container sees the files of its target through \<^verbatim>\<open>/proc\<close> only, and ends.\<close>

definition ephemeral_seen :: "lab \<Rightarrow> (event \<Rightarrow> bool) list" where
  "ephemeral_seen L = [pod_ready L ''target'', succeeded [''debug'', ''-n'', ns L, ''pod/target''], got L ''pod'' (Some ''target'') debugger_up,
     exec_seen L ''target'' [''-c'', ''debugger'', ''--'', ''python'', ''-c'', debug_code] (answered_json only_through_proc),
     got L ''pod'' (Some ''target'') debugger_done]"

lemma ephemeral_observes: "observes os (ephemeral L) (ephemeral_seen L)"
  unfolding ephemeral_defs ephemeral_seen_def
  by (rule observesI, intro wp_intros emits_intros impI; simp add: observed more_seen_defs)

lemma ephemeral_run_observes: "observes os ephemeral_run (ephemeral_seen (dd_of ''ephemeral''))"
  unfolding ephemeral_run_def by (intro observes_init ephemeral_observes)

text \<open>
  The replica runs on the node that will be lost; after the pause the node is reported unknown, and a listing has another pod of the
  deployment that is ready; after the end of the pause the node is ready again and the old pod goes.
\<close>

definition app_pods :: "json \<Rightarrow> exn + json list" where
  "app_pods doc = bindE (bindE (jsub doc ''items'') jiter) (filterE (pod_labelled ''app''))"

definition first_app_pod :: "json \<Rightarrow> json \<Rightarrow> exn + bool" where
  "first_app_pod old doc = bindE (app_pods doc) (\<lambda>ps. bindE (jidx (JList ps) 0) (\<lambda>p.
     if p = old then eqE (jpath [Sub ''spec'', Sub ''nodeName''] p) (JStr lost_node) else Inr False))"

definition has_replacement :: "json \<Rightarrow> json \<Rightarrow> exn + bool" where
  "has_replacement old doc = bindE (app_pods doc) (\<lambda>ps. bindE (next_or JNull (replaces old) ps) (\<lambda>p. Inr (truth p)))"

definition placed_seen :: "lab \<Rightarrow> (event \<Rightarrow> bool) list" where
  "placed_seen L = [carried_out (hurt Cordon), succeeded [''rollout'', ''status'', ''-n'', ns L, ''deployment/app''], carried_out (heal Cordon)]"

definition fail_over_seen :: "lab \<Rightarrow> json \<Rightarrow> (event \<Rightarrow> bool) list" where
  "fail_over_seen L old =
     [carried_out (hurt Pause), ran_like [''get'', ''node'', lost_node] (answered_json node_unknown),
      got L ''pods'' None (has_replacement old), carried_out (heal Pause),
      succeeded [''wait'', ''--for=condition=Ready'', ''node/'' @ lost_node], succeeded [''wait'', ''-n'', ns L, ''--for=delete'']]"

definition node_failure_seen :: "lab \<Rightarrow> json \<Rightarrow> (event \<Rightarrow> bool) list" where
  "node_failure_seen L old = placed_seen L @ [got L ''pods'' None (first_app_pod old)] @ fail_over_seen L old"

lemma place_app_observes: "observes os (place_app L) (placed_seen L)"
  unfolding place_app_def placed_seen_def dd_rollout_def
  by (rule observesI, intro wp_intros emits_intros impI; simp add: observed more_seen_defs)

lemma chosen_pod_observes: "wp os (chosen_pod L) (\<lambda>old gs. \<exists>fs. gs = es @ fs \<and> in_order [got L ''pods'' None (first_app_pod old)] fs) es"
  unfolding chosen_pod_def dd_pods_def
  by (intro wp_intros impI; simp add: observed more_seen_defs first_app_pod_def app_pods_def)

lemma truth_if: "truth (if b then v else JNull) \<longleftrightarrow> b \<and> truth v"
  by simp

lemma fail_over_observes: "observes os (fail_over seconds L old) (fail_over_seen L old)"
  unfolding node_failure_defs dd_pods_def fail_over_seen_def
  by (rule observesI, intro wp_intros emits_intros impI; simp add: observed more_seen_defs has_replacement_def app_pods_def truth_if)

lemma node_failure_observes: "observes_any os (node_failure_run seconds) (node_failure_seen (dd_of ''node-failure''))"
  unfolding node_failure_run_def node_failure_seen_def
  by (intro observes_any_init observes_any_thenM observes_anyI place_app_observes chosen_pod_observes fail_over_observes)

text \<open>The too large pod was not scheduled for want of CPU, the other one only once the node had the label.\<close>

definition scheduling_seen :: "lab \<Rightarrow> (event \<Rightarrow> bool) list" where
  "scheduling_seen L = [got L ''events'' None (any_item insufficient_cpu), applied L affinity_pod,
     got L ''pod'' (Some ''affinity'') pod_unscheduled] @
     [carried_out (hurt Label), pod_ready L ''affinity'', got L ''pod'' (Some ''affinity'') on_worker2, carried_out (heal Label)]"

lemma scheduling_observes: "observes os scheduling_run (scheduling_seen (dd_of ''scheduling''))"
  unfolding scheduling_run_def scheduling_seen_def
proof (intro observes_init observes_thenM)
  show "observes os (not_placed L) [got L ''events'' None (any_item insufficient_cpu), applied L affinity_pod,
     got L ''pod'' (Some ''affinity'') pod_unscheduled]" for L
    unfolding scheduling_defs
    by (rule observesI, intro wp_intros emits_intros impI; simp add: observed more_seen_defs)
  show "observes os (label_node L) [carried_out (hurt Label), pod_ready L ''affinity'', got L ''pod'' (Some ''affinity'') on_worker2,
     carried_out (heal Label)]" for L
    unfolding scheduling_defs
    by (rule observesI, intro wp_intros emits_intros impI; simp add: observed more_seen_defs)
qed

text \<open>Only the mounted volume follows a change of the secret: the variable, the \<^verbatim>\<open>subPath\<close> and what the program has read stay.\<close>

definition all_refreshed :: "json \<Rightarrow> exn + bool" where
  "all_refreshed v = Inr (py_eq v refreshed)"

definition secret_seen :: "lab \<Rightarrow> (event \<Rightarrow> bool) list" where
  "secret_seen L = [applied L settings, pod_ready L ''reader'', succeeded [''patch'', ''secret'', ''settings'', ''-n'', ns L],
     exec_seen L ''reader'' [''--'', ''python'', ''-c'', read_code] (answered_json volume_new),
     exec_seen L ''reader'' [''--'', ''python'', ''-c'', read_code] (answered_json all_refreshed)]"

lemma secret_observes: "observes os (secret_refresh L) (secret_seen L)"
  unfolding secret_defs secret_seen_def
  by (rule observesI, intro wp_intros emits_intros impI; simp add: observed more_seen_defs all_refreshed_def)

lemma secret_run_observes: "observes os secret_refresh_run (secret_seen (dd_of ''secret-refresh''))"
  unfolding secret_refresh_run_def by (intro observes_init secret_observes)

text \<open>
  The claim is bound while its pod still waits for another volume; the second pod reads what the first has written, also after the first is
  gone; the delayed claim stays pending until it has a consumer; the second pod of an exclusive claim is not scheduled.
\<close>

definition proof_seen :: "lab \<Rightarrow> event \<Rightarrow> bool" where
  "proof_seen L = exec_seen L ''second'' [''--'', ''cat'', ''/data/proof''] (\<lambda>r. returncode r = 0 \<and> stdout r = ''persistent'')"

definition storage_seen :: "lab \<Rightarrow> (event \<Rightarrow> bool) list" where
  "storage_seen L =
     [got L ''pvc'' (Some ''disk'') claim_bound, got L ''events'' None (any_item failed_mount), applied L late_secret, pod_ready L ''first''] @
     [pod_ready L ''second'', proof_seen L, succeeded [''delete'', ''pod'', ''first''], proof_seen L] @
     [applied L (dd_pvc ''late'' ''dd-delayed'' ''ReadWriteOnce''), got L ''events'' None (any_item waits_for_consumer),
      got L ''pvc'' (Some ''late'') (\<lambda>_. Inr True), got L ''pvc'' (Some ''late'') claim_pending, pod_ready L ''late''] @
     [applied L (dd_pvc ''exclusive'' ''dd-immediate'' ''ReadWriteOncePod''), pod_ready L ''exclusive-one'',
      got L ''pod'' (Some ''exclusive-two'') pod_unscheduled]"

lemma storage_phases_observe:
  "observes os (bound_phase L node)
     [got L ''pvc'' (Some ''disk'') claim_bound, got L ''events'' None (any_item failed_mount), applied L late_secret, pod_ready L ''first'']"
  "observes os (shared_phase L node) [pod_ready L ''second'', proof_seen L, succeeded [''delete'', ''pod'', ''first''], proof_seen L]"
  "observes os (delayed_phase L node)
     [applied L (dd_pvc ''late'' ''dd-delayed'' ''ReadWriteOnce''), got L ''events'' None (any_item waits_for_consumer),
      got L ''pvc'' (Some ''late'') (\<lambda>_. Inr True), got L ''pvc'' (Some ''late'') claim_pending, pod_ready L ''late'']"
  "observes os (exclusive_phase L node)
     [applied L (dd_pvc ''exclusive'' ''dd-immediate'' ''ReadWriteOncePod''), pod_ready L ''exclusive-one'',
      got L ''pod'' (Some ''exclusive-two'') pod_unscheduled]"
  unfolding storage_defs
  by (rule observesI, intro wp_intros emits_intros impI; simp add: observed more_seen_defs proof_seen_def)+

lemma storage_observes: "observes os storage_run (storage_seen (dd_of ''storage''))"
proof -
  have driver: "emits os (\<lambda>_. True) (storage_driver L)" for L unfolding storage_driver_def by (intro emits_intros; simp)
  show ?thesis unfolding storage_run_def storage_seen_def
    by (intro observes_init observes_skip [OF driver] observes_thenM storage_phases_observe)
qed

text \<open>
  A forced deletion leaves the finalizer, and the pod goes once it is removed; with the kubelet stopped, the container of a pod that was
  deleted by force still runs, and after the kubelet is back it does not.
\<close>

definition container_runs :: "json \<Rightarrow> exn + bool" where
  "container_runs v = eqE (jpath [Sub ''status'', Sub ''state''] v) (JStr ''CONTAINER_RUNNING'')"

definition container_stopped :: "proc \<Rightarrow> bool" where
  "container_stopped r \<longleftrightarrow> returncode r \<noteq> 0 \<or>
     bindE (bindE (loads (stdout r)) (jpath [Sub ''status'', Sub ''state''])) (\<lambda>v. Inr (\<not> py_eq v (JStr ''CONTAINER_RUNNING''))) = Inr True"

definition finalizer_seen :: "lab \<Rightarrow> (event \<Rightarrow> bool) list" where
  "finalizer_seen L =
     [succeeded [''delete'', ''pod'', ''held'', ''-n'', ns L, ''--force''], got L ''pod'' (Some ''held'') (\<lambda>_. Inr True),
      got L ''pod'' (Some ''held'') still_held,
      succeeded [''patch'', ''pod'', ''held''], succeeded [''wait'', ''-n'', ns L, ''--for=delete'', ''pod/held'']]"

definition orphan_seen :: "lab \<Rightarrow> string \<Rightarrow> (event \<Rightarrow> bool) list" where
  "orphan_seen L cid =
     [carried_out (hurt StopKubelet), succeeded [''delete'', ''pod'', ''orphan-process'', ''-n'', ns L, ''--force''],
      ran_docker [''exec'', ''deep-dive-worker2'', ''crictl'', ''inspect'', cid] (answered_json container_runs),
      carried_out (heal StopKubelet), ran_docker [''exec'', ''deep-dive-worker2'', ''crictl'', ''inspect'', cid] container_stopped]"

definition has_container :: "string \<Rightarrow> json \<Rightarrow> exn + bool" where
  "has_container cid p = bindE (orphan_id p) (\<lambda>c. Inr (c = cid))"

definition terminating_seen :: "lab \<Rightarrow> string \<Rightarrow> (event \<Rightarrow> bool) list" where
  "terminating_seen L cid = finalizer_seen L @ [got L ''pod'' (Some ''orphan-process'') (has_container cid)] @ orphan_seen L cid"

lemma finalizer_observes: "observes os (finalizer_phase L) (finalizer_seen L)"
  unfolding terminating_defs finalizer_seen_def
  by (rule observesI, intro wp_intros emits_intros impI; simp add: observed more_seen_defs)

lemma orphan_container_observes:
  "wp os (orphan_container L) (\<lambda>cid gs. \<exists>fs. gs = es @ fs \<and> in_order [got L ''pod'' (Some ''orphan-process'') (has_container cid)] fs) es"
  unfolding orphan_container_def
  by (intro wp_intros impI; simp add: observed more_seen_defs has_container_def)

lemma orphan_observes: "observes os (orphan_phase L cid) (orphan_seen L cid)"
  unfolding terminating_defs orphan_seen_def
  by (rule observesI, intro wp_intros emits_intros impI;
      simp add: observed more_seen_defs container_runs_def container_stopped_def eqE_def)

lemma terminating_observes: "observes_any os terminating_run (terminating_seen (dd_of ''terminating''))"
  unfolding terminating_run_def terminating_seen_def
  by (intro observes_any_init observes_any_thenM observes_anyI finalizer_observes orphan_container_observes orphan_observes)

end
