(* ===== verification/ControlRun.thy ===== *)
theory ControlRun
  imports Cleanup Observe PyNum
begin

text \<open>
  The control-plane experiments: \<^verbatim>\<open>article-control-ha\<close> (\<^verbatim>\<open>components.py\<close>, \<^verbatim>\<open>api-outage.py\<close>, \<^verbatim>\<open>failover.py\<close>), \<^verbatim>\<open>article-control-gc/run.py\<close> and
  \<^verbatim>\<open>article-control-rollout\<close> (\<^verbatim>\<open>run.py\<close>, \<^verbatim>\<open>capacity.py\<close>). Each has its own small runner; the module variable that lists the nodes whose
  manifest was moved away (\<^verbatim>\<open>stopped\<close>, \<^verbatim>\<open>disabled\<close>) is the global state. \<^verbatim>\<open>KUBECONFIG\<close>, which the scripts set to a fixed path, is left out.
\<close>

record ctl =
  DISABLED :: "string list"

type_synonym ('w, 'a) cprog = "('w, ctl, 'a) prog"

definition CTL_K :: string where
  "CTL_K = ''tmp/article-tools/kubectl''"

definition HA_NODES :: "string list" where
  "HA_NODES = map (\<lambda>suffix. ''article-control-control-plane'' @ suffix) [[], ''2'', ''3'']"

text \<open>\<^verbatim>\<open>if check(): print(label)\<close>, the inside of the loops \<^verbatim>\<open>until\<close>.\<close>

definition said :: "string \<Rightarrow> ('w, 'a, bool) prog \<Rightarrow> ('w, 'a, bool) prog" where
  "said label check = bindM check (\<lambda>b. if b then thenM (py_print label) (returnM True) else returnM False)"


section \<open>components.py\<close>

definition ha_k :: "string list \<Rightarrow> ('w, string) cprog" where
  "ha_k args = check_output ([CTL_K, ''--request-timeout=8s'', ''-n'', ''control-ha''] @ args) None"

definition ha_json :: "string list \<Rightarrow> ('w, json) cprog" where
  "ha_json args = bindM (ha_k args) py_loads"

definition ha_until :: "('w, bool) cprog \<Rightarrow> string \<Rightarrow> ('w, unit) cprog" where
  "ha_until check label = ign (poll (\<lambda>b. b) (said label check) 150000 1000 (RuntimeError label))"

definition no_container :: "string \<Rightarrow> string \<Rightarrow> ('w, bool) cprog" where
  "no_container component node =
     bindM (check_output [''docker'', ''exec'', node, ''crictl'', ''ps'', ''--name'', component, ''-q''] None) (\<lambda>ot. returnM (strip ot = []))"

definition containers_empty :: "string \<Rightarrow> ('w, bool) cprog" where
  "containers_empty component = everyM (no_container component) HA_NODES"

text \<open>The commands that move a manifest away and back.\<close>

definition disable :: "string \<Rightarrow> string \<Rightarrow> string list" where
  "disable component node = [''docker'', ''exec'', node, ''mv'',
      ''/etc/kubernetes/manifests/'' @ component @ ''.yaml'', ''/etc/kubernetes/article-disabled/'']"

definition enable :: "string \<Rightarrow> string \<Rightarrow> string list" where
  "enable component node = [''docker'', ''exec'', node, ''mv'',
      ''/etc/kubernetes/article-disabled/'' @ component @ ''.yaml'', ''/etc/kubernetes/manifests/'']"

definition park :: "string \<Rightarrow> string \<Rightarrow> ('w, unit) cprog" where
  "park component node = thenM (check_run (disable component node) None) (modG (\<lambda>g. g\<lparr>DISABLED := DISABLED g @ [node]\<rparr>))"

definition restore_all :: "string \<Rightarrow> ('w, unit) cprog" where
  "restore_all component = bindM getG (\<lambda>g. forM (DISABLED g) (\<lambda>node. ign (check_run (enable component node) None)))"

definition without_scheduler :: "('w, unit) cprog" where
  "without_scheduler =
    (thenM (ha_k [''run'', ''needs-scheduler'', ''--image=registry.k8s.io/pause:3.10.1'']) (
     bindM (ha_json [''get'', ''pod'', ''needs-scheduler'', ''-o'', ''json'']) (\<lambda>p.
     bindM (liftE (jpath [Sub ''spec'', get0 ''nodeName''] p)) (\<lambda>v.
     thenM (assertM [] (\<not> truth v)) (
     py_print ''scheduler absent: API accepted Pod; nodeName empty'')))))"

definition baseline_pods :: "('w, int) cprog" where
  "baseline_pods = bindM (ha_json [''get'', ''pods'', ''-l'', ''app=baseline'', ''-o'', ''json'']) (\<lambda>doc. liftE (bindE (jsub doc ''items'') jlen))"

definition controller_scaled :: "int \<Rightarrow> ('w, unit) cprog" where
  "controller_scaled was =
    (thenM (ha_k [''scale'', ''deployment'', ''baseline'', ''--replicas=3'']) (
     bindM (ha_json [''get'', ''deployment'', ''baseline'', ''-o'', ''json'']) (\<lambda>d.
     bindM (liftE (jpath [Sub ''spec'', Sub ''replicas''] d)) (\<lambda>n.
     thenM (assertM [] (py_eq n (JInt 3))) (
     bindM baseline_pods (\<lambda>after.
     thenM (assertM [] (after = was)) (
     py_print (''controller absent: desired=3; actual='' @ int_str was))))))))"

definition without_controller :: "('w, unit) cprog" where
  "without_controller = bindM baseline_pods controller_scaled"

definition component_down :: "string \<Rightarrow> ('w, unit) cprog" where
  "component_down component =
    (thenM (forM HA_NODES (\<lambda>node. thenM (check_run [''docker'', ''exec'', node, ''mkdir'', ''-p'',
           ''/etc/kubernetes/article-disabled''] None) (park component node))) (
     thenM (ha_until (containers_empty component) (component @ '': all processes stopped'')) (
     (if component = ''kube-scheduler'' then without_scheduler else without_controller))))"

definition component_round :: "string \<Rightarrow> ('w, unit) cprog" where
  "component_round component =
    (thenM (modG (\<lambda>g. g\<lparr>DISABLED := []\<rparr>)) (
     thenM (finallyM (component_down component) (restore_all component)) (
     thenM (if component = ''kube-scheduler'' then ha_k [''wait'', ''pod/needs-scheduler'',
           ''--for=condition=Ready'', ''--timeout=150s'']
        else ha_k [''rollout'', ''status'', ''deployment/baseline'', ''--timeout=150s'']) (
     py_print (component @ '': restored and convergence confirmed'')))))"

definition components_run :: "('w, unit) cprog" where
  "components_run = forM [''kube-scheduler'', ''kube-controller-manager''] component_round"


section \<open>api-outage.py\<close>

definition outage_pod :: json where
  "outage_pod = (JDict
    [(''apiVersion'', JStr ''v1''), (''kind'', JStr ''Pod''),
     (''metadata'', JDict [(''name'', JStr ''existing-http''), (''namespace'', JStr ''control-ha'')]),
     (''spec'',
       JDict
         [(''containers'',
            JList
              [JDict
                 [(''name'', JStr ''http''),
                  (''image'', JStr ''registry.k8s.io/e2e-test-images/busybox:1.29-4''),
                  (''command'',
                    JList
                      [JStr ''sh'',
                       JStr ''-c'',
                       JStr ''mkdir -p /www; echo alive > /www/index.html; httpd -f -p 8080 -h /www''])]])])])"

definition api_running :: "string \<Rightarrow> ('w, bool) cprog" where
  "api_running node =
     bindM (check_output [''docker'', ''exec'', node, ''crictl'', ''ps'', ''--name'',
         ''kube-apiserver'', ''-q''] None) (\<lambda>ot. returnM (strip ot \<noteq> []))"

definition api_stopping :: "int \<Rightarrow> ('w, unit) cprog" where
  "api_stopping deadline = loopM (bindM (anyM api_running HA_NODES) (\<lambda>b.
     if b then bindM monotonic (\<lambda>t. if deadline \<le> t then raiseM (RuntimeError ''API process stop timed out'')
       else thenM (sleep 1000) (returnM None))
     else returnM (Some ())))"

definition start_http :: "('w, json) cprog" where
  "start_http =
    (thenM (check_run [CTL_K, ''create'', ''-f'', ''-''] (Some (dumps outage_pod))) (
     thenM (check_run [CTL_K, ''-n'', ''control-ha'', ''wait'', ''pod/existing-http'',
           ''--for=condition=Ready'', ''--timeout=120s''] None) (
     bindM (check_output [CTL_K, ''-n'', ''control-ha'', ''get'', ''pod'', ''existing-http'', ''-o'',
           ''json''] None) (\<lambda>ot.
     py_loads ot))))"

definition api_down :: "json \<Rightarrow> ('w, unit) cprog" where
  "api_down ip =
    (thenM (forM HA_NODES (park ''kube-apiserver'')) (
     bindM monotonic (\<lambda>t.
     thenM (api_stopping (t + 120000)) (
     bindM (run_process [CTL_K, ''--request-timeout=3s'', ''get'', ''pods'', ''-n'', ''control-ha''] None None) (\<lambda>r.
     thenM (assertM [] (returncode r \<noteq> 0)) (
     thenM (py_print ''all API Server processes stopped; API request failed'') (
     bindM (liftE (jstr ip)) (\<lambda>host.
     bindM (check_output [''docker'', ''exec'', ''article-control-worker'', ''curl'', ''--fail'', ''--max-time'', ''3'', ''-s'',
         ''http://'' @ host @ '':8080''] None) (\<lambda>ot.
     py_print ot)))))))))"

definition container_of :: "json \<Rightarrow> exn + json" where
  "container_of = jpath [Sub ''status'', Sub ''containerStatuses'', Idx 0, Sub ''containerID'']"

definition same_field :: "(json \<Rightarrow> exn + json) \<Rightarrow> json \<Rightarrow> json \<Rightarrow> exn + bool" where
  "same_field f a b = bindE (f a) (\<lambda>x. bindE (f b) (\<lambda>y. Inr (py_eq x y)))"

definition api_back :: "json \<Rightarrow> int \<Rightarrow> ('w, unit) cprog" where
  "api_back was deadline = loopM
    (bindM (run_process [CTL_K, ''--request-timeout=3s'', ''-n'', ''control-ha'', ''get'', ''pod'',
           ''existing-http'', ''-o'', ''json''] None None) (\<lambda>r.
     (if returncode r = 0 then
         (bindM (py_loads (stdout r)) (\<lambda>after.
          bindM (liftE (same_field (jpath [Sub ''metadata'', Sub ''uid'']) after was)) (\<lambda>b1.
          thenM (assertM [] b1) (
          bindM (liftE (same_field container_of after was)) (\<lambda>b2.
          thenM (assertM [] b2) (
          thenM (py_print ''API recovered; Pod UID and container ID unchanged'') (
          returnM (Some ()))))))))
        else bindM monotonic (\<lambda>t. if deadline \<le> t then raiseM (RuntimeError ''API recovery timed out'') else returnM None))))"

definition api_recovery :: "json \<Rightarrow> ('w, unit) cprog" where
  "api_recovery was = bindM monotonic (\<lambda>t. api_back was (t + 120000))"

definition api_stopped :: "json \<Rightarrow> ('w, unit) cprog" where
  "api_stopped was =
    (bindM (liftE (jpath [Sub ''status'', Sub ''podIP''] was)) (\<lambda>ip.
     thenM (modG (\<lambda>g. g\<lparr>DISABLED := []\<rparr>)) (
     finallyM (api_down ip) (restore_all ''kube-apiserver''))))"

definition api_outage :: "('w, unit) cprog" where
  "api_outage =
    (bindM start_http (\<lambda>was.
     thenM (api_stopped was) (
     api_recovery was)))"


section \<open>failover.py\<close>

definition fo_k :: "string list \<Rightarrow> ('w, string) cprog" where
  "fo_k args = check_output ([CTL_K, ''--request-timeout=8s''] @ args) None"

definition leader_node :: "('w, string) cprog" where
  "leader_node =
    (bindM (fo_k [''-n'', ''kube-system'', ''get'', ''lease'', ''kube-scheduler'', ''-o'', ''json'']) (\<lambda>ot.
     bindM (py_loads ot) (\<lambda>doc.
     bindM (liftE (bindE (jpath [Sub ''spec'', Sub ''holderIdentity''] doc) (str_method ''split''))) (\<lambda>was.
     returnM (hd (split_on (CHR ''_'') was))))))"

definition written :: "proc \<Rightarrow> bool" where
  "written r \<longleftrightarrow> returncode r = 0 \<or> contains (stderr r) ''AlreadyExists''"

definition write_again :: "int \<Rightarrow> ('w, unit) cprog" where
  "write_again deadline = loopM
    (bindM (run_process [CTL_K, ''--request-timeout=8s'', ''-n'', ''control-ha'', ''create'', ''cm'',
           ''failover-verified'', ''--from-literal=value=ok''] None None) (\<lambda>r.
     thenM (py_print (stdout r @ stderr r)) (
     (if written r then returnM (Some ())
        else bindM monotonic (\<lambda>t. if deadline \<le> t then raiseM (RuntimeError ''write recovery timeout'') else returnM None)))))"

definition leader_paused :: "('w, unit) cprog" where
  "leader_paused =
    (bindM monotonic (\<lambda>t.
     thenM (write_again (t + 150000)) (
     thenM (fo_k [''-n'', ''control-ha'', ''scale'', ''deployment/baseline'', ''--replicas=4'']) (
     bindM (fo_k [''-n'', ''control-ha'', ''rollout'', ''status'', ''deployment/baseline'',
           ''--timeout=150s'']) (\<lambda>o1.
     thenM (py_print o1) (
     bindM (fo_k [''-n'', ''kube-system'', ''get'', ''lease'', ''kube-scheduler'',
           ''kube-controller-manager'', ''-o'',
           ''custom-columns=NAME:.metadata.name,HOLDER:.spec.holderIdentity'']) (\<lambda>o2.
     thenM (py_print o2) (
     bindM (fo_k [''-n'', ''control-ha'', ''get'', ''pods'', ''-o'', ''wide'']) (\<lambda>o3.
     py_print o3)))))))))"

definition pause_leader :: "string \<Rightarrow> ('w, unit) cprog" where
  "pause_leader node =
    (thenM (check_run [''docker'', ''pause'', node] None) (
     finallyM leader_paused (ign (check_run [''docker'', ''unpause'', node] None))))"

definition failover_run :: "('w, unit) cprog" where
  "failover_run =
    (bindM leader_node (\<lambda>node.
     thenM (py_print (''pause scheduler leader node: '' @ node)) (
     pause_leader node)))"


section \<open>Garbage collection\<close>

definition GC_NS :: string where
  "GC_NS = ''control-gc''"

definition gc_k :: "string list \<Rightarrow> string option \<Rightarrow> ('w, 'g, string) prog" where
  "gc_k args data = check_output ([CTL_K, ''-n'', GC_NS] @ args) data"

definition gc_get :: "string \<Rightarrow> ('w, 'g, json) prog" where
  "gc_get name = bindM (gc_k [''get'', ''cm'', name, ''--ignore-not-found'', ''-o'', ''json''] None)
     (\<lambda>out. if strip out \<noteq> [] then py_loads out else returnM JNull)"

definition gc_until :: "('w, 'g, bool) prog \<Rightarrow> string \<Rightarrow> ('w, 'g, unit) prog" where
  "gc_until check description = ign (poll (\<lambda>b. b) (said description check) 90000 500 (RuntimeError description))"

definition gc_field :: "string \<Rightarrow> string \<Rightarrow> ('w, 'g, bool) prog" where       \<comment> \<open>\<^verbatim>\<open>get(name)['metadata'].get(field)\<close>, as a condition\<close>
  "gc_field name field = bindM (gc_get name) (\<lambda>obj. liftE (bindE (jpath [Sub ''metadata'', get0 field] obj) (\<lambda>v. Inr (truth v))))"

definition gc_no_field :: "string \<Rightarrow> string \<Rightarrow> ('w, 'g, bool) prog" where
  "gc_no_field name field = bindM (gc_field name field) (\<lambda>b. returnM (\<not> b))"

definition gc_absent :: "string \<Rightarrow> ('w, 'g, bool) prog" where
  "gc_absent name = bindM (gc_get name) (\<lambda>obj. returnM (obj = JNull))"

definition gc_child :: "string \<Rightarrow> string \<Rightarrow> json \<Rightarrow> json" where
  "gc_child child owner uid = (JDict
    [(''apiVersion'', JStr ''v1''), (''kind'', JStr ''ConfigMap''),
     (''metadata'',
       JDict
         [(''name'', JStr child), (''namespace'', JStr GC_NS),
          (''finalizers'', JList [JStr ''article.example/hold'']),
          (''ownerReferences'',
            JList
              [JDict
                 [(''apiVersion'', JStr ''v1''), (''kind'', JStr ''ConfigMap''), (''name'', JStr owner),
                  (''uid'', uid), (''blockOwnerDeletion'', JBool True)]])])])"

definition gc_create :: "string \<Rightarrow> string \<Rightarrow> string \<Rightarrow> ('w, 'g, unit) prog" where
  "gc_create policy owner child =
    (thenM (gc_k [''create'', ''cm'', owner] None) (
     bindM (gc_get owner) (\<lambda>ot.
     bindM (liftE (jpath [Sub ''metadata'', Sub ''uid''] ot)) (\<lambda>uid.
     thenM (gc_k [''create'', ''-f'', ''-''] (Some (dumps (gc_child child owner uid)))) (
     ign (gc_k [''delete'', ''cm'', owner, ''--cascade='' @ policy, ''--wait=false''] None))))))"

definition gc_foreground :: "string \<Rightarrow> string \<Rightarrow> ('w, 'g, unit) prog" where
  "gc_foreground owner child =
    (thenM (gc_until (gc_field child ''deletionTimestamp'') ''foreground: child terminating'') (
     bindM (gc_field owner ''deletionTimestamp'') (\<lambda>b1.
     thenM (assertM [] b1) (
     bindM (gc_get owner) (\<lambda>ot.
     bindM (liftE (bindE (jpath [Sub ''metadata'', Sub ''finalizers''] ot) (jin (JStr ''foregroundDeletion'')))) (\<lambda>b2.
     thenM (assertM [] b2) (
     py_print ''foreground: owner retained by blocking child'')))))))"

definition gc_background :: "string \<Rightarrow> string \<Rightarrow> ('w, 'g, unit) prog" where
  "gc_background owner child =
    (thenM (gc_until (gc_absent owner) ''background: owner absent'') (
     gc_until (gc_field child ''deletionTimestamp'') ''background: child terminating with finalizer''))"

definition gc_orphan :: "string \<Rightarrow> string \<Rightarrow> ('w, 'g, unit) prog" where
  "gc_orphan owner child =
    (thenM (gc_until (gc_absent owner) ''orphan: owner absent'') (
     thenM (gc_until (gc_no_field child ''ownerReferences'') ''orphan: child ownerReferences removed'') (
     bindM (gc_no_field child ''deletionTimestamp'') (\<lambda>b.
     assertM [] b))))"

definition gc_policy :: "string \<Rightarrow> ('w, 'g, unit) prog" where
  "gc_policy policy =
    (let owner = policy @ ''-owner'' in
     let child = policy @ ''-child'' in
     thenM (gc_create policy owner child) (
     thenM (if policy = ''foreground'' then gc_foreground owner child
        else if policy = ''background'' then gc_background owner child
        else gc_orphan owner child) (
     thenM (gc_k [''patch'', ''cm'', child, ''--type=merge'', ''-p'', (''{\"metadata\":{\"finalizers\":[]}}'')] None) (
     thenM (if policy = ''orphan'' then ign (gc_k [''delete'', ''cm'', child] None) else returnM ()) (
     gc_until (bindM (gc_absent owner) (\<lambda>b. if b then gc_absent child else returnM False)) (policy @ '': cleanup complete''))))))"

definition gc_run :: "('w, 'g, unit) prog" where
  "gc_run = thenM (check_run [CTL_K, ''create'', ''namespace'', GC_NS] None)
     (forM [''foreground'', ''background'', ''orphan''] gc_policy)"


section \<open>Rollout\<close>

definition ro_k :: "string list \<Rightarrow> ('w, 'g, string) prog" where
  "ro_k args = check_output ([CTL_K, ''-n'', ''control-rollout''] @ args) None"

definition ro_json :: "string list \<Rightarrow> ('w, 'g, json) prog" where
  "ro_json args = bindM (ro_k args) py_loads"

definition ro_pods :: "('w, 'g, json) prog" where
  "ro_pods = bindM (ro_json [''get'', ''pods'', ''-l'', ''app=slow'', ''-o'', ''json'']) (\<lambda>doc. liftE (jsub doc ''items''))"

definition ro_until :: "('w, 'g, bool) prog \<Rightarrow> ('w, 'g, unit) prog" where
  "ro_until check = ign (poll (\<lambda>b. b) check 120000 500 (RuntimeError ''condition timed out''))"

text \<open>\<^verbatim>\<open>p['metadata']['uid'] in old\<close> and \<^verbatim>\<open>p['metadata'].get('deletionTimestamp')\<close>.\<close>

definition is_old :: "json list \<Rightarrow> json \<Rightarrow> exn + bool" where
  "is_old old p = bindE (jpath [Sub ''metadata'', Sub ''uid''] p) (\<lambda>u. in_setE u old)"

definition is_terminating :: "json \<Rightarrow> exn + bool" where
  "is_terminating p = bindE (jpath [Sub ''metadata'', get0 ''deletionTimestamp''] p) (\<lambda>v. Inr (truth v))"

definition has_statuses :: "json \<Rightarrow> exn + bool" where
  "has_statuses p = bindE (jpath [Sub ''status'', get0 ''containerStatuses''] p) (\<lambda>v. Inr (truth v))"

definition three_started :: "('w, 'g, bool) prog" where
  "three_started =
    (bindM ro_pods (\<lambda>ps.
     bindM (liftE (jlen ps)) (\<lambda>n.
     (if n = 3 then bindM ro_pods (\<lambda>qs. liftE (bindE (jiter qs) (everyE has_statuses))) else returnM False))))"

definition slow_patch :: json where
  "slow_patch = (JDict
    [(''spec'',
       JDict
         [(''template'',
            JDict
              [(''spec'',
                 JDict
                   [(''containers'',
                      JList
                        [JDict
                           [(''name'', JStr ''app''),
                            (''command'',
                              JList [JStr ''sh'', JStr ''-c'', JStr ''while true; do sleep 1; done''])]])])])])])"

definition slow_deployment :: "('w, 'g, json) prog" where             \<comment> \<open>the \<^verbatim>\<open>status\<close> of the Deployment\<close>
  "slow_deployment = bindM (ro_json [''get'', ''deployment'', ''slow'', ''-o'', ''json'']) (\<lambda>d. liftE (jsub d ''status''))"

definition make_ready :: "json list \<Rightarrow> json \<Rightarrow> ('w, 'g, unit) prog" where
  "make_ready old p =
    (bindM (liftE (andE (notE (is_old old p)) (notE (is_terminating p)))) (\<lambda>b.
     (if b then
         (bindM (liftE (bindE (jpath [Sub ''metadata'', Sub ''name''] p) jstr)) (\<lambda>name.
          ign (run_process [CTL_K, ''-n'', ''control-rollout'', ''exec'', name, ''--'', ''touch'',
                ''/ready''] None None)))
        else returnM ())))"

definition rolled_out :: "bool \<Rightarrow> json \<Rightarrow> json list \<Rightarrow> json list \<Rightarrow> exn + bool" where
  "rolled_out seen status old current = (if seen then
       andE (eqE (jget status ''updatedReplicas'' JNull) (JInt 2))
         (andE (eqE (jget status ''availableReplicas'' JNull) (JInt 2))
            (notE (anyE (\<lambda>p. andE (is_old old p) (notE (is_terminating p))) current)))
     else Inr False)"

text \<open>A round of the loop; its variable is \<^verbatim>\<open>seen_overlap\<close>, which is also its result.\<close>

definition watch_rollout :: "json list \<Rightarrow> int \<Rightarrow> bool \<Rightarrow> ('w, 'g, bool + bool) prog" where
  "watch_rollout old deadline seen = bindM monotonic (\<lambda>t. if t < deadline then
    (bindM ro_pods (\<lambda>doc.
     bindM (liftE (jiter doc)) (\<lambda>current.
     bindM (liftE (filterE is_terminating current)) (\<lambda>terminating.
     bindM (liftE (jlen doc)) (\<lambda>n.
     bindM slow_deployment (\<lambda>st.
     bindM (liftE (jget st ''availableReplicas'' (JInt 0))) (\<lambda>available.
     thenM (py_print (dumps (JDict [(''pods'', JInt n), (''terminating'', JInt (int (length terminating))), (''available'', available)]))) (
     let seen' = (seen \<or> n > 3 \<and> terminating \<noteq> []) in
     thenM (forM current (make_ready old)) (
     bindM slow_deployment (\<lambda>status.
     bindM (liftE (rolled_out seen' status old current)) (\<lambda>b.
     (if b then returnM (Inr seen') else thenM (sleep 1000) (returnM (Inl seen'))))))))))))))
     else returnM (Inr seen))"

fun countE :: "('a \<Rightarrow> exn + bool) \<Rightarrow> 'a list \<Rightarrow> exn + nat" where          \<comment> \<open>\<^verbatim>\<open>sum(p(x) for x in xs)\<close>\<close>
  "countE p [] = Inr 0"
| "countE p (x # xs) = bindE (p x) (\<lambda>b. bindE (countE p xs) (\<lambda>n. Inr (if b then Suc n else n)))"

definition slow_start :: "('w, 'g, json list) prog" where
  "slow_start =
    (thenM (check_run [CTL_K, ''create'', ''namespace'', ''control-rollout''] None) (
     thenM (ro_k [''apply'', ''-f'', ''deployment.yaml'']) (
     thenM (ro_k [''rollout'', ''status'', ''deployment/slow'', ''--timeout=180s'']) (
     bindM ro_pods (\<lambda>ps.
     bindM (liftE (bindE (jiter ps) (set_of (jpath [Sub ''metadata'', Sub ''uid'']) []))) (\<lambda>old.
     thenM (ro_k [''patch'', ''deployment'', ''slow'', ''--type=strategic'', ''-p'', dumps slow_patch]) (
     thenM (ro_until three_started) (
     returnM old))))))))"

definition slow_unready :: "json list \<Rightarrow> ('w, 'g, unit) prog" where
  "slow_unready old =
    (bindM ro_pods (\<lambda>ps.
     bindM (liftE (bindE (jiter ps) (countE (is_old old)))) (\<lambda>n.
     thenM (assertM [] (n = 2)) (
     py_print ''new Pod unready: 2 old + 1 new, no old deletion''))))"

definition slow_overlap :: "json list \<Rightarrow> ('w, 'g, unit) prog" where
  "slow_overlap old =
    (bindM monotonic (\<lambda>t.
     bindM (loopS (watch_rollout old (t + 120000)) False) (\<lambda>seen.
     thenM (assertM ''did not observe terminating Pod overlap'' seen) (
     thenM (ro_k [''rollout'', ''status'', ''deployment/slow'', ''--timeout=180s'']) (
     thenM (py_print ''rollout complete; terminating Pods are checked separately'') (
     ign (check_run [''python3'', ''capacity.py''] None)))))))"

definition rollout_run :: "('w, 'g, unit) prog" where
  "rollout_run =
    (bindM slow_start (\<lambda>old.
     thenM (slow_unready old) (
     slow_overlap old)))"

definition capacity_patch :: json where
  "capacity_patch = (JDict
    [(''spec'',
       JDict
         [(''template'',
            JDict
              [(''spec'',
                 JDict
                   [(''containers'',
                      JList
                        [JDict
                           [(''name'', JStr ''app''),
                            (''resources'', JDict [(''requests'', JDict [(''cpu'', JStr ''100000'')])])]])])])])])"

definition unschedulable_condition :: "json \<Rightarrow> exn + bool" where
  "unschedulable_condition c = eqE (jget c ''reason'' JNull) (JStr ''Unschedulable'')"

definition pod_blocked :: "json \<Rightarrow> exn + bool" where
  "pod_blocked p = bindE (bindE (jpath [Get ''status'' emptyD, Get ''conditions'' (JList [])] p) jiter) (anyE unschedulable_condition)"

definition any_blocked :: "('w, 'g, bool) prog" where
  "any_blocked = bindM ro_pods (\<lambda>ps. liftE (bindE (jiter ps) (anyE pod_blocked)))"

definition capacity_run :: "('w, 'g, unit) prog" where
  "capacity_run =
    (thenM (ro_k [''patch'', ''deployment'', ''slow'', ''--type=strategic'', ''-p'', dumps capacity_patch]) (
     thenM (poll (\<lambda>b. b) any_blocked 90000 500 (RuntimeError ''did not observe Unschedulable'')) (
     bindM slow_deployment (\<lambda>st.
     bindM (liftE (eqE (jget st ''availableReplicas'' JNull) (JInt 2))) (\<lambda>b.
     thenM (assertM [] b) (
     thenM (py_print ''capacity blocked: new Pod Unschedulable, old available=2'') (
     bindM (ro_k [''get'', ''events'', ''--field-selector=reason=FailedScheduling'']) (\<lambda>ot.
     thenM (py_print ot) (
     thenM (ro_k [''rollout'', ''undo'', ''deployment/slow'']) (
     bindM (ro_k [''rollout'', ''status'', ''deployment/slow'', ''--timeout=120s'']) (\<lambda>o2.
     py_print (rstrip o2))))))))))))"

end
