(* ===== verification/Invariant.thy ===== *)
theory Invariant
  imports PyProg
begin

text \<open>
  Invariants of the whole state: \<open>keeps os J m\<close> says that every run of \<open>m\<close> that starts in a state with \<open>J\<close>
  ends, normally or with an exception, in a state with \<open>J\<close>. Unlike \<open>emits\<close> it can relate the events
  to the program's global variables. A program that reads them with \<open>getG\<close> may use \<open>J\<close> of what it read.
\<close>

definition keeps :: "'w os \<Rightarrow> (('w, 'g) st \<Rightarrow> bool) \<Rightarrow> ('w, 'g, 'a) prog \<Rightarrow> bool" where
  "keeps os J m \<longleftrightarrow> (\<forall>s r s'. J s \<longrightarrow> m os s = Some (r, s') \<longrightarrow> J s')"

lemma keepsI: "(\<And>s r s'. J s \<Longrightarrow> m os s = Some (r, s') \<Longrightarrow> J s') \<Longrightarrow> keeps os J m"
  by (auto simp: keeps_def)

lemma keepsD: "keeps os J m \<Longrightarrow> J s \<Longrightarrow> m os s = Some (r, s') \<Longrightarrow> J s'"
  unfolding keeps_def by blast

lemma keeps_silent [keeps_intros]:
  "keeps os J (returnM a)" "keeps os J (raiseM e)" "keeps os J (liftE r)" "keeps os J (getenv k)"
  "keeps os J (assertM msg b)" "keeps os J (py_loads t)" "keeps os J getG"
  by (auto simp: keeps_def run_simps assertM_def py_loads_def)

lemma keeps_getG:
  assumes "\<And>s. J s \<Longrightarrow> keeps os J (f (globals s))"
  shows "keeps os J (bindM getG f)"
proof (rule keepsI)
  fix s r s'
  assume "J s" and "bindM getG f os s = Some (r, s')"
  then have "f (globals s) os s = Some (r, s')" by (simp add: run_simps)
  with assms [OF \<open>J s\<close>] \<open>J s\<close> show "J s'" by (rule keepsD)
qed

lemma keeps_bindM [keeps_intros]:
  assumes "keeps os J m" and "\<And>a. keeps os J (f a)"
  shows "keeps os J (bindM m f)"
proof (rule keepsI)
  fix s r s'
  assume "J s" and "bindM m f os s = Some (r, s')"
  from this(2) show "J s'" by (rule bindM_SomeE) (use assms \<open>J s\<close> in \<open>auto dest: keepsD\<close>)
qed

lemma keeps_thenM [keeps_intros]: "keeps os J m \<Longrightarrow> keeps os J n \<Longrightarrow> keeps os J (thenM m n)"
  by (simp add: thenM_def keeps_bindM)

lemma keeps_ign [keeps_intros]: "keeps os J m \<Longrightarrow> keeps os J (ign m)"
  by (simp add: ign_def keeps_bindM keeps_silent)

lemma keeps_branch [keeps_intros]:
  "(b \<Longrightarrow> keeps os J m) \<Longrightarrow> (\<not> b \<Longrightarrow> keeps os J n) \<Longrightarrow> keeps os J (if b then m else n)"
  "(\<And>a c. keeps os J (f a c)) \<Longrightarrow> keeps os J (case p of (a, c) \<Rightarrow> f a c)"
  "keeps os J (g t) \<Longrightarrow> keeps os J (let x = t in g x)"
  "(b \<Longrightarrow> keeps os J u) \<Longrightarrow> keeps os J (whenM b u)"
  by (auto simp: whenM_def keeps_silent split: prod.splits)

lemma keeps_catchM:
  assumes "keeps os J m" and "\<And>e p. h e = Some p \<Longrightarrow> keeps os J p"
  shows "keeps os J (catchM m h)"
proof (rule keepsI)
  fix s r s'
  assume "J s" and "catchM m h os s = Some (r, s')"
  from this(2) show "J s'" by (rule catchM_SomeE) (use assms \<open>J s\<close> in \<open>auto dest: keepsD\<close>)
qed

lemma keeps_handlers [keeps_intros]:
  "keeps os J m \<Longrightarrow> (\<And>e. keeps os J (f e)) \<Longrightarrow> keeps os J (catchM m (on_any f))"
  "keeps os J m \<Longrightarrow> keeps os J q \<Longrightarrow> keeps os J (catchM m (on_TimeoutExpired q))"
  "keeps os J m \<Longrightarrow> (\<And>x. keeps os J (h x)) \<Longrightarrow> keeps os J (catchM m (on_RuntimeError h))"
  "keeps os J m \<Longrightarrow> keeps os J q \<Longrightarrow> keeps os J (catchM m (on_OSError q))"
  by (rule keeps_catchM; auto simp: on_simps dest!: on_simps(3) [rule_format])+

lemma keeps_finallyM [keeps_intros]: "keeps os J m \<Longrightarrow> keeps os J c \<Longrightarrow> keeps os J (finallyM m c)"
  by (rule keepsI) (auto elim!: finallyM_SomeE dest: keepsD)

lemma keeps_forM [keeps_intros]: "(\<And>x. x \<in> set xs \<Longrightarrow> keeps os J (f x)) \<Longrightarrow> keeps os J (forM xs f)"
  by (induction xs) (auto intro: keeps_intros)

lemma keeps_mapM [keeps_intros]: "(\<And>x. x \<in> set xs \<Longrightarrow> keeps os J (f x)) \<Longrightarrow> keeps os J (mapM xs f)"
  by (induction xs) (auto intro!: keeps_intros)

lemma keeps_anyM [keeps_intros]:
  "(\<And>x. x \<in> set xs \<Longrightarrow> keeps os J (f x)) \<Longrightarrow> keeps os J (anyM f xs)"
  "(\<And>x. x \<in> set xs \<Longrightarrow> keeps os J (f x)) \<Longrightarrow> keeps os J (everyM f xs)"
  by (induction xs) (auto intro!: keeps_intros)

lemma keeps_case_option [keeps_intros]:
  "(x = None \<Longrightarrow> keeps os J m) \<Longrightarrow> (\<And>y. x = Some y \<Longrightarrow> keeps os J (f y)) \<Longrightarrow> keeps os J (case x of None \<Rightarrow> m | Some y \<Rightarrow> f y)"
  by (cases x) auto

lemma keeps_repeatM [keeps_intros]:
  "keeps os J body \<Longrightarrow> keeps os J els \<Longrightarrow> keeps os J (repeatM n body els)"
  by (induction n) (auto intro!: keeps_bindM keeps_silent split: option.splits)

lemma keeps_loopM [keeps_intros]:
  assumes "keeps os J body"
  shows "keeps os J (loopM body)"
proof (rule keepsI)
  fix s r s'
  assume "J s" and "loopM body os s = Some (r, s')"
  from this(2) show "J s'" by (rule loopM_SomeE [where I = J]) (use assms \<open>J s\<close> in \<open>auto dest: keepsD\<close>)
qed

lemma keeps_loopS [keeps_intros]:
  assumes "\<And>x. keeps os J (body x)"
  shows "keeps os J (loopS body x)"
proof (rule keepsI)
  fix s r s'
  assume "J s" and "loopS body x os s = Some (r, s')"
  from this(2) obtain y t where "J t" and "body y os t = Some (map_sum id Inr r, s')"
    by (rule loopS_SomeE [where I = "\<lambda>_. J"]) (use assms \<open>J s\<close> in \<open>auto dest: keepsD\<close>)
  with assms show "J s'" by (auto dest: keepsD)
qed

text \<open>
  The invariants of interest restrict the global variables (\<open>I\<close>) and the events (\<open>P\<close>).
\<close>

definition confined :: "('g \<Rightarrow> bool) \<Rightarrow> (event \<Rightarrow> bool) \<Rightarrow> ('w, 'g) st \<Rightarrow> bool" where
  "confined I P s \<longleftrightarrow> I (globals s) \<and> list_all P (trace s)"

lemma keeps_emits: "emits os P m \<Longrightarrow> (\<And>s r s'. m os s = Some (r, s') \<Longrightarrow> globals s' = globals s) \<Longrightarrow>
    keeps os (confined I P) m"
  by (rule keepsI) (auto simp: confined_def elim!: emitsD)

lemma keeps_prim: "(\<And>r. P (ev r)) \<Longrightarrow> keeps os (confined I P) (prim ev f)"
  by (rule keepsI) (auto simp: confined_def elim!: prim_SomeE)

lemma keeps_prims [keeps_intros]:
  "(\<And>r. P (Ran args input r)) \<Longrightarrow> keeps os (confined I P) (run_process args input tmo)"
  "(\<And>r. P (Clock r)) \<Longrightarrow> keeps os (confined I P) monotonic"
  "P (Slept ms) \<Longrightarrow> keeps os (confined I P) (sleep ms)"
  "P (Wrote path t) \<Longrightarrow> keeps os (confined I P) (write_text path t)"
  "(\<And>r. P (ReadFile path r)) \<Longrightarrow> keeps os (confined I P) (read_text path)"
  "P (Appended path t) \<Longrightarrow> keeps os (confined I P) (append_text path t)"
  "P (MadeDir path) \<Longrightarrow> keeps os (confined I P) (mkdir path)"
  "P (Printed t) \<Longrightarrow> keeps os (confined I P) (py_print t)"
  "P (Unlinked path) \<Longrightarrow> keeps os (confined I P) (unlink path)"
  "(\<And>r. P (Spawned args r)) \<Longrightarrow> keeps os (confined I P) (popen args)"
  "P (Terminated p) \<Longrightarrow> keeps os (confined I P) (terminate p)"
  "(\<And>r. P (Waited p r)) \<Longrightarrow> keeps os (confined I P) (wait_process p tmo)"
  "P (Killed p) \<Longrightarrow> keeps os (confined I P) (kill_process p)"
  "(\<And>r. P (Opened md url r)) \<Longrightarrow> keeps os (confined I P) (urlopen md url n)"
  "(\<And>r. P (ReadAll h r)) \<Longrightarrow> keeps os (confined I P) (read_all h)"
  "(\<And>r. P (WallClock fmt r)) \<Longrightarrow> keeps os (confined I P) (wallclock fmt)"
  "(\<And>r. P (Polled p r)) \<Longrightarrow> keeps os (confined I P) (poll_process p)"
  "(\<And>r. P (Connected port r)) \<Longrightarrow> keeps os (confined I P) (connect port)"
  "(\<And>r. P (Chmod path perm r)) \<Longrightarrow> keeps os (confined I P) (chmod path perm)"
  by (auto simp: prim_defs intro!: keeps_prim)

lemma keeps_modG [keeps_intros]: "(\<And>g. I g \<Longrightarrow> I (h g)) \<Longrightarrow> keeps os (confined I P) (modG h)"
  by (rule keepsI) (auto simp: confined_def run_simps)


section \<open>The module variables after a normal return\<close>

text \<open>
  \<open>gwp os m Q g\<close>: when \<open>m\<close>, started with the global variables \<open>g\<close>, returns a value normally, then \<open>Q\<close> holds of the value and of
  the global variables at the end.
\<close>

definition gwp :: "'w os \<Rightarrow> ('w, 'g, 'a) prog \<Rightarrow> ('a \<Rightarrow> 'g \<Rightarrow> bool) \<Rightarrow> 'g \<Rightarrow> bool" where
  "gwp os m Q g \<longleftrightarrow> (\<forall>s v s'. globals s = g \<longrightarrow> m os s = Some (Inr v, s') \<longrightarrow> Q v (globals s'))"

lemma gwpI: "(\<And>s v s'. globals s = g \<Longrightarrow> m os s = Some (Inr v, s') \<Longrightarrow> Q v (globals s')) \<Longrightarrow> gwp os m Q g"
  by (auto simp: gwp_def)

lemma gwpD: "gwp os m Q (globals s) \<Longrightarrow> m os s = Some (Inr v, s') \<Longrightarrow> Q v (globals s')"
  by (auto simp: gwp_def)

lemma gwp_conseq: "gwp os m Q g \<Longrightarrow> (\<And>v h. Q v h \<Longrightarrow> R v h) \<Longrightarrow> gwp os m R g"
  unfolding gwp_def by blast

text \<open>A program that leaves the variables alone.\<close>

lemma gwp_frame:
  assumes "\<And>I. keeps os (confined I (\<lambda>_. True)) m" and "\<And>v. Q v g"
  shows "gwp os m Q g"
proof (rule gwpI)
  fix s v s'
  assume s: "globals s = g" and run: "m os s = Some (Inr v, s')"
  have "confined (\<lambda>h. h = g) (\<lambda>_. True) s'"
    by (rule keepsD [OF assms(1) _ run]) (simp add: confined_def list_all_iff s)
  then have "globals s' = g" by (simp add: confined_def)
  with assms(2) show "Q v (globals s')" by simp
qed

lemma gwp_bindM [gwp_intros]: "gwp os m (\<lambda>a h. gwp os (f a) Q h) g \<Longrightarrow> gwp os (bindM m f) Q g"
proof (rule gwpI)
  fix s v s'
  assume m: "gwp os m (\<lambda>a h. gwp os (f a) Q h) g" and "globals s = g" and "bindM m f os s = Some (Inr v, s')"
  from this(3) obtain a s1 where "m os s = Some (Inr a, s1)" and f: "f a os s1 = Some (Inr v, s')" by (rule bindM_InrE)
  with m \<open>globals s = g\<close> have "gwp os (f a) Q (globals s1)" by (auto simp: gwp_def [of os m])
  then show "Q v (globals s')" using f by (rule gwpD)
qed

lemma gwp_thenM [gwp_intros]: "gwp os m (\<lambda>_ h. gwp os n Q h) g \<Longrightarrow> gwp os (thenM m n) Q g"
  unfolding thenM_def by (rule gwp_bindM)

lemma gwp_ign [gwp_intros]: "gwp os m (\<lambda>_ h. Q () h) g \<Longrightarrow> gwp os (ign m) Q g"
  unfolding ign_def by (rule gwp_bindM) (auto simp: gwp_def run_simps)

lemma gwp_silent [gwp_intros]:
  "Q1 a g \<Longrightarrow> gwp os (returnM a) Q1 g"
  "gwp os (raiseM e) Q g"
  "(\<And>v. r = Inr v \<Longrightarrow> Q2 v g) \<Longrightarrow> gwp os (liftE r) Q2 g"
  "(\<And>v. loads t = Inr v \<Longrightarrow> Q3 v g) \<Longrightarrow> gwp os (py_loads t) Q3 g"
  "(b \<Longrightarrow> Q4 () g) \<Longrightarrow> gwp os (assertM msg b) Q4 g"
  "Q5 g g \<Longrightarrow> gwp os getG Q5 g"
  "Q4 () (h g) \<Longrightarrow> gwp os (modG h) Q4 g"
  by (auto simp: gwp_def run_simps py_loads_def assertM_def split: if_splits)

lemma gwp_branch [gwp_intros]:
  "(b \<Longrightarrow> gwp os m Q g) \<Longrightarrow> (\<not> b \<Longrightarrow> gwp os n Q g) \<Longrightarrow> gwp os (if b then m else n) Q g"
  "(\<And>a c. x = (a, c) \<Longrightarrow> gwp os (f a c) Q g) \<Longrightarrow> gwp os (case x of (a, c) \<Rightarrow> f a c) Q g"
  by (auto split: prod.splits)

end
