(* ===== verification/ControlSafety.thy ===== *)
theory ControlSafety
  imports ControlRun Invariant
begin

text \<open>
  The control-plane experiments end, put back the manifests they have moved away, and what they have seen when they return
  normally.
\<close>

section \<open>They end\<close>

lemma said_runs [runs_intros]: "clock_ok os now \<Longrightarrow> runs os now check \<Longrightarrow> runs os now (said label check)"
  unfolding said_def by (intro runs_intros)

lemma ctl_untils_run [runs_intros]:
  assumes "clock_ok os now"
  shows "runs os now c1 \<Longrightarrow> runs os now (ha_until c1 label)" "runs os now c2 \<Longrightarrow> runs os now (gc_until c2 label)"
    "runs os now c3 \<Longrightarrow> runs os now (ro_until c3)"
  unfolding ha_until_def gc_until_def ro_until_def by (intro runs_intros assms; simp)+

lemma ctl_parts_run [runs_intros]:
  assumes "clock_ok os now"
  shows "runs os now (no_container component node)" "runs os now (api_running node)" "runs os now (park component node)"
    "runs os now (restore_all component)" "runs os now (gc_get name)" "runs os now (ro_json args)" "runs os now (ha_json args)"
  unfolding no_container_def api_running_def park_def restore_all_def gc_get_def gc_k_def ro_json_def ro_k_def ha_json_def ha_k_def
  by (intro runs_intros assms)+

lemma ctl_rounds_run [runs_intros]:
  assumes "clock_ok os now"
  shows "runs os now (component_round component)" "runs os now (gc_policy policy)" "runs os now (make_ready old p)"
  unfolding component_round_def component_down_def containers_empty_def without_scheduler_def without_controller_def controller_scaled_def baseline_pods_def
    ha_k_def gc_policy_def gc_create_def gc_foreground_def gc_background_def gc_orphan_def gc_field_def gc_no_field_def gc_absent_def
    gc_k_def make_ready_def Let_def
  by (intro runs_intros assms)+

lemma watch_rollout_runs [runs_intros]:
  assumes "clock_ok os now"
  shows "runs os now (loopS (watch_rollout old D) seen)"
  unfolding watch_rollout_def ro_pods_def slow_deployment_def Let_def
  by (rule runs_timed_loopS; (intro assms runs_intros ticks_sleep ticks_bindM ticks_thenM ticks_if ticks_returnM)?;
      simp add: returnM_def)

lemma api_stopping_runs [runs_intros]:
  assumes "clock_ok os now"
  shows "runs os now (api_stopping D)"
  unfolding api_stopping_def
  by (rule runs_loop_within [where D = D]; intro assms runs_intros ticks_bindM ticks_if ticks_sleep ticks_returnM ticks_raiseM
      within_deadline within_if within_returnM within_bindM; simp)

lemma busy_loops_run [runs_intros]:
  assumes "clock_ok os now" and "busy os now"
  shows "runs os now (api_back was D)" "runs os now (write_again D)"
  unfolding api_back_def write_again_def
  by (rule runs_loop_within [where D = D]; intro assms runs_intros ticks_first ticks_run_process
      within_deadline within_if within_returnM within_thenM within_bindM; simp)+

lemma control_runs:
  assumes "clock_ok os now"
  shows "runs os now components_run" "runs os now gc_run" "runs os now rollout_run" "runs os now capacity_run"
    "busy os now \<Longrightarrow> runs os now api_outage" "busy os now \<Longrightarrow> runs os now failover_run"
  unfolding components_run_def gc_run_def rollout_run_def slow_start_def slow_unready_def slow_overlap_def three_started_def ro_pods_def
    ro_k_def capacity_run_def any_blocked_def slow_deployment_def api_outage_def start_http_def api_stopped_def api_down_def
    api_recovery_def failover_run_def leader_node_def fo_k_def pause_leader_def leader_paused_def
  by (intro runs_intros assms; simp)+


section \<open>Manifests are put back\<close>

text \<open>
  A manifest that was moved away is moved back by a later command, or an earlier move in the same clean-up has failed: its exception ends the
  loop over the nodes, so the manifests after it stay away.
\<close>

definition restore_failed :: "string \<Rightarrow> event \<Rightarrow> bool" where
  "restore_failed c e = (case e of Ran a _ r \<Rightarrow> (\<exists>node. a = enable c node) \<and> \<not> (\<exists>q. r = Inr q \<and> returncode q = 0) | _ \<Rightarrow> False)"

definition put_back :: "string \<Rightarrow> string \<Rightarrow> event \<Rightarrow> bool" where
  "put_back c node e \<longleftrightarrow> attempted (enable c node) e \<or> restore_failed c e"

definition manifest_settled :: "string \<Rightarrow> string \<Rightarrow> event list \<Rightarrow> bool" where
  "manifest_settled c node = followed (carried_out (disable c node)) (put_back c node)"

text \<open>While the manifests of \<open>c\<close> are away the module variable lists the nodes; \<open>parked None\<close> says that none is.\<close>

definition parked :: "string option \<Rightarrow> ('w, ctl) st \<Rightarrow> bool" where
  "parked cur s \<longleftrightarrow> (\<forall>c node. cur = Some c \<and> node \<in> set (DISABLED (globals s)) \<or> manifest_settled c node (trace s))"

lemma moves_differ [simp]:
  "enable c n \<noteq> disable c' n'" "disable c n = disable c' n' \<longleftrightarrow> c = c' \<and> n = n'" "enable c n = enable c' n' \<longleftrightarrow> c = c' \<and> n = n'"
  "b \<noteq> ''docker'' \<Longrightarrow> b # args \<noteq> disable c n" "v \<noteq> ''mv'' \<Longrightarrow> ''docker'' # ''exec'' # n' # v # args \<noteq> disable c n"
  by (auto simp: disable_def enable_def)

lemma parkedI: "(\<And>c n. cur \<noteq> Some c \<or> n \<notin> set (DISABLED (globals s)) \<Longrightarrow> manifest_settled c n (trace s)) \<Longrightarrow> parked cur s"
  unfolding parked_def by blast

lemma parkedD: "parked cur s \<Longrightarrow> cur \<noteq> Some c \<or> n \<notin> set (DISABLED (globals s)) \<Longrightarrow> manifest_settled c n (trace s)"
  unfolding parked_def by blast

lemma manifest_settled_snoc: "manifest_settled c n es \<or> put_back c n e \<Longrightarrow> \<not> carried_out (disable c n) e \<Longrightarrow> manifest_settled c n (es @ [e])"
  unfolding manifest_settled_def by (rule followed_snoc)

lemma parked_snoc:
  assumes "parked cur s" and "trace s' = trace s @ [e]" and "DISABLED (globals s') = DISABLED (globals s)"
    and "\<And>c n. \<not> carried_out (disable c n) e"
  shows "parked cur s'"
  using assms by (auto intro!: parkedI manifest_settled_snoc dest: parkedD)

lemma parked_prim: "(\<And>r c n. \<not> carried_out (disable c n) (ev r)) \<Longrightarrow> keeps os (parked cur) (prim ev f)"
  by (rule keepsI) (auto elim!: prim_SomeE parked_snoc)

lemma parked_prims [keeps_intros]:
  "(\<And>c n. args \<noteq> disable c n) \<Longrightarrow> keeps os (parked cur) (run_process args data t)" "keeps os (parked cur) monotonic"
  "keeps os (parked cur) (sleep ms)" "keeps os (parked cur) (py_print txt)"
  by (auto simp: prim_defs intro!: parked_prim)

lemma parked_check [keeps_intros]:
  "(\<And>c n. args \<noteq> disable c n) \<Longrightarrow> keeps os (parked cur) (check_run args data)"
  "(\<And>c n. args \<noteq> disable c n) \<Longrightarrow> keeps os (parked cur) (check_output args data)"
  unfolding check_run_def check_output_def checked_def by (intro keeps_intros; simp)+

lemma parked_park [keeps_intros]: "keeps os (parked (Some c)) (park c node)"
proof (rule keepsI)
  fix s r s'
  assume s: "parked (Some c) s" and "park c node os s = Some (r, s')"
  then have run: "bindM (check_run (disable c node) None) (\<lambda>_. modG (\<lambda>g. g\<lparr>DISABLED := DISABLED g @ [node]\<rparr>)) os s = Some (r, s')"
    by (simp add: park_def thenM_def)
  have ev: "\<exists>p. trace s1 = trace s @ [Ran (disable c node) None p] \<and> globals s1 = globals s \<and>
      ((\<exists>q. p = Inr q \<and> returncode q = 0) \<longrightarrow> (\<exists>a. r1 = Inr a))" if "check_run (disable c node) None os s = Some (r1, s1)" for r1 s1
    using that unfolding check_run_def run_process_def checked_def
    by (auto simp: run_simps prim_def split: prod.splits sum.splits if_splits)
  from run show "parked (Some c) s'"
  proof (cases rule: bindM_SomeE)
    case (1 e)
    with ev [OF 1(1)] s show ?thesis by (auto elim!: parked_snoc)
  next
    case (2 a s1)
    then have "globals s' = (globals s1)\<lparr>DISABLED := DISABLED (globals s1) @ [node]\<rparr>" "trace s' = trace s1" by (auto simp: run_simps)
    with ev [OF 2(1)] show ?thesis by (auto intro!: parkedI manifest_settled_snoc parkedD [OF s])
  qed
qed

text \<open>The clean-up: every node on the list gets its command, or one before it failed.\<close>

lemma restore_settles:
  assumes "\<And>c' n. c' = c \<and> n \<in> set ns \<or> manifest_settled c' n (trace s)"
    and "forM ns (\<lambda>node. ign (check_run (enable c node) None)) os s = Some (r, s')"
  shows "manifest_settled c' n (trace s')"
  using assms
proof (induction ns arbitrary: s c' n)
  case Nil
  then show ?case by (auto simp: run_simps)
next
  case (Cons node ns)
  have run: "bindM (ign (check_run (enable c node) None)) (\<lambda>_. forM ns (\<lambda>node. ign (check_run (enable c node) None))) os s = Some (r, s')"
    using Cons.prems(2) by (simp add: thenM_def)
  have ev: "\<exists>p. trace s1 = trace s @ [Ran (enable c node) None p] \<and> ((\<exists>e. r1 = Inl e) \<longrightarrow> \<not> (\<exists>q. p = Inr q \<and> returncode q = 0))"
    if "ign (check_run (enable c node) None) os s = Some (r1, s1)" for r1 s1
    using that unfolding ign_def check_run_def run_process_def checked_def
    by (auto simp: run_simps prim_def split: prod.splits sum.splits if_splits)
  have step: "manifest_settled c' n (trace s @ [Ran (enable c node) None p])" if "c' = c \<longrightarrow> n \<in> set (node # ns) \<longrightarrow> put_back c n (Ran (enable c node) None p)" for c' n p
    using that Cons.prems(1) [of c' n] by (auto intro!: manifest_settled_snoc)
  from run show ?case
  proof (cases rule: bindM_SomeE)
    case (1 e)
    obtain p where p: "trace s' = trace s @ [Ran (enable c node) None p]" "\<not> (\<exists>q. p = Inr q \<and> returncode q = 0)" using ev [OF 1(1)] by auto
    then have "put_back c n' (Ran (enable c node) None p)" for n' by (auto simp: put_back_def restore_failed_def)
    then show ?thesis unfolding p(1) by (intro step) simp
  next
    case (2 a s1)
    obtain p where p: "trace s1 = trace s @ [Ran (enable c node) None p]" using ev [OF 2(1)] by auto
    have "c' = c \<and> n \<in> set ns \<or> manifest_settled c' n (trace s1)" for c' n
      unfolding p using step [of c' n p] by (auto simp: put_back_def)
    then show ?thesis using 2(2) by (rule Cons.IH)
  qed
qed

lemma away_and_back:
  assumes "keeps os (parked (Some c)) body"
  shows "keeps os (parked None) (thenM (modG (\<lambda>g. g\<lparr>DISABLED := []\<rparr>)) (finallyM body (restore_all c)))"
proof (rule keepsI)
  fix s r s'
  assume s: "parked None s" and run: "thenM (modG (\<lambda>g. g\<lparr>DISABLED := []\<rparr>)) (finallyM body (restore_all c)) os s = Some (r, s')"
  let ?t = "s\<lparr>globals := (globals s)\<lparr>DISABLED := []\<rparr>\<rparr>"
  have "parked (Some c) ?t" using s by (simp add: parked_def)
  moreover have "finallyM body (restore_all c) os ?t = Some (r, s')" using run by (simp add: run_simps)
  ultimately obtain r1 s1 rc where s1: "parked (Some c) s1" and "restore_all c os s1 = Some (rc, s')"
    using assms by (auto elim!: finallyM_SomeE dest: keepsD)
  then have loop: "forM (DISABLED (globals s1)) (\<lambda>node. ign (check_run (enable c node) None)) os s1 = Some (rc, s')"
    by (simp add: restore_all_def run_simps)
  have "c' = c \<and> n \<in> set (DISABLED (globals s1)) \<or> manifest_settled c' n (trace s1)" for c' n
    using parkedD [OF s1, of c' n] by auto
  from restore_settles [OF this loop] show "parked None s'" by (auto intro: parkedI)
qed

text \<open>The two scripts that stop control-plane components.\<close>

lemma parked_until [keeps_intros]: "keeps os (parked cur) check \<Longrightarrow> keeps os (parked cur) (ha_until check label)"
  unfolding ha_until_def poll_def poll_round_def said_def by (intro keeps_intros)

lemma parked_ha [keeps_intros]: "keeps os (parked cur) (ha_k args)" "keeps os (parked cur) (ha_json args)"
  unfolding ha_json_def ha_k_def by (intro keeps_intros; simp add: CTL_K_def)+

lemma component_down_keeps: "keeps os (parked (Some c)) (component_down c)"
  unfolding component_down_def containers_empty_def no_container_def without_scheduler_def without_controller_def controller_scaled_def baseline_pods_def
  by (intro keeps_intros; simp)

lemma components_settled: "keeps os (parked None) components_run"
proof -
  have round: "component_round c = thenM (thenM (modG (\<lambda>g. g\<lparr>DISABLED := []\<rparr>)) (finallyM (component_down c) (restore_all c)))
      (thenM (if c = ''kube-scheduler'' then ha_k [''wait'', ''pod/needs-scheduler'', ''--for=condition=Ready'', ''--timeout=150s'']
          else ha_k [''rollout'', ''status'', ''deployment/baseline'', ''--timeout=150s''])
        (py_print (c @ '': restored and convergence confirmed'')))" for c
    by (simp add: component_round_def thenM_def bindM_assoc)
  have "keeps os (parked None) (component_round c)" for c
    unfolding round by (intro keeps_thenM away_and_back component_down_keeps keeps_branch parked_ha parked_prims)
  then show ?thesis unfolding components_run_def by (intro keeps_intros)
qed

lemma api_settled: "keeps os (parked None) api_outage"
proof -
  have down: "keeps os (parked (Some ''kube-apiserver'')) (api_down ip)" for ip
    unfolding api_down_def api_stopping_def api_running_def by (intro keeps_intros; simp add: CTL_K_def)
  show ?thesis
    unfolding api_outage_def start_http_def api_stopped_def api_recovery_def api_back_def
    by (intro keeps_bindM keeps_thenM away_and_back down; intro keeps_intros; simp add: CTL_K_def)
qed

definition resumed :: "string \<Rightarrow> event list \<Rightarrow> bool" where
  "resumed node = followed (carried_out [''docker'', ''pause'', node]) (attempted [''docker'', ''unpause'', node])"

lemma failover_resumed: "leaves os (resumed n) failover_run"
proof -
  have quiet: "emits os (\<lambda>e. \<not> carried_out [''docker'', ''pause'', n] e) leader_paused"
    "emits os (\<lambda>e. \<not> carried_out [''docker'', ''pause'', n] e) leader_node"
    "emits os (\<lambda>e. \<not> carried_out [''docker'', ''pause'', n] e) (py_print line)" for os :: "'a os" and line
    unfolding leader_paused_def leader_node_def fo_k_def write_again_def by (intro emits_intros; simp add: CTL_K_def)+
  have paused: "leaves os (followed (carried_out [''docker'', ''pause'', n]) (attempted [''docker'', ''unpause'', n])) (pause_leader node)" for node
    unfolding pause_leader_def check_run_def
    by (rule command_bracket) (use quiet(1) in \<open>auto simp: ign_def intro!: leaves_quiet leaves_first [OF command_leaves] emits_intros\<close>)
  show ?thesis
    unfolding failover_run_def resumed_def
    by (intro followed.leaves_bindM followed.leaves_thenM paused leaves_quiet [OF quiet(2)] leaves_quiet [OF quiet(3)])
qed


section \<open>What they have seen\<close>

text \<open>
  Without a scheduler a pod was accepted and had no node, and was ready after the restart; without a controller manager the number of
  replicas was changed and the number of pods was not.
\<close>

definition ha_cmd :: "string list \<Rightarrow> string list" where
  "ha_cmd args = [CTL_K, ''--request-timeout=8s'', ''-n'', ''control-ha''] @ args"

definition no_node :: "json \<Rightarrow> exn + bool" where
  "no_node p = bindE (jpath [Sub ''spec'', get0 ''nodeName''] p) (\<lambda>v. Inr (\<not> truth v))"

definition wants_three :: "json \<Rightarrow> exn + bool" where
  "wants_three d = eqE (jpath [Sub ''spec'', Sub ''replicas''] d) (JInt 3)"

definition has_items :: "int \<Rightarrow> json \<Rightarrow> exn + bool" where
  "has_items n doc = bindE (bindE (jsub doc ''items'') jlen) (\<lambda>k. Inr (k = n))"

definition scheduler_seen :: "(event \<Rightarrow> bool) list" where
  "scheduler_seen = [carried_out (ha_cmd [''run'', ''needs-scheduler'', ''--image=registry.k8s.io/pause:3.10.1'']),
     replied (ha_cmd [''get'', ''pod'', ''needs-scheduler'', ''-o'', ''json'']) (answered_json no_node)] @
     [carried_out (ha_cmd [''wait'', ''pod/needs-scheduler'', ''--for=condition=Ready'', ''--timeout=150s''])]"

definition controller_seen :: "int \<Rightarrow> (event \<Rightarrow> bool) list" where
  "controller_seen n = [replied (ha_cmd [''get'', ''pods'', ''-l'', ''app=baseline'', ''-o'', ''json'']) (answered_json (has_items n))] @
     [carried_out (ha_cmd [''scale'', ''deployment'', ''baseline'', ''--replicas=3'']),
      replied (ha_cmd [''get'', ''deployment'', ''baseline'', ''-o'', ''json'']) (answered_json wants_three),
      replied (ha_cmd [''get'', ''pods'', ''-l'', ''app=baseline'', ''-o'', ''json'']) (answered_json (has_items n))]"

lemmas ha_seen_defs = ha_k_def ha_json_def ha_cmd_def answered_json_def no_node_def wants_three_def has_items_def

lemma baseline_pods_observes:
  "wp os baseline_pods (\<lambda>n gs. \<exists>fs. gs = es @ fs \<and>
     in_order [replied (ha_cmd [''get'', ''pods'', ''-l'', ''app=baseline'', ''-o'', ''json'']) (answered_json (has_items n))] fs) es"
  unfolding baseline_pods_def ha_seen_defs by (intro wp_intros; simp add: observed)

lemma without_controller_observes: "observes_any os without_controller controller_seen"
  unfolding without_controller_def controller_seen_def
proof (rule observes_anyI [OF baseline_pods_observes])
  show "observes os (controller_scaled n)
      [carried_out (ha_cmd [''scale'', ''deployment'', ''baseline'', ''--replicas=3'']),
       replied (ha_cmd [''get'', ''deployment'', ''baseline'', ''-o'', ''json'']) (answered_json wants_three),
       replied (ha_cmd [''get'', ''pods'', ''-l'', ''app=baseline'', ''-o'', ''json'']) (answered_json (has_items n))]" for n
    unfolding controller_scaled_def baseline_pods_def ha_seen_defs by (rule observesI, intro wp_intros impI; simp add: observed eqE_def)
qed

lemma ctl_appends:
  "emits os (\<lambda>_. True) (park c node)" "emits os (\<lambda>_. True) (restore_all c)" "emits os (\<lambda>_. True) (ha_k args)"
  "emits os (\<lambda>_. True) (ha_until (containers_empty c) label)" "emits os (\<lambda>_. True) (api_stopping D)"
  unfolding park_def restore_all_def ha_k_def ha_until_def said_def containers_empty_def no_container_def api_stopping_def api_running_def
  by (intro emits_intros; simp)+

lemma components_observes: "observes_any os components_run (\<lambda>n. scheduler_seen @ controller_seen n)"
proof -
  have sched: "observes os without_scheduler [carried_out (ha_cmd [''run'', ''needs-scheduler'', ''--image=registry.k8s.io/pause:3.10.1'']),
      replied (ha_cmd [''get'', ''pod'', ''needs-scheduler'', ''-o'', ''json'']) (answered_json no_node)]"
    unfolding without_scheduler_def ha_seen_defs by (rule observesI, intro wp_intros impI; simp add: observed)
  have ready: "observes os (thenM (ha_k [''wait'', ''pod/needs-scheduler'', ''--for=condition=Ready'', ''--timeout=150s'']) (py_print t))
      [carried_out (ha_cmd [''wait'', ''pod/needs-scheduler'', ''--for=condition=Ready'', ''--timeout=150s''])]" for t
    unfolding ha_seen_defs by (rule observesI, intro wp_intros; simp add: observed)
  have "observes os (component_round ''kube-scheduler'') scheduler_seen"
    unfolding component_round_def component_down_def scheduler_seen_def if_P [OF refl]
    by (intro observes_then_skip observes_thenM observes_finallyM sched ready emits_intros ctl_appends TrueI)
  moreover have "observes_any os (component_round ''kube-controller-manager'') controller_seen"
    unfolding component_round_def component_down_def
    by (simp, intro observes_any_skip observes_any_last observes_any_finallyM without_controller_observes emits_intros ctl_appends TrueI)
  ultimately show ?thesis
    unfolding components_run_def forM.simps by (intro observes_any_thenM observes_any_last emits_intros)
qed

text \<open>While no API server ran a request to it failed and one to the pod did not; afterwards the pod and its container were the same.\<close>

definition same_pod :: "json \<Rightarrow> json \<Rightarrow> exn + bool" where
  "same_pod was p = andE (same_field (jpath [Sub ''metadata'', Sub ''uid'']) p was) (same_field container_of p was)"

definition outage_seen :: "json \<Rightarrow> (event \<Rightarrow> bool) list" where
  "outage_seen was =
     [replied [CTL_K, ''-n'', ''control-ha'', ''get'', ''pod'', ''existing-http'', ''-o'', ''json''] (answered_json (\<lambda>v. Inr (v = was)))] @
     [replied [CTL_K, ''--request-timeout=3s'', ''get'', ''pods'', ''-n'', ''control-ha''] (\<lambda>r. returncode r \<noteq> 0),
      (\<lambda>e. case e of Ran a _ (Inr r) \<Rightarrow> take 5 a = [''docker'', ''exec'', ''article-control-worker'', ''curl'', ''--fail''] \<and> returncode r = 0 | _ \<Rightarrow> False)] @
     [replied [CTL_K, ''--request-timeout=3s'', ''-n'', ''control-ha'', ''get'', ''pod'', ''existing-http'', ''-o'', ''json''] (answered_json (same_pod was))]"

lemma api_outage_observes: "observes_any os api_outage outage_seen"
proof -
  have start: "wp os start_http (\<lambda>was gs. \<exists>fs. gs = es @ fs \<and> in_order
      [replied [CTL_K, ''-n'', ''control-ha'', ''get'', ''pod'', ''existing-http'', ''-o'', ''json''] (answered_json (\<lambda>v. Inr (v = was)))] fs) es" for es
    unfolding start_http_def by (intro wp_intros; simp add: observed answered_json_def CTL_K_def)
  have down: "observes os (api_down ip)
     [replied [CTL_K, ''--request-timeout=3s'', ''get'', ''pods'', ''-n'', ''control-ha''] (\<lambda>r. returncode r \<noteq> 0),
      (\<lambda>e. case e of Ran a _ (Inr r) \<Rightarrow> take 5 a = [''docker'', ''exec'', ''article-control-worker'', ''curl'', ''--fail''] \<and> returncode r = 0 | _ \<Rightarrow> False)]" for ip
    unfolding api_down_def
    by (rule observes_then_skip, intro emits_intros ctl_appends, rule observes_skip, intro emits_intros TrueI, rule observes_then_skip,
        rule ctl_appends, rule observesI, intro wp_intros; simp add: observed CTL_K_def)
  have again: "observes os (api_recovery was)
     [replied [CTL_K, ''--request-timeout=3s'', ''-n'', ''control-ha'', ''get'', ''pod'', ''existing-http'', ''-o'', ''json''] (answered_json (same_pod was))]" for was
    unfolding api_recovery_def api_back_def
    by (rule observesI, intro wp_intros wp_loopM emits_intros; simp add: observed answered_json_def same_pod_def andE_def)
  have stopped: "observes os (api_stopped was)
     [replied [CTL_K, ''--request-timeout=3s'', ''get'', ''pods'', ''-n'', ''control-ha''] (\<lambda>r. returncode r \<noteq> 0),
      (\<lambda>e. case e of Ran a _ (Inr r) \<Rightarrow> take 5 a = [''docker'', ''exec'', ''article-control-worker'', ''curl'', ''--fail''] \<and> returncode r = 0 | _ \<Rightarrow> False)]" for was
    unfolding api_stopped_def by (intro observes_skip observes_then_skip observes_finallyM down ctl_appends emits_intros)
  show ?thesis
    unfolding api_outage_def outage_seen_def by (intro observes_anyI start observes_thenM stopped again)
qed

text \<open>With the leader's node paused a write was accepted and the Deployment scaled; then the node was resumed.\<close>

definition fo_cmd :: "string list \<Rightarrow> string list" where
  "fo_cmd args = [CTL_K, ''--request-timeout=8s''] @ args"

definition failover_seen :: "string \<Rightarrow> (event \<Rightarrow> bool) list" where
  "failover_seen node = [carried_out (fo_cmd [''-n'', ''kube-system'', ''get'', ''lease'', ''kube-scheduler'', ''-o'', ''json''])] @
     [carried_out [''docker'', ''pause'', node],
      replied (fo_cmd [''-n'', ''control-ha'', ''create'', ''cm'', ''failover-verified'', ''--from-literal=value=ok'']) written,
      carried_out (fo_cmd [''-n'', ''control-ha'', ''scale'', ''deployment/baseline'', ''--replicas=4'']),
      carried_out (fo_cmd [''-n'', ''control-ha'', ''rollout'', ''status'', ''deployment/baseline'', ''--timeout=150s'']),
      carried_out [''docker'', ''unpause'', node]]"

lemma write_again_wp:
  assumes "\<And>fs r x. written r \<Longrightarrow> Q () (es @ fs @ [Ran (fo_cmd [''-n'', ''control-ha'', ''create'', ''cm'', ''failover-verified'',
    ''--from-literal=value=ok'']) None (Inr r), Printed x])"
  shows "wp os (write_again D) Q es"
  unfolding write_again_def using assms
  by (intro wp_loopM) (auto simp: fo_cmd_def intro!: wp_intros emits_intros)

lemma failover_observes: "observes_any os failover_run failover_seen"
  unfolding failover_run_def failover_seen_def
proof (rule observes_anyI)
  show "wp os leader_node (\<lambda>node gs. \<exists>fs. gs = es @ fs \<and>
      in_order [carried_out (fo_cmd [''-n'', ''kube-system'', ''get'', ''lease'', ''kube-scheduler'', ''-o'', ''json''])] fs) es" for es
    unfolding leader_node_def fo_k_def fo_cmd_def by (intro wp_intros; simp add: observed)
  show "observes os (thenM (py_print (''pause scheduler leader node: '' @ node)) (pause_leader node))
     [carried_out [''docker'', ''pause'', node],
      replied (fo_cmd [''-n'', ''control-ha'', ''create'', ''cm'', ''failover-verified'', ''--from-literal=value=ok'']) written,
      carried_out (fo_cmd [''-n'', ''control-ha'', ''scale'', ''deployment/baseline'', ''--replicas=4'']),
      carried_out (fo_cmd [''-n'', ''control-ha'', ''rollout'', ''status'', ''deployment/baseline'', ''--timeout=150s'']),
      carried_out [''docker'', ''unpause'', node]]" for node
    unfolding pause_leader_def leader_paused_def fo_k_def
    by (rule observesI, intro wp_intros write_again_wp; simp add: observed fo_cmd_def CTL_K_def)
qed

text \<open>
  Deletion in the foreground keeps the owner until its child goes, deletion in the background keeps only the child, and orphaning removes the
  owner reference and keeps the child; in the end both are gone.
\<close>

definition gc_object :: "proc \<Rightarrow> exn + json" where
  "gc_object r = (if strip (stdout r) \<noteq> [] then loads (stdout r) else Inr JNull)"

definition gc_saw :: "string \<Rightarrow> (json \<Rightarrow> exn + bool) \<Rightarrow> event \<Rightarrow> bool" where
  "gc_saw name c = replied [CTL_K, ''-n'', GC_NS, ''get'', ''cm'', name, ''--ignore-not-found'', ''-o'', ''json''] (\<lambda>r. returncode r = 0 \<and>
     bindE (gc_object r) c = Inr True)"

definition meta :: "string \<Rightarrow> bool \<Rightarrow> json \<Rightarrow> exn + bool" where
  "meta field b v = Inr (bindE (jpath [Sub ''metadata'', get0 field] v) (\<lambda>x. Inr (truth x)) = Inr b)"

definition has_uid :: "json \<Rightarrow> exn + bool" where
  "has_uid v = bindE (jpath [Sub ''metadata'', Sub ''uid''] v) (\<lambda>_. Inr True)"

definition missing :: "json \<Rightarrow> exn + bool" where
  "missing v = Inr (v = JNull)"

definition blocks_owner :: "json \<Rightarrow> exn + bool" where
  "blocks_owner v = bindE (jpath [Sub ''metadata'', Sub ''finalizers''] v) (jin (JStr ''foregroundDeletion''))"

definition gc_seen :: "(event \<Rightarrow> bool) list" where
  "gc_seen =
     [gc_saw ''foreground-owner'' has_uid, gc_saw ''foreground-child'' (meta ''deletionTimestamp'' True), gc_saw ''foreground-owner'' (meta ''deletionTimestamp'' True),
      gc_saw ''foreground-owner'' blocks_owner, gc_saw ''foreground-owner'' missing, gc_saw ''foreground-child'' missing] @
     [gc_saw ''background-owner'' has_uid, gc_saw ''background-owner'' missing, gc_saw ''background-child'' (meta ''deletionTimestamp'' True),
      gc_saw ''background-owner'' missing, gc_saw ''background-child'' missing] @
     [gc_saw ''orphan-owner'' has_uid, gc_saw ''orphan-owner'' missing, gc_saw ''orphan-child'' (meta ''ownerReferences'' False),
      gc_saw ''orphan-child'' (meta ''deletionTimestamp'' False), gc_saw ''orphan-owner'' missing, gc_saw ''orphan-child'' missing]"

lemma gc_get_wp:
  assumes "\<And>v r fs. returncode r = 0 \<Longrightarrow> gc_object r = Inr v \<Longrightarrow>
    Q v (es @ [Ran [CTL_K, ''-n'', GC_NS, ''get'', ''cm'', name, ''--ignore-not-found'', ''-o'', ''json''] None (Inr r)])"
  shows "wp os (gc_get name) Q es"
  unfolding gc_get_def gc_k_def by (intro wp_intros; simp add: assms gc_object_def)

lemma gc_get_emits: "emits os (\<lambda>_. True) (gc_get name)"
  unfolding gc_get_def gc_k_def by (intro emits_intros; simp)

lemmas gc_defs = gc_policy_def Let_def gc_create_def gc_foreground_def gc_background_def gc_orphan_def gc_until_def said_def gc_field_def
  gc_no_field_def gc_absent_def gc_k_def

lemmas gc_seen_defs = gc_saw_def has_uid_def meta_def missing_def blocks_owner_def

lemma gc_policies_observe:
  "observes os (gc_policy ''foreground'')
     [gc_saw ''foreground-owner'' has_uid, gc_saw ''foreground-child'' (meta ''deletionTimestamp'' True), gc_saw ''foreground-owner'' (meta ''deletionTimestamp'' True),
      gc_saw ''foreground-owner'' blocks_owner, gc_saw ''foreground-owner'' missing, gc_saw ''foreground-child'' missing]"
  "observes os (gc_policy ''background'')
     [gc_saw ''background-owner'' has_uid, gc_saw ''background-owner'' missing, gc_saw ''background-child'' (meta ''deletionTimestamp'' True),
      gc_saw ''background-owner'' missing, gc_saw ''background-child'' missing]"
  "observes os (gc_policy ''orphan'')
     [gc_saw ''orphan-owner'' has_uid, gc_saw ''orphan-owner'' missing, gc_saw ''orphan-child'' (meta ''ownerReferences'' False),
      gc_saw ''orphan-child'' (meta ''deletionTimestamp'' False), gc_saw ''orphan-owner'' missing, gc_saw ''orphan-child'' missing]"
  unfolding gc_defs
  by (rule observesI, simp del: append_assoc, intro wp_intros wp_poll gc_get_wp gc_get_emits emits_intros impI;
      simp add: observed gc_seen_defs)+

lemma gc_observes: "observes os gc_run gc_seen"
  unfolding gc_run_def gc_seen_def forM.simps
  by (intro observes_then_skip observes_thenM observes_last gc_policies_observe emits_intros TrueI)

text \<open>
  The rollout kept both old pods while the new one was not ready, a listing had more than three pods with one of them terminating, and the
  Deployment was rolled out; a pod that asks for too much blocks the next rollout with two replicas available.
\<close>

definition ro_cmd :: "string list \<Rightarrow> string list" where
  "ro_cmd args = [CTL_K, ''-n'', ''control-rollout''] @ args"

definition ctl_listed :: "(json \<Rightarrow> exn + bool) \<Rightarrow> event \<Rightarrow> bool" where
  "ctl_listed c = replied (ro_cmd [''get'', ''pods'', ''-l'', ''app=slow'', ''-o'', ''json'']) (answered_json (\<lambda>doc. bindE (jsub doc ''items'') c))"

definition two_old :: "json list \<Rightarrow> json \<Rightarrow> exn + bool" where
  "two_old old items = bindE (bindE (jiter items) (countE (is_old old))) (\<lambda>n. Inr (n = 2))"

definition overlapping :: "json \<Rightarrow> exn + bool" where
  "overlapping items = bindE (bindE (jiter items) (filterE is_terminating)) (\<lambda>ts. bindE (jlen items) (\<lambda>n. Inr (n > 3 \<and> ts \<noteq> [])))"

definition uids_are :: "json list \<Rightarrow> json \<Rightarrow> exn + bool" where
  "uids_are old items = bindE (bindE (jiter items) (set_of (jpath [Sub ''metadata'', Sub ''uid'']) [])) (\<lambda>u. Inr (u = old))"

definition rollout_seen :: "json list \<Rightarrow> (event \<Rightarrow> bool) list" where
  "rollout_seen old = [ctl_listed (uids_are old)] @ [ctl_listed (two_old old)] @
     [ctl_listed overlapping, carried_out (ro_cmd [''rollout'', ''status'', ''deployment/slow'', ''--timeout=180s'']), carried_out [''python3'', ''capacity.py'']]"

lemmas ro_seen_defs = ro_pods_def ro_json_def ro_k_def ro_cmd_def ctl_listed_def answered_json_def

lemma ro_appends: "emits os (\<lambda>_. True) ro_pods" "emits os (\<lambda>_. True) (make_ready old p)" "emits os (\<lambda>_. True) slow_deployment"
  unfolding ro_seen_defs make_ready_def slow_deployment_def by (intro emits_intros; simp)+

lemma in_order_single: "in_order [p] es \<longleftrightarrow> list_ex p es"
  by (induction es) (auto simp: in_order.simps(3))

lemma watch_rollout_wp:
  assumes "\<And>fs seen. (seen \<longrightarrow> in_order [ctl_listed overlapping] fs) \<Longrightarrow> Q seen (es @ fs)"
  shows "wp os (loopS (watch_rollout old D) False) Q es"
proof (rule wp_loopS [where I = "\<lambda>seen gs. \<exists>fs. gs = es @ fs \<and> (seen \<longrightarrow> in_order [ctl_listed overlapping] fs)"])
  fix seen gs
  assume "\<exists>fs. gs = es @ fs \<and> (seen \<longrightarrow> in_order [ctl_listed overlapping] fs)"
  then obtain fs where fs: "gs = es @ fs" "seen \<longrightarrow> list_ex (ctl_listed overlapping) fs" by (auto simp: in_order_single)
  show "wp os (watch_rollout old D seen) (\<lambda>r gs. case r of Inl z \<Rightarrow> \<exists>fs. gs = es @ fs \<and> (z \<longrightarrow> in_order [ctl_listed overlapping] fs)
      | Inr v \<Rightarrow> Q v gs) gs"
    unfolding watch_rollout_def Let_def fs(1) ro_pods_def ro_json_def ro_k_def
    by (intro wp_intros ro_appends [THEN wp_frame] wp_frame [where m = "forM _ _"] emits_intros ro_appends;
        use fs(2) in \<open>auto simp: in_order_single ctl_listed_def ro_cmd_def answered_json_def overlapping_def intro!: assms\<close>)
qed (simp add: assms)

lemma rollout_observes: "observes_any os rollout_run rollout_seen"
  unfolding rollout_run_def rollout_seen_def
proof (rule observes_anyI)
  show "wp os slow_start (\<lambda>old gs. \<exists>fs. gs = es @ fs \<and> in_order [ctl_listed (uids_are old)] fs) es" for es
    unfolding slow_start_def three_started_def ro_until_def ro_seen_defs
    by (intro wp_intros wp_poll emits_intros impI; simp add: observed uids_are_def)
  show "observes os (thenM (slow_unready old) (slow_overlap old)) ([ctl_listed (two_old old)] @
     [ctl_listed overlapping, carried_out (ro_cmd [''rollout'', ''status'', ''deployment/slow'', ''--timeout=180s'']), carried_out [''python3'', ''capacity.py'']])" for old
  proof (rule observes_thenM)
    show "observes os (slow_unready old) [ctl_listed (two_old old)]"
      unfolding slow_unready_def ro_seen_defs by (rule observesI, intro wp_intros; simp add: observed two_old_def)
    show "observes os (slow_overlap old) [ctl_listed overlapping, carried_out (ro_cmd [''rollout'', ''status'', ''deployment/slow'', ''--timeout=180s'']),
       carried_out [''python3'', ''capacity.py'']]"
      unfolding slow_overlap_def bindM_thenM
    proof (rule observes_thenM [of _ _ "[ctl_listed overlapping]", simplified])
      show "observes os (bindM monotonic (\<lambda>t. bindM (loopS (watch_rollout old (t + 120000)) False)
          (assertM ''did not observe terminating Pod overlap''))) [ctl_listed overlapping]"
        by (rule observesI, intro wp_intros watch_rollout_wp) (auto intro: in_order_Cons)
      show "observes os (thenM (ro_k [''rollout'', ''status'', ''deployment/slow'', ''--timeout=180s''])
          (thenM (py_print ''rollout complete; terminating Pods are checked separately'') (ign (check_run [''python3'', ''capacity.py''] None))))
        [carried_out (ro_cmd [''rollout'', ''status'', ''deployment/slow'', ''--timeout=180s'']), carried_out [''python3'', ''capacity.py'']]"
        unfolding ro_k_def ro_cmd_def by (rule observesI, intro wp_intros; simp add: observed)
    qed
  qed
qed

definition capacity_seen :: "(event \<Rightarrow> bool) list" where
  "capacity_seen = [ctl_listed (\<lambda>items. bindE (jiter items) (anyE pod_blocked)),
     replied (ro_cmd [''get'', ''deployment'', ''slow'', ''-o'', ''json''])
       (answered_json (\<lambda>d. bindE (jsub d ''status'') (\<lambda>st. eqE (jget st ''availableReplicas'' JNull) (JInt 2)))),
     carried_out (ro_cmd [''rollout'', ''undo'', ''deployment/slow'']),
     carried_out (ro_cmd [''rollout'', ''status'', ''deployment/slow'', ''--timeout=120s''])]"

lemma capacity_observes: "observes os capacity_run capacity_seen"
  unfolding capacity_run_def any_blocked_def slow_deployment_def capacity_seen_def ro_seen_defs
  by (rule observesI, intro wp_intros wp_poll emits_intros impI; simp add: observed)

end
