(* ===== verification/ApiRun.thy ===== *)
theory ApiRun
  imports Cleanup Observe PyNum
begin

text \<open>
  The API experiments: \<^verbatim>\<open>article-api-apply\<close>, \<^verbatim>\<open>article-api-quota\<close>, \<^verbatim>\<open>article-api-rbac\<close> and \<^verbatim>\<open>article-api-admission\<close>, each its \<^verbatim>\<open>run.py\<close> with its own copy of
  the function \<^verbatim>\<open>call\<close>. The directory \<^verbatim>\<open>Path.home()\<close> is the parameter \<open>home\<close>.
\<close>

section \<open>What the scripts share\<close>

definition API_CONTEXT :: string where
  "API_CONTEXT = ''kind-article-api''"

definition api_bin :: "string \<Rightarrow> string option \<Rightarrow> string" where
  "api_bin home env = (case env of None \<Rightarrow> home @ ''/.local/bin/kubectl'' | Some p \<Rightarrow> p)"

definition api_kubectl :: "string \<Rightarrow> string list \<Rightarrow> json option \<Rightarrow> ('w, 'g, proc) prog" where
  "api_kubectl home args obj = bindM (getenv ''KUBECTL'')
     (\<lambda>e. run_process (api_bin home e # args) (map_option dumps obj) None)"

text \<open>\<^verbatim>\<open>call\<close>: with \<open>Some f\<close> the command has to fail with an error that satisfies \<open>f\<close>.\<close>

definition api_call :: "string \<Rightarrow> string list \<Rightarrow> json option \<Rightarrow> (string \<Rightarrow> bool) option \<Rightarrow> ('w, 'g, string) prog" where
  "api_call home args obj err = bindM (api_kubectl home args obj) (\<lambda>p. case err of
       Some f \<Rightarrow> thenM (assertM (stderr p) (returncode p \<noteq> 0 \<and> f (stderr p))) (returnM (stderr p))
     | None \<Rightarrow> thenM (assertM (stderr p) (returncode p = 0)) (returnM (stdout p)))"

abbreviation api_ok :: "string \<Rightarrow> string list \<Rightarrow> ('w, 'g, string) prog" where
  "api_ok home args \<equiv> api_call home args None None"

abbreviation api_create :: "string \<Rightarrow> json \<Rightarrow> ('w, 'g, string) prog" where
  "api_create home obj \<equiv> api_call home [''create'', ''-f'', ''-''] (Some obj) None"

definition api_json :: "string \<Rightarrow> string list \<Rightarrow> ('w, 'g, json) prog" where
  "api_json home args = bindM (api_ok home args) py_loads"

definition api_guard :: "string \<Rightarrow> ('w, 'g, unit) prog" where
  "api_guard home =
    (bindM (getenv ''KUBECONFIG'') (\<lambda>kc.
     thenM (assertM ''set an explicit isolated KUBECONFIG'' (kc \<noteq> None \<and> kc \<noteq> Some [])) (
     bindM (api_ok home [''config'', ''current-context'']) (\<lambda>c.
     assertM ''wrong cluster context'' (strip c = API_CONTEXT)))))"

definition api_finish :: "string \<Rightarrow> string \<Rightarrow> json \<Rightarrow> ('w, 'g, unit) prog" where
  "api_finish home dir results =
    (thenM (write_text (dir @ ''/evidence/result.json'') (dumps_raw_indent results @ [CHR 0x0A])) (
     bindM (api_ok home [''version'', ''-o'', ''json'']) (\<lambda>v.
     write_text (dir @ ''/evidence/version.json'') v)))"


section \<open>Server-side apply\<close>

definition conflict_error :: "string \<Rightarrow> bool" where
  "conflict_error e \<longleftrightarrow> contains (lower e) ''conflict''"

definition APPLY_NS :: string where
  "APPLY_NS = ''article-apply''"

definition shared_map :: "json \<Rightarrow> json" where
  "shared_map data = (JDict
    [(''apiVersion'', JStr ''v1''), (''kind'', JStr ''ConfigMap''),
     (''metadata'', JDict [(''name'', JStr ''shared''), (''namespace'', JStr APPLY_NS)]),
     (''data'', data)])"

definition ssa :: "string \<Rightarrow> string \<Rightarrow> json \<Rightarrow> bool \<Rightarrow> bool \<Rightarrow> ('w, 'g, string) prog" where
  "ssa home manager data force conflict = api_call home
     ([''apply'', ''--server-side'', ''--field-manager='' @ manager] @ (if force then [''--force-conflicts''] else []) @ [''-f'', ''-''])
     (Some (shared_map data)) (if conflict then Some conflict_error else None)"

definition ssa_state :: "string \<Rightarrow> ('w, 'g, json) prog" where
  "ssa_state home =
    (bindM (api_json home [''-n'', ''article-apply'', ''get'', ''cm'', ''shared'', ''-o'', ''json'',
           ''--show-managed-fields'']) (\<lambda>obj.
     bindM (liftE (jsub obj ''data'')) (\<lambda>data.
     bindM (liftE (jpath [Sub ''metadata'', Sub ''managedFields''] obj)) (\<lambda>fields.
     returnM (JDict [(''data'', data), (''managedFields'', fields)])))))"

definition blue :: json where "blue = JDict [(''color'', JStr ''blue'')]"
definition red :: json where "red = JDict [(''color'', JStr ''red'')]"

text \<open>The first half: a conflict, a field of another manager, and a field that its manager no longer applies.\<close>

definition ssa_owned :: "string \<Rightarrow> ('w, 'g, (string \<times> json) list) prog" where
  "ssa_owned home =
    (thenM (ssa home ''team-a'' (JDict [(''color'', JStr ''blue''), (''obsolete'', JStr ''remove-me'')]) False False) (
     bindM (ssa home ''team-b'' red False True) (\<lambda>conflict.
     thenM (ssa home ''team-b'' (JDict [(''owner'', JStr ''team-b'')]) False False) (
     bindM (ssa_state home) (\<lambda>independent.
     thenM (ssa home ''team-a'' blue False False) (
     bindM (ssa_state home) (\<lambda>omitted.
     bindM (liftE (bindE (jsub omitted ''data'') (jin (JStr ''obsolete'')))) (\<lambda>b1.
     thenM (assertM [] (\<not> b1)) (
     bindM (liftE (eqE (jpath [Sub ''data'', Sub ''owner''] omitted) (JStr ''team-b''))) (\<lambda>b2.
     thenM (assertM [] b2) (
     returnM [(''conflict'', JStr conflict), (''independent'', independent), (''omitted'', omitted)])))))))))))"

definition color_is :: "string \<Rightarrow> json \<Rightarrow> exn + bool" where
  "color_is c st = eqE (jpath [Sub ''data'', Sub ''color''] st) (JStr c)"

definition ssa_forced :: "string \<Rightarrow> ('w, 'g, (string \<times> json) list) prog" where
  "ssa_forced home =
    (thenM (ssa home ''team-b'' (JDict [(''color'', JStr ''red''), (''owner'', JStr ''team-b'')]) True False) (
     bindM (ssa_state home) (\<lambda>forced.
     bindM (liftE (color_is ''red'' forced)) (\<lambda>b1.
     thenM (assertM [] b1) (
     bindM (ssa home ''team-a'' blue False True) (\<lambda>old.
     thenM (api_ok home ([''-n'', ''article-apply'', ''patch'', ''cm'', ''shared'', ''--type=merge'', ''--field-manager=operator'', ''-p'',
         (''{\"data\":{\"color\":\"green\"}}'')])) (
     bindM (ssa_state home) (\<lambda>patched.
     bindM (liftE (color_is ''green'' patched)) (\<lambda>b2.
     thenM (assertM [] b2) (
     returnM [(''forced'', forced), (''old_owner_conflict'', JStr old), (''ordinary_patch'', patched)]))))))))))"

fun summary :: "string \<times> json \<Rightarrow> exn + string \<times> json" where
  "summary (name, JStr s) = Inr (name, JStr s)"
| "summary (name, v) = bindE (jsub v ''data'') (\<lambda>d. Inr (name, d))"

definition apply_run :: "string \<Rightarrow> ('w, 'g, unit) prog" where
  "apply_run home =
    (thenM (mkdir ''article-api-apply/evidence'') (
     thenM (api_guard home) (
     thenM (api_ok home [''create'', ''namespace'', ''article-apply'']) (
     bindM (ssa_owned home) (\<lambda>owned.
     bindM (ssa_forced home) (\<lambda>forced.
     thenM (api_finish home ''article-api-apply'' (JDict (owned @ forced))) (
     bindM (liftE (mapE summary (owned @ forced))) (\<lambda>short.
     py_print (dumps_raw (JDict short))))))))))"


section \<open>Quotas\<close>

definition quota_pod :: "string \<Rightarrow> string \<Rightarrow> json option \<Rightarrow> json" where
  "quota_pod ns name resources =
     JDict [(''apiVersion'', JStr ''v1''), (''kind'', JStr ''Pod''), (''metadata'', JDict [(''name'', JStr name), (''namespace'', JStr ns)]),
       (''spec'', JDict [(''containers'', JList [JDict ([(''name'', JStr ''main''), (''image'', JStr ''registry.k8s.io/pause:3.10.1'')]
          @ (case resources of None \<Rightarrow> [] | Some r \<Rightarrow> [(''resources'', r)]))])])]"

definition quota_error :: "string \<Rightarrow> string \<Rightarrow> bool" where
  "quota_error t e \<longleftrightarrow> contains e t"

definition defaults :: json where
  "defaults = (JDict
    [(''requests'', JDict [(''cpu'', JStr ''100m''), (''memory'', JStr ''32Mi'')]),
     (''limits'', JDict [(''cpu'', JStr ''200m''), (''memory'', JStr ''64Mi'')])])"

definition quota_limits :: "string \<Rightarrow> ('w, 'g, (string \<times> json) list) prog" where
  "quota_limits home =
    (thenM (api_create home (quota_pod ''article-quota'' ''defaulted'' None)) (
     bindM (api_json home [''-n'', ''article-quota'', ''get'', ''pod'', ''defaulted'', ''-o'',
           ''json'']) (\<lambda>obj.
     bindM (liftE (jpath [Sub ''spec'', Sub ''containers'', Idx 0, Sub ''resources''] obj)) (\<lambda>res.
     thenM (assertM [] (py_eq res defaults)) (
     bindM (api_call home [''create'', ''-f'', ''-''] (Some (quota_pod ''article-quota'' ''too-large'' (Some (JDict
         [(''requests'', JDict [(''cpu'', JStr ''100m''), (''memory'', JStr ''32Mi'')]),
          (''limits'', JDict [(''cpu'', JStr ''2''), (''memory'', JStr ''64Mi'')])]))))
         (Some (quota_error ''maximum cpu usage''))) (\<lambda>too_big.
     thenM (api_create home (quota_pod ''article-quota'' ''second'' None)) (
     bindM (api_call home [''create'', ''-f'', ''-''] (Some (quota_pod ''article-quota'' ''third'' None)) (Some (quota_error ''exceeded quota''))) (\<lambda>third.
     bindM (api_json home [''-n'', ''article-quota'', ''get'', ''quota'', ''budget'', ''-o'', ''json'']) (\<lambda>q.
     bindM (liftE (jsub q ''status'')) (\<lambda>st.
     returnM [(''defaulted_resources'', res), (''max_rejection'', JStr too_big), (''quota_rejection'', JStr third), (''quota'', st)]))))))))))"

definition not_running :: "json \<Rightarrow> exn + bool" where
  "not_running obj = andE (eqE (jpath [Sub ''status'', Sub ''phase''] obj) (JStr ''Pending''))
     (bindE (jpath [Sub ''spec'', get0 ''nodeName''] obj) (\<lambda>v. Inr (\<not> truth v)))"

definition quota_capacity :: "string \<Rightarrow> ('w, 'g, (string \<times> json) list) prog" where
  "quota_capacity home =
    (thenM (api_ok home [''create'', ''namespace'', ''article-quota-capacity'']) (
     thenM (api_ok home [''-n'', ''article-quota-capacity'', ''create'', ''quota'', ''generous'',
           ''--hard=requests.cpu=20000,pods=10'']) (
     thenM (api_create home (quota_pod ''article-quota-capacity'' ''no-node-fits'' (Some (JDict [(''requests'', JDict [(''cpu'', JStr ''10000'')])])))) (
     thenM (api_ok home ([''-n'', ''article-quota-capacity'', ''wait'', ''pod/no-node-fits'',
         ''--for=jsonpath={.status.conditions[0].reason}=Unschedulable'', ''--timeout=60s''])) (
     bindM (api_json home [''-n'', ''article-quota-capacity'', ''get'', ''pod'', ''no-node-fits'',
           ''-o'', ''json'']) (\<lambda>obj.
     bindM (liftE (jpath [Sub ''status'', Sub ''phase''] obj)) (\<lambda>ph.
     bindM (liftE (jpath [Sub ''status'', Sub ''conditions''] obj)) (\<lambda>cs.
     bindM (liftE (not_running obj)) (\<lambda>b.
     thenM (assertM [] b) (
     returnM [(''capacity_pod'', JDict [(''phase'', ph), (''conditions'', cs)])]))))))))))"

definition quota_run :: "string \<Rightarrow> ('w, 'g, unit) prog" where
  "quota_run home =
    (thenM (mkdir ''article-api-quota/evidence'') (
     thenM (api_guard home) (
     thenM (api_ok home [''create'', ''namespace'', ''article-quota'']) (
     thenM (api_ok home [''-n'', ''article-quota'', ''create'', ''-f'', ''article-api-quota/policy.yaml'']) (
     bindM (quota_limits home) (\<lambda>limits.
     bindM (quota_capacity home) (\<lambda>capacity.
     thenM (api_finish home ''article-api-quota'' (JDict (limits @ capacity))) (
     py_print (dumps_raw (JDict (limits @ capacity)))))))))))"


section \<open>RBAC\<close>

text \<open>\<^verbatim>\<open>call\<close> with a prefix of the command line and the text the error has to contain.\<close>

definition rbac_call :: "string \<Rightarrow> string list \<Rightarrow> json option \<Rightarrow> string option \<Rightarrow> string list \<Rightarrow> ('w, 'g, string) prog" where
  "rbac_call home args obj expected pre = bindM (api_kubectl home (pre @ args) obj) (\<lambda>p.
     let other = (if stderr p = [] then stdout p else stderr p) in
     thenM (case expected of None \<Rightarrow> assertM (stderr p) (returncode p = 0)
       | Some t \<Rightarrow> assertM other (returncode p \<noteq> 0 \<and> contains (stderr p) t))
     (returnM (if returncode p = 0 then stdout p else other)))"

definition rbac_object :: "string \<Rightarrow> string \<Rightarrow> (string \<times> json) list \<Rightarrow> json" where
  "rbac_object kind name flds = JDict (
     (''apiVersion'', JStr (if kind = ''Role'' \<or> kind = ''RoleBinding'' then ''rbac.authorization.k8s.io/v1'' else ''v1'')) #
     (''kind'', JStr kind) # (''metadata'', JDict [(''name'', JStr name), (''namespace'', JStr ''article-rbac'')]) # flds)"

definition rbac_create :: "string \<Rightarrow> string \<Rightarrow> string \<Rightarrow> (string \<times> json) list \<Rightarrow> ('w, 'g, string) prog" where
  "rbac_create home kind name flds = rbac_call home [''create'', ''-f'', ''-''] (Some (rbac_object kind name flds)) None []"

definition reader_config :: string where                                   \<comment> \<open>\<^verbatim>\<open>cfg\<close>\<close>
  "reader_config = ''tmp/article-api/reader-config.json''"

definition as_reader :: "string list" where
  "as_reader = [''--kubeconfig'', reader_config]"

definition rbac_setup :: "string \<Rightarrow> ('w, 'g, json) prog" where
  "rbac_setup home =
    (thenM (api_ok home [''create'', ''namespace'', ''article-rbac'']) (
     thenM (api_ok home [''create'', ''namespace'', ''article-rbac-other'']) (
     thenM (rbac_create home ''ServiceAccount'' ''reader'' []) (
     thenM (rbac_create home ''Pod'' ''demo'' [(''spec'', (JDict
         [(''containers'',
            JList
              [JDict [(''name'', JStr ''main''), (''image'', JStr ''registry.k8s.io/pause:3.10.1'')]])]))]) (
     thenM (rbac_create home ''Role'' ''reader'' [(''rules'', (JList
         [JDict
            [(''apiGroups'', JList [JStr []]), (''resources'', JList [JStr ''pods'']),
             (''verbs'', JList [JStr ''get'', JStr ''list''])]]))]) (
     thenM (rbac_create home ''RoleBinding'' ''reader'' [(''roleRef'', (JDict
         [(''apiGroup'', JStr ''rbac.authorization.k8s.io''), (''kind'', JStr ''Role''),
          (''name'', JStr ''reader'')])),
         (''subjects'', JList [JDict [(''kind'', JStr ''ServiceAccount''), (''name'', JStr ''reader''), (''namespace'', JStr ''article-rbac'')]])]) (
     bindM (api_json home [''config'', ''view'', ''--minify'', ''--raw'', ''-o'', ''json'']) (\<lambda>config.
     bindM (api_ok home [''-n'', ''article-rbac'', ''create'', ''token'', ''reader'',
           ''--duration=10m'']) (\<lambda>token.
     bindM (liftE (jset config ''users'' (JList [JDict [(''name'', JStr ''reader''),
         (''user'', JDict [(''token'', JStr (strip token))])]]))) (\<lambda>c1.
     liftE (jupd [Sub ''contexts'', Idx 0, Sub ''context''] (\<lambda>c. jset c ''user'' (JStr ''reader'')) c1)))))))))))"

definition rbac_denied :: "string \<Rightarrow> ('w, 'g, (string \<times> json) list) prog" where
  "rbac_denied home =
    (bindM (rbac_call home [''-n'', ''article-rbac'', ''get'', ''pod'', ''demo'', ''-o'', ''json''] None None as_reader) (\<lambda>o1.
     bindM (py_loads o1) (\<lambda>p.
     bindM (liftE (jpath [Sub ''metadata'', Sub ''name''] p)) (\<lambda>name.
     bindM (rbac_call home [''-n'', ''article-rbac'', ''get'', ''--raw'',
           ''/api/v1/namespaces/article-rbac/pods/demo/log''] None (Some ''Forbidden'') as_reader) (\<lambda>log.
     bindM (rbac_call home ([''-n'', ''article-rbac'', ''patch'', ''pod'', ''demo'', ''--type=merge'', ''-p'',
         (''{\"metadata\":{\"labels\":{\"test\":\"x\"}}}'')]) None (Some ''Forbidden'') as_reader) (\<lambda>patch.
     bindM (rbac_call home [''-n'', ''article-rbac-other'', ''get'', ''pods''] None (Some ''Forbidden'') as_reader) (\<lambda>other.
     bindM (rbac_call home [''auth'', ''can-i'', ''get'', ''pods'', ''--subresource=log'', ''-n'',
           ''article-rbac''] None (Some []) as_reader) (\<lambda>can.
     returnM [(''read_pod'', name), (''log_forbidden'', JStr log), (''patch_forbidden'', JStr patch),
         (''other_namespace_forbidden'', JStr other), (''can_get_logs_before'', JStr (strip can))]))))))))"

definition log_rule :: string where
  "log_rule = (''[{\"op\":\"add\",\"path\":\"/rules/-\",\"value\":{\"apiGroups\":[\"\"],\"resources\":[\"pods/log\"],\"verbs\":[\"get\"]}}]'')"

definition rbac_granted :: "string \<Rightarrow> json \<Rightarrow> ('w, 'g, (string \<times> json) list) prog" where
  "rbac_granted home config =
    (thenM (api_ok home [''-n'', ''article-rbac'', ''patch'', ''role'', ''reader'', ''--type=json'', ''-p'', log_rule]) (
     bindM (rbac_call home [''auth'', ''can-i'', ''get'', ''pods'', ''--subresource=log'', ''-n'',
           ''article-rbac''] None None as_reader) (\<lambda>can.
     bindM (liftE (jupd [Sub ''users'', Idx 0, Sub ''user''] (\<lambda>u. jset u ''token'' (JStr ''not-a-valid-token'')) config)) (\<lambda>bad.
     thenM (write_text reader_config (dumps bad)) (
     bindM (rbac_call home [''-n'', ''article-rbac'', ''get'', ''pods''] None (Some ''Unauthorized'') as_reader) (\<lambda>unauth.
     returnM [(''can_get_logs_after'', JStr (strip can)), (''invalid_token'', JStr unauth)]))))))"

definition rbac_body :: "string \<Rightarrow> json \<Rightarrow> ('w, 'g, unit) prog" where
  "rbac_body home config =
    (bindM (rbac_denied home) (\<lambda>denied.
     bindM (rbac_granted home config) (\<lambda>granted.
     thenM (api_finish home ''article-api-rbac'' (JDict (denied @ granted))) (
     py_print (dumps_raw (JDict (denied @ granted)))))))"

definition rbac_run :: "string \<Rightarrow> ('w, 'g, unit) prog" where
  "rbac_run home =
    (thenM (mkdir ''article-api-rbac/evidence'') (
     thenM (api_guard home) (
     bindM (rbac_setup home) (\<lambda>config.
     thenM (mkdir ''tmp/article-api'') (
     thenM (write_text reader_config (dumps config)) (
     thenM (chmod reader_config 384) (
     finallyM (rbac_body home config) (unlink reader_config))))))))"


section \<open>Admission webhooks\<close>

definition ADM_DIR :: string where
  "ADM_DIR = ''article-api-admission''"

definition ADM_TLS :: string where                                         \<comment> \<open>\<^verbatim>\<open>scratch\<close>\<close>
  "ADM_TLS = ''tmp/article-api/tls''"

definition adm_error :: "string \<Rightarrow> string \<Rightarrow> bool" where
  "adm_error t e \<longleftrightarrow> contains (lower e) (lower t)"

definition adm_map :: "string \<Rightarrow> string \<Rightarrow> bool \<Rightarrow> json" where
  "adm_map namespace name deny =
     JDict [(''apiVersion'', JStr ''v1''), (''kind'', JStr ''ConfigMap''), (''metadata'', JDict [(''namespace'', JStr namespace), (''name'', JStr name)]),
       (''data'', JDict [(''deny'', JStr (if deny then ''true'' else ''false''))])]"

definition adm_create :: "string \<Rightarrow> string \<Rightarrow> bool \<Rightarrow> string option \<Rightarrow> string \<Rightarrow> ('w, 'g, string) prog" where
  "adm_create home name deny err namespace =
     api_call home [''create'', ''-f'', ''-''] (Some (adm_map namespace name deny)) (map_option adm_error err)"

definition adm_policy :: "string \<Rightarrow> string \<Rightarrow> string \<Rightarrow> string \<Rightarrow> json" where
  "adm_policy gateway ca kind path = JDict
     [(''apiVersion'', JStr ''admissionregistration.k8s.io/v1''), (''kind'', JStr kind), (''metadata'', JDict [(''name'', JStr (''article-'' @ path))]),
      (''webhooks'', JList [JDict
        [(''name'', JStr (path @ ''.article.example'')), (''admissionReviewVersions'', JList [JStr ''v1'']), (''sideEffects'', JStr ''None''),
         (''failurePolicy'', JStr ''Fail''), (''timeoutSeconds'', JInt 1),
         (''namespaceSelector'', JDict [(''matchLabels'', JDict [(''article-admission'', JStr ''enabled'')])]),
         (''clientConfig'', JDict [(''url'', JStr (''https://'' @ gateway @ '':19443/'' @ path)), (''caBundle'', JStr ca)]),
         (''rules'', (JList
           [JDict
              [(''operations'', JList [JStr ''CREATE'']), (''apiGroups'', JList [JStr []]),
               (''apiVersions'', JList [JStr ''v1'']), (''resources'', JList [JStr ''configmaps''])]]))]])]"

definition openssl_args :: "string \<Rightarrow> string list" where
  "openssl_args gateway = [''openssl'', ''req'', ''-x509'', ''-newkey'', ''rsa:2048'', ''-nodes'', ''-days'', ''1'', ''-subj'', ''/CN=article-webhook'',
     ''-addext'', ''subjectAltName=IP:'' @ gateway, ''-keyout'', ADM_TLS @ ''/server.key'', ''-out'', ADM_TLS @ ''/server.crt'']"

definition start_webhook :: "string list" where
  "start_webhook = [''docker'', ''run'', ''--detach'', ''--rm'', ''--name'', ''article-api-webhook'', ''--network'',
     ''container:article-api-control-plane'', ''-v'', ADM_DIR @ '':/work:ro'', ''-v'', ADM_TLS @ '':/tls:ro'', ''python:3.12-alpine'', ''python'', ''-u'',
     ''/work/webhook.py'']"

definition webhook_up :: "int \<Rightarrow> ('w, 'g, unit) prog" where
  "webhook_up deadline = loopM
    (bindM (run_process [''docker'', ''exec'', ''article-api-webhook'', ''python'', ''-c'',
         (''import socket; socket.create_connection(('' @ [CHR 0x27] @ ''127.0.0.1'' @ [CHR 0x27] @ '', 19443), timeout=1).close()'')] None None) (\<lambda>r.
     (if returncode r = 0 then returnM (Some ())
        else bindM monotonic (\<lambda>t. thenM (assertM (stderr r) (t < deadline)) (returnM None)))))"

definition adm_start :: "string \<Rightarrow> ('w, 'g, string \<times> string) prog" where
  "adm_start home =
    (bindM (check_output [''docker'', ''inspect'', ''article-api-control-plane'', ''--format'',
         (''{{(index .NetworkSettings.Networks \"kind\").IPAddress}}'')] None) (\<lambda>g.
     let gateway = strip g in
     thenM (check_run (openssl_args gateway) None) (
     thenM (check_run start_webhook None) (
     bindM monotonic (\<lambda>t.
     thenM (webhook_up (t + 30000)) (
     bindM (read_text (ADM_TLS @ ''/server.crt'')) (\<lambda>crt.
     thenM (api_ok home [''create'', ''namespace'', ''article-admission'']) (
     thenM (api_ok home [''label'', ''namespace'', ''article-admission'', ''article-admission=enabled'']) (
     returnM (gateway, b64encode crt))))))))))"

text \<open>\<^verbatim>\<open>for i in range(n): \<dots> else: \<dots>\<close>, with the index.\<close>

fun countM :: "nat list \<Rightarrow> (nat \<Rightarrow> ('w, 'g, 'a option) prog) \<Rightarrow> ('w, 'g, 'a) prog \<Rightarrow> ('w, 'g, 'a) prog" where
  "countM [] body els = els"
| "countM (i # is) body els = bindM (body i) (\<lambda>r. case r of Some x \<Rightarrow> returnM x | None \<Rightarrow> countM is body els)"

definition mutated_round :: "string \<Rightarrow> int \<Rightarrow> nat \<Rightarrow> ('w, 'g, json option) prog" where
  "mutated_round home deadline i =
    (let name = ''ready-'' @ nat_str i in
     thenM (adm_create home name False None ''article-admission'') (
     bindM (api_json home [''-n'', ''article-admission'', ''get'', ''cm'', name, ''-o'', ''json'']) (\<lambda>obj.
     bindM (liftE (jpath [Sub ''metadata'', Get ''annotations'' emptyD, get0 ''article.example/mutated''] obj)) (\<lambda>v.
     (if py_eq v (JStr ''yes'') then bindM (liftE (jpath [Sub ''metadata'', Sub ''annotations''] obj)) (\<lambda>a. returnM (Some a))
        else bindM monotonic (\<lambda>t. thenM (assertM ''webhook configuration did not propagate'' (t < deadline)) (returnM None)))))))"

text \<open>The loops that create a ConfigMap until it is accepted; the errors on the way have to contain \<open>text\<close>.\<close>

definition accepted :: "string \<Rightarrow> string \<Rightarrow> string \<Rightarrow> int \<Rightarrow> ('w, 'g, string) prog" where
  "accepted home name text deadline = loopM
    (bindM (api_kubectl home [''-n'', ''article-admission'', ''create'', ''configmap'', name] None) (\<lambda>p.
     (if returncode p = 0 then returnM (Some (strip (stdout p)))
        else if contains (stderr p) text
        then bindM monotonic (\<lambda>t. thenM (assertM (stderr p) (t < deadline)) (returnM None))
        else raiseM (AssertionError (stderr p)))))"

definition until_accepted :: "string \<Rightarrow> string \<Rightarrow> string \<Rightarrow> ('w, 'g, string) prog" where
  "until_accepted home name text = bindM monotonic (\<lambda>t. accepted home name text (t + 30000))"

definition failure_policy :: "string \<Rightarrow> string" where
  "failure_policy v = (''[{\"op\":\"replace\",\"path\":\"/webhooks/0/failurePolicy\",\"value\":\"'') @ v @ (''\"}]'')"

definition set_failure_policy :: "string \<Rightarrow> string \<Rightarrow> ('w, 'g, string) prog" where
  "set_failure_policy home v = api_ok home
     [''patch'', ''validatingwebhookconfiguration'', ''article-validate'', ''--type=json'', ''-p'', failure_policy v]"

definition adm_webhook :: "string \<Rightarrow> ('w, 'g, (string \<times> json) list) prog" where
  "adm_webhook home =
    (bindM monotonic (\<lambda>t.
     bindM (countM [0..<300] (mutated_round home (t + 30000)) (raiseM (AssertionError ''mutation not observed''))) (\<lambda>ann.
     bindM (adm_create home ''denied'' True (Some ''article policy denied'') ''article-admission'') (\<lambda>deny.
     thenM (set_failure_policy home ''Ignore'') (
     bindM (until_accepted home ''timeout-ignore'' ''deadline exceeded'') (\<lambda>ign1.
     bindM (adm_create home ''still-denied'' True (Some ''article policy denied'') ''article-admission'') (\<lambda>deny2.
     thenM (set_failure_policy home ''Fail'') (
     bindM (adm_create home ''timeout-fail'' False (Some ''deadline exceeded'') ''article-admission'') (\<lambda>late.
     returnM [(''mutated'', ann), (''explicit_deny'', JStr deny), (''timeout_ignore'', JStr ign1), (''deny_with_ignore'', JStr deny2),
         (''timeout_fail'', JStr late)])))))))))"

definition adm_unavailable :: "string \<Rightarrow> json \<Rightarrow> ('w, 'g, (string \<times> json) list) prog" where
  "adm_unavailable home validate =
    (thenM (api_ok home [''delete'', ''mutatingwebhookconfiguration'', ''article-mutate'']) (
     bindM (check_output [''docker'', ''logs'', ''article-api-webhook''] None) (\<lambda>logs.
     thenM (check_run [''docker'', ''stop'', ''article-api-webhook''] None) (
     bindM (adm_create home ''unavailable-fail'' False (Some ''failed calling webhook'') ''article-admission'') (\<lambda>fail.
     bindM (adm_create home ''unmatched'' False None ''default'') (\<lambda>other.
     bindM (liftE (jupd [Sub ''webhooks'', Idx 0] (\<lambda>w. jset w ''failurePolicy'' (JStr ''Ignore'')) validate)) (\<lambda>v.
     thenM (api_call home [''apply'', ''-f'', ''-''] (Some v) None) (
     bindM (until_accepted home ''unavailable-ignore'' ''failed calling webhook'') (\<lambda>ok.
     returnM [(''webhook_requests'', JStr logs), (''unavailable_fail'', JStr fail), (''unmatched_namespace'', JStr (strip other)),
         (''unavailable_ignore'', JStr ok)])))))))))"

definition safe_pod :: json where
  "safe_pod = (JDict
    [(''apiVersion'', JStr ''v1''), (''kind'', JStr ''Pod''),
     (''metadata'', JDict [(''name'', JStr ''compliant''), (''namespace'', JStr ''article-psa'')]),
     (''spec'',
       JDict
         [(''securityContext'',
            JDict
              [(''runAsNonRoot'', JBool True), (''runAsUser'', JInt 65532),
               (''seccompProfile'', JDict [(''type'', JStr ''RuntimeDefault'')])]),
          (''containers'',
            JList
              [JDict
                 [(''name'', JStr ''main''), (''image'', JStr ''registry.k8s.io/pause:3.10.1''),
                  (''securityContext'',
                    JDict
                      [(''allowPrivilegeEscalation'', JBool False),
                       (''capabilities'', JDict [(''drop'', JList [JStr ''ALL''])])])]])])])"

definition adm_psa :: "string \<Rightarrow> ('w, 'g, (string \<times> json) list) prog" where
  "adm_psa home =
    (thenM (api_ok home [''create'', ''namespace'', ''article-psa'']) (
     thenM (api_ok home [''label'', ''namespace'', ''article-psa'',
           ''pod-security.kubernetes.io/enforce=restricted'',
           ''pod-security.kubernetes.io/enforce-version=v1.35'']) (
     bindM (api_call home [''-n'', ''article-psa'', ''run'', ''privileged'',
           ''--image=registry.k8s.io/pause:3.10.1'', ''--privileged=true''] None
         (Some (adm_error ''violates PodSecurity''))) (\<lambda>rej.
     bindM (api_create home safe_pod) (\<lambda>ok.
     returnM [(''psa_reject'', JStr rej), (''psa_allow'', JStr (strip ok))])))))"

definition adm_body :: "string \<Rightarrow> json \<Rightarrow> json \<Rightarrow> ('w, 'g, unit) prog" where
  "adm_body home mutate validate =
    (thenM (api_create home mutate) (
     thenM (api_create home validate) (
     bindM (adm_webhook home) (\<lambda>r1.
     bindM (adm_unavailable home validate) (\<lambda>r2.
     bindM (adm_psa home) (\<lambda>r3.
     thenM (api_finish home ADM_DIR (JDict (r1 @ r2 @ r3))) (
     py_print (dumps_raw (JDict (r1 @ r2 @ r3))))))))))"

definition adm_cleanup :: "string \<Rightarrow> ('w, 'g, unit) prog" where
  "adm_cleanup home =
    (thenM (api_ok home [''delete'', ''mutatingwebhookconfiguration'', ''article-mutate'',
           ''--ignore-not-found'']) (
     thenM (api_ok home [''delete'', ''validatingwebhookconfiguration'', ''article-validate'',
           ''--ignore-not-found'']) (
     thenM (run_process [''docker'', ''rm'', ''-f'', ''article-api-webhook''] None None) (
     thenM (unlink (ADM_TLS @ ''/server.key'')) (
     unlink (ADM_TLS @ ''/server.crt''))))))"

definition admission_run :: "string \<Rightarrow> ('w, 'g, unit) prog" where
  "admission_run home =
    (thenM (mkdir (ADM_DIR @ ''/evidence'')) (
     thenM (mkdir ADM_TLS) (
     thenM (api_guard home) (
     bindM (adm_start home) (\<lambda>p.
     finallyM (adm_body home (adm_policy (fst p) (snd p) ''MutatingWebhookConfiguration'' ''mutate'')
           (adm_policy (fst p) (snd p) ''ValidatingWebhookConfiguration'' ''validate''))
         (adm_cleanup home))))))"

end
