(* ===== verification/ApiSafety.thy ===== *)
theory ApiSafety
  imports ApiRun
begin

text \<open>
  The API experiments end, change nothing before they have recognised their cluster, remove the credentials and webhooks they
  have created, and what they have seen when they return normally.
\<close>

section \<open>They end\<close>

lemma api_calls_run [runs_intros]:
  assumes "clock_ok os now"
  shows "runs os now (api_kubectl home args obj)" "runs os now (api_call home args obj err)" "runs os now (api_json home args)"
    "runs os now (api_guard home)" "runs os now (api_finish home dir results)" "runs os now (rbac_call home args obj expected pre)"
    "runs os now (adm_create home name deny e namespace)" "runs os now (ssa home manager data force conflict)"
  unfolding api_kubectl_def api_call_def api_json_def api_guard_def api_finish_def rbac_call_def adm_create_def ssa_def Let_def
  by (intro runs_intros assms)+

lemma api_busy: "busy os now \<Longrightarrow> ticks os now C (api_kubectl home args obj)"
  unfolding api_kubectl_def by (auto simp: ticks_def run_simps dest: ticks_run_process [unfolded ticks_def, rule_format])

lemma countM_runs [runs_intros]:
  "(\<And>i. runs os now (body i)) \<Longrightarrow> runs os now els \<Longrightarrow> runs os now (countM is body els)"
  by (induction "is") (auto intro!: runs_intros split: option.splits)

text \<open>A deadline that is an assertion.\<close>

lemma within_assert:
  assumes "clock_ok os now"
  shows "within os now D C (bindM monotonic (\<lambda>t. thenM (assertM msg (t < D)) n))"
proof -
  have "bindM monotonic (\<lambda>t. thenM (assertM msg (t < D)) n) = bindM monotonic (\<lambda>t. if D \<le> t then raiseM (AssertionError msg) else n)"
    by (intro arg_cong [of _ _ "bindM monotonic"] ext) (auto simp: assertM_def thenM_def)
  then show ?thesis using within_deadline [OF assms] by metis
qed

lemma within_raiseM: "within os now D C (raiseM e)"
  by (simp add: within_def raiseM_def)

lemma adm_loops_run [runs_intros]:
  assumes "clock_ok os now" and "busy os now"
  shows "runs os now (webhook_up D)" "runs os now (accepted home name txt D)"
  unfolding webhook_up_def accepted_def
  by (rule runs_loop_within [where D = D]; intro assms runs_intros ticks_first api_busy ticks_run_process
      within_assert within_raiseM within_if within_returnM within_bindM; simp)+

lemma api_runs:
  assumes "clock_ok os now"
  shows "runs os now (apply_run home)" "runs os now (quota_run home)" "runs os now (rbac_run home)"
    "busy os now \<Longrightarrow> runs os now (admission_run home)"
  unfolding apply_run_def ssa_owned_def ssa_forced_def ssa_state_def quota_run_def quota_limits_def quota_capacity_def
    rbac_run_def rbac_setup_def rbac_body_def rbac_denied_def rbac_granted_def rbac_create_def
    admission_run_def adm_start_def adm_body_def adm_webhook_def adm_unavailable_def adm_psa_def adm_cleanup_def
    mutated_round_def until_accepted_def set_failure_policy_def Let_def
  by (intro runs_intros assms; simp)+


section \<open>They recognise their cluster first\<close>

text \<open>
  Before the current context was seen to be \<open>ctx\<close> nothing happened but making directories and asking for it; what comes after needs that
  answer and an explicit \<^verbatim>\<open>KUBECONFIG\<close>.
\<close>

definition asks :: "event \<Rightarrow> bool" where
  "asks e = (case e of MadeDir _ \<Rightarrow> True | Ran args None _ \<Rightarrow> tl args = [''config'', ''current-context''] | _ \<Rightarrow> False)"

definition recognised :: "string \<Rightarrow> event \<Rightarrow> bool" where
  "recognised ctx e = (case e of Ran args None (Inr r) \<Rightarrow> tl args = [''config'', ''current-context''] \<and> returncode r = 0 \<and> strip (stdout r) = ctx
     | _ \<Rightarrow> False)"

definition cautious :: "'w os \<Rightarrow> string \<Rightarrow> event list \<Rightarrow> bool" where
  "cautious os ctx es \<longleftrightarrow> (\<exists>fs gs. es = fs @ gs \<and> list_all asks fs \<and>
     (gs \<noteq> [] \<longrightarrow> environ os ''KUBECONFIG'' \<notin> {None, Some []} \<and> list_ex (recognised ctx) fs))"

lemma cautious_prefix:
  assumes "emits os asks m" and "leaves os (cautious os ctx) n"
  shows "leaves os (cautious os ctx) (thenM m n)"
proof (rule leavesI)
  have grow: "cautious os ctx (hs @ es)" if "list_all asks hs" "cautious os ctx es" for hs es
  proof -
    from that(2) obtain fs gs where "es = fs @ gs" "list_all asks fs"
      "gs \<noteq> [] \<longrightarrow> environ os ''KUBECONFIG'' \<notin> {None, Some []} \<and> list_ex (recognised ctx) fs" unfolding cautious_def by blast
    with that(1) show ?thesis unfolding cautious_def by (intro exI [of _ "hs @ fs"] exI [of _ gs]) auto
  qed
  fix s r s'
  assume "thenM m n os s = Some (r, s')"
  then show "\<exists>es. trace s' = trace s @ es \<and> cautious os ctx es"
    unfolding thenM_def
  proof (cases rule: bindM_SomeE)
    case (1 e)
    from assms(1) 1(1) obtain es where "trace s' = trace s @ es" "list_all asks es" by (rule emitsD)
    then show ?thesis by (auto simp: cautious_def)
  next
    case (2 a s1)
    from assms(1) 2(1) obtain hs where "trace s1 = trace s @ hs" "list_all asks hs" by (rule emitsD)
    moreover from assms(2) 2(2) obtain es where "trace s' = trace s1 @ es" "cautious os ctx es" by (rule leavesD)
    ultimately show ?thesis using grow by auto
  qed
qed

lemma cautious_guard:
  assumes "emits os asks m" and "\<And>es. wp os m (\<lambda>_ gs. environ os ''KUBECONFIG'' \<notin> {None, Some []} \<and>
      (\<exists>fs. gs = es @ fs \<and> list_ex (recognised ctx) fs)) es" and "emits os (\<lambda>_. True) n"
  shows "leaves os (cautious os ctx) (thenM m n)"
proof (rule leavesI)
  fix s r s'
  assume "thenM m n os s = Some (r, s')"
  then show "\<exists>es. trace s' = trace s @ es \<and> cautious os ctx es"
    unfolding thenM_def
  proof (cases rule: bindM_SomeE)
    case (1 e)
    from assms(1) 1(1) obtain es where "trace s' = trace s @ es" "list_all asks es" by (rule emitsD)
    then show ?thesis by (auto simp: cautious_def)
  next
    case (2 a s1)
    from assms(1) 2(1) obtain hs where hs: "trace s1 = trace s @ hs" "list_all asks hs" by (rule emitsD)
    moreover from wpD [OF assms(2) 2(1)] hs(1) have "environ os ''KUBECONFIG'' \<notin> {None, Some []} \<and> list_ex (recognised ctx) hs" by auto
    moreover from assms(3) 2(2) obtain gs where "trace s' = trace s1 @ gs" by (rule emitsD)
    ultimately show ?thesis unfolding cautious_def by auto
  qed
qed

lemma wp_api_kubectl [wp_intros]:
  "(\<And>r. Q r (es @ [Ran (api_bin home (environ os ''KUBECTL'') # args) (map_option dumps obj) (Inr r)])) \<Longrightarrow> wp os (api_kubectl home args obj) Q es"
  unfolding api_kubectl_def by (intro wp_intros)

lemma wp_api_call [wp_intros]:
  "(\<And>r. returncode r = 0 \<Longrightarrow> Q (stdout r) (es @ [Ran (api_bin home (environ os ''KUBECTL'') # args) (map_option dumps obj) (Inr r)])) \<Longrightarrow>
    wp os (api_call home args obj None) Q es"
  "(\<And>r. returncode r \<noteq> 0 \<Longrightarrow> f (stderr r) \<Longrightarrow>
      Q (stderr r) (es @ [Ran (api_bin home (environ os ''KUBECTL'') # args) (map_option dumps obj) (Inr r)])) \<Longrightarrow>
    wp os (api_call home args obj (Some f)) Q es"
  unfolding api_call_def by (intro wp_intros; simp; intro wp_intros; simp)+

lemma emits_api_kubectl [emits_intros]:
  "(\<And>b r. P (Ran (b # args) (map_option dumps obj) r)) \<Longrightarrow> emits os P (api_kubectl home args obj)"
  unfolding api_kubectl_def by (intro emits_intros; simp)

lemma emits_api_call [emits_intros]:
  "(\<And>b r. P (Ran (b # args) (map_option dumps obj) r)) \<Longrightarrow> emits os P (api_call home args obj err)"
  unfolding api_call_def by (intro emits_intros; simp)

lemma api_recognised: "emits os (\<lambda>_. True) n \<Longrightarrow> leaves os (cautious os API_CONTEXT) (thenM (api_guard home) n)"
proof (rule cautious_guard)
  show "emits os asks (api_guard home)"
    unfolding api_guard_def by (intro emits_intros; simp add: asks_def)
  show "wp os (api_guard home) (\<lambda>_ gs. environ os ''KUBECONFIG'' \<notin> {None, Some []} \<and>
      (\<exists>fs. gs = es @ fs \<and> list_ex (recognised API_CONTEXT) fs)) es" for es
    unfolding api_guard_def by (intro wp_intros; simp add: recognised_def)
qed

lemma api_appends [emits_intros]:
  "emits os (\<lambda>_. True) (api_json home args)" "emits os (\<lambda>_. True) (api_finish home dir results)" "emits os (\<lambda>_. True) (rbac_call home args obj expected pre)"
  "emits os (\<lambda>_. True) (adm_create home name deny e namespace)" "emits os (\<lambda>_. True) (ssa home manager data force conflict)"
  unfolding api_json_def api_finish_def rbac_call_def adm_create_def ssa_def Let_def by (intro emits_intros; simp)+

lemma emits_countM [emits_intros]:
  "(\<And>i. emits os P (body i)) \<Longrightarrow> emits os P els \<Longrightarrow> emits os P (countM is body els)"
  by (induction "is") (auto intro!: emits_intros split: option.splits)

lemmas api_parts = ssa_owned_def ssa_forced_def ssa_state_def quota_limits_def quota_capacity_def rbac_setup_def rbac_body_def rbac_denied_def
  rbac_granted_def rbac_create_def adm_start_def adm_webhook_def adm_unavailable_def adm_psa_def adm_cleanup_def mutated_round_def
  until_accepted_def accepted_def webhook_up_def set_failure_policy_def

lemma adm_body_appends: "emits os (\<lambda>_. True) (adm_body home mutate validate)"
  unfolding adm_body_def api_parts Let_def by (intro emits_intros TrueI)

lemma api_cautious:
  "leaves os (cautious os API_CONTEXT) (apply_run home)" "leaves os (cautious os API_CONTEXT) (quota_run home)"
  "leaves os (cautious os API_CONTEXT) (rbac_run home)" "leaves os (cautious os API_CONTEXT) (admission_run home)"
  unfolding apply_run_def quota_run_def rbac_run_def admission_run_def api_parts Let_def
  by (intro cautious_prefix api_recognised emits_intros adm_body_appends; simp add: asks_def)+


section \<open>They clean up\<close>

text \<open>The file with the token of the test account.\<close>

lemma chmod_bracket:
  assumes "\<And>r. down (Chmod p m r) \<Longrightarrow> r = Inr ()" and "leaves os (list_ex up) release"
    and "leaves os (followed down up) body" and "leaves os (followed down up) release"
  shows "leaves os (followed down up) (thenM (chmod p m) (finallyM body release))"
  unfolding thenM_def by (rule leaves_bracket [OF _ assms(3,4)]) (auto simp: chmod_def elim!: prim_SomeE dest: assms(1) intro: assms(2))

lemma rbac_credentials_removed:
  "leaves os (followed (\<lambda>e. e = Chmod reader_config 384 (Inr ())) (\<lambda>e. e = Unlinked reader_config)) (rbac_run home)"
proof -
  have bracket: "leaves os (followed (\<lambda>e. e = Chmod reader_config 384 (Inr ())) (\<lambda>e. e = Unlinked reader_config))
      (thenM (chmod reader_config 384) (finallyM (rbac_body home config) (unlink reader_config)))" for config
  proof (rule chmod_bracket)
    show "leaves os (followed (\<lambda>e. e = Chmod reader_config 384 (Inr ())) (\<lambda>e. e = Unlinked reader_config)) (rbac_body home config)"
      unfolding rbac_body_def api_parts api_json_def api_finish_def rbac_call_def Let_def by (intro leaves_quiet emits_intros; simp)
    show "leaves os (list_ex (\<lambda>e. e = Unlinked reader_config)) (unlink reader_config)"
      unfolding unlink_def by (rule leaves_prim) simp
    show "leaves os (followed (\<lambda>e. e = Chmod reader_config 384 (Inr ())) (\<lambda>e. e = Unlinked reader_config)) (unlink reader_config)"
      by (intro leaves_quiet emits_intros) simp
  qed simp
  show ?thesis
    unfolding rbac_run_def api_guard_def rbac_setup_def rbac_create_def rbac_call_def api_json_def Let_def
    by (intro followed.leaves_bindM followed.leaves_thenM bracket; intro leaves_quiet emits_intros; simp)
qed

text \<open>
  The clean-up of the admission experiment has three commands; one that fails keeps the later ones from being run. \<open>undoes i\<close> is the event
  of the \<open>i\<close>-th of them, or of the failure of one before.
\<close>

definition adm_steps :: "string \<Rightarrow> string list list" where
  "adm_steps k = [k # [''delete'', ''mutatingwebhookconfiguration'', ''article-mutate'', ''--ignore-not-found''],
     k # [''delete'', ''validatingwebhookconfiguration'', ''article-validate'', ''--ignore-not-found''],
     [''docker'', ''rm'', ''-f'', ''article-api-webhook'']]"

definition undoes :: "string \<Rightarrow> nat \<Rightarrow> event \<Rightarrow> bool" where
  "undoes k i e \<longleftrightarrow> attempted (adm_steps k ! i) e \<or> (\<exists>c \<in> set (take i (adm_steps k)). attempted c e \<and> \<not> carried_out c e)"

definition sent :: "event \<Rightarrow> bool" where
  "sent e = (case e of Ran _ (Some _) _ \<Rightarrow> True | _ \<Rightarrow> False)"

lemma api_call_trace:
  assumes "api_call home args obj None os s = Some (r, s')"
  shows "\<exists>p. trace s' = trace s @ [Ran (api_bin home (environ os ''KUBECTL'') # args) (map_option dumps obj) p] \<and>
    ((\<exists>a. r = Inr a) \<longleftrightarrow> (\<exists>q. p = Inr q \<and> returncode q = 0))"
  using assms unfolding api_call_def api_kubectl_def run_process_def assertM_def
  by (auto simp: run_simps prim_def split: prod.splits sum.splits if_splits)

lemma less_three: "i < 3 \<longleftrightarrow> i = 0 \<or> i = Suc 0 \<or> i = (2 :: nat)"
  by auto

lemma adm_cleanup_undoes:
  assumes "i < 3"
  shows "leaves os (list_ex (undoes (api_bin home (environ os ''KUBECTL'')) i)) (adm_cleanup home)"
proof (rule leavesI)
  let ?k = "api_bin home (environ os ''KUBECTL'')"
  fix s :: "('a, 'b) st" and r s'
  let ?rest = "thenM (run_process [''docker'', ''rm'', ''-f'', ''article-api-webhook''] None None) (thenM (unlink (ADM_TLS @ ''/server.key''))
    (unlink (ADM_TLS @ ''/server.crt'')))"
  assume "adm_cleanup home os s = Some (r, s')"
  then have run: "bindM (api_ok home (tl (adm_steps ?k ! 0))) (\<lambda>_. bindM (api_ok home (tl (adm_steps ?k ! 1))) (\<lambda>_. ?rest)) os s = Some (r, s')"
    unfolding adm_cleanup_def adm_steps_def thenM_def by simp
  from run show "\<exists>es. trace s' = trace s @ es \<and> list_ex (undoes ?k i) es"
  proof (cases rule: bindM_SomeE)
    case (1 e)
    from api_call_trace [OF 1(1)] show ?thesis using assms 1(2) by (auto simp: less_three undoes_def adm_steps_def)
  next
    case (2 a s1)
    obtain p where p: "trace s1 = trace s @ [Ran (adm_steps ?k ! 0) None p]"
      using api_call_trace [OF 2(1)] by (auto simp: adm_steps_def)
    from 2(2) show ?thesis
    proof (cases rule: bindM_SomeE)
      case (1 e)
      from api_call_trace [OF 1(1)] show ?thesis using assms p 1(2) by (auto simp: less_three undoes_def adm_steps_def)
    next
      case (2 b s2)
      obtain q where q: "trace s2 = trace s1 @ [Ran (adm_steps ?k ! 1) None q]"
        using api_call_trace [OF 2(1)] by (auto simp: adm_steps_def)
      have "leaves os (list_ex (attempted (adm_steps ?k ! 2))) ?rest"
        unfolding thenM_def by (intro leaves_first) (auto simp: run_process_def adm_steps_def intro!: leaves_prim emits_intros)
      then obtain es where "trace s' = trace s2 @ es" "list_ex (attempted (adm_steps ?k ! 2)) es" using 2(2) by (rule leavesD)
      with p q show ?thesis using assms by (auto simp: less_three undoes_def list_ex_iff)
    qed
  qed
qed

lemma admission_undone:
  "i < 3 \<Longrightarrow> leaves os (followed sent (undoes (api_bin home (environ os ''KUBECTL'')) i)) (admission_run home)"
  unfolding admission_run_def adm_start_def webhook_up_def api_guard_def Let_def
  by (intro followed.leaves_bindM followed.leaves_thenM leaves_finally adm_cleanup_undoes adm_body_appends;
      (assumption | (unfold adm_cleanup_def)?, intro leaves_quiet emits_intros; simp add: sent_def))


section \<open>What they have seen\<close>

text \<open>\<open>given args obj P\<close>: a command that got \<open>obj\<close> on its standard input and was answered by a result with property \<open>P\<close>.\<close>

definition given :: "string list \<Rightarrow> json \<Rightarrow> (proc \<Rightarrow> bool) \<Rightarrow> event \<Rightarrow> bool" where
  "given args obj P e \<longleftrightarrow> (case e of Ran a (Some t) (Inr r) \<Rightarrow> a = args \<and> t = dumps obj \<and> P r | _ \<Rightarrow> False)"

definition taken :: "proc \<Rightarrow> bool" where
  "taken r \<longleftrightarrow> returncode r = 0"

definition denied :: "(string \<Rightarrow> bool) \<Rightarrow> proc \<Rightarrow> bool" where
  "denied f r \<longleftrightarrow> returncode r \<noteq> 0 \<and> f (stderr r)"

lemma given_simps [simp]:
  "given args obj P (Ran a i (Inr r)) \<longleftrightarrow> a = args \<and> i = Some (dumps obj) \<and> P r" "\<not> given args obj P (Wrote f x)"
  "\<not> given args obj P (Printed x)" "\<not> given args obj P (Clock c)" "\<not> given args obj P (MadeDir d)" "\<not> given args obj P (Chmod f m z)"
  by (auto simp: given_def split: option.splits)

definition creates :: "string \<Rightarrow> json \<Rightarrow> (proc \<Rightarrow> bool) \<Rightarrow> event \<Rightarrow> bool" where
  "creates k = given [k, ''create'', ''-f'', ''-'']"

text \<open>
  Server-side apply: a field of another manager is refused, a field its manager no longer applies goes away while that of the other manager stays, a forced
  apply takes a field over and then refuses its old owner, and an ordinary patch changes it.
\<close>

definition ssa_by :: "string \<Rightarrow> string \<Rightarrow> bool \<Rightarrow> (string \<times> json) list \<Rightarrow> (proc \<Rightarrow> bool) \<Rightarrow> event \<Rightarrow> bool" where
  "ssa_by k manager force data = given (k # [''apply'', ''--server-side'', ''--field-manager='' @ manager] @
     (if force then [''--force-conflicts''] else []) @ [''-f'', ''-'']) (shared_map (JDict data))"

definition shared_is :: "string \<Rightarrow> (json \<Rightarrow> exn + bool) \<Rightarrow> event \<Rightarrow> bool" where
  "shared_is k c = replied [k, ''-n'', ''article-apply'', ''get'', ''cm'', ''shared'', ''-o'', ''json'', ''--show-managed-fields'']
     (answered_json (\<lambda>obj. bindE (jsub obj ''data'') c))"

definition data_is :: "string \<Rightarrow> string \<Rightarrow> json \<Rightarrow> exn + bool" where
  "data_is key v d = eqE (jpath [Sub key] d) (JStr v)"

definition only_owner :: "json \<Rightarrow> exn + bool" where
  "only_owner d = andE (notE (jin (JStr ''obsolete'') d)) (data_is ''owner'' ''team-b'' d)"

definition owned_seen :: "string \<Rightarrow> (event \<Rightarrow> bool) list" where
  "owned_seen k =
     [ssa_by k ''team-a'' False [(''color'', JStr ''blue''), (''obsolete'', JStr ''remove-me'')] taken,
      ssa_by k ''team-b'' False [(''color'', JStr ''red'')] (denied conflict_error),
      ssa_by k ''team-b'' False [(''owner'', JStr ''team-b'')] taken, ssa_by k ''team-a'' False [(''color'', JStr ''blue'')] taken,
      shared_is k only_owner]"

definition forced_seen :: "string \<Rightarrow> (event \<Rightarrow> bool) list" where
  "forced_seen k =
     [ssa_by k ''team-b'' True [(''color'', JStr ''red''), (''owner'', JStr ''team-b'')] taken,
      shared_is k (data_is ''color'' ''red''), ssa_by k ''team-a'' False [(''color'', JStr ''blue'')] (denied conflict_error),
      shared_is k (data_is ''color'' ''green'')]"

definition apply_seen :: "string \<Rightarrow> (event \<Rightarrow> bool) list" where
  "apply_seen k = owned_seen k @ forced_seen k"

lemmas api_seen_defs = taken_def denied_def creates_def ssa_by_def shared_is_def only_owner_def data_is_def answered_json_def api_json_def api_finish_def
  ssa_def ssa_state_def eqE_def andE_def notE_def color_is_def

lemma api_prelude:
  "observes os n ps \<Longrightarrow> observes os (thenM (mkdir d) (thenM (api_guard home) n)) ps"
  "observes os n ps \<Longrightarrow> observes os (thenM (api_ok home args) n) ps"
  unfolding api_guard_def by (intro observes_then_skip emits_intros TrueI; assumption)+

lemma observes_bind_last: "observes os m ps \<Longrightarrow> (\<And>v. emits os (\<lambda>_. True) (f v)) \<Longrightarrow> observes os (bindM m f) ps"
  using observes_bindM [OF _ observes_nil, of os m ps f] by simp

lemma owned_observes: "observes os (ssa_owned home) (owned_seen (api_bin home (environ os ''KUBECTL'')))"
  unfolding ssa_owned_def owned_seen_def api_seen_defs red_def blue_def if_True if_False
  by (rule observesI, intro wp_intros; simp add: observed)

lemma forced_observes: "observes os (ssa_forced home) (forced_seen (api_bin home (environ os ''KUBECTL'')))"
  unfolding ssa_forced_def forced_seen_def api_seen_defs red_def blue_def if_True if_False
  by (rule observesI, intro wp_intros; simp add: observed)

lemma apply_observes: "observes os (apply_run home) (apply_seen (api_bin home (environ os ''KUBECTL'')))"
  unfolding apply_run_def apply_seen_def
  by (intro api_prelude observes_bindM observes_bind_last owned_observes forced_observes emits_intros TrueI)

text \<open>
  Quotas: a container without resources got the defaults, one over the maximum and a third pod were refused, and a pod that the quota allows but
  no node can hold stayed pending.
\<close>

definition got_defaults :: "json \<Rightarrow> exn + bool" where
  "got_defaults p = eqE (jpath [Sub ''spec'', Sub ''containers'', Idx 0, Sub ''resources''] p) defaults"

definition over_maximum :: json where
  "over_maximum = JDict [(''requests'', JDict [(''cpu'', JStr ''100m''), (''memory'', JStr ''32Mi'')]),
     (''limits'', JDict [(''cpu'', JStr ''2''), (''memory'', JStr ''64Mi'')])]"

definition limits_seen :: "string \<Rightarrow> (event \<Rightarrow> bool) list" where
  "limits_seen k =
     [creates k (quota_pod ''article-quota'' ''defaulted'' None) taken,
      replied [k, ''-n'', ''article-quota'', ''get'', ''pod'', ''defaulted'', ''-o'', ''json''] (answered_json got_defaults),
      creates k (quota_pod ''article-quota'' ''too-large'' (Some over_maximum)) (denied (quota_error ''maximum cpu usage'')),
      creates k (quota_pod ''article-quota'' ''second'' None) taken,
      creates k (quota_pod ''article-quota'' ''third'' None) (denied (quota_error ''exceeded quota''))]"

definition nofit_seen :: "string \<Rightarrow> (event \<Rightarrow> bool) list" where
  "nofit_seen k =
     [creates k (quota_pod ''article-quota-capacity'' ''no-node-fits'' (Some (JDict [(''requests'', JDict [(''cpu'', JStr ''10000'')])]))) taken,
      replied [k, ''-n'', ''article-quota-capacity'', ''get'', ''pod'', ''no-node-fits'', ''-o'', ''json''] (answered_json not_running)]"

definition quotas_seen :: "string \<Rightarrow> (event \<Rightarrow> bool) list" where
  "quotas_seen k = limits_seen k @ nofit_seen k"

lemma limits_observes: "observes os (quota_limits home) (limits_seen (api_bin home (environ os ''KUBECTL'')))"
  unfolding quota_limits_def limits_seen_def api_seen_defs got_defaults_def over_maximum_def
  by (rule observesI, intro wp_intros; simp add: observed del: jpath.simps)

lemma quota_capacity_observes: "observes os (quota_capacity home) (nofit_seen (api_bin home (environ os ''KUBECTL'')))"
  unfolding quota_capacity_def nofit_seen_def api_seen_defs
  by (rule observesI, intro wp_intros; simp add: observed)

lemma quota_observes: "observes os (quota_run home) (quotas_seen (api_bin home (environ os ''KUBECTL'')))"
  unfolding quota_run_def quotas_seen_def
  by (intro api_prelude observes_bindM observes_bind_last limits_observes quota_capacity_observes emits_intros TrueI)

text \<open>
  RBAC: the account could read the pod, and not its log, change it or read in another namespace; after the rule was added it could read
  the log, and with a token that is not valid it was not recognised.
\<close>

lemma wp_rbac_call [wp_intros]:
  "(\<And>r. returncode r = 0 \<Longrightarrow> Q (stdout r) (es @ [Ran (api_bin home (environ os ''KUBECTL'') # pre @ args) (map_option dumps obj) (Inr r)])) \<Longrightarrow>
    wp os (rbac_call home args obj None pre) Q es"
  "(\<And>r v. returncode r \<noteq> 0 \<Longrightarrow> contains (stderr r) t \<Longrightarrow>
      Q v (es @ [Ran (api_bin home (environ os ''KUBECTL'') # pre @ args) (map_option dumps obj) (Inr r)])) \<Longrightarrow>
    wp os (rbac_call home args obj (Some t) pre) Q es"
  unfolding rbac_call_def Let_def by (intro wp_intros; simp; intro wp_intros; simp)+

definition reader_ran :: "string \<Rightarrow> string list \<Rightarrow> (proc \<Rightarrow> bool) \<Rightarrow> event \<Rightarrow> bool" where
  "reader_ran k args = replied ([k, ''--kubeconfig'', reader_config] @ args)"

definition denied_seen :: "string \<Rightarrow> (event \<Rightarrow> bool) list" where
  "denied_seen k =
     [reader_ran k [''-n'', ''article-rbac'', ''get'', ''pod'', ''demo'', ''-o'', ''json''] taken,
      reader_ran k [''-n'', ''article-rbac'', ''get'', ''--raw'', ''/api/v1/namespaces/article-rbac/pods/demo/log''] (denied (\<lambda>e. contains e ''Forbidden'')),
      reader_ran k [''-n'', ''article-rbac'', ''patch'', ''pod'', ''demo'', ''--type=merge'', ''-p'', ''{\"metadata\":{\"labels\":{\"test\":\"x\"}}}'']
        (denied (\<lambda>e. contains e ''Forbidden'')),
      reader_ran k [''-n'', ''article-rbac-other'', ''get'', ''pods''] (denied (\<lambda>e. contains e ''Forbidden'')),
      reader_ran k [''auth'', ''can-i'', ''get'', ''pods'', ''--subresource=log'', ''-n'', ''article-rbac''] (\<lambda>r. returncode r \<noteq> 0)]"

definition granted_seen :: "string \<Rightarrow> (event \<Rightarrow> bool) list" where
  "granted_seen k =
     [carried_out [k, ''-n'', ''article-rbac'', ''patch'', ''role'', ''reader'', ''--type=json'', ''-p'', log_rule],
      reader_ran k [''auth'', ''can-i'', ''get'', ''pods'', ''--subresource=log'', ''-n'', ''article-rbac''] taken,
      reader_ran k [''-n'', ''article-rbac'', ''get'', ''pods''] (denied (\<lambda>e. contains e ''Unauthorized''))]"

definition rbac_seen :: "string \<Rightarrow> (event \<Rightarrow> bool) list" where
  "rbac_seen k = denied_seen k @ granted_seen k"

lemma rbac_denied_observes: "observes os (rbac_denied home) (denied_seen (api_bin home (environ os ''KUBECTL'')))"
  unfolding rbac_denied_def denied_seen_def reader_ran_def as_reader_def api_seen_defs
  by (rule observesI, intro wp_intros; simp add: observed)

lemma rbac_granted_observes: "observes os (rbac_granted home config) (granted_seen (api_bin home (environ os ''KUBECTL'')))"
  unfolding rbac_granted_def granted_seen_def reader_ran_def as_reader_def api_seen_defs
  by (rule observesI, intro wp_intros; simp add: observed)

lemma rbac_observes: "observes os (rbac_run home) (rbac_seen (api_bin home (environ os ''KUBECTL'')))"
proof -
  have "observes os (rbac_body home config) (rbac_seen (api_bin home (environ os ''KUBECTL'')))" for config
    unfolding rbac_body_def rbac_seen_def
    by (intro observes_bindM observes_bind_last rbac_denied_observes rbac_granted_observes emits_intros TrueI)
  then show ?thesis
    unfolding rbac_run_def rbac_setup_def rbac_create_def
    by (intro api_prelude observes_skip observes_then_skip observes_finallyM emits_intros TrueI)
qed

text \<open>
  Admission: a ConfigMap was changed by the webhook; a denial stood whatever the failure policy; a webhook that timed out or was gone
  was ignored under \<^verbatim>\<open>Ignore\<close> and refused the request under \<^verbatim>\<open>Fail\<close>; a namespace without the label was not touched; the restricted
  profile refused a privileged pod and took a compliant one.
\<close>

definition mutated_seen :: "string \<Rightarrow> event \<Rightarrow> bool" where
  "mutated_seen k e \<longleftrightarrow> (\<exists>name. replied [k, ''-n'', ''article-admission'', ''get'', ''cm'', name, ''-o'', ''json''] (answered_json (\<lambda>obj.
     eqE (jpath [Sub ''metadata'', Get ''annotations'' emptyD, get0 ''article.example/mutated''] obj) (JStr ''yes''))) e)"

abbreviation adm_ask :: "string \<Rightarrow> string \<Rightarrow> string \<Rightarrow> bool \<Rightarrow> (proc \<Rightarrow> bool) \<Rightarrow> event \<Rightarrow> bool" where
  "adm_ask k namespace name deny \<equiv> creates k (adm_map namespace name deny)"

definition webhook_seen :: "string \<Rightarrow> (event \<Rightarrow> bool) list" where
  "webhook_seen k =
     [adm_ask k ''article-admission'' ''denied'' True (denied (adm_error ''article policy denied'')),
      replied [k, ''-n'', ''article-admission'', ''create'', ''configmap'', ''timeout-ignore''] taken,
      adm_ask k ''article-admission'' ''still-denied'' True (denied (adm_error ''article policy denied'')),
      adm_ask k ''article-admission'' ''timeout-fail'' False (denied (adm_error ''deadline exceeded''))]"

definition unavailable_seen :: "string \<Rightarrow> (event \<Rightarrow> bool) list" where
  "unavailable_seen k =
     [carried_out [''docker'', ''stop'', ''article-api-webhook''],
      adm_ask k ''article-admission'' ''unavailable-fail'' False (denied (adm_error ''failed calling webhook'')),
      adm_ask k ''default'' ''unmatched'' False taken,
      replied [k, ''-n'', ''article-admission'', ''create'', ''configmap'', ''unavailable-ignore''] taken]"

definition psa_seen :: "string \<Rightarrow> (event \<Rightarrow> bool) list" where
  "psa_seen k =
     [replied [k, ''-n'', ''article-psa'', ''run'', ''privileged'', ''--image=registry.k8s.io/pause:3.10.1'', ''--privileged=true'']
        (denied (adm_error ''violates PodSecurity'')),
      creates k safe_pod taken]"

definition admission_seen :: "string \<Rightarrow> (event \<Rightarrow> bool) list" where
  "admission_seen k = ([mutated_seen k] @ webhook_seen k) @ unavailable_seen k @ psa_seen k"

lemma wp_accepted:
  assumes "\<And>fs r. returncode r = 0 \<Longrightarrow> Q (strip (stdout r)) (es @ fs @
    [Ran [api_bin home (environ os ''KUBECTL''), ''-n'', ''article-admission'', ''create'', ''configmap'', name] None (Inr r)])"
  shows "wp os (until_accepted home name t) Q es"
proof -
  have "wp os (accepted home name t D) Q (es @ [Clock c])" for D c
    unfolding accepted_def using assms [of _ "Clock c # _"]
    by (intro wp_loopM) (auto intro!: wp_intros emits_intros)
  then show ?thesis unfolding until_accepted_def by (intro wp_intros)
qed

lemma mutated_round_wp:
  "wp os (mutated_round home D i) (\<lambda>v gs. \<exists>fs. gs = es @ fs \<and> (v \<noteq> None \<longrightarrow> in_order [mutated_seen (api_bin home (environ os ''KUBECTL''))] fs)) es"
  unfolding mutated_round_def adm_create_def api_json_def option.map
  by (intro wp_intros; simp add: observed mutated_seen_def answered_json_def eqE_def del: jpath.simps)

lemma mutated_observes:
  "observes os (countM is (mutated_round home D) (raiseM e)) [mutated_seen (api_bin home (environ os ''KUBECTL''))]"
proof (induction "is")
  case (Cons i "is")
  show ?case
    unfolding countM.simps
    by (rule observesI, rule wp_bindM, rule wp_conseq [OF mutated_round_wp])
      (auto intro!: wp_returnM wp_conseq [OF observesD [OF Cons]] intro: in_order_left split: option.splits)
qed (simp add: observes_def raiseM_def)

lemma webhook_observes:
  "observes os (adm_webhook home) ([mutated_seen (api_bin home (environ os ''KUBECTL''))] @ webhook_seen (api_bin home (environ os ''KUBECTL'')))"
  unfolding adm_webhook_def webhook_seen_def adm_create_def set_failure_policy_def api_seen_defs option.map
  by (rule observes_skip, intro emits_intros TrueI, rule observes_bindM [OF mutated_observes], rule observesI, intro wp_intros wp_accepted;
      simp add: observed)

lemma unavailable_observes: "observes os (adm_unavailable home validate) (unavailable_seen (api_bin home (environ os ''KUBECTL'')))"
  unfolding adm_unavailable_def unavailable_seen_def adm_create_def api_seen_defs option.map
  by (rule observesI, intro wp_intros wp_accepted; simp add: observed)

lemma psa_observes: "observes os (adm_psa home) (psa_seen (api_bin home (environ os ''KUBECTL'')))"
  unfolding adm_psa_def psa_seen_def api_seen_defs
  by (rule observesI, intro wp_intros; simp add: observed)

lemma admission_observes: "observes os (admission_run home) (admission_seen (api_bin home (environ os ''KUBECTL'')))"
proof -
  have "observes os (adm_body home mutate validate) (admission_seen (api_bin home (environ os ''KUBECTL'')))" for mutate validate
    unfolding adm_body_def admission_seen_def
    by (intro observes_then_skip observes_bindM observes_bind_last webhook_observes unavailable_observes psa_observes emits_intros TrueI)
  then show ?thesis
    unfolding admission_run_def adm_start_def webhook_up_def adm_cleanup_def api_guard_def Let_def
    by (intro observes_then_skip observes_skip observes_finallyM emits_intros TrueI)
qed

end
