(* ===== verification/CrdWebhook.thy ===== *)
theory CrdWebhook
  imports Http
begin

text \<open>
  \<^verbatim>\<open>article-crd-conversion/webhook.py\<close>: the conversion of Widgets between \<^verbatim>\<open>v1alpha1\<close> (field
  \<^verbatim>\<open>label\<close>) and \<^verbatim>\<open>v1beta1\<close> (field \<^verbatim>\<open>displayName\<close>), and the HTTP handler around it. The handler's
  outcome is the reply it sends, or the exception that ends the request without one.
\<close>

section \<open>Conversion of one object\<close>

text \<open>\<^verbatim>\<open>"status" in obj\<close> is asked of an object whose \<^verbatim>\<open>.get\<close> has already answered, so of a dict.\<close>

fun status_entry :: "json \<Rightarrow> (string \<times> json) list" where
  "status_entry (JDict d) = (case map_of d ''status'' of None \<Rightarrow> [] | Some v \<Rightarrow> [(''status'', v)])"
| "status_entry v = []"

definition converted_spec :: "string \<Rightarrow> json \<Rightarrow> exn + json" where
  "converted_spec desired spec =
     (if endswith desired ''/v1beta1'' then
        bindE (jget spec ''label'' (JStr [])) (\<lambda>l.
        bindE (jget spec ''displayName'' l) (\<lambda>n.
        bindE (jget spec ''replicas'' (JInt 1)) (\<lambda>r.
          Inr (JDict [(''displayName'', n), (''replicas'', r)]))))
      else
        bindE (jget spec ''displayName'' (JStr [])) (\<lambda>n.
        bindE (jget spec ''label'' n) (\<lambda>l.
        bindE (jget spec ''replicas'' (JInt 1)) (\<lambda>r.
          Inr (JDict [(''label'', l), (''replicas'', r)])))))"

definition convert_object :: "json \<Rightarrow> json \<Rightarrow> exn + json" where
  "convert_object obj desired =
     bindE (jget obj ''kind'' (JStr ''Widget'')) (\<lambda>kind.
     bindE (jget obj ''metadata'' emptyD) (\<lambda>metadata.
     bindE (jget obj ''spec'' emptyD) (\<lambda>spec.
     bindE (str_method ''endswith'' desired) (\<lambda>version.
     bindE (converted_spec version spec) (\<lambda>spec'.
       Inr (JDict ([(''apiVersion'', desired), (''kind'', kind), (''metadata'', metadata), (''spec'', spec')]
         @ status_entry obj)))))))"


section \<open>The handler\<close>

definition do_GET :: "http_request \<Rightarrow> exn + http_reply" where
  "do_GET q = bindE (urlsplit_path (target q)) (\<lambda>p.
     if p = ''/healthz'' then Inr (Reply 200 [] ''ok'') else Inr (ErrorPage 404))"

text \<open>
  The \<^verbatim>\<open>try\<close> block of \<^verbatim>\<open>do_POST\<close>: every exception becomes a \<^verbatim>\<open>Failure\<close> result, and then the key
  \<^verbatim>\<open>convertedObjects\<close> is not in the response, since the comprehension raised before the assignment.
\<close>

definition convert_all :: "json \<Rightarrow> exn + json list" where
  "convert_all request =
     bindE (jsub request ''desiredAPIVersion'') (\<lambda>desired.
     bindE (bindE (jget request ''objects'' (JList [])) jiter) (\<lambda>objs.
       mapE (\<lambda>obj. convert_object obj desired) objs))"

definition conversion_response :: "json \<Rightarrow> exn + json" where
  "conversion_response request =
     bindE (jget request ''uid'' JNull) (\<lambda>uid.
       Inr (JDict ((''uid'', uid) #
         (case convert_all request of
            Inr objs \<Rightarrow> [(''convertedObjects'', JList objs), (''result'', JDict [(''status'', JStr ''Success'')])]
          | Inl e \<Rightarrow> [(''result'', JDict [(''status'', JStr ''Failure''), (''message'', JStr (exn_str e))])]))))"

definition conversion_review :: "json \<Rightarrow> json" where
  "conversion_review response = JDict
     [(''apiVersion'', JStr ''apiextensions.k8s.io/v1''), (''kind'', JStr ''ConversionReview''),
      (''response'', response)]"

definition do_POST :: "http_request \<Rightarrow> exn + http_reply" where
  "do_POST q = bindE (urlsplit_path (target q)) (\<lambda>p.
     if p \<noteq> ''/convert'' then Inr (ErrorPage 404)
     else
       bindE (py_int (case header (headers q) ''content-length'' of None \<Rightarrow> ''0'' | Some v \<Rightarrow> v)) (\<lambda>length.
       bindE (loads (rfile_read q length)) (\<lambda>review.
       bindE (jget review ''request'' emptyD) (\<lambda>request.
       bindE (conversion_response request) (\<lambda>response.
         let body = dumps (conversion_review response) in
         Inr (Reply 200 [(''content-type'', ''application/json''),
            (''content-length'', nat_str (List.length body))] body))))))"


section \<open>What conversion keeps\<close>

fun entries :: "json \<Rightarrow> (string \<times> json) list" where
  "entries (JDict d) = d"
| "entries v = []"

lemma jget_dict [simp]: "jget v k dflt = Inr x \<longleftrightarrow>
    (\<exists>d. v = JDict d \<and> x = (case map_of d k of None \<Rightarrow> dflt | Some y \<Rightarrow> y))"
  by (cases v) auto

lemma convert_objectE:
  assumes "convert_object obj desired = Inr c"
  obtains d v e where "obj = JDict d" and "desired = JStr v"
    and "(case map_of d ''spec'' of None \<Rightarrow> emptyD | Some x \<Rightarrow> x) = JDict e"
    and "c = JDict ([(''apiVersion'', JStr v),
       (''kind'', case map_of d ''kind'' of None \<Rightarrow> JStr ''Widget'' | Some x \<Rightarrow> x),
       (''metadata'', case map_of d ''metadata'' of None \<Rightarrow> emptyD | Some x \<Rightarrow> x),
       (''spec'', if endswith v ''/v1beta1''
          then JDict [(''displayName'', case map_of e ''displayName'' of
                  None \<Rightarrow> (case map_of e ''label'' of None \<Rightarrow> JStr [] | Some x \<Rightarrow> x) | Some x \<Rightarrow> x),
                (''replicas'', case map_of e ''replicas'' of None \<Rightarrow> JInt 1 | Some x \<Rightarrow> x)]
          else JDict [(''label'', case map_of e ''label'' of
                  None \<Rightarrow> (case map_of e ''displayName'' of None \<Rightarrow> JStr [] | Some x \<Rightarrow> x) | Some x \<Rightarrow> x),
                (''replicas'', case map_of e ''replicas'' of None \<Rightarrow> JInt 1 | Some x \<Rightarrow> x)])]
       @ status_entry obj)"
proof -
  obtain d where d: "obj = JDict d" using assms by (auto simp: convert_object_def bindE_Inr_iff)
  obtain v where v: "desired = JStr v"
    using assms by (cases desired) (auto simp: convert_object_def bindE_Inr_iff)
  obtain e where e: "(case map_of d ''spec'' of None \<Rightarrow> emptyD | Some x \<Rightarrow> x) = JDict e"
    using assms d v by (auto simp: convert_object_def bindE_Inr_iff converted_spec_def split: if_splits)
  show ?thesis
    using that [OF d v e] assms d v e
    by (simp add: convert_object_def converted_spec_def split: if_splits)
qed

text \<open>Every object that is a dict with a dict (or no) spec converts to every version.\<close>

lemma convert_object_total:
  assumes "obj = JDict d" and "map_of d ''spec'' \<in> {None} \<union> Some ` range JDict"
  shows "\<exists>c. convert_object obj (JStr v) = Inr c"
  using assms by (auto simp: convert_object_def converted_spec_def bindE_def split: sum.splits)

lemma map_of_append_status: "k \<noteq> ''status'' \<Longrightarrow> map_of (xs @ status_entry obj) k = map_of xs k"
  by (cases obj) (auto simp: map_add_def split: option.splits)

lemma convert_keeps:
  assumes "convert_object (JDict d) (JStr v) = Inr c"
  shows "jsub c ''apiVersion'' = Inr (JStr v)"
    and "jget c ''kind'' dk = jget (JDict d) ''kind'' (JStr ''Widget'')"
    and "jget c ''metadata'' dm = jget (JDict d) ''metadata'' emptyD"
    and "jget c ''status'' JNull = jget (JDict d) ''status'' JNull"
  using assms
  by (elim convert_objectE; simp add: map_add_def split: option.splits)+

text \<open>
  Converting on goes by the object alone: the version an object came through does not matter, as
  long as it has at most one of the two name fields, as every stored Widget.
\<close>

definition one_name :: "json \<Rightarrow> bool" where
  "one_name obj \<longleftrightarrow> (case jpath [Get ''spec'' emptyD] obj of
     Inr (JDict e) \<Rightarrow> map_of e ''label'' = None \<or> map_of e ''displayName'' = None | _ \<Rightarrow> True)"

lemma convert_via:
  assumes "convert_object obj (JStr v) = Inr c" and "one_name obj"
  shows "convert_object c (JStr w) = convert_object obj (JStr w)"
  using assms
  by (elim convert_objectE; cases "endswith v ''/v1beta1''"; cases "endswith w ''/v1beta1''")
     (auto simp: convert_object_def converted_spec_def one_name_def map_add_def
       split: option.splits)

lemma one_name_convert: "convert_object obj desired = Inr c \<Longrightarrow> one_name c"
  by (elim convert_objectE) (auto simp: one_name_def map_add_def split: option.splits)

lemma convert_idem: "convert_object obj desired = Inr c \<Longrightarrow> convert_object c desired = Inr c"
  by (elim convert_objectE; cases obj)
     (auto simp: convert_object_def converted_spec_def map_add_def split: option.splits)

lemma wf_map_of: "\<forall>e \<in> set d. wf_json (snd e) \<Longrightarrow> map_of d k = Some v \<Longrightarrow> wf_json v"
  by (metis map_of_SomeD snd_conv)

lemma wf_member: "\<forall>e \<in> set d. wf_json (snd e) \<Longrightarrow> (k, v) \<in> set d \<Longrightarrow> wf_json v"
  by (metis snd_conv)

lemma wf_jget: "wf_json v \<Longrightarrow> wf_json dflt \<Longrightarrow> jget v k dflt = Inr x \<Longrightarrow> wf_json x"
  by (cases v; cases "map_of (entries v) k") (simp_all, metis wf_member)

lemma wf_converted_spec:
  assumes wf: "wf_json spec" and "converted_spec desired spec = Inr c"
  shows "wf_json c"
proof (cases "endswith desired ''/v1beta1''")
  case True
  then obtain l n r where "jget spec ''label'' (JStr []) = Inr l" "jget spec ''displayName'' l = Inr n"
      "jget spec ''replicas'' (JInt 1) = Inr r" "c = JDict [(''displayName'', n), (''replicas'', r)]"
    using assms(2) unfolding converted_spec_def by (auto simp: bindE_Inr_iff simp del: jget_dict)
  moreover from this have "wf_json l" "wf_json r" using wf_jget [OF wf] by fastforce+
  ultimately show ?thesis using wf_jget [OF wf] by fastforce
next
  case False
  then obtain l n r where "jget spec ''displayName'' (JStr []) = Inr n" "jget spec ''label'' n = Inr l"
      "jget spec ''replicas'' (JInt 1) = Inr r" "c = JDict [(''label'', l), (''replicas'', r)]"
    using assms(2) unfolding converted_spec_def by (auto simp: bindE_Inr_iff simp del: jget_dict)
  moreover from this have "wf_json n" "wf_json r" using wf_jget [OF wf] by fastforce+
  ultimately show ?thesis using wf_jget [OF wf] by fastforce
qed

lemma status_entry_props:
  "set (map fst (status_entry obj)) \<subseteq> {''status''}" "distinct (map fst (status_entry obj))"
  "wf_json obj \<Longrightarrow> e \<in> set (status_entry obj) \<Longrightarrow> wf_json (snd e)"
  by (cases obj; auto split: option.splits intro: wf_member)+

lemma wf_convert:
  assumes "wf_json obj" and "wf_json desired" and "convert_object obj desired = Inr c"
  shows "wf_json c"
proof -
  obtain kind metadata spec version spec' where
    j: "jget obj ''kind'' (JStr ''Widget'') = Inr kind" "jget obj ''metadata'' emptyD = Inr metadata"
      "jget obj ''spec'' emptyD = Inr spec" "converted_spec version spec = Inr spec'"
    and c: "c = JDict ([(''apiVersion'', desired), (''kind'', kind), (''metadata'', metadata), (''spec'', spec')]
         @ status_entry obj)"
    using assms(3) unfolding convert_object_def bindE_Inr_iff by blast
  have wf: "wf_json kind" "wf_json metadata" "wf_json spec"
    using wf_jget [OF assms(1) _ j(1)] wf_jget [OF assms(1) _ j(2)] wf_jget [OF assms(1) _ j(3)] by simp_all
  moreover have "wf_json spec'" using wf_converted_spec [OF wf(3) j(4)] .
  ultimately show ?thesis
    using c assms(1,2) status_entry_props [of obj] by (auto simp: image_subset_iff)
qed

lemma wf_convert_all:
  assumes "wf_json request" and "convert_all request = Inr objs"
  shows "\<forall>c \<in> set objs. wf_json c"
proof -
  obtain desired xs ys where r: "jsub request ''desiredAPIVersion'' = Inr desired"
    "jget request ''objects'' (JList []) = Inr xs" "jiter xs = Inr ys"
    and m: "mapE (\<lambda>obj. convert_object obj desired) ys = Inr objs"
    using assms(2) unfolding convert_all_def bindE_Inr_iff by blast
  have "wf_json desired" using assms(1) r(1)
    by (cases request) (auto split: option.splits intro: wf_member)
  moreover have "wf_json xs" using wf_jget [OF assms(1) _ r(2)] by simp
  then have "\<forall>y \<in> set ys. wf_json y" using r(3) by (cases xs) auto
  ultimately show ?thesis
    using m by (auto simp: mapE_Inr_iff list_all2_conv_all_nth in_set_conv_nth)
      (metis nth_mem wf_convert)
qed

lemma wf_conversion_response:
  assumes "wf_json request" and "conversion_response request = Inr resp"
  shows "wf_json (conversion_review resp)"
proof -
  obtain uid where uid: "jget request ''uid'' JNull = Inr uid"
    and resp: "resp = JDict ((''uid'', uid) # (case convert_all request of
            Inr objs \<Rightarrow> [(''convertedObjects'', JList objs), (''result'', JDict [(''status'', JStr ''Success'')])]
          | Inl e \<Rightarrow> [(''result'', JDict [(''status'', JStr ''Failure''), (''message'', JStr (exn_str e))])]))"
    using assms(2) unfolding conversion_response_def bindE_Inr_iff by auto
  have "wf_json uid" using wf_jget [OF assms(1) _ uid] by simp
  with resp wf_convert_all [OF assms(1)] show ?thesis
    by (cases "convert_all request") (auto simp: conversion_review_def)
qed

lemma py_int_nat_str [simp]: "py_int (nat_str n) = Inr (int n)"
proof -
  have digs: "list_all is_digit (nat_str n)" using nat_str_digits by (auto simp: list_all_iff)
  have space: "\<not> is_space c" if "is_digit c" for c
    using that by (auto simp: is_digit_def is_space_def)
  obtain c r where cr: "nat_str n = c # r" by (cases "nat_str n") auto
  have drop: "dropWhile is_space xs = xs" if "list_all is_digit xs" for xs
    using that space by (intro dropWhile_id) (cases xs, auto)
  have "strip (nat_str n) = nat_str n"
    using digs by (simp add: strip_def rstrip_def drop list_all_rev)
  moreover have "c \<noteq> CHR ''-''" "c \<noteq> CHR ''+''" using digs cr by (auto simp: is_digit_def)
  moreover have "nat_val (c # r) = n" using nat_val_nat_str [of n] cr by simp
  ultimately show ?thesis
    using digs unfolding py_int_def int_of_str_def cr by (simp add: Let_def)
qed


section \<open>Properties\<close>

text \<open>The field with the name of a Widget in a version, and the one of the other version, which the schema prunes.\<close>

definition name_field :: "string \<Rightarrow> string" where
  "name_field v = (if endswith v ''/v1beta1'' then ''displayName'' else ''label'')"

definition other_name :: "string \<Rightarrow> string" where
  "other_name v = (if endswith v ''/v1beta1'' then ''label'' else ''displayName'')"

text \<open>
  C1: a Widget that is stored in version \<open>w\<close>, read in version \<open>v\<close> and converted back to \<open>w\<close> comes back with everything it has: both
  conversions succeed, and kind, metadata, status, name and replicas have the values they had. What it does not have is filled in, which the schema
  allows for \<^verbatim>\<open>replicas\<close>: that comes back as 1, a missing name as the empty string, and nothing else is added. So the very Widget comes back
  when its stored form is one the webhook itself has written. The stored object has to be a dict with a dict (or no) \<^verbatim>\<open>spec\<close> that does not have the name field
  of the other version.
\<close>

theorem conversion_round_trip:
  assumes "jget (JDict d) ''spec'' emptyD = Inr (JDict e)" and "map_of e (other_name w) = None"
  shows "\<exists>served again. convert_object (JDict d) (JStr v) = Inr served \<and> convert_object served (JStr w) = Inr again \<and>
    jsub served ''apiVersion'' = Inr (JStr v) \<and>
    again = JDict ([(''apiVersion'', JStr w),
      (''kind'', case map_of d ''kind'' of None \<Rightarrow> JStr ''Widget'' | Some x \<Rightarrow> x),
      (''metadata'', case map_of d ''metadata'' of None \<Rightarrow> emptyD | Some x \<Rightarrow> x),
      (''spec'', JDict [(name_field w, case map_of e (name_field w) of None \<Rightarrow> JStr [] | Some x \<Rightarrow> x),
         (''replicas'', case map_of e ''replicas'' of None \<Rightarrow> JInt 1 | Some x \<Rightarrow> x)])]
      @ (case map_of d ''status'' of None \<Rightarrow> [] | Some x \<Rightarrow> [(''status'', x)])) \<and>
    ((\<exists>orig. convert_object orig (JStr w) = Inr (JDict d)) \<longrightarrow> again = JDict d)"
proof -
  have spec: "map_of d ''spec'' \<in> {None} \<union> Some ` range JDict" using assms(1) by (auto split: option.splits)
  obtain served again where served: "convert_object (JDict d) (JStr v) = Inr served" and again: "convert_object (JDict d) (JStr w) = Inr again"
    using convert_object_total [OF refl spec] by blast
  have e: "(case map_of d ''spec'' of None \<Rightarrow> emptyD | Some x \<Rightarrow> x) = JDict e" using assms(1) by simp
  have "one_name (JDict d)" using assms by (auto simp: one_name_def other_name_def split: if_splits)
  with convert_via [OF served] again have via: "convert_object served (JStr w) = Inr again" by simp
  have "jsub served ''apiVersion'' = Inr (JStr v)" using convert_keeps [OF served] by blast
  moreover have "again = JDict d" if "convert_object orig (JStr w) = Inr (JDict d)" for orig
    using convert_idem [OF that] again by simp
  moreover have "again = JDict ([(''apiVersion'', JStr w),
      (''kind'', case map_of d ''kind'' of None \<Rightarrow> JStr ''Widget'' | Some x \<Rightarrow> x),
      (''metadata'', case map_of d ''metadata'' of None \<Rightarrow> emptyD | Some x \<Rightarrow> x),
      (''spec'', JDict [(name_field w, case map_of e (name_field w) of None \<Rightarrow> JStr [] | Some x \<Rightarrow> x),
         (''replicas'', case map_of e ''replicas'' of None \<Rightarrow> JInt 1 | Some x \<Rightarrow> x)])]
      @ (case map_of d ''status'' of None \<Rightarrow> [] | Some x \<Rightarrow> [(''status'', x)]))"
    using again assms(2) e by (cases "endswith w ''/v1beta1''"; cases "map_of e ''label''"; cases "map_of e ''displayName''")
      (auto simp: convert_object_def converted_spec_def name_field_def other_name_def)
  ultimately show ?thesis using served via by blast
qed

text \<open>A Widget with a label, as the experiment's storage version has it, and one that leaves its replicas out.\<close>

definition sample_widget :: json where
  "sample_widget = JDict [(''apiVersion'', JStr ''conversion.example.com/v1alpha1''), (''kind'', JStr ''Widget''),
     (''metadata'', JDict [(''name'', JStr ''demo'')]),
     (''spec'', JDict [(''label'', JStr ''blue''), (''replicas'', JInt 2)])]"

definition sample_served :: json where
  "sample_served = JDict [(''apiVersion'', JStr ''conversion.example.com/v1beta1''), (''kind'', JStr ''Widget''),
     (''metadata'', JDict [(''name'', JStr ''demo'')]),
     (''spec'', JDict [(''displayName'', JStr ''blue''), (''replicas'', JInt 2)])]"

lemma sample_converts:
  "convert_object sample_widget (JStr ''conversion.example.com/v1alpha1'') = Inr sample_widget"
  "convert_object sample_widget (JStr ''conversion.example.com/v1beta1'') = Inr sample_served"
  by code_simp+

definition short_widget :: "(string \<times> json) list" where
  "short_widget = [(''apiVersion'', JStr ''conversion.example.com/v1alpha1''), (''kind'', JStr ''Widget''),
     (''metadata'', JDict [(''name'', JStr ''demo'')]), (''spec'', JDict [(''label'', JStr ''blue'')])]"

theorem conversion_round_trip_witness:
  "\<exists>served again. convert_object (JDict short_widget) (JStr ''conversion.example.com/v1beta1'') = Inr served \<and>
     convert_object served (JStr ''conversion.example.com/v1alpha1'') = Inr again \<and> again \<noteq> JDict short_widget \<and>
     jsub again ''spec'' = Inr (JDict [(''label'', JStr ''blue''), (''replicas'', JInt 1)])"
proof -
  have w: "jget (JDict short_widget) ''spec'' emptyD = Inr (JDict [(''label'', JStr ''blue'')])"
    "map_of [(''label'', JStr ''blue'')] (other_name ''conversion.example.com/v1alpha1'') = None"
    "name_field ''conversion.example.com/v1alpha1'' = ''label''"
    by code_simp+
  from conversion_round_trip [OF w(1,2), of "''conversion.example.com/v1beta1''"] w(3) show ?thesis
    by (elim exE conjE) (auto simp: short_widget_def)
qed

text \<open>
  C29: conversion gives an object of the type of the requested version: well formed, with that \<^verbatim>\<open>apiVersion\<close> and
  a \<^verbatim>\<open>spec\<close> that has exactly the fields of that version's schema, whichever version it came from.
\<close>

theorem conversion_well_typed:
  assumes "wf_json obj" and "convert_object obj desired = Inr c"
  shows "wf_json c \<and> (\<exists>v d e. desired = JStr v \<and> c = JDict d \<and> map_of d ''apiVersion'' = Some (JStr v) \<and>
    map_of d ''spec'' = Some (JDict e) \<and>
    map fst e = (if endswith v ''/v1beta1'' then [''displayName'', ''replicas''] else [''label'', ''replicas'']))"
proof -
  obtain d v e where "desired = JStr v" using assms(2) by (rule convert_objectE)
  with wf_convert [OF assms(1) _ assms(2)] have "wf_json c" by simp
  with assms(2) show ?thesis by (elim convert_objectE) auto
qed

theorem conversion_well_typed_witness:
  "wf_json sample_widget \<and> (\<exists>c d e. convert_object sample_widget (JStr ''conversion.example.com/v1beta1'') = Inr c \<and>
     wf_json c \<and> c = JDict d \<and> map_of d ''spec'' = Some (JDict e))"
proof -
  have "wf_json sample_widget" by code_simp
  from conversion_well_typed [OF this sample_converts(2)] this sample_converts(2) show ?thesis by blast
qed

text \<open>
  C2: the response is all or nothing. When every object of the request converts, it holds the
  converted objects in the request's order, each with the desired version, and \<^verbatim>\<open>Success\<close>; when
  one fails, it holds \<^verbatim>\<open>Failure\<close> with the message and no \<^verbatim>\<open>convertedObjects\<close> at all. The \<^verbatim>\<open>uid\<close> is
  the request's in both cases.
\<close>

theorem conversion_all_or_nothing:
  assumes "conversion_response request = Inr response"
  shows "jsub response ''uid'' = jget request ''uid'' JNull \<and>
      ((\<exists>desired xs ys cs. jsub request ''desiredAPIVersion'' = Inr desired \<and>
            jget request ''objects'' (JList []) = Inr xs \<and> jiter xs = Inr ys \<and>
            list_all2 (\<lambda>y c. convert_object y desired = Inr c \<and> jsub c ''apiVersion'' = Inr desired) ys cs \<and>
            jsub response ''convertedObjects'' = Inr (JList cs) \<and>
            jpath [Sub ''result'', Sub ''status''] response = Inr (JStr ''Success''))
       \<or> (\<exists>e. convert_all request = Inl e \<and>
            jsub response ''convertedObjects'' = Inl (KeyError ''convertedObjects'') \<and>
            jpath [Sub ''result'', Sub ''status''] response = Inr (JStr ''Failure'') \<and>
            jpath [Sub ''result'', Sub ''message''] response = Inr (JStr (exn_str e))))"
proof -
  obtain uid where uid: "jget request ''uid'' JNull = Inr uid"
    and resp: "response = JDict ((''uid'', uid) # (case convert_all request of
            Inr objs \<Rightarrow> [(''convertedObjects'', JList objs), (''result'', JDict [(''status'', JStr ''Success'')])]
          | Inl e \<Rightarrow> [(''result'', JDict [(''status'', JStr ''Failure''), (''message'', JStr (exn_str e))])]))"
    using assms unfolding conversion_response_def bindE_Inr_iff by auto
  have "jsub response ''uid'' = jget request ''uid'' JNull"
    using uid resp by (simp del: jget_dict)
  moreover have "(\<exists>desired xs ys cs. jsub request ''desiredAPIVersion'' = Inr desired \<and>
            jget request ''objects'' (JList []) = Inr xs \<and> jiter xs = Inr ys \<and>
            list_all2 (\<lambda>y c. convert_object y desired = Inr c \<and> jsub c ''apiVersion'' = Inr desired) ys cs \<and>
            jsub response ''convertedObjects'' = Inr (JList cs) \<and>
            jpath [Sub ''result'', Sub ''status''] response = Inr (JStr ''Success''))
       \<or> (\<exists>e. convert_all request = Inl e \<and>
            jsub response ''convertedObjects'' = Inl (KeyError ''convertedObjects'') \<and>
            jpath [Sub ''result'', Sub ''status''] response = Inr (JStr ''Failure'') \<and>
            jpath [Sub ''result'', Sub ''message''] response = Inr (JStr (exn_str e)))"
  proof (cases "convert_all request")
    case (Inl e)
    with resp show ?thesis by auto
  next
    case (Inr cs)
    have ver: "jsub c ''apiVersion'' = Inr desired" if "convert_object y desired = Inr c" for y c desired
      using that by (elim convert_objectE) simp
    obtain desired xs ys where "jsub request ''desiredAPIVersion'' = Inr desired"
      "jget request ''objects'' (JList []) = Inr xs" "jiter xs = Inr ys"
      and "list_all2 (\<lambda>y c. convert_object y desired = Inr c) ys cs"
      using Inr unfolding convert_all_def bindE_Inr_iff mapE_Inr_iff by blast
    moreover from this(4) have
      "list_all2 (\<lambda>y c. convert_object y desired = Inr c \<and> jsub c ''apiVersion'' = Inr desired) ys cs"
      using ver by (auto elim: list_all2_mono)
    ultimately show ?thesis using resp Inr by (auto simp del: jget_dict)
  qed
  ultimately show ?thesis by blast
qed

text \<open>
  C3: a conversion request that arrives as JSON on \<^verbatim>\<open>/convert\<close>, with whatever query string and
  whatever follows on the connection, is always answered with status 200 and a body of the
  announced length that parses to a \<^verbatim>\<open>ConversionReview\<close> with the response to that request: no
  object in the request can make the handler fail.
\<close>

theorem conversion_webhook_answers:
  assumes "target q = ''/convert'' @ qs" and "plain_query qs"
    and "header (headers q) ''content-length'' = Some (nat_str (length body))" and "rfile q = body @ rest"
    and "loads body = Inr (JDict d)" and "wf_json (JDict d)" and "map_of d ''request'' = Some (JDict r)"
  shows "\<exists>response hs text. conversion_response (JDict r) = Inr response \<and>
    do_POST q = Inr (Reply 200 hs text) \<and> header hs ''content-length'' = Some (nat_str (length text)) \<and>
    loads text = Inr (conversion_review response)"
proof -
  have path: "urlsplit_path (target q) = Inr ''/convert''"
    unfolding assms(1) by (rule urlsplit_path_plain [OF _ assms(2)]) code_simp
  have read: "rfile_read q (int (length body)) = body" by (simp add: rfile_read_def assms(4))
  have wf: "wf_json (JDict r)" by (rule wf_map_of [OF _ assms(7)]) (use assms(6) in simp)
  obtain response where resp: "conversion_response (JDict r) = Inr response"
    by (auto simp: conversion_response_def)
  have len: "lower ''content-type'' \<noteq> lower ''content-length''" by code_simp
  show ?thesis
    using path read resp wf_conversion_response [OF wf resp] assms(3,5,7) len
    by (intro exI [of _ response]) (simp add: do_POST_def Let_def)
qed

definition sample_request :: json where
  "sample_request = JDict [(''uid'', JStr ''42''), (''desiredAPIVersion'', JStr ''conversion.example.com/v1beta1''),
     (''objects'', JList [sample_widget])]"

definition sample_post :: http_request where
  "sample_post = \<lparr>target = ''/convert'' @ ''?timeout=30s'',
     headers = [(''Content-Length'', nat_str (length (dumps (JDict [(''request'', sample_request)]))))],
     rfile = dumps (JDict [(''request'', sample_request)]) @ []\<rparr>"

theorem conversion_webhook_answers_witness:
  "\<exists>response hs text. conversion_response sample_request = Inr response \<and>
    do_POST sample_post = Inr (Reply 200 hs text) \<and> header hs ''content-length'' = Some (nat_str (length text)) \<and>
    loads text = Inr (conversion_review response)"
proof -
  have "plain_query ''?timeout=30s''" by code_simp
  moreover have "lower ''Content-Length'' = lower ''content-length''" by code_simp
  moreover have "wf_json (JDict [(''request'', sample_request)])" by code_simp
  ultimately show ?thesis
    using conversion_webhook_answers [of sample_post "''?timeout=30s''"
        "dumps (JDict [(''request'', sample_request)])" "[]" "[(''request'', sample_request)]" "entries sample_request"]
    by (simp add: sample_post_def sample_request_def)
qed

text \<open>The response of a request whose second object is no dict, and of the sample request.\<close>

theorem conversion_all_or_nothing_witness:
  "\<exists>response. conversion_response (JDict [(''uid'', JStr ''7''), (''desiredAPIVersion'', JStr ''a/v1beta1''),
      (''objects'', JList [sample_widget, JNull])]) = Inr response \<and>
     jsub response ''uid'' = Inr (JStr ''7'') \<and>
     jsub response ''convertedObjects'' = Inl (KeyError ''convertedObjects'')"
proof -
  obtain response where r: "conversion_response (JDict [(''uid'', JStr ''7''),
      (''desiredAPIVersion'', JStr ''a/v1beta1''), (''objects'', JList [sample_widget, JNull])]) = Inr response"
    by (auto simp: conversion_response_def)
  have "convert_object JNull (JStr ''a/v1beta1'') = Inl (AttributeError ''NoneType'' ''get'')" by code_simp
  then show ?thesis using conversion_all_or_nothing [OF r] r by (auto simp: list_all2_Cons1)
qed

end
