(* ===== verification/AdmissionWebhook.thy ===== *)
theory AdmissionWebhook
  imports CrdWebhook
begin

text \<open>
  \<^verbatim>\<open>article-api-admission/webhook.py\<close>: the AdmissionReview server of the admission experiment. The
  decision on a request is a function of the path and the request; the handler reads the request,
  logs it, decides, waits where the experiment wants a slow dependency, and replies. A failure to
  write the reply is ignored by the handler and is not modelled.
\<close>

section \<open>The decision\<close>

text \<open>\<^verbatim>\<open>dict(v)\<close> of an annotations value: a mapping is copied, an empty list or string gives \<^verbatim>\<open>{}\<close>; a list
  of pairs, which no decoded Kubernetes object has there, is refused.\<close>

fun py_dict :: "json \<Rightarrow> exn + (string \<times> json) list" where
  "py_dict (JDict d) = Inr d"
| "py_dict (JList xs) = (if xs = [] then Inr []
     else Inl (TypeError ''cannot convert dictionary update sequence element #0 to a sequence''))"
| "py_dict (JStr s) = (if s = [] then Inr []
     else Inl (ValueError ''dictionary update sequence element #0 has length 1; 2 is required''))"
| "py_dict v = Inl (TypeError (quoted (type_name v) @ '' object is not iterable''))"

definition mutation_patch :: "(string \<times> json) list \<Rightarrow> json" where
  "mutation_patch annotations = JList [JDict [(''op'', JStr ''add''), (''path'', JStr ''/metadata/annotations''),
     (''value'', JDict (dict_set annotations ''article.example/mutated'' (JStr ''yes'')))]]"

text \<open>The response and whether the handler waits three seconds before it sends it.\<close>

definition admission_response :: "string \<Rightarrow> json \<Rightarrow> json \<Rightarrow> json \<Rightarrow> exn + (json \<times> bool)" where
  "admission_response path uid obj name =
     (let response = [(''uid'', uid), (''allowed'', JBool True)] in
      if path = ''/mutate'' then
        bindE (bindE (jpath [Sub ''metadata'', Get ''annotations'' emptyD] obj) py_dict) (\<lambda>annotations.
          Inr (JDict (dict_update response [(''patchType'', JStr ''JSONPatch''),
            (''patch'', JStr (b64encode (dumps (mutation_patch annotations))))]), False))
      else
        bindE (jpath [Get ''data'' emptyD, get0 ''deny''] obj) (\<lambda>deny.
          if py_eq deny (JStr ''true'') then
            Inr (JDict (dict_update response [(''allowed'', JBool False),
              (''status'', JDict [(''code'', JInt 403), (''message'', JStr ''article policy denied this ConfigMap'')])]), False)
          else
            bindE (jstartswith name ''timeout'') (\<lambda>slow. Inr (JDict response, slow))))"


section \<open>The handler\<close>

definition admission_review :: "json \<Rightarrow> json" where
  "admission_review response = JDict
     [(''apiVersion'', JStr ''admission.k8s.io/v1''), (''kind'', JStr ''AdmissionReview''), (''response'', response)]"

definition content_length :: "http_request \<Rightarrow> exn + int" where
  "content_length q = (case header (headers q) ''Content-Length'' of
     None \<Rightarrow> Inl (TypeError (''int() argument must be a string, a bytes-like object or a real number, not ''
               @ quoted ''NoneType''))
   | Some v \<Rightarrow> py_int v)"

definition admission_do_POST :: "http_request \<Rightarrow> ('w, 'g, http_reply) prog" where
  "admission_do_POST q =
     bindM (liftE (content_length q)) (\<lambda>n.
     bindM (py_loads (rfile_read q n)) (\<lambda>review.
     bindM (liftE (jsub review ''request'')) (\<lambda>req.
     bindM (liftE (jsub req ''object'')) (\<lambda>obj.
     let path = before {CHR ''?''} (target q) in
     bindM (liftE (jpath [Sub ''metadata'', Sub ''name''] obj)) (\<lambda>name.
     bindM (liftE (jsub req ''uid'')) (\<lambda>uid.
     thenM (py_print (dumps (JDict [(''path'', JStr path), (''name'', name), (''uid'', uid)])))
       (bindM (liftE (admission_response path uid obj name)) (\<lambda>(response, slow).
        thenM (whenM slow (sleep 3000))
          (let body = dumps (admission_review response) in
           returnM (Reply 200 [(''Content-Type'', ''application/json''),
             (''Content-Length'', nat_str (length body))] body))))))))))"


section \<open>What the API server does with the patch\<close>

text \<open>The \<^verbatim>\<open>add\<close> operation of RFC 6902 on object members, along the reference tokens of a path.\<close>

fun json_add :: "string list \<Rightarrow> json \<Rightarrow> json \<Rightarrow> json option" where
  "json_add [k] v (JDict d) = Some (JDict (dict_set d k v))"
| "json_add (k # k' # ks) v (JDict d) = (case map_of d k of
     None \<Rightarrow> None
   | Some x \<Rightarrow> map_option (\<lambda>y. JDict (dict_set d k y)) (json_add (k' # ks) v x))"
| "json_add _ _ _ = None"

definition apply_op :: "json \<Rightarrow> json \<Rightarrow> json option" where
  "apply_op op obj = (case (jsub op ''op'', jsub op ''path'', jsub op ''value'') of
     (Inr o1, Inr (JStr p), Inr v) \<Rightarrow>
        if o1 = JStr ''add'' then json_add (tl (split_on (CHR ''/'') p)) v obj else None
   | _ \<Rightarrow> None)"

definition apply_patch :: "json \<Rightarrow> json \<Rightarrow> json option" where
  "apply_patch patch obj = (case patch of
     JList ops \<Rightarrow> foldl (\<lambda>acc op. Option.bind acc (apply_op op)) (Some obj) ops | _ \<Rightarrow> None)"

text \<open>A client of the webhook: decode the patch of the response and apply it to the object.\<close>

definition patched :: "json \<Rightarrow> json \<Rightarrow> json option" where
  "patched response obj = (case jsub response ''patch'' of
     Inr (JStr p) \<Rightarrow> (case b64decode p of
         None \<Rightarrow> None
       | Some t \<Rightarrow> (case loads t of Inl e \<Rightarrow> None | Inr patch \<Rightarrow> apply_patch patch obj))
   | _ \<Rightarrow> None)"

lemma annotations_path: "tl (split_on (CHR ''/'') ''/metadata/annotations'') = [''metadata'', ''annotations'']"
  by code_simp

lemma wf_dict_set: "\<forall>e \<in> set d. wf_json (snd e) \<Longrightarrow> wf_json v \<Longrightarrow> \<forall>e \<in> set (dict_set d k v). wf_json (snd e)"
  by (induction d k v rule: dict_set.induct) auto

lemma wf_mutation_patch: "wf_json (JDict a) \<Longrightarrow> wf_json (mutation_patch a)"
  using wf_dict_set [of a "JStr ''yes''"] by (simp add: mutation_patch_def distinct_dict_set)

lemma apply_mutation_patch:
  "apply_patch (mutation_patch a) (JDict d) = (case map_of d ''metadata'' of
     Some (JDict m) \<Rightarrow> Some (JDict (dict_set d ''metadata'' (JDict (dict_set m ''annotations''
        (JDict (dict_set a ''article.example/mutated'' (JStr ''yes'')))))))
   | _ \<Rightarrow> None)"
  by (auto simp: mutation_patch_def apply_patch_def apply_op_def annotations_path
      split: option.splits json.splits)

lemma wf_py_dict: "wf_json v \<Longrightarrow> py_dict v = Inr a \<Longrightarrow> wf_json (JDict a)"
  by (cases v) (auto split: if_splits)


section \<open>Properties\<close>

text \<open>
  C4: what the mutating path answers is an allowed response whose patch the API server can decode
  (base64, then JSON), and applying it to the object gives the same object, its metadata as before
  except for the annotations, which are the old ones with \<^verbatim>\<open>article.example/mutated: yes\<close> set.
\<close>

theorem mutation_keeps_annotations:
  assumes "wf_json (JDict d)" and "map_of d ''metadata'' = Some (JDict m)"
    and "admission_response ''/mutate'' uid (JDict d) name = Inr (response, slow)"
  shows "\<exists>a. py_dict (case map_of m ''annotations'' of None \<Rightarrow> emptyD | Some v \<Rightarrow> v) = Inr a \<and>
    jsub response ''uid'' = Inr uid \<and> jsub response ''allowed'' = Inr (JBool True) \<and> \<not> slow \<and>
    patched response (JDict d) = Some (JDict (dict_set d ''metadata'' (JDict (dict_set m ''annotations''
       (JDict (dict_set a ''article.example/mutated'' (JStr ''yes'')))))))"
proof -
  let ?v = "case map_of m ''annotations'' of None \<Rightarrow> emptyD | Some v \<Rightarrow> v"
  obtain a where a: "py_dict ?v = Inr a"
    and resp: "response = JDict (dict_update [(''uid'', uid), (''allowed'', JBool True)]
        [(''patchType'', JStr ''JSONPatch''), (''patch'', JStr (b64encode (dumps (mutation_patch a))))])"
    and slow: "\<not> slow"
    using assms(2,3) by (auto simp: admission_response_def Let_def bindE_Inr_iff)
  have m: "wf_json (JDict m)" by (rule wf_map_of [OF _ assms(2)]) (use assms(1) in simp)
  have "wf_json ?v" using m by (cases "map_of m ''annotations''") (simp_all, metis wf_member)
  then have "wf_json (mutation_patch a)" using wf_py_dict [OF _ a] wf_mutation_patch by simp
  then have "patched response (JDict d) = apply_patch (mutation_patch a) (JDict d)"
    using resp by (simp add: patched_def map_of_dict_update map_add_def)
  with a slow resp assms(2) show ?thesis
    by (intro exI [of _ a]) (simp add: apply_mutation_patch map_of_dict_update map_add_def)
qed

text \<open>
  C5: on the validating path a request is denied, with code 403, exactly when the object's data has
  \<^verbatim>\<open>deny: "true"\<close>: the denial comes before the slow branch, so no name makes it wait, and nothing
  else is ever denied.
\<close>

theorem deny_decides:
  assumes "path \<noteq> ''/mutate''" and "admission_response path uid obj name = Inr (response, slow)"
  shows "\<exists>deny. jpath [Get ''data'' emptyD, get0 ''deny''] obj = Inr deny \<and> jsub response ''uid'' = Inr uid \<and>
    (if deny = JStr ''true''
     then jsub response ''allowed'' = Inr (JBool False) \<and>
       jpath [Sub ''status'', Sub ''code''] response = Inr (JInt 403) \<and> \<not> slow
     else jsub response ''allowed'' = Inr (JBool True) \<and> jsub response ''status'' = Inl (KeyError ''status'') \<and>
       jstartswith name ''timeout'' = Inr slow)"
  using assms
  by (auto simp: admission_response_def Let_def bindE_Inr_iff dict_update_def split: if_splits)

definition sample_configmap :: "(string \<times> json) list" where
  "sample_configmap = [(''metadata'', JDict [(''name'', JStr ''timeout-1''),
      (''annotations'', JDict [(''owner'', JStr ''team'')])]), (''data'', JDict [(''deny'', JStr ''true'')])]"

theorem deny_decides_witness:
  "\<exists>response. admission_response ''/validate'' (JStr ''u'') (JDict sample_configmap) (JStr ''timeout-1'') = Inr (response, False) \<and>
     jsub response ''allowed'' = Inr (JBool False)"
proof -
  obtain response slow where r: "admission_response ''/validate'' (JStr ''u'') (JDict sample_configmap)
      (JStr ''timeout-1'') = Inr (response, slow)"
    by (auto simp: admission_response_def sample_configmap_def Let_def)
  show ?thesis
    using deny_decides [OF _ r] r by (auto simp: sample_configmap_def)
qed

theorem mutation_keeps_annotations_witness:
  "\<exists>response. admission_response ''/mutate'' (JStr ''u'') (JDict sample_configmap) (JStr ''timeout-1'') = Inr (response, False) \<and>
     patched response (JDict sample_configmap) = Some (JDict (dict_set sample_configmap ''metadata''
       (JDict [(''name'', JStr ''timeout-1''), (''annotations'',
          JDict [(''owner'', JStr ''team''), (''article.example/mutated'', JStr ''yes'')])])))"
proof -
  obtain response slow where r: "admission_response ''/mutate'' (JStr ''u'') (JDict sample_configmap)
      (JStr ''timeout-1'') = Inr (response, slow)"
    by (auto simp: admission_response_def sample_configmap_def Let_def)
  have "wf_json (JDict sample_configmap)" by code_simp
  then show ?thesis
    using mutation_keeps_annotations [OF _ _ r] r by (auto simp: sample_configmap_def)
qed

end
