(* ===== verification/CrdRun.thy ===== *)
theory CrdRun
  imports ArticleLab Http
begin

text \<open>
  \<^verbatim>\<open>article-crd-conversion/run.py\<close>: the experiment that installs the conversion webhook, creates a
  Widget in one version, reads it in the other, switches the storage version and stops serving the
  old one. The script is the sequence of its phases; \<open>CrdRun_end\<close> deletes what it made.
\<close>

section \<open>Constants and helpers\<close>

definition GROUP :: string where "GROUP = ''example.jimyag.com''"

definition CRD_NAME :: string where "CRD_NAME = ''widgets.example.jimyag.com''"

definition TLS_DIR :: string where "TLS_DIR = ''tmp/article-next/crd-tls''"

definition WEBHOOK_DIR :: string where "WEBHOOK_DIR = ''article-crd-conversion''"

definition crd_command :: "string list \<Rightarrow> ('w, 'g, proc) prog" where
  "crd_command args = bindM (run_process args None None) (checked True (command_failed args))"

definition apply_global :: "lab \<Rightarrow> json \<Rightarrow> ('w, 'g, unit) prog" where
  "apply_global L obj =
    (bindM (liftE (bindE (jsub obj ''kind'') (str_method ''lower''))) (\<lambda>kind.
     bindM (liftE (bindE (jpath [Sub ''metadata'', Sub ''name''] obj) jstr)) (\<lambda>name.
     thenM (lab_save L (''input-'' @ lower kind @ ''-'' @ name) obj) (
     ign (lab_k [''apply'', ''-f'', ''-''] (Some (dumps obj)) True 300)))))"

definition make_tls :: "string \<Rightarrow> ('w, 'g, string \<times> string \<times> string) prog" where
  "make_tls namespace =
     (let ca_key = TLS_DIR @ ''/ca.key''; ca_crt = TLS_DIR @ ''/ca.crt'';
          server_key = TLS_DIR @ ''/server.key''; server_csr = TLS_DIR @ ''/server.csr'';
          server_crt = TLS_DIR @ ''/server.crt''; ext = TLS_DIR @ ''/server.ext'' in
            (thenM (mkdir TLS_DIR) (
             thenM (crd_command [''openssl'', ''req'', ''-x509'', ''-newkey'', ''rsa:2048'', ''-nodes'',
           ''-keyout'', ca_key, ''-out'', ca_crt, ''-subj'', ''/CN=article-crd-ca'', ''-days'', ''2'']) (
             thenM (crd_command [''openssl'', ''req'', ''-newkey'', ''rsa:2048'', ''-nodes'', ''-keyout'',
           server_key, ''-out'', server_csr, ''-subj'', ''/CN=widget-webhook.'' @ namespace @ ''.svc'']) (
             thenM (write_text ext (''subjectAltName=DNS:widget-webhook.'' @ namespace @ ''.svc'' @ [CHR 0x0A])) (
             thenM (crd_command [''openssl'', ''x509'', ''-req'', ''-in'', server_csr, ''-CA'', ca_crt, ''-CAkey'',
           ca_key, ''-CAcreateserial'', ''-out'', server_crt, ''-days'', ''2'', ''-extfile'', ext]) (
             returnM (ca_crt, server_crt, server_key))))))))"

text \<open>\<^verbatim>\<open>condition(obj, kind)\<close>: the first condition of that type with status \<^verbatim>\<open>True\<close>, else \<^verbatim>\<open>None\<close>.\<close>

definition is_condition :: "string \<Rightarrow> json \<Rightarrow> exn + bool" where
  "is_condition kind item =
     bindE (jget item ''type'' JNull) (\<lambda>t.
       if py_eq t (JStr kind) then bindE (jget item ''status'' JNull) (\<lambda>s. Inr (py_eq s (JStr ''True'')))
       else Inr False)"

definition condition :: "json \<Rightarrow> string \<Rightarrow> exn + json" where
  "condition obj kind =
     bindE (bindE (jpath [Get ''status'' emptyD, Get ''conditions'' (JList [])] obj) jiter) (\<lambda>items.
       case nextE (is_condition kind) items of
         Inl StopIteration \<Rightarrow> Inr JNull
       | r \<Rightarrow> r)"


section \<open>The objects\<close>

definition webhook_deployment :: json where
  "webhook_deployment =
     (JDict
       [(''apiVersion'', JStr ''apps/v1''), (''kind'', JStr ''Deployment''),
        (''metadata'', JDict [(''name'', JStr ''widget-webhook'')]),
        (''spec'',
          JDict
            [(''replicas'', JInt 1),
             (''selector'', JDict [(''matchLabels'', JDict [(''app'', JStr ''widget-webhook'')])]),
             (''template'',
               JDict
                 [(''metadata'', JDict [(''labels'', JDict [(''app'', JStr ''widget-webhook'')])]),
                  (''spec'',
                    JDict
                      [(''containers'',
                         JList
                           [JDict
                              [(''name'', JStr ''webhook''), (''image'', JStr ''python:3.12-alpine''),
                               (''imagePullPolicy'', JStr ''IfNotPresent''),
                               (''command'', JList [JStr ''python'', JStr ''/app/webhook.py'']),
                               (''ports'',
                                 JList
                                   [JDict [(''name'', JStr ''https''), (''containerPort'', JInt 8443)]]),
                               (''readinessProbe'',
                                 JDict
                                   [(''httpGet'',
                                      JDict
                                        [(''path'', JStr ''/healthz''), (''port'', JStr ''https''),
                                         (''scheme'', JStr ''HTTPS'')]),
                                    (''periodSeconds'', JInt 2)]),
                               (''volumeMounts'',
                                 JList
                                   [JDict [(''name'', JStr ''code''), (''mountPath'', JStr ''/app'')],
                                    JDict
                                      [(''name'', JStr ''tls''), (''mountPath'', JStr ''/tls''),
                                       (''readOnly'', JBool True)]])]]),
                       (''volumes'',
                         JList
                           [JDict
                              [(''name'', JStr ''code''),
                               (''configMap'', JDict [(''name'', JStr ''webhook-code'')])],
                            JDict
                              [(''name'', JStr ''tls''),
                               (''secret'', JDict [(''secretName'', JStr ''widget-webhook-tls'')])]])])])])])"

definition webhook_service :: json where
  "webhook_service =
     (JDict
       [(''apiVersion'', JStr ''v1''), (''kind'', JStr ''Service''),
        (''metadata'', JDict [(''name'', JStr ''widget-webhook'')]),
        (''spec'',
          JDict
            [(''selector'', JDict [(''app'', JStr ''widget-webhook'')]),
             (''ports'',
               JList
                 [JDict
                    [(''name'', JStr ''https''), (''port'', JInt 443), (''targetPort'', JStr ''https'')]])])])"

definition schema_v1alpha1 :: json where
  "schema_v1alpha1 =
     (JDict
       [(''openAPIV3Schema'',
          JDict
            [(''type'', JStr ''object''),
             (''properties'',
               JDict
                 [(''spec'',
                    JDict
                      [(''type'', JStr ''object''), (''required'', JList [JStr ''label'']),
                       (''properties'',
                         JDict
                           [(''label'', JDict [(''type'', JStr ''string'')]),
                            (''replicas'', JDict [(''type'', JStr ''integer''), (''minimum'', JInt 1)])])]),
                  (''status'',
                    JDict
                      [(''type'', JStr ''object''),
                       (''x-kubernetes-preserve-unknown-fields'', JBool True)])])])])"

definition schema_v1beta1 :: json where
  "schema_v1beta1 =
     (JDict
       [(''openAPIV3Schema'',
          JDict
            [(''type'', JStr ''object''),
             (''properties'',
               JDict
                 [(''spec'',
                    JDict
                      [(''type'', JStr ''object''), (''required'', JList [JStr ''displayName'']),
                       (''properties'',
                         JDict
                           [(''displayName'', JDict [(''type'', JStr ''string'')]),
                            (''replicas'', JDict [(''type'', JStr ''integer''), (''minimum'', JInt 1)])])]),
                  (''status'',
                    JDict
                      [(''type'', JStr ''object''),
                       (''x-kubernetes-preserve-unknown-fields'', JBool True)])])])])"

definition widget_crd :: "string \<Rightarrow> string \<Rightarrow> json" where
  "widget_crd namespace ca_bundle =
     (JDict
       [(''apiVersion'', JStr ''apiextensions.k8s.io/v1''),
        (''kind'', JStr ''CustomResourceDefinition''),
        (''metadata'', JDict [(''name'', JStr CRD_NAME)]),
        (''spec'',
          JDict
            [(''group'', JStr GROUP), (''scope'', JStr ''Namespaced''),
             (''names'',
               JDict
                 [(''plural'', JStr ''widgets''), (''singular'', JStr ''widget''),
                  (''kind'', JStr ''Widget'')]),
             (''conversion'',
               JDict
                 [(''strategy'', JStr ''Webhook''),
                  (''webhook'',
                    JDict
                      [(''conversionReviewVersions'', JList [JStr ''v1'']),
                       (''clientConfig'',
                         JDict
                           [(''service'',
                              JDict
                                [(''namespace'', JStr namespace), (''name'', JStr ''widget-webhook''),
                                 (''path'', JStr ''/convert''), (''port'', JInt 443)]),
                            (''caBundle'', JStr ca_bundle)])])]),
             (''versions'',
               JList
                 [JDict
                    [(''name'', JStr ''v1alpha1''), (''served'', JBool True), (''storage'', JBool True),
                     (''schema'', schema_v1alpha1), (''subresources'', JDict [(''status'', JDict [])])],
                  JDict
                    [(''name'', JStr ''v1beta1''), (''served'', JBool True), (''storage'', JBool False),
                     (''schema'', schema_v1beta1), (''subresources'', JDict [(''status'', JDict [])])]])])])"

definition widget_resource :: json where
  "widget_resource =
     (JDict
       [(''apiVersion'', JStr (GROUP @ ''/v1alpha1'')), (''kind'', JStr ''Widget''),
        (''metadata'', JDict [(''name'', JStr ''sample'')]),
        (''spec'',
          JDict [(''label'', JStr ''alpha''), (''replicas'', JInt 3), (''unknown'', JStr ''pruned'')])])"


section \<open>The phases\<close>

definition install_webhook :: "lab \<Rightarrow> ('w, 'g, string) prog" where
  "install_webhook L =
    (bindM (make_tls (ns L)) (\<lambda>(ca, cert, key).
     thenM (kcmd [''delete'', ''secret'', ''widget-webhook-tls'', ''-n'', ns L, ''--ignore-not-found'']) (
     thenM (kcmd [''delete'', ''configmap'', ''webhook-code'', ''-n'', ns L, ''--ignore-not-found'']) (
     thenM (kcmd [''create'', ''secret'', ''tls'', ''widget-webhook-tls'', ''-n'', ns L, ''--cert='' @ cert,
           ''--key='' @ key]) (
     thenM (kcmd [''create'', ''configmap'', ''webhook-code'', ''-n'', ns L,
           ''--from-file=webhook.py='' @ WEBHOOK_DIR @ ''/webhook.py'']) (
     thenM (lab_apply L webhook_deployment) (
     thenM (kcmd [''rollout'', ''status'', ''deployment/widget-webhook'', ''-n'', ns L, ''--timeout=240s'']) (
     thenM (lab_apply L webhook_service) (
     bindM (read_text ca) (\<lambda>crt.
     returnM (b64encode crt)))))))))))"

definition get_crd :: "('w, 'g, json) prog" where
  "get_crd = bindM (kcmd [''get'', ''crd'', CRD_NAME, ''-o'', ''json'']) (\<lambda>r. py_loads (stdout r))"

definition established :: "('w, 'g, json) prog" where
  "established =
    (bindM get_crd (\<lambda>current.
     bindM (liftE (condition current ''Established'')) (\<lambda>c.
     returnM (if truth c then current else JNull))))"

definition resource_exists :: "lab \<Rightarrow> string \<Rightarrow> ('w, 'g, json) prog" where
  "resource_exists L version =
    (bindM (ktry [''get'', ''widgets.'' @ version @ ''.'' @ GROUP, ''sample'', ''-n'', ns L, ''-o'',
           ''json'']) (\<lambda>r.
     if returncode r \<noteq> 0 then returnM JNull else py_loads (stdout r)))"

text \<open>The Widget is created in \<^verbatim>\<open>v1alpha1\<close> and read back in both versions.\<close>

definition read_converted :: "lab \<Rightarrow> ('w, 'g, unit) prog" where
  "read_converted L =
    (thenM (lab_save L ''input-widget-sample'' widget_resource) (
     thenM (lab_k [''apply'', ''--validate=false'', ''-n'', ns L, ''-f'', ''-''] (Some (dumps widget_resource)) True 300) (
     bindM (lab_wait truth (resource_exists L ''v1alpha1'') 60) (\<lambda>v1alpha1.
     bindM (lab_wait truth (resource_exists L ''v1beta1'') 60) (\<lambda>v1beta1.
     bindM (liftE (jpath [Sub ''spec'', get0 ''unknown''] v1alpha1)) (\<lambda>unknown.
     thenM (assertM ''the unknown field was not pruned'' (\<not> py_eq unknown (JStr ''pruned''))) (
     bindM (liftE (jsub v1beta1 ''spec'')) (\<lambda>spec.
     thenM (assertM (''the conversion webhook returned a wrong object: '' @ py_str spec)
         (py_eq spec (JDict [(''displayName'', JStr ''alpha''), (''replicas'', JInt 3)]))) (
     bindM get_crd (\<lambda>crd.
     lab_save L ''converted-read'' (JDict [(''v1alpha1'', v1alpha1), (''v1beta1'', v1beta1), (''crd'', crd)])))))))))))"

definition storage_patch :: json where
  "storage_patch =
     (JList
       [JDict
          [(''op'', JStr ''replace''), (''path'', JStr ''/spec/versions/0/storage''),
           (''value'', JBool False)],
        JDict
          [(''op'', JStr ''replace''), (''path'', JStr ''/spec/versions/1/storage''),
           (''value'', JBool True)]])"

definition storage_is_beta :: "('w, 'g, json) prog" where
  "storage_is_beta =
    (bindM get_crd (\<lambda>current.
     bindM (liftE (jpath [Get ''status'' emptyD, Get ''storedVersions'' (JList [])] current)) (\<lambda>stored.
     bindM (liftE (jin (JStr ''v1beta1'') stored)) (\<lambda>beta.
     returnM (if beta then current else JNull)))))"

definition switch_storage :: "lab \<Rightarrow> ('w, 'g, unit) prog" where
  "switch_storage L =
    (thenM (kcmd [''patch'', ''crd'', CRD_NAME, ''--type=json'', ''-p'', dumps storage_patch]) (
     bindM (lab_wait truth storage_is_beta 120) (\<lambda>after_switch.
     thenM (lab_save L ''storage-version-switched'' after_switch) (
     thenM (kcmd [''patch'', ''widgets.v1beta1.'' @ GROUP, ''sample'', ''-n'', ns L, ''--type=merge'',
           ''-p'',
           dumps (JDict [(''metadata'', JDict [(''annotations'',
           JDict [(''example.jimyag.com/written-via'', JStr ''v1beta1'')])])])]) (
     bindM (lab_wait truth (resource_exists L ''v1beta1'') 60) (\<lambda>rewritten.
     bindM get_crd (\<lambda>crd.
     lab_save L ''written-via-beta'' (JDict [(''object'', rewritten), (''crd'', crd)]))))))))"

definition alpha_unserved :: "lab \<Rightarrow> ('w, 'g, proc option) prog" where
  "alpha_unserved L =
    (bindM (ktry [''get'', ''widgets.v1alpha1.'' @ GROUP, ''sample'', ''-n'', ns L, ''-o'', ''json'']) (\<lambda>r.
     returnM (if returncode r \<noteq> 0 then Some r else None)))"

definition unserve_alpha :: "lab \<Rightarrow> ('w, 'g, unit) prog" where
  "unserve_alpha L =
    (thenM (kcmd [''patch'', ''crd'', CRD_NAME, ''--type=json'', ''-p'',
           dumps (JList [JDict [(''op'', JStr ''replace''),
           (''path'', JStr ''/spec/versions/0/served''), (''value'', JBool False)]])]) (
     bindM (lab_wait (\<lambda>r. r \<noteq> None) (alpha_unserved L) 90) (\<lambda>unserved.
     bindM (resource_exists L ''v1beta1'') (\<lambda>beta_after.
     thenM (assertM ''v1beta1 cannot read the object once v1alpha1 is not served'' (truth beta_after)) (
     bindM get_crd (\<lambda>crd.
     lab_save L ''old-version-unserved'' (JDict [(''v1alpha1_error'', JStr (strip (stderr (the unserved)))),
         (''v1beta1'', beta_after), (''crd'', crd)])))))))"

definition crd_finish :: "lab \<Rightarrow> ('w, 'g, unit) prog" where
  "crd_finish L =
    (bindM (kcmd [''logs'', ''deployment/widget-webhook'', ''-n'', ns L, ''--tail=100'']) (\<lambda>r.
     thenM (lab_save L ''webhook-log'' (JStr (stdout r))) (
     thenM (lab_save L ''result'' (JDict
         [(''conversion_webhook'', JBool True), (''pruned_unknown_field'', JBool True),
          (''storage_version_has_v1beta1'', JBool True), (''old_version_unserved'', JBool True)])) (
     thenM (kcmd [''delete'', ''crd'', CRD_NAME, ''--wait=true'']) (
     thenM (kcmd [''delete'', ''namespace'', ns L, ''--wait=true'']) (
     py_print ''PASS''))))))"

definition crd_experiment :: "lab \<Rightarrow> ('w, 'g, unit) prog" where
  "crd_experiment L =
    (bindM (install_webhook L) (\<lambda>ca_bundle.
     thenM (apply_global L (widget_crd (ns L) ca_bundle)) (
     thenM (lab_wait truth established 180) (
     thenM (read_converted L) (
     thenM (switch_storage L) (
     thenM (unserve_alpha L) (
     crd_finish L)))))))"

definition crd_run :: "('w, 'g, unit) prog" where
  "crd_run =
    (thenM (kcmd [''delete'', ''crd'', CRD_NAME, ''--ignore-not-found'', ''--wait=true'']) (
     bindM (lab_init ''crd-conversion'') (\<lambda>L.
     crd_experiment L)))"


section \<open>Commands and termination\<close>

lemmas crd_defs = crd_run_def crd_experiment_def install_webhook_def make_tls_def crd_command_def apply_global_def get_crd_def
  established_def resource_exists_def read_converted_def storage_is_beta_def switch_storage_def
  alpha_unserved_def unserve_alpha_def crd_finish_def

lemma crd_appends [emits_intros]:
  "emits os (\<lambda>_. True) (install_webhook L)" "emits os (\<lambda>_. True) (apply_global L obj)"
  "emits os (\<lambda>_. True) established" "emits os (\<lambda>_. True) (resource_exists L ver)"
  "emits os (\<lambda>_. True) storage_is_beta" "emits os (\<lambda>_. True) (alpha_unserved L)"
  "emits os (\<lambda>_. True) get_crd"
  unfolding crd_defs Let_def by (intro emits_intros; simp)+

lemma crd_pinned: "emits os (on_context [''openssl''] (CONTEXT os)) crd_run"
  unfolding crd_defs Let_def by (intro emits_intros; simp add: on_context_def)

lemma crd_runs: "clock_ok os now \<Longrightarrow> runs os now crd_run"
  unfolding crd_defs Let_def by (intro runs_intros; simp)


section \<open>What a PASS means\<close>

text \<open>The four observations the result file claims, as answers of the cluster.\<close>

definition saw_converted :: "lab \<Rightarrow> event \<Rightarrow> bool" where
  "saw_converted L = answered [''get'', ''widgets.v1beta1.'' @ GROUP, ''sample'', ''-n'', ns L, ''-o'',
      ''json''] (\<lambda>r.
     case bindE (loads (stdout r)) (\<lambda>v. jsub v ''spec'') of
       Inr spec \<Rightarrow> py_eq spec (JDict [(''displayName'', JStr ''alpha''), (''replicas'', JInt 3)])
     | Inl e \<Rightarrow> False)"

definition saw_pruned :: "lab \<Rightarrow> event \<Rightarrow> bool" where
  "saw_pruned L = answered [''get'', ''widgets.v1alpha1.'' @ GROUP, ''sample'', ''-n'', ns L, ''-o'',
      ''json''] (\<lambda>r.
     case bindE (loads (stdout r)) (jpath [Sub ''spec'', get0 ''unknown'']) of
       Inr unknown \<Rightarrow> unknown \<noteq> JStr ''pruned'' | Inl e \<Rightarrow> False)"

definition saw_beta_storage :: "event \<Rightarrow> bool" where
  "saw_beta_storage = answered [''get'', ''crd'', CRD_NAME, ''-o'', ''json''] (\<lambda>r.
     bindE (bindE (loads (stdout r)) (jpath [Get ''status'' emptyD, Get ''storedVersions'' (JList [])]))
       (jin (JStr ''v1beta1'')) = Inr True)"

definition saw_alpha_refused :: "lab \<Rightarrow> event \<Rightarrow> bool" where
  "saw_alpha_refused L =
     answered [''get'', ''widgets.v1alpha1.'' @ GROUP, ''sample'', ''-n'', ns L, ''-o'', ''json''] (\<lambda>r. returncode r \<noteq> 0)"

lemma read_converted_wp:
  "wp os (read_converted L) (\<lambda>_ gs. list_ex (saw_converted L) gs \<and> list_ex (saw_pruned L) gs) es"
  unfolding read_converted_def resource_exists_def get_crd_def
  by (intro wp_intros emits_intros impI; simp add: saw_converted_def saw_pruned_def)

lemma switch_storage_wp: "wp os (switch_storage L) (\<lambda>_ gs. list_ex saw_beta_storage gs) es"
  unfolding switch_storage_def storage_is_beta_def resource_exists_def get_crd_def
  by (intro wp_intros emits_intros impI; simp add: saw_beta_storage_def split: if_splits)

lemma unserve_alpha_wp: "wp os (unserve_alpha L) (\<lambda>_ gs. list_ex (saw_alpha_refused L) gs) es"
  unfolding unserve_alpha_def alpha_unserved_def resource_exists_def get_crd_def
  by (intro wp_intros emits_intros impI; simp add: saw_alpha_refused_def split: if_splits)

lemma crd_phases_append [emits_intros]:
  "emits os (\<lambda>_. True) (read_converted L)" "emits os (\<lambda>_. True) (switch_storage L)"
  "emits os (\<lambda>_. True) (unserve_alpha L)"
  unfolding read_converted_def switch_storage_def unserve_alpha_def by (intro emits_intros; simp)+

lemmas crd_phases_wp = crd_phases_append(1) [THEN wp_phase, OF read_converted_wp]
  crd_phases_append(2) [THEN wp_phase, OF switch_storage_wp]
  crd_phases_append(3) [THEN wp_phase, OF unserve_alpha_wp]
  crd_appends(1-3) [THEN wp_frame]

text \<open>
  C9: when the script prints \<^verbatim>\<open>PASS\<close>, the cluster has really answered the way the result file
  says: \<^verbatim>\<open>v1beta1\<close> was read as the converted Widget, the unknown field was gone in \<^verbatim>\<open>v1alpha1\<close>,
  \<^verbatim>\<open>storedVersions\<close> had \<^verbatim>\<open>v1beta1\<close>, and reading \<^verbatim>\<open>v1alpha1\<close> was refused once it was not served.
\<close>

theorem crd_pass_observed:
  assumes "crd_run os s = Some (Inr u, s')" and "trace s = []"
  shows "list_ex (saw_converted (lab_of ''crd-conversion'')) (trace s') \<and>
    list_ex (saw_pruned (lab_of ''crd-conversion'')) (trace s') \<and>
    list_ex saw_beta_storage (trace s') \<and>
    list_ex (saw_alpha_refused (lab_of ''crd-conversion'')) (trace s') \<and>
    last (trace s') = Printed ''PASS''"
proof -
  let ?L = "lab_of ''crd-conversion''"
  have "wp os crd_run (\<lambda>_ gs. list_ex (saw_converted ?L) gs \<and> list_ex (saw_pruned ?L) gs \<and>
      list_ex saw_beta_storage gs \<and> list_ex (saw_alpha_refused ?L) gs \<and> last gs = Printed ''PASS'') (trace s)"
    unfolding crd_run_def crd_experiment_def crd_finish_def
    by (intro wp_intros crd_phases_wp emits_intros impI conjI; (blast intro: list_ex_left | simp))
  from wpD [OF this assms(1)] show ?thesis .
qed


text \<open>A cluster that plays along: it answers everything with one document, and refuses \<^verbatim>\<open>v1alpha1\<close> late.\<close>

definition demo_document :: json where
  "demo_document = JDict
     [(''items'', JList [JDict [(''metadata'', JDict [(''name'', JStr ''article-next-worker'')])]]),
      (''spec'', JDict [(''displayName'', JStr ''alpha''), (''replicas'', JInt 3)]),
      (''status'', JDict [(''conditions'', JList [JDict [(''type'', JStr ''Established''), (''status'', JStr ''True'')]]),
         (''storedVersions'', JList [JStr ''v1beta1''])])]"

definition demo_crd :: "string list \<Rightarrow> nat \<Rightarrow> proc" where
  "demo_crd args w =
     printed (if 25 < w \<and> args ! 4 = ''widgets.v1alpha1.'' @ GROUP then 1 else 0) demo_document"

lemma demo_document_wf [simp]: "wf_json demo_document"
  by code_simp

lemmas demo_crd_simps = demo_crd_def demo_document_def is_lab_node_def jstartswith_def startswith_code
  is_condition_def condition_def webhook_deployment_def webhook_service_def widget_crd_def GROUP_def

lemma demo_crd_run: "\<exists>w'. succeeds (demo_os demo_crd) crd_run 0 () w'"
  unfolding crd_defs Let_def
  by (rule exI, (rule succeeds_intros lab_init_succeeds [where doc = demo_document] | (rule succeeds_if_False, (simp add: demo_crd_simps; fail))
      | (simp add: demo_crd_simps; fail))+)

theorem crd_pass_observed_witness:
  "\<exists>s'. crd_run (demo_os demo_crd) (demo_start ()) = Some (Inr (), s') \<and>
     list_ex (saw_alpha_refused (lab_of ''crd-conversion'')) (trace s') \<and> last (trace s') = Printed ''PASS''"
proof -
  obtain s' where run: "crd_run (demo_os demo_crd) (demo_start ()) = Some (Inr (), s')"
    using demo_crd_run by (rule demo_succeeds)
  from crd_pass_observed [OF this] show ?thesis using run by auto
qed


section \<open>The deletion that comes before the guard\<close>

text \<open>
  C8: the script deletes the Widget CRD before it constructs the \<^verbatim>\<open>Lab\<close>, so the constructor's checks
  do not protect it: without \<^verbatim>\<open>KUBECONFIG\<close> the run ends in an error, and yet the first thing it has
  done is the deletion, on whatever cluster the context names.
\<close>

theorem crd_deletes_before_guard:
  assumes "environ os ''KUBECONFIG'' = None" and "crd_run os s = Some (r, s')"
  shows "(\<exists>p es. trace s' = trace s @ Ran [KUBECTL os, ''--context'', CONTEXT os, ''delete'', ''crd'',
      CRD_NAME, ''--ignore-not-found'', ''--wait=true''] None p # es) \<and> (\<exists>e. r = Inl e)"
proof -
  let ?del = "kcmd [''delete'', ''crd'', CRD_NAME, ''--ignore-not-found'', ''--wait=true'']"
  let ?rest = "bindM (lab_init ''crd-conversion'') crd_experiment"
  from assms(2) have "bindM ?del (\<lambda>_. ?rest) os s = Some (r, s')"
    unfolding crd_run_def thenM_def [of ?del] .
  then show ?thesis
  proof (cases rule: bindM_SomeE)
    case (1 e)
    then show ?thesis by (auto dest: article_k.k_trace)
  next
    case (2 p s1)
    obtain q where "trace s1 = trace s @ [Ran [KUBECTL os, ''--context'', CONTEXT os, ''delete'', ''crd'',
      CRD_NAME, ''--ignore-not-found'', ''--wait=true''] None q]" using article_k.k_trace [OF 2(1)] by auto
    moreover have "emits os (\<lambda>_. True) ?rest"
      unfolding crd_defs Let_def by (intro emits_intros; simp)
    then obtain es where "trace s' = trace s1 @ es" using 2(2) by (rule emitsD)
    moreover have "\<exists>e. r = Inl e"
      using 2(2) by (rule bindM_SomeE) (use assms(1) lab_init_needs_kubeconfig in \<open>fastforce+\<close>)
    ultimately show ?thesis by auto
  qed
qed

definition no_kubeconfig :: "nat os" where
  "no_kubeconfig = (demo_os demo_crd)\<lparr>environ := (\<lambda>_. None)\<rparr>"

theorem crd_deletes_before_guard_witness:
  "\<exists>r s' p es. crd_run no_kubeconfig (demo_start ()) = Some (r, s') \<and>
     trace s' = Ran [''kubectl'', ''--context'', ''kind-article-next'', ''delete'', ''crd'',
       CRD_NAME, ''--ignore-not-found'', ''--wait=true''] None p # es"
proof -
  have env: "environ no_kubeconfig = (\<lambda>_. None)" by (simp add: no_kubeconfig_def)
  have clock: "clock_ok no_kubeconfig int" by (simp add: no_kubeconfig_def demo_os_def clock_ok_def)
  obtain r s' where run: "crd_run no_kubeconfig (demo_start ()) = Some (r, s')"
    using crd_runs [OF clock] by (rule runsE)
  from crd_deletes_before_guard [OF _ run] show ?thesis
    using run by (auto simp: env KUBECTL_def CONTEXT_def)
qed

end
