(* ===== verification/PvcRun.thy ===== *)
theory PvcRun
  imports CrdRun
begin

text \<open>
  \<^verbatim>\<open>article-pvc-expansion/run.py\<close>: expansion of a PersistentVolumeClaim, from the controller's part to
  the node's, and the two refusals (shrinking, and a StorageClass without expansion).
\<close>

section \<open>The objects\<close>

definition pvc_apply_global :: "lab \<Rightarrow> json \<Rightarrow> ('w, 'g, unit) prog" where
  "pvc_apply_global L obj =
    (bindM (liftE (bindE (jsub obj ''kind'') (str_method ''lower''))) (\<lambda>kind.
     bindM (liftE (bindE (jpath [Sub ''metadata'', Sub ''name''] obj) jstr)) (\<lambda>name.
     thenM (lab_save L (''input-'' @ lower kind @ ''-'' @ name) obj) (
     ign (lab_k [''apply'', ''-f'', ''-''] (Some (dumps obj)) True 300)))))"

definition storage_class :: "string \<Rightarrow> bool \<Rightarrow> json" where
  "storage_class name allow =
     (JDict
       [(''apiVersion'', JStr ''storage.k8s.io/v1''), (''kind'', JStr ''StorageClass''),
        (''metadata'', JDict [(''name'', JStr name)]), (''provisioner'', JStr ''hostpath.csi.k8s.io''),
        (''reclaimPolicy'', JStr ''Delete''), (''volumeBindingMode'', JStr ''Immediate''),
        (''allowVolumeExpansion'', JBool allow)])"

definition pvc :: "string \<Rightarrow> string \<Rightarrow> string \<Rightarrow> json" where
  "pvc name sc sz =
     (JDict
       [(''apiVersion'', JStr ''v1''), (''kind'', JStr ''PersistentVolumeClaim''),
        (''metadata'', JDict [(''name'', JStr name)]),
        (''spec'',
          JDict
            [(''storageClassName'', JStr sc), (''accessModes'', JList [JStr ''ReadWriteOnce'']),
             (''resources'', JDict [(''requests'', JDict [(''storage'', JStr sz)])])])])"

definition consumer :: "string \<Rightarrow> string \<Rightarrow> json \<Rightarrow> json" where
  "consumer name claim node =
     (JDict
       [(''apiVersion'', JStr ''v1''), (''kind'', JStr ''Pod''),
        (''metadata'', JDict [(''name'', JStr name), (''labels'', JDict [(''app'', JStr name)])]),
        (''spec'',
          JDict
            [(''terminationGracePeriodSeconds'', JInt 1),
             (''nodeSelector'', JDict [(''kubernetes.io/hostname'', node)]),
             (''containers'',
               JList
                 [JDict
                    [(''name'', JStr ''app''), (''image'', JStr ''alpine:3.20''),
                     (''imagePullPolicy'', JStr ''IfNotPresent''),
                     (''command'', JList [JStr ''sh'', JStr ''-c'', JStr ''sleep 3600'']),
                     (''volumeMounts'',
                       JList [JDict [(''name'', JStr ''data''), (''mountPath'', JStr ''/data'')]])]]),
             (''volumes'',
               JList
                 [JDict
                    [(''name'', JStr ''data''),
                     (''persistentVolumeClaim'', JDict [(''claimName'', JStr claim)])]])])])"

definition storage_request :: "string \<Rightarrow> json" where
  "storage_request sz = JDict [(''spec'', JDict [(''resources'', JDict [(''requests'', JDict [(''storage'', JStr sz)])])])]"


section \<open>The phases\<close>

text \<open>\<^verbatim>\<open>lab.get(kind, v)\<close> for a name \<open>v\<close> taken from another object: a false value lists them all.\<close>

definition lab_get_value :: "lab \<Rightarrow> string \<Rightarrow> json \<Rightarrow> ('w, 'g, json) prog" where
  "lab_get_value L kind v =
     (if truth v then bindM (liftE (jstr v)) (\<lambda>n. lab_get L kind (Some n)) else lab_get L kind None)"

definition pvc_driver :: "lab \<Rightarrow> ('w, 'g, json) prog" where
  "pvc_driver L =
    (bindM (kcmd [''get'', ''pod'', ''csi-hostpathplugin-0'', ''-o'', ''json'']) (\<lambda>r.
     bindM (py_loads (stdout r)) (\<lambda>driver.
     bindM (liftE (jpath [Sub ''spec'', Sub ''nodeName''] driver)) (\<lambda>node.
     bindM (liftE (jpath [Sub ''metadata'', Sub ''name''] driver)) (\<lambda>name.
     bindM (liftE (bindE (bindE (jpath [Sub ''spec'', Sub ''containers''] driver) jiter)
           (mapE (\<lambda>item. jsub item ''image'')))) (\<lambda>images.
     thenM (lab_save L ''driver'' (JDict [(''pod'', name), (''node'', node), (''images'', JList images)])) (
     returnM node)))))))"

definition pvc_bound :: "lab \<Rightarrow> string \<Rightarrow> ('w, 'g, bool) prog" where
  "pvc_bound L name =
    (bindM (lab_get L ''pvc'' (Some name)) (\<lambda>c.
     bindM (liftE (jpath [Sub ''status'', Sub ''phase''] c)) (\<lambda>phase.
     returnM (py_eq phase (JStr ''Bound'')))))"

definition pvc_create :: "lab \<Rightarrow> json \<Rightarrow> ('w, 'g, unit) prog" where
  "pvc_create L node =
    (thenM (pvc_apply_global L (storage_class ''article-expand'' True)) (
     thenM (pvc_apply_global L (storage_class ''article-no-expand'' False)) (
     thenM (lab_apply L (pvc ''expand'' ''article-expand'' ''64Mi'')) (
     thenM (lab_wait (\<lambda>b. b) (pvc_bound L ''expand'') 180) (
     bindM (lab_get L ''pvc'' (Some ''expand'')) (\<lambda>before_pvc.
     bindM (liftE (jpath [Sub ''spec'', Sub ''volumeName''] before_pvc)) (\<lambda>volume.
     bindM (lab_get_value L ''pv'' volume) (\<lambda>before_pv.
     thenM (lab_save L ''before'' (JDict [(''pvc'', before_pvc), (''pv'', before_pv)])) (
     thenM (lab_apply L (consumer ''writer'' ''expand'' node)) (
     thenM (lab_ready L ''writer'' ''240s'') (
     ign (lab_exec L ''writer'' [''sh'', ''-c'', ''printf persistent >/data/proof''] True))))))))))))"

definition is_resize_pending :: "json \<Rightarrow> exn + bool" where
  "is_resize_pending item = bindE (jget item ''type'' JNull) (\<lambda>t.
     if py_eq t (JStr ''FileSystemResizePending'')
     then bindE (jget item ''status'' JNull) (\<lambda>s. Inr (py_eq s (JStr ''True''))) else Inr False)"

definition controller_resized :: "json \<Rightarrow> exn + bool" where
  "controller_resized current =
     bindE (bindE (jpath [Get ''status'' emptyD, Get ''conditions'' (JList [])] current) jiter) (\<lambda>conditions.
     bindE (anyE is_resize_pending conditions) (\<lambda>pending.
     bindE (jpath [Get ''status'' emptyD, Get ''allocatedResources'' emptyD, get0 ''storage''] current) (\<lambda>allocated.
       Inr (pending \<and> py_eq allocated (JStr ''128Mi'')))))"

definition resize_pending :: "lab \<Rightarrow> ('w, 'g, json) prog" where
  "resize_pending L =
    (bindM (lab_get L ''pvc'' (Some ''expand'')) (\<lambda>current.
     bindM (liftE (controller_resized current)) (\<lambda>pending.
     returnM (if pending then current else JNull))))"

definition pvc_expand :: "lab \<Rightarrow> json \<Rightarrow> ('w, 'g, unit) prog" where
  "pvc_expand L node =
    (bindM (lab_patch L ''pvc'' ''expand'' (storage_request ''128Mi'') True) (\<lambda>patch.
     thenM (if returncode patch \<noteq> 0 then raiseM (RuntimeError (''the expansion request failed: '' @ stderr patch))
        else returnM ()) (
     bindM (lab_wait truth (resize_pending L) 180) (\<lambda>pending_pvc.
     bindM (liftE (jpath [Sub ''spec'', Sub ''volumeName''] pending_pvc)) (\<lambda>volume.
     bindM (lab_get_value L ''pv'' volume) (\<lambda>pv.
     thenM (lab_save L ''controller-expanded'' (JDict [(''pvc'', pending_pvc), (''pv'', pv)])) (
     thenM (kcmd [''delete'', ''pod'', ''writer'', ''-n'', ns L, ''--wait=true'']) (
     thenM (lab_apply L (consumer ''writer'' ''expand'' node)) (
     lab_ready L ''writer'' ''240s'')))))))))"

definition node_resized :: "json \<Rightarrow> exn + bool" where
  "node_resized current =
     bindE (jpath [Get ''status'' emptyD, Get ''capacity'' emptyD, get0 ''storage''] current)
       (\<lambda>c. Inr (py_eq c (JStr ''128Mi'')))"

definition expanded :: "lab \<Rightarrow> ('w, 'g, json) prog" where
  "expanded L =
    (bindM (lab_get L ''pvc'' (Some ''expand'')) (\<lambda>current.
     bindM (liftE (node_resized current)) (\<lambda>done.
     returnM (if done then current else JNull))))"

text \<open>The claim after the expansion; returns the volume and the output of \<^verbatim>\<open>df\<close>.\<close>

definition pvc_verify :: "lab \<Rightarrow> ('w, 'g, json \<times> string) prog" where
  "pvc_verify L =
    (bindM (lab_wait truth (expanded L) 240) (\<lambda>after_pvc.
     bindM (liftE (jpath [Sub ''spec'', Sub ''volumeName''] after_pvc)) (\<lambda>volume.
     bindM (lab_get_value L ''pv'' volume) (\<lambda>after_pv.
     bindM (lab_exec L ''writer'' [''df'', ''-h'', ''/data''] True) (\<lambda>df.
     bindM (lab_exec L ''writer'' [''cat'', ''/data/proof''] True) (\<lambda>proof.
     thenM (assertM ''the data is not readable after the expansion'' (stdout proof = ''persistent'')) (
     bindM (lab_events L) (\<lambda>events.
     thenM (lab_save L ''after-expand'' (JDict [(''pvc'', after_pvc), (''pv'', after_pv), (''df'', JStr (stdout df)),
         (''data'', JStr ''persistent''), (''events'', events)])) (
     returnM (after_pv, stdout df))))))))))"

definition pvc_refusals :: "lab \<Rightarrow> ('w, 'g, unit) prog" where
  "pvc_refusals L =
    (bindM (lab_patch L ''pvc'' ''expand'' (storage_request ''64Mi'') False) (\<lambda>shrink.
     thenM (assertM ''the request to shrink was not refused'' (returncode shrink \<noteq> 0)) (
     thenM (lab_save L ''shrink-rejected'' (JDict [(''exit_code'', JInt (returncode shrink)),
         (''stderr'', JStr (strip (stderr shrink)))])) (
     thenM (lab_apply L (pvc ''no-expand'' ''article-no-expand'' ''64Mi'')) (
     thenM (lab_wait (\<lambda>b. b) (pvc_bound L ''no-expand'') 180) (
     bindM (lab_patch L ''pvc'' ''no-expand'' (storage_request ''128Mi'') False) (\<lambda>no_expand.
     thenM (assertM ''the StorageClass without expansion did not refuse the change'' (returncode no_expand \<noteq> 0)) (
     bindM (lab_get L ''pvc'' (Some ''no-expand'')) (\<lambda>c.
     lab_save L ''storageclass-disallowed'' (JDict [(''exit_code'', JInt (returncode no_expand)),
         (''stderr'', JStr (strip (stderr no_expand))), (''pvc'', c)]))))))))))"

definition expand_call :: "json \<Rightarrow> string \<Rightarrow> exn + bool" where
  "expand_call volume_handle line =
     (if contains line ''ExpandVolume'' then jin volume_handle (JStr line) else Inr False)"

definition resizer_line :: "lab \<Rightarrow> string \<Rightarrow> bool" where
  "resizer_line L line \<longleftrightarrow> contains line (''\"key\":\"'' @ ns L @ ''/expand\"'') \<and>
     (contains line ''ControllerExpandVolume'' \<or> contains (lower line) ''file system resize''
      \<or> contains line ''Resize volume succeeded'')"

definition pvc_logs :: "lab \<Rightarrow> json \<Rightarrow> ('w, 'g, unit) prog" where
  "pvc_logs L after_pv =
    (bindM (kcmd [''logs'', ''csi-hostpathplugin-0'', ''-c'', ''hostpath'', ''-n'',
           ''default'', ''--tail=1200'']) (\<lambda>driver_log.
     bindM (kcmd [''logs'', ''csi-hostpathplugin-0'', ''-c'', ''csi-resizer'', ''-n'',
           ''default'', ''--tail=1200'']) (\<lambda>resizer_log.
     bindM (liftE (jpath [Sub ''spec'', Sub ''csi'', Sub ''volumeHandle''] after_pv)) (\<lambda>volume_handle.
     bindM (liftE (filterE (expand_call volume_handle) (splitlines (stdout driver_log)))) (\<lambda>expanded_calls.
     thenM (assertM ''no ControllerExpandVolume or NodeExpandVolume in the log of the CSI driver'' (expanded_calls \<noteq> [])) (
     lab_save L ''csi-log'' (JDict [(''driver_expand_lines'', JList (map JStr expanded_calls)),
         (''resizer_lines'', JList (map JStr (filter (resizer_line L) (splitlines (stdout resizer_log)))))])))))))"

definition pvc_finish :: "lab \<Rightarrow> string \<Rightarrow> ('w, 'g, unit) prog" where
  "pvc_finish L df =
    (thenM (lab_save L ''result'' (JDict
         [(''initial_capacity'', JStr ''64Mi''), (''expanded_capacity'', JStr ''128Mi''),
          (''data_preserved'', JBool True), (''shrink_rejected'', JBool True),
          (''storageclass_without_expansion_rejected'', JBool True), (''hostpath_df'', JStr (strip df)),
          (''hostpath_capacity_is_metadata_only'', JBool True)])) (
     thenM (kcmd [''delete'', ''namespace'', ns L, ''--wait=true'']) (
     thenM (kcmd [''delete'', ''storageclass'', ''article-expand'', ''article-no-expand'', ''--wait=true'']) (
     py_print ''PASS''))))"

definition pvc_run :: "('w, 'g, unit) prog" where
  "pvc_run =
    (bindM (lab_init ''pvc-expansion'') (\<lambda>L.
     bindM (pvc_driver L) (\<lambda>node.
     thenM (pvc_create L node) (
     thenM (pvc_expand L node) (
     bindM (pvc_verify L) (\<lambda>(after_pv, df).
     thenM (pvc_refusals L) (
     thenM (pvc_logs L after_pv) (
     pvc_finish L df))))))))"


section \<open>Commands, termination and what a PASS means\<close>

lemmas pvc_defs = pvc_run_def pvc_apply_global_def lab_get_value_def pvc_driver_def pvc_bound_def pvc_create_def
  resize_pending_def pvc_expand_def expanded_def pvc_verify_def pvc_refusals_def pvc_logs_def pvc_finish_def

lemma pvc_pinned: "emits os (on_context [] (CONTEXT os)) pvc_run"
  unfolding pvc_defs by (intro emits_intros; simp)

lemma pvc_runs: "clock_ok os now \<Longrightarrow> runs os now pvc_run"
  unfolding pvc_defs by (intro runs_intros; simp)

lemma pvc_appends [emits_intros]:
  "emits os (\<lambda>_. True) (pvc_driver L)" "emits os (\<lambda>_. True) (pvc_create L node)"
  "emits os (\<lambda>_. True) (pvc_expand L node)" "emits os (\<lambda>_. True) (pvc_verify L)"
  "emits os (\<lambda>_. True) (pvc_refusals L)" "emits os (\<lambda>_. True) (pvc_logs L pv)"
  "emits os (\<lambda>_. True) (resize_pending L)" "emits os (\<lambda>_. True) (expanded L)"
  "emits os (\<lambda>_. True) (pvc_bound L name)" "emits os (\<lambda>_. True) (lab_get_value L kind v)"
  unfolding pvc_defs by (intro emits_intros; simp)+

text \<open>The observations behind the result file.\<close>

definition saw_controller_resize :: "lab \<Rightarrow> event \<Rightarrow> bool" where
  "saw_controller_resize L = answered [''get'', ''pvc'', ''expand'', ''-n'', ns L, ''-o'', ''json''] (\<lambda>r.
     bindE (loads (stdout r)) controller_resized = Inr True)"

definition saw_node_resize :: "lab \<Rightarrow> event \<Rightarrow> bool" where
  "saw_node_resize L = answered [''get'', ''pvc'', ''expand'', ''-n'', ns L, ''-o'', ''json''] (\<lambda>r.
     bindE (loads (stdout r)) node_resized = Inr True)"

definition saw_data :: "lab \<Rightarrow> event \<Rightarrow> bool" where
  "saw_data L = answered [''exec'', ''-n'', ns L, ''writer'', ''--'', ''cat'', ''/data/proof''] (\<lambda>r. stdout r = ''persistent'')"

definition saw_refusal :: "lab \<Rightarrow> string \<Rightarrow> string \<Rightarrow> event \<Rightarrow> bool" where
  "saw_refusal L name sz = answered [''patch'', ''pvc'', name, ''-n'', ns L, ''--type=merge'', ''-p'',
      dumps (storage_request sz)]
     (\<lambda>r. returncode r \<noteq> 0)"

lemma pvc_expand_wp: "wp os (pvc_expand L node) (\<lambda>_ gs. list_ex (saw_controller_resize L) gs) es"
  unfolding pvc_expand_def resize_pending_def lab_patch_def
  by (intro wp_intros emits_intros pvc_appends(10) [THEN wp_frame] impI; simp add: saw_controller_resize_def split: if_splits)

lemma pvc_verify_wp: "wp os (pvc_verify L) (\<lambda>_ gs. list_ex (saw_node_resize L) gs \<and> list_ex (saw_data L) gs) es"
  unfolding pvc_verify_def expanded_def
  by (intro wp_intros emits_intros pvc_appends(10) [THEN wp_frame] impI;
      simp add: saw_node_resize_def saw_data_def split: if_splits)

lemma pvc_refusals_wp:
  "wp os (pvc_refusals L) (\<lambda>_ gs. list_ex (saw_refusal L ''expand'' ''64Mi'') gs \<and>
     list_ex (saw_refusal L ''no-expand'' ''128Mi'') gs) es"
  unfolding pvc_refusals_def lab_patch_def
  by (intro wp_intros emits_intros pvc_appends(9) [THEN wp_frame] impI; simp add: saw_refusal_def)

lemmas pvc_phases_wp = pvc_appends(1,2,6) [THEN wp_frame]
  pvc_appends(3) [THEN wp_phase, OF pvc_expand_wp] pvc_appends(4) [THEN wp_phase, OF pvc_verify_wp]
  pvc_appends(5) [THEN wp_phase, OF pvc_refusals_wp]

text \<open>
  C10: \<^verbatim>\<open>PASS\<close> means that the cluster answered so: the claim waited for the node with 128Mi allocated,
  then had a capacity of 128Mi, the file written before was read back unchanged, and both the
  request to shrink and the request on the class without expansion were refused.
\<close>

theorem pvc_pass_observed:
  assumes "pvc_run os s = Some (Inr u, s')" and "trace s = []"
  shows "list_ex (saw_controller_resize (lab_of ''pvc-expansion'')) (trace s') \<and>
    list_ex (saw_node_resize (lab_of ''pvc-expansion'')) (trace s') \<and>
    list_ex (saw_data (lab_of ''pvc-expansion'')) (trace s') \<and>
    list_ex (saw_refusal (lab_of ''pvc-expansion'') ''expand'' ''64Mi'') (trace s') \<and>
    list_ex (saw_refusal (lab_of ''pvc-expansion'') ''no-expand'' ''128Mi'') (trace s') \<and>
    last (trace s') = Printed ''PASS''"
proof -
  let ?L = "lab_of ''pvc-expansion''"
  have "wp os pvc_run (\<lambda>_ gs. list_ex (saw_controller_resize ?L) gs \<and> list_ex (saw_node_resize ?L) gs \<and>
      list_ex (saw_data ?L) gs \<and> list_ex (saw_refusal ?L ''expand'' ''64Mi'') gs \<and>
      list_ex (saw_refusal ?L ''no-expand'' ''128Mi'') gs \<and> last gs = Printed ''PASS'') (trace s)"
    unfolding pvc_run_def pvc_finish_def
    by (intro wp_intros pvc_phases_wp emits_intros impI conjI; (blast intro: list_ex_left | simp))
  from wpD [OF this assms(1)] show ?thesis .
qed

definition demo_claim :: json where
  "demo_claim = JDict
     [(''items'', JList [JDict [(''metadata'', JDict [(''name'', JStr ''article-next-worker'')])]]),
      (''metadata'', JDict [(''name'', JStr ''x'')]),
      (''spec'', JDict [(''nodeName'', JStr ''n''), (''containers'', JList []), (''volumeName'', JStr ''v''),
         (''csi'', JDict [(''volumeHandle'', JStr ''ExpandVolume'')])]),
      (''status'', JDict [(''phase'', JStr ''Bound''),
         (''conditions'', JList [JDict [(''type'', JStr ''FileSystemResizePending''), (''status'', JStr ''True'')]]),
         (''allocatedResources'', JDict [(''storage'', JStr ''128Mi'')]),
         (''capacity'', JDict [(''storage'', JStr ''128Mi'')])])]"

definition demo_pvc :: "string list \<Rightarrow> nat \<Rightarrow> proc" where
  "demo_pvc args w =
     (if 4 < w \<and> (args ! 3 = ''logs'' \<or> args ! 3 = ''exec'' \<and> last args = ''/data/proof'')
      then \<lparr>returncode = 0, stdout = (if args ! 3 = ''logs'' then ''ExpandVolume'' else ''persistent''), stderr = []\<rparr>
      else printed (if args ! 3 = ''patch'' \<and> 15 < w then 1 else 0) demo_claim)"

lemma demo_claim_wf [simp]: "wf_json demo_claim"
  by code_simp

lemma demo_log [simp]: "splitlines ''ExpandVolume'' = [''ExpandVolume'']" "contains ''ExpandVolume'' ''ExpandVolume''"
  by code_simp+

lemmas demo_pvc_simps = demo_pvc_def demo_claim_def is_lab_node_def jstartswith_def startswith_code
  pvc_def consumer_def storage_class_def controller_resized_def is_resize_pending_def node_resized_def expand_call_def

lemma demo_pvc_run: "\<exists>w'. succeeds (demo_os demo_pvc) pvc_run 0 () w'"
  unfolding pvc_defs lab_get_def lab_patch_def lab_ready_def lab_exec_def lab_events_def Let_def
  by (rule exI, (rule succeeds_intros lab_init_succeeds [where doc = demo_claim]
      | (rule succeeds_if_False, (simp add: demo_pvc_simps; fail))
      | (rule succeeds_if_True, (simp add: demo_pvc_simps; fail)) | (simp add: demo_pvc_simps; fail))+)

theorem pvc_pass_observed_witness:
  "\<exists>s'. pvc_run (demo_os demo_pvc) (demo_start ()) = Some (Inr (), s') \<and>
     list_ex (saw_refusal (lab_of ''pvc-expansion'') ''expand'' ''64Mi'') (trace s') \<and>
     last (trace s') = Printed ''PASS''"
proof -
  obtain s' where run: "pvc_run (demo_os demo_pvc) (demo_start ()) = Some (Inr (), s')"
    using demo_pvc_run by (rule demo_succeeds)
  from pvc_pass_observed [OF this] show ?thesis using run by auto
qed

end
