(* ===== verification/JobRun.thy ===== *)
theory JobRun
  imports CrdRun PyNum
begin

text \<open>
  \<^verbatim>\<open>article-job-cronjob/run.py\<close>: an Indexed Job, a pod failure policy, a back-off limit and a CronJob
  that forbids overlap. Each phase returns what the result file reports.
\<close>

section \<open>The objects\<close>

definition JOB_IMAGE :: string where "JOB_IMAGE = ''alpine:3.20''"

definition labels :: "string \<Rightarrow> json" where
  "labels name = JDict [(''app'', JStr name)]"

definition job :: "string \<Rightarrow> string \<Rightarrow> (string \<times> json) list \<Rightarrow> json" where
  "job name cmd spec = JDict
     [(''apiVersion'', JStr ''batch/v1''), (''kind'', JStr ''Job''),
      (''metadata'', JDict [(''name'', JStr name), (''labels'', labels name)]),
      (''spec'', JDict (dict_update
         [(''template'', JDict [(''metadata'', JDict [(''labels'', labels name)]),
            (''spec'', JDict [(''restartPolicy'', JStr ''Never''),
               (''containers'', JList [JDict [(''name'', JStr ''task''), (''image'', JStr JOB_IMAGE),
                  (''imagePullPolicy'', JStr ''IfNotPresent''),
                  (''command'', JList [JStr ''sh'', JStr ''-c'', JStr cmd])]])])])]
         spec))]"

definition job_condition :: "json \<Rightarrow> string \<Rightarrow> exn + json" where
  "job_condition obj kind =
     bindE (bindE (jpath [Get ''status'' emptyD, Get ''conditions'' (JList [])] obj) jiter) (\<lambda>items.
       case nextE (is_condition kind) items of
         Inl StopIteration \<Rightarrow> Inr JNull
       | r \<Rightarrow> r)"

definition pods_of_job :: "string \<Rightarrow> json \<Rightarrow> exn + json list" where
  "pods_of_job name doc =
     bindE (bindE (jsub doc ''items'') jiter) (filterE (\<lambda>p.
       bindE (jpath [Sub ''metadata'', Get ''labels'' emptyD, get0 ''job-name''] p)
         (\<lambda>n. Inr (py_eq n (JStr name)))))"

definition job_pods :: "lab \<Rightarrow> string \<Rightarrow> ('w, 'g, json list) prog" where
  "job_pods L name =
    (bindM (kcmd [''get'', ''pods'', ''-n'', ns L, ''-o'', ''json'']) (\<lambda>r.
     bindM (py_loads (stdout r)) (\<lambda>doc.
     liftE (pods_of_job name doc))))"

definition job_reached :: "lab \<Rightarrow> string \<Rightarrow> string \<Rightarrow> ('w, 'g, json) prog" where
  "job_reached L name kind = bindM (lab_get L ''job'' (Some name)) (\<lambda>j. liftE (job_condition j kind))"

definition indexed_job :: json where
  "indexed_job = job ''indexed'' ''echo \"completion=${JOB_COMPLETION_INDEX}\"; sleep 1''
     [(''completions'', JInt 4), (''parallelism'', JInt 2), (''completionMode'', JStr ''Indexed''),
      (''backoffLimit'', JInt 0)]"

definition policy_job :: json where
  "policy_job = job ''policy-fail'' ''exit 42'' [(''backoffLimit'', JInt 3),
     (''podFailurePolicy'',
        (JDict
          [(''rules'',
             JList
               [JDict
                  [(''action'', JStr ''FailJob''),
                   (''onExitCodes'',
                     JDict
                       [(''containerName'', JStr ''task''), (''operator'', JStr ''In''),
                        (''values'', JList [JInt 42])])]])]))]"

definition cronjob :: json where
  "cronjob =
     (JDict
       [(''apiVersion'', JStr ''batch/v1''), (''kind'', JStr ''CronJob''),
        (''metadata'', JDict [(''name'', JStr ''forbid-overlap'')]),
        (''spec'',
          JDict
            [(''schedule'', JStr ''*/1 * * * *''), (''concurrencyPolicy'', JStr ''Forbid''),
             (''successfulJobsHistoryLimit'', JInt 2), (''failedJobsHistoryLimit'', JInt 1),
             (''jobTemplate'',
               JDict
                 [(''spec'',
                    JDict
                      [(''template'',
                         JDict
                           [(''metadata'', JDict [(''labels'', labels ''forbid-overlap'')]),
                            (''spec'',
                              JDict
                                [(''restartPolicy'', JStr ''Never''),
                                 (''containers'',
                                   JList
                                     [JDict
                                        [(''name'', JStr ''task''), (''image'', JStr JOB_IMAGE),
                                         (''imagePullPolicy'', JStr ''IfNotPresent''),
                                         (''command'',
                                           JList [JStr ''sh'', JStr ''-c'', JStr ''sleep 75''])]])])])])])])])"


section \<open>The phases\<close>

definition completion_index :: "json \<Rightarrow> exn + int" where
  "completion_index p =
     bindE (jpath [Sub ''metadata'', Get ''annotations'' emptyD,
       get0 ''batch.kubernetes.io/job-completion-index''] p) jint"

definition sorted_indices :: "json list \<Rightarrow> exn + int list" where
  "sorted_indices pods = bindE (mapE completion_index pods) (\<lambda>is. Inr (sort is))"

definition obj_name :: "json \<Rightarrow> exn + json" where
  "obj_name p = jpath [Sub ''metadata'', Sub ''name''] p"

definition indexed_phase :: "lab \<Rightarrow> ('w, 'g, int list) prog" where
  "indexed_phase L =
    (thenM (lab_apply L indexed_job) (
     thenM (lab_wait truth (job_reached L ''indexed'' ''Complete'') 240) (
     bindM (job_pods L ''indexed'') (\<lambda>pods.
     bindM (liftE (sorted_indices pods)) (\<lambda>indices.
     thenM (assertM (''the indices of the Indexed Job are incomplete: '' @ py_str (ints indices))
         (indices = [0, 1, 2, 3])) (
     bindM (lab_get L ''job'' (Some ''indexed'')) (\<lambda>j.
     bindM (liftE (mapE obj_name pods)) (\<lambda>names.
     thenM (lab_save L ''indexed-job'' (JDict [(''job'', j), (''pod_names'', JList names),
         (''completion_indices'', ints indices)])) (
     returnM indices)))))))))"

definition count_phase :: "lab \<Rightarrow> json \<Rightarrow> string \<Rightarrow> string \<Rightarrow> int \<Rightarrow> nat \<Rightarrow> string \<Rightarrow> string \<Rightarrow> ('w, 'g, nat) prog" where
  "count_phase L obj name kind timeout expected msg evidence =
    (thenM (lab_apply L obj) (
     thenM (lab_wait truth (job_reached L name kind) timeout) (
     bindM (job_pods L name) (\<lambda>pods.
     thenM (assertM (msg @ nat_str (length pods)) (length pods = expected)) (
     bindM (lab_get L ''job'' (Some name)) (\<lambda>j.
     thenM (lab_save L evidence (JDict [(''job'', j), (''pod_count'', JInt (int (length pods))), (''pods'', JList pods)])) (
     returnM (length pods))))))))"

definition policy_phase :: "lab \<Rightarrow> ('w, 'g, nat) prog" where
  "policy_phase L = count_phase L policy_job ''policy-fail'' ''Failed'' 180 1
     ''pods created after the FailJob rule: '' ''pod-failure-policy''"

definition backoff_phase :: "lab \<Rightarrow> ('w, 'g, nat) prog" where
  "backoff_phase L = count_phase L (job ''backoff-limit'' ''exit 1'' [(''backoffLimit'', JInt 1)])
     ''backoff-limit'' ''Failed'' 240 2 ''with backoffLimit=1, 2 Pods expected, found '' ''backoff-limit''"

definition cron_jobs_of :: "json \<Rightarrow> exn + json list" where
  "cron_jobs_of doc = bindE (bindE (jsub doc ''items'') jiter)
     (filterE (\<lambda>item. bindE (obj_name item) (\<lambda>n. jstartswith n ''forbid-overlap-'')))"

definition cron_jobs :: "lab \<Rightarrow> ('w, 'g, json list) prog" where
  "cron_jobs L = bindM (lab_get L ''jobs'' None) (\<lambda>doc. liftE (cron_jobs_of doc))"

definition cron_phase :: "lab \<Rightarrow> ('w, 'g, unit) prog" where
  "cron_phase L =
    (thenM (lab_apply L cronjob) (
     bindM (lab_wait (\<lambda>l. l \<noteq> []) (cron_jobs L) 150) (\<lambda>first_jobs.
     thenM (assertM (''1 Job expected after the first schedule, found '' @ nat_str (length first_jobs))
         (length first_jobs = 1)) (
     bindM (liftE (obj_name (first_jobs ! 0))) (\<lambda>first_name.
     thenM (sleep 75000) (
     bindM (cron_jobs L) (\<lambda>overlap.
     bindM (if length overlap \<noteq> 1 then returnM False
          else bindM (liftE (obj_name (overlap ! 0))) (\<lambda>n. returnM (py_eq n first_name))) (\<lambda>same.
     bindM (liftE (mapE obj_name overlap)) (\<lambda>names.
     thenM (assertM (''Forbid did not prevent an overlap: '' @ dumps_raw (JList names)) same) (
     bindM (lab_get L ''cronjob'' (Some ''forbid-overlap'')) (\<lambda>c.
     lab_save L ''cronjob-forbid'' (JDict [(''cronjob'', c), (''job_names'', JList names), (''active_job'', overlap ! 0)]))))))))))))"

definition job_run :: "('w, 'g, unit) prog" where
  "job_run =
    (bindM (lab_init ''job-cronjob'') (\<lambda>L.
     bindM (indexed_phase L) (\<lambda>indices.
     bindM (policy_phase L) (\<lambda>policy_pods.
     bindM (backoff_phase L) (\<lambda>backoff_pods.
     thenM (cron_phase L) (
     thenM (lab_save L ''result'' (JDict [(''indexed_completion_indices'', ints indices),
         (''pod_failure_policy_pod_count'', JInt (int policy_pods)),
         (''backoff_limit_pod_count'', JInt (int backoff_pods)), (''cronjob_forbid_overlap'', JBool True)])) (
     thenM (kcmd [''delete'', ''namespace'', ns L, ''--wait=true'']) (
     py_print ''PASS''))))))))"


section \<open>Commands, termination and what a PASS means\<close>

lemmas job_defs = job_run_def indexed_phase_def policy_phase_def backoff_phase_def count_phase_def cron_phase_def
  job_pods_def job_reached_def cron_jobs_def

lemma job_pinned: "emits os (on_context [] (CONTEXT os)) job_run"
  unfolding job_defs by (intro emits_intros; simp)

lemma job_runs: "clock_ok os now \<Longrightarrow> runs os now job_run"
  unfolding job_defs by (intro runs_intros; simp)

lemma job_appends [emits_intros]:
  "emits os (\<lambda>_. True) (indexed_phase L)" "emits os (\<lambda>_. True) (policy_phase L)"
  "emits os (\<lambda>_. True) (backoff_phase L)" "emits os (\<lambda>_. True) (cron_phase L)"
  "emits os (\<lambda>_. True) (job_reached L name kind)" "emits os (\<lambda>_. True) (cron_jobs L)"
  unfolding job_defs by (intro emits_intros; simp)+

definition saw_indices :: "lab \<Rightarrow> event \<Rightarrow> bool" where
  "saw_indices L = answered [''get'', ''pods'', ''-n'', ns L, ''-o'', ''json''] (\<lambda>r.
     bindE (bindE (loads (stdout r)) (pods_of_job ''indexed'')) sorted_indices = Inr [0, 1, 2, 3])"

definition saw_pods :: "lab \<Rightarrow> string \<Rightarrow> nat \<Rightarrow> event \<Rightarrow> bool" where
  "saw_pods L name n = answered [''get'', ''pods'', ''-n'', ns L, ''-o'', ''json''] (\<lambda>r.
     case bindE (loads (stdout r)) (pods_of_job name) of Inr pods \<Rightarrow> length pods = n | Inl e \<Rightarrow> False)"

definition saw_cron_job :: "lab \<Rightarrow> string \<Rightarrow> event \<Rightarrow> bool" where
  "saw_cron_job L name = answered [''get'', ''jobs'', ''-n'', ns L, ''-o'', ''json''] (\<lambda>r.
     case bindE (loads (stdout r)) cron_jobs_of of
       Inr [j] \<Rightarrow> obj_name j = Inr (JStr name) | _ \<Rightarrow> False)"

text \<open>One and the same Job was the only one of the CronJob before and after a pause of 75 seconds.\<close>

definition no_overlap :: "lab \<Rightarrow> event list \<Rightarrow> bool" where
  "no_overlap L gs \<longleftrightarrow> (\<exists>n es1 es2. gs = es1 @ Slept 75000 # es2 \<and>
     list_ex (saw_cron_job L n) es1 \<and> list_ex (saw_cron_job L n) es2)"

lemma indexed_phase_wp: "wp os (indexed_phase L) (\<lambda>_ gs. list_ex (saw_indices L) gs) es"
  unfolding indexed_phase_def job_reached_def job_pods_def
  by (intro wp_intros emits_intros impI; simp add: saw_indices_def)

lemma count_phase_wp:
  "wp os (count_phase L obj name kind timeout expected msg evidence) (\<lambda>_ gs. list_ex (saw_pods L name expected) gs) es"
  unfolding count_phase_def job_reached_def job_pods_def
  by (intro wp_intros emits_intros impI; simp add: saw_pods_def)

lemma no_overlap_left: "no_overlap L gs \<Longrightarrow> no_overlap L (gs @ xs)"
  unfolding no_overlap_def by (metis append.assoc append_Cons list_ex_left)

lemma no_overlap_base:
  "list_ex (saw_cron_job L n) gs \<Longrightarrow> saw_cron_job L n e \<Longrightarrow> no_overlap L ((gs @ [Slept 75000]) @ [e])"
  unfolding no_overlap_def by (intro exI [of _ n] exI [of _ gs] exI [of _ "[e]"]) simp

lemma cron_jobs_named:
  assumes "cron_jobs_of doc = Inr js" and "j \<in> set js"
  obtains n where "obj_name j = Inr (JStr n)"
  using assms unfolding cron_jobs_of_def bindE_Inr_iff
  by (auto dest!: filterE_Inr simp: bindE_Inr_iff jstartswith_True)

lemma cron_pair:
  assumes "cron_jobs_of d1 = Inr js1" and "length js1 = Suc 0" and "obj_name (js1 ! 0) = Inr a"
    and "cron_jobs_of d2 = Inr js2" and "length js2 = Suc 0" and "obj_name (js2 ! 0) = Inr b" and "py_eq b a"
  obtains n where "js1 = [js1 ! 0]" and "js2 = [js2 ! 0]" and "a = JStr n" and "b = JStr n"
proof -
  have l: "js1 = [js1 ! 0]" "js2 = [js2 ! 0]"
    using assms(2,5) by (metis length_0_conv length_Suc_conv nth_Cons_0)+
  then have "js1 ! 0 \<in> set js1" by (metis list.set_intros(1))
  then obtain n where "obj_name (js1 ! 0) = Inr (JStr n)" using cron_jobs_named [OF assms(1)] by blast
  with assms l that show ?thesis by auto
qed

lemma no_overlap_pair:
  assumes "args = [''get'', ''jobs'', ''-n'', ns L, ''-o'', ''json'']" and "args' = args"
    and "loads (stdout r) = Inr d1" and "cron_jobs_of d1 = Inr js1" and "length js1 = 1"
    and "obj_name (js1 ! 0) = Inr a" and "loads (stdout r') = Inr d2" and "cron_jobs_of d2 = Inr js2"
    and "\<not> length js2 \<noteq> 1" and "obj_name (js2 ! 0) = Inr b" and "py_eq b a"
  shows "no_overlap L (((gs @ [Ran (x1 # x2 # x3 # args) i (Inr r)]) @ [Slept 75000]) @
    [Ran (y1 # y2 # y3 # args') j (Inr r')])"
proof -
  obtain n where n: "js1 = [js1 ! 0]" "js2 = [js2 ! 0]" "a = JStr n" "b = JStr n"
    using cron_pair [OF assms(4) _ assms(6) assms(8) _ assms(10,11)] assms(5,9) by auto
  obtain p q where pq: "js1 = [p]" "js2 = [q]" using n(1,2) by blast
  show ?thesis
    using assms(1-4,6-8,10) n(3,4) pq
    by (intro no_overlap_base [where n = n]) (simp_all add: saw_cron_job_def)
qed

lemma cron_phase_wp: "wp os (cron_phase L) (\<lambda>_ gs. no_overlap L gs) es"
  unfolding cron_phase_def cron_jobs_def
  by (intro wp_intros emits_intros impI; (simp; fail)?)
     (rule no_overlap_left, rule no_overlap_left, rule no_overlap_pair, simp, simp, assumption+)

lemma policy_phase_wp: "wp os (policy_phase L) (\<lambda>_ gs. list_ex (saw_pods L ''policy-fail'' 1) gs) es"
  unfolding policy_phase_def by (rule count_phase_wp)

lemma backoff_phase_wp: "wp os (backoff_phase L) (\<lambda>_ gs. list_ex (saw_pods L ''backoff-limit'' 2) gs) es"
  unfolding backoff_phase_def by (rule count_phase_wp)

lemmas job_phases_wp = job_appends(1) [THEN wp_phase, OF indexed_phase_wp]
  job_appends(2) [THEN wp_phase, OF policy_phase_wp] job_appends(3) [THEN wp_phase, OF backoff_phase_wp]
  job_appends(4) [THEN wp_phase, OF cron_phase_wp]

text \<open>
  C11: \<^verbatim>\<open>PASS\<close> means that the Pods of the Indexed Job carried exactly the indices 0 to 3, that the
  \<^verbatim>\<open>FailJob\<close> rule left one Pod and a back-off limit of 1 left two, and that the CronJob's only Job
  before a pause of 75 seconds was still its only Job after it.
\<close>

theorem job_pass_observed:
  assumes "job_run os s = Some (Inr u, s')" and "trace s = []"
  shows "list_ex (saw_indices (lab_of ''job-cronjob'')) (trace s') \<and>
    list_ex (saw_pods (lab_of ''job-cronjob'') ''policy-fail'' 1) (trace s') \<and>
    list_ex (saw_pods (lab_of ''job-cronjob'') ''backoff-limit'' 2) (trace s') \<and>
    no_overlap (lab_of ''job-cronjob'') (trace s') \<and> last (trace s') = Printed ''PASS''"
proof -
  let ?L = "lab_of ''job-cronjob''"
  have "wp os job_run (\<lambda>_ gs. list_ex (saw_indices ?L) gs \<and> list_ex (saw_pods ?L ''policy-fail'' 1) gs \<and>
      list_ex (saw_pods ?L ''backoff-limit'' 2) gs \<and> no_overlap ?L gs \<and> last gs = Printed ''PASS'') (trace s)"
    unfolding job_run_def
    by (intro wp_intros job_phases_wp emits_intros impI conjI; (blast intro: list_ex_left no_overlap_left | simp))
  from wpD [OF this assms(1)] show ?thesis .
qed

text \<open>A cluster that answers every question with all the objects of the experiment.\<close>

definition demo_pod :: "string \<Rightarrow> string \<Rightarrow> string \<Rightarrow> json" where
  "demo_pod name owner index = JDict [(''metadata'', JDict [(''name'', JStr name),
     (''labels'', JDict [(''job-name'', JStr owner)]),
     (''annotations'', JDict [(''batch.kubernetes.io/job-completion-index'', JStr index)])])]"

definition demo_jobs :: json where
  "demo_jobs = JDict
     [(''items'', JList [demo_pod ''article-next-worker'' ''none'' ''0'', demo_pod ''a'' ''indexed'' ''2'',
         demo_pod ''b'' ''indexed'' ''0'', demo_pod ''c'' ''indexed'' ''3'', demo_pod ''d'' ''indexed'' ''1'',
         demo_pod ''e'' ''policy-fail'' ''0'', demo_pod ''f'' ''backoff-limit'' ''0'',
         demo_pod ''g'' ''backoff-limit'' ''0'', demo_pod ''forbid-overlap-1'' ''none'' ''0'']),
      (''status'', JDict [(''conditions'', JList [JDict [(''type'', JStr ''Complete''), (''status'', JStr ''True'')],
         JDict [(''type'', JStr ''Failed''), (''status'', JStr ''True'')]])])]"

definition demo_job :: "string list \<Rightarrow> nat \<Rightarrow> proc" where
  "demo_job args w = printed 0 demo_jobs"

lemma demo_job_ints [simp]: "py_int ''0'' = Inr 0" "py_int ''1'' = Inr 1" "py_int ''2'' = Inr 2" "py_int ''3'' = Inr 3"
  by code_simp+

lemma demo_jobs_wf [simp]: "wf_json demo_jobs"
  by code_simp

lemmas demo_job_simps = demo_job_def demo_jobs_def demo_pod_def is_lab_node_def jstartswith_def startswith_code
  job_def cronjob_def indexed_job_def policy_job_def job_condition_def is_condition_def pods_of_job_def
  cron_jobs_of_def obj_name_def sorted_indices_def completion_index_def

lemma demo_job_run: "\<exists>w'. succeeds (demo_os demo_job) job_run 0 () w'"
  unfolding job_defs lab_get_def Let_def
  by (rule exI, (rule succeeds_intros lab_init_succeeds [where doc = demo_jobs]
      | (rule succeeds_if_False, (simp add: demo_job_simps; fail)) | (simp add: demo_job_simps; fail))+)

theorem job_pass_observed_witness:
  "\<exists>s'. job_run (demo_os demo_job) (demo_start ()) = Some (Inr (), s') \<and>
     no_overlap (lab_of ''job-cronjob'') (trace s') \<and> last (trace s') = Printed ''PASS''"
proof -
  obtain s' where run: "job_run (demo_os demo_job) (demo_start ()) = Some (Inr (), s')"
    using demo_job_run by (rule demo_succeeds)
  from job_pass_observed [OF this] show ?thesis using run by auto
qed

end
