(* ===== verification/WatchRun.thy ===== *)
theory WatchRun
  imports ArticleLab Observe
begin

text \<open>
  \<^verbatim>\<open>article-watch-consistency/run.py\<close>: a watch from a compacted resource version must fail with 410,
  a list and a watch from its version must see what is created after it, and a reconnect must see
  the deletion. The script talks to the API server through \<^verbatim>\<open>kubectl proxy\<close>, which it starts and, on
  every way out, stops. Closing a response is left to the library.
\<close>

section \<open>Helpers\<close>

definition BASE :: string where "BASE = ''http://127.0.0.1:18081''"

definition get_json :: "string \<Rightarrow> ('w, 'g, json) prog" where
  "get_json path =
    (bindM (urlopen ''GET'' (BASE @ path) 30) (\<lambda>(status, h).
     bindM (read_all h) (\<lambda>body.
     py_loads body)))"

definition watch_pod :: "string \<Rightarrow> json" where
  "watch_pod name =
     (JDict
       [(''apiVersion'', JStr ''v1''), (''kind'', JStr ''Pod''),
        (''metadata'', JDict [(''name'', JStr name), (''labels'', JDict [(''app'', JStr name)])]),
        (''spec'',
          JDict
            [(''terminationGracePeriodSeconds'', JInt 1),
             (''containers'',
               JList
                 [JDict
                    [(''name'', JStr ''app''), (''image'', JStr ''alpine:3.20''),
                     (''imagePullPolicy'', JStr ''IfNotPresent''),
                     (''command'', JList [JStr ''sh'', JStr ''-c'', JStr ''sleep 3600''])]])])])"

text \<open>\<^verbatim>\<open>subprocess.run(args, check=True)\<close>.\<close>

definition run_checked :: "string list \<Rightarrow> ('w, 'g, proc) prog" where
  "run_checked args = bindM (run_process args None None) (checked True (\<lambda>r. CalledProcessError (returncode r)))"

definition etcd_pod :: "('w, 'g, json) prog" where
  "etcd_pod =
    (bindM (kcmd [''get'', ''pods'', ''-n'', ''kube-system'', ''-l'', ''component=etcd'', ''-o'',
           ''json'']) (\<lambda>r.
     bindM (py_loads (stdout r)) (\<lambda>doc.
     bindM (liftE (jsub doc ''items'')) (\<lambda>pods.
     bindM (liftE (jlen pods)) (\<lambda>n.
     thenM (assertM (''one etcd Pod expected, found '' @ int_str n) (n = 1)) (
     liftE (jpath [Idx 0, Sub ''metadata'', Sub ''name''] pods)))))))"

definition restart_apiserver :: "('w, 'g, unit) prog" where
  "restart_apiserver =
    (bindM (run_checked [''docker'', ''exec'', ''article-next-control-plane'', ''crictl'', ''ps'',
           ''--name'', ''kube-apiserver'', ''-q'']) (\<lambda>r.
     let apiserver_id = strip (stdout r) in
     thenM (assertM ''no kube-apiserver container found'' (apiserver_id \<noteq> [])) (
     ign (run_checked [''docker'', ''exec'', ''article-next-control-plane'', ''crictl'', ''stop'',
           apiserver_id]))))"

definition apiserver_ready :: "('w, 'g, unit option) prog" where
  "apiserver_ready = (\<lambda>os s.
    (bindM (run_process [KUBECTL os, ''--context'', ''kind-article-next'', ''get'', ''--raw'', ''/readyz''] None None) (\<lambda>r.
     if returncode r = 0 then returnM (Some ()) else thenM (sleep 1000) (returnM None))) os s)"

definition compact_etcd_and_restart_apiserver :: "('w, 'g, json) prog" where
  "compact_etcd_and_restart_apiserver =
    (bindM (get_json ''/api/v1/namespaces'') (\<lambda>cluster_list.
     bindM (liftE (jpath [Sub ''metadata'', Sub ''resourceVersion''] cluster_list)) (\<lambda>old_rv.
     bindM etcd_pod (\<lambda>etcd.
     bindM (liftE (jstr etcd)) (\<lambda>etcd_name.
     bindM (liftE (jstr old_rv)) (\<lambda>rv.
     thenM (kcmd [''exec'', ''-n'', ''kube-system'', etcd_name, ''--'', ''etcdctl'',
           ''--endpoints=https://127.0.0.1:2379'', ''--cacert=/etc/kubernetes/pki/etcd/ca.crt'',
           ''--cert=/etc/kubernetes/pki/etcd/server.crt'',
           ''--key=/etc/kubernetes/pki/etcd/server.key'', ''compact'', rv]) (
     thenM restart_apiserver (
     thenM (repeatM 120 apiserver_ready (raiseM (TimeoutError ''kube-apiserver is not Ready after the restart''))) (
     returnM old_rv)))))))))"


section \<open>The phases\<close>

text \<open>\<^verbatim>\<open>for _ in range(n): try: get_json("/version"); break; except Exception: time.sleep(0.5)\<close>.\<close>

definition version_probe :: "('w, 'g, unit option) prog" where
  "version_probe = catchM (thenM (get_json ''/version'') (returnM (Some ())))
     (on_any (\<lambda>e. thenM (sleep 500) (returnM None)))"

definition wait_version :: "nat \<Rightarrow> string \<Rightarrow> ('w, 'g, unit) prog" where
  "wait_version n msg = repeatM n version_probe (raiseM (RuntimeError msg))"

definition pods_url :: "lab \<Rightarrow> json \<Rightarrow> string \<Rightarrow> string" where
  "pods_url L rv secs = BASE @ ''/api/v1/namespaces/'' @ ns L @ ''/pods?watch=1&resourceVersion='' @ py_str rv
     @ ''&timeoutSeconds='' @ secs"

definition open_expired :: "string \<Rightarrow> ('w, 'g, json) prog" where
  "open_expired url = catchM
     (bindM (urlopen ''GET'' url 15) (\<lambda>(status, h).
      bindM (readline h) (\<lambda>line.
        returnM (JDict [(''http_status'', JInt status), (''first_event'', JStr (strip line))]))))
     (on_HTTPError (\<lambda>code body. bindM (py_loads body) (\<lambda>b.
        returnM (JDict [(''http_status'', JInt code), (''body'', b)]))))"

definition is_gone :: "json \<Rightarrow> exn + bool" where
  "is_gone old_status =
     bindE (jget old_status ''http_status'' JNull) (\<lambda>code.
       if py_eq code (JInt 410) then Inr True
       else bindE (jget old_status ''first_event'' (JStr [])) (jin (JStr ''\"code\":410'')))"

definition expired_phase :: "lab \<Rightarrow> ('w, 'g, unit) prog" where
  "expired_phase L =
    (thenM (wait_version 30 ''kubectl proxy is not ready'') (
     bindM compact_etcd_and_restart_apiserver (\<lambda>expired_rv.
     thenM (wait_version 60 ''the proxy cannot reach the API server after its restart'') (
     bindM (open_expired (pods_url L expired_rv ''10'')) (\<lambda>old_status.
     bindM (liftE (is_gone old_status)) (\<lambda>gone.
     thenM (assertM (''the old resourceVersion did not return 410: '' @ py_str old_status) gone) (
     lab_save L ''expired-watch'' (JDict [(''etcd_compacted_revision'', expired_rv),
         (''apiserver_restarted'', JBool True), (''watch'', old_status)]))))))))"

definition list_phase :: "lab \<Rightarrow> ('w, 'g, json) prog" where
  "list_phase L =
    (thenM (lab_apply L (watch_pod ''before'')) (
     thenM (lab_ready L ''before'' ''180s'') (
     bindM (get_json (''/api/v1/namespaces/'' @ ns L @ ''/pods'')) (\<lambda>current.
     bindM (liftE (jpath [Sub ''metadata'', Sub ''resourceVersion''] current)) (\<lambda>list_rv.
     thenM (assertM ''the List response has no resourceVersion'' (truth list_rv)) (
     bindM (liftE (bindE (bindE (jsub current ''items'') jiter) (mapE (jpath [Sub ''metadata'', Sub ''name''])))) (\<lambda>names.
     thenM (lab_save L ''list'' (JDict [(''resourceVersion'', list_rv), (''pods'', JList names)])) (
     returnM list_rv))))))))"

text \<open>Whether an event of the stream is the one a watch waits for.\<close>

definition is_event :: "string \<Rightarrow> json \<Rightarrow> json \<Rightarrow> exn + bool" where
  "is_event kind event obj =
     bindE (jget event ''type'' JNull) (\<lambda>t.
       if py_eq t (JStr kind)
       then bindE (jpath [Get ''metadata'' emptyD, get0 ''name''] obj) (\<lambda>n. Inr (py_eq n (JStr ''after'')))
       else Inr False)"

text \<open>One round of the loop that reads events, with its variables \<^verbatim>\<open>events\<close> and \<^verbatim>\<open>last_rv\<close>.\<close>

definition watch_round :: "nat \<Rightarrow> string \<Rightarrow> string \<Rightarrow> json list \<times> json \<Rightarrow>
    ('w, 'g, json list \<times> json + json list \<times> json) prog" where
  "watch_round h kind msg = (\<lambda>(events, last_rv).
    (bindM (readline h) (\<lambda>line.
     thenM (assertM msg (line \<noteq> [])) (
     bindM (py_loads line) (\<lambda>event.
     bindM (liftE (jget event ''object'' emptyD)) (\<lambda>obj.
     bindM (liftE (jpath [Get ''metadata'' emptyD, Get ''resourceVersion'' last_rv] obj)) (\<lambda>rv.
     bindM (liftE (is_event kind event obj)) (\<lambda>found.
     returnM (if found then Inr (events @ [event], rv) else Inl (events @ [event], rv))))))))))"

definition watch_phase :: "lab \<Rightarrow> json \<Rightarrow> ('w, 'g, json) prog" where
  "watch_phase L list_rv =
    (bindM (urlopen ''GET'' (pods_url L list_rv ''30'') 40) (\<lambda>(status, h).
     thenM (lab_apply L (watch_pod ''after'')) (
     bindM (loopS (watch_round h ''ADDED'' ''the watch ended before the Pod after was seen'') ([], list_rv)) (\<lambda>(events, last_rv).
     thenM (lab_save L ''watch-after-create'' (JDict [(''startResourceVersion'', list_rv),
         (''lastResourceVersion'', last_rv), (''events'', JList events)])) (
     returnM last_rv)))))"

text \<open>The second loop has no \<^verbatim>\<open>last_rv\<close>; its round reads the event and tests it.\<close>

definition delete_round :: "nat \<Rightarrow> json list \<Rightarrow> ('w, 'g, json list + json list) prog" where
  "delete_round h events =
    (bindM (readline h) (\<lambda>line.
     thenM (assertM ''the watch ended before the deletion was seen'' (line \<noteq> [])) (
     bindM (py_loads line) (\<lambda>event.
     bindM (liftE (jget event ''object'' emptyD)) (\<lambda>obj.
     bindM (liftE (is_event ''DELETED'' event obj)) (\<lambda>found.
     returnM (if found then Inr (events @ [event]) else Inl (events @ [event]))))))))"

definition reconnect_phase :: "lab \<Rightarrow> json \<Rightarrow> ('w, 'g, unit) prog" where
  "reconnect_phase L last_rv =
    (bindM (urlopen ''GET'' (pods_url L last_rv ''30'') 40) (\<lambda>(status, h).
     thenM (kcmd [''delete'', ''pod'', ''after'', ''-n'', ns L, ''--wait=false'']) (
     bindM (loopS (delete_round h) []) (\<lambda>events.
     lab_save L ''watch-reconnect-delete'' (JDict [(''startResourceVersion'', last_rv), (''events'', JList events)])))))"

definition watch_body :: "lab \<Rightarrow> ('w, 'g, unit) prog" where
  "watch_body L =
    (thenM (expired_phase L) (
     bindM (list_phase L) (\<lambda>list_rv.
     bindM (watch_phase L list_rv) (\<lambda>last_rv.
     thenM (reconnect_phase L last_rv) (
     lab_save L ''result'' (JDict [(''old_resource_version_status'', JInt 410), (''list_resource_version'', list_rv),
         (''watch_reconnect_observed_delete'', JBool True), (''relisted'', JBool True)]))))))"

definition start_proxy :: "('w, 'g, nat) prog" where
  "start_proxy = (\<lambda>os s. popen [KUBECTL os, ''--context'', ''kind-article-next'', ''proxy'', ''--port=18081'',
     ''--address=127.0.0.1''] os s)"

definition stop_proxy :: "nat \<Rightarrow> ('w, 'g, unit) prog" where
  "stop_proxy p = thenM (terminate p)
     (catchM (wait_process p (Some 10))
       (on_TimeoutExpired (kill_process p)))"

definition watch_run :: "('w, 'g, unit) prog" where
  "watch_run =
    (bindM (lab_init ''watch-consistency'') (\<lambda>L.
     bindM start_proxy (\<lambda>p.
     thenM (finallyM (watch_body L) (stop_proxy p)) (
     thenM (kcmd [''delete'', ''namespace'', ns L, ''--wait=true'']) (
     py_print ''PASS'')))))"


section \<open>The proxy\<close>

lemmas watch_defs = watch_body_def expired_phase_def list_phase_def watch_phase_def
  reconnect_phase_def watch_round_def delete_round_def open_expired_def wait_version_def version_probe_def
  compact_etcd_and_restart_apiserver_def restart_apiserver_def etcd_pod_def run_checked_def get_json_def

lemma apiserver_ready_emits [emits_intros]:
  assumes "\<And>r. P (Ran [KUBECTL os, ''--context'', ''kind-article-next'', ''get'', ''--raw'', ''/readyz''] None r)"
    and "P (Slept 1000)"
  shows "emits os P apiserver_ready"
proof -
  have "emits os P (bindM (run_process [KUBECTL os, ''--context'', ''kind-article-next'', ''get'', ''--raw'', ''/readyz''] None None)
     (\<lambda>r. if returncode r = 0 then returnM (Some ()) else thenM (sleep 1000) (returnM None)))"
    using assms by (intro emits_intros) auto
  then show ?thesis unfolding emits_def apiserver_ready_def .
qed

fun spawns :: "event \<Rightarrow> bool" where
  "spawns (Spawned args r) = True"
| "spawns e = False"

lemma watch_body_emits:
  assumes "\<And>e. \<not> spawns e \<Longrightarrow> P e"
  shows "emits os P (watch_body L)"
  unfolding watch_defs
  by (intro emits_intros; simp add: assms)

lemma stop_proxy_emits [emits_intros]:
  "P (Terminated p) \<Longrightarrow> (\<And>r. P (Waited p r)) \<Longrightarrow> P (Killed p) \<Longrightarrow> emits os P (stop_proxy p)"
  unfolding stop_proxy_def by (intro emits_intros; simp)

lemma start_proxy_emits [emits_intros]:
  "(\<And>r. P (Spawned [KUBECTL os, ''--context'', ''kind-article-next'', ''proxy'', ''--port=18081'',
     ''--address=127.0.0.1''] r)) \<Longrightarrow> emits os P start_proxy"
  unfolding emits_def start_proxy_def popen_def by (auto elim!: prim_SomeE)

lemma start_proxy_trace:
  "start_proxy os s = Some (r, s') \<Longrightarrow> trace s' = trace s @ [Spawned [KUBECTL os, ''--context'',
     ''kind-article-next'', ''proxy'', ''--port=18081'', ''--address=127.0.0.1''] r]"
  unfolding start_proxy_def popen_def by (auto elim!: prim_SomeE)

text \<open>Nothing but \<open>start_proxy\<close> starts a process, and what it starts the clean-up stops.\<close>

lemma watch_leaves: "leaves os (followed (started p) (\<lambda>e. e = Terminated p)) watch_run"
proof -
  have stop: "leaves os (list_ex (\<lambda>e. e = Terminated q)) (stop_proxy q)" for q
    unfolding stop_proxy_def by (intro leaves_terminate emits_intros; simp)
  have bracket: "leaves os (followed (started p) (\<lambda>e. e = Terminated p))
      (bindM start_proxy (\<lambda>p. finallyM (watch_body L) (stop_proxy p)))" for L
  proof (rule leaves_bracket)
    fix s r s'
    assume "start_proxy os s = Some (r, s')"
    then show "\<exists>e. trace s' = trace s @ [e] \<and>
        (started p e \<longrightarrow> (\<exists>a. r = Inr a \<and> leaves os (list_ex (\<lambda>e. e = Terminated p)) (stop_proxy a)))"
      using stop unfolding start_proxy_def by (intro popen_acquires)
  qed (intro leaves_quiet emits_intros watch_body_emits; auto simp: started_def split: event.splits)+
  show ?thesis
    unfolding watch_run_def bindM_thenM
    by (intro followed.leaves_rules bracket; intro leaves_quiet emits_intros; simp add: started_def)
qed

text \<open>
  C15: the proxy never outlives the script. If the run started one, then on every way out, with or
  without an exception and whatever phase raised it, the run has told that process to terminate
  after starting it.
\<close>

theorem watch_proxy_stopped:
  assumes "watch_run os s = Some (r, s')" and "trace s = []" and "Spawned args (Inr p) \<in> set (trace s')"
  shows "\<exists>es fs gs. trace s' = es @ Spawned args (Inr p) # fs @ Terminated p # gs"
proof -
  from watch_leaves assms(1) obtain es where "trace s' = trace s @ es" "followed (started p) (\<lambda>e. e = Terminated p) es"
    by (rule leavesD)
  with assms(2,3) followed_at [of "started p" "\<lambda>e. e = Terminated p" es "Spawned args (Inr p)"] show ?thesis
    by (auto simp: started_def)
qed


section \<open>Termination\<close>

text \<open>
  The two loops that read a watch have no deadline of their own: they end because the API server
  ends the stream (the requests ask for \<^verbatim>\<open>timeoutSeconds=30\<close>). \<open>streams_end os left\<close> states this: reading
  a line that is not the end of a stream leaves less to read, no other call adds to a stream.
\<close>

definition streams_end :: "'w os \<Rightarrow> ('w \<Rightarrow> nat) \<Rightarrow> bool" where
  "streams_end os left \<longleftrightarrow> (\<forall>h w l w'. os_readline os h w = (Inr l, w') \<longrightarrow> l \<noteq> [] \<longrightarrow> left w' < left w)"

lemma round_uses_line:
  assumes "streams_end os left"
    and "bindM (readline h) (\<lambda>line. thenM (assertM msg (line \<noteq> [])) (f line)) os s = Some (Inr y, s')"
    and "\<And>line t t'. f line os t = Some (Inr y, t') \<Longrightarrow> world t' = world t"
  shows "left (world s') < left (world s)"
proof -
  obtain line s1 where r: "readline h os s = Some (Inr line, s1)"
    and k: "thenM (assertM msg (line \<noteq> [])) (f line) os s1 = Some (Inr y, s')"
    using assms(2) by (rule bindM_InrE)
  from k obtain "line \<noteq> []" "f line os s1 = Some (Inr y, s')" by (auto elim!: thenM_InrE assertM_InrE)
  moreover from r have "os_readline os h (world s) = (Inr line, world s1)"
    unfolding readline_def by (auto elim!: prim_SomeE)
  ultimately show ?thesis using assms(1,3) unfolding streams_end_def by metis
qed

lemma silent_world:
  "liftE x os t = Some (v, t') \<Longrightarrow> world t' = world t"
  "returnM a os t = Some (w, t') \<Longrightarrow> world t' = world t"
  "py_loads l os t = Some (z, t') \<Longrightarrow> world t' = world t"
  by (auto simp: run_simps py_loads_def)

lemma watch_round_uses:
  assumes "streams_end os left" and "watch_round h kind msg x os s = Some (Inr (Inl y), s')"
  shows "left (world s') < left (world s)"
proof -
  obtain events last_rv where x: "x = (events, last_rv)" by (cases x)
  show ?thesis
    using assms(2) unfolding watch_round_def x prod.case
    by (elim round_uses_line [OF assms(1)]) (auto elim!: bindM_InrE dest!: silent_world)
qed

lemma delete_round_uses:
  assumes "streams_end os left" and "delete_round h x os s = Some (Inr (Inl y), s')"
  shows "left (world s') < left (world s)"
  using assms(2) unfolding delete_round_def
  by (elim round_uses_line [OF assms(1)]) (auto elim!: bindM_InrE dest!: silent_world)

lemma watch_loops_run [runs_intros]:
  assumes "clock_ok os now" and "streams_end os left"
  shows "runs os now (loopS (watch_round h kind msg) x)" and "runs os now (loopS (delete_round h) z)"
proof -
  show "runs os now (loopS (watch_round h kind msg) x)"
  proof (rule runs_loopS [where \<mu> = "\<lambda>_. left"])
    show "runs os now (watch_round h kind msg x)" for x
      unfolding watch_round_def using assms(1) by (cases x) (simp, intro runs_intros)
  qed (rule watch_round_uses [OF assms(2)])
  show "runs os now (loopS (delete_round h) z)"
  proof (rule runs_loopS [where \<mu> = "\<lambda>_. left"])
    show "runs os now (delete_round h x)" for x
      unfolding delete_round_def using assms(1) by (intro runs_intros)
  qed (rule delete_round_uses [OF assms(2)])
qed

lemma watch_prims_run [runs_intros]:
  assumes "clock_ok os now"
  shows "runs os now apiserver_ready" and "runs os now start_proxy" and "runs os now (stop_proxy p)"
proof -
  have "runs os now (bindM (run_process [KUBECTL os, ''--context'', ''kind-article-next'', ''get'', ''--raw'', ''/readyz''] None None)
     (\<lambda>r. if returncode r = 0 then returnM (Some ()) else thenM (sleep 1000) (returnM None)))"
    using assms by (intro runs_intros; simp)
  then show "runs os now apiserver_ready" unfolding runs_def apiserver_ready_def .
  have "runs os now (popen [KUBECTL os, ''--context'', ''kind-article-next'', ''proxy'', ''--port=18081'', ''--address=127.0.0.1''])"
    using assms by (intro runs_intros)
  then show "runs os now start_proxy" unfolding runs_def start_proxy_def .
  show "runs os now (stop_proxy p)" unfolding stop_proxy_def using assms by (intro runs_intros)
qed

lemma watch_runs: "clock_ok os now \<Longrightarrow> streams_end os left \<Longrightarrow> runs os now watch_run"
  unfolding watch_run_def watch_body_def expired_phase_def list_phase_def watch_phase_def reconnect_phase_def
    open_expired_def wait_version_def version_probe_def compact_etcd_and_restart_apiserver_def
    restart_apiserver_def etcd_pod_def run_checked_def get_json_def
  by (intro runs_intros; simp)


section \<open>What a PASS means\<close>

text \<open>Whether an event is the awaited one, and the resource version after it.\<close>

definition awaited :: "string \<Rightarrow> json \<Rightarrow> bool" where
  "awaited kind event \<longleftrightarrow> bindE (jget event ''object'' emptyD) (is_event kind event) = Inr True"

definition version_after :: "json \<Rightarrow> json \<Rightarrow> json" where
  "version_after event rv =
     (case bindE (jget event ''object'' emptyD) (jpath [Get ''metadata'' emptyD, Get ''resourceVersion'' rv]) of
        Inl e \<Rightarrow> rv | Inr v \<Rightarrow> v)"

text \<open>
  What the trace has to show: a request for a given URL and the response \<open>h\<close> it opened, a list read from \<open>h\<close> that has a given
  resource version, a command that succeeded, a line of \<open>h\<close> that is the awaited event.
\<close>

definition opened :: "string \<Rightarrow> nat \<Rightarrow> event \<Rightarrow> bool" where
  "opened url h e \<longleftrightarrow> (\<exists>status. e = Opened ''GET'' url (Inr (status, h)))"

definition listed :: "nat \<Rightarrow> json \<Rightarrow> event \<Rightarrow> bool" where
  "listed h rv e \<longleftrightarrow> (\<exists>body doc. e = ReadAll h (Inr body) \<and> loads body = Inr doc \<and>
     jpath [Sub ''metadata'', Sub ''resourceVersion''] doc = Inr rv)"

definition did :: "string list \<Rightarrow> string option \<Rightarrow> event \<Rightarrow> bool" where
  "did args data e \<longleftrightarrow> (\<exists>r. e = Ran args data (Inr r) \<and> returncode r = 0)"

definition delivers :: "nat \<Rightarrow> string \<Rightarrow> json \<Rightarrow> event \<Rightarrow> bool" where
  "delivers h kind event e \<longleftrightarrow> (\<exists>line. e = ReadLine h (Inr line) \<and> loads line = Inr event \<and> awaited kind event)"

text \<open>The answer 410 to a request: by its status, or by the first line of the response it opened.\<close>

definition refused :: "string \<Rightarrow> event \<Rightarrow> bool" where
  "refused url e \<longleftrightarrow> (\<exists>body h. e = Opened ''GET'' url (Inl (HTTPError 410 body)) \<or> e = Opened ''GET'' url (Inr (410, h)))"

definition said_gone :: "nat \<Rightarrow> event \<Rightarrow> bool" where
  "said_gone h e \<longleftrightarrow> (\<exists>line body. e = ReadLine h (Inr line) \<and> contains (strip line) ''\"code\":410'' \<or>
     e = ReadLine h (Inl (HTTPError 410 body)))"

definition gone_answer :: "string \<Rightarrow> (event \<Rightarrow> bool) list \<Rightarrow> bool" where
  "gone_answer url ps \<longleftrightarrow> ps = [refused url] \<or> (\<exists>h. ps = [opened url h, said_gone h])"

definition kubectl_args :: "'w os \<Rightarrow> string list \<Rightarrow> string list" where
  "kubectl_args os args = KUBECTL os # ''--context'' # CONTEXT os # args"

text \<open>The four phases, each as the answers it must have seen, in order.\<close>

definition saw_compaction :: "'w os \<Rightarrow> nat \<Rightarrow> string \<Rightarrow> string \<Rightarrow> string \<Rightarrow> (event \<Rightarrow> bool) list" where
  "saw_compaction os h rv etcd container =
     [opened (BASE @ ''/api/v1/namespaces'') h, listed h (JStr rv),
      did (kubectl_args os [''exec'', ''-n'', ''kube-system'', etcd, ''--'', ''etcdctl'',
          ''--endpoints=https://127.0.0.1:2379'', ''--cacert=/etc/kubernetes/pki/etcd/ca.crt'',
          ''--cert=/etc/kubernetes/pki/etcd/server.crt'',
          ''--key=/etc/kubernetes/pki/etcd/server.key'', ''compact'', rv]) None,
      did [''docker'', ''exec'', ''article-next-control-plane'', ''crictl'', ''stop'', container] None,
      did [KUBECTL os, ''--context'', ''kind-article-next'', ''get'', ''--raw'', ''/readyz''] None]"

definition saw_list :: "'w os \<Rightarrow> lab \<Rightarrow> nat \<Rightarrow> json \<Rightarrow> (event \<Rightarrow> bool) list" where
  "saw_list os L h rv =
     [did (kubectl_args os [''apply'', ''-n'', ns L, ''-f'', ''-'']) (Some (dumps (watch_pod ''before''))),
      opened (BASE @ ''/api/v1/namespaces/'' @ ns L @ ''/pods'') h, listed h rv]"

definition saw_created :: "'w os \<Rightarrow> lab \<Rightarrow> json \<Rightarrow> nat \<Rightarrow> json \<Rightarrow> (event \<Rightarrow> bool) list" where
  "saw_created os L rv h event =
     [opened (pods_url L rv ''30'') h,
      did (kubectl_args os [''apply'', ''-n'', ns L, ''-f'', ''-'']) (Some (dumps (watch_pod ''after''))),
      delivers h ''ADDED'' event]"

definition saw_deleted :: "'w os \<Rightarrow> lab \<Rightarrow> json \<Rightarrow> nat \<Rightarrow> json \<Rightarrow> (event \<Rightarrow> bool) list" where
  "saw_deleted os L rv h event =
     [opened (pods_url L rv ''30'') h,
      did (kubectl_args os [''delete'', ''pod'', ''after'', ''-n'', ns L, ''--wait=false'']) None,
      delivers h ''DELETED'' event]"

text \<open>What the helpers and loops yield.\<close>

lemmas seen_defs = opened_def listed_def did_def delivers_def kubectl_args_def

lemma seen_intros:
  "opened url h (Opened ''GET'' url (Inr (status, h)))"
  "loads body = Inr doc \<Longrightarrow> jpath [Sub ''metadata'', Sub ''resourceVersion''] doc = Inr rv \<Longrightarrow> listed h rv (ReadAll h (Inr body))"
  "returncode r = 0 \<Longrightarrow> did args data (Ran args data (Inr r))"
  "returncode r = 0 \<Longrightarrow> did (kubectl_args os args) data (Ran (KUBECTL os # ''--context'' # CONTEXT os # args) data (Inr r))"
  "p e \<Longrightarrow> in_order ps es \<Longrightarrow> in_order (p # ps) (e # es)"
  "in_order [p] fs \<Longrightarrow> in_order ps es \<Longrightarrow> in_order (p # ps) (fs @ es)"
  "in_order ps es \<Longrightarrow> in_order ps (e # es)"
  "in_order [] es"
  using in_order_append [of "[p]" fs ps es] by (auto simp: seen_defs in_order_hit in_order_tl intro: in_order_Cons)

lemma get_json_yields:
  "yields os (get_json path) (\<lambda>doc fs. \<exists>st h body. fs = [Opened ''GET'' (BASE @ path) (Inr (st, h)), ReadAll h (Inr body)] \<and> loads body = Inr doc)"
  unfolding get_json_def by (intro yieldsI wp_intros; simp)

lemma apply_yields:
  "yields os (lab_apply L obj) (\<lambda>_ fs. in_order [did (kubectl_args os [''apply'', ''-n'', ns L, ''-f'', ''-'']) (Some (dumps obj))] fs)"
  unfolding lab_apply_def by (intro yieldsI wp_intros; auto simp: observed seen_defs)

lemma apiserver_ready_wp:
  assumes "\<And>r. returncode r = 0 \<Longrightarrow> Q (Some ()) (es @ [Ran [KUBECTL os, ''--context'', ''kind-article-next'', ''get'', ''--raw'', ''/readyz''] None (Inr r)])"
    and "\<And>fs. Q None (es @ fs)"
  shows "wp os apiserver_ready Q es"
proof -
  have "wp os (bindM (run_process [KUBECTL os, ''--context'', ''kind-article-next'', ''get'', ''--raw'', ''/readyz''] None None)
     (\<lambda>r. if returncode r = 0 then returnM (Some ()) else thenM (sleep 1000) (returnM None))) Q es"
    using assms by (intro wp_intros) auto
  then show ?thesis unfolding wp_def apiserver_ready_def .
qed

lemma ready_yields: "yields os (repeatM n apiserver_ready (raiseM e))
    (\<lambda>_ fs. in_order [did [KUBECTL os, ''--context'', ''kind-article-next'', ''get'', ''--raw'', ''/readyz''] None] fs)"
proof (induction n)
  case (Suc n)
  show ?case
    unfolding repeatM.simps
    by (intro yieldsI wp_bindM apiserver_ready_wp; simp; intro wp_intros wp_yields [OF Suc.IH])
      (auto simp: observed seen_defs)
qed (simp add: yields_def wp_intros)

lemma line_delivers:
  "loads l = Inr v \<Longrightarrow> jget v ''object'' emptyD = Inr obj \<Longrightarrow> is_event kind v obj = Inr True \<Longrightarrow>
     in_order [delivers h kind v] (fs @ [ReadLine h (Inr l)])"
  by (simp add: observed delivers_def awaited_def)

lemma version_afterI:
  "jget v ''object'' emptyD = Inr obj \<Longrightarrow> bindE (jget obj ''metadata'' emptyD) (jpath [Get ''resourceVersion'' rv]) = Inr r \<Longrightarrow>
     r = version_after v rv"
  by (simp add: version_after_def)

lemma watch_loop_yields:
  "yields os (loopS (watch_round h kind msg) x) (\<lambda>v fs. \<exists>event rv. in_order [delivers h kind event] fs \<and> snd v = version_after event rv)"
proof (rule yieldsI)
  fix es
  show "wp os (loopS (watch_round h kind msg) x) (\<lambda>v gs. \<exists>fs. gs = es @ fs \<and>
      (\<exists>event rv. in_order [delivers h kind event] fs \<and> snd v = version_after event rv)) es"
  proof (rule wp_loopS [where I = "\<lambda>_ gs. \<exists>fs. gs = es @ fs"])
    fix y gs
    assume "\<exists>fs. gs = es @ fs"
    then obtain fs where gs: "gs = es @ fs" by blast
    show "wp os (watch_round h kind msg y) (\<lambda>r hs. case r of Inl z \<Rightarrow> \<exists>fs. hs = es @ fs
      | Inr v \<Rightarrow> \<exists>fs. hs = es @ fs \<and> (\<exists>event rv. in_order [delivers h kind event] fs \<and> snd v = version_after event rv)) gs"
      unfolding watch_round_def gs
      by (cases y, simp only: prod.case)
        (intro wp_intros; auto split: if_splits; blast intro: line_delivers version_afterI)
  qed simp
qed

lemma delete_loop_yields:
  "yields os (loopS (delete_round h) x) (\<lambda>_ fs. \<exists>event. in_order [delivers h ''DELETED'' event] fs)"
proof (rule yieldsI)
  fix es
  show "wp os (loopS (delete_round h) x) (\<lambda>_ gs. \<exists>fs. gs = es @ fs \<and> (\<exists>event. in_order [delivers h ''DELETED'' event] fs)) es"
  proof (rule wp_loopS [where I = "\<lambda>_ gs. \<exists>fs. gs = es @ fs"])
    fix y gs
    assume "\<exists>fs. gs = es @ fs"
    then obtain fs where gs: "gs = es @ fs" by blast
    show "wp os (delete_round h y) (\<lambda>r hs. case r of Inl z \<Rightarrow> \<exists>fs. hs = es @ fs
      | Inr v \<Rightarrow> \<exists>fs. hs = es @ fs \<and> (\<exists>event. in_order [delivers h ''DELETED'' event] fs)) gs"
      unfolding delete_round_def gs
      by (intro wp_intros; auto split: if_splits; blast intro: line_delivers)
  qed simp
qed

lemma not_gone_empty: "\<not> contains [] ''\"code\":410''"
  by code_simp

lemma open_expired_yields:
  "yields os (open_expired url) (\<lambda>v fs. is_gone v = Inr True \<longrightarrow> (\<exists>g. gone_answer url g \<and> in_order g fs))"
proof (rule yieldsI, unfold wp_def, intro allI impI)
  fix es s v s'
  let ?attempt = "bindM (urlopen ''GET'' url 15) (\<lambda>(status, h). bindM (readline h) (\<lambda>line.
        returnM (JDict [(''http_status'', JInt status), (''first_event'', JStr (strip line))])))"
  assume es: "trace s = es" and "open_expired url os s = Some (Inr v, s')"
  from this(2) have "\<exists>fs. trace s' = trace s @ fs \<and> (is_gone v = Inr True \<longrightarrow> (\<exists>g. gone_answer url g \<and> in_order g fs))"
    unfolding open_expired_def
  proof (rule catchM_SomeE)
    assume "?attempt os s = Some (Inr v, s')"
    then obtain st h line where "trace s' = trace s @ [Opened ''GET'' url (Inr (st, h)), ReadLine h (Inr line)]"
      and "v = JDict [(''http_status'', JInt st), (''first_event'', JStr (strip line))]"
      unfolding urlopen_def readline_def by (auto simp: returnM_def elim!: bindM_InrE prim_SomeE)
    moreover have "\<exists>g. gone_answer url g \<and> in_order g [Opened ''GET'' url (Inr (st, h)), ReadLine h (Inr line)]"
      if "st = 410 \<or> contains (strip line) ''\"code\":410''"
    proof (cases "st = 410")
      case True
      then show ?thesis by (intro exI [of _ "[refused url]"]) (simp add: gone_answer_def refused_def observed)
    next
      case False
      with that show ?thesis
        by (intro exI [of _ "[opened url h, said_gone h]"]) (auto simp: gone_answer_def opened_def said_gone_def observed)
    qed
    ultimately show ?thesis by (auto simp: is_gone_def split: if_splits)
  next
    fix e s1 p
    assume raised: "?attempt os s = Some (Inl e, s1)"
      and "on_HTTPError (\<lambda>code body. bindM (py_loads body) (\<lambda>b.
        returnM (JDict [(''http_status'', JInt code), (''body'', b)]))) e = Some p" and p: "p os s1 = Some (Inr v, s')"
    then obtain code body where e: "e = HTTPError code body"
      and "bindM (py_loads body) (\<lambda>b. returnM (JDict [(''http_status'', JInt code), (''body'', b)])) os s1 = Some (Inr v, s')"
      by (auto simp: on_simps)
    then obtain b where v: "v = JDict [(''http_status'', JInt code), (''body'', b)]" and s': "s' = s1"
      by (auto simp: returnM_def py_loads_def elim!: bindM_InrE liftE_InrE)
    have gone: "is_gone v = Inr True \<longleftrightarrow> code = 410" using v not_gone_empty by (simp add: is_gone_def)
    from raised consider "trace s1 = trace s @ [Opened ''GET'' url (Inl e)]"
      | st h where "trace s1 = trace s @ [Opened ''GET'' url (Inr (st, h)), ReadLine h (Inl e)]"
      unfolding urlopen_def readline_def by (rule bindM_SomeE) (auto simp: returnM_def elim!: bindM_SomeE prim_SomeE split: prod.splits)
    then show ?thesis
    proof cases
      case 1
      then show ?thesis
        by (auto simp: s' gone e gone_answer_def refused_def observed intro!: exI [of _ "[refused url]"])
    next
      case 2
      then show ?thesis
        by (auto simp: s' gone e gone_answer_def opened_def said_gone_def observed intro!: exI [of _ "[opened url h, said_gone h]"])
    qed
  qed
  then show "\<exists>fs. trace s' = es @ fs \<and> (is_gone v = Inr True \<longrightarrow> (\<exists>g. gone_answer url g \<and> in_order g fs))" using es by simp
qed

lemma watch_appends [emits_intros]:
  "emits os (\<lambda>_. True) (wait_version n msg)" "emits os (\<lambda>_. True) compact_etcd_and_restart_apiserver"
  "emits os (\<lambda>_. True) (get_json path)" "emits os (\<lambda>_. True) (open_expired url)"
  unfolding watch_defs by (intro emits_intros; simp)+

text \<open>What the phases yield.\<close>

lemma jstr_Inr: "jstr v = Inr t \<longleftrightarrow> v = JStr t"
  by (cases v) auto

lemma compact_yields:
  "yields os compact_etcd_and_restart_apiserver (\<lambda>v fs. \<exists>h rv etcd container. v = JStr rv \<and> in_order (saw_compaction os h rv etcd container) fs)"
  unfolding compact_etcd_and_restart_apiserver_def restart_apiserver_def etcd_pod_def run_checked_def
  by (intro yieldsI wp_intros wp_yields [OF get_json_yields] wp_yields [OF ready_yields];
    auto simp: saw_compaction_def jstr_Inr simp del: jpath.simps; blast intro: seen_intros)

lemma expired_phase_yields:
  "yields os (expired_phase L) (\<lambda>_ fs. \<exists>h rv etcd container g. gone_answer (pods_url L (JStr rv) ''10'') g \<and>
     in_order (saw_compaction os h rv etcd container @ g) fs)"
  unfolding expired_phase_def
  by (intro yieldsI wp_intros watch_appends(1) [THEN wp_frame] wp_yields [OF compact_yields] wp_yields [OF open_expired_yields];
      auto; blast intro: in_order_append in_order_left in_order_right)

lemma list_phase_yields: "yields os (list_phase L) (\<lambda>rv fs. truth rv \<and> (\<exists>h. in_order (saw_list os L h rv) fs))"
  unfolding list_phase_def lab_ready_def
  by (intro yieldsI wp_intros wp_yields [OF get_json_yields] wp_yields [OF apply_yields];
      auto simp: saw_list_def simp del: jpath.simps; blast intro: seen_intros)

lemma watch_phase_yields:
  "yields os (watch_phase L rv) (\<lambda>v fs. \<exists>h event rv'. in_order (saw_created os L rv h event) fs \<and> v = version_after event rv')"
  unfolding watch_phase_def
  by (intro yieldsI wp_bindM wp_thenM wp_yields [OF apply_yields] wp_yields [OF watch_loop_yields] wp_intros;
      auto simp: saw_created_def; blast intro: seen_intros)

lemma reconnect_phase_yields: "yields os (reconnect_phase L rv) (\<lambda>_ fs. \<exists>h event. in_order (saw_deleted os L rv h event) fs)"
  unfolding reconnect_phase_def
  by (intro yieldsI wp_bindM wp_thenM wp_yields [OF delete_loop_yields] wp_intros;
      auto simp: saw_deleted_def; blast intro: seen_intros)

lemma watch_phases_append:
  "emits os (\<lambda>_. True) (expired_phase L)" "emits os (\<lambda>_. True) (list_phase L)"
  "emits os (\<lambda>_. True) (watch_phase L rv)" "emits os (\<lambda>_. True) (reconnect_phase L rv)"
  "emits os (\<lambda>_. True) (stop_proxy p)" "emits os (\<lambda>_. True) start_proxy"
  unfolding watch_defs by (intro emits_intros; simp)+

text \<open>
  The whole story, in order. \<open>old\<close> is the version of the list of namespaces, \<open>rv\<close> that of the list of Pods; the watch \<open>h2\<close> is opened
  from \<open>rv\<close> and delivers \<open>added\<close>, the watch \<open>h3\<close> is opened from the version after \<open>added\<close> and delivers \<open>removed\<close>.
\<close>

definition watch_seen :: "'w os \<Rightarrow> lab \<Rightarrow> event list \<Rightarrow> bool" where
  "watch_seen os L es \<longleftrightarrow> (\<exists>h0 old etcd container gone h1 rv h2 added rv' h3 removed.
     gone_answer (pods_url L (JStr old) ''10'') gone \<and> truth rv \<and>
     in_order (saw_compaction os h0 old etcd container @ gone @ saw_list os L h1 rv @ saw_created os L rv h2 added @
       saw_deleted os L (version_after added rv') h3 removed) es)"

lemma watch_seenI:
  assumes "gone_answer (pods_url L (JStr old) ''10'') gone" and "in_order (saw_compaction os h0 old etcd container @ gone) es1"
    and "truth rv" and "in_order (saw_list os L h1 rv) es2" and "in_order (saw_created os L rv h2 added) es3"
    and "in_order (saw_deleted os L (version_after added rv') h3 removed) es4"
  shows "watch_seen os L (es1 @ es2 @ es3 @ es4)"
proof -
  have "in_order (saw_compaction os h0 old etcd container @ gone @ saw_list os L h1 rv @ saw_created os L rv h2 added @
       saw_deleted os L (version_after added rv') h3 removed) (es1 @ es2 @ es3 @ es4)"
    using in_order_append [OF assms(2) in_order_append [OF assms(4) in_order_append [OF assms(5,6)]]] by (simp only: append_assoc)
  with assms(1,3) show ?thesis unfolding watch_seen_def by blast
qed

lemma watch_seen_frame: "watch_seen os L fs \<Longrightarrow> watch_seen os L (es @ fs)" "watch_seen os L fs \<Longrightarrow> watch_seen os L (fs @ es)"
  unfolding watch_seen_def by (blast intro: in_order_left in_order_right)+

lemma watch_body_yields: "yields os (watch_body L) (\<lambda>_. watch_seen os L)"
  unfolding watch_body_def
  by (intro yieldsI wp_bindM wp_thenM wp_yields [OF expired_phase_yields] wp_yields [OF list_phase_yields]
      wp_yields [OF watch_phase_yields] wp_yields [OF reconnect_phase_yields] wp_intros)
    (clarsimp, rule watch_seenI, assumption+, erule in_order_right)

text \<open>
  C16: \<^verbatim>\<open>PASS\<close> means that the run has seen, in this order: the resource version \<open>old\<close> of the list of namespaces, etcd compacted at \<open>old\<close>, the
  API server's container stopped and ready again; the answer 410 to the watch of the Pods from \<open>old\<close>, by its status or by the first line
  of the response to that request; a list of the Pods with a version \<open>rv\<close>; a watch opened from \<open>rv\<close>, the Pod \<^verbatim>\<open>after\<close> applied, and on that
  response the event that adds it; then a second watch opened from the version that event left, the Pod deleted, and on the second
  response the event of its deletion.
\<close>

theorem watch_pass_observed:
  assumes "watch_run os s = Some (Inr u, s')" and "trace s = []"
  shows "watch_seen os (lab_of ''watch-consistency'') (trace s') \<and> last (trace s') = Printed ''PASS''"
proof -
  have "wp os watch_run (\<lambda>_ gs. watch_seen os (lab_of ''watch-consistency'') gs \<and> last gs = Printed ''PASS'') (trace s)"
    unfolding watch_run_def
    by (intro wp_intros wp_yields [OF watch_body_yields] watch_phases_append(5,6) [THEN wp_frame] conjI)
      (blast intro: watch_seen_frame, simp)
  from wpD [OF this assms(1)] show ?thesis .
qed


section \<open>A run of the experiment\<close>

definition demo_pod :: json where
  "demo_pod = JDict [(''metadata'', JDict [(''name'', JStr ''after''), (''resourceVersion'', JStr ''8'')])]"

definition demo_event :: "string \<Rightarrow> json" where
  "demo_event kind = JDict [(''type'', JStr kind), (''object'', demo_pod)]"

definition demo_list :: json where
  "demo_list = JDict
     [(''items'', JList [JDict [(''metadata'', JDict [(''name'', JStr ''article-next-worker'')])]]),
      (''metadata'', JDict [(''resourceVersion'', JStr ''7'')])]"

definition demo_watch :: "string list \<Rightarrow> nat \<Rightarrow> proc" where
  "demo_watch args w =
     (if w < 4 then printed 0 demo_list
      else if args = [''readline''] then
        (if 60 \<le> w then \<lparr>returncode = 0, stdout = [], stderr = []\<rparr>
         else printed 0 (demo_event (if w < 24 then ''MODIFIED'' else if w < 26 then ''ADDED'' else if w < 28 then ''MODIFIED'' else ''DELETED'')))
      else if hd args = ''urlopen'' then \<lparr>returncode = 410, stdout = [], stderr = []\<rparr>
      else if hd args = ''docker'' then \<lparr>returncode = 0, stdout = ''abc'', stderr = []\<rparr>
      else printed 0 demo_list)"

lemma demo_watch_wf [simp]: "wf_json demo_list" "wf_json (demo_event kind)" "strip ''abc'' = ''abc''"
  by code_simp (simp add: demo_event_def demo_pod_def, code_simp)

lemma special_succeeds [succeeds_intros]:
  "answer [''kubectl'', ''--context'', ''kind-article-next'', ''get'', ''--raw'', ''/readyz''] w = r \<Longrightarrow> returncode r = 0 \<Longrightarrow>
     succeeds (demo_os answer) apiserver_ready w (Some ()) (Suc w)"
  "succeeds (demo_os answer) start_proxy w 1 w"
  "succeeds (demo_os answer) (stop_proxy p) w () w"
proof -
  assume "answer [''kubectl'', ''--context'', ''kind-article-next'', ''get'', ''--raw'', ''/readyz''] w = r" "returncode r = 0"
  then show "succeeds (demo_os answer) apiserver_ready w (Some ()) (Suc w)"
    by (auto simp: succeeds_def apiserver_ready_def run_simps run_process_def prim_def demo_os_def KUBECTL_def)
next
  show "succeeds (demo_os answer) start_proxy w 1 w"
    by (auto simp: succeeds_def start_proxy_def popen_def prim_def demo_os_def)
  show "succeeds (demo_os answer) (stop_proxy p) w () w"
    unfolding stop_proxy_def by (rule succeeds_intros)+
qed

lemmas demo_watch_simps = demo_watch_def demo_list_def is_lab_node_def jstartswith_def startswith_code
  is_gone_def watch_pod_def list_index_def Let_def

text \<open>Each loop reads another event before the awaited one.\<close>

lemma demo_event_reads:
  "jget (demo_event k) ''object'' emptyD = Inr demo_pod" "jpath [Get ''metadata'' emptyD, Get ''resourceVersion'' rv] demo_pod = Inr (JStr ''8'')"
  "is_event kind (demo_event k) demo_pod = Inr (k = kind)"
  by (simp_all add: demo_event_def demo_pod_def is_event_def)

lemma demo_rounds:
  assumes "demo_watch [''readline''] w = printed 0 (demo_event k)"
  shows "succeeds (demo_os demo_watch) (watch_round h kind msg (events, rv)) w
      (if k = kind then Inr (events @ [demo_event k], JStr ''8'') else Inl (events @ [demo_event k], JStr ''8'')) (Suc w)"
    and "succeeds (demo_os demo_watch) (delete_round h events) w
      (if k = ''DELETED'' then Inr (events @ [demo_event k]) else Inl (events @ [demo_event k])) (Suc w)"
  using assms
  by (auto simp: succeeds_def watch_round_def delete_round_def run_simps readline_def prim_def py_loads_def demo_os_def demo_event_reads
      simp del: jpath.simps jget.simps)

lemma succeeds_loopS_step:
  "succeeds os (body x) w (Inl y) w1 \<Longrightarrow> succeeds os (loopS body y) w1 v w' \<Longrightarrow> succeeds os (loopS body x) w v w'"
  by (fastforce simp: succeeds_def loopS_unfold [of body x])

lemma demo_loops:
  "w = 23 \<Longrightarrow> succeeds (demo_os demo_watch) (loopS (watch_round h ''ADDED'' msg) ([], rv)) w
     ([demo_event ''MODIFIED'', demo_event ''ADDED''], JStr ''8'') 25"
  "w = 27 \<Longrightarrow> succeeds (demo_os demo_watch) (loopS (delete_round h) []) w [demo_event ''MODIFIED'', demo_event ''DELETED''] 29"
proof -
  have lines: "demo_watch [''readline''] 23 = printed 0 (demo_event ''MODIFIED'')" "demo_watch [''readline''] 24 = printed 0 (demo_event ''ADDED'')"
    "demo_watch [''readline''] 27 = printed 0 (demo_event ''MODIFIED'')" "demo_watch [''readline''] 28 = printed 0 (demo_event ''DELETED'')"
    by (simp_all add: demo_watch_def)
  from demo_rounds(1) [OF lines(1), of h "''ADDED''" msg "[]" rv]
    demo_rounds(1) [OF lines(2), of h "''ADDED''" msg "[demo_event ''MODIFIED'']" "JStr ''8''"]
  show "succeeds (demo_os demo_watch) (loopS (watch_round h ''ADDED'' msg) ([], rv)) w
     ([demo_event ''MODIFIED'', demo_event ''ADDED''], JStr ''8'') 25" if "w = 23"
    using that by simp (erule succeeds_loopS_step, erule succeeds_loopS)
  from demo_rounds(2) [OF lines(3), of h "[]"] demo_rounds(2) [OF lines(4), of h "[demo_event ''MODIFIED'']"]
  show "succeeds (demo_os demo_watch) (loopS (delete_round h) []) w [demo_event ''MODIFIED'', demo_event ''DELETED''] 29" if "w = 27"
    using that by simp (erule succeeds_loopS_step, erule succeeds_loopS)
qed

lemma demo_watch_run: "\<exists>w'. succeeds (demo_os demo_watch) watch_run 0 () w'"
  unfolding watch_run_def watch_body_def expired_phase_def list_phase_def watch_phase_def
    reconnect_phase_def open_expired_def wait_version_def version_probe_def
    compact_etcd_and_restart_apiserver_def restart_apiserver_def etcd_pod_def run_checked_def get_json_def lab_ready_def Let_def prod.case
  by (rule exI, (rule demo_loops succeeds_intros lab_init_succeeds [where doc = demo_list]
      | (simp add: demo_watch_simps; fail) | (simp only: prod.case if_True, rule succeeds_intros))+)

theorem watch_pass_observed_witness:
  "\<exists>s'. watch_run (demo_os demo_watch) (demo_start ()) = Some (Inr (), s') \<and>
     watch_seen (demo_os demo_watch) (lab_of ''watch-consistency'') (trace s') \<and> last (trace s') = Printed ''PASS''"
proof -
  obtain s' where run: "watch_run (demo_os demo_watch) (demo_start ()) = Some (Inr (), s')"
    using demo_watch_run by (rule demo_succeeds)
  from watch_pass_observed [OF this] show ?thesis using run by auto
qed

text \<open>A normal run has started a proxy.\<close>

definition starts :: "event \<Rightarrow> bool" where
  "starts e = (\<exists>args p. e = Spawned args (Inr p))"

lemma start_proxy_wp:
  assumes "\<And>args p. Q p (es @ [Spawned args (Inr p)])"
  shows "wp os start_proxy Q es"
  unfolding wp_def using assms by (auto dest!: start_proxy_trace)

lemma watch_starts: "wp os watch_run (\<lambda>_ gs. list_ex starts gs) es"
  unfolding watch_run_def
  by (intro wp_intros start_proxy_wp watch_body_emits [THEN wp_frame] watch_phases_append(5) [THEN wp_frame];
      simp add: starts_def)

theorem watch_proxy_stopped_witness:
  "\<exists>s' p es fs gs args. watch_run (demo_os demo_watch) (demo_start ()) = Some (Inr (), s') \<and>
     trace s' = es @ Spawned args (Inr p) # fs @ Terminated p # gs"
proof -
  obtain s' where run: "watch_run (demo_os demo_watch) (demo_start ()) = Some (Inr (), s')"
    using demo_watch_run by (rule demo_succeeds)
  from wpD [OF watch_starts run] obtain args p where "Spawned args (Inr p) \<in> set (trace s')"
    by (auto simp: list_ex_iff starts_def)
  from watch_proxy_stopped [OF run _ this] have "\<exists>es fs gs. trace s' = es @ Spawned args (Inr p) # fs @ Terminated p # gs"
    by simp
  then show ?thesis using run by blast
qed

text \<open>
  C17: the experiment ends whatever the API server answers, once the server ends the streams it
  opened: the polling loops count their rounds, and the two loops over a watch use up its lines.
\<close>

theorem watch_terminates:
  assumes "clock_ok os now" and "streams_end os left"
  shows "watch_run os s \<noteq> None"
  using watch_runs [OF assms] by (rule runs_returns)

lemma demo_watch_ends: "streams_end (demo_os demo_watch) (\<lambda>w. 60 - w)"
  by (auto simp: streams_end_def demo_os_def demo_watch_def split: if_splits)

text \<open>In this world the loops see other events before the awaited ones, and every stream ends.\<close>

theorem watch_terminates_witness:
  "clock_ok (demo_os demo_watch) int \<and> streams_end (demo_os demo_watch) (\<lambda>w. 60 - w) \<and>
     (\<exists>s'. watch_run (demo_os demo_watch) (demo_start ()) = Some (Inr (), s') \<and> last (trace s') = Printed ''PASS'')"
proof -
  obtain s1 where run: "watch_run (demo_os demo_watch) (demo_start ()) = Some (Inr (), s1)"
    using demo_watch_run by (rule demo_succeeds)
  obtain r s' where "watch_run (demo_os demo_watch) (demo_start ()) = Some (r, s')"
    using watch_terminates [OF demo_clock demo_watch_ends, of "demo_start ()"] by auto
  with run have s': "watch_run (demo_os demo_watch) (demo_start ()) = Some (Inr (), s')" by simp
  moreover have "last (trace s') = Printed ''PASS''"
    using s' unfolding watch_run_def py_print_def by (auto elim!: bindM_InrE thenM_InrE prim_SomeE)
  ultimately show ?thesis using demo_clock demo_watch_ends by blast
qed

text \<open>
  What a command may be: the probe for readiness, pinned to \<^verbatim>\<open>kind-article-next\<close>; any other command, \<^verbatim>\<open>kubectl\<close> pinned to the
  configured context or \<^verbatim>\<open>docker exec\<close> in the control plane's container.
\<close>

definition watch_context :: "'w os \<Rightarrow> event \<Rightarrow> bool" where
  "watch_context os e = (case e of
       Spawned args r \<Rightarrow> pinned ''kind-article-next'' args
     | Ran args i r \<Rightarrow>
         if drop 3 args = [''get'', ''--raw'', ''/readyz''] then pinned ''kind-article-next'' args
         else pinned (CONTEXT os) args \<or> take 3 args = [''docker'', ''exec'', ''article-next-control-plane'']
     | Opened md url r \<Rightarrow> startswith url BASE
     | _ \<Rightarrow> True)"

text \<open>
  C18: which cluster the experiment talks to. Every request goes to the proxy, and the proxy is started for the context
  \<^verbatim>\<open>kind-article-next\<close> whatever \<^verbatim>\<open>ARTICLE_CONTEXT\<close> says, as is the probe for readiness. Every other command is \<^verbatim>\<open>kubectl\<close> for the
  context of \<^verbatim>\<open>ARTICLE_CONTEXT\<close>, or \<^verbatim>\<open>docker exec\<close> in \<^verbatim>\<open>article-next-control-plane\<close>.
\<close>

theorem watch_contexts: "emits os (watch_context os) watch_run"
  unfolding watch_run_def watch_defs pods_url_def lab_init_def lab_guard_def lab_setup_def lab_apply_def lab_ready_def Let_def
  by (intro emits_intros; simp add: watch_context_def)


section \<open>What a watch delivers\<close>

text \<open>
  The abstract contract of reading a watch: from the events the server sends, the shortest prefix with the
  awaited one. \<open>serves os h left\<close>: the response \<open>h\<close> yields the lines \<open>left w\<close>, then the end of the stream.
\<close>

fun deliver :: "string \<Rightarrow> json list \<Rightarrow> json list option" where
  "deliver kind [] = None"
| "deliver kind (e # es) = (if awaited kind e then Some [e] else map_option ((#) e) (deliver kind es))"

definition event_ok :: "json \<Rightarrow> bool" where
  "event_ok e \<longleftrightarrow> (\<exists>obj m. jget e ''object'' emptyD = Inr (JDict obj) \<and>
     jget (JDict obj) ''metadata'' emptyD = Inr (JDict m))"

definition serves :: "'w os \<Rightarrow> nat \<Rightarrow> ('w \<Rightarrow> string list) \<Rightarrow> bool" where
  "serves os h left \<longleftrightarrow> (\<forall>w. \<exists>w'. os_readline os h w =
     (Inr (case left w of [] \<Rightarrow> [] | l # ls \<Rightarrow> l), w') \<and> left w' = tl (left w))"

lemma event_ok_dict: "event_ok e \<Longrightarrow> \<exists>d. e = JDict d"
  by (cases e) (auto simp: event_ok_def)

lemma event_ok_steps:
  assumes "event_ok e"
  obtains obj where "jget e ''object'' emptyD = Inr obj"
    and "jpath [Get ''metadata'' emptyD, Get ''resourceVersion'' rv] obj = Inr (version_after e rv)"
    and "is_event kind e obj = Inr (awaited kind e)"
proof -
  obtain d where d: "e = JDict d" using event_ok_dict [OF assms] by blast
  obtain obj m where o: "jget e ''object'' emptyD = Inr (JDict obj)" "jget (JDict obj) ''metadata'' emptyD = Inr (JDict m)"
    using assms by (auto simp: event_ok_def)
  show ?thesis
    by (rule that [OF o(1)]) (use o d in \<open>auto simp: version_after_def awaited_def is_event_def\<close>)
qed

lemma loads_empty: "loads [] = Inl JSONDecodeError"
  by code_simp

lemma loads_nonempty: "loads l = Inr e \<Longrightarrow> l \<noteq> []"
  using loads_empty by auto

lemma watch_round_event:
  assumes "serves os h left" and "left (world s) = l # ls" and "loads l = Inr e" and "event_ok e"
  shows "\<exists>s'. left (world s') = ls \<and> watch_round h kind msg (events, rv) os s =
    Some (Inr (if awaited kind e then Inr (events @ [e], version_after e rv) else Inl (events @ [e], version_after e rv)), s')"
proof -
  obtain w where w: "os_readline os h (world s) = (Inr l, w)" "left w = ls"
    using assms(1,2) unfolding serves_def by (metis list.sel(3) list.simps(5))
  obtain obj where "jget e ''object'' emptyD = Inr obj"
    "jpath [Get ''metadata'' emptyD, Get ''resourceVersion'' rv] obj = Inr (version_after e rv)"
    "is_event kind e obj = Inr (awaited kind e)" using event_ok_steps [OF assms(4)] by blast
  with w assms(3) loads_nonempty [OF assms(3)] show ?thesis
    by (simp add: watch_round_def readline_def prim_def py_loads_def run_simps del: jpath.simps jget.simps)
qed

lemma watch_round_end:
  assumes "serves os h left" and "left (world s) = []"
  shows "\<exists>s'. watch_round h kind msg (events, rv) os s = Some (Inl (AssertionError msg), s')"
proof -
  obtain w where "os_readline os h (world s) = (Inr [], w)" using assms unfolding serves_def by (metis list.simps(4))
  then show ?thesis by (simp add: watch_round_def readline_def prim_def run_simps)
qed

text \<open>
  C28: the loop that reads a watch implements its contract. Let the response yield a line per event, each the JSON text of the event in any
  spacing and with its line end, and let the object of every event and its metadata be objects. Then the loop returns exactly the
  shortest prefix of the events that ends with the awaited one, with the resource version to
  reconnect from that these events carried, and leaves the lines after it unread; when the stream ends
  without that event, it raises the assertion and not another error.
\<close>

theorem watch_loop_refines:
  assumes "serves os h left" and "list_all2 (\<lambda>l e. loads l = Inr e) (left (world s)) es" and "list_all event_ok es"
  shows "case deliver kind es of
      Some pre \<Rightarrow> (\<exists>s' post. loopS (watch_round h kind msg) (events, rv) os s =
          Some (Inr (events @ pre, fold version_after pre rv), s') \<and> es = pre @ post \<and>
          left (world s') = drop (length pre) (left (world s)))
    | None \<Rightarrow> (\<exists>s'. loopS (watch_round h kind msg) (events, rv) os s = Some (Inl (AssertionError msg), s'))"
  using assms(2,3)
proof (induction es arbitrary: s events rv rule: list.induct)
  case Nil
  then have "left (world s) = []" by simp
  with watch_round_end [OF assms(1), of s kind msg events rv] show ?case by (auto simp: loopS_unfold)
next
  case (Cons e es)
  then obtain l ls where ls: "left (world s) = l # ls" "loads l = Inr e" "list_all2 (\<lambda>l e. loads l = Inr e) ls es"
    by (auto simp: list_all2_Cons2)
  with watch_round_event [OF assms(1) ls(1,2), of kind msg events rv] Cons.prems obtain t where
    left: "left (world t) = ls" and t: "watch_round h kind msg (events, rv) os s =
      Some (Inr (if awaited kind e then Inr (events @ [e], version_after e rv) else Inl (events @ [e], version_after e rv)), t)"
    by auto
  show ?case
  proof (cases "awaited kind e")
    case True
    with t left ls(1) show ?thesis by (simp add: loopS_unfold)
  next
    case False
    with t have "loopS (watch_round h kind msg) (events, rv) os s =
        loopS (watch_round h kind msg) (events @ [e], version_after e rv) os t"
      by (subst loopS_unfold) simp
    with False Cons.IH [of t "events @ [e]" "version_after e rv"] Cons.prems(2) left ls show ?thesis
      by (cases "deliver kind es") auto
  qed
qed

text \<open>Three lines as the API server sends them.\<close>

definition demo_lines :: "string list" where
  "demo_lines =
     [''{\"type\":\"MODIFIED\",\"object\":{\"metadata\":{\"name\":\"before\",\"resourceVersion\":\"8\"}}}'' @ [CHR 0x0A],
      ''{\"type\":\"ADDED\",\"object\":{\"metadata\":{\"name\":\"after\",\"resourceVersion\":\"9\"}}}'' @ [CHR 0x0A],
      ''{\"type\":\"DELETED\",\"object\":{\"metadata\":{\"name\":\"after\",\"resourceVersion\":\"10\"}}}'' @ [CHR 0x0A]]"

definition line_event :: "string \<Rightarrow> string \<Rightarrow> string \<Rightarrow> json" where
  "line_event kind name rv = JDict [(''type'', JStr kind),
     (''object'', JDict [(''metadata'', JDict [(''name'', JStr name), (''resourceVersion'', JStr rv)])])]"

definition demo_stream :: "json list" where
  "demo_stream = [line_event ''MODIFIED'' ''before'' ''8'', line_event ''ADDED'' ''after'' ''9'', line_event ''DELETED'' ''after'' ''10'']"

definition demo_stream_os :: "nat os" where
  "demo_stream_os = demo_os (\<lambda>args w. \<lparr>returncode = 0, stdout = (case drop w demo_lines of [] \<Rightarrow> [] | l # ls \<Rightarrow> l), stderr = []\<rparr>)"

theorem watch_loop_refines_witness:
  "\<exists>s'. loopS (watch_round 1 ''ADDED'' ''ended'') ([], JStr ''7'') demo_stream_os (demo_start ()) =
     Some (Inr ([line_event ''MODIFIED'' ''before'' ''8'', line_event ''ADDED'' ''after'' ''9''], JStr ''9''), s') \<and>
     drop (world s') demo_lines = drop 2 demo_lines"
proof -
  have "serves demo_stream_os 1 (\<lambda>w. drop w demo_lines)"
    by (simp add: serves_def demo_stream_os_def demo_os_def drop_Suc tl_drop)
  moreover have "list_all2 (\<lambda>l e. loads l = Inr e) demo_lines demo_stream" by code_simp
  moreover have "list_all event_ok demo_stream"
    by (simp add: demo_stream_def event_ok_def line_event_def)
  moreover have "deliver ''ADDED'' demo_stream = Some [line_event ''MODIFIED'' ''before'' ''8'', line_event ''ADDED'' ''after'' ''9'']"
    by (simp add: demo_stream_def awaited_def line_event_def is_event_def)
  ultimately show ?thesis
    using watch_loop_refines [of demo_stream_os 1 "\<lambda>w. drop w demo_lines" "demo_start ()" demo_stream
        "''ADDED''" "''ended''" "[]" "JStr ''7''"]
    by (auto simp: version_after_def line_event_def numeral_2_eq_2)
qed

end
