(* ===== verification/ImageRun.thy ===== *)
theory ImageRun
  imports ArticleLab PyNum Observe
begin

text \<open>
  \<^verbatim>\<open>article-image-lifecycle/run.py\<close>: a pull that fails, and the garbage collection of images, forced by
  loading an unused image large enough to cross the threshold. The script has its own copies of the
  runner, the polling function and the evidence writer, for a cluster of its own. \<^verbatim>\<open>os.urandom\<close> is the
  argument \<open>chunk\<close>, the megabyte it returned; the environment variable \<^verbatim>\<open>docker build\<close> is given besides
  the script's own is not part of a command line and is left out.
\<close>

section \<open>Runner, polling and evidence\<close>

definition IMAGE_OUT :: string where "IMAGE_OUT = ''article-image-lifecycle/evidence''"
definition IMAGE_CTX :: string where "IMAGE_CTX = ''kind-article-image''"
definition IMAGE_NS :: string where "IMAGE_NS = ''article-image''"
definition IMAGE_KUBECTL :: "'w os \<Rightarrow> string" where
  "IMAGE_KUBECTL os = (case environ os ''KUBECTL'' of None \<Rightarrow> ''kubectl'' | Some b \<Rightarrow> b)"
definition KIND :: "'w os \<Rightarrow> string" where
  "KIND os = (case environ os ''KIND'' of None \<Rightarrow> ''kind'' | Some b \<Rightarrow> b)"

definition image_command :: "string list \<Rightarrow> string option \<Rightarrow> bool \<Rightarrow> int \<Rightarrow> ('w, 'g, proc) prog" where
  "image_command args data check timeout =
     bindM (run_process args data (Some timeout)) (checked check (command_failed args))"

definition image_k :: "string list \<Rightarrow> string option \<Rightarrow> bool \<Rightarrow> int \<Rightarrow> ('w, 'g, proc) prog" where
  "image_k args data check timeout = (\<lambda>os s.
     image_command (IMAGE_KUBECTL os # ''--context'' # IMAGE_CTX # args) data check timeout os s)"

abbreviation icmd :: "string list \<Rightarrow> ('w, 'g, proc) prog" where
  "icmd args \<equiv> image_k args None True 300"

definition image_wait :: "('a \<Rightarrow> bool) \<Rightarrow> ('w, 'g, 'a) prog \<Rightarrow> int \<Rightarrow> ('w, 'g, 'a) prog" where
  "image_wait ok fn timeout =
     bindM monotonic (\<lambda>t0. let deadline = t0 + 1000 * timeout in
       loopM (bindM monotonic (\<lambda>t.
         if t < deadline then
           bindM fn (\<lambda>v. if ok v then returnM (Some v) else thenM (sleep 2000) (returnM None))
         else raiseM (not_converged timeout))))"

definition image_save :: "string \<Rightarrow> json \<Rightarrow> ('w, 'g, unit) prog" where
  "image_save name v =
    (thenM (mkdir IMAGE_OUT) (
     thenM (write_text (IMAGE_OUT @ ''/'' @ name @ ''.json'') (dumps_raw_indent v @ [CHR 0x0A])) (
     py_print (name @ '': '' @ take 1200 (dumps_raw v)))))"


section \<open>Objects and queries\<close>

definition image_pod :: "string \<Rightarrow> string \<Rightarrow> string list \<Rightarrow> json" where
  "image_pod name img command_args =
     (JDict
       [(''apiVersion'', JStr ''v1''), (''kind'', JStr ''Pod''),
        (''metadata'', JDict [(''name'', JStr name), (''labels'', JDict [(''app'', JStr name)])]),
        (''spec'',
          JDict
            [(''containers'',
               JList
                 [JDict
                    [(''name'', JStr ''app''), (''image'', JStr img),
                     (''imagePullPolicy'', JStr ''Always''),
                     (''command'', JList (map JStr command_args))]])])])"

definition apply_obj :: "json \<Rightarrow> ('w, 'g, unit) prog" where
  "apply_obj obj =
    (bindM (liftE (bindE (jpath [Sub ''metadata'', Sub ''name''] obj) jstr)) (\<lambda>name.
     thenM (image_save (''input-'' @ name) obj) (
     ign (image_k [''apply'', ''-n'', IMAGE_NS, ''-f'', ''-''] (Some (dumps obj)) True 300))))"

definition image_get :: "string \<Rightarrow> string \<Rightarrow> ('w, 'g, json) prog" where
  "image_get kind name =
    (bindM (icmd [''get'', kind, name, ''-n'', IMAGE_NS, ''-o'', ''json'']) (\<lambda>r.
     py_loads (stdout r)))"

definition node_name :: "('w, 'g, json) prog" where
  "node_name =
    (bindM (icmd [''get'', ''nodes'', ''-o'', ''json'']) (\<lambda>r.
     bindM (py_loads (stdout r)) (\<lambda>doc.
     liftE (jpath [Sub ''items'', Idx 0, Sub ''metadata'', Sub ''name''] doc))))"

definition node_stats :: "json \<Rightarrow> ('w, 'g, json) prog" where
  "node_stats name =
    (bindM (icmd [''get'', ''--raw'', ''/api/v1/nodes/'' @ py_str name @ ''/proxy/stats/summary'']) (\<lambda>r.
     py_loads (stdout r)))"

definition crictl_images :: "('w, 'g, json) prog" where
  "crictl_images =
    (bindM (image_command [''docker'', ''exec'', ''article-image-control-plane'', ''crictl'',
           ''images'', ''-o'', ''json''] None True 300) (\<lambda>r.
     py_loads (stdout r)))"

text \<open>\<^verbatim>\<open>any(\<dots> for image in images.get("images", []))\<close>.\<close>

definition any_image :: "(json \<Rightarrow> exn + bool) \<Rightarrow> json \<Rightarrow> exn + bool" where
  "any_image p images = bindE (bindE (jget images ''images'' (JList [])) jiter) (anyE p)"

definition has_tag :: "string \<Rightarrow> json \<Rightarrow> exn + bool" where
  "has_tag tag img =
     bindE (bindE (jget img ''repoTags'' (JList [])) (jin (JStr tag))) (\<lambda>b.
       if b then Inr True else bindE (jget img ''repoDigests'' (JList [])) (jin (JStr tag)))"

definition image_present :: "json \<Rightarrow> string \<Rightarrow> exn + bool" where
  "image_present images tag = any_image (has_tag tag) images"

definition has_id :: "json \<Rightarrow> json \<Rightarrow> exn + bool" where
  "has_id image_id img = bindE (jget img ''id'' JNull) (\<lambda>i. Inr (py_eq i image_id))"

text \<open>The test before and after the collection: the image in use under either of its names.\<close>

definition alpine_present :: "json \<Rightarrow> exn + bool" where
  "alpine_present images =
     bindE (image_present images ''docker.io/library/alpine:3.20'') (\<lambda>b.
       if b then Inr True else image_present images ''alpine:3.20'')"


section \<open>The phases\<close>

definition image_prepare :: "('w, 'g, json) prog" where
  "image_prepare =
    (thenM (mkdir IMAGE_OUT) (
     bindM (bindM node_name (\<lambda>n. liftE (jstr n))) (\<lambda>node.
     bindM (icmd [''get'', ''nodes'', node, ''-o'', ''json'']) (\<lambda>r.
     bindM (py_loads (stdout r)) (\<lambda>supported.
     bindM (icmd [''version'', ''-o'', ''json'']) (\<lambda>v.
     bindM (py_loads (stdout v)) (\<lambda>version.
     thenM (image_save ''version'' version) (
     thenM (icmd [''delete'', ''namespace'', IMAGE_NS, ''--ignore-not-found'', ''--wait=true'']) (
     thenM (icmd [''create'', ''namespace'', IMAGE_NS]) (
     returnM supported))))))))))"

text \<open>The loop of \<^verbatim>\<open>pull_failed\<close> over the container statuses.\<close>

fun backoff_waiting :: "json list \<Rightarrow> exn + json" where
  "backoff_waiting [] = Inr JNull"
| "backoff_waiting (status # rest) =
     bindE (jpath [Get ''state'' emptyD, Get ''waiting'' emptyD] status) (\<lambda>waiting.
     bindE (jget waiting ''reason'' JNull) (\<lambda>reason.
       if py_eq reason (JStr ''ImagePullBackOff'') then Inr waiting else backoff_waiting rest))"

definition container_statuses :: "json \<Rightarrow> exn + json list" where
  "container_statuses current =
     bindE (jpath [Get ''status'' emptyD, Get ''containerStatuses'' (JList [])] current) jiter"

definition pull_failed :: "('w, 'g, json) prog" where
  "pull_failed =
    (bindM (image_get ''pod'' ''pull-fail'') (\<lambda>current.
     liftE (bindE (container_statuses current) backoff_waiting)))"

definition pull_phase :: "('w, 'g, json) prog" where
  "pull_phase =
    (thenM (apply_obj (image_pod ''pull-ok'' ''alpine:3.20'' [''sh'', ''-c'', ''sleep 3600''])) (
     thenM (icmd [''wait'', ''-n'', IMAGE_NS, ''--for=condition=Ready'', ''pod/pull-ok'', ''--timeout=240s'']) (
     thenM (apply_obj (image_pod ''pull-fail'' ''example.invalid/kubernetes-image-does-not-exist:never'' [''true''])) (
     bindM (image_wait truth pull_failed 240) (\<lambda>pull_waiting.
     bindM (image_get ''pod'' ''pull-fail'') (\<lambda>p.
     bindM (icmd [''get'', ''events'', ''-n'', IMAGE_NS, ''-o'', ''json'']) (\<lambda>r.
     bindM (py_loads (stdout r)) (\<lambda>events.
     thenM (image_save ''pull-failure'' (JDict [(''pod'', p), (''events'', events)])) (
     returnM pull_waiting)))))))))"

definition blob_size :: "int \<Rightarrow> int \<Rightarrow> int" where
  "blob_size capacity used =
     (let required = max (512 * 1024 * 1024) (capacity div 100 - used + 256 * 1024 * 1024) in
      ((required + 63 * 1024 * 1024) div (64 * 1024 * 1024)) * 64 * 1024 * 1024)"

text \<open>The listing before, and the size of the image to build.\<close>

definition measure_phase :: "('w, 'g, int \<times> int \<times> int) prog" where
  "measure_phase =
    (bindM node_name (\<lambda>node.
     bindM crictl_images (\<lambda>before.
     thenM (image_save ''images-before'' before) (
     bindM (liftE (alpine_present before)) (\<lambda>b.
     thenM (assertM [] b) (
     bindM (node_stats node) (\<lambda>stats.
     bindM (liftE (jpath [Sub ''node'', Sub ''runtime'', Sub ''imageFs''] stats)) (\<lambda>image_fs.
     bindM (liftE (bindE (jsub image_fs ''capacityBytes'') jint)) (\<lambda>capacity.
     bindM (liftE (bindE (jsub image_fs ''usedBytes'') jint)) (\<lambda>used.
     let required = blob_size capacity used in
     (if required > 6 * 1024 * 1024 * 1024
        then raiseM (RuntimeError (''ImageFS is too large, needs '' @ int_str required @ '' bytes''))
        else returnM (capacity, used, required))))))))))))"

definition build_dir :: string where "build_dir = ''tmp/article-image/unused-image''"

text \<open>\<^verbatim>\<open>chunk[:n]\<close>.\<close>

definition slice_to :: "'a list \<Rightarrow> int \<Rightarrow> 'a list" where
  "slice_to xs n = take (nat (if n < 0 then n + int (length xs) else n)) xs"

definition blob_round :: "string \<Rightarrow> int \<Rightarrow> ('w, 'g, int + unit) prog" where
  "blob_round chunk remaining =
     (if remaining = 0 then returnM (Inr ())
      else let sz = min (int (length chunk)) remaining in
        thenM (append_text (build_dir @ ''/blob'') (slice_to chunk sz)) (returnM (Inl (remaining - sz))))"

definition write_blob :: "string \<Rightarrow> int \<Rightarrow> ('w, 'g, unit) prog" where
  "write_blob chunk required =
     thenM (write_text (build_dir @ ''/blob'') []) (loopS (blob_round chunk) required)"

definition kind_load :: "('w, 'g, proc) prog" where
  "kind_load = (\<lambda>os s. image_command
     [KIND os, ''load'', ''docker-image'', ''article-unused:1'', ''--name'', ''article-image''] None True 900 os s)"

definition load_phase :: "string \<Rightarrow> int \<Rightarrow> ('w, 'g, unit) prog" where
  "load_phase chunk required =
    (thenM (mkdir build_dir) (
     thenM (write_blob chunk required) (
     thenM (write_text (build_dir @ ''/Dockerfile'') (''FROM scratch'' @ [CHR 0x0A] @ ''COPY blob /blob'' @ [CHR 0x0A])) (
     thenM (image_command [''docker'', ''build'', ''--platform'', ''linux/amd64'', ''-t'',
           ''article-unused:1'', build_dir] None True 900) (
     thenM kind_load (
     bindM (image_command [''docker'', ''image'', ''inspect'', ''--format'', (''{{json .Id}}''), ''article-unused:1''] None True 300) (\<lambda>r.
     bindM (py_loads (stdout r)) (\<lambda>image_id.
     bindM crictl_images (\<lambda>loaded.
     thenM (image_save ''images-loaded'' loaded) (
     bindM (liftE (any_image (has_id image_id) loaded)) (\<lambda>found.
     thenM (if found then returnM ()
        else raiseM (AssertionError (''image ID not found on the node: '' @ py_str image_id))) (
     ign (image_command [''docker'', ''exec'', ''article-image-control-plane'', ''systemctl'',
           ''restart'', ''kubelet''] None True 300)))))))))))))"

definition gc_line :: "string \<Rightarrow> bool" where
  "gc_line line \<longleftrightarrow>
     contains line ''Image garbage collection'' \<or>
     contains line ''Disk usage on image filesystem is over the high threshold'' \<or>
     contains line ''Removing image to free bytes'' \<or>
     contains line ''Insufficient free disk space'' \<or>
     (contains line ''failed multiple times in a row'' \<and> contains line ''freed '')"

definition gc_lines_of :: "string \<Rightarrow> string list option" where
  "gc_lines_of logs =
     (let lines = filter gc_line (splitlines logs) in
      if \<exists>line \<in> set lines. contains line ''Disk usage on image filesystem'' then Some lines else None)"

definition gc_evaluated :: "('w, 'g, string list option) prog" where
  "gc_evaluated =
    (bindM (image_command [''docker'', ''exec'', ''article-image-control-plane'', ''journalctl'',
           ''-u'', ''kubelet'', ''-n'', ''400'', ''--no-pager''] None True 300) (\<lambda>r.
     returnM (gc_lines_of (stdout r))))"

definition some_line :: "string \<Rightarrow> string list \<Rightarrow> json" where
  "some_line p lines = JBool (\<exists>line \<in> set lines. contains line p)"

definition gc_phase :: "json \<Rightarrow> json \<Rightarrow> int \<times> int \<times> int \<Rightarrow> ('w, 'g, unit) prog" where
  "gc_phase supported pull_waiting = (\<lambda>(capacity, used, required).
    (bindM (image_wait (\<lambda>r. r \<noteq> None \<and> r \<noteq> Some []) gc_evaluated 180) (\<lambda>found.
     let gc_lines = (case found of None \<Rightarrow> [] | Some lines \<Rightarrow> lines) in
     bindM crictl_images (\<lambda>after.
     thenM (image_save ''images-after'' after) (
     thenM (image_save ''kubelet-gc-lines'' (JList (map JStr gc_lines))) (
     bindM (liftE (alpine_present after)) (\<lambda>in_use_retained.
     thenM (if in_use_retained then returnM ()
        else raiseM (AssertionError ''the alpine image a container uses was collected'')) (
     image_save ''result'' (JDict [(''image_pull_backoff'', pull_waiting), (''image_fs_capacity_bytes'', JInt capacity),
         (''image_fs_used_bytes'', JInt used), (''unused_image_bytes'', JInt required), (''image_gc_evaluated'', JBool True),
         (''low_threshold_reached'', some_line ''Image garbage collection succeeded'' gc_lines),
         (''partial_unused_image_eviction_observed'', some_line ''image_gc_manager.go:528'' gc_lines),
         (''in_use_image_retained'', JBool True), (''node_images'', after), (''node_summary'', supported)])))))))))"

definition image_run :: "string \<Rightarrow> ('w, 'g, unit) prog" where
  "image_run chunk =
    (bindM image_prepare (\<lambda>supported.
     bindM pull_phase (\<lambda>pull_waiting.
     bindM measure_phase (\<lambda>sizes.
     thenM (load_phase chunk (snd (snd sizes))) (
     thenM (gc_phase supported pull_waiting sizes) (
     thenM (icmd [''delete'', ''namespace'', IMAGE_NS, ''--wait=true'']) (
     py_print ''PASS'')))))))"


section \<open>The interfaces it implements\<close>

interpretation image_poll: poller image_wait 2000 not_converged
  by unfold_locales (simp_all add: image_wait_def poll_def poll_round_def)

interpretation image_k: pinned_kubectl "\<lambda>args data check. image_k args data check timeout"
    IMAGE_KUBECTL "\<lambda>_. IMAGE_CTX" "Some timeout" command_failed
  for timeout
  by unfold_locales (simp add: image_k_def image_command_def)

lemmas image_defs = apply_obj_def image_get_def node_name_def node_stats_def crictl_images_def image_prepare_def
  pull_failed_def pull_phase_def measure_phase_def load_phase_def gc_evaluated_def gc_phase_def image_save_def
  image_command_def

lemma image_base_emits [emits_intros]:
  assumes "\<And>r. P (Ran [KIND os, ''load'', ''docker-image'', ''article-unused:1'', ''--name'', ''article-image''] None r)"
  shows "emits os P kind_load"
proof -
  have "emits os P (image_command
      [KIND os, ''load'', ''docker-image'', ''article-unused:1'', ''--name'', ''article-image''] None True 900)"
    unfolding image_command_def using assms by (intro emits_intros)
  then show ?thesis unfolding emits_def kind_load_def .
qed

lemmas image_emits [emits_intros] = image_poll.wait_emits image_k.k_emits

lemmas image_wp [wp_intros] = image_poll.wait_wp image_k.k_wp

lemma write_blob_emits [emits_intros]:
  assumes "P (Wrote (build_dir @ ''/blob'') [])" and "\<And>x. P (Appended (build_dir @ ''/blob'') x)"
  shows "emits os P (write_blob chunk n)"
  unfolding write_blob_def blob_round_def Let_def by (intro emits_intros; simp add: assms)

text \<open>
  No command of the experiment leaves its own cluster: whatever the environment and however the run
  ends, every process is kubectl with \<^verbatim>\<open>--context kind-article-image\<close>, \<^verbatim>\<open>docker\<close>, or the \<^verbatim>\<open>kind\<close> of the environment.
\<close>

lemma image_pinned: "emits os (on_context [''docker'', KIND os] ''kind-article-image'') (image_run chunk)"
  unfolding image_run_def image_defs
  by (intro emits_intros; simp add: on_context_tool IMAGE_CTX_def)


section \<open>Termination\<close>

lemmas image_runs [runs_intros] = image_poll.wait_runs image_k.k_runs

lemma kind_load_runs [runs_intros]:
  assumes "clock_ok os now"
  shows "runs os now kind_load"
proof -
  have "runs os now (image_command
      [KIND os, ''load'', ''docker-image'', ''article-unused:1'', ''--name'', ''article-image''] None True 900)"
    unfolding image_command_def using assms by (intro runs_intros)
  then show ?thesis unfolding runs_def kind_load_def .
qed

lemma blob_round_shrinks:
  assumes "chunk \<noteq> []" and "blob_round chunk n os s = Some (Inr (Inl m), s')"
  shows "nat \<bar>m\<bar> < nat \<bar>n\<bar>"
proof -
  from assms(1) have "0 < int (length chunk)" by simp
  moreover from assms(2) have "n \<noteq> 0" "m = n - min (int (length chunk)) n"
    by (auto simp: blob_round_def Let_def returnM_def thenM_def elim!: bindM_InrE split: if_splits)
  ultimately show ?thesis by (auto simp: min_def)
qed

lemma write_blob_runs [runs_intros]:
  assumes "clock_ok os now" and "chunk \<noteq> []"
  shows "runs os now (write_blob chunk n)"
  unfolding write_blob_def
proof (intro runs_thenM runs_loopS [where \<mu> = "\<lambda>n _. nat \<bar>n\<bar>"] blob_round_shrinks [OF assms(2)])
  show "runs os now (write_text (build_dir @ ''/blob'') [])" using assms(1) by (rule runs_prims)
  show "runs os now (blob_round chunk m)" for m
    unfolding blob_round_def using assms(1) by (intro runs_intros)
qed

lemma image_run_runs:
  assumes "clock_ok os now" and "length chunk = 1024 * 1024"
  shows "runs os now (image_run chunk)"
proof -
  from assms(2) have "chunk \<noteq> []" by auto
  then show ?thesis unfolding image_run_def image_defs using assms(1) by (intro runs_intros; simp)
qed


section \<open>The size of the unused image\<close>

lemma blob_size_div: "blob_size capacity used =
    (max (512 * 1024 * 1024) (capacity div 100 - used + 256 * 1024 * 1024) + 66060288) div 67108864 * 67108864"
  by (simp add: blob_size_def)

lemma blob_size_least: "512 * 1024 * 1024 \<le> blob_size capacity used"
proof -
  let ?r = "max (512 * 1024 * 1024) (capacity div 100 - used + 256 * 1024 * 1024)"
  have "(536870912 + 66060288) div 67108864 \<le> (?r + 66060288) div 67108864" by (intro zdiv_mono1) simp_all
  then show ?thesis unfolding blob_size_div by simp
qed

text \<open>
  C19: the size of the image to build is a multiple of 64 MiB, at least 512 MiB, less than 64 MiB above
  what the threshold requires, and never a whole MiB short of it. The rounding adds 63 MiB and not 64 MiB
  less one byte, so it can fall short by less than 1 MiB: for a disk of 26843545700 bytes, none of them
  used, 536870913 bytes are required and the size is 536870912.
\<close>

theorem blob_size_bounds:
  "(let required = max (512 * 1024 * 1024) (capacity div 100 - used + 256 * 1024 * 1024) in
     512 * 1024 * 1024 \<le> blob_size capacity used \<and> 64 * 1024 * 1024 dvd blob_size capacity used \<and>
     required - 1024 * 1024 < blob_size capacity used \<and> blob_size capacity used \<le> required + 63 * 1024 * 1024) \<and>
   (26843545700 div 100 - 0 + 256 * 1024 * 1024 = (536870913 :: int) \<and> blob_size 26843545700 0 = 536870912)"
proof -
  define r where "r = max (512 * 1024 * 1024) (capacity div 100 - used + 256 * 1024 * 1024)"
  have b: "blob_size capacity used = (r + 66060288) div 67108864 * 67108864"
    by (simp add: blob_size_div r_def)
  have "(r + 66060288) div 67108864 * 67108864 = r + 66060288 - (r + 66060288) mod 67108864"
    by (simp add: minus_mod_eq_div_mult)
  moreover have "0 \<le> (r + 66060288) mod 67108864" "(r + 66060288) mod 67108864 < 67108864" by simp_all
  ultimately show ?thesis
    using blob_size_least [of capacity used] unfolding r_def [symmetric] b by (simp add: Let_def blob_size_def)
qed

fun appended_bytes :: "event \<Rightarrow> int" where
  "appended_bytes (Appended p x) = (if p = build_dir @ ''/blob'' then int (length x) else 0)"
| "appended_bytes e = 0"

definition blob_bytes :: "event list \<Rightarrow> int" where
  "blob_bytes es = sum_list (map appended_bytes es)"

lemma blob_bytes_simps [simp]:
  "blob_bytes [] = 0" "blob_bytes (e # es) = appended_bytes e + blob_bytes es"
  "blob_bytes (es @ fs) = blob_bytes es + blob_bytes fs"
  by (simp_all add: blob_bytes_def)

lemma blob_bytes_0: "list_all (\<lambda>e. appended_bytes e = 0) es \<Longrightarrow> blob_bytes es = 0"
  by (induction es) auto

lemma write_blob_wp:
  assumes "0 \<le> n" and "\<And>fs. blob_bytes fs = n \<Longrightarrow> Q () (es @ fs)"
  shows "wp os (write_blob chunk n) Q es"
  unfolding write_blob_def
proof (intro wp_intros wp_loopS [where I = "\<lambda>m gs. 0 \<le> m \<and> (\<exists>fs. gs = es @ fs \<and> blob_bytes fs + m = n)"])
  show "0 \<le> n \<and> (\<exists>fs. es @ [Wrote (build_dir @ ''/blob'') []] = es @ fs \<and> blob_bytes fs + n = n)"
    using assms(1) by simp
next
  fix m gs
  assume m: "0 \<le> m \<and> (\<exists>fs. gs = es @ fs \<and> blob_bytes fs + m = n)"
  show "wp os (blob_round chunk m) (\<lambda>r gs. case r of
      Inl m \<Rightarrow> 0 \<le> m \<and> (\<exists>fs. gs = es @ fs \<and> blob_bytes fs + m = n) | Inr v \<Rightarrow> Q v gs) gs"
    unfolding blob_round_def
    by (intro wp_intros; use m assms(2) in \<open>auto simp: slice_to_def min_def\<close>)
qed

text \<open>An answer of the cluster that reports the size and the use of the image file system.\<close>

definition image_fs_of :: "string \<Rightarrow> exn + int \<times> int" where
  "image_fs_of t =
     bindE (loads t) (\<lambda>stats.
     bindE (jpath [Sub ''node'', Sub ''runtime'', Sub ''imageFs''] stats) (\<lambda>fs.
     bindE (bindE (jsub fs ''capacityBytes'') jint) (\<lambda>capacity.
     bindE (bindE (jsub fs ''usedBytes'') jint) (\<lambda>used. Inr (capacity, used)))))"

definition saw_image_fs :: "int \<Rightarrow> int \<Rightarrow> event \<Rightarrow> bool" where
  "saw_image_fs capacity used e = (case e of
     Ran args i (Inr r) \<Rightarrow> image_fs_of (stdout r) = Inr (capacity, used) | _ \<Rightarrow> False)"

lemma measure_phase_wp:
  assumes "\<And>capacity used fs. blob_size capacity used \<le> 6 * 1024 * 1024 * 1024 \<Longrightarrow>
      list_ex (saw_image_fs capacity used) fs \<Longrightarrow> blob_bytes fs = 0 \<Longrightarrow>
      Q (capacity, used, blob_size capacity used) (es @ fs)"
  shows "wp os measure_phase Q es"
  unfolding measure_phase_def node_stats_def node_name_def crictl_images_def image_save_def image_command_def
  by (intro wp_intros)
     (simp only: append_assoc append_Cons append_Nil split_paired_all, rule assms,
      simp_all add: saw_image_fs_def image_fs_of_def)

text \<open>
  The answers a run must have seen. \<open>saw_alpine\<close> is a listing of the node's images with the image in use; \<open>saw_id\<close> and \<open>saw_loaded\<close> are
  the identity of the image built and a listing that has it.
\<close>

definition saw_backoff :: "event \<Rightarrow> bool" where
  "saw_backoff = answered [''get'', ''pod'', ''pull-fail'', ''-n'', ''article-image'', ''-o'', ''json''] (\<lambda>r.
     \<exists>waiting. bindE (bindE (loads (stdout r)) container_statuses) backoff_waiting = Inr waiting \<and> truth waiting)"

definition saw_alpine :: "event \<Rightarrow> bool" where
  "saw_alpine = replied [''docker'', ''exec'', ''article-image-control-plane'', ''crictl'', ''images'',
      ''-o'', ''json''] (answered_json alpine_present)"

definition saw_id :: "json \<Rightarrow> event \<Rightarrow> bool" where
  "saw_id image_id = replied [''docker'', ''image'', ''inspect'', ''--format'', (''{{json .Id}}''), ''article-unused:1'']
     (\<lambda>r. returncode r = 0 \<and> loads (stdout r) = Inr image_id)"

definition saw_loaded :: "json \<Rightarrow> event \<Rightarrow> bool" where
  "saw_loaded image_id = replied [''docker'', ''exec'', ''article-image-control-plane'', ''crictl'',
      ''images'', ''-o'', ''json''] (answered_json (any_image (has_id image_id)))"

definition saw_restart :: "event \<Rightarrow> bool" where
  "saw_restart = replied [''docker'', ''exec'', ''article-image-control-plane'', ''systemctl'',
      ''restart'', ''kubelet''] (\<lambda>r. returncode r = 0)"

definition saw_gc :: "event \<Rightarrow> bool" where
  "saw_gc = replied [''docker'', ''exec'', ''article-image-control-plane'', ''journalctl'', ''-u'',
      ''kubelet'', ''-n'', ''400'', ''--no-pager'']
     (\<lambda>r. \<exists>line \<in> set (splitlines (stdout r)). contains line ''Disk usage on image filesystem'')"

definition image_story :: "json \<Rightarrow> (event \<Rightarrow> bool) list" where
  "image_story image_id = [saw_backoff, saw_alpine, saw_id image_id, saw_loaded image_id, saw_restart, saw_gc, saw_alpine]"

lemma image_appends:
  "emits os (\<lambda>_. True) image_prepare" "emits os (\<lambda>_. True) (apply_obj obj)" "emits os (\<lambda>_. True) pull_failed"
  "emits os (\<lambda>_. True) gc_evaluated" "emits os (\<lambda>_. True) (image_save name v)" "emits os (\<lambda>_. True) (image_get kind name)"
  "emits os (\<lambda>_. True) (write_blob chunk n)" "emits os (\<lambda>_. True) kind_load"
  unfolding image_defs by (intro emits_intros; simp)+

text \<open>An answer is matched where it stands; what comes before it is skipped.\<close>

lemma saw_imageI:
  "returncode r = 0 \<Longrightarrow> loads (stdout r) = Inr v \<Longrightarrow> alpine_present v = Inr True \<Longrightarrow>
     saw_alpine (Ran [''docker'', ''exec'', ''article-image-control-plane'', ''crictl'', ''images'',
         ''-o'', ''json''] i (Inr r))"
  "returncode r = 0 \<Longrightarrow> loads (stdout r) = Inr image_id \<Longrightarrow>
     saw_id image_id (Ran [''docker'', ''image'', ''inspect'', ''--format'', (''{{json .Id}}''), ''article-unused:1''] i (Inr r))"
  "returncode r = 0 \<Longrightarrow> loads (stdout r) = Inr v \<Longrightarrow> any_image (has_id image_id) v = Inr True \<Longrightarrow>
     saw_loaded image_id (Ran [''docker'', ''exec'', ''article-image-control-plane'', ''crictl'',
         ''images'', ''-o'', ''json''] i (Inr r))"
  "returncode r = 0 \<Longrightarrow> saw_restart (Ran [''docker'', ''exec'',
      ''article-image-control-plane'', ''systemctl'', ''restart'', ''kubelet''] i (Inr r))"
  "line \<in> set (splitlines (stdout r)) \<Longrightarrow> contains line ''Disk usage on image filesystem'' \<Longrightarrow>
     saw_gc (Ran [''docker'', ''exec'', ''article-image-control-plane'', ''journalctl'', ''-u'',
         ''kubelet'', ''-n'', ''400'', ''--no-pager''] i (Inr r))"
  unfolding saw_alpine_def saw_id_def saw_loaded_def saw_restart_def saw_gc_def by (auto simp: answered_json_def)

lemma in_order_steps:
  "in_order [] es" "p e \<Longrightarrow> in_order ps es \<Longrightarrow> in_order (p # ps) (e # es)"
  "in_order [p] fs \<Longrightarrow> in_order ps es \<Longrightarrow> in_order (p # ps) (fs @ es)"
  using in_order_append [of "[p]" fs ps es] by (auto simp: in_order_hit in_order_tl)

lemma pull_failed_yields: "yields os pull_failed (\<lambda>w fs. truth w \<longrightarrow> in_order [saw_backoff] fs)"
  unfolding pull_failed_def image_get_def
  by (intro yieldsI wp_intros) (auto simp: saw_backoff_def IMAGE_NS_def observed)

lemma pull_phase_yields: "yields os pull_phase (\<lambda>_ fs. in_order [saw_backoff] fs)"
  unfolding pull_phase_def
  by (intro yieldsI wp_intros impI image_appends(2) [THEN wp_frame] image_appends(3) wp_yields [OF pull_failed_yields]
      image_appends(5,6) [THEN wp_frame]; auto; blast intro: in_order_left in_order_right in_order_Cons)

lemma crictl_images_yields:
  "yields os crictl_images (\<lambda>v fs. \<exists>r. fs = [Ran [''docker'', ''exec'',
      ''article-image-control-plane'', ''crictl'', ''images'', ''-o'', ''json''] None (Inr r)] \<and>
     returncode r = 0 \<and> loads (stdout r) = Inr v)"
  unfolding crictl_images_def image_command_def by (intro yieldsI wp_intros) auto

lemma measure_phase_yields: "yields os measure_phase (\<lambda>_ fs. in_order [saw_alpine] fs)"
  unfolding measure_phase_def node_stats_def node_name_def image_save_def
  by (intro yieldsI wp_intros wp_yields [OF crictl_images_yields];
      auto simp: saw_alpine_def observed answered_json_def)

lemma load_phase_yields: "yields os (load_phase chunk n) (\<lambda>_ fs. \<exists>i. in_order [saw_id i, saw_loaded i, saw_restart] fs)"
  unfolding load_phase_def image_command_def image_save_def
  by (intro yieldsI wp_intros wp_yields [OF crictl_images_yields] image_appends(7,8) [THEN wp_frame];
      auto)
    (rule exI, (rule in_order_steps(1) | (rule in_order_steps(2), rule saw_imageI, assumption+) | rule in_order_left in_order_Cons)+)

lemma gc_evaluated_yields: "yields os gc_evaluated (\<lambda>r fs. r \<noteq> None \<and> r \<noteq> Some [] \<longrightarrow> in_order [saw_gc] fs)"
  unfolding gc_evaluated_def image_command_def
  by (intro yieldsI wp_intros; auto simp: gc_lines_of_def Let_def split: if_splits; blast intro: in_order_steps saw_imageI)

lemma gc_phase_yields: "yields os (gc_phase x y z) (\<lambda>_ fs. in_order [saw_gc, saw_alpine] fs)"
proof -
  obtain a b c where z: "z = (a, b, c)" by (cases z)
  show ?thesis
    unfolding gc_phase_def z prod.case
    by (intro yieldsI wp_intros impI image_appends(4) wp_yields [OF gc_evaluated_yields] image_appends(5) [THEN wp_frame]
        wp_yields [OF crictl_images_yields]; clarsimp; erule contrapos_np)
      (rule in_order_steps(1) | (rule in_order_steps(2), rule saw_imageI, assumption+) | (rule in_order_steps(3), blast)
        | rule in_order_left in_order_Cons)+
qed

lemma image_seenI:
  assumes "in_order [saw_backoff] es1" "in_order [saw_alpine] es2" "in_order [saw_id i, saw_loaded i, saw_restart] es3"
    "in_order [saw_gc, saw_alpine] es4"
  shows "in_order (image_story i) (es @ es1 @ es2 @ es3 @ es4 @ fs)"
  using in_order_append [OF assms(1) in_order_append [OF assms(2) in_order_append [OF assms(3) in_order_right [OF assms(4)]]]]
  by (simp add: image_story_def in_order_left)

text \<open>
  C21: \<^verbatim>\<open>PASS\<close> means that the run has seen, in this order: the Pod with the unknown image in \<^verbatim>\<open>ImagePullBackOff\<close>; a listing of the node's
  images with the image in use; the identity of the image it built, and a listing with that image; the restart of the kubelet succeed; the
  kubelet's log report the disk usage above the threshold; and, after that, a listing that still has the image in use.
\<close>

theorem image_pass_observed:
  assumes "image_run chunk os s = Some (Inr u, s')" and "trace s = []"
  shows "(\<exists>image_id. in_order (image_story image_id) (trace s')) \<and> last (trace s') = Printed ''PASS''"
proof -
  have "wp os (image_run chunk) (\<lambda>_ gs. (\<exists>i. in_order (image_story i) gs) \<and> last gs = Printed ''PASS'') (trace s)"
    unfolding image_run_def
    by (intro wp_intros image_appends(1) [THEN wp_frame] wp_yields [OF pull_phase_yields] wp_yields [OF measure_phase_yields]
        wp_yields [OF load_phase_yields] wp_yields [OF gc_phase_yields] conjI)
      (clarsimp, rule exI, rule in_order_left, rule image_seenI, assumption+, simp)
  from wpD [OF this assms(1)] show ?thesis .
qed

lemma image_no_bytes:
  "emits os (\<lambda>e. appended_bytes e = 0) pull_phase" "emits os (\<lambda>e. appended_bytes e = 0) image_prepare"
  "emits os (\<lambda>e. appended_bytes e = 0) (gc_phase x y z)"
  "emits os (\<lambda>e. appended_bytes e = 0) (image_save name v)" "emits os (\<lambda>e. appended_bytes e = 0) crictl_images"
  "emits os (\<lambda>e. appended_bytes e = 0) kind_load" "emits os (\<lambda>e. appended_bytes e = 0) (image_command args data check t)"
  unfolding image_defs by (intro emits_intros; simp)+

lemma load_phase_wp:
  assumes "0 \<le> n" and "\<And>fs. blob_bytes fs = n \<Longrightarrow> Q () (es @ fs)"
  shows "wp os (load_phase chunk n) Q es"
  unfolding load_phase_def
  by (intro wp_intros write_blob_wp [OF assms(1)] image_no_bytes(4-7) [THEN wp_emits];
      (simp only: append_assoc append_Cons append_Nil)?; (rule assms)?; simp add: blob_bytes_0)

text \<open>
  C20: the file the image is built from has exactly the size computed from the disk the cluster
  reported: after a \<^verbatim>\<open>PASS\<close> the bytes written to it are \<open>blob_size\<close> of a capacity and a use that one of the
  answers reported, from 512 MiB to 6 GiB.
\<close>

theorem image_blob_exact:
  assumes "image_run chunk os s = Some (Inr u, s')" and "trace s = []"
  shows "\<exists>capacity used. list_ex (saw_image_fs capacity used) (trace s') \<and>
    blob_bytes (trace s') = blob_size capacity used \<and> 512 * 1024 * 1024 \<le> blob_bytes (trace s') \<and>
    blob_bytes (trace s') \<le> 6 * 1024 * 1024 * 1024"
proof -
  let ?Q = "\<lambda>gs. \<exists>capacity used. list_ex (saw_image_fs capacity used) gs \<and>
    blob_bytes gs = blob_size capacity used \<and> 512 * 1024 * 1024 \<le> blob_bytes gs \<and>
    blob_bytes gs \<le> 6 * 1024 * 1024 * 1024"
  have least: "0 \<le> blob_size c d" for c d using blob_size_least [of c d] by simp
  have fits: "?Q gs" if "list_ex (saw_image_fs c d) gs" "blob_bytes gs = blob_size c d"
      "blob_size c d \<le> 6 * 1024 * 1024 * 1024" for gs c d
    using that blob_size_least [of c d] by auto
  have "wp os (image_run chunk) (\<lambda>_. ?Q) (trace s)"
    unfolding image_run_def
    by (intro wp_intros image_no_bytes(1,2,3) [THEN wp_emits] measure_phase_wp load_phase_wp;
        simp only: fst_conv snd_conv)
       (rule least, rule fits, simp only: list_ex_append, blast, simp_all add: assms(2) blob_bytes_0)
  from wpD [OF this assms(1)] show ?thesis .
qed


section \<open>A run of the experiment\<close>

definition demo_image_doc :: json where
  "demo_image_doc = JDict
     [(''items'', JList [JDict [(''metadata'', JDict [(''name'', JStr ''node'')])]]),
      (''status'', JDict [(''containerStatuses'', JList [JDict [(''state'', JDict [(''waiting'',
         JDict [(''reason'', JStr ''ImagePullBackOff'')])])]])]),
      (''images'', JList [JDict [(''repoTags'', JList [JStr ''alpine:3.20'']), (''id'', JStr ''sha256:1'')]]),
      (''node'', JDict [(''runtime'', JDict [(''imageFs'',
         JDict [(''capacityBytes'', JInt 1000), (''usedBytes'', JInt 10)])])])]"

definition demo_image :: "string list \<Rightarrow> nat \<Rightarrow> proc" where
  "demo_image args w =
     (if ''journalctl'' \<in> set args
      then \<lparr>returncode = 0, stdout = ''Disk usage on image filesystem is over the high threshold'', stderr = []\<rparr>
      else if ''inspect'' \<in> set args then printed 0 (JStr ''sha256:1'')
      else printed 0 demo_image_doc)"

lemma demo_image_facts [simp]:
  "wf_json demo_image_doc" "wf_json (JStr ''sha256:1'')" "blob_size 1000 10 = 536870912"
  "gc_lines_of ''Disk usage on image filesystem is over the high threshold'' =
     Some [''Disk usage on image filesystem is over the high threshold'']"
  by code_simp+

lemma image_command_succeeds [succeeds_intros]:
  "(check \<longrightarrow> returncode (answer args w) = 0) \<Longrightarrow>
     succeeds (demo_os answer) (image_command args data check t) w (answer args w) (Suc w)"
  unfolding image_command_def by (rule succeeds_intros)+

lemma image_k_succeeds [succeeds_intros]:
  "(check \<longrightarrow> returncode (answer (''kubectl'' # ''--context'' # ''kind-article-image'' # args) w) = 0) \<Longrightarrow>
     succeeds (demo_os answer) (image_k args data check t) w
       (answer (''kubectl'' # ''--context'' # ''kind-article-image'' # args) w) (Suc w)"
  by (rule image_k.k_succeeds) (simp_all add: IMAGE_KUBECTL_def IMAGE_CTX_def)

lemma image_wait_succeeds [succeeds_intros]:
  "0 < timeout \<Longrightarrow> succeeds (demo_os answer) fn w y w' \<Longrightarrow> ok y \<Longrightarrow>
     succeeds (demo_os answer) (image_wait ok fn timeout) w y w'"
  unfolding image_poll.wait_poll by (intro succeeds_poll) auto

lemma kind_load_succeeds [succeeds_intros]:
  "returncode (answer [''kind'', ''load'', ''docker-image'', ''article-unused:1'', ''--name'', ''article-image''] w) = 0 \<Longrightarrow>
     succeeds (demo_os answer) kind_load w
       (answer [''kind'', ''load'', ''docker-image'', ''article-unused:1'', ''--name'', ''article-image''] w) (Suc w)"
  using image_command_succeeds [of True answer "[''kind'', ''load'', ''docker-image'', ''article-unused:1'', ''--name'', ''article-image'']" w None 900]
  by (simp add: succeeds_def kind_load_def KIND_def)

lemma blob_loop_succeeds:
  assumes "chunk \<noteq> []"
  shows "succeeds (demo_os answer) (loopS (blob_round chunk) n) w () w"
proof (induction "nat \<bar>n\<bar>" arbitrary: n rule: less_induct)
  case less
  show ?case
  proof (cases "n = 0")
    case True
    then show ?thesis by (intro succeeds_loopS) (simp add: blob_round_def succeeds_silent)
  next
    case False
    let ?m = "n - min (int (length chunk)) n"
    have "0 < int (length chunk)" using assms by simp
    then have "nat \<bar>?m\<bar> < nat \<bar>n\<bar>" using False by (auto simp: min_def)
    note less [OF this]
    moreover have "succeeds (demo_os answer) (blob_round chunk n) w (Inl ?m) w"
      using False by (simp add: blob_round_def Let_def) (rule succeeds_intros)+
    ultimately show ?thesis by (fastforce simp: succeeds_def loopS_unfold [of _ n])
  qed
qed

lemma write_blob_succeeds [succeeds_intros]:
  "chunk \<noteq> [] \<Longrightarrow> succeeds (demo_os answer) (write_blob chunk n) w () w"
  unfolding write_blob_def by (rule succeeds_intros blob_loop_succeeds)+

lemmas demo_image_simps = demo_image_def demo_image_doc_def image_pod_def IMAGE_NS_def list_index_def Let_def
  container_statuses_def alpine_present_def image_present_def any_image_def has_tag_def has_id_def

lemma demo_image_run: "chunk \<noteq> [] \<Longrightarrow> \<exists>w'. succeeds (demo_os demo_image) (image_run chunk) 0 () w'"
  unfolding image_run_def apply_obj_def image_get_def node_name_def node_stats_def crictl_images_def image_prepare_def
    pull_failed_def pull_phase_def measure_phase_def load_phase_def gc_evaluated_def gc_phase_def image_save_def Let_def prod.case
  by (rule exI, (rule succeeds_intros
      | (rule succeeds_if_False, (simp add: demo_image_simps; fail)) | (rule succeeds_if_True, (simp add: demo_image_simps; fail))
      | (simp add: demo_image_simps; fail) | (simp only: prod.case, rule succeeds_intros))+)

definition demo_chunk :: string where
  "demo_chunk = replicate (1024 * 1024) CHR ''x''"

lemma demo_chunk_length: "length demo_chunk = 1024 * 1024"
  unfolding demo_chunk_def by (rule length_replicate)

lemma demo_chunk_run: obtains s' where "image_run demo_chunk (demo_os demo_image) (demo_start ()) = Some (Inr (), s')"
proof -
  have "demo_chunk \<noteq> []" using demo_chunk_length by auto
  from demo_image_run [OF this] that show ?thesis by (rule demo_succeeds)
qed

theorem image_pass_observed_witness:
  "\<exists>s' image_id. image_run demo_chunk (demo_os demo_image) (demo_start ()) = Some (Inr (), s') \<and>
     in_order (image_story image_id) (trace s') \<and> last (trace s') = Printed ''PASS''"
proof -
  obtain s' where run: "image_run demo_chunk (demo_os demo_image) (demo_start ()) = Some (Inr (), s')"
    by (rule demo_chunk_run)
  from image_pass_observed [OF this] show ?thesis using run by auto
qed

theorem image_blob_exact_witness:
  "\<exists>s'. image_run demo_chunk (demo_os demo_image) (demo_start ()) = Some (Inr (), s') \<and>
     512 * 1024 * 1024 \<le> blob_bytes (trace s')"
proof -
  obtain s' where run: "image_run demo_chunk (demo_os demo_image) (demo_start ()) = Some (Inr (), s')"
    by (rule demo_chunk_run)
  from image_blob_exact [OF this] show ?thesis using run by auto
qed

end
