(* ===== verification/HpaLab.thy ===== *)
theory HpaLab
  imports Demo Invariant PyNum
begin

text \<open>
  \<^verbatim>\<open>hpa/advanced/run.py\<close>, lines 17 to 280: the harness of the autoscaling experiments. The module
  variables the functions change or share (\<^verbatim>\<open>STAGE\<close>, \<^verbatim>\<open>OUT\<close>, \<^verbatim>\<open>PROXY_PORT\<close>) are the program's global state,
  with the list of log processes that the scenario \<^verbatim>\<open>real\<close> keeps for its clean-up.
\<close>

section \<open>State and runner\<close>

record hpa =
  STAGE :: string
  OUT :: string
  PROXY_PORT :: int
  log_procs :: "nat list"                        \<comment> \<open>the variable \<^verbatim>\<open>logs\<close> of \<^verbatim>\<open>real\<close>\<close>

type_synonym ('w, 'a) hprog = "('w, hpa, 'a) prog"

definition HPA_K :: "string list" where
  "HPA_K = [''kubectl'', ''--context'', ''kind-hpa-lab'', ''-n'', ''hpa-demo'']"

definition hpa_proc :: "int option \<Rightarrow> (proc \<Rightarrow> exn) \<Rightarrow> string list \<Rightarrow> string option \<Rightarrow> bool \<Rightarrow> ('w, proc) hprog" where
  "hpa_proc timeout fail args data check =
     bindM (run_process (HPA_K @ args) data timeout) (checked check fail)"

definition hpa_failed :: "proc \<Rightarrow> exn" where
  "hpa_failed r = RuntimeError (stderr r)"

definition hpa_k :: "string list \<Rightarrow> bool \<Rightarrow> ('w, string) hprog" where
  "hpa_k args check = bindM (hpa_proc (Some 210) hpa_failed args None check) (\<lambda>r. returnM (stdout r))"

abbreviation hk :: "string list \<Rightarrow> ('w, string) hprog" where
  "hk args \<equiv> hpa_k args True"

text \<open>\<^verbatim>\<open>subprocess.run(K + ["apply", "-f", "-"], input=json.dumps(v), check=True)\<close>.\<close>

definition hpa_apply_json :: "json \<Rightarrow> ('w, unit) hprog" where
  "hpa_apply_json v =
     ign (hpa_proc None (\<lambda>r. CalledProcessError (returncode r)) [''apply'', ''-f'', ''-''] (Some (dumps v)) True)"

definition hpa_get :: "string \<Rightarrow> string \<Rightarrow> ('w, json) hprog" where
  "hpa_get kind name = bindM (hk [''get'', kind, name, ''-o'', ''json'']) py_loads"

definition hpa_apply :: "string \<Rightarrow> ('w, unit) hprog" where
  "hpa_apply name = ign (hk [''apply'', ''-f'', ''hpa/advanced/'' @ name])"

definition hpa_patch :: "string \<Rightarrow> string \<Rightarrow> json \<Rightarrow> ('w, unit) hprog" where
  "hpa_patch kind name v = ign (hk [''patch'', kind, name, ''--type=merge'', ''-p'', dumps v])"

definition scale :: "string \<Rightarrow> int \<Rightarrow> ('w, unit) hprog" where
  "scale name n = ign (hk [''scale'', ''deployment'', name, ''--replicas='' @ int_str n])"

definition raw :: "string \<Rightarrow> ('w, json) hprog" where
  "raw path = catchM (bindM (hk [''get'', ''--raw'', path]) py_loads)
     (on_RuntimeError (\<lambda>e. returnM (JDict [(''error'', JStr e)])))"

definition metric :: "('w, json) hprog" where
  "metric = raw ''/apis/custom.metrics.k8s.io/v1beta1/namespaces/hpa-demo/services/queue/queue_depth''"

definition now_utc :: "('w, string) hprog" where
  "now_utc = wallclock []"


section \<open>Evidence\<close>

definition emit :: "(string \<times> json) list \<Rightarrow> ('w, json) hprog" where
  "emit row =
    (bindM now_utc (\<lambda>t.
     bindM getG (\<lambda>g.
     let r = JDict (dict_update [(''time'', JStr t), (''stage'', JStr (STAGE g))] row) in
     thenM (append_text (OUT g) (dumps r @ [CHR 0x0A])) (
     returnM r))))"

definition stage :: "string \<Rightarrow> ('w, unit) hprog" where
  "stage name =
    (thenM (modG (\<lambda>g. g\<lparr>STAGE := name\<rparr>)) (
     bindM now_utc (\<lambda>t.
     thenM (py_print (t @ '' '' @ name)) (
     ign (emit [(''action'', JStr ''start'')])))))"

definition service_of :: "int \<Rightarrow> exn + string" where
  "service_of port =
     (if port = 18080 then Inr ''queue:8080'' else if port = 18081 then Inr ''broker:8080''
      else if port = 19090 then Inr ''prometheus:9090'' else Inl (KeyError (int_str port)))"

definition http :: "int \<Rightarrow> string \<Rightarrow> bool \<Rightarrow> ('w, json) hprog" where
  "http port path post =
    (bindM (liftE (service_of port)) (\<lambda>service.
     bindM getG (\<lambda>g.
     bindM (urlopen (if post then ''POST'' else ''GET'') (''http://127.0.0.1:'' @ int_str (PROXY_PORT g)
           @ ''/api/v1/namespaces/hpa-demo/services/'' @ service @ ''/proxy'' @ path) 10) (\<lambda>(status, h).
     bindM (read_all h) (\<lambda>b.
     returnM (case loads b of Inl e \<Rightarrow> JStr b | Inr v \<Rightarrow> v))))))"

definition gauge :: "int \<Rightarrow> ('w, unit) hprog" where
  "gauge n =
    (bindM (http 18080 (''/set?value='' @ int_str n) True) (\<lambda>resp.
     ign (emit [(''action'', JStr ''set_gauge''), (''value'', JInt n), (''response'', resp)])))"

definition pod_row :: "json \<Rightarrow> exn + json" where
  "pod_row p =
     bindE (jpath [Sub ''metadata'', Sub ''name''] p) (\<lambda>name.
     bindE (jpath [Sub ''metadata'', get0 ''deletionTimestamp''] p) (\<lambda>deleted.
     bindE (jpath [Sub ''status'', Sub ''phase''] p) (\<lambda>phase.
     bindE (jpath [Sub ''status'', Get ''conditions'' (JList [])] p) (\<lambda>conditions.
     bindE (jpath [Sub ''status'', Get ''containerStatuses'' (JList [])] p) (\<lambda>containers.
       Inr (JDict [(''name'', name), (''deletionTimestamp'', deleted), (''phase'', phase),
         (''conditions'', conditions), (''containers'', containers)]))))))"

definition snapshot_row :: "string \<Rightarrow> json \<Rightarrow> json \<Rightarrow> json list \<Rightarrow> exn + (string \<times> json) list" where
  "snapshot_row tgt h d pods =
     bindE (jget h ''spec'' JNull) (\<lambda>spec.
     bindE (jget h ''status'' JNull) (\<lambda>status.
     bindE (jpath [Get ''spec'' emptyD, get0 ''replicas''] d) (\<lambda>requested.
     bindE (jget d ''status'' JNull) (\<lambda>deployment.
     bindE (mapE pod_row pods) (\<lambda>rows.
       Inr [(''target'', JStr tgt), (''hpaSpec'', spec), (''hpa'', status), (''requested'', requested),
         (''deployment'', deployment), (''pods'', JList rows)])))))"

definition queue_row :: "json \<Rightarrow> exn + json" where
  "queue_row b = bindE (mapE (\<lambda>x. bindE (jsub b x) (\<lambda>v. Inr (x, v)))
     [''accepted'', ''pending'', ''inflight'', ''completed'', ''retries'']) (\<lambda>d. Inr (JDict d))"

definition pods_labelled :: "string \<Rightarrow> ('w, json list) hprog" where
  "pods_labelled tgt =
    (bindM (hk [''get'', ''pods'', ''-l'', ''app='' @ tgt, ''-o'', ''json'']) (\<lambda>t.
     bindM (py_loads t) (\<lambda>doc.
     liftE (bindE (jsub doc ''items'') jiter))))"

definition snapshot :: "string \<Rightarrow> bool \<Rightarrow> ('w, json) hprog" where
  "snapshot tgt broker =
    (bindM (if tgt \<noteq> [] then hpa_get ''hpa'' tgt else returnM emptyD) (\<lambda>h.
     bindM (if tgt \<noteq> [] then hpa_get ''deployment'' tgt else returnM emptyD) (\<lambda>d.
     bindM (if tgt \<noteq> [] then pods_labelled tgt else returnM []) (\<lambda>pods.
     bindM (liftE (snapshot_row tgt h d pods)) (\<lambda>row.
     (if broker
        then bindM (http 18081 ''/stats'' False) (\<lambda>b.
             bindM (liftE (queue_row b)) (\<lambda>q. emit (dict_set row ''queue'' q)))
        else emit row))))))"


section \<open>Waiting\<close>

definition wait_round :: "(json \<Rightarrow> exn + bool) \<Rightarrow> string \<Rightarrow> bool \<Rightarrow> int \<Rightarrow> ('w, json option) hprog" where
  "wait_round predicate tgt broker deadline =
    (bindM monotonic (\<lambda>t.
     (if t < deadline
        then bindM (snapshot tgt broker) (\<lambda>r.
             bindM (liftE (predicate r)) (\<lambda>b.
               if b then returnM (Some r) else thenM (sleep 5000) (returnM None)))
        else bindM getG (\<lambda>g. raiseM (RuntimeError (''Timeout: '' @ STAGE g))))))"

definition wait_for :: "(json \<Rightarrow> exn + bool) \<Rightarrow> string \<Rightarrow> int \<Rightarrow> bool \<Rightarrow> ('w, json) hprog" where
  "wait_for predicate tgt timeout broker =
     bindM monotonic (\<lambda>t0. loopM (wait_round predicate tgt broker (t0 + 1000 * timeout)))"

text \<open>\<^verbatim>\<open>any(c["type"] == "ScalingActive" and c["status"] == st for c in r["hpa"].get("conditions", []))\<close>.\<close>

definition scaling_active :: "string \<Rightarrow> json \<Rightarrow> exn + bool" where
  "scaling_active st r =
     bindE (bindE (jpath [Sub ''hpa'', Get ''conditions'' (JList [])] r) jiter)
       (anyE (\<lambda>c. andE (eqE (jsub c ''type'') (JStr ''ScalingActive'')) (eqE (jsub c ''status'') (JStr st))))"

definition requested_is :: "int \<Rightarrow> json \<Rightarrow> exn + bool" where
  "requested_is n r = eqE (jsub r ''requested'') (JInt n)"

definition steady_ok :: "int \<Rightarrow> json \<Rightarrow> exn + bool" where
  "steady_ok n r =
     andE (requested_is n r)
     (andE (eqE (jpath [Sub ''deployment'', Get ''readyReplicas'' (JInt 0)] r) (JInt n))
     (andE (eqE (jpath [Sub ''deployment'', Get ''replicas'' (JInt 0)] r) (JInt n))
     (andE (eqE (jpath [Sub ''deployment'', Get ''terminatingReplicas'' (JInt 0)] r) (JInt 0))
     (andE (eqE (jpath [Sub ''hpa'', get0 ''desiredReplicas''] r) (JInt n))
           (scaling_active ''True'' r)))))"

definition steady :: "int \<Rightarrow> string \<Rightarrow> bool \<Rightarrow> ('w, json) hprog" where
  "steady n tgt broker = wait_for (steady_ok n) tgt 240 broker"

definition hold_round :: "string \<Rightarrow> bool \<Rightarrow> int \<Rightarrow> json list \<Rightarrow> ('w, json list + json list) hprog" where
  "hold_round tgt broker deadline rows =
    (bindM monotonic (\<lambda>t.
     (if t < deadline
        then bindM (snapshot tgt broker) (\<lambda>r. thenM (sleep 5000) (returnM (Inl (rows @ [r]))))
        else returnM (Inr rows))))"

definition hold :: "int \<Rightarrow> string \<Rightarrow> bool \<Rightarrow> ('w, json list) hprog" where
  "hold seconds tgt broker =
     bindM monotonic (\<lambda>t0. loopS (hold_round tgt broker (t0 + 1000 * seconds)) [])"

definition ready :: "string \<Rightarrow> ('w, unit) hprog" where
  "ready name = ign (hk [''rollout'', ''status'', ''deployment/'' @ name, ''--timeout=180s''])"

definition reset_worker :: "('w, unit) hprog" where
  "reset_worker =
    (thenM (hpa_apply ''../lab/hpa-queue.yaml'') (
     thenM (gauge 0) (
     ign (steady 1 ''worker'' False))))"


section \<open>The proxy\<close>

definition proxy_probe :: "nat \<Rightarrow> ('w, unit option) hprog" where
  "proxy_probe p =
    (bindM (poll_process p) (\<lambda>code.
     bindM getG (\<lambda>g.
     (if code \<noteq> None then raiseM (RuntimeError ''kubectl proxy failed'')
        else catchM (thenM (connect (PROXY_PORT g)) (returnM (Some ())))
          (on_OSError (thenM (sleep 200) (returnM None)))))))"

definition hpa_stop :: "nat \<Rightarrow> ('w, unit) hprog" where
  "hpa_stop p = thenM (terminate p)
     (catchM (wait_process p (Some 5))
       (on_TimeoutExpired (thenM (kill_process p) (wait_process p None))))"

text \<open>\<^verbatim>\<open>with forwards(): body\<close>.\<close>

definition forwards :: "('w, 'a) hprog \<Rightarrow> ('w, 'a) hprog" where
  "forwards body =
     bindM getG (\<lambda>g.
     bindM (popen (HPA_K @ [''proxy'', ''--port='' @ int_str (PROXY_PORT g)])) (\<lambda>p.
       finallyM (thenM (repeatM 60 (proxy_probe p) (raiseM (RuntimeError ''kubectl proxy timeout''))) body) (hpa_stop p)))"


section \<open>Which events the operations add\<close>

lemma hpa_proc_emits [emits_intros]:
  "(\<And>r. P (Ran (HPA_K @ args) data r)) \<Longrightarrow> emits os P (hpa_proc t fail args data check)"
  "(\<And>r. P (Ran (HPA_K @ args) None r)) \<Longrightarrow> emits os P (hpa_k args check)"
  unfolding hpa_k_def hpa_proc_def by (intro emits_intros; simp)+

lemma hpa_proc_wp [wp_intros]:
  assumes "\<And>r. (check \<Longrightarrow> returncode r = 0) \<Longrightarrow> Q (stdout r) (es @ [Ran (HPA_K @ args) None (Inr r)])"
  shows "wp os (hpa_k args check) Q es"
  unfolding hpa_k_def hpa_proc_def by (intro wp_intros) (rule assms, simp)

lemma hk_trace:
  assumes "ign (hk args) os s = Some (r, s')"
  shows "\<exists>p. trace s' = trace s @ [Ran (HPA_K @ args) None p] \<and> (r = Inr () \<longleftrightarrow> (\<exists>q. p = Inr q \<and> returncode q = 0))"
  using assms unfolding ign_def hpa_k_def hpa_proc_def run_process_def checked_def
  by (auto simp: returnM_def raiseM_def elim!: bindM_SomeE prim_SomeE split: if_splits)

lemma hpa_proc_runs [runs_intros]:
  "clock_ok os now \<Longrightarrow> runs os now (hpa_proc t fail args data check)"
  "clock_ok os now \<Longrightarrow> runs os now (hpa_k args check)"
  unfolding hpa_k_def hpa_proc_def by (intro runs_intros; assumption)+

text \<open>
  The contract of the harness towards the scenarios, for predicates on events that every read, write,
  request and kubectl command satisfies but \<^verbatim>\<open>scale\<close>, which the scenarios inject failures with.
\<close>

locale hpa_events =
  fixes P :: "event \<Rightarrow> bool"
  assumes ran: "\<And>args d r. args \<noteq> [] \<Longrightarrow> hd args \<noteq> ''scale'' \<Longrightarrow> P (Ran (HPA_K @ args) d r)"
    and others: "\<And>r. P (Clock r)" "\<And>d. P (Slept d)" "\<And>p x. P (Wrote p x)" "\<And>p x. P (Appended p x)"
      "\<And>x. P (Printed x)" "\<And>m u r. P (Opened m u r)" "\<And>h r. P (ReadAll h r)" "\<And>f r. P (WallClock f r)"
begin

lemma emits_base:
  "emits os P (emit row)" "emits os P (http port path post)" "emits os P (hpa_get kind name)"
  "emits os P (pods_labelled tgt)" "emits os P (raw path)" "emits os P (hpa_apply name)"
  "emits os P (hpa_patch kind name v)" "emits os P (ready name)" "emits os P (hpa_apply_json v)" "emits os P metric"
  unfolding emit_def now_utc_def http_def hpa_get_def pods_labelled_def raw_def hpa_apply_def hpa_patch_def
    ready_def hpa_apply_json_def metric_def
  by (intro emits_intros; simp add: ran others)+

lemma emits_snapshot: "emits os P (snapshot tgt broker)"
  unfolding snapshot_def by (intro emits_intros emits_base)

lemma emits_ops:
  "emits os P (stage name)" "emits os P (gauge n)" "emits os P (wait_for predicate tgt timeout broker)"
  "emits os P (hold seconds tgt broker)"
  unfolding stage_def now_utc_def gauge_def wait_for_def wait_round_def hold_def hold_round_def
  by (intro emits_intros emits_base emits_snapshot; simp add: others)+

lemma emits_steady: "emits os P (steady n tgt broker)"
  unfolding steady_def by (rule emits_ops)

lemma emits_reset: "emits os P reset_worker"
  unfolding reset_worker_def by (intro emits_intros emits_base emits_ops emits_steady)

lemmas emits_harness = emits_base emits_snapshot emits_ops emits_steady emits_reset

end

interpretation hpa_any: hpa_events "\<lambda>_. True"
  by unfold_locales simp_all


section \<open>Waiting ends\<close>

lemma hpa_base_runs [runs_intros]:
  assumes "clock_ok os now"
  shows "runs os now (emit row)" "runs os now (http port path post)" "runs os now (hpa_get kind name)"
    "runs os now (pods_labelled tgt)" "runs os now (raw path)" "runs os now (hpa_apply name)"
    "runs os now (hpa_patch kind name v)" "runs os now (ready name)" "runs os now (hpa_apply_json v)"
    "runs os now metric" "runs os now (scale name n)"
  unfolding emit_def now_utc_def http_def hpa_get_def pods_labelled_def raw_def hpa_apply_def hpa_patch_def
    ready_def hpa_apply_json_def metric_def scale_def
  by (intro runs_intros assms)+

lemma snapshot_runs [runs_intros]: "clock_ok os now \<Longrightarrow> runs os now (snapshot tgt broker)"
  unfolding snapshot_def by (intro runs_intros)

lemma wait_for_runs [runs_intros]:
  assumes "clock_ok os now"
  shows "runs os now (wait_for predicate tgt timeout broker)"
  unfolding wait_for_def wait_round_def
  by (intro runs_bindM runs_prims(2) runs_timed_loopM assms)
     (use assms in \<open>auto simp: run_simps intro!: runs_intros ticks_bindM ticks_returnM ticks_sleep\<close>)

lemma hold_runs [runs_intros]:
  assumes "clock_ok os now"
  shows "runs os now (hold seconds tgt broker)"
  unfolding hold_def hold_round_def
  by (intro runs_bindM runs_prims(2) runs_timed_loopS assms)
     (use assms in \<open>auto simp: run_simps intro!: runs_intros ticks_bindM ticks_sleep\<close>)

lemma hpa_ops_run [runs_intros]:
  assumes "clock_ok os now"
  shows "runs os now (stage name)" "runs os now (gauge n)" "runs os now (steady n tgt broker)" "runs os now reset_worker"
  unfolding stage_def now_utc_def gauge_def steady_def reset_worker_def
  by (intro runs_intros assms)+

lemma forwards_runs [runs_intros]:
  "clock_ok os now \<Longrightarrow> runs os now body \<Longrightarrow> runs os now (forwards body)"
  unfolding forwards_def proxy_probe_def hpa_stop_def by (intro runs_intros; simp)


section \<open>What a wait has seen\<close>

text \<open>A row of evidence in the file.\<close>

definition logged :: "json \<Rightarrow> event \<Rightarrow> bool" where
  "logged row e = (case e of Appended p x \<Rightarrow> x = dumps row @ [CHR 0x0A] | _ \<Rightarrow> False)"

lemma emit_wp [wp_intros]:
  assumes "\<And>t st fs. list_ex (logged (JDict (dict_update [(''time'', JStr t), (''stage'', JStr st)] row))) fs \<Longrightarrow>
    Q (JDict (dict_update [(''time'', JStr t), (''stage'', JStr st)] row)) (es @ fs)"
  shows "wp os (emit row) Q es"
  unfolding emit_def now_utc_def
  by (intro wp_intros) (simp only: append_assoc append_Cons append_Nil, rule assms, simp add: logged_def)

lemma snapshot_wp [wp_intros]:
  assumes "\<And>r fs. list_ex (logged r) fs \<Longrightarrow> Q r (es @ fs)"
  shows "wp os (snapshot tgt broker) Q es"
  unfolding snapshot_def
  by (intro wp_intros hpa_any.emits_base [THEN wp_frame]; (simp only: append_assoc)?; rule assms; simp)

lemma wait_for_wp [wp_intros]:
  assumes "\<And>r fs. predicate r = Inr True \<Longrightarrow> list_ex (logged r) fs \<Longrightarrow> Q r (es @ fs)"
  shows "wp os (wait_for predicate tgt timeout broker) Q es"
  unfolding wait_for_def wait_round_def
  by (intro wp_intros wp_loopM emits_intros hpa_any.emits_snapshot; simp)
     (rule assms, simp_all)

lemma steady_wp [wp_intros]:
  assumes "\<And>r fs. steady_ok n r = Inr True \<Longrightarrow> list_ex (logged r) fs \<Longrightarrow> Q r (es @ fs)"
  shows "wp os (steady n tgt broker) Q es"
  unfolding steady_def by (rule wait_for_wp) (rule assms)

end
