(* ===== verification/HpaRun.thy ===== *)
theory HpaRun
  imports HpaLab
begin

text \<open>
  \<^verbatim>\<open>hpa/advanced/run.py\<close>, lines 203 to 819: the scenarios and the main program. The two scenarios that
  compute with floats (\<^verbatim>\<open>requests\<close> and \<^verbatim>\<open>bandwidth\<close>, lines 680 to 781) are not modelled.
\<close>

section \<open>Steps and policies\<close>

abbreviation worker_steady :: "int \<Rightarrow> ('w, unit) hprog" where
  "worker_steady n \<equiv> ign (steady n ''worker'' False)"

abbreviation consumer_steady :: "int \<Rightarrow> ('w, unit) hprog" where
  "consumer_steady n \<equiv> ign (steady n ''consumer'' True)"

definition steps :: "('w, unit) hprog" where
  "steps =
    (thenM (stage ''steps-reset'') (
     thenM reset_worker (
     thenM (forM [(15, 2), (25, 3), (35, 4), (25, 3), (15, 2), (5, 1)] (\<lambda>(q, n).
         thenM (stage (''steps-q'' @ int_str q @ ''-to'' @ int_str n)) (thenM (gauge q) (worker_steady n)))) (
     thenM (stage ''stabilization-high'') (
     thenM (gauge 35) (
     thenM (worker_steady 4) (
     thenM (hpa_patch ''hpa'' ''worker'' (JDict
         [(''spec'',
            JDict
              [(''behavior'', JDict [(''scaleDown'', JDict [(''stabilizationWindowSeconds'', JInt 60)])])])])) (
     thenM (stage ''stabilization-low-pulse'') (
     thenM (gauge 0) (
     bindM (hold 25 ''worker'' False) (\<lambda>rows.
     bindM (liftE (everyE (requested_is 4) rows)) (\<lambda>kept.
     thenM (assertM [] kept) (
     thenM (stage ''stabilization-high-again'') (
     thenM (gauge 35) (
     thenM (hold 20 ''worker'' False) (
     thenM (stage ''stabilization-final-low'') (
     thenM (gauge 0) (
     worker_steady 1))))))))))))))))))"

definition policies :: "('w, unit) hprog" where
  "policies = forM [''pods'', ''percent''] (\<lambda>policy.
    (thenM (stage (''policy-'' @ policy @ ''-reset'')) (
     thenM reset_worker (
     thenM (hpa_apply (''hpa-policy-'' @ policy @ ''.yaml'')) (
     thenM (hold 35 ''worker'' False) (
     thenM (stage (''policy-'' @ policy @ ''-up'')) (
     thenM (gauge 35) (
     thenM (worker_steady 4) (
     thenM (hold 35 ''worker'' False) (
     thenM (stage (''policy-'' @ policy @ ''-down'')) (
     thenM (gauge 0) (
     worker_steady 1))))))))))))"


section \<open>The real queue\<close>

text \<open>\<^verbatim>\<open>b["pending"] == b["inflight"] == 0\<close>.\<close>

definition idle :: "json \<Rightarrow> exn + bool" where
  "idle b = bindE (jsub b ''pending'') (\<lambda>p. bindE (jsub b ''inflight'') (\<lambda>i. Inr (py_eq p i \<and> py_eq i (JInt 0))))"

definition queue_idle :: "json \<Rightarrow> exn + bool" where
  "queue_idle r = bindE (jsub r ''queue'') idle"

definition ready_cmp :: "string \<Rightarrow> (int \<Rightarrow> int \<Rightarrow> bool) \<Rightarrow> int \<Rightarrow> json \<Rightarrow> exn + bool" where
  "ready_cmp opr rel n r = bindE (jpath [Sub ''deployment'', Get ''readyReplicas'' (JInt 0)] r) (\<lambda>v. jcmp opr rel v n)"

definition scaled_up :: "json \<Rightarrow> exn + bool" where
  "scaled_up r = andE (bindE (jsub r ''requested'') (\<lambda>v. jcmp ''>'' (>) v 1)) (ready_cmp ''>'' (>) 1 r)"

definition four_inflight :: "json \<Rightarrow> exn + bool" where
  "four_inflight r = eqE (jpath [Sub ''queue'', Sub ''inflight''] r) (JInt 4)"

definition one_terminating :: "json \<Rightarrow> exn + bool" where
  "one_terminating r = andE (requested_is 1 r)
     (bindE (bindE (jsub r ''pods'') jiter) (anyE (\<lambda>p. bindE (jsub p ''deletionTimestamp'') (\<lambda>t. Inr (truth t)))))"

definition enqueue_batch :: "('w, unit) hprog" where
  "enqueue_batch =
    (bindM (http 18081 ''/enqueue?n=80&duration_ms=1000'' True) (\<lambda>resp.
     ign (emit [(''action'', JStr ''enqueue''), (''count'', JInt 80), (''duration_ms'', JInt 1000), (''response'', resp)])))"

definition drain_round :: "json \<Rightarrow> int \<Rightarrow> ('w, unit option) hprog" where
  "drain_round stats0 deadline =
    (bindM monotonic (\<lambda>t.
     (if t < deadline
        then bindM (http 18081 ''/stats'' False) (\<lambda>b.
             bindM (liftE (queue_row b)) (\<lambda>q.
             thenM (emit [(''queue'', q)])
            (bindM (liftE (jsub b ''completed'')) (\<lambda>done.
             bindM (liftE (bindE (jsub stats0 ''completed'') (\<lambda>c. jplus c 80))) (\<lambda>goal.
               if py_eq done goal then returnM (Some ()) else thenM (sleep 5000) (returnM None))))))
        else raiseM (RuntimeError ''fixed consumer did not drain''))))"

definition real_baseline :: "('w, unit) hprog" where
  "real_baseline =
    (thenM (stage ''real-fixed-baseline'') (
     thenM (hk [''delete'', ''hpa'', ''consumer'', ''--ignore-not-found'']) (
     thenM (scale ''consumer'' 1) (
     thenM (ready ''consumer'') (
     bindM (http 18081 ''/stats'' False) (\<lambda>before.
     bindM (liftE (idle before)) (\<lambda>b.
     thenM (assertM [] b) (
     bindM (liftE (jsub before ''accepted'')) (\<lambda>accepted.
     thenM (if py_eq accepted (JInt 0) then returnM ()
        else raiseM (RuntimeError (''real requires a fresh broker; restart broker after '' @
          ''verifying the previous run has drained''))) (
     thenM enqueue_batch (
     bindM monotonic (\<lambda>t0. loopM (drain_round before (t0 + 1000 * 180))))))))))))))"

definition real_batch :: "('w, unit) hprog" where
  "real_batch =
    (thenM (stage ''real-hpa-batch'') (
     thenM (hpa_apply ''hpa-consumer.yaml'') (
     thenM (consumer_steady 1) (
     thenM enqueue_batch (
     thenM (wait_for scaled_up ''consumer'' 240 True) (
     thenM (wait_for queue_idle ''consumer'' 240 True) (
     consumer_steady 1)))))))"

text \<open>One round of the producer, with its variables \<^verbatim>\<open>next_at\<close> and \<^verbatim>\<open>count\<close>.\<close>

definition producer_round :: "int \<Rightarrow> int \<times> int \<Rightarrow> ('w, int \<times> int + int) hprog" where
  "producer_round start = (\<lambda>(next_at, count).
    (bindM monotonic (\<lambda>t.
     (if t - start < 1000 * 60
        then thenM (http 18081 ''/enqueue?n=1&duration_ms=2000'' True)
            (thenM (if (count + 1) mod 5 = 0 then ign (snapshot ''consumer'' True) else returnM ())
            (bindM monotonic (\<lambda>t2.
             thenM (sleep (max 0 (next_at + 1000 - t2))) (returnM (Inl (next_at + 1000, count + 1))))))
        else returnM (Inr count)))))"

definition real_producer :: "('w, unit) hprog" where
  "real_producer =
    (thenM (stage ''real-continuous-producer'') (
     bindM monotonic (\<lambda>start.
     bindM (loopS (producer_round start) (start, 0)) (\<lambda>count.
     thenM (emit [(''action'', JStr ''producer_stopped''), (''count'', JInt count)]) (
     thenM (wait_for queue_idle ''consumer'' 240 True) (
     consumer_steady 1))))))"

text \<open>\<^verbatim>\<open>s.split()\<close> and \<^verbatim>\<open>path.parent\<close> of a path below another.\<close>

definition py_split :: "string \<Rightarrow> string list" where
  "py_split s = filter (\<lambda>w. w \<noteq> []) (split_on (CHR '' '') (map (\<lambda>c. if is_space c then CHR '' '' else c) s))"

definition py_parent :: "string \<Rightarrow> string" where
  "py_parent p = rev (tl (dropWhile (\<lambda>c. c \<noteq> CHR ''/'') (rev p)))"

definition start_log :: "string \<Rightarrow> ('w, unit) hprog" where
  "start_log name =
    (bindM getG (\<lambda>g.
     thenM (write_text (py_parent (OUT g) @ ''/'' @ name @ ''.log'') []) (
     bindM (popen (HPA_K @ [''logs'', ''-f'', name, ''--timestamps=true''])) (\<lambda>p.
     modG (\<lambda>g. g\<lparr>log_procs := log_procs g @ [p]\<rparr>)))))"

definition stop_logs :: "('w, unit) hprog" where
  "stop_logs = bindM getG (\<lambda>g. forM (log_procs g) (\<lambda>p. thenM (terminate p) (wait_process p (Some 5))))"

definition graceful_body :: "string list \<Rightarrow> ('w, unit) hprog" where
  "graceful_body names =
    (thenM (forM names start_log) (
     bindM (http 18081 ''/enqueue?n=4&duration_ms=60000'' True) (\<lambda>resp.
     thenM (emit [(''action'', JStr ''enqueue_long_tasks''), (''response'', resp)]) (
     thenM (wait_for four_inflight ''consumer'' 240 True) (
     thenM (stage ''graceful-hpa-downscale'') (
     thenM (hpa_patch ''hpa'' ''consumer'' (JDict
         [(''spec'',
            JDict
              [(''minReplicas'', JInt 1),
               (''behavior'', JDict [(''scaleDown'', JDict [(''stabilizationWindowSeconds'', JInt 0)])])])])) (
     thenM (wait_for one_terminating ''consumer'' 240 True) (
     thenM (wait_for queue_idle ''consumer'' 240 True) (
     consumer_steady 1)))))))))"

definition real_graceful :: "('w, unit) hprog" where
  "real_graceful =
    (thenM (stage ''graceful-prepare-four'') (
     thenM (hpa_patch ''hpa'' ''consumer'' (JDict [(''spec'', JDict [(''minReplicas'', JInt 4)])])) (
     thenM (consumer_steady 4) (
     bindM (hk [''get'', ''pods'', ''-l'', ''app=consumer'', ''-o'', (''jsonpath={.items[*].metadata.name}'')]) (\<lambda>t.
     thenM (modG (\<lambda>g. g\<lparr>log_procs := []\<rparr>)) (
     finallyM (graceful_body (py_split t)) stop_logs))))))"

text \<open>The final audit of the broker.\<close>

definition task_once :: "json \<Rightarrow> exn + bool" where
  "task_once t = bindE (jsub t ''done'') (\<lambda>d. if truth d then eqE (jsub t ''attempts'') (JInt 1) else Inr False)"

definition counts_match :: "json \<Rightarrow> exn + bool" where
  "counts_match b = bindE (jsub b ''completed'') (\<lambda>c. bindE (jsub b ''accepted'') (\<lambda>a.
     if py_eq c a then eqE (jsub b ''retries'') (JInt 0) else Inr False))"

definition rejected :: "json \<Rightarrow> exn + bool" where
  "rejected e = eqE (jsub e ''kind'') (JStr ''rejected_ack'')"

definition real_audit :: "('w, unit) hprog" where
  "real_audit =
    (bindM (http 18081 ''/stats'' False) (\<lambda>b.
     bindM getG (\<lambda>g.
     thenM (write_text (py_parent (OUT g) @ ''/queue-audit.json'') (dumps_indent b @ [CHR 0x0A])) (
     bindM (liftE (counts_match b)) (\<lambda>counts.
     thenM (assertM [] counts) (
     bindM (liftE (bindE (bindE (jsub b ''tasks'') jiter) (everyE task_once))) (\<lambda>once.
     thenM (assertM [] once) (
     bindM (liftE (bindE (bindE (jsub b ''events'') jiter) (filterE rejected))) (\<lambda>rej.
     thenM (assertM [] (rej = [])) (
     bindM (liftE (jsub b ''accepted'')) (\<lambda>accepted.
     ign (emit [(''result'', JStr ''tasks_all_completed_once''), (''accepted'', accepted)]))))))))))))"

definition real :: "('w, unit) hprog" where
  "real =
    (thenM real_baseline (
     thenM real_batch (
     thenM real_producer (
     thenM real_graceful (
     real_audit)))))"


section \<open>Several metrics and failures\<close>

definition ADAPTER :: string where "ADAPTER = ''adapter-prometheus-adapter''"

definition metric_row :: "('w, json) hprog" where
  "metric_row = (bindM metric (\<lambda>m.
     thenM (ign (emit [(''customAPI'', m)])) (
     returnM m)))"

definition delete_load :: "('w, unit) hprog" where
  "delete_load = ign (hk [''delete'', ''deployment'', ''load'', ''--ignore-not-found''])"

definition multi_low :: "('w, unit) hprog" where
  "multi_low = thenM (scale ADAPTER 0) (finallyM
    (thenM (stage ''multi-cpu-low-metric-failed'') (
     thenM (wait_for (scaling_active ''False'') ''worker'' 240 False) (
     thenM metric_row (
     bindM (hold 45 ''worker'' False) (\<lambda>rows.
     bindM (liftE (everyE (requested_is 4) rows)) (\<lambda>kept.
     assertM [] kept)))))) (thenM (scale ADAPTER 1) (ready ADAPTER)))"

definition multi_high :: "('w, unit) hprog" where
  "multi_high = thenM (scale ADAPTER 0) (finallyM
    (thenM (stage ''multi-cpu-high-metric-failed'') (
     thenM metric_row (
     thenM (hpa_apply ''../lab/load.yaml'') (
     thenM (worker_steady 4) (
     bindM metric_row (\<lambda>unavailable.
     bindM (liftE (jin (JStr ''error'') unavailable)) (\<lambda>b.
     assertM [] b))))))) (thenM delete_load (thenM (scale ADAPTER 1) (ready ADAPTER))))"

definition multi :: "('w, unit) hprog" where
  "multi =
    (thenM (stage ''multi-reset'') (
     thenM reset_worker (
     thenM (hpa_apply ''hpa-multi.yaml'') (
     thenM (gauge 35) (
     thenM (worker_steady 4) (
     thenM (stage ''multi-cpu-low-queue-high'') (
     thenM (hold 25 ''worker'' False) (
     thenM (gauge 0) (
     thenM multi_low (
     thenM (stage ''multi-recover-down'') (
     thenM (worker_steady 1) (
     thenM multi_high (
     thenM (stage ''multi-all-low'') (
     thenM (gauge 0) (
     thenM (worker_steady 1) (
     thenM (stage ''multi-cpu-high-queue-zero'') (
     thenM (hpa_apply ''../lab/load.yaml'') (
     thenM (finallyM (thenM (worker_steady 4) (ign metric_row)) delete_load) (
     thenM (stage ''multi-final-down'') (
     worker_steady 1))))))))))))))))))))"

definition failure_sample :: "('w, unit option) hprog" where
  "failure_sample =
    (bindM metric (\<lambda>m.
     bindM (raw ''/api/v1/namespaces/hpa-demo/services/prometheus:9090/proxy/api/v1/query?query=demo_queue_depth'') (\<lambda>q.
     thenM (emit [(''customAPI'', m), (''prometheusQuery'', q)]) (
     thenM (snapshot ''worker'' False) (
     thenM (sleep 5000) (
     returnM None))))))"

definition failure_of :: "string \<Rightarrow> ('w, unit) hprog" where
  "failure_of component = thenM (scale component 0) (finallyM
    (thenM (repeatM 8 failure_sample (returnM ())) (
     bindM (snapshot ''worker'' False) (\<lambda>r.
     bindM (liftE (requested_is 4 r)) (\<lambda>kept.
     thenM (assertM [] kept) (
     bindM (liftE (scaling_active ''False'' r)) (\<lambda>inactive.
     assertM [] inactive)))))) (thenM (scale component 1) (ready component)))"

definition failures :: "('w, unit) hprog" where
  "failures =
    (thenM (stage ''failures-reset'') (
     thenM reset_worker (
     thenM (gauge 35) (
     thenM (worker_steady 4) (
     thenM (forM [''queue'', ''prometheus'', ADAPTER] (\<lambda>component.
         (thenM (stage (''failure-'' @ component)) (
          thenM (failure_of component) (
          thenM (stage (''failure-'' @ component @ ''-recover'')) (
          thenM (gauge 35) (
          worker_steady 4))))))) (
     thenM (stage ''real-zero'') (
     thenM (gauge 0) (
     worker_steady 1))))))))"


section \<open>Scheduling\<close>

fun pop_all :: "string list \<Rightarrow> json \<Rightarrow> exn + json" where
  "pop_all [] v = Inr v"
| "pop_all (k # ks) v = bindE (jupd [Sub ''metadata''] (jpop k) v) (pop_all ks)"

definition server_fields :: "string list" where
  "server_fields = [''uid'', ''resourceVersion'', ''generation'', ''creationTimestamp'',
      ''managedFields'', ''annotations'']"

definition app_blocked :: json where "app_blocked = JDict [(''app'', JStr ''blocked'')]"

definition set_cpu :: "string \<Rightarrow> json \<Rightarrow> exn + json" where
  "set_cpu part d = jupd [Sub ''spec'', Sub ''template'', Sub ''spec'', Sub ''containers'', Idx 0, Sub ''resources'', Sub part]
     (\<lambda>m. jset m ''cpu'' (JStr ''1000'')) d"

definition blocked_deployment :: "json \<Rightarrow> exn + json" where
  "blocked_deployment d =
     bindE (pop_all server_fields d) (\<lambda>d.
     bindE (jpop ''status'' d) (\<lambda>d.
     bindE (jupd [Sub ''metadata''] (\<lambda>m. jset m ''name'' (JStr ''blocked'')) d) (\<lambda>d.
     bindE (jupd [Sub ''spec''] (\<lambda>m. jset m ''replicas'' (JInt 1)) d) (\<lambda>d.
     bindE (jupd [Sub ''spec'', Sub ''selector''] (\<lambda>m. jset m ''matchLabels'' app_blocked) d) (\<lambda>d.
     bindE (jupd [Sub ''spec'', Sub ''template''] (\<lambda>m. jset m ''metadata'' (JDict [(''labels'', app_blocked)])) d) (\<lambda>d.
     bindE (set_cpu ''requests'' d) (set_cpu ''limits'')))))))"

definition set_target :: "string \<Rightarrow> json \<Rightarrow> exn + json" where
  "set_target name h = jupd [Sub ''spec'', Sub ''scaleTargetRef''] (\<lambda>m. jset m ''name'' (JStr name)) h"

definition blocked_hpa :: "json \<Rightarrow> exn + json" where
  "blocked_hpa h = bindE (jsub h ''spec'') (\<lambda>spec.
     set_target ''blocked'' (JDict [(''apiVersion'', JStr ''autoscaling/v2''),
       (''kind'', JStr ''HorizontalPodAutoscaler''),
       (''metadata'', JDict [(''name'', JStr ''blocked''), (''namespace'', JStr ''hpa-demo'')]), (''spec'', spec)]))"

definition web_hpa :: "json \<Rightarrow> exn + json" where
  "web_hpa h = bindE (jupd [Sub ''metadata''] (\<lambda>m. jset m ''name'' (JStr ''web'')) h) (set_target ''web'')"

definition all_pending :: "json \<Rightarrow> exn + bool" where
  "all_pending r = andE (requested_is 4 r) (bindE (jsub r ''pods'') (\<lambda>pods.
     andE (bindE (jlen pods) (\<lambda>n. Inr (n = 4)))
       (bindE (jiter pods) (everyE (\<lambda>p. eqE (jsub p ''phase'') (JStr ''Pending''))))))"

definition slow_start_patch :: json where
  "slow_start_patch = JDict [(''spec'', JDict [(''template'', JDict [(''spec'', JDict [(''containers'', JList [JDict
     [(''name'', JStr ''web''), (''image'', JStr ''hpa-advanced:v1''), (''args'', JList [JStr ''http'']),
      (''ports'', JList [JDict [(''containerPort'', JInt 8080), (''name'', JStr ''http'')]]),
      (''env'', JList [JDict [(''name'', JStr ''READY_DELAY_SECONDS''), (''value'', JStr ''60'')]]),
      (''resources'', JDict [(''requests'', JDict [(''cpu'', JStr ''100m''), (''memory'', JStr ''32Mi'')]),
         (''limits'', JDict [(''cpu'', JStr ''500m''), (''memory'', JStr ''128Mi'')])]),
      (''readinessProbe'', JDict [(''httpGet'', JDict [(''path'', JStr ''/healthz''), (''port'', JInt 8080)]),
         (''periodSeconds'', JInt 2)])]])])])])]"

definition slow_starting :: "json \<Rightarrow> exn + bool" where
  "slow_starting r = andE (requested_is 4 r) (ready_cmp ''<'' (<) 4 r)"

definition pending_part :: "('w, json) hprog" where
  "pending_part =
    (thenM (stage ''pending-prepare'') (
     thenM reset_worker (
     thenM (gauge 35) (
     bindM (hpa_get ''deployment'' ''web'') (\<lambda>d.
     bindM (liftE (blocked_deployment d)) (\<lambda>blocked.
     thenM (hpa_apply_json blocked) (
     bindM (hpa_get ''hpa'' ''worker'') (\<lambda>h0.
     bindM (liftE (blocked_hpa h0)) (\<lambda>h.
     thenM (hpa_apply_json h) (
     thenM (stage ''pending-desired-four'') (
     thenM (wait_for all_pending ''blocked'' 240 False) (
     bindM (hk [''get'', ''events'', ''--field-selector'', ''reason=FailedScheduling'', ''-o'', ''json'']) (\<lambda>t.
     bindM (py_loads t) (\<lambda>events.
     thenM (emit [(''events'', events)]) (
     thenM (hk [''delete'', ''hpa'', ''blocked'']) (
     thenM (hk [''delete'', ''deployment'', ''blocked'']) (
     returnM h)))))))))))))))))"

definition slow_start_part :: "json \<Rightarrow> ('w, unit) hprog" where
  "slow_start_part h =
    (thenM (stage ''slow-start-prepare'') (
     thenM (hk [''delete'', ''hpa'', ''web'', ''--ignore-not-found'']) (
     thenM (scale ''web'' 1) (
     thenM (hpa_patch ''deployment'' ''web'' slow_start_patch) (
     thenM (ready ''web'') (
     bindM (liftE (web_hpa h)) (\<lambda>h2.
     thenM (hpa_apply_json h2) (
     thenM (stage ''slow-start-desired-four'') (
     thenM (wait_for slow_starting ''web'' 240 False) (
     thenM (steady 4 ''web'' False) (
     thenM (stage ''slow-start-down'') (
     thenM (gauge 0) (
     thenM (steady 1 ''web'' False) (
     thenM (hk [''delete'', ''hpa'', ''web'']) (
     thenM (hk [''set'', ''env'', ''deployment/web'', ''READY_DELAY_SECONDS-'']) (
     thenM (hpa_apply ''workloads.yaml'') (
     ready ''web'')))))))))))))))))"

definition scheduling :: "('w, unit) hprog" where
  "scheduling = bindM pending_part slow_start_part"


section \<open>Pods metric and the main program\<close>

definition three_ready :: "json \<Rightarrow> exn + bool" where
  "three_ready r = andE (bindE (jsub r ''requested'') (\<lambda>v. jcmp ''>='' (\<ge>) v 3)) (ready_cmp ''>='' (\<ge>) 3 r)"

definition last_is_four :: "json list \<Rightarrow> exn + bool" where
  "last_is_four rows = (case list_index rows (- 1) of
       None \<Rightarrow> Inl (IndexError ''list index out of range'')
     | Some r \<Rightarrow> andE (requested_is 4 r) (eqE (jpath [Sub ''deployment'', get0 ''readyReplicas''] r) (JInt 4)))"

definition raw_row :: "string \<Rightarrow> string \<Rightarrow> ('w, unit) hprog" where
  "raw_row key path = (bindM (raw path) (\<lambda>v.
     ign (emit [(key, v)])))"

definition pods_scenario :: "('w, unit) hprog" where
  "pods_scenario =
    (thenM (stage ''pods-reset'') (
     thenM (hpa_apply ''hpa-pods.yaml'') (
     thenM (steady 1 ''web'' False) (
     thenM (stage ''pods-rate-up'') (
     thenM (hpa_apply ''load-http.yaml'') (
     thenM (finallyM
         (thenM (wait_for three_ready ''web'' 240 False) (
          bindM (hold 60 ''web'' False) (\<lambda>rows.
          bindM (liftE (last_is_four rows)) (\<lambda>b.
          thenM (assertM [] b) (
          thenM (raw_row ''customAPI'' ''/apis/custom.metrics.k8s.io/v1beta1/namespaces/hpa-demo/pods/*/http_requests_per_second?labelSelector=app%3Dweb'') (
          raw_row ''rateQuery'' ''/api/v1/namespaces/hpa-demo/services/prometheus:9090/proxy/api/v1/query?query=sum(rate(demo_http_requests_total%5B30s%5D))'')))))) (ign (hk [''delete'', ''deployment'', ''http-load'', ''--ignore-not-found'']))) (
     thenM (stage ''pods-rate-down'') (
     ign (steady 1 ''web'' False)))))))))"

datatype hpa_case = Steps | Policies | Real | Multi | Failures | Scheduling | Pods

fun case_name :: "hpa_case \<Rightarrow> string" where
  "case_name Steps = ''steps''" | "case_name Policies = ''policies''" | "case_name Real = ''real''"
| "case_name Multi = ''multi''" | "case_name Failures = ''failures''" | "case_name Scheduling = ''scheduling''"
| "case_name Pods = ''pods''"

fun scenario :: "hpa_case \<Rightarrow> ('w, unit) hprog" where
  "scenario Steps = steps" | "scenario Policies = policies" | "scenario Real = real"
| "scenario Multi = multi" | "scenario Failures = failures" | "scenario Scheduling = scheduling"
| "scenario Pods = pods_scenario"

text \<open>The \<^verbatim>\<open>try\<close> statement inside \<^verbatim>\<open>with forwards()\<close>.\<close>

definition report :: "hpa_case \<Rightarrow> ('w, unit) hprog" where
  "report c = catchM
    (thenM (scenario c) (
     thenM (emit [(''result'', JStr ''PASS'')]) (
     bindM getG (\<lambda>g.
     py_print (''PASS '' @ case_name c @ '' '' @ OUT g))))) (on_any (\<lambda>e. thenM (emit [(''result'', JStr ''FAIL''), (''error'', JStr (exn_str e))]) (raiseM e)))"

definition hpa_main :: "hpa_case \<Rightarrow> string \<Rightarrow> ('w, unit) hprog" where
  "hpa_main c output =
    (bindM (getenv ''HPA_PROXY_PORT'') (\<lambda>env.
     bindM (liftE (py_int (case env of None \<Rightarrow> ''18082'' | Some p \<Rightarrow> p))) (\<lambda>port.
     thenM (modG (\<lambda>g. g\<lparr>PROXY_PORT := port, STAGE := []\<rparr>)) (
     bindM (getenv ''KUBECONFIG'') (\<lambda>kc.
     thenM (if kc = None \<or> kc = Some [] then raiseM (SystemExit ''Set dedicated KUBECONFIG first'') else returnM ()) (
     thenM (mkdir output) (
     bindM (wallclock (''%Y%m%dT%H%M%SZ'')) (\<lambda>t.
     thenM (modG (\<lambda>g. g\<lparr>OUT := output @ ''/'' @ case_name c @ ''-'' @ t @ ''.jsonl''\<rparr>)) (
     forwards (report c))))))))))"


section \<open>Termination\<close>

text \<open>
  The producer sends one request per second for a minute: at the head of its loop the clock has reached
  \<^verbatim>\<open>next_at\<close>, which is \<^verbatim>\<open>start\<close> plus one second per request sent, so it sends at most 60.
\<close>

definition paced :: "('w \<Rightarrow> int) \<Rightarrow> int \<Rightarrow> int \<times> int \<Rightarrow> ('w, hpa) st \<Rightarrow> bool" where
  "paced now start x s \<longleftrightarrow> fst x = start + 1000 * snd x \<and> 0 \<le> snd x \<and> fst x \<le> now (world s)"

lemma producer_sleep:
  assumes "clock_ok os now"
    and "bindM monotonic (\<lambda>t2. thenM (sleep (max 0 (d - t2))) (returnM x)) os s = Some (Inr v, s')"
  shows "v = x \<and> d \<le> now (world s')"
proof -
  from assms(2) obtain t s1 where m: "monotonic os s = Some (Inr t, s1)"
    and k: "thenM (sleep (max 0 (d - t))) (returnM x) os s1 = Some (Inr v, s')" by (rule bindM_InrE)
  from k obtain u where sl: "sleep (max 0 (d - t)) os s1 = Some (Inr u, s')" and "v = x"
    by (auto simp: returnM_def elim!: thenM_InrE)
  then show ?thesis using sleep_clock(2) [OF assms(1) _ sl] monotonic_clock [OF assms(1) m] by auto
qed

lemma producer_continues:
  assumes clock: "clock_ok os now" and inv: "paced now start x s"
    and run: "producer_round start x os s = Some (Inr (Inl y), s')"
  shows "paced now start y s' \<and> nat (60 - snd y) < nat (60 - snd x)"
proof -
  obtain next_at count where x: "x = (next_at, count)" by (cases x)
  let ?rest = "\<lambda>u. bindM monotonic (\<lambda>t2. thenM (sleep (max 0 (next_at + 1000 - t2)))
      (returnM (Inl (next_at + 1000, count + 1)))) :: ('a, hpa, int \<times> int + int) prog"
  from run obtain t s1 where m: "monotonic os s = Some (Inr t, s1)" and t: "t - start < 1000 * 60"
    and k: "bindM (http 18081 ''/enqueue?n=1&duration_ms=2000'' True) (\<lambda>_.
        bindM (if (count + 1) mod 5 = 0 then ign (snapshot ''consumer'' True) else returnM ()) ?rest) os s1 =
      Some (Inr (Inl y), s')"
    unfolding producer_round_def x prod.case thenM_def by (auto simp: returnM_def elim!: bindM_InrE split: if_splits)
  from k obtain a s2 where "bindM (if (count + 1) mod 5 = 0 then ign (snapshot ''consumer'' True) else returnM ())
      ?rest os s2 = Some (Inr (Inl y), s')" by (rule bindM_InrE)
  then obtain u s3 where "?rest u os s3 = Some (Inr (Inl y), s')" by (rule bindM_InrE)
  from producer_sleep [OF clock this] have y: "y = (next_at + 1000, count + 1)" "next_at + 1000 \<le> now (world s')" by auto
  have "t = now (world s)" using monotonic_clock(1) [OF clock m] by simp
  with t inv y show ?thesis by (auto simp: paced_def x)
qed

lemma producer_loop_runs:
  assumes clock: "clock_ok os now"
  shows "runs os now (bindM monotonic (\<lambda>start. loopS (producer_round start) (start, 0)))"
  unfolding runs_def
proof
  fix s :: "('a, hpa) st"
  obtain r s1 where m: "monotonic os s = Some (r, s1)" "now (world s) \<le> now (world s1)"
    using runs_prims(2) [OF clock] by (rule runsE)
  let ?t = "now (world s)"
  have r: "r = Inr ?t" using monotonic_clock(1) [OF clock m(1)] .
  have "\<exists>r s'. loopS (producer_round ?t) (?t, 0) os s1 = Some (r, s') \<and> now (world s1) \<le> now (world s')"
  proof (rule loopS_ends [where I = "paced now ?t" and \<mu> = "\<lambda>x. nat (60 - snd x)"])
    show "paced now ?t (?t, 0) s1" using m(2) by (simp add: paced_def)
  next
    fix x and t :: "('a, hpa) st"
    assume inv: "paced now ?t x t"
    have "runs os now (producer_round ?t x)"
      unfolding producer_round_def by (intro runs_intros clock; simp)
    then obtain r t' where "producer_round ?t x os t = Some (r, t')" "now (world t) \<le> now (world t')" by (rule runsE)
    then show "\<exists>r s'. producer_round ?t x os t = Some (r, s') \<and> now (world t) \<le> now (world s') \<and>
        (\<forall>y. r = Inr (Inl y) \<longrightarrow> paced now ?t y s' \<and> nat (60 - snd y) < nat (60 - snd x))"
      using producer_continues [OF clock inv] by blast
  qed
  then show "\<exists>r s'. bindM monotonic (\<lambda>start. loopS (producer_round start) (start, 0)) os s = Some (r, s') \<and>
      now (world s) \<le> now (world s')"
    using m r by (fastforce simp: bindM_def)
qed

lemma real_producer_runs [runs_intros]:
  assumes "clock_ok os now"
  shows "runs os now real_producer"
proof -
  have "runs os now (thenM (stage ''real-continuous-producer'')
    (bindM (bindM monotonic (\<lambda>start. loopS (producer_round start) (start, 0))) (\<lambda>count.
      thenM (emit [(''action'', JStr ''producer_stopped''), (''count'', JInt count)])
        (thenM (wait_for queue_idle ''consumer'' 240 True) (consumer_steady 1)))))"
    by (intro runs_thenM runs_bindM [OF producer_loop_runs] runs_intros assms)
  then show ?thesis unfolding real_producer_def bindM_assoc .
qed

lemma drain_runs [runs_intros]:
  assumes "clock_ok os now"
  shows "runs os now (loopM (drain_round stats0 D))"
  unfolding drain_round_def
  by (intro runs_timed_loopM assms)
     (use assms in \<open>auto simp: run_simps intro!: runs_intros ticks_thenM ticks_bindM ticks_returnM ticks_sleep\<close>)

lemma real_runs: "clock_ok os now \<Longrightarrow> runs os now real"
  unfolding real_def real_baseline_def enqueue_batch_def real_batch_def real_graceful_def graceful_body_def
    start_log_def stop_logs_def real_audit_def
  by (intro runs_intros; simp)

lemma scenarios_run [runs_intros]:
  assumes "clock_ok os now"
  shows "runs os now steps" "runs os now policies" "runs os now multi" "runs os now failures"
    "runs os now scheduling" "runs os now pods_scenario" "runs os now real"
proof -
  show "runs os now real" using assms by (rule real_runs)
  show "runs os now steps" unfolding steps_def by (intro runs_intros assms)
  show "runs os now policies" unfolding policies_def by (intro runs_intros assms)
  show "runs os now multi" unfolding multi_def multi_low_def multi_high_def metric_row_def delete_load_def
    by (intro runs_intros assms)
  show "runs os now failures" unfolding failures_def failure_of_def failure_sample_def by (intro runs_intros assms; simp)
  show "runs os now scheduling" unfolding scheduling_def pending_part_def slow_start_part_def
    by (intro runs_intros assms)
  show "runs os now pods_scenario" unfolding pods_scenario_def raw_row_def by (intro runs_intros assms)
qed

lemma hpa_runs:
  assumes "clock_ok os now"
  shows "runs os now (hpa_main c output)"
proof -
  have "runs os now (scenario c)" by (cases c) (simp_all add: scenarios_run [OF assms])
  then show ?thesis unfolding hpa_main_def report_def by (intro runs_intros assms)
qed

end
