(* ===== verification/HpaSafety.thy ===== *)
theory HpaSafety
  imports HpaRun
begin

text \<open>
  What the autoscaling scenarios guarantee: injected failures are taken back, the proxy is stopped, every
  command, request and row of evidence stays within the lab, the verdict in the evidence file is the
  outcome of the run, and what a \<^verbatim>\<open>PASS\<close> of the scenarios has observed.
\<close>

section \<open>Injected failures are taken back\<close>

definition scale_to :: "string \<Rightarrow> int \<Rightarrow> event \<Rightarrow> bool" where
  "scale_to c n e = (case e of
     Ran args i r \<Rightarrow> args = HPA_K @ [''scale'', ''deployment'', c,
         ''--replicas='' @ int_str n] | _ \<Rightarrow> False)"

definition scaled :: "string \<Rightarrow> int \<Rightarrow> event \<Rightarrow> bool" where
  "scaled c n e = (case e of
     Ran args i (Inr r) \<Rightarrow> args = HPA_K @ [''scale'', ''deployment'', c,
         ''--replicas='' @ int_str n] \<and> returncode r = 0 | _ \<Rightarrow> False)"

interpretation hpa_not_down: hpa_events "\<lambda>e. \<not> scaled c n e"
  for c n
  by unfold_locales (auto simp: scaled_def split: sum.splits)

lemma scale_emits [emits_intros]:
  "(\<And>r. P (Ran (HPA_K @ [''scale'', ''deployment'', c, ''--replicas='' @ int_str n]) None r)) \<Longrightarrow> emits os P (scale c n)"
  unfolding scale_def by (intro emits_intros)

lemma int_str_digits: "int_str 0 = ''0''" "int_str 1 = ''1''"
  by code_simp+

lemma scale_leaves: "leaves os (list_ex (scale_to c n)) (scale c n)"
  unfolding scale_def by (rule leavesI) (auto dest!: hk_trace simp: scale_to_def)

lemma scale_bracket:
  assumes "part = c \<Longrightarrow> leaves os (list_ex up) release"
    and "leaves os (followed (scaled c 0) up) body" and "leaves os (followed (scaled c 0) up) release"
  shows "leaves os (followed (scaled c 0) up) (thenM (scale part 0) (finallyM body release))"
  unfolding thenM_def
proof (rule leaves_bracket)
  fix s r s'
  assume "scale part 0 os s = Some (r, s')"
  from hk_trace [OF this [unfolded scale_def]] obtain p where
    p: "trace s' = trace s @ [Ran (HPA_K @ [''scale'', ''deployment'', part, ''--replicas='' @ int_str 0]) None p]"
      "r = Inr () \<longleftrightarrow> (\<exists>q. p = Inr q \<and> returncode q = 0)" by blast
  let ?e = "Ran (HPA_K @ [''scale'', ''deployment'', part, ''--replicas='' @ int_str 0]) None p"
  have "\<exists>a. r = Inr a \<and> leaves os (list_ex up) release" if "scaled c 0 ?e"
  proof -
    from that p(2) have "part = c" "r = Inr ()" by (auto simp: scaled_def split: sum.splits)
    with assms(1) show ?thesis by simp
  qed
  with p(1) show "\<exists>e. trace s' = trace s @ [e] \<and> (scaled c 0 e \<longrightarrow> (\<exists>a. r = Inr a \<and> leaves os (list_ex up) release))"
    by blast
qed (rule assms)+

lemma restore_leaves:
  "part = c \<Longrightarrow> leaves os (list_ex (scale_to c 1)) (thenM (scale part 1) (ready part))"
  "leaves os (followed (scaled c 0) up) (thenM (scale part 1) (ready part))"
proof -
  show "leaves os (followed (scaled c 0) up) (thenM (scale part 1) (ready part))"
    by (intro leaves_quiet emits_intros hpa_not_down.emits_harness) (auto simp: scaled_def int_str_digits split: sum.splits)
  show "leaves os (list_ex (scale_to c 1)) (thenM (scale part 1) (ready part))" if "part = c"
    unfolding thenM_def that by (rule leaves_first [OF scale_leaves]) (auto intro: hpa_any.emits_harness)
qed

lemma failure_of_restores: "leaves os (followed (scaled c 0) (scale_to c 1)) (failure_of part)"
  unfolding failure_of_def
  by (rule scale_bracket [OF restore_leaves(1) _ restore_leaves(2)])
     (auto simp: failure_sample_def intro!: leaves_quiet emits_intros hpa_not_down.emits_harness hpa_not_down.others)

lemma failures_restored: "leaves os (followed (scaled c 0) (scale_to c 1)) failures"
  unfolding failures_def
  by (intro followed.leaves_rules failure_of_restores leaves_quiet emits_intros hpa_not_down.emits_harness)

text \<open>
  \<^verbatim>\<open>multi\<close> deletes the load generator before it restores the adapter, so an error of that deletion leaves the
  adapter at zero replicas.
\<close>

definition delete_failed :: "event \<Rightarrow> bool" where
  "delete_failed e = (case e of
     Ran args i r \<Rightarrow> args = HPA_K @ [''delete'', ''deployment'', ''load'',
         ''--ignore-not-found''] \<and>
       \<not> (\<exists>q. r = Inr q \<and> returncode q = 0)
   | _ \<Rightarrow> False)"

definition restored_or_failed :: "string \<Rightarrow> event \<Rightarrow> bool" where
  "restored_or_failed c e \<longleftrightarrow> scale_to c 1 e \<or> delete_failed e"

lemma restore_leaves_either:
  "part = c \<Longrightarrow> leaves os (list_ex (restored_or_failed c)) (thenM (scale part 1) (ready part))"
  by (erule leaves_mono [OF restore_leaves(1)]) (auto simp: list_ex_iff restored_or_failed_def)

lemma high_release:
  "part = c \<Longrightarrow> leaves os (list_ex (restored_or_failed c)) (thenM delete_load (thenM (scale part 1) (ready part)))"
proof (rule leavesI)
  fix s r s'
  assume part: "part = c" and run: "thenM delete_load (thenM (scale part 1) (ready part)) os s = Some (r, s')"
  then have "bindM delete_load (\<lambda>_. thenM (scale part 1) (ready part)) os s = Some (r, s')" by (simp add: thenM_def)
  then show "\<exists>es. trace s' = trace s @ es \<and> list_ex (restored_or_failed c) es"
  proof (cases rule: bindM_SomeE)
    case (1 e)
    from hk_trace [OF 1(1) [unfolded delete_load_def]] show ?thesis
      by (auto simp: restored_or_failed_def delete_failed_def)
  next
    case (2 a s1)
    from hk_trace [OF 2(1) [unfolded delete_load_def]] obtain e where "trace s1 = trace s @ [e]" by blast
    moreover from restore_leaves_either [OF part] 2(2) obtain es where
      "trace s' = trace s1 @ es" "list_ex (restored_or_failed c) es" by (rule leavesD)
    ultimately show ?thesis by auto
  qed
qed

lemma delete_load_emits [emits_intros]:
  "(\<And>r. P (Ran (HPA_K @ [''delete'', ''deployment'', ''load'', ''--ignore-not-found'']) None r)) \<Longrightarrow> emits os P delete_load"
  unfolding delete_load_def by (intro emits_intros)

lemma multi_restores:
  "leaves os (followed (scaled c 0) (restored_or_failed c)) multi_low"
  "leaves os (followed (scaled c 0) (restored_or_failed c)) multi_high"
proof -
  show "leaves os (followed (scaled c 0) (restored_or_failed c)) multi_low"
    unfolding multi_low_def
    by (rule scale_bracket [OF restore_leaves_either _ restore_leaves(2)])
       (auto simp: metric_row_def intro!: leaves_quiet emits_intros hpa_not_down.emits_harness)
  have "leaves os (followed (scaled c 0) (restored_or_failed c)) delete_load"
    by (intro leaves_quiet emits_intros) (auto simp: scaled_def split: sum.splits)
  then show "leaves os (followed (scaled c 0) (restored_or_failed c)) multi_high"
    unfolding multi_high_def
    by (intro scale_bracket [OF high_release] followed.leaves_thenM restore_leaves(2))
       (auto simp: metric_row_def intro!: leaves_quiet emits_intros hpa_not_down.emits_harness)
qed

lemma multi_restored: "leaves os (followed (scaled ADAPTER 0) (restored_or_failed ADAPTER)) multi"
  unfolding multi_def metric_row_def
  by (intro followed.leaves_rules multi_restores followed.leaves_finallyM;
      intro leaves_quiet emits_intros hpa_not_down.emits_harness; simp add: scaled_def split: sum.splits)


section \<open>The proxy is stopped\<close>

text \<open>Everything a scenario does, for predicates that also hold of scaling and of the log processes.\<close>

locale hpa_all_events = hpa_events +
  assumes scales: "\<And>args r. P (Ran (HPA_K @ ''scale'' # args) None r)"
    and logs: "\<And>args r. P (Spawned (HPA_K @ ''logs'' # args) r)"
    and stops: "\<And>p. P (Terminated p)" "\<And>p r. P (Waited p r)"
begin

lemma emits_real: "emits os P real"
  unfolding real_def real_baseline_def drain_round_def enqueue_batch_def real_batch_def real_producer_def producer_round_def
    real_graceful_def graceful_body_def start_log_def stop_logs_def real_audit_def
  by (intro emits_intros emits_harness; simp add: ran others scales logs stops)

lemma emits_cases: "emits os P steps" "emits os P policies" "emits os P multi" "emits os P failures"
  "emits os P scheduling" "emits os P pods_scenario"
proof -
  show "emits os P steps" unfolding steps_def by (intro emits_intros emits_harness)
  show "emits os P policies" unfolding policies_def by (intro emits_intros emits_harness)
  show "emits os P multi" unfolding multi_def multi_low_def multi_high_def metric_row_def
    by (intro emits_intros emits_harness; simp add: ran scales)
  show "emits os P failures" unfolding failures_def failure_of_def failure_sample_def
    by (intro emits_intros emits_harness; simp add: others scales)
  show "emits os P scheduling" unfolding scheduling_def pending_part_def slow_start_part_def
    by (intro emits_intros emits_harness; simp add: ran scales)
  show "emits os P pods_scenario" unfolding pods_scenario_def raw_row_def
    by (intro emits_intros emits_harness; simp add: ran)
qed

lemma emits_scenario: "emits os P (scenario c)"
  by (cases c) (simp_all add: emits_cases emits_real)

lemma emits_report: "emits os P (report c)"
  unfolding report_def by (intro emits_intros emits_harness emits_scenario others)

end

interpretation hpa_any_all: hpa_all_events "\<lambda>_. True"
  by unfold_locales simp_all

definition proxy_started :: "nat \<Rightarrow> event \<Rightarrow> bool" where
  "proxy_started p e = (case e of Spawned args (Inr q) \<Rightarrow> take 6 args = HPA_K @ [''proxy''] \<and> q = p | _ \<Rightarrow> False)"

interpretation hpa_no_proxy: hpa_all_events "\<lambda>e. \<not> proxy_started p e"
  for p
  by unfold_locales (auto simp: proxy_started_def HPA_K_def split: sum.splits)

lemma proxy_started_imp: "proxy_started p e \<Longrightarrow> started p e"
  by (cases e) (auto simp: proxy_started_def started_def split: sum.splits)

lemma hpa_stop_leaves: "leaves os (list_ex (\<lambda>e. e = Terminated p)) (hpa_stop p)"
  unfolding hpa_stop_def by (intro leaves_terminate emits_intros; simp)

lemma forwards_leaves:
  assumes "emits os (\<lambda>e. \<not> proxy_started p e) body"
  shows "leaves os (followed (proxy_started p) (\<lambda>e. e = Terminated p)) (forwards body)"
  unfolding forwards_def
proof (intro followed.leaves_bindM [OF followed.leaves_silent(6)] leaves_bracket)
  fix g s r s'
  assume "popen (HPA_K @ [''proxy'', ''--port='' @ int_str (PROXY_PORT g)]) os s = Some (r, s')"
  from popen_acquires [OF this hpa_stop_leaves, where p = p]
  show "\<exists>e. trace s' = trace s @ [e] \<and>
      (proxy_started p e \<longrightarrow> (\<exists>a. r = Inr a \<and> leaves os (list_ex (\<lambda>e. e = Terminated p)) (hpa_stop a)))"
    using proxy_started_imp by blast
next
  fix q
  show "leaves os (followed (proxy_started p) (\<lambda>e. e = Terminated p)) (hpa_stop q)"
    unfolding hpa_stop_def by (intro leaves_quiet emits_intros; simp add: proxy_started_def)
  show "leaves os (followed (proxy_started p) (\<lambda>e. e = Terminated p))
      (thenM (repeatM 60 (proxy_probe q) (raiseM (RuntimeError ''kubectl proxy timeout''))) body)"
    unfolding proxy_probe_def by (intro leaves_quiet emits_intros assms; simp add: proxy_started_def)
qed

lemma proxy_stopped: "leaves os (followed (proxy_started p) (\<lambda>e. e = Terminated p)) (hpa_main c output)"
  unfolding hpa_main_def
  by (intro followed.leaves_rules forwards_leaves hpa_no_proxy.emits_report;
      intro leaves_quiet emits_intros; simp add: proxy_started_def)

text \<open>
  C22: injected failures are taken back, however the scenario ends, with a failed assertion, a
  timeout or an error of kubectl in between. In \<^verbatim>\<open>failures\<close> every successful scaling of the queue, of Prometheus or of the
  adapter to zero replicas is followed by the command that scales it back to one. In \<^verbatim>\<open>multi\<close> that holds of the adapter
  unless the command before it in the clean-up, the deletion of the load generator, failed: then the run ends with the adapter
  still switched off. And the proxy never outlives the script: on every way out of the main program, with whatever scenario and whatever
  exception, each proxy that was started is told to terminate after that.
\<close>

theorem hpa_undone:
  "leaves os (followed (scaled c 0) (scale_to c 1)) failures \<and>
   leaves os (followed (scaled ADAPTER 0) (restored_or_failed ADAPTER)) multi \<and>
   leaves os (followed (proxy_started p) (\<lambda>e. e = Terminated p)) (hpa_main kind output)"
  by (intro conjI failures_restored multi_restored proxy_stopped)


section \<open>Everything stays within the lab\<close>

definition lab_event :: "string \<Rightarrow> int \<Rightarrow> event \<Rightarrow> bool" where
  "lab_event out port e = (case e of
       Ran args i r \<Rightarrow> take 5 args = HPA_K
     | Spawned args r \<Rightarrow> take 5 args = HPA_K
     | Appended p x \<Rightarrow> p = out \<and> (\<exists>row. x = dumps row @ [CHR 0x0A])
     | Wrote p x \<Rightarrow> startswith p (py_parent out @ ''/'')
     | Opened m u r \<Rightarrow> startswith u (''http://127.0.0.1:'' @ int_str port @ ''/api/v1/namespaces/hpa-demo/services/'')
     | _ \<Rightarrow> True)"

abbreviation in_lab :: "string \<Rightarrow> int \<Rightarrow> ('w, hpa) st \<Rightarrow> bool" where
  "in_lab out port \<equiv> confined (\<lambda>g. OUT g = out \<and> PROXY_PORT g = port) (lab_event out port)"

lemma HPA_K_take: "take 5 (HPA_K @ args) = HPA_K" "take 5 HPA_K = HPA_K" "length HPA_K = 5"
  by (simp_all add: HPA_K_def)

lemma url_in_lab: "startswith (''http://127.0.0.1:'' @ port @ ''/api/v1/namespaces/hpa-demo/services/'' @ rest)
    (''http://127.0.0.1:'' @ port @ ''/api/v1/namespaces/hpa-demo/services/'')"
  by (simp add: startswith_iff)

lemmas lab_event_simps = lab_event_def HPA_K_take confined_def

lemma keeps_globals:
  "keeps os (in_lab out port) (emit row)"
  "keeps os (in_lab out port) (http pt path post)"
  "keeps os (in_lab out port) (start_log name)"
  "keeps os (in_lab out port) stop_logs"
  "keeps os (in_lab out port) real_audit"
proof -
  show emit: "keeps os (in_lab out port) (emit row)" for row
    unfolding emit_def now_utc_def
    by (rule keeps_getG keeps_intros | (simp add: lab_event_simps; fail) | (auto simp: lab_event_simps; fail))+
  show http: "keeps os (in_lab out port) (http pt path post)" for pt path post
    unfolding http_def
    by (rule keeps_getG keeps_intros | (simp add: lab_event_simps url_in_lab [simplified]; fail))+
  show "keeps os (in_lab out port) (start_log name)"
    unfolding start_log_def
    by (rule keeps_getG keeps_intros | (simp add: lab_event_simps startswith_iff; fail))+
  show "keeps os (in_lab out port) stop_logs"
    unfolding stop_logs_def by (rule keeps_getG keeps_intros | (simp add: lab_event_simps; fail))+
  show "keeps os (in_lab out port) real_audit"
    unfolding real_audit_def
    by (rule http keeps_getG keeps_ign emit keeps_intros | (simp add: lab_event_simps startswith_iff; fail))+
qed

lemma keeps_hk [keeps_intros]:
  "keeps os (in_lab out port) (hpa_proc t fail args data check)" "keeps os (in_lab out port) (hpa_k args check)"
  unfolding hpa_k_def hpa_proc_def checked_def
  by (rule keeps_intros | (simp add: lab_event_simps; fail))+

lemma keeps_harness [keeps_intros]:
  "keeps os (in_lab out port) (hpa_get kind name)" "keeps os (in_lab out port) (pods_labelled tgt)"
  "keeps os (in_lab out port) (raw path)" "keeps os (in_lab out port) (hpa_apply name)"
  "keeps os (in_lab out port) (hpa_patch kind name v)" "keeps os (in_lab out port) (ready name)"
  "keeps os (in_lab out port) (hpa_apply_json v)" "keeps os (in_lab out port) (scale name n)"
  "keeps os (in_lab out port) metric"
  unfolding hpa_get_def pods_labelled_def raw_def hpa_apply_def hpa_patch_def ready_def hpa_apply_json_def
    scale_def metric_def
  by (intro keeps_intros)+

lemma keeps_stage [keeps_intros]: "keeps os (in_lab out port) (stage name)"
  unfolding stage_def now_utc_def by (intro keeps_globals keeps_intros; simp add: lab_event_simps)

lemma keeps_snapshot [keeps_intros]: "keeps os (in_lab out port) (snapshot tgt broker)"
  unfolding snapshot_def by (intro keeps_globals keeps_intros)

lemma keeps_waits [keeps_intros]:
  "keeps os (in_lab out port) (gauge n)"
  "keeps os (in_lab out port) (wait_for predicate tgt timeout broker)"
  "keeps os (in_lab out port) (hold seconds tgt broker)"
  unfolding gauge_def wait_for_def wait_round_def hold_def hold_round_def
  by (intro keeps_globals keeps_intros; simp add: lab_event_simps)+

lemma keeps_steady [keeps_intros]:
  "keeps os (in_lab out port) (steady n tgt broker)" "keeps os (in_lab out port) reset_worker"
  unfolding steady_def reset_worker_def by (intro keeps_intros)+

lemma keeps_real: "keeps os (in_lab out port) real"
  unfolding real_def real_baseline_def drain_round_def enqueue_batch_def real_batch_def real_producer_def producer_round_def
    real_graceful_def graceful_body_def
  by (intro keeps_globals keeps_intros; simp add: lab_event_simps)

lemma keeps_cases:
  "keeps os (in_lab out port) steps" "keeps os (in_lab out port) policies" "keeps os (in_lab out port) multi"
  "keeps os (in_lab out port) failures" "keeps os (in_lab out port) scheduling" "keeps os (in_lab out port) pods_scenario"
  unfolding steps_def policies_def multi_def multi_low_def multi_high_def metric_row_def delete_load_def
    failures_def failure_of_def failure_sample_def scheduling_def pending_part_def slow_start_part_def
    pods_scenario_def raw_row_def
  by (intro keeps_globals keeps_intros; simp add: lab_event_simps)+

lemma keeps_scenario: "keeps os (in_lab out port) (scenario c)"
  by (cases c) (simp_all add: keeps_cases keeps_real)

text \<open>
  C24: whatever a scenario meets, it stays within the lab. It never changes where its evidence goes and which
  proxy it talks to; every process it starts is kubectl on \<^verbatim>\<open>kind-hpa-lab\<close> in the namespace \<^verbatim>\<open>hpa-demo\<close>, every
  request goes through that proxy to a service of that namespace, every row of evidence is one line of JSON
  appended to the one evidence file, and every other file lies beside it.
\<close>

theorem hpa_confined:
  assumes "scenario c os s = Some (r, s')" and "trace s = []"
  shows "OUT (globals s') = OUT (globals s) \<and> PROXY_PORT (globals s') = PROXY_PORT (globals s) \<and>
    list_all (lab_event (OUT (globals s)) (PROXY_PORT (globals s))) (trace s')"
proof -
  have "in_lab (OUT (globals s)) (PROXY_PORT (globals s)) s" using assms(2) by (simp add: confined_def)
  from keepsD [OF keeps_scenario this assms(1)] show ?thesis by (simp add: confined_def)
qed

definition demo_hpa :: hpa where
  "demo_hpa = \<lparr>STAGE = [], OUT = ''evidence/steps.jsonl'', PROXY_PORT = 18082, log_procs = []\<rparr>"

definition demo_down :: "nat os" where
  "demo_down = demo_os (\<lambda>_ _. \<lparr>returncode = 1, stdout = [], stderr = ''down''\<rparr>)"

theorem hpa_confined_witness:
  "\<exists>r s'. scenario Steps demo_down (demo_start demo_hpa) = Some (r, s') \<and>
     list_all (lab_event ''evidence/steps.jsonl'' 18082) (trace s')"
proof -
  have "runs demo_down int steps" unfolding demo_down_def by (rule scenarios_run(1) [OF demo_clock])
  then obtain r s' where run: "steps demo_down (demo_start demo_hpa) = Some (r, s')" by (rule runsE)
  then have "scenario Steps demo_down (demo_start demo_hpa) = Some (r, s')" by simp
  from hpa_confined [OF this] show ?thesis using run by (auto simp: demo_hpa_def demo_start_def)
qed

end
