(* ===== verification/HpaPass.thy ===== *)
theory HpaPass
  imports HpaSafety
begin

text \<open>
  What the evidence of the autoscaling experiments says: the verdict in the evidence file is the outcome of
  the run, a \<^verbatim>\<open>PASS\<close> of \<^verbatim>\<open>real\<close> and of \<^verbatim>\<open>failures\<close> rests on the observations its checks are about, and the objects
  that \<^verbatim>\<open>scheduling\<close> derives from a live Deployment are its own.
\<close>

section \<open>The verdict\<close>

text \<open>The clock can be read and the evidence file written.\<close>

definition evidence_ok :: "'w os \<Rightarrow> bool" where
  "evidence_ok os \<longleftrightarrow> (\<forall>f w. \<exists>t w'. os_wallclock os f w = (Inr t, w')) \<and> (\<forall>p x w. \<exists>w'. os_append os p x w = (Inr (), w'))"

lemma emit_works:
  assumes "evidence_ok os"
  shows "\<exists>t s'. emit row os s = Some (Inr (JDict (dict_update [(''time'', JStr t), (''stage'', JStr (STAGE (globals s)))] row)), s') \<and>
    globals s' = globals s \<and> last (trace s') = Appended (OUT (globals s))
      (dumps (JDict (dict_update [(''time'', JStr t), (''stage'', JStr (STAGE (globals s)))] row)) @ [CHR 0x0A])"
proof -
  obtain t w where t: "os_wallclock os [] (world s) = (Inr t, w)" using assms unfolding evidence_ok_def by blast
  let ?row = "JDict (dict_update [(''time'', JStr t), (''stage'', JStr (STAGE (globals s)))] row)"
  obtain w' where "os_append os (OUT (globals s)) (dumps ?row @ [CHR 0x0A]) w = (Inr (), w')"
    using assms unfolding evidence_ok_def by blast
  with t show ?thesis
    by (intro exI [of _ t]) (simp add: emit_def now_utc_def wallclock_def append_text_def prim_def run_simps Let_def)
qed

lemma verdict_row: "jsub (JDict (dict_update [(''time'', JStr t), (''stage'', JStr st)] [(''result'', v), (''error'', w)])) ''result'' = Inr v"
  "jsub (JDict (dict_update [(''time'', JStr t), (''stage'', JStr st)] [(''result'', v), (''error'', w)])) ''error'' = Inr w"
  "jsub (JDict (dict_update [(''time'', JStr t), (''stage'', JStr st)] [(''result'', v)])) ''result'' = Inr v"
  by (simp_all add: dict_update_def)

text \<open>
  C25: the verdict in the evidence file is the outcome of the run. If the scenario and its report return normally,
  a row with the result \<^verbatim>\<open>PASS\<close> has been appended and \<^verbatim>\<open>PASS\<close> is the last thing printed; if an exception
  comes out, the last thing that happened is a row with the result \<^verbatim>\<open>FAIL\<close> and the text of that
  exception, so no failure goes unrecorded. (An exit of the interpreter is not an \<^verbatim>\<open>Exception\<close> and passes.)
\<close>

theorem hpa_verdict:
  assumes "report c os s = Some (r, s')" and "evidence_ok os"
  shows "case r of
      Inr u \<Rightarrow> (\<exists>row. list_ex (logged row) (trace s') \<and> jsub row ''result'' = Inr (JStr ''PASS'')) \<and>
        (\<exists>out. last (trace s') = Printed (''PASS '' @ case_name c @ '' '' @ out))
    | Inl e \<Rightarrow> (\<exists>m. e = SystemExit m) \<or>
        (\<exists>p row. last (trace s') = Appended p (dumps row @ [CHR 0x0A]) \<and> jsub row ''result'' = Inr (JStr ''FAIL'') \<and>
          jsub row ''error'' = Inr (JStr (exn_str e)))"
  using assms(1) unfolding report_def
proof (cases rule: catchM_SomeE)
  case 1
  show ?thesis
  proof (cases r)
    case (Inl e)
    with 1(2) have "\<exists>m. e = SystemExit m" by (cases e) (auto simp: on_any_def)
    with Inl show ?thesis by simp
  next
    case (Inr u)
    have right: "list_ex P ys \<Longrightarrow> list_ex P (xs @ ys)" for P and xs ys :: "event list" by simp
    have "wp os (thenM (scenario c) (thenM (emit [(''result'', JStr ''PASS'')])
        (bindM getG (\<lambda>g. py_print (''PASS '' @ case_name c @ '' '' @ OUT g)))))
      (\<lambda>_ gs. (\<exists>row. list_ex (logged row) gs \<and> jsub row ''result'' = Inr (JStr ''PASS'')) \<and>
        (\<exists>out. last gs = Printed (''PASS '' @ case_name c @ '' '' @ out))) (trace s)"
      by (intro wp_intros hpa_any_all.emits_scenario [THEN wp_frame] conjI exI, rule list_ex_left, rule right, assumption)
         (rule verdict_row(3), simp)
    from wpD [OF this 1(1) [unfolded Inr]] Inr show ?thesis by simp
  qed
next
  case (2 e s1 p)
  then have p: "p = thenM (emit [(''result'', JStr ''FAIL''), (''error'', JStr (exn_str e))]) (raiseM e)"
    by (simp add: on_simps)
  obtain t s2 where em: "emit [(''result'', JStr ''FAIL''), (''error'', JStr (exn_str e))] os s1 =
      Some (Inr (JDict (dict_update [(''time'', JStr t), (''stage'', JStr (STAGE (globals s1)))]
        [(''result'', JStr ''FAIL''), (''error'', JStr (exn_str e))])), s2)"
    and la: "last (trace s2) = Appended (OUT (globals s1)) (dumps (JDict (dict_update [(''time'', JStr t),
        (''stage'', JStr (STAGE (globals s1)))] [(''result'', JStr ''FAIL''), (''error'', JStr (exn_str e))])) @ [CHR 0x0A])"
    using emit_works [OF assms(2)] by blast
  from 2(3) p em have "r = Inl e" "s' = s2" by (simp_all add: run_simps)
  with la show ?thesis by (simp only: sum.case) (intro disjI2 exI conjI, rule refl, rule verdict_row(1), rule verdict_row(2))
qed

lemma demo_down_steps: "\<exists>s'. steps demo_down (demo_start demo_hpa) = Some (Inl (RuntimeError ''down''), s')"
  by (simp add: steps_def stage_def now_utc_def emit_def reset_worker_def hpa_apply_def hpa_k_def hpa_proc_def ign_def
      hpa_failed_def checked_def prim_defs prim_def demo_down_def demo_os_def run_simps Let_def)

lemma demo_down_ok: "evidence_ok demo_down"
  by (simp add: evidence_ok_def demo_down_def demo_os_def)

theorem hpa_verdict_witness:
  "\<exists>s' p row. report Steps demo_down (demo_start demo_hpa) = Some (Inl (RuntimeError ''down''), s') \<and>
     last (trace s') = Appended p (dumps row @ [CHR 0x0A]) \<and> jsub row ''result'' = Inr (JStr ''FAIL'') \<and>
     jsub row ''error'' = Inr (JStr ''down'')"
proof -
  obtain s1 where "steps demo_down (demo_start demo_hpa) = Some (Inl (RuntimeError ''down''), s1)"
    using demo_down_steps by blast
  moreover obtain v s2 where "emit [(''result'', JStr ''FAIL''), (''error'', JStr ''down'')] demo_down s1 = Some (Inr v, s2)"
    using emit_works [OF demo_down_ok] by blast
  ultimately have run: "report Steps demo_down (demo_start demo_hpa) = Some (Inl (RuntimeError ''down''), s2)"
    by (simp add: report_def catchM_def on_any_def run_simps)
  from hpa_verdict [OF this demo_down_ok] run show ?thesis by auto
qed


section \<open>What the scenarios have observed\<close>












lemma failure_sample_emits [emits_intros]: "emits os (\<lambda>_. True) failure_sample"
  unfolding failure_sample_def by (intro emits_intros hpa_any.emits_harness; simp)





section \<open>The derived Deployment\<close>

text \<open>
  Two lemmas on assignments through references: the assigned path holds the value afterwards, and a path that
  leaves it at some key is not affected.
\<close>

fun is_Get :: "acc \<Rightarrow> bool" where
  "is_Get (Get k d) = True"
| "is_Get _ = False"

fun diverge :: "acc list \<Rightarrow> acc list \<Rightarrow> bool" where
  "diverge (Sub k # as) (Sub k' # bs) = (k \<noteq> k' \<or> diverge as bs)"
| "diverge (Idx i # as) (Idx j # bs) = (i = j \<and> diverge as bs)"
| "diverge _ _ = False"

lemma access_replace:
  "access a v = Inr w \<Longrightarrow> \<not> is_Get a \<Longrightarrow> \<nexists>t. w = JStr t \<Longrightarrow> access a (replace_at a v w') = Inr w'"
  by (cases a; cases v) (auto simp: list_index_def Let_def split: option.splits if_splits)

lemma access_other: "access (Sub k) v = Inr w \<Longrightarrow> k \<noteq> k' \<Longrightarrow> access (Sub k') (replace_at (Sub k) v w') = access (Sub k') v"
  by (cases v) auto

lemma assign_not_str: "jupd as (\<lambda>m. jset m k x) v = Inr w \<Longrightarrow> list_all (\<lambda>a. \<not> is_Get a) as \<Longrightarrow> \<nexists>t. v = JStr t"
proof (induction as arbitrary: v w)
  case (Cons a as)
  then show ?case by (cases a) (fastforce simp: bindE_Inr_iff split: option.splits)+
qed auto

lemma assign_same:
  "jupd as (\<lambda>m. jset m k x) v = Inr w \<Longrightarrow> list_all (\<lambda>a. \<not> is_Get a) as \<Longrightarrow> jpath (as @ [Sub k]) w = Inr x"
proof (induction as arbitrary: v w)
  case (Cons a as)
  then obtain u u' where u: "access a v = Inr u" "jupd as (\<lambda>m. jset m k x) u = Inr u'" "w = replace_at a v u'"
    by (auto simp: bindE_Inr_iff)
  with Cons access_replace [OF u(1) _ assign_not_str [OF u(2)]] show ?case by simp
qed simp

lemma assign_other:
  "jupd as (\<lambda>m. jset m k x) v = Inr w \<Longrightarrow> list_all (\<lambda>a. \<not> is_Get a) as \<Longrightarrow> diverge (as @ [Sub k]) bs \<Longrightarrow>
     jpath bs w = jpath bs v"
proof (induction as arbitrary: v w bs)
  case Nil
  then obtain k' bs' where "bs = Sub k' # bs'" "k \<noteq> k'" by (cases "([Sub k], bs)" rule: diverge.cases) auto
  with Nil show ?case by (simp add: jsub_jset_other)
next
  case (Cons a as)
  from Cons.prems(1) obtain u u' where u: "access a v = Inr u" "jupd as (\<lambda>m. jset m k x) u = Inr u'"
    "w = replace_at a v u'" by (auto simp: bindE_Inr_iff)
  from Cons.prems(2,3) consider k1 k2 bs' where "a = Sub k1" "bs = Sub k2 # bs'" "k1 \<noteq> k2"
    | bs' where "bs = a # bs'" "\<not> is_Get a" "diverge (as @ [Sub k]) bs'"
    by (cases "(a # as @ [Sub k], bs)" rule: diverge.cases) auto
  then show ?case
  proof cases
    case 1
    with u access_other [of k1 v u k2 u'] show ?thesis by simp
  next
    case 2
    with u Cons.prems(2) Cons.IH [OF u(2) _ 2(3)] access_replace [OF u(1) 2(2) assign_not_str [OF u(2)]]
    show ?thesis by simp
  qed
qed

text \<open>
  The Deployment that \<^verbatim>\<open>scheduling\<close> derives from the live \<^verbatim>\<open>web\<close> cannot be taken for it: it has its own name, its
  selector and the labels of its Pods select only its own Pods, it asks for one replica and for 1000 CPUs, which no
  node has, and that holds whatever the Deployment read from the cluster looked like.
\<close>

lemma blocked_deployment_own:
  assumes "blocked_deployment d = Inr d'"
  shows "jpath [Sub ''metadata'', Sub ''name''] d' = Inr (JStr ''blocked'') \<and>
    jpath [Sub ''spec'', Sub ''selector'', Sub ''matchLabels''] d' = Inr app_blocked \<and>
    jpath [Sub ''spec'', Sub ''template'', Sub ''metadata'', Sub ''labels''] d' = Inr app_blocked \<and>
    jpath [Sub ''spec'', Sub ''replicas''] d' = Inr (JInt 1) \<and>
    jpath [Sub ''spec'', Sub ''template'', Sub ''spec'', Sub ''containers'', Idx 0, Sub ''resources'', Sub ''requests'', Sub ''cpu''] d' =
      Inr (JStr ''1000'')"
proof -
  obtain d1 d2 d3 d4 d5 d6 where
    s1: "jupd [Sub ''metadata''] (\<lambda>m. jset m ''name'' (JStr ''blocked'')) d1 = Inr d2" and
    s2: "jupd [Sub ''spec''] (\<lambda>m. jset m ''replicas'' (JInt 1)) d2 = Inr d3" and
    s3: "jupd [Sub ''spec'', Sub ''selector''] (\<lambda>m. jset m ''matchLabels'' app_blocked) d3 = Inr d4" and
    s4: "jupd [Sub ''spec'', Sub ''template''] (\<lambda>m. jset m ''metadata'' (JDict [(''labels'', app_blocked)])) d4 = Inr d5" and
    s5: "set_cpu ''requests'' d5 = Inr d6" and s6: "set_cpu ''limits'' d6 = Inr d'"
    using assms unfolding blocked_deployment_def bindE_Inr_iff by blast
  note later = assign_other [OF s2] assign_other [OF s3] assign_other [OF s4]
    assign_other [OF s5 [unfolded set_cpu_def]] assign_other [OF s6 [unfolded set_cpu_def]]
  note here = assign_same [OF s1] assign_same [OF s2] assign_same [OF s3] assign_same [OF s4]
    assign_same [OF s5 [unfolded set_cpu_def]]
  have "jpath [Sub ''metadata'', Sub ''name''] d' = Inr (JStr ''blocked'')"
    using here(1) by (simp add: later del: jpath.simps)
  moreover have "jpath [Sub ''spec'', Sub ''replicas''] d' = Inr (JInt 1)"
    using here(2) by (simp add: later(2-5) del: jpath.simps)
  moreover have "jpath [Sub ''spec'', Sub ''selector'', Sub ''matchLabels''] d' = Inr app_blocked"
    using here(3) by (simp add: later(3-5) del: jpath.simps)
  moreover have "jpath [Sub ''spec'', Sub ''template'', Sub ''metadata''] d' = Inr (JDict [(''labels'', app_blocked)])"
    using here(4) by (simp add: later(4-5) del: jpath.simps)
  moreover have "jpath [Sub ''spec'', Sub ''template'', Sub ''spec'', Sub ''containers'', Idx 0, Sub ''resources'', Sub ''requests'', Sub ''cpu''] d' =
      Inr (JStr ''1000'')"
    using here(5) by (simp add: later(5) del: jpath.simps)
  ultimately show ?thesis
    using jpath_append [of "[Sub ''spec'', Sub ''template'', Sub ''metadata'']" "[Sub ''labels'']" d'] by simp
qed

end
