(* ===== verification/VolcanoLab.thy ===== *)
theory VolcanoLab
  imports Kubectl Invariant Observe PyNum Demo
begin

text \<open>
  \<^verbatim>\<open>volcano-hami/run-tests.py\<close>, the harness of the scheduler test matrix: the runner of kubectl, polling, the
  listings of Pods, the builders of queues and jobs, the scheduler configuration, the evidence of a case, and \<^verbatim>\<open>case\<close>, which
  runs one test and records its verdict. The module variables \<^verbatim>\<open>CASE\<close> and \<^verbatim>\<open>RESULTS\<close> are the global state. The scripts
  \<^verbatim>\<open>run-advanced.py\<close>, \<^verbatim>\<open>run-boundaries.py\<close> and \<^verbatim>\<open>run-startup-probe.py\<close> import this module.
\<close>

section \<open>State and libraries\<close>

record vol =
  CASE :: string
  RESULTS :: "json list"

type_synonym ('w, 'a) vprog = "('w, vol, 'a) prog"

text \<open>
  What the scripts use and the model leaves open: the YAML library (\<^verbatim>\<open>safe_dump\<close> with \<^verbatim>\<open>sort_keys=False\<close> and its option
  \<^verbatim>\<open>allow_unicode\<close>, and \<^verbatim>\<open>safe_load\<close>), the text of \<^verbatim>\<open>traceback.format_exc()\<close> with its stack frames, and the float \<^verbatim>\<open>round(t, 2)\<close> of
  an elapsed time.
\<close>

record pylib =
  safe_dump :: "bool \<Rightarrow> json \<Rightarrow> string"
  safe_load :: "string \<Rightarrow> exn + json"
  format_exc :: "exn \<Rightarrow> string"
  seconds :: "int \<Rightarrow> string"

definition V_NS :: string where
  "V_NS = ''volcano-tests''"

definition V_CTX :: string where
  "V_CTX = ''kind-volcano-lab''"

definition v_out :: "('w, string) vprog" where
  "v_out = bindM (getenv ''RESULT_DIR'') (\<lambda>v. returnM (case v of None \<Rightarrow> ''results'' | Some p \<Rightarrow> p))"

definition v_import :: "('w, unit) vprog" where          \<comment> \<open>the module's own statement \<^verbatim>\<open>OUT.mkdir\<close>\<close>
  "v_import = bindM v_out mkdir"

definition v_dir :: "('w, string) vprog" where           \<comment> \<open>\<^verbatim>\<open>OUT / CASE\<close>\<close>
  "v_dir = bindM v_out (\<lambda>root. bindM getG (\<lambda>g. returnM (root @ ''/'' @ CASE g)))"

definition v_write :: "string \<Rightarrow> string \<Rightarrow> ('w, unit) vprog" where   \<comment> \<open>\<^verbatim>\<open>(OUT/CASE/name).write_text(t)\<close>\<close>
  "v_write name t = bindM v_dir (\<lambda>d. write_text (d @ ''/'' @ name) t)"


section \<open>Runner and polling\<close>

definition v_failed :: "string list \<Rightarrow> proc \<Rightarrow> exn" where
  "v_failed args r = RuntimeError (if stderr r = [] then stdout r else stderr r)"

definition v_run :: "string list \<Rightarrow> string option \<Rightarrow> bool \<Rightarrow> ('w, proc) vprog" where
  "v_run args data check =
     bindM (run_process (''kubectl'' # ''--context'' # V_CTX # args) data (Some 100))
       (checked check (v_failed (''kubectl'' # ''--context'' # V_CTX # args)))"

definition v_proc :: "string list \<Rightarrow> json option \<Rightarrow> bool \<Rightarrow> ('w, proc) vprog" where
  "v_proc args obj check = v_run args (map_option dumps obj) check"

text \<open>With \<^verbatim>\<open>check\<close>, \<^verbatim>\<open>k\<close> returns the text; without, the process.\<close>

definition v_k :: "string list \<Rightarrow> json option \<Rightarrow> ('w, string) vprog" where
  "v_k args obj = bindM (v_proc args obj True) (\<lambda>r. returnM (stdout r))"

abbreviation vcmd :: "string list \<Rightarrow> ('w, string) vprog" where
  "vcmd args \<equiv> v_k args None"

abbreviation vtry :: "string list \<Rightarrow> ('w, proc) vprog" where
  "vtry args \<equiv> v_proc args None False"

definition v_get :: "string \<Rightarrow> string option \<Rightarrow> bool \<Rightarrow> ('w, json) vprog" where
  "v_get kind name in_ns =
     bindM (vcmd ((if in_ns then [''-n'', V_NS] else []) @ [''get'', kind]
         @ (case name of None \<Rightarrow> [] | Some n \<Rightarrow> if n = [] then [] else [n]) @ [''-o'', ''json'']))
       py_loads"

definition yaml_header :: string where
  "yaml_header = (map char_of [
     35, 32, 230, 156, 172, 231, 148, 168, 228, 190, 139, 231, 154, 132, 229, 174, 158, 233, 153, 133, 232,
     190, 147, 229, 133, 165, 239, 188, 155, 232, 181, 132, 230, 186, 144, 232, 175, 183, 230, 177, 130, 228,
     184, 142, 231, 173, 150, 231, 149, 165, 229, 173, 151, 230, 174, 181, 231, 148, 168, 228, 186, 142, 233,
     170, 140, 232, 175, 129, 232, 176, 131, 229, 186, 166, 232, 190, 185, 231, 149, 140, 227, 128, 130, 10,
     35, 32, 67, 80, 85, 32, 229, 141, 149, 228, 189, 141, 228, 184, 186, 230, 160, 184, 239, 188, 140, 118,
     103, 112, 117, 45, 109, 101, 109, 111, 114, 121, 32, 230, 175, 143, 229, 141, 149, 228, 189, 141, 228,
     184, 186, 32, 49, 48, 48, 32, 77, 105, 66, 239, 188, 140, 118, 103, 112, 117, 45, 99, 111, 114, 101,
     115, 32, 228, 184, 186, 231, 153, 190, 229, 136, 134, 230, 175, 148, 227, 128, 130, 10 :: nat])"

definition v_apply :: "pylib \<Rightarrow> json \<Rightarrow> ('w, string) vprog" where
  "v_apply Y obj =
    (bindM v_dir (\<lambda>d.
     thenM (mkdir d) (
     bindM (liftE (bindE (jsub obj ''kind'') (str_method ''lower''))) (\<lambda>kind.
     bindM (liftE (bindE (jpath [Sub ''metadata'', Sub ''name''] obj) jstr)) (\<lambda>name.
     thenM (write_text (d @ ''/'' @ lower kind @ ''-'' @ name @ ''.yaml'') (yaml_header @ safe_dump Y True obj)) (
     v_k [''apply'', ''-f'', ''-''] (Some obj)))))))"

text \<open>Every condition is a truth value, so \<^verbatim>\<open>last\<close>, which the message prints, is \<^verbatim>\<open>None\<close> or \<^verbatim>\<open>False\<close>.\<close>

definition v_expired :: "int \<Rightarrow> string \<Rightarrow> exn" where
  "v_expired timeout lst = AssertionError (''condition timed out after '' @ int_str timeout @ ''s: '' @ lst)"

definition v_wait :: "('w, bool) vprog \<Rightarrow> int \<Rightarrow> ('w, unit) vprog" where
  "v_wait fn timeout = bindM monotonic (\<lambda>t0. let deadline = t0 + 1000 * timeout in
     loopS (\<lambda>last. bindM monotonic (\<lambda>t.
       if t < deadline
       then bindM fn (\<lambda>b. if b then returnM (Inr ()) else thenM (sleep 1000) (returnM (Inl ''False'')))
       else raiseM (v_expired timeout last))) ''None'')"


section \<open>Pods and jobs\<close>

definition of_job :: "string option \<Rightarrow> json \<Rightarrow> exn + bool" where
  "of_job jb p = (case jb of None \<Rightarrow> Inr True
     | Some j \<Rightarrow> if j = [] then Inr True
         else eqE (jpath [Sub ''metadata'', Get ''labels'' emptyD, get0 ''volcano.sh/job-name''] p) (JStr j))"

definition v_pods :: "string option \<Rightarrow> ('w, json list) vprog" where
  "v_pods jb = bindM (v_get ''pods'' None True)
     (\<lambda>doc. liftE (bindE (bindE (jsub doc ''items'') jiter) (filterE (of_job jb))))"

definition is_running :: "json \<Rightarrow> exn + bool" where
  "is_running p = eqE (jpath [Get ''status'' emptyD, get0 ''phase''] p) (JStr ''Running'')"

definition v_running :: "string \<Rightarrow> ('w, json list) vprog" where
  "v_running jb = bindM (v_pods (Some jb)) (\<lambda>ps. liftE (filterE is_running ps))"

text \<open>\<^verbatim>\<open>len(pods(job)) == n\<close>, \<^verbatim>\<open>len(running(job)) == n\<close>, and the waits for the latter.\<close>

definition pods_are :: "string \<Rightarrow> nat \<Rightarrow> ('w, bool) vprog" where
  "pods_are jb n = bindM (v_pods (Some jb)) (\<lambda>ps. returnM (length ps = n))"

definition running_are :: "string \<Rightarrow> nat \<Rightarrow> ('w, bool) vprog" where
  "running_are jb n = bindM (v_running jb) (\<lambda>ps. returnM (length ps = n))"

definition await_running :: "string \<Rightarrow> nat \<Rightarrow> ('w, unit) vprog" where
  "await_running jb n = v_wait (running_are jb n) 70"

definition unbound :: "json \<Rightarrow> exn + bool" where
  "unbound p = bindE (jpath [Sub ''spec'', get0 ''nodeName''] p) (\<lambda>v. Inr (\<not> truth v))"

definition v_pending :: "string \<Rightarrow> nat \<Rightarrow> ('w, unit) vprog" where
  "v_pending jb n = thenM (v_wait (pods_are jb n) 70)
     (forM [0..<6::nat] (\<lambda>_.
       (bindM (v_pods (Some jb)) (\<lambda>pp.
        bindM (liftE (andE (Inr (length pp = n)) (everyE unbound pp))) (\<lambda>b.
        thenM (assertM (jrepr (JList pp)) b) (
        sleep 1000))))))"

definition v_delete_job :: "string \<Rightarrow> ('w, unit) vprog" where
  "v_delete_job name =
    (thenM (vcmd [''-n'', V_NS, ''delete'', ''jobs.batch.volcano.sh'', name, ''--wait=true'',
           ''--timeout=45s'']) (
     v_wait (pods_are name 0) 70))"

definition v_clean :: "('w, unit) vprog" where
  "v_clean =
    (thenM (vtry [''-n'', V_NS, ''delete'', ''jobs.batch.volcano.sh,pods,podgroups'', ''--all'',
           ''--wait=true'', ''--timeout=45s'']) (
     thenM (v_wait (bindM (v_pods None) (\<lambda>ps. returnM (ps = []))) 45) (
     ign (vtry [''delete'', ''queues'', ''-l'', ''lab=volcano'', ''--wait=true'', ''--timeout=30s'']))))"

definition v_queue :: "string \<Rightarrow> (string \<times> json) list \<Rightarrow> json" where
  "v_queue name spec = JDict
     [(''apiVersion'', JStr ''scheduling.volcano.sh/v1beta1''), (''kind'', JStr ''Queue''),
      (''metadata'', JDict [(''name'', JStr name), (''labels'', JDict [(''lab'', JStr ''volcano'')])]),
      (''spec'', JDict (dict_update [(''weight'', JInt 1), (''reclaimable'', JBool True)] spec))]"

text \<open>The keyword arguments of \<^verbatim>\<open>job\<close> with their defaults.\<close>

record jobargs =
  j_n :: int
  j_minimum :: "int option"
  j_cpu :: string
  j_q :: string
  j_gpu :: "(string \<times> int) list"
  j_node :: "string option"
  j_command :: "string list"
  j_annotations :: "(string \<times> json) list"
  j_extra :: "(string \<times> json) list"

definition args0 :: jobargs where
  "args0 = \<lparr>j_n = 1, j_minimum = None, j_cpu = ''100m'', j_q = ''lab'', j_gpu = [], j_node = None, j_command = [],
     j_annotations = [], j_extra = []\<rparr>"

definition gpu_limits :: "(string \<times> int) list \<Rightarrow> (string \<times> json) list" where
  "gpu_limits gpu = map (\<lambda>(key, val). (''volcano.sh/vgpu-'' @ key, JInt (if key = ''memory'' then val div 100 else val))) gpu"

definition work_container :: "jobargs \<Rightarrow> json" where
  "work_container a = JDict
     ([(''name'', JStr ''work''), (''image'', JStr ''ubuntu:22.04''), (''imagePullPolicy'', JStr ''IfNotPresent''),
       (''command'', JList (map JStr (if j_command a = [] then [''sleep'', ''3600''] else j_command a))),
       (''resources'', JDict
         ([(''requests'', JDict [(''cpu'', JStr (j_cpu a)), (''memory'', JStr ''32Mi'')])]
          @ (if j_gpu a = [] then [] else [(''limits'', JDict (gpu_limits (j_gpu a)))])))]
      @ (if j_gpu a = [] then [] else
          [(''volumeMounts'', (JList
            [JDict
               [(''name'', JStr ''cuda''),
                (''mountPath'', JStr ''/usr/lib/x86_64-linux-gnu/libcuda.so.1''),
                (''readOnly'', JBool True)]]))]))"

definition pod_spec :: "jobargs \<Rightarrow> json" where
  "pod_spec a = JDict
     ([(''restartPolicy'', JStr ''Never''), (''terminationGracePeriodSeconds'', JInt 0), (''containers'', JList [work_container a])]
      @ (case j_node a of None \<Rightarrow> [] | Some n \<Rightarrow> if n = [] then [] else
          [(''nodeSelector'', JDict [(''kubernetes.io/hostname'', JStr n)])])
      @ (if j_gpu a = [] then [] else
          [(''runtimeClassName'', JStr ''nvidia''), (''volumes'', (JList
            [JDict
               [(''name'', JStr ''cuda''),
                (''hostPath'',
                  JDict
                    [(''path'', JStr ''/var/lib/nvml-mock/driver/usr/lib64/libcuda.so.1''),
                     (''type'', JStr ''File'')])]]))]))"

definition v_job :: "string \<Rightarrow> jobargs \<Rightarrow> json" where
  "v_job name a = JDict
     [(''apiVersion'', JStr ''batch.volcano.sh/v1alpha1''), (''kind'', JStr ''Job''),
      (''metadata'', JDict [(''name'', JStr name), (''namespace'', JStr V_NS)]),
      (''spec'', JDict (dict_update
         [(''schedulerName'', JStr ''volcano''),
          (''minAvailable'', JInt (case j_minimum a of None \<Rightarrow> j_n a | Some i \<Rightarrow> i)), (''queue'', JStr (j_q a)),
          (''tasks'', JList [JDict
             [(''name'', JStr ''worker''), (''replicas'', JInt (j_n a)),
              (''template'', JDict [(''metadata'', JDict [(''annotations'', JDict (j_annotations a))]), (''spec'', pod_spec a)])]])]
         (j_extra a)))]"


section \<open>Scheduler configuration\<close>

text \<open>The keyword arguments of \<^verbatim>\<open>config\<close> besides \<^verbatim>\<open>mode\<close>, with their defaults.\<close>

record confargs =
  c_policy :: string
  c_weight :: int
  c_extra :: "json list"

definition conf0 :: confargs where
  "conf0 = \<lparr>c_policy = ''binpack'', c_weight = 0, c_extra = []\<rparr>"

definition v_plugins :: "string \<Rightarrow> confargs \<Rightarrow> json list" where
  "v_plugins mode a =
     [JDict [(''name'', JStr ''drf''), (''enablePreemptable'', JBool False)], JDict [(''name'', JStr ''predicates'')],
      JDict [(''name'', JStr mode)], JDict [(''name'', JStr ''nodeorder'')],
      JDict [(''name'', JStr ''binpack''), (''arguments'', JDict [(''binpack.weight'', JInt 10)])],
      JDict [(''name'', JStr ''deviceshare''), (''arguments'', JDict
        [(''deviceshare.VGPUEnable'', JBool True), (''deviceshare.SchedulePolicy'', JStr (c_policy a)),
         (''deviceshare.ScheduleWeight'', JInt (c_weight a))])]] @ c_extra a"

definition v_conf :: "json list \<Rightarrow> json" where
  "v_conf plugins = (JDict
    [(''actions'', JStr ''enqueue, reclaim, allocate, backfill, preempt''),
     (''tiers'',
       JList
         [JDict
            [(''plugins'',
               JList
                 [JDict [(''name'', JStr ''priority'')],
                  JDict [(''name'', JStr ''gang'')],
                  JDict [(''name'', JStr ''conformance'')]])],
          JDict [(''plugins'', (JList plugins))]])])"

definition conf_metadata :: json where
  "conf_metadata = (JDict [(''name'', JStr ''volcano-scheduler-configmap''), (''namespace'', JStr ''volcano-system'')])"

definition v_install :: "pylib \<Rightarrow> json \<Rightarrow> json \<Rightarrow> ('w, unit) vprog" where
  "v_install Y cm conf =
    (bindM (liftE (jupd [Sub ''data''] (\<lambda>d. jset d ''volcano-scheduler.conf'' (JStr (safe_dump Y False conf))) cm)) (\<lambda>cm1.
     bindM (liftE (jset cm1 ''metadata'' conf_metadata)) (\<lambda>cm2.
     thenM (v_apply Y cm2) (
     thenM (vcmd [''-n'', ''volcano-system'', ''rollout'', ''restart'', ''deployment/volcano-scheduler'']) (
     ign (vcmd [''-n'', ''volcano-system'', ''rollout'', ''status'',
           ''deployment/volcano-scheduler'', ''--timeout=90s'']))))))"

definition get_conf :: "('w, json) vprog" where
  "get_conf = bindM (vcmd [''-n'', ''volcano-system'', ''get'', ''cm'',
      ''volcano-scheduler-configmap'', ''-o'', ''json'']) py_loads"

definition v_config :: "pylib \<Rightarrow> string \<Rightarrow> confargs \<Rightarrow> ('w, unit) vprog" where
  "v_config Y mode a = bindM get_conf (\<lambda>cm. v_install Y cm (v_conf (v_plugins mode a)))"


section \<open>One case\<close>

definition v_snapshot :: "('w, unit) vprog" where
  "v_snapshot =
    (bindM v_dir (\<lambda>d.
     thenM (mkdir d) (
     thenM (forM [''pods'', ''jobs.batch.volcano.sh'', ''podgroups'', ''events'']
         (\<lambda>kind. bindM (vcmd [''-n'', V_NS, ''get'', kind, ''-o'', ''json'']) (write_text (d @ ''/'' @ kind @ ''.json'')))) (
     bindM (vcmd [''get'', ''queues'', ''-o'', ''json'']) (\<lambda>q.
     thenM (write_text (d @ ''/queues.json'') q) (
     bindM (vtry [''-n'', ''volcano-system'', ''logs'', ''deployment/volcano-scheduler'', ''--tail=120'']) (\<lambda>r.
     write_text (d @ ''/scheduler.log'') (stdout r))))))))"

definition case_body :: "pylib \<Rightarrow> ('w, unit) vprog \<Rightarrow> string option \<Rightarrow> ('w, unit) vprog" where
  "case_body Y fn mode =
    (thenM v_clean (
     thenM (case mode of None \<Rightarrow> returnM () | Some md \<Rightarrow> if md = [] then returnM () else v_config Y md conf0) (
     thenM (v_apply Y (v_queue ''lab'' [])) (
     fn))))"

definition result_row :: "pylib \<Rightarrow> string \<Rightarrow> string option \<Rightarrow> int \<Rightarrow> json" where
  "result_row Y name err elapsed = JDict
     [(''case'', JStr name), (''status'', JStr (case err of None \<Rightarrow> ''PASS'' | Some x \<Rightarrow> if x = [] then ''PASS'' else ''FAIL'')),
      (''seconds'', JFloat (seconds Y elapsed)), (''error'', (case err of None \<Rightarrow> JNull | Some x \<Rightarrow> JStr x))]"

text \<open>The text of the exception of the body, then of the snapshot.\<close>

definition case_error :: "pylib \<Rightarrow> ('w, unit) vprog \<Rightarrow> string option \<Rightarrow> ('w, string option) vprog" where
  "case_error Y fn mode =
    (bindM (catchM (thenM (case_body Y fn mode) (returnM None)) (on_any (\<lambda>e. returnM (Some (format_exc Y e))))) (\<lambda>err.
     catchM (thenM v_snapshot (returnM err))
         (on_any (\<lambda>e. returnM (Some ((case err of None \<Rightarrow> [] | Some x \<Rightarrow> x) @ format_exc Y e))))))"

definition v_record :: "json \<Rightarrow> ('w, unit) vprog" where
  "v_record row =
    (thenM (modG (\<lambda>g. g\<lparr>RESULTS := RESULTS g @ [row]\<rparr>)) (
     bindM getG (\<lambda>g.
     bindM v_out (\<lambda>root.
     thenM (write_text (root @ ''/results.json'') (dumps_raw_indent (JList (RESULTS g)))) (
     py_print (jrepr row))))))"

definition v_case :: "pylib \<Rightarrow> string \<Rightarrow> ('w, unit) vprog \<Rightarrow> string option \<Rightarrow> ('w, unit) vprog" where
  "v_case Y name fn mode =
    (thenM (modG (\<lambda>g. g\<lparr>CASE := name\<rparr>)) (
     thenM (py_print (''START '' @ name)) (
     bindM monotonic (\<lambda>t.
     bindM (case_error Y fn mode) (\<lambda>err.
     bindM monotonic (\<lambda>t'.
     v_record (result_row Y name err (t' - t))))))))"


section \<open>The main program\<close>

definition selected :: "string \<Rightarrow> string \<Rightarrow> bool" where
  "selected only name \<longleftrightarrow> only = [] \<or> list_ex (startswith name) (split_on (CHR '','') only)"

definition v_failures :: "('w, bool) vprog" where
  "v_failures = bindM getG (\<lambda>g. liftE (anyE (\<lambda>r. eqE (jsub r ''status'') (JStr ''FAIL'')) (RESULTS g)))"

text \<open>The loop over the table of tests, the last clean-up, and the argument of \<^verbatim>\<open>SystemExit\<close>.\<close>

definition v_matrix :: "pylib \<Rightarrow> string \<Rightarrow> (string \<times> ('w, unit) vprog \<times> string option) list \<Rightarrow> ('w, bool) vprog" where
  "v_matrix Y only tests =
    (thenM (forM (filter (\<lambda>(name, fn, mode). selected only name) tests) (\<lambda>(name, fn, mode). v_case Y name fn mode)) (
     thenM v_clean (
     v_failures)))"


section \<open>Parts of the tests\<close>

definition phase_is :: "string \<Rightarrow> string \<Rightarrow> ('w, bool) vprog" where
  "phase_is name ph = bindM (v_get ''jobs.batch.volcano.sh'' (Some name) True)
     (\<lambda>j. liftE (eqE (jpath [Get ''status'' emptyD, Get ''state'' emptyD, get0 ''phase''] j) (JStr ph)))"

definition any_bound :: "string \<Rightarrow> ('w, bool) vprog" where
  "any_bound name = bindM (v_pods (Some name))
     (\<lambda>ps. liftE (anyE (\<lambda>p. bindE (jpath [Sub ''spec'', get0 ''nodeName''] p) (\<lambda>v. Inr (truth v))) ps))"

definition blocked_job :: "string \<Rightarrow> ('w, unit) vprog" where
  "blocked_job name = thenM (v_wait (phase_is name ''Pending'') 70)
     (forM [0..<6::nat] (\<lambda>_.
       (bindM (any_bound name) (\<lambda>b.
        thenM (assertM [] (\<not> b)) (
        sleep 1000)))))"

definition queue_command :: "pylib \<Rightarrow> string \<Rightarrow> string \<Rightarrow> ('w, unit) vprog" where
  "queue_command Y name action =
    (bindM (v_get ''queue'' (Some name) False) (\<lambda>q.
     bindM (liftE (jpath [Sub ''metadata'', Sub ''uid''] q)) (\<lambda>uid.
     let ref = JDict [(''apiVersion'', JStr ''scheduling.volcano.sh/v1beta1''), (''kind'', JStr ''Queue''),
         (''name'', JStr name), (''uid'', uid), (''controller'', JBool True), (''blockOwnerDeletion'', JBool True)] in
     ign (v_apply Y (JDict [(''apiVersion'', JStr ''bus.volcano.sh/v1alpha1''), (''kind'', JStr ''Command''),
         (''metadata'', JDict [(''name'', JStr (name @ ''-'' @ lower action)), (''namespace'', JStr ''default''),
            (''ownerReferences'', JList [ref])]),
         (''target'', ref), (''action'', JStr action)])))))"

text \<open>The distinct nodes of Pods, as the set comprehensions have them.\<close>

definition node_set :: "json list \<Rightarrow> exn + json list" where
  "node_set ps = set_of (jpath [Sub ''spec'', Sub ''nodeName'']) [] ps"


section \<open>What the harness promises to the tests\<close>

interpretation volcano_k: pinned_kubectl v_run "\<lambda>_. ''kubectl''" "\<lambda>_. V_CTX" "Some 100" v_failed
  by unfold_locales (simp add: v_run_def)

text \<open>Polling.\<close>

lemma v_wait_runs [runs_intros]:
  assumes "clock_ok os now" and "runs os now fn"
  shows "runs os now (v_wait fn timeout)"
  unfolding v_wait_def Let_def
  by (intro runs_intros runs_timed_loopS ticks_bindM ticks_if ticks_sleep ticks_returnM assms)
    (simp_all add: raiseM_def)

lemma v_wait_wp [wp_intros]:
  assumes "emits os (\<lambda>_. True) fn" and "\<And>fs. wp os fn (\<lambda>b gs. b \<longrightarrow> Q () gs) (es @ fs)"
  shows "wp os (v_wait fn timeout) Q es"
  unfolding v_wait_def Let_def
proof (rule wp_bindM, rule wp_prims, rule wp_loopS [where I = "\<lambda>_ gs. \<exists>fs. gs = es @ fs"])
  show "\<exists>fs. es @ [Clock (Inr t)] = es @ fs" for t by simp
next
  fix t0 last gs
  assume "\<exists>fs. gs = es @ fs"
  then obtain fs where gs: "gs = es @ fs" by blast
  have body: "wp os fn (\<lambda>b hs. (b \<longrightarrow> Q () hs) \<and> (\<exists>fs. hs = es @ fs)) (gs @ [Clock (Inr t)])" for t
    using wp_conj [OF assms(2) [of "fs @ [Clock (Inr t)]"] wp_frame [OF assms(1), of "\<lambda>_ hs. \<exists>fs. hs = es @ fs"]] gs by simp
  show "wp os (bindM monotonic (\<lambda>t. if t < t0 + 1000 * timeout
      then bindM fn (\<lambda>b. if b then returnM (Inr ()) else thenM (sleep 1000) (returnM (Inl ''False'')))
      else raiseM (v_expired timeout last))) (\<lambda>r hs. case r of Inl z \<Rightarrow> \<exists>fs. hs = es @ fs | Inr v \<Rightarrow> Q v hs) gs"
    by (intro wp_intros wp_conseq [OF body]) auto
qed

lemmas v_defs = v_out_def v_import_def v_dir_def v_write_def v_proc_def v_k_def v_get_def v_apply_def v_pods_def v_running_def
  pods_are_def running_are_def await_running_def v_pending_def v_delete_job_def v_clean_def v_install_def get_conf_def v_config_def
  v_snapshot_def phase_is_def any_bound_def blocked_job_def queue_command_def

lemma v_runs [runs_intros]:
  assumes "clock_ok os now"
  shows "runs os now v_out" "runs os now v_dir" "runs os now (v_write name t)" "runs os now (v_proc args obj check)"
    "runs os now (v_k args obj)" "runs os now (v_get kind nm b)" "runs os now (v_apply Y manifest)" "runs os now (v_pods jb)"
    "runs os now (v_running job)" "runs os now (pods_are job n)" "runs os now (running_are job n)"
    "runs os now (await_running job n)" "runs os now (v_pending job n)" "runs os now (v_delete_job job)" "runs os now v_clean"
    "runs os now (v_install Y cm conf)" "runs os now get_conf" "runs os now (v_config Y mode a)" "runs os now v_snapshot"
    "runs os now (phase_is job ph)" "runs os now (any_bound job)" "runs os now (blocked_job job)"
    "runs os now (queue_command Y q action)"
  unfolding v_defs Let_def by (intro runs_intros volcano_k.k_runs assms; simp)+

lemma v_wait_emits [emits_intros]:
  assumes "emits os P fn" and "\<And>r. P (Clock r)" and "\<And>d. P (Slept d)"
  shows "emits os P (v_wait fn timeout)"
  unfolding v_wait_def Let_def by (intro emits_intros; simp add: assms)

lemma v_emits [emits_intros]:
  assumes "\<And>args data r. P (Ran (''kubectl'' # ''--context'' # V_CTX # args) data r)" and "\<And>p x. P (Wrote p x)"
    and "\<And>p. P (MadeDir p)" and "\<And>r. P (Clock r)" and "\<And>d. P (Slept d)"
  shows "emits os P v_out" "emits os P v_dir" "emits os P (v_write name t)" "emits os P (v_proc args obj check)"
    "emits os P (v_k args obj)" "emits os P (v_get kind nm b)" "emits os P (v_apply Y manifest)" "emits os P (v_pods jb)"
    "emits os P (v_running job)" "emits os P (pods_are job n)" "emits os P (running_are job n)"
    "emits os P (await_running job n)" "emits os P (v_pending job n)" "emits os P (v_delete_job job)" "emits os P v_clean"
    "emits os P (v_install Y cm conf)" "emits os P get_conf" "emits os P (v_config Y mode a)" "emits os P v_snapshot"
    "emits os P (phase_is job ph)" "emits os P (any_bound job)" "emits os P (blocked_job job)"
    "emits os P (queue_command Y q action)"
  unfolding v_defs Let_def by (intro emits_intros volcano_k.k_emits; simp add: assms)+

text \<open>The operations do not change the module variables.\<close>

abbreviation quiet :: "(vol \<Rightarrow> bool) \<Rightarrow> ('w, vol) st \<Rightarrow> bool" where
  "quiet I \<equiv> confined I (\<lambda>_. True)"

lemma v_run_keeps [keeps_intros]: "keeps os (quiet I) (v_run args data check)"
  unfolding v_run_def checked_def by (intro keeps_intros) simp

lemma v_wait_keeps [keeps_intros]: "keeps os (quiet I) fn \<Longrightarrow> keeps os (quiet I) (v_wait fn timeout)"
  unfolding v_wait_def Let_def by (intro keeps_intros) simp_all

lemma v_keeps [keeps_intros]:
  "keeps os (quiet I) v_out" "keeps os (quiet I) v_dir" "keeps os (quiet I) (v_write name t)"
  "keeps os (quiet I) (v_proc args obj check)" "keeps os (quiet I) (v_k args obj)" "keeps os (quiet I) (v_get kind nm b)"
  "keeps os (quiet I) (v_apply Y manifest)" "keeps os (quiet I) (v_pods jb)" "keeps os (quiet I) (v_running job)"
  "keeps os (quiet I) (pods_are job n)" "keeps os (quiet I) (running_are job n)" "keeps os (quiet I) (await_running job n)"
  "keeps os (quiet I) (v_pending job n)" "keeps os (quiet I) (v_delete_job job)" "keeps os (quiet I) v_clean"
  "keeps os (quiet I) (v_install Y cm conf)" "keeps os (quiet I) get_conf" "keeps os (quiet I) (v_config Y mode a)"
  "keeps os (quiet I) v_snapshot" "keeps os (quiet I) (phase_is job ph)" "keeps os (quiet I) (any_bound job)"
  "keeps os (quiet I) (blocked_job job)" "keeps os (quiet I) (queue_command Y q action)"
  unfolding v_defs Let_def by (intro keeps_intros; simp)+


section \<open>Cases and matrices keep to it, too\<close>

lemma v_case_emits:
  assumes "\<And>args data r. P (Ran (''kubectl'' # ''--context'' # V_CTX # args) data r)" and "\<And>p x. P (Wrote p x)"
    and "\<And>p. P (MadeDir p)" and "\<And>r. P (Clock r)" and "\<And>d. P (Slept d)" and "\<And>x. P (Printed x)" and "emits os P fn"
  shows "emits os P (v_case Y name fn mode)"
  unfolding v_case_def case_error_def case_body_def v_record_def Let_def
  by (intro emits_intros assms(7); simp add: assms)

lemma v_case_runs:
  assumes "clock_ok os now" and "runs os now fn"
  shows "runs os now (v_case Y name fn mode)"
  unfolding v_case_def case_error_def case_body_def v_record_def Let_def by (intro runs_intros assms)

lemma v_matrix_emits:
  assumes "\<And>args data r. P (Ran (''kubectl'' # ''--context'' # V_CTX # args) data r)" and "\<And>p x. P (Wrote p x)"
    and "\<And>p. P (MadeDir p)" and "\<And>r. P (Clock r)" and "\<And>d. P (Slept d)" and "\<And>x. P (Printed x)"
    and "list_all (\<lambda>(_, fn, _). emits os P fn) tests"
  shows "emits os P (v_matrix Y only tests)"
  unfolding v_matrix_def v_failures_def
  by (intro emits_intros; use assms(7) in \<open>auto simp: assms list_all_iff intro!: v_case_emits\<close>)

lemma v_matrix_runs:
  assumes "clock_ok os now" and "list_all (\<lambda>(_, fn, _). runs os now fn) tests"
  shows "runs os now (v_matrix Y only tests)"
  unfolding v_matrix_def v_failures_def
  by (intro runs_intros assms(1); use assms in \<open>auto simp: list_all_iff intro!: v_case_runs\<close>)


section \<open>The verdict of a case\<close>

definition passed :: "pylib \<Rightarrow> ('w, unit) vprog \<Rightarrow> string option \<Rightarrow> 'w os \<Rightarrow> ('w, vol) st \<Rightarrow> bool" where
  "passed Y fn mode os s \<longleftrightarrow> (\<exists>s1 s2. case_body Y fn mode os s = Some (Inr (), s1) \<and> v_snapshot os s1 = Some (Inr (), s2))"

lemma case_error_iff:
  assumes "\<And>e. format_exc Y e \<noteq> []" and "case_error Y fn mode os s = Some (Inr err, s')"
  shows "(err = None \<longleftrightarrow> passed Y fn mode os s) \<and> err \<noteq> Some []"
proof -
  let ?m = "catchM (thenM (case_body Y fn mode) (returnM None)) (on_any (\<lambda>e. returnM (Some (format_exc Y e))))"
  obtain e1 s1 where m: "?m os s = Some (Inr e1, s1)"
    and n: "catchM (thenM v_snapshot (returnM e1))
      (on_any (\<lambda>e. returnM (Some ((case e1 of None \<Rightarrow> [] | Some x \<Rightarrow> x) @ format_exc Y e)))) os s1 = Some (Inr err, s')"
    using assms(2) unfolding case_error_def by (rule bindM_InrE)
  have body: "e1 = None \<and> case_body Y fn mode os s = Some (Inr (), s1) \<or>
      (\<exists>x e. e1 = Some x \<and> x \<noteq> [] \<and> case_body Y fn mode os s = Some (Inl e, s1))"
    using catch_any_Inr [OF m] assms(1) by (auto simp: run_simps split: option.splits sum.splits)
  have snap: "err = e1 \<and> v_snapshot os s1 = Some (Inr (), s') \<or>
      (\<exists>x e. err = Some x \<and> x \<noteq> [] \<and> v_snapshot os s1 = Some (Inl e, s'))"
    using catch_any_Inr [OF n] assms(1) by (auto simp: run_simps split: option.splits sum.splits)
  show ?thesis using body snap by (auto simp: passed_def)
qed

lemma case_error_keeps: "keeps os (quiet I) fn \<Longrightarrow> keeps os (quiet I) (case_error Y fn mode)"
  unfolding case_error_def case_body_def by (intro keeps_intros) (auto intro!: keeps_intros split: option.splits)

definition results_file :: "'w os \<Rightarrow> string" where
  "results_file os = (case environ os ''RESULT_DIR'' of None \<Rightarrow> ''results'' | Some p \<Rightarrow> p) @ ''/results.json''"

lemma v_record_results:
  assumes "v_record row os s = Some (Inr (), s')"
  shows "globals s' = (globals s)\<lparr>RESULTS := RESULTS (globals s) @ [row]\<rparr>"
    and "trace s' = trace s @ [Wrote (results_file os) (dumps_raw_indent (JList (RESULTS (globals s')))), Printed (jrepr row)]"
  using assms unfolding v_record_def v_out_def write_text_def py_print_def results_file_def
  by (auto simp: run_simps prim_def split: prod.splits sum.splits)

text \<open>The statements of \<^verbatim>\<open>case\<close> before its \<^verbatim>\<open>try\<close>.\<close>

definition case_start :: "string \<Rightarrow> ('w, int) vprog" where
  "case_start name = thenM (modG (\<lambda>g. g\<lparr>CASE := name\<rparr>)) (thenM (py_print (''START '' @ name)) monotonic)"

lemma v_caseE:
  assumes "v_case Y name fn mode os s = Some (Inr (), s')" and "\<And>I. keeps os (quiet I) fn"
  obtains t s0 err s1 d s2 where "case_start name os s = Some (Inr t, s0)" "case_error Y fn mode os s0 = Some (Inr err, s1)"
    "globals s2 = (globals s)\<lparr>CASE := name\<rparr>" "v_record (result_row Y name err d) os s2 = Some (Inr (), s')"
proof -
  obtain sa u sb v s0 t err s1 t' s2 where sa: "modG (\<lambda>g. g\<lparr>CASE := name\<rparr>) os s = Some (Inr u, sa)"
    and sb: "py_print (''START '' @ name) os sa = Some (Inr v, sb)" and s0: "monotonic os sb = Some (Inr t, s0)"
    and err: "case_error Y fn mode os s0 = Some (Inr err, s1)" and s2: "monotonic os s1 = Some (Inr t', s2)"
    and rec: "v_record (result_row Y name err (t' - t)) os s2 = Some (Inr (), s')"
    using assms(1) unfolding v_case_def by (elim thenM_InrE bindM_InrE)
  have g0: "globals s0 = (globals s)\<lparr>CASE := name\<rparr>"
    using sa sb s0 by (auto simp: run_simps py_print_def monotonic_def dest!: prim_globals)
  have "globals s1 = (globals s)\<lparr>CASE := name\<rparr>"
    using keepsD [OF case_error_keeps [OF assms(2) [of "\<lambda>g. g = (globals s)\<lparr>CASE := name\<rparr>"]] _ err] g0 by (simp add: confined_def list_all_iff)
  with s2 have "globals s2 = (globals s)\<lparr>CASE := name\<rparr>" by (simp add: monotonic_def prim_globals)
  moreover have "case_start name os s = Some (Inr t, s0)"
    using sa sb s0 by (simp add: case_start_def thenM_def bindM_def)
  ultimately show ?thesis using err rec that by blast
qed

lemma result_row_simps [simp]:
  "jsub (result_row Y name err d) ''case'' = Inr (JStr name)"
  "jsub (result_row Y name err d) ''status'' = Inr (JStr (if err = None \<or> err = Some [] then ''PASS'' else ''FAIL''))"
  "wf_json (result_row Y name err d) \<longleftrightarrow> wf_json (JFloat (seconds Y d))"
  by (auto simp: result_row_def split: option.splits)

text \<open>
  C34: the verdict recorded for a test is the outcome of its run. When \<^verbatim>\<open>case\<close> returns, exactly one row was added to
  \<^verbatim>\<open>RESULTS\<close>; it has the name of the test, and the status \<^verbatim>\<open>PASS\<close> exactly when the preparation, the test and the snapshot after
  it all returned normally, run from the state in which \<^verbatim>\<open>case\<close> starts them. The text of a traceback is never empty, and the test leaves the module variables alone.
\<close>

theorem case_verdict:
  assumes "\<forall>e. format_exc Y e \<noteq> []" and "\<And>I. keeps os (quiet I) fn" and "v_case Y name fn mode os s = Some (Inr (), s')"
  shows "\<exists>row t s0. RESULTS (globals s') = RESULTS (globals s) @ [row] \<and> case_start name os s = Some (Inr t, s0) \<and>
    jsub row ''case'' = Inr (JStr name) \<and>
    jsub row ''status'' = Inr (JStr (if passed Y fn mode os s0 then ''PASS'' else ''FAIL''))"
  using assms(3,2)
proof (rule v_caseE)
  fix t s0 err s1 d s2
  assume start: "case_start name os s = Some (Inr t, s0)" and g: "globals s2 = (globals s)\<lparr>CASE := name\<rparr>"
    and err: "case_error Y fn mode os s0 = Some (Inr err, s1)"
    and rec: "v_record (result_row Y name err d) os s2 = Some (Inr (), s')"
  have "err = None \<or> err = Some [] \<longleftrightarrow> passed Y fn mode os s0" using case_error_iff [OF _ err] assms(1) by auto
  then show ?thesis using v_record_results(1) [OF rec] g start
    by (intro exI [of _ "result_row Y name err d"] exI [of _ t] exI [of _ s0]) simp
qed


section \<open>The report of a matrix\<close>

fun last_written :: "string \<Rightarrow> event list \<Rightarrow> string option" where
  "last_written p [] = None"
| "last_written p (e # es) = (case last_written p es of
       Some t \<Rightarrow> Some t
     | None \<Rightarrow> (case e of Wrote q t \<Rightarrow> if q = p then Some t else None | _ \<Rightarrow> None))"

lemma last_written_append: "last_written p (es @ fs) = (case last_written p fs of Some t \<Rightarrow> Some t | None \<Rightarrow> last_written p es)"
  by (induction es) (auto split: option.splits)

lemma last_written_None: "list_all (\<lambda>e. \<forall>q t. e \<noteq> Wrote q t) es \<Longrightarrow> last_written p es = None"
  by (induction es) (auto split: event.splits)

lemma rows_of_names:
  assumes "list_all2 (\<lambda>name row. \<exists>err d. row = result_row Y name err d) names rows"
  shows "map (\<lambda>row. jsub row ''case'') rows = map (\<lambda>name. Inr (JStr name)) names"
    and "list_all (\<lambda>row. \<exists>name err d. row = result_row Y name err d) rows"
    and "\<forall>d. wf_json (JFloat (seconds Y d)) \<Longrightarrow> wf_json (JList rows)"
  using assms by (induction, auto simp del: wf_json.simps(1))

definition reported :: "pylib \<Rightarrow> 'w os \<Rightarrow> json list \<Rightarrow> string list \<Rightarrow> ('w, vol) st \<Rightarrow> bool" where
  "reported Y os rows names s \<longleftrightarrow> RESULTS (globals s) = rows \<and>
     list_all2 (\<lambda>name row. \<exists>err d. row = result_row Y name err d) names rows \<and>
     (names \<noteq> [] \<longrightarrow> last_written (results_file os) (trace s) = Some (dumps_raw_indent (JList rows)))"

lemma v_case_reported:
  assumes "v_case Y name fn mode os s = Some (Inr (), s')" and "\<And>I. keeps os (quiet I) fn" and "reported Y os rows names s"
  shows "\<exists>row. reported Y os (rows @ [row]) (names @ [name]) s'"
  using assms(1,2)
proof (rule v_caseE)
  fix t s0 err s1 d s2
  assume g: "globals s2 = (globals s)\<lparr>CASE := name\<rparr>"
    and rec: "v_record (result_row Y name err d) os s2 = Some (Inr (), s')"
  have "reported Y os (rows @ [result_row Y name err d]) (names @ [name]) s'"
    using v_record_results [OF rec] g assms(3)
    by (auto simp: reported_def last_written_append intro!: list_all2_appendI)
  then show ?thesis ..
qed

lemma v_cases_reported:
  assumes "list_all (\<lambda>(_, fn, _). \<forall>I. keeps os (quiet I) fn) tests" and "reported Y os rows names s"
    and "forM tests (\<lambda>(name, fn, mode). v_case Y name fn mode) os s = Some (Inr (), s')"
  shows "\<exists>rows'. reported Y os (rows @ rows') (names @ map fst tests) s'"
  using assms
proof (induction tests arbitrary: rows names s)
  case Nil
  then show ?case by (auto simp: run_simps intro: exI [of _ "[]"])
next
  case (Cons x tests)
  obtain name fn mode where x: "x = (name, fn, mode)" by (cases x)
  from Cons.prems(3) x obtain u s1 where "v_case Y name fn mode os s = Some (Inr u, s1)"
    and rest: "forM tests (\<lambda>(name, fn, mode). v_case Y name fn mode) os s1 = Some (Inr (), s')"
    by (auto elim!: thenM_InrE)
  then obtain row where "reported Y os (rows @ [row]) (names @ [name]) s1"
    using v_case_reported Cons.prems(1,2) x by (fastforce simp: unit_all_impI)
  from Cons.IH [OF _ this rest] Cons.prems(1) x obtain rows' where
    "reported Y os ((rows @ [row]) @ rows') ((names @ [name]) @ map fst tests) s'" by auto
  then show ?case using x by (auto intro: exI [of _ "row # rows'"])
qed

lemma v_clean_writes: "emits os (\<lambda>e. \<forall>q t. e \<noteq> Wrote q t) v_clean"
  unfolding v_clean_def v_pods_def v_get_def v_k_def v_proc_def by (intro emits_intros volcano_k.k_emits; simp)

lemma v_matrix_reported:
  assumes "list_all (\<lambda>(_, fn, _). \<forall>I. keeps os (quiet I) fn) tests" and "RESULTS (globals s) = []"
    and "v_matrix Y only tests os s = Some (Inr code, s')"
  shows "\<exists>rows. reported Y os rows (filter (selected only) (map fst tests)) s' \<and>
    (code \<longleftrightarrow> (\<exists>row \<in> set rows. jsub row ''status'' = Inr (JStr ''FAIL'')))"
proof -
  let ?tests = "filter (\<lambda>(name, fn, mode). selected only name) tests"
  obtain u s1 v s2 where loop: "forM ?tests (\<lambda>(name, fn, mode). v_case Y name fn mode) os s = Some (Inr u, s1)"
    and clean: "v_clean os s1 = Some (Inr v, s2)" and code: "v_failures os s2 = Some (Inr code, s')"
    using assms(3) unfolding v_matrix_def by (elim thenM_InrE)
  have names: "map fst ?tests = filter (selected only) (map fst tests)"
    by (simp add: filter_map comp_def case_prod_unfold)
  have "list_all (\<lambda>(_, fn, _). \<forall>I. keeps os (quiet I) fn) ?tests"
    using assms(1) by (auto simp: list_all_iff)
  moreover have "reported Y os [] [] s" using assms(2) by (simp add: reported_def)
  ultimately obtain rows where s1: "reported Y os rows (map fst ?tests) s1"
    using v_cases_reported [where rows = "[]" and names = "[]"] loop by fastforce
  obtain fs where fs: "trace s2 = trace s1 @ fs" "list_all (\<lambda>e. \<forall>q t. e \<noteq> Wrote q t) fs"
    using v_clean_writes clean by (rule emitsD)
  have g2: "globals s2 = globals s1"
    using keepsD [OF v_keeps(15) [of os "\<lambda>g. g = globals s1"] _ clean] by (simp add: confined_def list_all_iff)
  have c: "anyE (\<lambda>r. eqE (jsub r ''status'') (JStr ''FAIL'')) rows = Inr code" and "s' = s2"
    using code g2 s1 by (auto simp: v_failures_def run_simps reported_def)
  with s1 fs g2 names have rep: "reported Y os rows (filter (selected only) (map fst tests)) s'"
    by (simp add: reported_def last_written_append last_written_None)
  have "list_all (\<lambda>row. \<exists>name err d. row = result_row Y name err d) rows"
    using s1 rows_of_names(2) by (auto simp: reported_def)
  with c have "code \<longleftrightarrow> (\<exists>row \<in> set rows. jsub row ''status'' = Inr (JStr ''FAIL''))"
    by (induction rows) (auto simp: eqE_def split: if_splits)
  with rep show ?thesis by blast
qed

text \<open>The harness in the world of the witnesses.\<close>

lemma v_wait_gives [gives_intros]:
  assumes "0 < timeout" and "gives (demo_os answer) fn (\<lambda>b. b)" and "Q ()"
  shows "gives (demo_os answer) (v_wait fn timeout) Q"
  unfolding gives_def
proof
  fix s :: "(nat, vol) st"
  let ?t = "s\<lparr>trace := trace s @ [Clock (Inr (int (world s))), Clock (Inr (int (world s)))]\<rparr>"
  have mono: "monotonic (demo_os answer) t =
      Some (Inr (int (world t)), t\<lparr>trace := trace t @ [Clock (Inr (int (world t)))]\<rparr>)" for t :: "(nat, vol) st"
    by (simp add: monotonic_def prim_def demo_os_def)
  obtain b s' where "fn (demo_os answer) ?t = Some (Inr b, s')" and b using assms(2) by (rule givesE)
  then have "v_wait fn timeout (demo_os answer) s = Some (Inr (), s')"
    using assms(1) by (simp add: v_wait_def Let_def bindM_def mono loopS_unfold returnM_def)
  with assms(3) show "\<exists>v s'. v_wait fn timeout (demo_os answer) s = Some (Inr v, s') \<and> Q v" by blast
qed

lemma v_matrix_returns:
  assumes "list_all (\<lambda>(_, fn, _). \<forall>I. keeps os (quiet I) fn) tests" and "RESULTS (globals s) = []"
    and "gives os (forM (filter (\<lambda>(name, fn, mode). selected only name) tests) (\<lambda>(name, fn, mode). v_case Y name fn mode)) (\<lambda>_. True)"
    and "gives os v_clean (\<lambda>_. True)"
  shows "\<exists>code s'. v_matrix Y only tests os s = Some (Inr code, s')"
proof -
  let ?tests = "filter (\<lambda>(name, fn, mode). selected only name) tests"
  obtain s1 where loop: "forM ?tests (\<lambda>(name, fn, mode). v_case Y name fn mode) os s = Some (Inr (), s1)"
    using assms(3) by (rule givesE) simp
  obtain s2 where clean: "v_clean os s1 = Some (Inr (), s2)" using assms(4) by (rule givesE) simp
  have "list_all (\<lambda>(_, fn, _). \<forall>I. keeps os (quiet I) fn) ?tests" using assms(1) by (auto simp: list_all_iff)
  from v_cases_reported [OF this _ loop, where rows = "[]" and names = "[]"] assms(2)
  obtain rows where "reported Y os rows (map fst ?tests) s1" by (auto simp: reported_def)
  then have "RESULTS (globals s1) = rows" and "list_all (\<lambda>row. \<exists>name err d. row = result_row Y name err d) rows"
    using rows_of_names(2) by (auto simp: reported_def)
  moreover have "globals s2 = globals s1"
    using keepsD [OF v_keeps(15) [of os "\<lambda>g. g = globals s1"] _ clean] by (simp add: confined_def list_all_iff)
  moreover have "\<exists>b. anyE (\<lambda>r. eqE (jsub r ''status'') (JStr ''FAIL'')) rows = Inr b" using calculation(2)
    by (induction rows) (auto simp: eqE_def)
  ultimately show ?thesis using loop clean by (auto simp: v_matrix_def v_failures_def run_simps)
qed

definition demo_lib :: pylib where
  "demo_lib = \<lparr>safe_dump = (\<lambda>_. dumps), safe_load = loads, format_exc = (\<lambda>e. ''Traceback: '' @ exn_str e), seconds = (\<lambda>_. ''1.5'')\<rparr>"

text \<open>A cluster with nothing in it, which refuses every creation.\<close>

definition demo_volcano :: "string list \<Rightarrow> nat \<Rightarrow> proc" where
  "demo_volcano args w = (if ''create'' \<in> set args
     then \<lparr>returncode = 1, stdout = [], stderr = ''minAvailable is too large''\<rparr>
     else \<lparr>returncode = 0, stdout = dumps (JDict [(''items'', JList [])]), stderr = []\<rparr>)"

end
