(* ===== verification/VolcanoRun.thy ===== *)
theory VolcanoRun
  imports VolcanoLab
begin

text \<open>
  \<^verbatim>\<open>volcano-hami/run-tests.py\<close>: the nineteen tests of the first matrix, in the order of the file, and its main program.
\<close>

section \<open>Jobs and queues\<close>

definition v_complete :: "pylib \<Rightarrow> ('w, unit) vprog" where
  "v_complete Y =
    (thenM (v_apply Y (v_job ''complete'' (args0\<lparr>j_n := 2, j_command := [''sh'', ''-c'', ''echo complete'']\<rparr>))) (
     v_wait (phase_is ''complete'' ''Completed'') 70))"

definition v_gang :: "pylib \<Rightarrow> ('w, unit) vprog" where
  "v_gang Y =
    (thenM (v_apply Y (v_job ''holder'' (args0\<lparr>j_n := 2, j_cpu := ''9''\<rparr>))) (
     thenM (await_running ''holder'' 2) (
     thenM (v_apply Y (v_job ''gang'' (args0\<lparr>j_n := 3, j_cpu := ''5''\<rparr>))) (
     thenM (v_pending ''gang'' 3) (
     thenM v_snapshot (
     thenM (v_delete_job ''holder'') (
     await_running ''gang'' 3)))))))"

definition v_elastic :: "pylib \<Rightarrow> ('w, unit) vprog" where
  "v_elastic Y =
    (thenM (v_apply Y (v_job ''elastic'' (args0\<lparr>j_n := 5, j_minimum := Some 2, j_cpu := ''5''\<rparr>))) (
     thenM (await_running ''elastic'' 4) (
     bindM (pods_are ''elastic'' 5) (\<lambda>b.
     assertM [] b))))"

definition v_quota :: "pylib \<Rightarrow> ('w, unit) vprog" where
  "v_quota Y =
    (thenM (v_apply Y (v_queue ''limited'' [(''capability'', JDict [(''cpu'', JStr ''5'')])])) (
     thenM (v_apply Y (v_job ''first'' (args0\<lparr>j_cpu := ''4'', j_q := ''limited''\<rparr>))) (
     thenM (await_running ''first'' 1) (
     thenM (v_apply Y (v_job ''second'' (args0\<lparr>j_cpu := ''4'', j_q := ''limited''\<rparr>))) (
     thenM (blocked_job ''second'') (
     thenM v_snapshot (
     thenM (v_delete_job ''first'') (
     await_running ''second'' 1))))))))"

definition queue_state :: "string \<Rightarrow> string \<Rightarrow> ('w, bool) vprog" where
  "queue_state name st = bindM (v_get ''queue'' (Some name) False)
     (\<lambda>q. liftE (eqE (jpath [Get ''status'' emptyD, get0 ''state''] q) (JStr st)))"

definition v_closed :: "pylib \<Rightarrow> ('w, unit) vprog" where
  "v_closed Y =
    (thenM (v_apply Y (v_queue ''closed'' [])) (
     thenM (queue_command Y ''closed'' ''CloseQueue'') (
     thenM (v_wait (queue_state ''closed'' ''Closed'') 70) (
     bindM (v_proc [''create'', ''-f'', ''-''] (Some (v_job ''closed'' (args0\<lparr>j_q := ''closed''\<rparr>))) False) (\<lambda>p.
     thenM (v_write ''admission.log'' (stderr p)) (
     thenM (assertM (stderr p) (returncode p \<noteq> 0 \<and> contains (lower (stderr p)) ''closed'')) (
     thenM (queue_command Y ''closed'' ''OpenQueue'') (
     thenM (v_wait (queue_state ''closed'' ''Open'') 70) (
     thenM (v_apply Y (v_job ''closed'' (args0\<lparr>j_q := ''closed''\<rparr>))) (
     await_running ''closed'' 1))))))))))"

definition priority_class :: "string \<Rightarrow> int \<Rightarrow> json" where
  "priority_class name val = JDict
     [(''apiVersion'', JStr ''scheduling.k8s.io/v1''), (''kind'', JStr ''PriorityClass''), (''metadata'', JDict [(''name'', JStr name)]),
      (''value'', JInt val), (''globalDefault'', JBool False)]"

definition v_preempt :: "pylib \<Rightarrow> ('w, unit) vprog" where
  "v_preempt Y =
    (thenM (forM [(''lab-low'', 10), (''lab-high'', 100)] (\<lambda>(name, val). ign (v_apply Y (priority_class name val)))) (
     thenM (v_apply Y (v_job ''low'' (args0\<lparr>j_n := 4, j_minimum := Some 1, j_cpu := ''5'',
         j_extra := [(''priorityClassName'', JStr ''lab-low'')]\<rparr>))) (
     thenM (await_running ''low'' 4) (
     thenM (v_apply Y (v_job ''high'' (args0\<lparr>j_cpu := ''5'', j_extra := [(''priorityClassName'', JStr ''lab-high'')]\<rparr>))) (
     thenM (await_running ''high'' 1) (
     bindM (v_running ''low'') (\<lambda>ps.
     assertM [] (length ps < 4))))))))"

definition cpu_queue :: "string \<Rightarrow> json" where
  "cpu_queue name = v_queue name [(''deserved'', JDict [(''cpu'', JStr ''10'')]), (''capability'', JDict [(''cpu'', JStr ''24'')])]"

definition v_reclaim :: "pylib \<Rightarrow> ('w, unit) vprog" where
  "v_reclaim Y =
    (thenM (v_apply Y (cpu_queue ''borrower'')) (
     thenM (v_apply Y (cpu_queue ''owner'')) (
     thenM (v_apply Y (v_job ''borrow'' (args0\<lparr>j_n := 4, j_minimum := Some 1, j_cpu := ''5'', j_q := ''borrower''\<rparr>))) (
     thenM (await_running ''borrow'' 4) (
     thenM (v_apply Y (v_job ''owner'' (args0\<lparr>j_n := 2, j_cpu := ''5'', j_q := ''owner''\<rparr>))) (
     thenM (await_running ''owner'' 2) (
     bindM (v_running ''borrow'') (\<lambda>ps.
     assertM [] (length ps \<le> 2)))))))))"


section \<open>Placement and plugins\<close>

definition nodes_are :: "string \<Rightarrow> nat \<Rightarrow> ('w, bool) vprog" where
  "nodes_are jb n = bindM (v_running jb) (\<lambda>ps. bindM (liftE (node_set ps)) (\<lambda>s. returnM (length s = n)))"

definition v_binpack :: "pylib \<Rightarrow> ('w, unit) vprog" where
  "v_binpack Y =
    (thenM (v_apply Y (v_job ''packed'' (args0\<lparr>j_n := 4, j_cpu := ''1''\<rparr>))) (
     thenM (await_running ''packed'' 4) (
     bindM (nodes_are ''packed'' 1) (\<lambda>b.
     assertM [] b))))"

definition anti_affinity :: json where
  "anti_affinity = (JDict
    [(''podAntiAffinity'',
       JDict
         [(''requiredDuringSchedulingIgnoredDuringExecution'',
            JList
              [JDict
                 [(''labelSelector'', JDict [(''matchLabels'', JDict [(''app'', JStr ''spread-test'')])]),
                  (''topologyKey'', JStr ''kubernetes.io/hostname'')]])])])"

definition spread_job :: "exn + json" where
  "spread_job = jupd [Sub ''spec'', Sub ''tasks'', Idx 0, Sub ''template''] (\<lambda>t.
     bindE (jupd [Sub ''metadata''] (\<lambda>m. jset m ''labels'' (JDict [(''app'', JStr ''spread-test'')])) t)
       (jupd [Sub ''spec''] (\<lambda>sp. jset sp ''affinity'' anti_affinity)))
     (v_job ''spread'' (args0\<lparr>j_n := 2\<rparr>))"

definition v_affinity :: "pylib \<Rightarrow> ('w, unit) vprog" where
  "v_affinity Y =
    (bindM (liftE spread_job) (\<lambda>jb.
     thenM (v_apply Y jb) (
     thenM (await_running ''spread'' 2) (
     bindM (nodes_are ''spread'' 2) (\<lambda>b.
     assertM [] b)))))"

text \<open>\<^verbatim>\<open>running(job)[0]\<close>.\<close>

definition first_running :: "string \<Rightarrow> acc list \<Rightarrow> ('w, json) vprog" where
  "first_running jb path = bindM (v_running jb) (\<lambda>ps. liftE (jpath (Idx 0 # path) (JList ps)))"

definition exec_env :: "json \<Rightarrow> ('w, string) vprog" where
  "exec_env name =
    (bindM (liftE (jstr name)) (\<lambda>n.
     bindM (vcmd [''-n'', V_NS, ''exec'', n, ''--'', ''env'']) (\<lambda>env.
     thenM (v_write ''env.log'' env) (
     returnM env))))"

definition v_plugin_test :: "pylib \<Rightarrow> ('w, unit) vprog" where
  "v_plugin_test Y =
    (thenM (v_apply Y (v_job ''plugins'' (args0\<lparr>j_n := 2,
         j_extra := [(''plugins'', JDict [(''env'', JList []), (''svc'', JList []), (''ssh'', JList [])])]\<rparr>))) (
     thenM (await_running ''plugins'' 2) (
     bindM (first_running ''plugins'' [Sub ''metadata'', Sub ''name'']) (\<lambda>p.
     bindM (exec_env p) (\<lambda>env.
     thenM (assertM [] (contains env ''VC_TASK_INDEX='')) (
     bindM (v_get ''service'' (Some ''plugins'') True) (\<lambda>svc.
     bindM (liftE (eqE (jpath [Sub ''spec'', Sub ''clusterIP''] svc) (JStr ''None''))) (\<lambda>b.
     thenM (assertM [] b) (
     bindM (v_get ''secrets'' None True) (\<lambda>secrets.
     bindM (liftE (jsub secrets ''items'')) (\<lambda>items.
     assertM [] (truth items))))))))))))"

definition v_abort :: "pylib \<Rightarrow> ('w, unit) vprog" where
  "v_abort Y =
    (thenM (v_apply Y (v_job ''abort'' (args0\<lparr>j_command := [''sh'', ''-c'', ''exit 7''],
         j_extra := [(''policies'', JList [JDict [(''event'', JStr ''PodFailed''), (''action'', JStr ''AbortJob'')]])]\<rparr>))) (
     v_wait (phase_is ''abort'' ''Aborted'') 70))"

definition job_gone :: "string \<Rightarrow> ('w, bool) vprog" where
  "job_gone name = bindM (v_get ''jobs.batch.volcano.sh'' None True) (\<lambda>doc.
     bindM (liftE (bindE (bindE (jsub doc ''items'') jiter)
       (anyE (\<lambda>x. eqE (jpath [Sub ''metadata'', Sub ''name''] x) (JStr name))))) (\<lambda>b. returnM (\<not> b)))"

definition v_ttl :: "pylib \<Rightarrow> ('w, unit) vprog" where
  "v_ttl Y =
    (thenM (v_apply Y (v_job ''ttl'' (args0\<lparr>j_command := [''true''], j_extra := [(''ttlSecondsAfterFinished'', JInt 5)]\<rparr>))) (
     thenM (v_wait (phase_is ''ttl'' ''Completed'') 70) (
     v_wait (job_gone ''ttl'') 70)))"


section \<open>Shared GPUs\<close>

definition vgpu_ids :: string where
  "vgpu_ids = ''volcano.sh/vgpu-ids-new''"

definition gpu :: "int \<Rightarrow> int \<Rightarrow> int \<Rightarrow> (string \<times> int) list" where
  "gpu number mem cores = [(''number'', number), (''memory'', mem), (''cores'', cores)]"

definition v_gpu_basic :: "pylib \<Rightarrow> ('w, unit) vprog" where
  "v_gpu_basic Y =
    (thenM (v_apply Y (v_job ''gpu'' (args0\<lparr>j_gpu := gpu 1 3000 25\<rparr>))) (
     thenM (await_running ''gpu'' 1) (
     bindM (first_running ''gpu'' []) (\<lambda>p.
     bindM (liftE (jpath [Sub ''metadata'', Sub ''name''] p)) (\<lambda>name.
     bindM (exec_env name) (\<lambda>env.
     thenM (assertM env (contains env ''CUDA_DEVICE_MEMORY_LIMIT_0=3000m'' \<and> contains env ''CUDA_DEVICE_SM_LIMIT=25'')) (
     bindM (liftE (jpath [Sub ''metadata'', Sub ''annotations''] p)) (\<lambda>ann.
     bindM (liftE (jin (JStr vgpu_ids) ann)) (\<lambda>b.
     assertM (py_str ann) b)))))))))"

definition too_much :: "string \<Rightarrow> int" where
  "too_much which = (if which = ''number'' then 3 else if which = ''memory'' then 50000 else 101)"

definition v_gpu_reject :: "pylib \<Rightarrow> string \<Rightarrow> ('w, unit) vprog" where
  "v_gpu_reject Y which =
    (thenM (v_apply Y (v_job ''reject'' (args0\<lparr>j_gpu := dict_set (gpu 1 3000 25) which (too_much which),
         j_node := Some ''volcano-lab-worker''\<rparr>))) (
     v_pending ''reject'' 1))"

definition allocations :: "string \<Rightarrow> ('w, json list) vprog" where
  "allocations jb = bindM (v_running jb) (\<lambda>ps. liftE (mapE (jpath [Sub ''metadata'', Sub ''annotations'', Sub vgpu_ids]) ps))"

definition v_gpu_share :: "pylib \<Rightarrow> ('w, unit) vprog" where
  "v_gpu_share Y =
    (thenM (v_apply Y (v_job ''share'' (args0\<lparr>j_n := 3, j_gpu := gpu 1 3000 20, j_node := Some ''volcano-lab-worker''\<rparr>))) (
     thenM (await_running ''share'' 3) (
     bindM (allocations ''share'') (\<lambda>a.
     thenM (v_write ''allocations.json'' (dumps_indent (JList a))) (
     bindM (liftE (set_of Inr [] a)) (\<lambda>s.
     assertM (jrepr (JList a)) (length s = 1)))))))"

definition v_gpu_spread :: "pylib \<Rightarrow> ('w, unit) vprog" where
  "v_gpu_spread Y =
    (thenM (v_apply Y (v_job ''gpu-spread'' (args0\<lparr>j_n := 2, j_gpu := gpu 1 3000 20, j_node := Some ''volcano-lab-worker'',
         j_annotations := [(''volcano.sh/vgpu-podgroup-policy'', JStr ''spread'')]\<rparr>))) (
     thenM (await_running ''gpu-spread'' 2) (
     bindM (allocations ''gpu-spread'') (\<lambda>a.
     bindM (liftE (set_of Inr [] a)) (\<lambda>s.
     assertM (jrepr (JList a)) (length s = 2))))))"

definition v_gpu_full :: "pylib \<Rightarrow> ('w, unit) vprog" where
  "v_gpu_full Y =
    (thenM (v_apply Y (v_job ''full'' (args0\<lparr>j_n := 2, j_gpu := gpu 1 40000 100, j_node := Some ''volcano-lab-worker''\<rparr>))) (
     thenM (await_running ''full'' 2) (
     thenM (v_apply Y (v_job ''waiting'' (args0\<lparr>j_gpu := gpu 1 1000 1, j_node := Some ''volcano-lab-worker''\<rparr>))) (
     thenM (v_pending ''waiting'' 1) (
     thenM (v_delete_job ''full'') (
     await_running ''waiting'' 1))))))"


section \<open>The matrix\<close>

definition v_tests :: "pylib \<Rightarrow> (string \<times> ('w, unit) vprog \<times> string option) list" where
  "v_tests Y =
     [(''01-job-completion'', v_complete Y, Some ''proportion''), (''02-gang-release'', v_gang Y, None),
      (''03-elastic-minavailable'', v_elastic Y, None), (''04-queue-capability'', v_quota Y, None),
      (''05-queue-close-open'', v_closed Y, None), (''06-priority-preemption'', v_preempt Y, None),
      (''07-capacity-borrow-reclaim'', v_reclaim Y, Some ''capacity''), (''08-binpack'', v_binpack Y, Some ''proportion''),
      (''09-pod-antiaffinity'', v_affinity Y, None), (''10-env-svc-ssh'', v_plugin_test Y, None),
      (''11-failure-abort'', v_abort Y, None), (''12-ttl-cleanup'', v_ttl Y, None),
      (''13-vgpu-allocation'', v_gpu_basic Y, None), (''14-vgpu-sharing'', v_gpu_share Y, None),
      (''15-vgpu-device-spread'', v_gpu_spread Y, None), (''16-vgpu-memory-reject'', v_gpu_reject Y ''memory'', None),
      (''17-vgpu-core-reject'', v_gpu_reject Y ''cores'', None), (''18-vgpu-count-reject'', v_gpu_reject Y ''number'', None),
      (''19-vgpu-release'', v_gpu_full Y, None)]"

definition volcano_run :: "pylib \<Rightarrow> string \<Rightarrow> ('w, bool) vprog" where
  "volcano_run Y only =
    (thenM v_import (
     thenM (vtry [''create'', ''namespace'', V_NS]) (
     v_matrix Y only (v_tests Y))))"


section \<open>The tests keep to the harness\<close>

lemmas v_test_defs = v_complete_def v_gang_def v_elastic_def v_quota_def queue_state_def v_closed_def v_preempt_def v_reclaim_def
  nodes_are_def v_binpack_def v_affinity_def first_running_def exec_env_def v_plugin_test_def v_abort_def job_gone_def v_ttl_def
  v_gpu_basic_def v_gpu_reject_def allocations_def v_gpu_share_def v_gpu_spread_def v_gpu_full_def

lemma v_tests_emit:
  assumes "\<And>args data r. P (Ran (''kubectl'' # ''--context'' # V_CTX # args) data r)" and "\<And>p x. P (Wrote p x)"
    and "\<And>p. P (MadeDir p)" and "\<And>r. P (Clock r)" and "\<And>d. P (Slept d)"
  shows "list_all (\<lambda>(_, fn, _). emits os P fn) (v_tests Y)"
  unfolding v_tests_def v_test_defs list.pred_inject prod.case Let_def
  by (intro conjI TrueI emits_intros; simp add: assms)

lemma v_tests_run:
  assumes "clock_ok os now"
  shows "list_all (\<lambda>(_, fn, _). runs os now fn) (v_tests Y)"
  unfolding v_tests_def v_test_defs list.pred_inject prod.case Let_def
  by (intro conjI TrueI runs_intros assms; simp)

lemma v_tests_keep: "list_all (\<lambda>(_, fn, _). \<forall>I. keeps os (quiet I) fn) (v_tests Y)"
  unfolding v_tests_def v_test_defs list.pred_inject prod.case Let_def
  by (intro conjI TrueI allI keeps_intros; simp)

end
