(* ===== verification/VolcanoMore.thy ===== *)
theory VolcanoMore
  imports VolcanoRun
begin

text \<open>
  The other scripts of the scheduler matrix, which import the harness of \<^verbatim>\<open>run-tests.py\<close>: \<^verbatim>\<open>run-advanced.py\<close>,
  \<^verbatim>\<open>run-boundaries.py\<close> and \<^verbatim>\<open>run-startup-probe.py\<close>.
\<close>

section \<open>Values\<close>

definition first_part :: "json \<Rightarrow> exn + json" where          \<comment> \<open>\<^verbatim>\<open>v.split(',')[0]\<close>\<close>
  "first_part v = bindE (str_method ''split'' v) (\<lambda>s. Inr (JStr (hd (split_on (CHR '','') s))))"

definition each_item :: "(json \<Rightarrow> exn + json) \<Rightarrow> json \<Rightarrow> exn + json" where   \<comment> \<open>a loop that updates the items in place\<close>
  "each_item f v = bindE (jiter v) (\<lambda>xs. bindE (mapE f xs) (\<lambda>ys. Inr (case v of JList _ \<Rightarrow> JList ys | _ \<Rightarrow> v)))"

definition the_task :: "acc list" where
  "the_task = [Sub ''spec'', Sub ''tasks'', Idx 0]"


section \<open>run-advanced.py\<close>

definition v_nodegroup :: "pylib \<Rightarrow> ('w, unit) vprog" where
  "v_nodegroup Y =
    (thenM (v_config Y ''proportion'' (conf0\<lparr>c_extra := [JDict [(''name'', JStr ''nodegroup''), (''arguments'', JDict [(''strict'', JBool False)])]]\<rparr>)) (
     thenM (vcmd [''label'', ''node'', ''volcano-lab-worker'', ''volcano.sh/nodegroup-name=team-a'',
           ''--overwrite'']) (
     thenM (vcmd [''label'', ''node'', ''volcano-lab-worker2'', ''volcano.sh/nodegroup-name=team-b'',
           ''--overwrite'']) (
     thenM (v_apply Y (v_queue ''team-a'' [(''affinity'', (JDict
         [(''nodeGroupAffinity'',
            JDict [(''requiredDuringSchedulingIgnoredDuringExecution'', JList [JStr ''team-a''])])]))])) (
     thenM (v_apply Y (v_job ''nodegroup'' (args0\<lparr>j_n := 2, j_q := ''team-a''\<rparr>))) (
     thenM (await_running ''nodegroup'' 2) (
     bindM (v_running ''nodegroup'') (\<lambda>ps.
     bindM (liftE (node_set ps)) (\<lambda>s.
     assertM [] (case s of [x] \<Rightarrow> py_eq x (JStr ''volcano-lab-worker'') | _ \<Rightarrow> False))))))))))"

definition rack :: "string \<Rightarrow> string \<Rightarrow> json" where
  "rack name node = (JDict
    [(''apiVersion'', JStr ''topology.volcano.sh/v1alpha1''), (''kind'', JStr ''HyperNode''),
     (''metadata'', JDict [(''name'', JStr name)]),
     (''spec'',
       JDict
         [(''tier'', JInt 1),
          (''members'',
            JList
              [JDict
                 [(''type'', JStr ''Node''),
                  (''selector'', JDict [(''exactMatch'', JDict [(''name'', JStr node)])])]])])])"

definition fabric :: json where
  "fabric = JDict
     [(''apiVersion'', JStr ''topology.volcano.sh/v1alpha1''), (''kind'', JStr ''HyperNode''),
      (''metadata'', JDict [(''name'', JStr ''fabric'')]),
      (''spec'', JDict [(''tier'', JInt 2), (''members'', JList (map (\<lambda>n. JDict
         [(''type'', JStr ''HyperNode''), (''selector'', JDict [(''exactMatch'', JDict [(''name'', JStr n)])])]) [''rack-a'', ''rack-b'']))])]"

definition topo_job :: "int \<Rightarrow> json" where
  "topo_job tier = v_job ''topo'' (args0\<lparr>j_n := 3, j_cpu := ''5'',
     j_extra := [(''networkTopology'', JDict [(''mode'', JStr ''hard''), (''highestTierAllowed'', JInt tier)])]\<rparr>)"

definition v_hypernode :: "pylib \<Rightarrow> ('w, unit) vprog" where
  "v_hypernode Y =
    (thenM (v_config Y ''proportion'' (conf0\<lparr>c_extra := [JDict [(''name'', JStr ''network-topology-aware'')]]\<rparr>)) (
     thenM (forM [(''rack-a'', ''volcano-lab-worker''), (''rack-b'', ''volcano-lab-worker2'')] (\<lambda>(name, node). ign (v_apply Y (rack name node)))) (
     thenM (v_apply Y fabric) (
     thenM (v_apply Y (topo_job 1)) (
     thenM (v_pending ''topo'' 3) (
     thenM v_snapshot (
     thenM (v_delete_job ''topo'') (
     thenM (v_apply Y (topo_job 2)) (
     thenM (await_running ''topo'' 3) (
     bindM (nodes_are ''topo'' 2) (\<lambda>b.
     thenM (assertM [] b) (
     bindM (vcmd [''get'', ''hypernodes'', ''-o'', ''json'']) (\<lambda>x.
     v_write ''hypernodes.json'' x)))))))))))))"

definition task_topology_job :: "exn + json" where
  "task_topology_job = (let jb = v_job ''task-topology'' (args0\<lparr>j_n := 1\<rparr>) in
     bindE (bindE (jpath the_task jb) (\<lambda>t. jset t ''name'' (JStr ''peer''))) (\<lambda>b.
     bindE (jupd [Sub ''spec'', Sub ''tasks''] (jappend b) jb) (\<lambda>j1.
     bindE (jupd [Sub ''spec''] (\<lambda>sp. jset sp ''minAvailable'' (JInt 2)) j1)
       (jupd [Sub ''metadata''] (\<lambda>m. jset m ''annotations'' (JDict
         [(''volcano.sh/task-topology-anti-affinity'', JStr ''worker,peer''),
          (''volcano.sh/task-topology-task-order'', JStr ''worker,peer'')]))))))"

definition v_task_topology :: "pylib \<Rightarrow> ('w, unit) vprog" where
  "v_task_topology Y =
    (thenM (v_config Y ''proportion'' (conf0\<lparr>c_extra :=
         [JDict [(''name'', JStr ''task-topology''), (''arguments'', JDict [(''task-topology.weight'', JInt 100)])]]\<rparr>)) (
     bindM (liftE task_topology_job) (\<lambda>jb.
     thenM (v_apply Y jb) (
     thenM (await_running ''task-topology'' 2) (
     bindM (nodes_are ''task-topology'' 2) (\<lambda>b.
     assertM [] b))))))"

definition native_template :: "exn + json" where
  "native_template =
     bindE (jpath (the_task @ [Sub ''template'']) (v_job ''native'' args0)) (\<lambda>p.
     bindE (jupd [Sub ''metadata''] (\<lambda>m. jset m ''annotations'' (JDict [(''scheduling.volcano.sh/queue-name'', JStr ''lab'')])) p) (\<lambda>p1.
     bindE (jupd [Sub ''spec''] (\<lambda>s. jset s ''schedulerName'' (JStr ''volcano'')) p1) (\<lambda>p2.
     bindE (jupd [Sub ''spec''] (\<lambda>s. jset s ''restartPolicy'' (JStr ''Always'')) p2)
       (jupd [Sub ''metadata''] (\<lambda>m. jset m ''labels'' (JDict [(''app'', JStr ''native'')]))))))"

definition native_ready :: "('w, bool) vprog" where
  "native_ready = bindM (v_get ''deployment'' (Some ''native'') True)
     (\<lambda>d. liftE (eqE (jpath [Get ''status'' emptyD, Get ''readyReplicas'' (JInt 0)] d) (JInt 2)))"

definition v_native :: "pylib \<Rightarrow> ('w, unit) vprog" where
  "v_native Y =
    (thenM (v_config Y ''proportion'' conf0) (
     bindM (liftE native_template) (\<lambda>template.
     thenM (v_apply Y (JDict [(''apiVersion'', JStr ''apps/v1''), (''kind'', JStr ''Deployment''),
         (''metadata'', JDict [(''name'', JStr ''native''), (''namespace'', JStr V_NS)]),
         (''spec'', JDict [(''replicas'', JInt 2), (''selector'', JDict [(''matchLabels'', JDict [(''app'', JStr ''native'')])]),
           (''template'', template)])])) (
     finallyM (
         (thenM (v_wait native_ready 70) (
          bindM (v_pods None) (\<lambda>ps.
          bindM (liftE (everyE (\<lambda>p. bindE (jpath [Sub ''spec'', get0 ''nodeName''] p) (\<lambda>v. Inr (truth v))) ps)) (\<lambda>b.
          thenM (assertM [] b) (
          v_snapshot)))))) (ign (vcmd [''-n'', V_NS, ''delete'', ''deployment'', ''native'', ''--wait=true'']))))))"

definition uid_set :: "string \<Rightarrow> ('w, json list) vprog" where
  "uid_set jb = bindM (v_running jb) (\<lambda>ps. liftE (set_of (jpath [Sub ''metadata'', Sub ''uid'']) [] ps))"

definition restarted :: "json list \<Rightarrow> ('w, bool) vprog" where
  "restarted old = bindM (running_are ''restart'' 2) (\<lambda>b.
     if b then bindM (uid_set ''restart'') (\<lambda>new. returnM (\<not> list_ex (\<lambda>x. list_ex (py_eq x) new) old)) else returnM False)"

definition v_restart :: "pylib \<Rightarrow> ('w, unit) vprog" where
  "v_restart Y =
    (thenM (v_apply Y (v_job ''restart'' (args0\<lparr>j_n := 2,
         j_extra := [(''policies'', JList [JDict [(''event'', JStr ''PodEvicted''), (''action'', JStr ''RestartJob'')]])]\<rparr>))) (
     thenM (await_running ''restart'' 2) (
     bindM (uid_set ''restart'') (\<lambda>old.
     bindM (first_running ''restart'' [Sub ''metadata'', Sub ''name'']) (\<lambda>p.
     bindM (liftE (jstr p)) (\<lambda>name.
     thenM (vcmd [''-n'', V_NS, ''delete'', ''pod'', name, ''--wait=true'']) (
     thenM (v_wait (restarted old) 70) (
     bindM (v_get ''jobs.batch.volcano.sh'' (Some ''restart'') True) (\<lambda>jb.
     bindM (liftE (bindE (jpath [Sub ''status'', Get ''version'' (JInt 0)] jb) (\<lambda>v. jcmp ''>='' (\<ge>) v 1))) (\<lambda>b.
     assertM [] b))))))))))"

definition dependency_job :: "exn + json" where
  "dependency_job =
     (let jb = v_job ''dependency'' (args0\<lparr>j_command := [''sh'', ''-c'', ''sleep 4; echo first''], j_minimum := Some 1\<rparr>) in
     bindE (jpath the_task jb) (\<lambda>t.
     bindE (jset t ''name'' (JStr ''second'')) (\<lambda>b.
     bindE (jset b ''dependsOn'' (JDict [(''name'', JList [JStr ''worker''])])) (\<lambda>b1.
     bindE (jupd [Sub ''template'', Sub ''spec'', Sub ''containers'', Idx 0]
         (\<lambda>c. jset c ''command'' (JList [JStr ''sh'', JStr ''-c'', JStr ''echo second''])) b1) (\<lambda>b2.
       jupd [Sub ''spec'', Sub ''tasks''] (jappend b2) jb)))))"

definition named_like :: "string \<Rightarrow> json \<Rightarrow> exn + bool" where
  "named_like ending p = bindE (jpath [Sub ''metadata'', Sub ''name''] p) (\<lambda>n. jendswith n ending)"

definition v_dependency :: "pylib \<Rightarrow> ('w, unit) vprog" where
  "v_dependency Y =
    (bindM (liftE dependency_job) (\<lambda>jb.
     thenM (v_apply Y jb) (
     thenM (v_wait (phase_is ''dependency'' ''Completed'') 70) (
     bindM (v_pods (Some ''dependency'')) (\<lambda>pp.
     thenM (assertM [] (length pp = 2)) (
     bindM (liftE (nextE (named_like ''worker-0'') pp)) (\<lambda>p1.
     bindM (liftE (nextE (named_like ''second-0'') pp)) (\<lambda>p2.
     bindM (liftE (jpath [Sub ''status'', Sub ''startTime''] p2)) (\<lambda>t2.
     bindM (liftE (jpath [Sub ''status'', Sub ''startTime''] p1)) (\<lambda>t1.
     bindM (liftE (jge t2 t1)) (\<lambda>b.
     assertM [] b)))))))))))"

definition completed :: "json \<Rightarrow> exn + bool" where
  "completed j = eqE (jpath [Get ''status'' emptyD, Get ''state'' emptyD, get0 ''phase''] j) (JStr ''Completed'')"

definition completed_jobs :: "('w, json list) vprog" where
  "completed_jobs = bindM (v_get ''jobs.batch.volcano.sh'' None True)
     (\<lambda>doc. liftE (bindE (bindE (jsub doc ''items'') jiter) (filterE completed)))"

definition any_completed :: "('w, bool) vprog" where
  "any_completed = bindM (v_get ''jobs.batch.volcano.sh'' None True)
     (\<lambda>doc. liftE (bindE (bindE (jsub doc ''items'') jiter) (anyE completed)))"

definition job_spec :: "string \<Rightarrow> jobargs \<Rightarrow> exn + json" where
  "job_spec name a = jsub (v_job name a) ''spec''"

definition v_cron :: "pylib \<Rightarrow> ('w, unit) vprog" where
  "v_cron Y =
    (bindM (liftE (job_spec ''unused'' (args0\<lparr>j_command := [''true'']\<rparr>))) (\<lambda>sp.
     thenM (v_apply Y (JDict [(''apiVersion'', JStr ''batch.volcano.sh/v1alpha1''), (''kind'', JStr ''CronJob''),
         (''metadata'', JDict [(''name'', JStr ''cron''), (''namespace'', JStr V_NS)]),
         (''spec'', JDict [(''schedule'', JStr ''* * * * *''), (''concurrencyPolicy'', JStr ''Forbid''),
           (''jobTemplate'', JDict [(''spec'', sp)])])])) (
     finallyM (
         (thenM (v_wait any_completed 90) (
          bindM (vcmd [''-n'', V_NS, ''get'', ''cronjobs.batch.volcano.sh'', ''-o'', ''json'']) (\<lambda>x.
          v_write ''cron.json'' x)))) (ign (vcmd [''-n'', V_NS, ''delete'', ''cronjobs.batch.volcano.sh'', ''cron''])))))"

definition v_flow :: "pylib \<Rightarrow> ('w, unit) vprog" where
  "v_flow Y =
    (thenM (forM [''step-a'', ''step-b''] (\<lambda>n.
         (bindM (liftE (job_spec n (args0\<lparr>j_command := [''sh'', ''-c'', ''sleep 2; echo finished'']\<rparr>))) (\<lambda>sp.
          ign (v_apply Y (JDict [(''apiVersion'', JStr ''flow.volcano.sh/v1alpha1''), (''kind'', JStr ''JobTemplate''),
           (''metadata'', JDict [(''name'', JStr n), (''namespace'', JStr V_NS)]), (''spec'', sp)])))))) (
     thenM (v_apply Y (JDict [(''apiVersion'', JStr ''flow.volcano.sh/v1alpha1''), (''kind'', JStr ''JobFlow''),
         (''metadata'', JDict [(''name'', JStr ''flow''), (''namespace'', JStr V_NS)]),
         (''spec'', (JDict
           [(''jobRetainPolicy'', JStr ''retain''),
            (''flows'',
              JList
                [JDict [(''name'', JStr ''step-a'')],
                 JDict
                   [(''name'', JStr ''step-b''),
                    (''dependsOn'', JDict [(''targets'', JList [JStr ''step-a''])])]])]))])) (
     finallyM (
         (thenM (v_wait (bindM completed_jobs (\<lambda>js. returnM (length js = 2))) 70) (
          bindM (vcmd [''-n'', V_NS, ''get'', ''jobflows'', ''-o'', ''json'']) (\<lambda>x.
          v_write ''flow.json'' x)))) (ign (vcmd [''-n'', V_NS, ''delete'', ''jobflows,jobtemplates'', ''--all''])))))"

definition scale_scheduler :: "string \<Rightarrow> ('w, unit) vprog" where
  "scale_scheduler n = ign (vcmd [''-n'', ''volcano-system'', ''scale'',
      ''deployment/volcano-scheduler'', ''--replicas='' @ n])"

definition scheduler_gone :: "('w, bool) vprog" where
  "scheduler_gone =
    (bindM (vcmd [''-n'', ''volcano-system'', ''get'', ''pods'', ''-l'', ''app=volcano-scheduler'',
           ''-o'', ''json'']) (\<lambda>x.
     bindM (py_loads x) (\<lambda>doc.
     bindM (liftE (jsub doc ''items'')) (\<lambda>items.
     returnM (\<not> truth items)))))"

definition together :: "string \<Rightarrow> string \<Rightarrow> nat \<Rightarrow> ('w, bool) vprog" where
  "together a b n = bindM (v_running a) (\<lambda>ps. bindM (v_running b) (\<lambda>qs. returnM (length ps + length qs = n)))"

definition v_drf :: "pylib \<Rightarrow> ('w, unit) vprog" where
  "v_drf Y =
    (thenM (v_config Y ''proportion'' conf0) (
     thenM (scale_scheduler ''0'') (
     thenM (v_wait scheduler_gone 70) (
     thenM (finallyM (
         (thenM (v_apply Y (v_job ''fair-a'' (args0\<lparr>j_n := 4, j_minimum := Some 1, j_cpu := ''5''\<rparr>))) (
          ign (v_apply Y (v_job ''fair-b'' (args0\<lparr>j_n := 4, j_minimum := Some 1, j_cpu := ''5''\<rparr>)))))) (scale_scheduler ''1'')) (
     thenM (v_wait (together ''fair-a'' ''fair-b'' 4) 70) (
     bindM (running_are ''fair-a'' 2) (\<lambda>a.
     bindM (if a then running_are ''fair-b'' 2 else returnM False) (\<lambda>b.
     assertM [] b))))))))"

definition v_metrics :: "('w, unit) vprog" where
  "v_metrics =
    (bindM (vcmd [''-n'', ''volcano-system'', ''get'', ''svc'', ''-o'', ''json'']) (\<lambda>x.
     bindM (py_loads x) (\<lambda>doc.
     bindM (liftE (jsub doc ''items'')) (\<lambda>services.
     thenM (v_write ''services.json'' (dumps_indent services)) (
     bindM (liftE (bindE (jiter services) (nextE (\<lambda>s. bindE (jpath [Sub ''metadata'', Sub ''name''] s) (jin (JStr ''scheduler'')))))) (\<lambda>svc.
     bindM (liftE (jpath [Sub ''spec'', Sub ''ports'', Idx 0, Sub ''port''] svc)) (\<lambda>port.
     bindM (liftE (jpath [Sub ''metadata'', Sub ''name''] svc)) (\<lambda>name.
     bindM (vcmd [''get'', ''--raw'', ''/api/v1/namespaces/volcano-system/services/'' @ py_str name @ '':'' @ py_str port @ ''/proxy/metrics'']) (\<lambda>data.
     thenM (v_write ''metrics.prom'' data) (
     assertM [] (contains data ''volcano_'')))))))))))"

definition spread_settled :: "('w, bool) vprog" where
  "spread_settled = bindM (running_are ''node-spread'' 2) (\<lambda>b.
     if b then returnM True
     else bindM (v_pods (Some ''node-spread''))
       (\<lambda>ps. liftE (anyE (\<lambda>p. eqE (jpath [Get ''status'' emptyD, get0 ''phase''] p) (JStr ''Failed'')) ps)))"

definition v_gpu_device_policy :: "pylib \<Rightarrow> ('w, unit) vprog" where
  "v_gpu_device_policy Y =
    (thenM (v_config Y ''proportion'' (conf0\<lparr>c_policy := ''spread'', c_weight := 100\<rparr>)) (
     thenM (v_apply Y (v_job ''node-spread'' (args0\<lparr>j_n := 2, j_gpu := gpu 1 3000 20\<rparr>))) (
     thenM (v_wait spread_settled 70) (
     bindM (vcmd [''-n'', ''volcano-system'', ''logs'', ''deployment/volcano-scheduler'']) (\<lambda>x.
     thenM (v_write ''startup-scheduler.log'' x) (
     bindM (running_are ''node-spread'' 2) (\<lambda>b.
     thenM (assertM [] b) (
     bindM (v_running ''node-spread'') (\<lambda>ps.
     bindM (liftE (set_of (\<lambda>p. bindE (jpath [Sub ''metadata'', Sub ''annotations'', Sub vgpu_ids] p) first_part) [] ps)) (\<lambda>ids.
     assertM [] (length ids = 2)))))))))))"

definition advanced_tests :: "pylib \<Rightarrow> (string \<times> ('w, unit) vprog \<times> string option) list" where
  "advanced_tests Y =
     [(''20-nodegroup'', v_nodegroup Y, None), (''21-hypernode-hard'', v_hypernode Y, None),
      (''22-task-topology'', v_task_topology Y, None), (''23-native-deployment'', v_native Y, None),
      (''24-job-restart'', v_restart Y, None), (''25-task-dependency'', v_dependency Y, None), (''26-cronjob'', v_cron Y, None),
      (''27-jobflow'', v_flow Y, None), (''28-drf-fairness'', v_drf Y, None), (''29-metrics'', v_metrics, None),
      (''30-vgpu-spread-policy'', v_gpu_device_policy Y, None)]"

definition advanced_run :: "pylib \<Rightarrow> string \<Rightarrow> ('w, bool) vprog" where
  "advanced_run Y only = thenM v_import (v_matrix Y only (advanced_tests Y))"


section \<open>run-boundaries.py\<close>

definition count_of :: "string \<Rightarrow> ('w, nat) vprog" where
  "count_of n = bindM (v_running n) (\<lambda>ps. returnM (length ps))"

definition heavy_job :: "string \<Rightarrow> json" where
  "heavy_job name = v_job name (args0\<lparr>j_n := 12, j_minimum := Some 1, j_cpu := ''2'', j_q := name\<rparr>)"

definition v_weighted :: "pylib \<Rightarrow> ('w, unit) vprog" where
  "v_weighted Y =
    (thenM (v_config Y ''proportion'' conf0) (
     thenM (v_apply Y (v_queue ''weight-a'' [(''weight'', JInt 1)])) (
     thenM (v_apply Y (v_queue ''weight-b'' [(''weight'', JInt 3)])) (
     thenM (scale_scheduler ''0'') (
     thenM (vcmd [''-n'', ''volcano-system'', ''wait'', ''--for=delete'', ''pod'', ''-l'',
           ''app=volcano-scheduler'', ''--timeout=40s'']) (
     thenM (finallyM (
         (thenM (v_apply Y (heavy_job ''weight-a'')) (
          ign (v_apply Y (heavy_job ''weight-b''))))) (scale_scheduler ''1'')) (
     thenM (v_wait (together ''weight-a'' ''weight-b'' 10) 70) (
     bindM (count_of ''weight-a'') (\<lambda>a.
     bindM (count_of ''weight-b'') (\<lambda>b.
     let counts = JDict [(''weight-a'', JInt (int a)), (''weight-b'', JInt (int b))] in
     thenM (v_write ''counts.json'' (dumps counts)) (
     assertM (jrepr counts) (a < b \<and> 0 < a))))))))))))"

definition v_namespace_quota :: "pylib \<Rightarrow> ('w, unit) vprog" where
  "v_namespace_quota Y =
    (thenM (v_config Y ''proportion'' (conf0\<lparr>c_extra := [JDict [(''name'', JStr ''resourcequota'')]]\<rparr>)) (
     thenM (v_apply Y (JDict [(''apiVersion'', JStr ''v1''), (''kind'', JStr ''ResourceQuota''),
         (''metadata'', JDict [(''name'', JStr ''cpu''), (''namespace'', JStr V_NS)]),
         (''spec'', JDict [(''hard'', JDict [(''requests.cpu'', JStr ''1'')])])])) (
     thenM (finallyM (
         (thenM (v_apply Y (v_job ''quota'' (args0\<lparr>j_n := 2, j_cpu := ''1''\<rparr>))) (
          thenM (blocked_job ''quota'') (
          bindM (pods_are ''quota'' 0) (\<lambda>b.
          thenM (assertM [] b) (
          v_snapshot)))))) (ign (vcmd [''-n'', V_NS, ''delete'', ''resourcequota'', ''cpu'']))) (
     await_running ''quota'' 2))))"

definition enable_hierarchy :: "json \<Rightarrow> exn + json" where
  "enable_hierarchy p = bindE (jsub p ''name'') (\<lambda>n.
     if py_eq n (JStr ''capacity'') then jset p ''enableHierarchy'' (JBool True) else Inr p)"

definition hierarchical :: "json \<Rightarrow> exn + json" where
  "hierarchical = jupd [Sub ''tiers''] (each_item (jupd [Sub ''plugins''] (each_item enable_hierarchy)))"

definition cpu_pair :: "string \<Rightarrow> string \<Rightarrow> (string \<times> json) list" where
  "cpu_pair a b = [(''capability'', JDict [(''cpu'', JStr a)]), (''deserved'', JDict [(''cpu'', JStr b)])]"

definition v_hierarchy :: "pylib \<Rightarrow> ('w, unit) vprog" where
  "v_hierarchy Y =
    (thenM (v_config Y ''capacity'' conf0) (
     bindM get_conf (\<lambda>cm.
     bindM (liftE (bindE (jpath [Sub ''data'', Sub ''volcano-scheduler.conf''] cm) jstr)) (\<lambda>text.
     bindM (liftE (safe_load Y text)) (\<lambda>c.
     bindM (liftE (hierarchical c)) (\<lambda>c1.
     thenM (v_install Y cm c1) (
     thenM (v_apply Y (v_queue ''parent'' (cpu_pair ''6'' ''6''))) (
     thenM (v_apply Y (v_queue ''child-a'' ((''parent'', JStr ''parent'') # cpu_pair ''6'' ''3''))) (
     thenM (v_apply Y (v_queue ''child-b'' ((''parent'', JStr ''parent'') # cpu_pair ''6'' ''3''))) (
     thenM (v_apply Y (v_job ''child-a'' (args0\<lparr>j_cpu := ''4'', j_q := ''child-a''\<rparr>))) (
     thenM (await_running ''child-a'' 1) (
     thenM (v_apply Y (v_job ''child-b'' (args0\<lparr>j_cpu := ''4'', j_q := ''child-b''\<rparr>))) (
     thenM (blocked_job ''child-b'') (
     thenM (v_delete_job ''child-a'') (
     await_running ''child-b'' 1)))))))))))))))"

definition v_least_allocated :: "pylib \<Rightarrow> ('w, unit) vprog" where
  "v_least_allocated Y =
    (thenM (v_config Y ''proportion'' (conf0\<lparr>c_extra := [JDict [(''name'', JStr ''resource-strategy-fit''), (''arguments'', JDict
         [(''resourceStrategyFitWeight'', JInt 100), (''resources'', JDict [(''cpu'', JDict [(''type'', JStr ''LeastAllocated''), (''weight'', JInt 1)])])])]]\<rparr>)) (
     thenM (v_apply Y (v_job ''load'' (args0\<lparr>j_cpu := ''5'', j_node := Some ''volcano-lab-worker''\<rparr>))) (
     thenM (await_running ''load'' 1) (
     thenM (v_apply Y (v_job ''fit'' (args0\<lparr>j_cpu := ''1''\<rparr>))) (
     thenM (await_running ''fit'' 1) (
     bindM (first_running ''fit'' [Sub ''spec'', Sub ''nodeName'']) (\<lambda>n.
     assertM [] (py_eq n (JStr ''volcano-lab-worker2'')))))))))"

definition v_backfill :: "pylib \<Rightarrow> ('w, unit) vprog" where
  "v_backfill Y =
    (thenM (v_config Y ''proportion'' conf0) (
     thenM (v_apply Y (v_job ''large'' (args0\<lparr>j_n := 3, j_cpu := ''10''\<rparr>))) (
     thenM (v_pending ''large'' 3) (
     thenM (v_apply Y (v_job ''small'' (args0\<lparr>j_cpu := ''100m'', j_command := [''sh'', ''-c'', ''echo small'']\<rparr>))) (
     thenM (v_wait (phase_is ''small'' ''Completed'') 70) (
     bindM (any_bound ''large'') (\<lambda>b.
     assertM [] (\<not> b))))))))"

definition v_invalid :: "('w, unit) vprog" where
  "v_invalid =
    (bindM (v_proc [''create'', ''-f'', ''-''] (Some (v_job ''invalid'' (args0\<lparr>j_n := 1, j_minimum := Some 2\<rparr>))) False) (\<lambda>p.
     thenM (v_write ''admission.log'' (stderr p)) (
     assertM (stderr p) (returncode p \<noteq> 0 \<and> contains (stderr p) ''minAvailable''))))"

definition tolerant_job :: "exn + json" where
  "tolerant_job = jupd (the_task @ [Sub ''template'', Sub ''spec'']) (\<lambda>s. jset s ''tolerations'' (JList
    [JDict
       [(''key'', JStr ''lab''), (''operator'', JStr ''Equal''), (''value'', JStr ''reserved''),
        (''effect'', JStr ''NoSchedule'')]]))
     (v_job ''tolerated'' (args0\<lparr>j_node := Some ''volcano-lab-worker''\<rparr>))"

definition v_taints :: "pylib \<Rightarrow> ('w, unit) vprog" where
  "v_taints Y =
    (thenM (vcmd [''taint'', ''node'', ''volcano-lab-worker'', ''lab=reserved:NoSchedule'', ''--overwrite'']) (
     finallyM (
         (thenM (v_apply Y (v_job ''taint'' (args0\<lparr>j_node := Some ''volcano-lab-worker''\<rparr>))) (
          thenM (v_pending ''taint'' 1) (
          thenM v_snapshot (
          thenM (v_delete_job ''taint'') (
          bindM (liftE tolerant_job) (\<lambda>jb.
          thenM (v_apply Y jb) (
          await_running ''tolerated'' 1)))))))) (ign (vcmd [''taint'', ''node'', ''volcano-lab-worker'', ''lab-'']))))"

definition v_gpu_nvml :: "pylib \<Rightarrow> ('w, unit) vprog" where
  "v_gpu_nvml Y =
    (thenM (v_apply Y (v_job ''nvml'' (args0\<lparr>j_gpu := gpu 1 3000 25\<rparr>))) (
     thenM (await_running ''nvml'' 1) (
     bindM (first_running ''nvml'' [Sub ''metadata'', Sub ''name'']) (\<lambda>p.
     bindM (liftE (jstr p)) (\<lambda>name.
     bindM (vcmd [''-n'', V_NS, ''exec'', name, ''--'', ''env'',
           ''MOCK_NVML_CONFIG=/etc/nvml-mock/config.yaml'', ''nvidia-smi'',
           ''--query-gpu=uuid,memory.total'', ''--format=csv,noheader'']) (\<lambda>x.
     thenM (v_write ''nvidia-smi.log'' x) (
     assertM [] (contains x ''GPU-''))))))))"

definition boundary_tests :: "pylib \<Rightarrow> (string \<times> ('w, unit) vprog \<times> string option) list" where
  "boundary_tests Y =
     [(''31-weighted-queues'', v_weighted Y, None), (''32-namespace-quota'', v_namespace_quota Y, None),
      (''33-hierarchical-queue'', v_hierarchy Y, None), (''34-resource-strategy-fit'', v_least_allocated Y, None),
      (''35-small-job-progress'', v_backfill Y, None), (''36-invalid-job'', v_invalid, None),
      (''37-taint-toleration'', v_taints Y, None), (''38-nvml-observation'', v_gpu_nvml Y, None)]"

definition boundaries_run :: "pylib \<Rightarrow> string \<Rightarrow> ('w, bool) vprog" where
  "boundaries_run Y only = thenM v_import (v_matrix Y only (boundary_tests Y))"


section \<open>run-startup-probe.py\<close>

definition gpu_node :: "json \<Rightarrow> exn + bool" where
  "gpu_node n = eqE (jpath [Sub ''metadata'', Get ''labels'' emptyD, get0 ''gpu''] n) (JStr ''on'')"

fun handshakes_of :: "json list \<Rightarrow> (string \<times> json) list \<Rightarrow> exn + (string \<times> json) list" where
  "handshakes_of [] d = Inr d"
| "handshakes_of (n # ns) d = bindE (gpu_node n) (\<lambda>b.
     if b then bindE (bindE (jpath [Sub ''metadata'', Sub ''name''] n) jstr) (\<lambda>name.
          bindE (jpath [Sub ''metadata'', Get ''annotations'' emptyD, get0 ''volcano.sh/node-vgpu-handshake''] n) (\<lambda>v.
            handshakes_of ns (dict_set d name v)))
     else handshakes_of ns d)"

definition handshakes :: "('w, (string \<times> json) list) vprog" where
  "handshakes = bindM (v_get ''nodes'' None False)
     (\<lambda>doc. liftE (bindE (bindE (jsub doc ''items'') jiter) (\<lambda>ns. handshakes_of ns [])))"

text \<open>The generator of \<^verbatim>\<open>all\<close> asks the cluster again for every node.\<close>

fun all_changed :: "(string \<times> json) list \<Rightarrow> ('w, bool) vprog" where
  "all_changed [] = returnM True"
| "all_changed ((n, v) # rest) = bindM handshakes (\<lambda>h.
     if py_eq (case map_of h n of None \<Rightarrow> JNull | Some w \<Rightarrow> w) v then returnM False else all_changed rest)"

definition settled :: "string \<Rightarrow> ('w, bool) vprog" where
  "settled name = bindM (pods_are name 2) (\<lambda>b. if b
     then bindM (v_pods (Some name)) (\<lambda>ps. liftE (everyE (\<lambda>p.
       bindE (jpath [Get ''status'' emptyD, get0 ''phase''] p) (\<lambda>ph. jin ph (JList [JStr ''Running'', JStr ''Failed'']))) ps))
     else returnM False)"

definition trial_row :: "json \<Rightarrow> exn + json" where
  "trial_row p =
     bindE (jpath [Sub ''metadata'', Sub ''name''] p) (\<lambda>name.
     bindE (jpath [Sub ''spec'', get0 ''nodeName''] p) (\<lambda>node.
     bindE (jpath [Sub ''status'', Sub ''phase''] p) (\<lambda>ph.
     bindE (jpath [Sub ''status'', get0 ''message''] p) (\<lambda>msg.
     bindE (jpath [Sub ''metadata'', Get ''annotations'' emptyD, get0 vgpu_ids] p) (\<lambda>al.
       Inr (JDict [(''name'', name), (''node'', node), (''phase'', ph), (''message'', msg), (''allocation'', al)]))))))"

definition v_observe :: "pylib \<Rightarrow> string \<Rightarrow> ('w, json list) vprog" where
  "v_observe Y name =
    (thenM (v_apply Y (v_job name (args0\<lparr>j_n := 2, j_gpu := gpu 1 3000 20\<rparr>))) (
     thenM (v_wait (settled name) 45) (
     bindM (v_pods (Some name)) (\<lambda>ps.
     thenM (v_write (name @ ''-pods.json'') (dumps_indent (JList ps))) (
     bindM (vcmd [''-n'', ''volcano-system'', ''logs'', ''deployment/volcano-scheduler'']) (\<lambda>x.
     thenM (v_write (name @ ''-scheduler.log'') x) (
     bindM (liftE (mapE trial_row ps)) (\<lambda>rows.
     thenM (v_delete_job name) (
     returnM rows)))))))))"

definition running_allocated :: "json \<Rightarrow> exn + bool" where
  "running_allocated x = andE (eqE (jsub x ''phase'') (JStr ''Running'')) (bindE (jsub x ''allocation'') (\<lambda>v. Inr (truth v)))"

definition v_trial :: "pylib \<Rightarrow> json list \<Rightarrow> nat \<Rightarrow> ('w, json list) vprog" where
  "v_trial Y trials i =
    (thenM (v_config Y ''proportion'' (conf0\<lparr>c_policy := ''spread'', c_weight := 100\<rparr>)) (
     bindM (v_observe Y (''early-'' @ nat_str i)) (\<lambda>first.
     bindM handshakes (\<lambda>old.
     thenM (v_wait (all_changed old) 45) (
     bindM (v_observe Y (''after-heartbeat-'' @ nat_str i)) (\<lambda>rows.
     let trials' = trials @ [JDict [(''trial'', JInt (int i)), (''immediate'', JList first), (''after_heartbeat'', JList rows)]] in
     thenM (v_write ''trials.json'' (dumps_indent (JList trials'))) (
     bindM (liftE (everyE running_allocated rows)) (\<lambda>b.
     thenM (assertM (jrepr (JList rows)) b) (
     bindM (liftE (set_of (\<lambda>x. bindE (jsub x ''allocation'') first_part) [] rows)) (\<lambda>ids.
     thenM (assertM (jrepr (JList rows)) (length ids = 2)) (
     returnM trials')))))))))))"

fun v_trials :: "pylib \<Rightarrow> nat list \<Rightarrow> json list \<Rightarrow> ('w, unit) vprog" where
  "v_trials Y [] trials = returnM ()"
| "v_trials Y (i # is) trials = bindM (v_trial Y trials i) (v_trials Y is)"

definition probe_tests :: "pylib \<Rightarrow> (string \<times> ('w, unit) vprog \<times> string option) list" where
  "probe_tests Y = [(''39-restart-heartbeat-probe'', v_trials Y [0, 1, 2] [], None)]"

definition startup_probe_run :: "pylib \<Rightarrow> ('w, bool) vprog" where
  "startup_probe_run Y = thenM v_import (v_matrix Y [] (probe_tests Y))"


section \<open>The tests keep to the harness\<close>

lemmas advanced_defs = v_nodegroup_def v_hypernode_def v_task_topology_def native_ready_def v_native_def uid_set_def restarted_def
  v_restart_def v_dependency_def completed_jobs_def any_completed_def v_cron_def v_flow_def scale_scheduler_def scheduler_gone_def
  together_def v_drf_def v_metrics_def spread_settled_def v_gpu_device_policy_def nodes_are_def first_running_def

lemmas boundary_defs = count_of_def v_weighted_def v_namespace_quota_def v_hierarchy_def v_least_allocated_def v_backfill_def
  v_invalid_def v_taints_def v_gpu_nvml_def scale_scheduler_def together_def first_running_def

lemmas probe_defs = handshakes_def settled_def v_observe_def v_trial_def

lemma all_changed_rules:
  "(\<And>args data r. P (Ran (''kubectl'' # ''--context'' # V_CTX # args) data r)) \<Longrightarrow> (\<And>p x. P (Wrote p x)) \<Longrightarrow> (\<And>p. P (MadeDir p)) \<Longrightarrow>
     (\<And>r. P (Clock r)) \<Longrightarrow> (\<And>d. P (Slept d)) \<Longrightarrow> emits os P (all_changed old)"
  "clock_ok os now \<Longrightarrow> runs os now (all_changed old)"
  "keeps os (quiet I) (all_changed old)"
  by (induction old rule: all_changed.induct) (auto simp: handshakes_def intro!: emits_intros runs_intros keeps_intros)

lemma more_tests_emit:
  assumes "\<And>args data r. P (Ran (''kubectl'' # ''--context'' # V_CTX # args) data r)" and "\<And>p x. P (Wrote p x)"
    and "\<And>p. P (MadeDir p)" and "\<And>r. P (Clock r)" and "\<And>d. P (Slept d)"
  shows "list_all (\<lambda>(_, fn, _). emits os P fn) (advanced_tests Y)" "list_all (\<lambda>(_, fn, _). emits os P fn) (boundary_tests Y)"
    "list_all (\<lambda>(_, fn, _). emits os P fn) (probe_tests Y)"
  unfolding advanced_tests_def advanced_defs boundary_tests_def boundary_defs probe_tests_def v_trials.simps probe_defs
    list.pred_inject prod.case Let_def
  by (intro conjI TrueI emits_intros all_changed_rules; simp add: assms)+

lemma more_tests_run:
  assumes "clock_ok os now"
  shows "list_all (\<lambda>(_, fn, _). runs os now fn) (advanced_tests Y)" "list_all (\<lambda>(_, fn, _). runs os now fn) (boundary_tests Y)"
    "list_all (\<lambda>(_, fn, _). runs os now fn) (probe_tests Y)"
  unfolding advanced_tests_def advanced_defs boundary_tests_def boundary_defs probe_tests_def v_trials.simps probe_defs
    list.pred_inject prod.case Let_def
  by (intro conjI TrueI runs_intros all_changed_rules assms; simp)+

lemma more_tests_keep:
  "list_all (\<lambda>(_, fn, _). \<forall>I. keeps os (quiet I) fn) (advanced_tests Y)"
  "list_all (\<lambda>(_, fn, _). \<forall>I. keeps os (quiet I) fn) (boundary_tests Y)"
  "list_all (\<lambda>(_, fn, _). \<forall>I. keeps os (quiet I) fn) (probe_tests Y)"
  unfolding advanced_tests_def advanced_defs boundary_tests_def boundary_defs probe_tests_def v_trials.simps probe_defs
    list.pred_inject prod.case Let_def
  by (intro conjI TrueI allI keeps_intros all_changed_rules; simp)+


section \<open>The scripts\<close>

lemma volcano_emits:
  assumes "\<And>args data r. P (Ran (''kubectl'' # ''--context'' # V_CTX # args) data r)" and "\<And>p x. P (Wrote p x)"
    and "\<And>p. P (MadeDir p)" and "\<And>r. P (Clock r)" and "\<And>d. P (Slept d)" and "\<And>x. P (Printed x)"
  shows "emits os P (volcano_run Y only)" "emits os P (advanced_run Y only)" "emits os P (boundaries_run Y only)"
    "emits os P (startup_probe_run Y)"
  unfolding volcano_run_def advanced_run_def boundaries_run_def startup_probe_run_def v_import_def
  by (intro emits_intros v_matrix_emits v_tests_emit more_tests_emit; simp add: assms)+

lemma volcano_runs:
  assumes "clock_ok os now"
  shows "runs os now (volcano_run Y only)" "runs os now (advanced_run Y only)" "runs os now (boundaries_run Y only)"
    "runs os now (startup_probe_run Y)"
  unfolding volcano_run_def advanced_run_def boundaries_run_def startup_probe_run_def v_import_def
  by (intro runs_intros v_matrix_runs v_tests_run more_tests_run assms)+


section \<open>The report of every matrix\<close>

definition matrices :: "pylib \<Rightarrow> (string \<times> ('w, unit) vprog \<times> string option) list list" where
  "matrices Y = [v_tests Y, advanced_tests Y, boundary_tests Y, probe_tests Y]"

lemma matrices_keep: "tests \<in> set (matrices Y) \<Longrightarrow> list_all (\<lambda>(_, fn, _). \<forall>I. keeps os (quiet I) fn) tests"
  using v_tests_keep more_tests_keep by (auto simp: matrices_def)

lemma demo_get [simp]: "loads (dumps (JDict [(''items'', JList [])])) = Inr (JDict [(''items'', JList [])])"
  by (rule loads_dumps) simp

lemmas demo_volcano_simps = demo_volcano_def v_queue_def V_CTX_def V_NS_def contains.simps startswith_def

lemma demo_clean_gives: "gives (demo_os demo_volcano) v_clean (\<lambda>_. True)"
  unfolding v_clean_def v_defs v_run_def by (intro gives_intros; simp add: demo_volcano_simps)+

lemma demo_case_gives: "gives (demo_os demo_volcano) (v_case demo_lib name v_invalid None) (\<lambda>_. True)"
  unfolding v_case_def case_error_def case_body_def v_invalid_def v_record_def v_defs v_run_def Let_def
  by (intro gives_intros; simp add: demo_volcano_simps)+

lemma demo_matrix_returns:
  "\<exists>code s'. v_matrix demo_lib ''36'' (boundary_tests demo_lib) (demo_os demo_volcano) (demo_start \<lparr>CASE = [], RESULTS = []\<rparr>) =
     Some (Inr code, s')"
proof (rule v_matrix_returns [OF more_tests_keep(2) _ _ demo_clean_gives])
  have "filter (\<lambda>(name, fn, mode). selected ''36'' name) (boundary_tests demo_lib) =
      [(''36-invalid-job'', v_invalid :: (nat, unit) vprog, None)]"
    by (simp add: boundary_tests_def selected_def startswith_def)
  then show "gives (demo_os demo_volcano) (forM (filter (\<lambda>(name, fn, mode). selected ''36'' name) (boundary_tests demo_lib))
      (\<lambda>(name, fn, mode). v_case demo_lib name fn mode)) (\<lambda>_. True)"
    by (simp only:) (intro gives_intros, auto intro: demo_case_gives)
qed (simp add: demo_start_def)

theorem case_verdict_witness:
  "\<exists>s' row. v_case demo_lib ''36-invalid-job'' v_invalid None (demo_os demo_volcano) (demo_start \<lparr>CASE = [], RESULTS = []\<rparr>) =
     Some (Inr (), s') \<and> RESULTS (globals s') = [row] \<and> jsub row ''case'' = Inr (JStr ''36-invalid-job'')"
proof -
  obtain s' where run: "v_case demo_lib ''36-invalid-job'' v_invalid None (demo_os demo_volcano)
      (demo_start \<lparr>CASE = [], RESULTS = []\<rparr>) = Some (Inr (), s')" using demo_case_gives by (rule givesE) simp
  have "\<forall>e. format_exc demo_lib e \<noteq> []" by (simp add: demo_lib_def)
  moreover have "keeps (demo_os demo_volcano) (quiet I) (v_invalid :: (nat, unit) vprog)" for I
    unfolding v_invalid_def by (intro keeps_intros)
  ultimately show ?thesis using case_verdict [OF _ _ run] run by (simp add: demo_start_def) blast
qed

end
