(* ===== verification/VolcanoSafety.thy ===== *)
theory VolcanoSafety
  imports VolcanoMore Cleanup
begin

text \<open>
  What the tests of the scheduler matrix have seen when they return normally, and what they leave behind when they do not.
\<close>

section \<open>Observations\<close>

text \<open>A listing of the Pods in which the Pods of a job, or those of them that run, satisfy a condition.\<close>

definition listed :: "(json \<Rightarrow> exn + bool) \<Rightarrow> event \<Rightarrow> bool" where
  "listed c e \<longleftrightarrow> (case e of
       Ran a _ (Inr r) \<Rightarrow> a = [''kubectl'', ''--context'', V_CTX, ''-n'', V_NS, ''get'', ''pods'', ''-o'', ''json''] \<and> returncode r = 0 \<and>
         bindE (loads (stdout r)) c = Inr True
     | _ \<Rightarrow> False)"

definition pods_in :: "string \<Rightarrow> json \<Rightarrow> exn + json list" where
  "pods_in jb doc = bindE (bindE (jsub doc ''items'') jiter) (filterE (of_job (Some jb)))"

definition saw_running :: "string \<Rightarrow> (nat \<Rightarrow> bool) \<Rightarrow> event \<Rightarrow> bool" where
  "saw_running jb P = listed (\<lambda>doc. bindE (bindE (pods_in jb doc) (filterE is_running)) (\<lambda>ps. Inr (P (length ps))))"

definition saw_pods :: "string \<Rightarrow> nat \<Rightarrow> event \<Rightarrow> bool" where
  "saw_pods jb n = listed (\<lambda>doc. bindE (pods_in jb doc) (\<lambda>ps. Inr (length ps = n)))"

text \<open>All \<open>n\<close> Pods of the job were there and none was on a node.\<close>

definition saw_unbound :: "string \<Rightarrow> nat \<Rightarrow> event \<Rightarrow> bool" where
  "saw_unbound jb n = listed (\<lambda>doc. bindE (pods_in jb doc) (\<lambda>ps. andE (Inr (length ps = n)) (everyE unbound ps)))"

lemmas listed_defs = listed_def pods_in_def saw_running_def saw_pods_def saw_unbound_def

lemma v_pods_wp [wp_intros]:
  assumes "\<And>r v ps. returncode r = 0 \<Longrightarrow> loads (stdout r) = Inr v \<Longrightarrow>
      bindE (bindE (jsub v ''items'') jiter) (filterE (of_job jb)) = Inr ps \<Longrightarrow>
    Q ps (es @ [Ran [''kubectl'', ''--context'', V_CTX, ''-n'', V_NS, ''get'', ''pods'', ''-o'', ''json''] None (Inr r)])"
  shows "wp os (v_pods jb) Q es"
  unfolding v_pods_def v_get_def v_k_def v_proc_def by (intro wp_intros volcano_k.k_wp) (use assms in auto)

lemma v_appends: "emits os (\<lambda>_. True) (v_apply Y manifest)" "emits os (\<lambda>_. True) v_snapshot"
  "emits os (\<lambda>_. True) (v_config Y mode a)" "emits os (\<lambda>_. True) (v_k args obj)"
  by (intro v_emits; simp)+

lemma await_running_observes: "observes os (await_running jb n) [saw_running jb (\<lambda>k. k = n)]"
  unfolding await_running_def running_are_def v_running_def
  by (rule observesI, intro wp_intros emits_intros impI; simp add: observed listed_defs)

lemma pods_are_observes: "observes os (v_wait (pods_are jb n) 70) [saw_pods jb n]"
  unfolding pods_are_def by (rule observesI, intro wp_intros emits_intros impI; simp add: observed listed_defs)

lemma observes_forM: "(\<And>x. observes os (f x) ps) \<Longrightarrow> observes os (forM xs f) (concat (replicate (length xs) ps))"
  by (induction xs) (auto intro: observes_thenM observes_nil emits_intros)

lemma v_pending_observes: "observes os (v_pending jb n) ([saw_pods jb n] @ replicate 6 (saw_unbound jb n))"
proof -
  have "observes os (bindM (v_pods (Some jb)) (\<lambda>pp. bindM (liftE (andE (Inr (length pp = n)) (everyE unbound pp)))
      (\<lambda>b. thenM (assertM (jrepr (JList pp)) b) (sleep 1000)))) [saw_unbound jb n]"
    by (rule observesI, intro wp_intros emits_intros impI; simp add: observed listed_defs)
  from observes_thenM [OF pods_are_observes observes_forM [OF this, of "[0..<6]"]]
  show ?thesis unfolding v_pending_def by (simp add: eval_nat_numeral)
qed

lemma v_delete_job_observes: "observes os (v_delete_job jb) [saw_pods jb 0]"
  unfolding v_delete_job_def by (intro observes_then_skip v_appends pods_are_observes)

definition gang_seen :: "(event \<Rightarrow> bool) list" where
  "gang_seen = [saw_running ''holder'' (\<lambda>k. k = 2)] @ ([saw_pods ''gang'' 3] @ replicate 6 (saw_unbound ''gang'' 3)) @
     [saw_pods ''holder'' 0] @ [saw_running ''gang'' (\<lambda>k. k = 3)]"

lemma gang_observes: "observes os (v_gang Y) gang_seen"
  unfolding v_gang_def gang_seen_def
  by (intro observes_then_skip v_appends observes_thenM await_running_observes v_pending_observes v_delete_job_observes)

text \<open>The refused Pods of a job that is not admitted are not counted by \<^verbatim>\<open>blocked_job\<close>, which only looks that none is on a node.\<close>

definition saw_none_bound :: "string \<Rightarrow> event \<Rightarrow> bool" where
  "saw_none_bound jb = listed (\<lambda>doc. bindE (pods_in jb doc) (\<lambda>ps. bindE (anyE (\<lambda>p. bindE (jpath [Sub ''spec'', get0 ''nodeName''] p)
     (\<lambda>v. Inr (truth v))) ps) (\<lambda>b. Inr (\<not> b))))"

lemma blocked_job_observes: "observes os (blocked_job jb) (replicate 6 (saw_none_bound jb))"
proof -
  have "observes os (bindM (any_bound jb) (\<lambda>b. thenM (assertM [] (\<not> b)) (sleep 1000))) [saw_none_bound jb]"
    unfolding any_bound_def
    by (rule observesI, intro wp_intros emits_intros impI; simp add: observed listed_defs saw_none_bound_def)
  from observes_forM [OF this, of "[0..<6]"] show ?thesis
    unfolding blocked_job_def by (intro observes_then_skip) (auto simp: eval_nat_numeral intro!: emits_intros)
qed

lemma running_now_observes: "observes os (bindM (v_running jb) (\<lambda>ps. assertM [] (P (length ps)))) [saw_running jb P]"
  unfolding v_running_def by (rule observesI, intro wp_intros emits_intros impI; simp add: observed listed_defs)

definition quota_seen :: "(event \<Rightarrow> bool) list" where
  "quota_seen = [saw_running ''first'' (\<lambda>k. k = 1)] @ replicate 6 (saw_none_bound ''second'') @ [saw_pods ''first'' 0] @
     [saw_running ''second'' (\<lambda>k. k = 1)]"

definition preempt_seen :: "(event \<Rightarrow> bool) list" where
  "preempt_seen = [saw_running ''low'' (\<lambda>k. k = 4)] @ [saw_running ''high'' (\<lambda>k. k = 1)] @ [saw_running ''low'' (\<lambda>k. k < 4)]"

definition reclaim_seen :: "(event \<Rightarrow> bool) list" where
  "reclaim_seen = [saw_running ''borrow'' (\<lambda>k. k = 4)] @ [saw_running ''owner'' (\<lambda>k. k = 2)] @ [saw_running ''borrow'' (\<lambda>k. k \<le> 2)]"

definition gpu_full_seen :: "(event \<Rightarrow> bool) list" where
  "gpu_full_seen = [saw_running ''full'' (\<lambda>k. k = 2)] @ ([saw_pods ''waiting'' 1] @ replicate 6 (saw_unbound ''waiting'' 1)) @
     [saw_pods ''full'' 0] @ [saw_running ''waiting'' (\<lambda>k. k = 1)]"

lemma tests_observe:
  "observes os (v_quota Y) quota_seen" "observes os (v_preempt Y) preempt_seen" "observes os (v_reclaim Y) reclaim_seen"
  "observes os (v_gpu_full Y) gpu_full_seen"
  unfolding v_quota_def quota_seen_def v_preempt_def preempt_seen_def v_reclaim_def reclaim_seen_def v_gpu_full_def gpu_full_seen_def
  by (intro observes_then_skip observes_thenM await_running_observes v_pending_observes v_delete_job_observes
      blocked_job_observes running_now_observes emits_intros; simp)+

text \<open>
  C36: a test of scheduling behaviour that returns normally has seen it. Gang scheduling: while the holder runs, all three Pods of the gang
  exist and none is on a node, in six looks one after the other; after the holder is gone all three run. The same with one Pod for a GPU
  that is taken, and with a queue's capability. Preemption and reclaim: the lower class, or the borrower, runs four Pods, then the other job
  runs, and then fewer of the first are left.
\<close>

theorem volcano_observed:
  "observes os (v_gang Y) gang_seen \<and> observes os (v_quota Y) quota_seen \<and> observes os (v_preempt Y) preempt_seen \<and>
   observes os (v_reclaim Y) reclaim_seen \<and> observes os (v_gpu_full Y) gpu_full_seen"
  by (intro conjI gang_observes tests_observe)


section \<open>What is left behind\<close>

text \<open>A checked command is one event, and it returns exactly when the command succeeded.\<close>

lemma v_k_event:
  assumes "v_k args obj os s = Some (r, s')"
  shows "\<exists>p. trace s' = trace s @ [Ran (''kubectl'' # ''--context'' # V_CTX # args) (map_option dumps obj) p] \<and>
    ((\<exists>a. r = Inr a) \<longleftrightarrow> (\<exists>q. p = Inr q \<and> returncode q = 0))"
  using assms unfolding v_k_def v_proc_def v_run_def run_process_def checked_def
  by (auto simp: run_simps prim_def split: prod.splits sum.splits if_splits)

definition ran_ok :: "string list \<Rightarrow> event \<Rightarrow> bool" where
  "ran_ok args e \<longleftrightarrow> (case e of Ran a _ (Inr r) \<Rightarrow> a = ''kubectl'' # ''--context'' # V_CTX # args \<and> returncode r = 0 | _ \<Rightarrow> False)"

definition ran_cmd :: "string list \<Rightarrow> event \<Rightarrow> bool" where
  "ran_cmd args e \<longleftrightarrow> (case e of Ran a _ _ \<Rightarrow> a = ''kubectl'' # ''--context'' # V_CTX # args | _ \<Rightarrow> False)"

lemmas ran_defs = ran_ok_def ran_cmd_def

lemma v_k_acquires:
  assumes "v_k args obj os s = Some (r, s')"
  shows "\<exists>e. trace s' = trace s @ [e] \<and> (ran_ok args e \<longrightarrow> (\<exists>a. r = Inr a))"
  using v_k_event [OF assms] by (auto simp: ran_ok_def split: sum.split_asm)

lemma v_k_releases: "leaves os (list_ex (ran_cmd args)) (ign (v_k args obj))"
proof -
  have "leaves os (list_ex (ran_cmd args)) (v_k args obj)"
    by (rule leavesI) (auto simp: ran_cmd_def dest!: v_k_event)
  then show ?thesis unfolding ign_def by (rule leaves_first) (auto intro: emits_intros)
qed

definition TAINT :: "string list" where
  "TAINT = [''taint'', ''node'', ''volcano-lab-worker'', ''lab=reserved:NoSchedule'', ''--overwrite'']"

definition UNTAINT :: "string list" where
  "UNTAINT = [''taint'', ''node'', ''volcano-lab-worker'', ''lab-'']"

lemma taint_removed: "leaves os (followed (ran_ok TAINT) (ran_cmd UNTAINT)) (v_taints Y)"
  unfolding v_taints_def thenM_def
proof (rule leaves_bracket)
  show "\<exists>e. trace s' = trace s @ [e] \<and> (ran_ok TAINT e \<longrightarrow>
      (\<exists>a. r = Inr a \<and> leaves os (list_ex (ran_cmd UNTAINT)) (ign (vcmd [''taint'', ''node'', ''volcano-lab-worker'', ''lab-'']))))"
    if "vcmd [''taint'', ''node'', ''volcano-lab-worker'', ''lab=reserved:NoSchedule'', ''--overwrite''] os s = Some (r, s')" for s r s'
    using v_k_acquires [OF that] v_k_releases [of os UNTAINT None] by (auto simp: TAINT_def UNTAINT_def)
next
  show "leaves os (followed (ran_ok TAINT) (ran_cmd UNTAINT)) (ign (vcmd [''taint'', ''node'', ''volcano-lab-worker'', ''lab-'']))"
    unfolding v_defs by (intro leaves_quiet emits_intros volcano_k.k_emits; simp add: ran_ok_def TAINT_def split: sum.splits)
qed (unfold v_defs thenM_def [symmetric], intro leaves_quiet emits_intros volcano_k.k_emits; simp add: ran_ok_def TAINT_def split: sum.splits)

text \<open>A prefix without events that matter.\<close>

lemma leaves_prefix:
  assumes "emits os Q m" and "leaves os P n" and "P []" and "\<And>fs es. list_all Q fs \<Longrightarrow> P es \<Longrightarrow> P (fs @ es)"
  shows "leaves os P (thenM m n)"
proof (rule leavesI)
  fix s r s'
  assume "thenM m n os s = Some (r, s')"
  then show "\<exists>es. trace s' = trace s @ es \<and> P es"
    unfolding thenM_def
  proof (cases rule: bindM_SomeE)
    case (1 e)
    then show ?thesis using assms(1,3) assms(4) [of _ "[]"] by (auto elim!: emitsD)
  next
    case (2 a s1)
    from assms(1) 2(1) obtain fs where "trace s1 = trace s @ fs" "list_all Q fs" by (rule emitsD)
    moreover from assms(2) 2(2) obtain es where "trace s' = trace s1 @ es" "P es" by (rule leavesD)
    ultimately show ?thesis using assms(4) by auto
  qed
qed

definition AWAIT_GONE :: "string list" where
  "AWAIT_GONE = [''-n'', ''volcano-system'', ''wait'', ''--for=delete'', ''pod'', ''-l'', ''app=volcano-scheduler'', ''--timeout=40s'']"

definition SCALE_TO :: "string \<Rightarrow> string list" where
  "SCALE_TO n = [''-n'', ''volcano-system'', ''scale'', ''deployment/volcano-scheduler'', ''--replicas='' @ n]"

definition left_down :: "event list \<Rightarrow> bool" where
  "left_down es \<longleftrightarrow> (list_ex (\<lambda>e. ran_cmd AWAIT_GONE e \<and> \<not> ran_ok AWAIT_GONE e) es \<longrightarrow>
     list_ex (ran_ok (SCALE_TO ''0'')) es \<and> \<not> list_ex (ran_cmd (SCALE_TO ''1'')) es)"

lemma left_down_prefix:
  assumes "list_all (\<lambda>e. \<not> ran_cmd AWAIT_GONE e \<and> \<not> ran_cmd (SCALE_TO ''1'') e) fs" and "left_down es"
  shows "left_down (fs @ es)"
proof -
  have "\<not> list_ex (\<lambda>e. ran_cmd AWAIT_GONE e \<and> \<not> ran_ok AWAIT_GONE e) fs" "\<not> list_ex (ran_cmd (SCALE_TO ''1'')) fs"
    using assms(1) by (auto simp: list_ex_iff list_all_iff)
  with assms(2) show ?thesis by (auto simp: left_down_def)
qed

lemma left_down_then:
  assumes "leaves os left_down n" and "emits os (\<lambda>e. \<not> ran_cmd AWAIT_GONE e \<and> \<not> ran_cmd (SCALE_TO ''1'') e) m"
  shows "leaves os left_down (thenM m n)"
  using assms(2,1) by (rule leaves_prefix) (auto intro: left_down_prefix, simp add: left_down_def)

lemma scale_event:
  assumes "scale_scheduler n os s = Some (r, s')"
  shows "\<exists>p. trace s' = trace s @ [Ran (''kubectl'' # ''--context'' # V_CTX # SCALE_TO n) None p] \<and>
    ((\<exists>a. r = Inr a) \<longleftrightarrow> (\<exists>q. p = Inr q \<and> returncode q = 0))"
proof -
  have "\<exists>q. vcmd (SCALE_TO n) os s = Some (q, s') \<and> ((\<exists>a. r = Inr a) \<longleftrightarrow> (\<exists>a. q = Inr a))"
    using assms unfolding scale_scheduler_def ign_def SCALE_TO_def by (cases rule: bindM_SomeE) (auto simp: returnM_def)
  then show ?thesis using v_k_event [of "SCALE_TO n" None os s _ s'] by auto
qed

lemma scale_wait_leaves:
  assumes "emits os (\<lambda>e. ran_cmd AWAIT_GONE e \<longrightarrow> ran_ok AWAIT_GONE e) rest"
  shows "leaves os left_down (thenM (scale_scheduler ''0'') (thenM (vcmd AWAIT_GONE) rest))"
proof (rule leavesI)
  fix s r s'
  assume "thenM (scale_scheduler ''0'') (thenM (vcmd AWAIT_GONE) rest) os s = Some (r, s')"
  then show "\<exists>es. trace s' = trace s @ es \<and> left_down es"
    unfolding thenM_def
  proof (cases rule: bindM_SomeE)
    case (1 e)
    then show ?thesis using scale_event [OF 1(1)] by (auto simp: left_down_def ran_cmd_def AWAIT_GONE_def SCALE_TO_def)
  next
    case (2 a s1)
    then obtain x where s1: "trace s1 = trace s @ [Ran (''kubectl'' # ''--context'' # V_CTX # SCALE_TO ''0'') None (Inr x)]"
      and x: "returncode x = 0" using scale_event [OF 2(1)] by auto
    from 2(2) show ?thesis
    proof (cases rule: bindM_SomeE)
      case (1 e)
      from v_k_event [OF 1(1)] s1 x show ?thesis
        by (auto simp: left_down_def ran_defs AWAIT_GONE_def SCALE_TO_def)
    next
      case (2 b s2)
      then obtain y where s2: "trace s2 = trace s1 @ [Ran (''kubectl'' # ''--context'' # V_CTX # AWAIT_GONE) None (Inr y)]"
        and y: "returncode y = 0" using v_k_event [OF 2(1)] by auto
      from assms 2(2) obtain es where es: "trace s' = trace s2 @ es" "list_all (\<lambda>e. ran_cmd AWAIT_GONE e \<longrightarrow> ran_ok AWAIT_GONE e) es"
        by (rule emitsD)
      then have "\<not> list_ex (\<lambda>e. ran_cmd AWAIT_GONE e \<and> \<not> ran_ok AWAIT_GONE e) es" by (auto simp: list_ex_iff list_all_iff)
      then show ?thesis using s1 s2 es(1) y by (auto simp: left_down_def ran_defs AWAIT_GONE_def SCALE_TO_def)
    qed
  qed
qed

lemma weighted_scheduler_left_down: "leaves os left_down (v_weighted Y)"
  unfolding v_weighted_def AWAIT_GONE_def [symmetric]
proof (intro left_down_then [OF left_down_then [OF left_down_then [OF scale_wait_leaves]]])
qed (unfold v_defs count_of_def together_def scale_scheduler_def Let_def, (intro emits_intros volcano_k.k_emits;
     simp add: ran_defs AWAIT_GONE_def SCALE_TO_def)+)

text \<open>
  C37: what a test leaves behind however it ends. The test of taints: the command that puts the taint on the node, when it succeeded,
  is followed by the command that takes it off. The test of weighted queues: the scheduler is scaled to zero and
  the command that waits until its Pod is gone comes before the \<^verbatim>\<open>try\<close>, so whenever that command fails, the scheduler was
  scaled to zero and no command of the test scales it back.
\<close>

theorem volcano_left_behind:
  "leaves os (followed (ran_ok TAINT) (ran_cmd UNTAINT)) (v_taints Y) \<and> leaves os left_down (v_weighted Y)"
  by (intro conjI taint_removed weighted_scheduler_left_down)

end
