(* ===== verification/Collect.thy ===== *)
theory Collect
  imports JsonCodec
begin

text \<open>
  \<^verbatim>\<open>volcano-hami/collect-results.py\<close>: the parts that decide what is published. Which of the recorded attempts of a
  case counts, which events belong to it, what is removed from the manifests, and how logs are normalised.
  The files are read and written by code around these functions that is not modelled; YAML is parsed
  by a library.
\<close>

section \<open>The latest attempt of each case\<close>

definition case_key :: "json \<Rightarrow> exn + string" where
  "case_key row = bindE (bindE (jsub row ''case'') (str_method ''split'')) (\<lambda>c. Inr (hd (split_on (CHR ''-'') c)))"

definition round_item :: "string \<Rightarrow> json \<Rightarrow> exn + json" where
  "round_item directory row = (case row of
       JDict d \<Rightarrow> Inr (JDict (dict_update [(''round'', JStr directory)] d))
     | v \<Rightarrow> Inl (TypeError (quoted (type_name v) @ '' object is not a mapping'')))"

type_synonym collected = "(string \<times> json) list \<times> json list"       \<comment> \<open>\<^verbatim>\<open>latest\<close> and \<^verbatim>\<open>history\<close>\<close>

definition add_row :: "string \<Rightarrow> json \<Rightarrow> collected \<Rightarrow> exn + collected" where
  "add_row directory row = (\<lambda>(latest, history).
     bindE (round_item directory row) (\<lambda>item.
     bindE (case_key row) (\<lambda>key. Inr (dict_set latest key item, history @ [item]))))"

fun add_rows :: "string \<Rightarrow> json list \<Rightarrow> collected \<Rightarrow> exn + collected" where
  "add_rows directory [] c = Inr c"
| "add_rows directory (row # rows) c = bindE (add_row directory row c) (add_rows directory rows)"

fun add_files :: "(string \<times> json) list \<Rightarrow> collected \<Rightarrow> exn + collected" where
  "add_files [] c = Inr c"
| "add_files ((directory, doc) # files) c =
     bindE (jiter doc) (\<lambda>rows. bindE (add_rows directory rows c) (add_files files))"

text \<open>The result files with the times of their last changes, each with its directory and parsed text.\<close>

definition collect_results :: "(int \<times> string \<times> json) list \<Rightarrow> exn + collected" where
  "collect_results files = add_files (map snd (sort_key fst files)) ([], [])"


section \<open>Removing what the server generated\<close>

definition runtime_keys :: "string list" where
  "runtime_keys = [''resourceVersion'', ''creationTimestamp'', ''uid'', ''generation'']"

definition last_applied :: string where
  "last_applied = ''kubectl.kubernetes.io/last-applied-configuration''"

definition strip_metadata :: "(string \<times> json) list \<Rightarrow> exn + json" where
  "strip_metadata d = (case map_of d ''metadata'' of
       Some (JDict m) \<Rightarrow>
         (let m1 = fold (\<lambda>key m. dict_pop m key) runtime_keys m in
          bindE (jpop last_applied (case map_of m1 ''annotations'' of None \<Rightarrow> emptyD | Some a \<Rightarrow> a)) (\<lambda>a.
            Inr (JDict (dict_set d ''metadata'' (JDict (case map_of m1 ''annotations'' of
                None \<Rightarrow> m1 | Some _ \<Rightarrow> dict_set m1 ''annotations'' a))))))
     | _ \<Rightarrow> Inr (JDict d))"

fun strip_runtime :: "json \<Rightarrow> exn + json" where
  "strip_runtime (JList xs) = bindE (mapE strip_runtime xs) (\<lambda>ys. Inr (JList ys))"
| "strip_runtime (JDict d) =
     bindE (mapE (\<lambda>kv. bindE (strip_runtime (snd kv)) (\<lambda>v. Inr (fst kv, v)))
         (filter (\<lambda>kv. fst kv \<noteq> ''managedFields'') d)) strip_metadata"
| "strip_runtime v = Inr v"

definition keep_event :: "string list \<Rightarrow> json \<Rightarrow> exn + bool" where
  "keep_event names event = anyE (\<lambda>n.
     bindE (jpath [Get ''involvedObject'' emptyD, Get ''name'' (JStr [])] event) (\<lambda>name.
       if py_eq name (JStr n) then Inr True else jstartswith name (n @ ''-''))) names"

definition case_events :: "string list \<Rightarrow> json \<Rightarrow> exn + json" where
  "case_events names data =
     bindE (bindE (jget data ''items'' (JList [])) jiter) (\<lambda>items.
     bindE (filterE (keep_event names) items) (\<lambda>kept.
     bindE (jset data ''items'' (JList kept)) strip_runtime))"

definition normal_log :: "string \<Rightarrow> string" where
  "normal_log t = rstrip (join [CHR 0x0A] (map rstrip (splitlines t))) @ [CHR 0x0A]"


section \<open>The latest attempt counts\<close>

text \<open>
  What counts as an attempt, read off the files alone: the \<open>j\<close>-th row of the \<open>i\<close>-th file, at the time the file was last
  changed. \<open>later\<close> orders attempts by that time; at equal times, as \<^verbatim>\<open>sorted\<close> does, by the order in which the files were found.
\<close>

definition attempt :: "(int \<times> string \<times> json) list \<Rightarrow> int \<times> nat \<times> nat \<Rightarrow> string \<Rightarrow> json \<Rightarrow> bool" where
  "attempt files = (\<lambda>(t, i, j) key item. i < length files \<and> (\<exists>directory doc rows. files ! i = (t, directory, doc) \<and> jiter doc = Inr rows \<and>
     j < length rows \<and> case_key (rows ! j) = Inr key \<and> round_item directory (rows ! j) = Inr item))"

fun later :: "int \<times> nat \<times> nat \<Rightarrow> int \<times> nat \<times> nat \<Rightarrow> bool" where
  "later (t, i, j) (t', i', j') \<longleftrightarrow> t < t' \<or> t = t' \<and> (i < i' \<or> i = i' \<and> j < j')"

lemma attempt_functional: "attempt files p k item \<Longrightarrow> attempt files p k' item' \<Longrightarrow> k' = k \<and> item' = item"
  by (cases p) (auto simp: attempt_def)

text \<open>The loops build the summary from the attempts in the order they read them.\<close>

lemma add_rows_entries:
  assumes "add_rows directory rows c = Inr c'"
  shows "\<exists>es. list_all2 (\<lambda>row (key, item). case_key row = Inr key \<and> round_item directory row = Inr item) rows es \<and>
    c' = (fold (\<lambda>(key, item) d. dict_set d key item) es (fst c), snd c @ map snd es)"
  using assms
proof (induction rows arbitrary: c)
  case (Cons row rows)
  obtain latest history where c: "c = (latest, history)" by (cases c)
  with Cons.prems obtain item key where row: "round_item directory row = Inr item" "case_key row = Inr key"
    and "add_rows directory rows (dict_set latest key item, history @ [item]) = Inr c'"
    by (auto simp: add_row_def bindE_Inr_iff)
  from Cons.IH [OF this(3)] obtain es where es: "list_all2 (\<lambda>row (key, item). case_key row = Inr key \<and> round_item directory row = Inr item) rows es"
    "c' = (fold (\<lambda>(key, item) d. dict_set d key item) es (dict_set latest key item), (history @ [item]) @ map snd es)" by auto
  then show ?case using row c by (intro exI [of _ "(key, item) # es"]) simp
qed auto

definition file_entries :: "string \<times> json \<Rightarrow> (string \<times> json) list \<Rightarrow> bool" where
  "file_entries f es \<longleftrightarrow> (\<exists>rows. jiter (snd f) = Inr rows \<and>
     list_all2 (\<lambda>row (key, item). case_key row = Inr key \<and> round_item (fst f) row = Inr item) rows es)"

lemma add_files_entries:
  assumes "add_files files c = Inr c'"
  shows "\<exists>ess. list_all2 file_entries files ess \<and>
    c' = (fold (\<lambda>(key, item) d. dict_set d key item) (concat ess) (fst c), snd c @ map snd (concat ess))"
  using assms
proof (induction files arbitrary: c)
  case (Cons f files)
  obtain directory doc where f: "f = (directory, doc)" by (cases f)
  with Cons.prems obtain rows c1 where rows: "jiter doc = Inr rows" "add_rows directory rows c = Inr c1" "add_files files c1 = Inr c'"
    by (auto simp: bindE_Inr_iff)
  from add_rows_entries [OF rows(2)] obtain es where "file_entries f es"
    and c1: "c1 = (fold (\<lambda>(key, item) d. dict_set d key item) es (fst c), snd c @ map snd es)"
    using rows(1) f by (auto simp: file_entries_def)
  moreover from Cons.IH [OF rows(3)] obtain ess where "list_all2 file_entries files ess"
    "c' = (fold (\<lambda>(key, item) d. dict_set d key item) (concat ess) (fst c1), snd c1 @ map snd (concat ess))" by blast
  ultimately show ?case by (intro exI [of _ "es # ess"]) simp
qed auto

lemma fold_dict_set:
  "map_of (fold (\<lambda>(key, item) d. dict_set d key item) es d) = map_of d ++ map_of (rev es)"
  "distinct (map fst d) \<Longrightarrow> distinct (map fst (fold (\<lambda>(key, item) d. dict_set d key item) es d))"
  by (induction es arbitrary: d) (auto simp: distinct_dict_set fun_eq_iff map_add_def split: option.splits)

text \<open>The sort is stable: with the positions the files were found at, it orders by time and then by position.\<close>

lemma insort_key_map: "map g (insort_key (\<lambda>a. f (g a)) x xs) = insort_key f (g x) (map g xs)"
  by (induction xs) auto

lemma sort_key_map: "map g (sort_key (\<lambda>a. f (g a)) xs) = sort_key f (map g xs)"
  by (induction xs) (simp_all add: insort_key_map)

lemma insort_key_stable:
  assumes "sorted_wrt (\<lambda>a b. f a < f b \<or> f a = f b \<and> idx a < (idx b :: nat)) ys" and "\<forall>y \<in> set ys. idx x < idx y"
  shows "sorted_wrt (\<lambda>a b. f a < f b \<or> f a = f b \<and> idx a < idx b) (insort_key f x ys)"
  using assms by (induction ys) (auto simp: set_insort_key)

lemma sort_key_stable:
  assumes "sorted_wrt (\<lambda>a b. idx a < (idx b :: nat)) xs"
  shows "sorted_wrt (\<lambda>a b. f a < f b \<or> f a = f b \<and> idx a < idx b) (sort_key f xs)"
  using assms by (induction xs) (auto intro: insort_key_stable)

type_synonym found_file = "nat \<times> int \<times> string \<times> json"            \<comment> \<open>position, time, directory, parsed text\<close>

fun entry :: "found_file \<Rightarrow> int \<times> nat \<times> nat \<Rightarrow> string \<Rightarrow> json \<Rightarrow> bool" where
  "entry (i, t, directory, doc) (t', i', j) key item \<longleftrightarrow> t' = t \<and> i' = i \<and> (\<exists>rows. jiter doc = Inr rows \<and> j < length rows \<and>
     case_key (rows ! j) = Inr key \<and> round_item directory (rows ! j) = Inr item)"

fun positions :: "found_file list \<Rightarrow> (string \<times> json) list list \<Rightarrow> (int \<times> nat \<times> nat) list" where
  "positions ((i, t, _) # fs) (es # ess) = map (\<lambda>j. (t, i, j)) [0..<length es] @ positions fs ess"
| "positions fs ess = []"

definition file_later :: "found_file \<Rightarrow> found_file \<Rightarrow> bool" where
  "file_later a b \<longleftrightarrow> fst (snd a) < fst (snd b) \<or> fst (snd a) = fst (snd b) \<and> fst a < fst b"

lemma entry_index: "entry (i', x) (t, i, j) k item \<Longrightarrow> i' = i"
  by (cases x) auto

lemma attempt_entry: "attempt files p k item \<longleftrightarrow> (\<exists>f \<in> set (zip [0..<length files] files). entry f p k item)"
proof -
  obtain t i j where p: "p = (t, i, j)" by (cases p)
  have zipped: "set (zip [0..<length files] files) = (\<lambda>i. (i, files ! i)) ` {..<length files}" by (force simp: set_zip)
  have "attempt files p k item \<longleftrightarrow> i < length files \<and> entry (i, files ! i) (t, i, j) k item"
    by (cases "files ! i") (auto simp: p attempt_def)
  also have "\<dots> \<longleftrightarrow> (\<exists>i' < length files. entry (i', files ! i') (t, i, j) k item)"
    by (metis entry_index)
  also have "\<dots> \<longleftrightarrow> (\<exists>f \<in> set (zip [0..<length files] files). entry f (t, i, j) k item)"
    unfolding zipped by (auto simp del: entry.simps)
  finally show ?thesis unfolding p .
qed

lemma positions_file: "(t, i, j) \<in> set (positions fs ess) \<Longrightarrow> \<exists>x. (i, t, x) \<in> set fs"
  by (induction fs ess rule: positions.induct) auto

lemma positions_entries:
  assumes "list_all2 (\<lambda>f. file_entries (snd (snd f))) fs ess"
  shows "list_all2 (\<lambda>p (k, item). \<exists>f \<in> set fs. entry f p k item) (positions fs ess) (concat ess)"
  using assms
proof (induction rule: list_all2_induct)
  case (Cons f fs es ess)
  obtain i t directory doc where f: "f = (i, t, directory, doc)" by (cases f)
  have "list_all2 (\<lambda>p (k, item). entry f p k item) (map (\<lambda>j. (t, i, j)) [0..<length es]) es"
    using Cons.hyps(1) f by (fastforce simp: file_entries_def list_all2_conv_all_nth split: prod.splits)
  then have "list_all2 (\<lambda>p (k, item). \<exists>g \<in> set (f # fs). entry g p k item) (map (\<lambda>j. (t, i, j)) [0..<length es]) es"
    by (rule list_all2_mono) auto
  moreover have "list_all2 (\<lambda>p (k, item). \<exists>g \<in> set (f # fs). entry g p k item) (positions fs ess) (concat ess)"
    using Cons.IH by (rule list_all2_mono) auto
  ultimately show ?case using f by (auto intro: list_all2_appendI)
qed simp

lemma positions_complete:
  "list_all2 (\<lambda>f. file_entries (snd (snd f))) fs ess \<Longrightarrow> f \<in> set fs \<Longrightarrow> entry f p k item \<Longrightarrow> p \<in> set (positions fs ess)"
proof (induction rule: list_all2_induct)
  case (Cons g fs es ess)
  then show ?case by (cases g; cases p) (auto simp: file_entries_def dest: list_all2_lengthD)
qed simp

lemma positions_sorted: "sorted_wrt file_later fs \<Longrightarrow> sorted_wrt later (positions fs ess)"
proof (induction fs ess rule: positions.induct)
  case (1 i t x fs es ess)
  have "later p q" if "p \<in> set (map (\<lambda>j. (t, i, j)) [0..<length es])" "q \<in> set (positions fs ess)" for p q
    using that "1.prems" by (cases q) (fastforce simp: file_later_def dest: positions_file)
  with "1" show ?case by (auto simp: sorted_wrt_append sorted_wrt_map)
qed auto

lemma map_of_rev_Some:
  "map_of (rev es) k = Some v \<longleftrightarrow> (\<exists>n < length es. es ! n = (k, v) \<and> (\<forall>m. n < m \<longrightarrow> m < length es \<longrightarrow> fst (es ! m) \<noteq> k))"
proof (induction es rule: rev_induct)
  case (snoc e es)
  obtain k' v' where e: "e = (k', v')" by (cases e)
  show ?case
  proof (cases "fst e = k")
    case True
    with e show ?thesis by (auto simp: nth_append split: if_splits intro!: exI [of _ "length es"])
  next
    case False
    with snoc show ?thesis by (auto simp: nth_append less_Suc_eq split: if_splits)
  qed
qed simp

lemma later_asym: "later p q \<Longrightarrow> \<not> later q p"
  by (cases p; cases q) auto

text \<open>The attempts of all files, in their order, with what the summary and the history are made of.\<close>

lemma collect_attempts:
  assumes "collect_results files = Inr (latest, history)"
  obtains ps es where "sorted_wrt later ps" and "list_all2 (\<lambda>p (k, item). attempt files p k item) ps es"
    and "\<And>p k item. attempt files p k item \<Longrightarrow> p \<in> set ps" and "map_of latest = map_of (rev es)" and "distinct (map fst latest)"
    and "history = map snd es" and "\<And>f. f \<in> set files \<Longrightarrow> \<exists>es. file_entries (snd f) es"
proof -
  let ?fs = "sort_key (\<lambda>f. fst (snd f)) (zip [0..<length files] files)"
  have fs: "map snd ?fs = sort_key fst files" by (simp add: sort_key_map)
  obtain ess where ess: "list_all2 file_entries (map snd (map snd ?fs)) ess"
    and c: "latest = fold (\<lambda>(key, item) d. dict_set d key item) (concat ess) []" "history = map snd (concat ess)"
    using add_files_entries [of "map snd (sort_key fst files)" "([], [])"] assms unfolding collect_results_def fs by auto
  then have fe: "list_all2 (\<lambda>f. file_entries (snd (snd f))) ?fs ess" by (simp add: list.rel_map)
  have "sorted_wrt (\<lambda>a b. fst a < fst b) (zip [0..<length files] files)" by (simp add: sorted_wrt_iff_nth_less)
  from sort_key_stable [OF this, of "\<lambda>f. fst (snd f)"] have "sorted_wrt file_later ?fs" by (simp add: file_later_def [abs_def])
  moreover have "list_all2 (\<lambda>p (k, item). attempt files p k item) (positions ?fs ess) (concat ess)"
    using positions_entries [OF fe] by (simp add: attempt_entry)
  moreover have "\<exists>es. file_entries (snd f) es" if "f \<in> set files" for f
    using that ess unfolding fs by (auto simp: list_all2_conv_all_nth in_set_conv_nth) (metis length_sort nth_map nth_mem in_set_conv_nth set_sort)
  ultimately show ?thesis
    using c positions_complete [OF fe] fold_dict_set(1) [of "concat ess" "[]"] fold_dict_set(2) [of "[]" "concat ess"]
    by (intro that [of "positions ?fs ess" "concat ess"] positions_sorted) (auto simp: attempt_entry)
qed

text \<open>Attempts listed in their order, with their keys and items: the last entry of a key is the attempt that none follows.\<close>

lemma attempts_nth:
  assumes "list_all2 (\<lambda>p (k, item). attempt files p k item) ps es" and "n < length es"
  shows "attempt files (ps ! n) (fst (es ! n)) (snd (es ! n))"
  using list_all2_nthD2 [OF assms] by (simp add: case_prod_beta)

lemma attempts_pos:
  assumes "list_all2 (\<lambda>p (k, item). attempt files p k item) ps es" and "p \<in> set ps" and "attempt files p k item"
  obtains n where "n < length es" and "ps ! n = p" and "es ! n = (k, item)"
proof -
  obtain n where n: "n < length es" "ps ! n = p" using assms(1, 2) by (metis in_set_conv_nth list_all2_lengthD)
  with attempts_nth [OF assms(1) n(1)] attempt_functional [OF assms(3)] have "es ! n = (k, item)" by (metis prod.collapse)
  with n show ?thesis by (rule that)
qed

lemma attempts_sets:
  assumes ps: "list_all2 (\<lambda>p (k, item). attempt files p k item) ps es" and all: "\<And>p k item. attempt files p k item \<Longrightarrow> p \<in> set ps"
  shows "fst ` set es = {k. \<exists>p item. attempt files p k item}" and "set ps = {p. \<exists>k item. attempt files p k item}"
proof (intro set_eqI iffI)
  fix k assume "k \<in> fst ` set es"
  then obtain n where "n < length es" "k = fst (es ! n)" by (auto simp: in_set_conv_nth)
  with attempts_nth [OF ps, of n] show "k \<in> {k. \<exists>p item. attempt files p k item}" by blast
next
  fix k assume "k \<in> {k. \<exists>p item. attempt files p k item}"
  then obtain p item where "attempt files p k item" by blast
  from attempts_pos [OF ps all [OF this] this] show "k \<in> fst ` set es" by (metis fst_conv image_eqI nth_mem)
next
  show "set ps = {p. \<exists>k item. attempt files p k item}"
  proof (intro set_eqI iffI)
    fix p assume "p \<in> set ps"
    then obtain n where "n < length es" "p = ps ! n" using list_all2_lengthD [OF ps] by (auto simp: in_set_conv_nth)
    with attempts_nth [OF ps, of n] show "p \<in> {p. \<exists>k item. attempt files p k item}" by blast
  qed (use all in blast)
qed

lemma attempts_last:
  assumes sorted: "sorted_wrt later ps" and ps: "list_all2 (\<lambda>p (k, item). attempt files p k item) ps es"
    and all: "\<And>p k item. attempt files p k item \<Longrightarrow> p \<in> set ps"
  shows "map_of (rev es) k = Some item \<longleftrightarrow> (\<exists>p. attempt files p k item \<and> (\<forall>q it. attempt files q k it \<longrightarrow> \<not> later p q))"
proof
  have mono: "later (ps ! m) (ps ! n)" if "m < n" "n < length es" for m n
    using that sorted list_all2_lengthD [OF ps] by (simp add: sorted_wrt_iff_nth_less)
  {
    assume "map_of (rev es) k = Some item"
    then obtain n where n: "n < length es" "es ! n = (k, item)" "\<And>m. n < m \<Longrightarrow> m < length es \<Longrightarrow> fst (es ! m) \<noteq> k"
      unfolding map_of_rev_Some by blast
    have "\<not> later (ps ! n) q" if q: "attempt files q k it" for q it
    proof -
      obtain m where m: "m < length es" "ps ! m = q" "es ! m = (k, it)" using attempts_pos [OF ps all [OF q] q] .
      with n(3) have "m \<le> n" by (metis fst_conv not_le_imp_less)
      with m mono [of m n] n(1) later_asym show ?thesis by (metis le_neq_implies_less)
    qed
    moreover have "attempt files (ps ! n) k item" using attempts_nth [OF ps n(1)] n(2) by simp
    ultimately show "\<exists>p. attempt files p k item \<and> (\<forall>q it. attempt files q k it \<longrightarrow> \<not> later p q)" by blast
  next
    assume "\<exists>p. attempt files p k item \<and> (\<forall>q it. attempt files q k it \<longrightarrow> \<not> later p q)"
    then obtain p where p: "attempt files p k item" "\<And>q it. attempt files q k it \<Longrightarrow> \<not> later p q" by blast
    obtain n where n: "n < length es" "ps ! n = p" "es ! n = (k, item)" using attempts_pos [OF ps all [OF p(1)] p(1)] .
    have "fst (es ! m) \<noteq> k" if "n < m" "m < length es" for m
      using p(2) [of "ps ! m"] attempts_nth [OF ps that(2)] mono [OF that] n(2) by auto
    with n show "map_of (rev es) k = Some item" unfolding map_of_rev_Some by blast
  }
qed

lemma file_rows_attempts:
  assumes "i < length files" and "file_entries (snd (files ! i)) es"
  shows "\<exists>rows. jiter (snd (snd (files ! i))) = Inr rows \<and> (\<forall>j < length rows. \<exists>k item. attempt files (fst (files ! i), i, j) k item)"
proof -
  obtain t directory doc where f: "files ! i = (t, directory, doc)" by (metis prod_cases3)
  with assms(2) obtain rs where doc: "jiter doc = Inr rs"
    and rs: "list_all2 (\<lambda>row (key, item). case_key row = Inr key \<and> round_item directory row = Inr item) rs es"
    by (auto simp: file_entries_def)
  have "\<exists>k item. attempt files (t, i, j) k item" if "j < length rs" for j
    using list_all2_nthD [OF rs that] f doc that assms(1) by (auto simp: attempt_def)
  with f doc show ?thesis by simp
qed

text \<open>
  C31: the published summary has for every case its latest attempt, and nothing is lost. An attempt is a row of a result file, at the time
  the file was last changed. The summary maps a case key to an item exactly when that item is an attempt at the case such that no attempt at it is later;
  it has the keys that were ever attempted, each once. The history has every attempt once, in the order of time, and every row of every
  file is an attempt.
\<close>

theorem latest_wins:
  assumes "collect_results files = Inr (latest, history)"
  shows "(\<forall>k item. map_of latest k = Some item \<longleftrightarrow>
      (\<exists>p. attempt files p k item \<and> (\<forall>q it. attempt files q k it \<longrightarrow> \<not> later p q))) \<and>
    distinct (map fst latest) \<and> set (map fst latest) = {k. \<exists>p item. attempt files p k item} \<and>
    (\<exists>ps. sorted_wrt later ps \<and> list_all2 (\<lambda>p item. \<exists>k. attempt files p k item) ps history \<and>
      set ps = {p. \<exists>k item. attempt files p k item}) \<and>
    (\<forall>i < length files. \<exists>rows. jiter (snd (snd (files ! i))) = Inr rows \<and>
      (\<forall>j < length rows. \<exists>k item. attempt files (fst (files ! i), i, j) k item))"
proof -
  obtain ps es where sorted: "sorted_wrt later ps" and ps: "list_all2 (\<lambda>p (k, item). attempt files p k item) ps es"
    and all: "\<And>p k item. attempt files p k item \<Longrightarrow> p \<in> set ps" and latest: "map_of latest = map_of (rev es)"
    and d: "distinct (map fst latest)" and h: "history = map snd es" and rows: "\<And>f. f \<in> set files \<Longrightarrow> \<exists>es. file_entries (snd f) es"
    using collect_attempts [OF assms] by metis
  have "set (map fst latest) = dom (map_of latest)" by (simp add: dom_map_of_conv_image_fst)
  also have "\<dots> = {k. \<exists>p item. attempt files p k item}"
    by (simp add: latest dom_map_of_conv_image_fst attempts_sets(1) [OF ps all])
  finally have keys: "set (map fst latest) = {k. \<exists>p item. attempt files p k item}" .
  have "list_all2 (\<lambda>p item. \<exists>k. attempt files p k item) ps history"
    using ps unfolding h list.rel_map by (rule list_all2_mono) auto
  then have "\<exists>ps. sorted_wrt later ps \<and> list_all2 (\<lambda>p item. \<exists>k. attempt files p k item) ps history \<and> set ps = {p. \<exists>k item. attempt files p k item}"
    using sorted attempts_sets(2) [OF ps all] by (intro exI [of _ ps] conjI)
  moreover have "\<forall>i < length files. \<exists>rows. jiter (snd (snd (files ! i))) = Inr rows \<and>
      (\<forall>j < length rows. \<exists>k item. attempt files (fst (files ! i), i, j) k item)"
    using rows [OF nth_mem] file_rows_attempts by blast
  moreover have "\<forall>k item. map_of latest k = Some item \<longleftrightarrow>
      (\<exists>p. attempt files p k item \<and> (\<forall>q it. attempt files q k it \<longrightarrow> \<not> later p q))"
    unfolding latest by (intro allI attempts_last [OF sorted ps]) (rule all)
  ultimately show ?thesis using keys d by (intro conjI)
qed

definition demo_results :: "(int \<times> string \<times> json) list" where
  "demo_results = [(20, ''results-b'', JList [JDict [(''case'', JStr ''01-pair''), (''status'', JStr ''PASS'')]]),
     (10, ''results-a'', JList [JDict [(''case'', JStr ''01-pair''), (''status'', JStr ''FAIL'')],
        JDict [(''case'', JStr ''02-gang''), (''status'', JStr ''PASS'')]])]"

theorem latest_wins_witness:
  "\<exists>latest history. collect_results demo_results = Inr (latest, history) \<and> set (map fst latest) = {k. \<exists>p item. attempt demo_results p k item} \<and>
     map_of latest ''01'' = Some (JDict [(''round'', JStr ''results-b''), (''case'', JStr ''01-pair''), (''status'', JStr ''PASS'')])"
proof -
  have "collect_results demo_results = Inr
     ([(''01'', JDict [(''round'', JStr ''results-b''), (''case'', JStr ''01-pair''), (''status'', JStr ''PASS'')]),
       (''02'', JDict [(''round'', JStr ''results-a''), (''case'', JStr ''02-gang''), (''status'', JStr ''PASS'')])],
      [JDict [(''round'', JStr ''results-a''), (''case'', JStr ''01-pair''), (''status'', JStr ''FAIL'')],
       JDict [(''round'', JStr ''results-a''), (''case'', JStr ''02-gang''), (''status'', JStr ''PASS'')],
       JDict [(''round'', JStr ''results-b''), (''case'', JStr ''01-pair''), (''status'', JStr ''PASS'')]])"
    by code_simp
  from latest_wins [OF this] this show ?thesis by auto
qed


section \<open>What is left of a manifest\<close>

definition metadata_ok :: "json option \<Rightarrow> bool" where
  "metadata_ok x = (case x of
     Some (JDict m) \<Rightarrow> list_all (\<lambda>k. map_of m k = None) runtime_keys \<and>
       (case map_of m ''annotations'' of None \<Rightarrow> True | Some (JDict a) \<Rightarrow> map_of a last_applied = None | _ \<Rightarrow> False)
   | _ \<Rightarrow> True)"

fun stripped :: "json \<Rightarrow> bool" where
  "stripped (JList xs) = (\<forall>x \<in> set xs. stripped x)"
| "stripped (JDict d) = ((\<forall>kv \<in> set d. fst kv \<noteq> ''managedFields'' \<and> stripped (snd kv)) \<and> metadata_ok (map_of d ''metadata''))"
| "stripped v = True"

lemma mapE_from: "mapE f xs = Inr ys \<Longrightarrow> y \<in> set ys \<Longrightarrow> \<exists>x \<in> set xs. f x = Inr y"
  by (induction xs arbitrary: ys) (auto simp: bindE_Inr_iff)

lemma stripped_member: "stripped (JDict d) \<Longrightarrow> map_of d k = Some v \<Longrightarrow> stripped v"
  by (auto dest!: map_of_SomeD)

lemma dict_pop_id: "map_of d k = None \<Longrightarrow> dict_pop d k = d"
  by (auto simp: dict_pop_def map_of_eq_None_iff intro!: filter_True)

lemma dict_set_id: "map_of d k = Some v \<Longrightarrow> dict_set d k v = d"
  by (induction d k v rule: dict_set.induct) (auto split: if_splits)

lemma strip_metadata_id:
  assumes "stripped (JDict d)"
  shows "strip_metadata d = Inr (JDict d)"
proof (cases "\<exists>m. map_of d ''metadata'' = Some (JDict m)")
  case True
  then obtain m where m: "map_of d ''metadata'' = Some (JDict m)" by blast
  with assms have keys: "list_all (\<lambda>k. map_of m k = None) runtime_keys" by (simp add: metadata_ok_def)
  then have "fold (\<lambda>key m. dict_pop m key) runtime_keys m = m" by (simp add: runtime_keys_def dict_pop_id)
  moreover have "map_of m ''annotations'' = None \<or> (\<exists>a. map_of m ''annotations'' = Some (JDict a) \<and> map_of a last_applied = None)"
    using assms m by (auto simp: metadata_ok_def split: option.splits json.splits)
  ultimately show ?thesis
    using m by (auto simp: strip_metadata_def Let_def dict_pop_id dict_set_id split: option.splits)
next
  case False
  then show ?thesis by (auto simp: strip_metadata_def split: option.splits json.splits)
qed

lemma strip_stripped: "stripped v \<Longrightarrow> strip_runtime v = Inr v"
proof (induction v rule: strip_runtime.induct)
  case (1 xs)
  then show ?case by (simp add: mapE_id)
next
  case (2 d)
  have "filter (\<lambda>kv. fst kv \<noteq> ''managedFields'') d = d" using 2 by (auto intro!: filter_True)
  moreover have "mapE (\<lambda>kv. bindE (strip_runtime (snd kv)) (\<lambda>v. Inr (fst kv, v))) d = Inr d"
    using 2 by (intro mapE_id) auto
  ultimately show ?case using strip_metadata_id [OF 2(2)] by simp
qed simp_all

lemma stripped_pop: "stripped (JDict d) \<Longrightarrow> k \<noteq> ''metadata'' \<Longrightarrow> stripped (JDict (dict_pop d k))"
  by (auto simp: dict_pop_def map_of_dict_pop [unfolded dict_pop_def])

lemma set_dict_set: "set (dict_set d k v) \<subseteq> insert (k, v) (set d)"
  by (induction d k v rule: dict_set.induct) auto

lemma stripped_set:
  assumes "stripped (JDict d)" and "stripped v" and "k \<noteq> ''metadata''" and "k \<noteq> ''managedFields''"
  shows "stripped (JDict (dict_set d k v))"
proof -
  have "\<forall>kv \<in> set (dict_set d k v). fst kv \<noteq> ''managedFields'' \<and> stripped (snd kv)"
    using assms set_dict_set [of d k v] by fastforce
  with assms show ?thesis by simp
qed

lemma strip_metadata_stripped:
  assumes vals: "\<forall>kv \<in> set d. fst kv \<noteq> ''managedFields'' \<and> stripped (snd kv)" and run: "strip_metadata d = Inr w"
  shows "stripped w"
proof (cases "\<exists>m. map_of d ''metadata'' = Some (JDict m)")
  case True
  then obtain m where m: "map_of d ''metadata'' = Some (JDict m)" by blast
  let ?m1 = "fold (\<lambda>key m. dict_pop m key) runtime_keys m"
  have "stripped (JDict m)" using vals map_of_SomeD [OF m] by (metis snd_conv)
  then have m1: "stripped (JDict ?m1)" unfolding runtime_keys_def by (simp add: stripped_pop del: stripped.simps)
  have gone: "list_all (\<lambda>k. map_of ?m1 k = None) runtime_keys" by (simp add: runtime_keys_def)
  obtain m2 where m2: "w = JDict (dict_set d ''metadata'' (JDict m2))" "stripped (JDict m2)"
    "list_all (\<lambda>k. map_of m2 k = None) runtime_keys"
    "map_of m2 ''annotations'' = None \<or> (\<exists>a. map_of m2 ''annotations'' = Some (JDict a) \<and> map_of a last_applied = None)"
  proof (cases "map_of ?m1 ''annotations''")
    case None
    with that [of ?m1] m run m1 gone show ?thesis by (auto simp: strip_metadata_def Let_def)
  next
    case (Some x)
    with m run obtain a where a: "x = JDict a" "w = JDict (dict_set d ''metadata''
        (JDict (dict_set ?m1 ''annotations'' (JDict (dict_pop a last_applied)))))"
      by (cases x) (auto simp: strip_metadata_def Let_def)
    have "stripped (JDict a)" using stripped_member [OF m1 Some] a(1) by simp
    then have "stripped (JDict (dict_pop a last_applied))" by (rule stripped_pop) (simp add: last_applied_def)
    with m1 have "stripped (JDict (dict_set ?m1 ''annotations'' (JDict (dict_pop a last_applied))))"
      by (rule stripped_set) simp_all
    with a gone show ?thesis by (intro that) (auto simp: runtime_keys_def)
  qed
  have "\<forall>kv \<in> set (dict_set d ''metadata'' (JDict m2)). fst kv \<noteq> ''managedFields'' \<and> stripped (snd kv)"
    using vals m2(2) set_dict_set [of d "''metadata''" "JDict m2"] by fastforce
  with m2 show ?thesis by (auto simp: metadata_ok_def)
next
  case False
  then have "w = JDict d" using run by (auto simp: strip_metadata_def split: option.splits json.splits)
  with vals False show ?thesis by (auto simp: metadata_ok_def split: option.splits json.splits)
qed

lemma strip_gives_stripped: "strip_runtime v = Inr w \<Longrightarrow> stripped w"
proof (induction v arbitrary: w rule: strip_runtime.induct)
  case (1 xs)
  then obtain ys where "mapE strip_runtime xs = Inr ys" "w = JList ys" by (auto simp: bindE_Inr_iff)
  moreover from this have "stripped y" if "y \<in> set ys" for y using mapE_from [OF _ that] 1(1) by blast
  ultimately show ?case by simp
next
  case (2 d)
  then obtain e where e: "mapE (\<lambda>kv. bindE (strip_runtime (snd kv)) (\<lambda>v. Inr (fst kv, v)))
      (filter (\<lambda>kv. fst kv \<noteq> ''managedFields'') d) = Inr e" and w: "strip_metadata e = Inr w"
    by (auto simp: bindE_Inr_iff)
  have "fst kv \<noteq> ''managedFields'' \<and> stripped (snd kv)" if "kv \<in> set e" for kv
  proof -
    from mapE_from [OF e that] obtain x where x: "x \<in> set (filter (\<lambda>kv. fst kv \<noteq> ''managedFields'') d)"
      "bindE (strip_runtime (snd x)) (\<lambda>v. Inr (fst x, v)) = Inr kv"
      by blast
    from x(2) obtain a where "strip_runtime (snd x) = Inr a" "kv = (fst x, a)" by (auto simp: bindE_Inr_iff)
    with 2(1) [OF x(1)] x(1) show ?thesis by simp
  qed
  then show ?case using w strip_metadata_stripped by blast
qed auto

text \<open>
  C32: what \<^verbatim>\<open>strip_runtime\<close> returns has no \<^verbatim>\<open>managedFields\<close> anywhere, at any depth, no metadata with a resource version, a
  creation time, a UID or a generation, and no last-applied annotation; and it is a fixed point, so publishing
  a published manifest changes nothing.
\<close>

theorem strip_runtime_normal:
  assumes "strip_runtime v = Inr w"
  shows "stripped w \<and> strip_runtime w = Inr w"
  using strip_gives_stripped [OF assms] strip_stripped by blast

definition demo_manifest :: json where
  "demo_manifest = JDict [(''kind'', JStr ''Pod''), (''metadata'', JDict [(''name'', JStr ''a''), (''uid'', JStr ''1''),
     (''managedFields'', JList []), (''annotations'', JDict [(last_applied, JStr ''x''), (''keep'', JStr ''y'')])])]"

theorem strip_runtime_normal_witness:
  "\<exists>w. strip_runtime demo_manifest = Inr w \<and> strip_runtime w = Inr w \<and>
     w = JDict [(''kind'', JStr ''Pod''), (''metadata'', JDict [(''name'', JStr ''a''), (''annotations'', JDict [(''keep'', JStr ''y'')])])]"
proof -
  have "strip_runtime demo_manifest = Inr (JDict [(''kind'', JStr ''Pod''), (''metadata'', JDict [(''name'', JStr ''a''),
      (''annotations'', JDict [(''keep'', JStr ''y'')])])])"
    by (simp add: demo_manifest_def strip_metadata_def runtime_keys_def last_applied_def dict_pop_def Let_def)
  with strip_runtime_normal [OF this] show ?thesis by blast
qed

end
