(* ===== verification/VolcanoReport.thy ===== *)
theory VolcanoReport
  imports VolcanoMore Collect
begin

text \<open>
  The two ends of a file: \<^verbatim>\<open>results.json\<close> as a matrix of tests writes it (\<open>VolcanoLab\<close>) and as
  \<^verbatim>\<open>collect-results.py\<close> reads it (\<open>Collect\<close>).
\<close>

definition key_of :: "string \<Rightarrow> string" where
  "key_of name = hd (split_on (CHR ''-'') name)"

definition tagged :: "pylib \<Rightarrow> string \<Rightarrow> string \<Rightarrow> string option \<Rightarrow> int \<Rightarrow> json" where
  "tagged Y directory name err d = JDict ((''round'', JStr directory) #
     (case result_row Y name err d of JDict kvs \<Rightarrow> kvs | _ \<Rightarrow> []))"

lemma add_result_row:
  "add_row directory (result_row Y name err d) (latest, history) =
     Inr (dict_set latest (key_of name) (tagged Y directory name err d), history @ [tagged Y directory name err d])"
  by (simp add: add_row_def round_item_def case_key_def key_of_def result_row_def tagged_def dict_update_def)

lemma tagged_simps [simp]:
  "jsub (tagged Y directory name err d) ''round'' = Inr (JStr directory)"
  "jsub (tagged Y directory name err d) ''case'' = Inr (JStr name)"
  "jsub (tagged Y directory name err d) ''status'' = jsub (result_row Y name err d) ''status''"
  by (simp_all add: tagged_def result_row_def)

lemma add_result_rows:
  assumes "list_all2 (\<lambda>name row. \<exists>err d. row = result_row Y name err d) names rows"
  shows "\<exists>items. add_rows directory rows (latest, history) = Inr (dict_update latest (zip (map key_of names) items), history @ items) \<and>
    list_all2 (\<lambda>(name, row) item. \<exists>err d. row = result_row Y name err d \<and> item = tagged Y directory name err d) (zip names rows) items"
  using assms
proof (induction arbitrary: latest history)
  case Nil
  show ?case by (intro exI [of _ "[]"]) (simp add: dict_update_def)
next
  case (Cons name names row rows)
  then obtain err d where row: "row = result_row Y name err d" by blast
  let ?item = "tagged Y directory name err d"
  from Cons.IH [of "dict_set latest (key_of name) ?item" "history @ [?item]"] obtain items where
    "add_rows directory rows (dict_set latest (key_of name) ?item, history @ [?item]) =
       Inr (dict_update (dict_set latest (key_of name) ?item) (zip (map key_of names) items), (history @ [?item]) @ items)"
    "list_all2 (\<lambda>(name, row) item. \<exists>err d. row = result_row Y name err d \<and> item = tagged Y directory name err d) (zip names rows) items"
    by blast
  then show ?case using row by (intro exI [of _ "?item # items"]) (auto simp: add_result_row dict_update_def)
qed

text \<open>The number in front of a test's name identifies it within its table.\<close>

lemma matrix_keys_distinct: "tests \<in> set (matrices Y) \<Longrightarrow> distinct (map key_of (filter (selected only) (map fst tests)))"
  by (rule distinct_map_filter)
    (auto simp: matrices_def v_tests_def advanced_tests_def boundary_tests_def probe_tests_def key_of_def)

lemma collected_rows:
  assumes "list_all2 (\<lambda>name row. \<exists>err d. row = result_row Y name err d) names rows" and "distinct (map key_of names)"
  shows "\<exists>items. collect_results [(mtime, directory, JList rows)] = Inr (zip (map key_of names) items, items) \<and>
    map (\<lambda>item. jsub item ''case'') items = map (\<lambda>row. jsub row ''case'') rows \<and>
    map (\<lambda>item. jsub item ''status'') items = map (\<lambda>row. jsub row ''status'') rows \<and>
    list_all (\<lambda>item. jsub item ''round'' = Inr (JStr directory)) items"
proof -
  obtain items where add: "add_rows directory rows ([], []) = Inr (dict_update [] (zip (map key_of names) items), [] @ items)"
    and items: "list_all2 (\<lambda>(name, row) item. \<exists>err d. row = result_row Y name err d \<and> item = tagged Y directory name err d)
      (zip names rows) items" using add_result_rows [OF assms(1)] by blast
  have len: "length names = length rows" "length items = length names" using assms(1) items by (auto dest!: list_all2_lengthD)
  then have "dict_update [] (zip (map key_of names) items) = zip (map key_of names) items"
    using assms(2) by (subst dict_update_new) auto
  with add have "collect_results [(mtime, directory, JList rows)] = Inr (zip (map key_of names) items, items)"
    by (simp add: collect_results_def)
  moreover have "map (\<lambda>item. jsub item ''case'') items = map (\<lambda>row. jsub row ''case'') rows"
    "map (\<lambda>item. jsub item ''status'') items = map (\<lambda>row. jsub row ''status'') rows"
    "list_all (\<lambda>item. jsub item ''round'' = Inr (JStr directory)) items"
    using items len by (fastforce simp: list_eq_iff_nth_eq list_all2_conv_all_nth list_all_length)+
  ultimately show ?thesis by blast
qed

text \<open>
  C35: the collector publishes exactly what a matrix of tests reported. Given the \<^verbatim>\<open>results.json\<close> a script has written, the collector does not
  fail; the published summary has, under the number of each selected test and in the order of the table, an item with the name of that test and
  the name of the directory; and the script's exit status was a failure exactly when one of the published items is \<^verbatim>\<open>FAIL\<close>.
\<close>

theorem matrix_published:
  assumes "tests \<in> set (matrices Y)" and "\<forall>d. wf_json (JFloat (seconds Y d))" and "RESULTS (globals s) = []"
    and "v_matrix Y only tests os s = Some (Inr code, s')" and "filter (selected only) (map fst tests) \<noteq> []"
  shows "\<exists>t doc items. last_written (results_file os) (trace s') = Some t \<and> loads t = Inr doc \<and>
    collect_results [(mtime, directory, doc)] = Inr (zip (map key_of (filter (selected only) (map fst tests))) items, items) \<and>
    map (\<lambda>item. jsub item ''case'') items = map (\<lambda>name. Inr (JStr name)) (filter (selected only) (map fst tests)) \<and>
    list_all (\<lambda>item. jsub item ''round'' = Inr (JStr directory)) items \<and>
    (code \<longleftrightarrow> (\<exists>item \<in> set items. jsub item ''status'' = Inr (JStr ''FAIL'')))"
proof -
  let ?names = "filter (selected only) (map fst tests)"
  obtain rows where rep: "reported Y os rows ?names s'"
    and code: "code \<longleftrightarrow> (\<exists>row \<in> set rows. jsub row ''status'' = Inr (JStr ''FAIL''))"
    using v_matrix_reported [OF matrices_keep [OF assms(1)] assms(3,4)] by blast
  then have rows: "list_all2 (\<lambda>name row. \<exists>err d. row = result_row Y name err d) ?names rows"
    and t: "last_written (results_file os) (trace s') = Some (dumps_raw_indent (JList rows))"
    using assms(5) by (auto simp: reported_def)
  obtain items where items: "collect_results [(mtime, directory, JList rows)] = Inr (zip (map key_of ?names) items, items)"
    "map (\<lambda>item. jsub item ''case'') items = map (\<lambda>row. jsub row ''case'') rows"
    "map (\<lambda>item. jsub item ''status'') items = map (\<lambda>row. jsub row ''status'') rows"
    "list_all (\<lambda>item. jsub item ''round'' = Inr (JStr directory)) items"
    using collected_rows [OF rows matrix_keys_distinct [OF assms(1)]] by blast
  have "(\<exists>item \<in> set items. jsub item ''status'' = Inr (JStr ''FAIL'')) \<longleftrightarrow> Inr (JStr ''FAIL'') \<in> set (map (\<lambda>row. jsub row ''status'') rows)"
    unfolding items(3) [symmetric] by force
  also have "\<dots> \<longleftrightarrow> code" using code by force
  finally show ?thesis
    using t rows_of_names(3) [OF rows assms(2)] items(1,2,4) rows_of_names(1) [OF rows]
    by (intro exI [of _ "dumps_raw_indent (JList rows)"] exI [of _ "JList rows"] exI [of _ items]) simp
qed

theorem matrix_published_witness:
  "\<exists>code s' t doc item. v_matrix demo_lib ''36'' (boundary_tests demo_lib) (demo_os demo_volcano)
       (demo_start \<lparr>CASE = [], RESULTS = []\<rparr>) = Some (Inr code, s') \<and> loads t = Inr doc \<and>
     collect_results [(7, ''results'', doc)] = Inr ([(''36'', item)], [item])"
proof -
  obtain code s' where run: "v_matrix demo_lib ''36'' (boundary_tests demo_lib) (demo_os demo_volcano)
      (demo_start \<lparr>CASE = [], RESULTS = []\<rparr>) = Some (Inr code, s')" using demo_matrix_returns by blast
  have tests: "boundary_tests demo_lib \<in> set (matrices demo_lib)" by (simp add: matrices_def)
  have floats: "\<forall>d. wf_json (JFloat (seconds demo_lib d))"
    by (simp add: demo_lib_def) code_simp
  have none: "RESULTS (globals (demo_start \<lparr>CASE = [], RESULTS = []\<rparr>)) = []" by (simp add: demo_start_def)
  have names: "filter (selected ''36'') (map fst (boundary_tests demo_lib)) = [''36-invalid-job'']"
    by (simp add: boundary_tests_def selected_def startswith_def)
  have key: "key_of ''36-invalid-job'' = ''36''" by code_simp
  obtain t doc items where doc: "loads t = Inr doc"
    "collect_results [(7, ''results'', doc)] = Inr (zip (map key_of [''36-invalid-job'']) items, items)"
    "map (\<lambda>item. jsub item ''case'') items = map (\<lambda>name. Inr (JStr name)) [''36-invalid-job'']"
    using matrix_published [where mtime = 7 and directory = "''results''", OF tests floats none run, unfolded names] by blast
  from doc(3) obtain item where "items = [item]" by (cases items) auto
  with doc(1,2) key run show ?thesis by auto
qed

end
