(* ===== verification/HamiLab.thy ===== *)
theory HamiLab
  imports Kubectl Invariant Cleanup PyNum Demo
begin

text \<open>
  \<^verbatim>\<open>hami-mock-gpu/run-tests.py\<close>, the harness of the GPU sharing tests: the runner of commands, the evidence of a Pod, the waits for
  a ready and for an unschedulable Pod, the builder of Pods, and \<^verbatim>\<open>check\<close>, which runs a test, deletes the Pods the test has left and
  records the verdict. The module variables are the global state; \<^verbatim>\<open>active\<close> lists the Pods that exist.
\<close>

section \<open>State and libraries\<close>

record hami =
  H_ROOT :: string
  H_ENV :: "(string \<times> string) list"              \<comment> \<open>what the module sets in \<^verbatim>\<open>os.environ\<close>\<close>
  H_OUT :: string
  H_CASE :: string
  H_RESULTS :: "json list"
  ACTIVE :: "string list"

type_synonym ('w, 'a) hprog = "('w, hami, 'a) prog"

text \<open>
  What the scripts use and the model leaves open: \<^verbatim>\<open>Path.resolve()\<close>, which reads the file system, and the float \<^verbatim>\<open>round(t, 1)\<close> of an
  elapsed time. The traceback goes to standard error, which nothing reads.
\<close>

record hlib =
  resolve :: "string \<Rightarrow> string"
  tenths :: "int \<Rightarrow> string"

definition H_NS :: string where
  "H_NS = ''hami-tests''"

definition W1 :: string where
  "W1 = ''hami-test-worker''"

definition W2 :: string where
  "W2 = ''hami-test-worker2''"

definition U0 :: string where
  "U0 = ''GPU-12345678-1234-1234-1234-123456780000''"

definition U1 :: string where
  "U1 = butlast U0 @ ''1''"

definition env_required :: "string \<Rightarrow> ('w, string) hprog" where     \<comment> \<open>\<^verbatim>\<open>os.environ[name]\<close>\<close>
  "env_required name = bindM (getenv name) (\<lambda>v. case v of None \<Rightarrow> raiseM (KeyError name) | Some x \<Rightarrow> returnM x)"

definition h_import :: "hlib \<Rightarrow> ('w, unit) hprog" where
  "h_import L =
    (bindM (env_required ''HAMI_LAB_DIR'') (\<lambda>lab.
     bindM (env_required ''PATH'') (\<lambda>path.
     let root = resolve L lab in
     thenM (modG (\<lambda>_. \<lparr>H_ROOT = root, H_ENV = [(''KUBECONFIG'', root @ ''/kubeconfig''), (''PATH'', root @ ''/bin:'' @ path)],
         H_OUT = root @ ''/evidence/matrix'', H_CASE = [], H_RESULTS = [], ACTIVE = []\<rparr>)) (
     mkdir (root @ ''/evidence/matrix'')))))"

text \<open>The scripts that import this module choose another directory: \<^verbatim>\<open>t.OUT = t.ROOT/'evidence'/name; t.OUT.mkdir(exist_ok=True)\<close>.\<close>

definition h_out :: "string \<Rightarrow> ('w, unit) hprog" where
  "h_out name =
    (bindM getG (\<lambda>g.
     let dir = H_ROOT g @ ''/evidence/'' @ name in
     thenM (modG (\<lambda>g. g\<lparr>H_OUT := dir\<rparr>)) (
     mkdir dir)))"


section \<open>Commands and evidence\<close>

definition h_failed :: "string list \<Rightarrow> proc \<Rightarrow> exn" where
  "h_failed args r = RuntimeError (repr_args args @ '': '' @ stderr r @ '' '' @ stdout r)"

definition h_run :: "string list \<Rightarrow> string option \<Rightarrow> bool \<Rightarrow> ('w, proc) hprog" where
  "h_run args data check = bindM (run_process args data (Some 150)) (checked check (h_failed args))"

text \<open>With \<^verbatim>\<open>check\<close>, \<^verbatim>\<open>cmd\<close> returns the text; without, the process.\<close>

definition h_cmd :: "string list \<Rightarrow> string option \<Rightarrow> ('w, string) hprog" where
  "h_cmd args data = bindM (h_run args data True) (\<lambda>r. returnM (stdout r))"

definition h_k :: "string list \<Rightarrow> ('w, string) hprog" where
  "h_k args = h_cmd ([''kubectl'', ''--context'', ''kind-hami-test'', ''-n'', H_NS] @ args) None"

definition h_obj :: "string \<Rightarrow> ('w, json) hprog" where
  "h_obj name = bindM (h_k [''get'', ''pod'', name, ''-o'', ''json'']) py_loads"

definition h_write :: "string \<Rightarrow> string \<Rightarrow> ('w, unit) hprog" where          \<comment> \<open>\<^verbatim>\<open>(OUT/name).write_text(t)\<close>\<close>
  "h_write name t = bindM getG (\<lambda>g. write_text (H_OUT g @ ''/'' @ name) t)"

definition h_write_case :: "string \<Rightarrow> string \<Rightarrow> ('w, unit) hprog" where     \<comment> \<open>\<^verbatim>\<open>(OUT/f'{case}-{name}').write_text(t)\<close>\<close>
  "h_write_case name t = bindM getG (\<lambda>g. h_write (H_CASE g @ ''-'' @ name) t)"

definition h_save_log :: "string \<Rightarrow> json \<Rightarrow> ('w, unit) hprog" where
  "h_save_log name c =
    (bindM (liftE (bindE (jsub c ''name'') jstr)) (\<lambda>cn.
     bindM (h_run [''kubectl'', ''-n'', H_NS, ''logs'', name, ''-c'', cn] None False) (\<lambda>r.
     h_write_case (name @ ''-'' @ cn @ ''.log'') (stdout r @ stderr r))))"

definition h_events :: "string \<Rightarrow> ('w, string) hprog" where
  "h_events name = h_k [''get'', ''events'', ''--field-selector'', ''involvedObject.name='' @ name,
      ''-o'', ''json'']"

definition h_save :: "string \<Rightarrow> ('w, json) hprog" where
  "h_save name =
    (bindM (h_obj name) (\<lambda>p.
     thenM (h_write_case (name @ ''.json'') (dumps_indent p)) (
     bindM (h_events name) (\<lambda>ev.
     thenM (h_write_case (name @ ''-events.json'') ev) (
     bindM (liftE (bindE (jpath [Sub ''spec'', Sub ''containers''] p) jiter)) (\<lambda>cs.
     thenM (forM cs (h_save_log name)) (
     returnM p)))))))"

text \<open>The allocation a scheduler has noted on a Pod: its devices, each with UUID, kind, memory and cores.\<close>

definition h_alloc :: "json \<Rightarrow> exn + string list list" where
  "h_alloc p = bindE (jpath [Sub ''metadata'', Get ''annotations'' emptyD, Get ''hami.io/vgpu-devices-allocated'' (JStr [])] p)
     (\<lambda>v. bindE (str_method ''split'' v) (\<lambda>s. Inr
       (map (split_on (CHR '','')) (filter (\<lambda>d. d \<noteq> []) (concat (map (split_on (CHR '':'')) (split_on (CHR '';'') s)))))))"


section \<open>Waiting\<close>

definition pod_is_ready :: "json \<Rightarrow> exn + bool" where
  "pod_is_ready p = andE (eqE (jpath [Sub ''status'', get0 ''phase''] p) (JStr ''Running''))
     (andE (bindE (bindE (jpath [Sub ''status'', Get ''containerStatuses'' (JList [])] p) jiter)
         (everyE (\<lambda>c. bindE (jget c ''ready'' JNull) (\<lambda>v. Inr (truth v)))))
       (bindE (jpath [Sub ''status'', get0 ''containerStatuses''] p) (\<lambda>v. Inr (truth v))))"

definition h_ready :: "string \<Rightarrow> ('w, json) hprog" where
  "h_ready name = bindM monotonic (\<lambda>t0. loopM (bindM monotonic (\<lambda>t.
     if t < t0 + 80000
     then
       (bindM (h_obj name) (\<lambda>p.
        bindM (liftE (pod_is_ready p)) (\<lambda>b.
        if b then bindM (h_save name) (\<lambda>p. returnM (Some p)) else thenM (sleep 1000) (returnM None))))
     else thenM (h_save name) (raiseM (AssertionError (name @ '' not Ready''))))))"

definition unassigned :: "json \<Rightarrow> exn + bool" where
  "unassigned p = bindE (jpath [Sub ''spec'', get0 ''nodeName''] p) (\<lambda>v. Inr (\<not> truth v))"

definition failed_scheduling :: "json \<Rightarrow> exn + bool" where
  "failed_scheduling doc = bindE (bindE (jsub doc ''items'') jiter)
     (anyE (\<lambda>e. eqE (jget e ''reason'' JNull) (JStr ''FailedScheduling'')))"

definition h_pending :: "string \<Rightarrow> ('w, json) hprog" where
  "h_pending name = bindM monotonic (\<lambda>t0. loopM (bindM monotonic (\<lambda>t.
     if t < t0 + 35000
     then
       (bindM (h_obj name) (\<lambda>p.
        bindM (liftE (unassigned p)) (\<lambda>free.
        thenM (assertM (name @ '' unexpectedly scheduled'') free) (
        bindM (bindM (h_events name) py_loads) (\<lambda>ev.
        bindM (liftE (failed_scheduling ev)) (\<lambda>b.
        if b then
         (thenM (sleep 3000) (
          bindM (h_save name) (\<lambda>q.
          bindM (liftE (unassigned q)) (\<lambda>still.
          thenM (assertM [] still) (
          returnM (Some q)))))) else thenM (sleep 1000) (returnM None)))))))
     else thenM (h_save name) (raiseM (AssertionError ''No FailedScheduling event'')))))"


section \<open>Pods\<close>

text \<open>The arguments of \<^verbatim>\<open>pod\<close> besides the name, with their defaults.\<close>

record podargs =
  p_mem :: "int option"
  p_cores :: "int option"
  p_gpus :: int
  p_node :: "string option"
  p_ann :: "(string \<times> string) list"
  p_pct :: "int option"
  p_containers :: nat

definition pod0 :: podargs where
  "pod0 = \<lparr>p_mem = Some 4096, p_cores = Some 25, p_gpus = 1, p_node = None, p_ann = [], p_pct = None, p_containers = 1\<rparr>"

definition h_limits :: "podargs \<Rightarrow> json" where
  "h_limits a = JDict ((''nvidia.com/gpu'', JInt (p_gpus a))
     # (case p_mem a of None \<Rightarrow> [] | Some n \<Rightarrow> [(''nvidia.com/gpumem'', JInt n)])
     @ (case p_pct a of None \<Rightarrow> [] | Some n \<Rightarrow> [(''nvidia.com/gpumem-percentage'', JInt n)])
     @ (case p_cores a of None \<Rightarrow> [] | Some n \<Rightarrow> [(''nvidia.com/gpucores'', JInt n)]))"

definition h_container :: "podargs \<Rightarrow> nat \<Rightarrow> json" where
  "h_container a i = JDict
     [(''name'', JStr (''gpu'' @ nat_str i)), (''image'', JStr ''ubuntu:22.04''),
      (''command'', JList [JStr ''bash'', JStr ''-c'', JStr ''env | sort; ls -l /dev/nvidia*; nvidia-smi -L; exec sleep 3600'']),
      (''resources'', JDict [(''limits'', h_limits a)]),
      (''volumeMounts'', JList [JDict [(''name'', JStr ''mock-cuda''),
         (''mountPath'', JStr ''/usr/lib/x86_64-linux-gnu/libcuda.so.1''), (''readOnly'', JBool True)]])]"

definition h_manifest :: "string \<Rightarrow> podargs \<Rightarrow> json" where
  "h_manifest name a = JDict
     [(''apiVersion'', JStr ''v1''), (''kind'', JStr ''Pod''),
      (''metadata'', JDict [(''name'', JStr name), (''namespace'', JStr H_NS),
         (''annotations'', JDict (map (\<lambda>(key, v). (key, JStr v)) (p_ann a)))]),
      (''spec'', JDict
        ([(''terminationGracePeriodSeconds'', JInt 0), (''containers'', JList (map (h_container a) [0..<p_containers a])),
          (''volumes'', JList [JDict [(''name'', JStr ''mock-cuda''),
             (''hostPath'', JDict [(''path'', JStr ''/var/lib/nvml-mock/driver/usr/lib64/libcuda.so.1''), (''type'', JStr ''File'')])]])]
         @ (case p_node a of None \<Rightarrow> [] | Some n \<Rightarrow> if n = [] then [] else
             [(''nodeSelector'', JDict [(''kubernetes.io/hostname'', JStr n)])])))]"

definition h_track :: "string \<Rightarrow> ('w, unit) hprog" where         \<comment> \<open>\<^verbatim>\<open>active.append(name)\<close>\<close>
  "h_track name = modG (\<lambda>g. g\<lparr>ACTIVE := ACTIVE g @ [name]\<rparr>)"

definition h_create :: "string list \<Rightarrow> string \<Rightarrow> json \<Rightarrow> ('w, unit) hprog" where
  "h_create args name doc = thenM (h_cmd args (Some (dumps doc))) (h_track name)"

definition h_pod :: "string \<Rightarrow> podargs \<Rightarrow> ('w, string) hprog" where
  "h_pod name a =
    (thenM (h_write_case (name @ ''-input.json'') (dumps_indent (h_manifest name a))) (
     thenM (h_create [''kubectl'', ''-n'', H_NS, ''apply'', ''-f'', ''-''] name (h_manifest name a)) (
     returnM name)))"

definition h_delete :: "string \<Rightarrow> ('w, unit) hprog" where
  "h_delete name =
    (thenM (h_k [''delete'', ''pod'', name, ''--wait=true'', ''--timeout=30s'']) (
     bindM getG (\<lambda>g.
     if name \<in> set (ACTIVE g) then modG (\<lambda>g. g\<lparr>ACTIVE := remove1 name (ACTIVE g)\<rparr>)
       else raiseM (ValueError ''list.remove(x): x not in list''))))"


section \<open>One check\<close>

definition cleanup_one :: "string \<Rightarrow> ('w, unit) hprog" where
  "cleanup_one name = catchM (thenM (h_save name) (h_delete name)) (on_any (\<lambda>e. py_print (''cleanup '' @ exn_str e)))"

definition h_cleanup :: "('w, unit) hprog" where
  "h_cleanup = bindM getG (\<lambda>g. forM (ACTIVE g) cleanup_one)"

definition h_attempt :: "('w, json) hprog \<Rightarrow> ('w, string \<times> json) hprog" where
  "h_attempt fn = catchM (bindM fn (\<lambda>d. returnM (''PASS'', d))) (on_any (\<lambda>e. returnM (''FAIL'', JStr (exn_str e))))"

definition check_row :: "hlib \<Rightarrow> string \<Rightarrow> string \<times> json \<Rightarrow> int \<Rightarrow> json" where
  "check_row L name verdict elapsed = JDict
     [(''case'', JStr name), (''status'', JStr (fst verdict)), (''detail'', snd verdict), (''seconds'', JFloat (tenths L elapsed))]"

definition h_record :: "hlib \<Rightarrow> string \<times> json \<Rightarrow> int \<Rightarrow> ('w, unit) hprog" where
  "h_record L verdict elapsed =
    (thenM (modG (\<lambda>g. g\<lparr>H_RESULTS := H_RESULTS g @ [check_row L (H_CASE g) verdict elapsed]\<rparr>)) (
     bindM getG (\<lambda>g.
     thenM (h_write ''results.json'' (dumps_raw_indent (JList (H_RESULTS g)))) (
     thenM (py_print (dumps_raw (check_row L (H_CASE g) verdict elapsed))) (
     sleep 2000)))))"

definition check_start :: "string \<Rightarrow> ('w, int) hprog" where
  "check_start test = thenM (modG (\<lambda>g. g\<lparr>H_CASE := test\<rparr>)) monotonic"

definition h_check :: "hlib \<Rightarrow> string \<Rightarrow> ('w, json) hprog \<Rightarrow> ('w, unit) hprog" where
  "h_check L test fn =
    (bindM (check_start test) (\<lambda>start.
     bindM (finallyM (h_attempt fn) h_cleanup) (\<lambda>verdict.
     bindM monotonic (\<lambda>t.
     h_record L verdict (t - start)))))"


section \<open>What the harness promises to the tests\<close>

lemmas h_defs = env_required_def h_run_def h_cmd_def h_k_def h_obj_def h_write_def h_write_case_def h_save_log_def h_events_def h_save_def
  h_track_def h_create_def h_pod_def h_delete_def cleanup_one_def h_cleanup_def h_attempt_def h_record_def check_start_def

lemma h_base_runs [runs_intros]:
  assumes "clock_ok os now"
  shows "runs os now (h_run args data check)" "runs os now (h_cmd args data)" "runs os now (h_k args)" "runs os now (h_obj name)"
    "runs os now (h_write name t)" "runs os now (h_write_case name t)" "runs os now (h_events name)" "runs os now (h_save name)"
    "runs os now (h_create args name doc)" "runs os now (h_pod name a)" "runs os now (h_delete name)" "runs os now h_cleanup"
    "runs os now (h_record L verdict d)" "runs os now (check_start test)" "runs os now (h_import L)" "runs os now (h_out name)"
  unfolding h_defs h_import_def h_out_def Let_def by (intro runs_intros assms; simp)+

lemma h_waits_run [runs_intros]:
  assumes "clock_ok os now"
  shows "runs os now (h_ready name)" "runs os now (h_pending name)"
  unfolding h_ready_def h_pending_def
  by (intro runs_intros runs_timed_loopM ticks_bindM ticks_thenM ticks_if ticks_sleep ticks_returnM assms;
      simp add: raiseM_def thenM_def bindM_def split: option.splits prod.splits sum.splits)+

lemma h_check_runs:
  assumes "clock_ok os now" and "runs os now fn"
  shows "runs os now (h_check L test fn)"
  unfolding h_check_def h_attempt_def by (intro runs_intros assms)

end
