(* ===== verification/HamiRun.thy ===== *)
theory HamiRun
  imports HamiLab
begin

text \<open>
  The tests of \<^verbatim>\<open>hami-mock-gpu/run-tests.py\<close> and the scripts \<^verbatim>\<open>run-extra-tests.py\<close> and \<^verbatim>\<open>run-advanced-tests.py\<close>, which import it. A test
  returns what \<^verbatim>\<open>check\<close> records as its detail.
\<close>

section \<open>Expressions of the tests\<close>

definition elemE :: "'a list \<Rightarrow> nat \<Rightarrow> exn + 'a" where            \<comment> \<open>\<^verbatim>\<open>xs[i]\<close>\<close>
  "elemE xs i = (if i < length xs then Inr (xs ! i) else Inl (IndexError ''list index out of range''))"

definition alloc_at :: "json \<Rightarrow> nat \<Rightarrow> nat \<Rightarrow> exn + string" where \<comment> \<open>\<^verbatim>\<open>alloc(p)[i][j]\<close>\<close>
  "alloc_at p i j = bindE (h_alloc p) (\<lambda>a. bindE (elemE a i) (\<lambda>d. elemE d j))"

definition alloc_json :: "string list list \<Rightarrow> json" where
  "alloc_json a = JList (map (\<lambda>d. JList (map JStr d)) a)"

text \<open>\<^verbatim>\<open>s.count(t)\<close> for a non-empty \<open>t\<close>: the occurrences that do not overlap.\<close>

function str_count :: "string \<Rightarrow> string \<Rightarrow> nat" where
  "str_count t [] = 0"
| "str_count t (c # s) = (if startswith (c # s) t then Suc (str_count t (drop (length t - 1) s)) else str_count t s)"
  by pat_completeness auto
termination by (relation "measure (length \<circ> snd)") auto

definition h_start :: "string \<Rightarrow> podargs \<Rightarrow> ('w, json) hprog" where     \<comment> \<open>\<^verbatim>\<open>ready(pod(name, ...))\<close>\<close>
  "h_start name a = bindM (h_pod name a) h_ready"

definition h_refused :: "string \<Rightarrow> podargs \<Rightarrow> ('w, json) hprog" where   \<comment> \<open>\<^verbatim>\<open>pending(pod(name, ...))\<close>\<close>
  "h_refused name a = bindM (h_pod name a) h_pending"

definition on_W1 :: podargs where
  "on_W1 = pod0\<lparr>p_node := Some W1\<rparr>"

definition on_U0 :: podargs where
  "on_U0 = on_W1\<lparr>p_ann := [(''nvidia.com/use-gpuuuid'', U0)]\<rparr>"


section \<open>The tests of run-tests.py\<close>

definition registered :: "int \<Rightarrow> json \<Rightarrow> exn + bool" where
  "registered mem d = andE (eqE (jsub d ''devmem'') (JInt mem))
     (andE (bindE (jsub d ''health'') (\<lambda>v. Inr (truth v))) (eqE (jsub d ''count'') (JInt 10)))"

definition registration :: "json \<Rightarrow> exn + json" where
  "registration n = bindE (bindE (jpath [Sub ''metadata'', Sub ''annotations'', Sub ''hami.io/node-nvidia-register''] n) jstr) loads"

fun base_nodes :: "json list \<Rightarrow> json list \<Rightarrow> ('w, json list) hprog" where
  "base_nodes [] ids = returnM ids"
| "base_nodes (n # ns) ids =
  (bindM (liftE (jpath [Sub ''metadata'', Sub ''name''] n)) (\<lambda>name.
   if \<not> (py_eq name (JStr W1) \<or> py_eq name (JStr W2)) then base_nodes ns ids
       else
         (bindM (liftE (eqE (jpath [Sub ''status'', Sub ''allocatable'', Sub ''nvidia.com/gpu''] n) (JStr ''20''))) (\<lambda>shares.
          thenM (assertM [] shares) (
          bindM (liftE (registration n)) (\<lambda>doc.
          bindM (liftE (bindE (jlen doc) (\<lambda>i. Inr (i = 2)))) (\<lambda>two.
          thenM (assertM [] two) (
          bindM (liftE (jiter doc)) (\<lambda>ds.
          bindM (liftE (everyE (registered 40960) ds)) (\<lambda>good.
          thenM (assertM [] good) (
          bindM (liftE (mapE (\<lambda>d. jsub d ''id'') ds)) (\<lambda>new.
          base_nodes ns (ids @ new)))))))))))))"

definition h_base :: "('w, json) hprog" where
  "h_base =
    (bindM (bindM (h_cmd [''kubectl'', ''get'', ''nodes'', ''-o'', ''json''] None) py_loads) (\<lambda>doc.
     bindM (liftE (bindE (jsub doc ''items'') jiter)) (\<lambda>ns.
     bindM (base_nodes ns []) (\<lambda>ids.
     bindM (liftE (set_of Inr [] ids)) (\<lambda>different.
     thenM (assertM [] (length different = 4)) (
     returnM (JStr ''2 nodes x 2 unique A100 40960 MiB; each node advertises 20 shares'')))))))"

definition basic_shell :: string where
  "basic_shell = (''cat /etc/ld.so.preload; echo \"$CUDA_DEVICE_MEMORY_LIMIT_0 $CUDA_DEVICE_SM_LIMIT\"; MOCK_NVML_CONFIG=/etc/nvml-mock/config.yaml nvidia-smi --query-gpu=uuid,memory.total --format=csv,noheader'')"

definition h_basic :: "('w, json) hprog" where
  "h_basic =
    (bindM (h_start ''basic'' pod0) (\<lambda>p.
     bindM (liftE (h_alloc p)) (\<lambda>a.
     thenM (assertM [] (length a = 1 \<and> drop 2 (hd a) = [''4096'', ''25''])) (
     bindM (liftE (andE (eqE (jpath [Sub ''spec'', Sub ''schedulerName''] p) (JStr ''hami-scheduler''))
         (eqE (jpath [Sub ''spec'', Sub ''runtimeClassName''] p) (JStr ''nvidia'')))) (\<lambda>webhook.
     thenM (assertM [] webhook) (
     bindM (h_k [''exec'', ''basic'', ''--'', ''bash'', ''-c'', basic_shell]) (\<lambda>s.
     thenM (h_write ''basic-runtime.txt'' s) (
     thenM (assertM [] (contains s ''4096m 25'' \<and> contains s ''libvgpu.so'')) (
     returnM (JStr s))))))))))"

definition h_shared :: "('w, json) hprog" where
  "h_shared =
    (bindM (mapM [0..<3] (\<lambda>i. bindM (h_start (''share'' @ nat_str i) on_U0) (\<lambda>p. liftE (alloc_at p 0 0)))) (\<lambda>aa.
     thenM (assertM [] (aa = replicate 3 U0)) (
     returnM (JStr ''3 Running pods share one physical UUID''))))"

definition h_multi :: "('w, json) hprog" where
  "h_multi =
    (bindM (h_start ''multi'' (on_W1\<lparr>p_gpus := 2\<rparr>)) (\<lambda>p.
     bindM (liftE (h_alloc p)) (\<lambda>a.
     thenM (assertM [] (length a = 2 \<and> length (remdups (map hd a)) = 2 \<and> list_all (\<lambda>d. drop 2 d = [''4096'', ''25'']) a)) (
     bindM (h_k [''exec'', ''multi'', ''--'', ''env'', ''MOCK_NVML_CONFIG=/etc/nvml-mock/config.yaml'',
           ''nvidia-smi'', ''-L'']) (\<lambda>s.
     thenM (h_write ''multi-smi.txt'' s) (
     thenM (assertM [] (str_count ''UUID:'' s = 2)) (
     returnM (alloc_json a))))))))"

definition h_percent :: "('w, json) hprog" where
  "h_percent =
    (bindM (h_start ''percent'' (pod0\<lparr>p_mem := None, p_pct := Some 25\<rparr>)) (\<lambda>p.
     bindM (liftE (bindE (h_alloc p) (\<lambda>a. elemE a 0))) (\<lambda>a.
     bindM (liftE (elemE a 2)) (\<lambda>mem.
     thenM (assertM [] (mem = ''10240'')) (
     returnM (JList (map JStr a)))))))"

definition h_reject :: "string \<Rightarrow> ('w, json) hprog" where
  "h_reject kind = (if kind = ''cores'' then
    (bindM (h_start ''core-clamp'' (on_W1\<lparr>p_cores := Some 101\<rparr>)) (\<lambda>p.
     bindM (liftE (alloc_at p 0 3)) (\<lambda>cores.
     thenM (assertM [] (cores = ''100'')) (
     bindM (h_k [''exec'', ''core-clamp'', ''--'', ''printenv'', ''CUDA_DEVICE_SM_LIMIT'']) (\<lambda>s.
     thenM (assertM [] (strip s = ''100'')) (
     returnM (JStr ''gpucores=101 is clamped to 100 by HAMi, matching device.go Fit implementation'')))))))
     else thenM (h_refused (''reject-'' @ kind)
         (if kind = ''memory'' then on_W1\<lparr>p_mem := Some 40961\<rparr> else if kind = ''cards'' then on_W1\<lparr>p_gpus := 3\<rparr> else on_W1))
       (returnM (JStr ''FailedScheduling; nodeName absent'')))"

definition h_budget :: "string \<Rightarrow> ('w, json) hprog" where
  "h_budget resource =
    (let kw = (if resource = ''memory'' then on_U0\<lparr>p_mem := Some 30000, p_cores := Some 10\<rparr>
                 else on_U0\<lparr>p_mem := Some 1024, p_cores := Some 60\<rparr>) in
     thenM (h_start ''holder'' kw) (
     thenM (h_refused ''blocked'' (if resource = ''memory'' then kw\<lparr>p_mem := Some 12000\<rparr> else kw\<lparr>p_cores := Some 50\<rparr>)) (
     thenM (h_delete ''holder'') (
     bindM (h_ready ''blocked'') (\<lambda>p.
     bindM (liftE (h_alloc p)) (\<lambda>a.
     returnM (JStr (''Blocked while budget exhausted; scheduled automatically after holder deletion: '' @ jrepr (alloc_json a)))))))))"

definition h_exclusive :: "('w, json) hprog" where
  "h_exclusive =
    (thenM (h_start ''exclusive'' (on_U0\<lparr>p_mem := None, p_pct := Some 100, p_cores := Some 100\<rparr>)) (
     thenM (h_refused ''blocked'' (on_U0\<lparr>p_mem := Some 1, p_cores := Some 1\<rparr>)) (
     returnM (JStr ''100% memory and cores exclude a second request on same UUID''))))"

definition h_select :: "string \<Rightarrow> string \<Rightarrow> string option \<Rightarrow> bool \<Rightarrow> ('w, json) hprog" where
  "h_select key v expected negative =
    (bindM (h_pod ''selection'' (on_W1\<lparr>p_ann := [(key, v)]\<rparr>)) (\<lambda>n.
     if negative then thenM (h_pending n) (returnM (JStr ''rejected with FailedScheduling''))
       else
         (bindM (h_ready n) (\<lambda>p.
          bindM (liftE (h_alloc p)) (\<lambda>a.
          thenM (case expected of None \<Rightarrow> returnM () | Some u \<Rightarrow> whenM (u \<noteq> []) (assertM [] (map hd a = [u]))) (
          returnM (JList (map (\<lambda>d. JStr (hd d)) a))))))))"

definition policy_value :: "string \<Rightarrow> json \<Rightarrow> exn + json" where
  "policy_value scope p = (if scope = ''node'' then jpath [Sub ''spec'', Sub ''nodeName''] p
     else bindE (alloc_at p 0 0) (\<lambda>u. Inr (JStr u)))"

definition h_policy :: "string \<Rightarrow> string \<Rightarrow> ('w, json) hprog" where
  "h_policy scope pol =
    (bindM (mapM [0..<2] (\<lambda>i. h_start (''policy'' @ nat_str i)
         (pod0\<lparr>p_node := (if scope = ''gpu'' then Some W1 else None), p_ann := [(''hami.io/'' @ scope @ ''-scheduler-policy'', pol)]\<rparr>))) (\<lambda>ps.
     bindM (liftE (mapE (policy_value scope) ps)) (\<lambda>values.
     thenM (assertM (jrepr (JList values)) (py_eq (values ! 0) (values ! 1) \<longleftrightarrow> pol = ''binpack'')) (
     returnM (JList values)))))"

definition h_multicontainer :: "('w, json) hprog" where
  "h_multicontainer =
    (bindM (h_start ''two-containers'' (on_W1\<lparr>p_containers := 2\<rparr>)) (\<lambda>p.
     bindM (liftE (h_alloc p)) (\<lambda>a.
     bindM (liftE (andE (Inr (length a = 2)) (bindE (bindE (jpath [Sub ''status'', Sub ''containerStatuses''] p) jlen) (\<lambda>i. Inr (i = 2))))) (\<lambda>two.
     thenM (assertM [] two) (
     returnM (alloc_json a))))))"

definition h_slots :: "('w, json) hprog" where
  "h_slots =
    (let kw = on_U0\<lparr>p_mem := Some 64, p_cores := Some 1\<rparr> in
     thenM (forM [0..<10] (\<lambda>i. ign (h_start (''slot'' @ nat_str i) kw))) (
     thenM (h_refused ''slot-overflow'' kw) (
     thenM (h_delete ''slot0'') (
     thenM (h_ready ''slot-overflow'') (
     returnM (JStr ''10 shares accepted, 11th blocked, deletion releases share''))))))"

definition h_rollout :: "string \<Rightarrow> ('w, unit) hprog" where
  "h_rollout resource =
    (thenM (h_cmd [''kubectl'', ''-n'', ''hami-system'', ''rollout'', ''restart'', resource] None) (
     ign (h_cmd [''kubectl'', ''-n'', ''hami-system'', ''rollout'', ''status'', resource,
           ''--timeout=100s''] None)))"

definition h_restart :: "('w, json) hprog" where
  "h_restart =
    (bindM (h_start ''survivor'' on_W1) (\<lambda>p.
     bindM (liftE (jpath [Sub ''metadata'', Sub ''uid''] p)) (\<lambda>uid.
     bindM (liftE (h_alloc p)) (\<lambda>a.
     thenM (forM [''deployment/hami-scheduler'', ''daemonset/hami-device-plugin''] h_rollout) (
     bindM (h_ready ''survivor'') (\<lambda>q.
     bindM (liftE (andE (eqE (jpath [Sub ''metadata'', Sub ''uid''] q) uid) (bindE (h_alloc q) (\<lambda>b. Inr (b = a))))) (\<lambda>same.
     thenM (assertM [] same) (
     bindM (liftE (bindE (bindE (jpath [Sub ''status'', Sub ''containerStatuses''] q) jiter)
         (everyE (\<lambda>c. eqE (jsub c ''restartCount'') (JInt 0))))) (\<lambda>kept.
     thenM (assertM [] kept) (
     thenM (h_start ''after-restart'' pod0) (
     returnM (JStr ''Existing Pod allocation survives; new Pod schedules after scheduler and plugin restart''))))))))))))"

definition hami_tests :: "(string \<times> ('w, json) hprog) list" where
  "hami_tests =
     [(''01-device-registration'', h_base), (''02-webhook-allocation-runtime'', h_basic), (''03-share-one-gpu'', h_shared),
      (''04-multi-gpu'', h_multi), (''05-memory-percentage'', h_percent),
      (''06-reject-memory'', h_reject ''memory''), (''07-core-clamp'', h_reject ''cores''), (''08-reject-cards'', h_reject ''cards''),
      (''09-memory-budget-reclaim'', h_budget ''memory''), (''10-core-budget-reclaim'', h_budget ''cores''),
      (''11-exclusive'', h_exclusive),
      (''12-type-allow'', h_select ''nvidia.com/use-gputype'' ''A100'' None False),
      (''13-type-mismatch'', h_select ''nvidia.com/use-gputype'' ''T4'' None True),
      (''14-type-deny'', h_select ''nvidia.com/nouse-gputype'' ''A100'' None True),
      (''15-uuid-allow'', h_select ''nvidia.com/use-gpuuuid'' U1 (Some U1) False),
      (''16-uuid-deny'', h_select ''nvidia.com/nouse-gpuuuid'' U0 (Some U1) False),
      (''17-gpu-binpack'', h_policy ''gpu'' ''binpack''), (''18-gpu-spread'', h_policy ''gpu'' ''spread''),
      (''19-node-binpack'', h_policy ''node'' ''binpack''), (''20-node-spread'', h_policy ''node'' ''spread''),
      (''21-multi-container'', h_multicontainer), (''22-share-count-reclaim'', h_slots), (''23-restart-recovery'', h_restart)]"

definition h_checks :: "hlib \<Rightarrow> (string \<times> ('w, json) hprog) list \<Rightarrow> ('w, unit) hprog" where
  "h_checks L tests = forM tests (\<lambda>(name, fn). h_check L name fn)"

definition hami_main :: "hlib \<Rightarrow> ('w, unit) hprog" where
  "hami_main L =
    (thenM (h_k [''delete'', ''pod'', ''--all'', ''--wait=true'', ''--timeout=40s'']) (
     thenM (h_checks L hami_tests) (
     bindM getG (\<lambda>g.
     bindM (liftE (filterE (\<lambda>x. eqE (jsub x ''status'') (JStr ''PASS'')) (H_RESULTS g))) (\<lambda>ok.
     py_print (''SUMMARY '' @ nat_str (length (H_RESULTS g)) @ '' cases; '' @ nat_str (length ok) @ '' PASS''))))))"

definition hami_run :: "hlib \<Rightarrow> ('w, unit) hprog" where
  "hami_run L = thenM (h_import L) (hami_main L)"


section \<open>run-extra-tests.py\<close>

definition plain_pod :: json where
  "plain_pod = (JDict
    [(''apiVersion'', JStr ''v1''), (''kind'', JStr ''Pod''),
     (''metadata'', JDict [(''name'', JStr ''plain''), (''namespace'', JStr H_NS)]),
     (''spec'',
       JDict
         [(''terminationGracePeriodSeconds'', JInt 0),
          (''containers'',
            JList
              [JDict
                 [(''name'', JStr ''cpu''), (''image'', JStr ''ubuntu:22.04''),
                  (''command'', JList [JStr ''sleep'', JStr ''3600''])]])])])"

definition h_plain :: "('w, json) hprog" where
  "h_plain =
    (thenM (h_create [''kubectl'', ''apply'', ''-f'', ''-''] ''plain'' plain_pod) (
     bindM (h_ready ''plain'') (\<lambda>p.
     bindM (liftE (andE (eqE (jpath [Sub ''spec'', Sub ''schedulerName''] p) (JStr ''default-scheduler''))
         (bindE (jpath [Sub ''spec'', get0 ''runtimeClassName''] p) (\<lambda>v. Inr (\<not> truth v))))) (\<lambda>b.
     thenM (assertM [] b) (
     bindM (liftE (h_alloc p)) (\<lambda>a.
     thenM (assertM [] (a = [])) (
     returnM (JStr ''CPU-only Pod remains on default-scheduler''))))))))"

definition h_node :: "('w, json) hprog" where
  "h_node =
    (bindM (h_start ''node-selected'' (pod0\<lparr>p_node := Some W2\<rparr>)) (\<lambda>p.
     bindM (liftE (eqE (jpath [Sub ''spec'', Sub ''nodeName''] p) (JStr W2))) (\<lambda>there.
     thenM (assertM [] there) (
     bindM (liftE (alloc_at p 0 0)) (\<lambda>u.
     thenM (assertM [] (startswith u ''GPU-22345678'')) (
     bindM (liftE (h_alloc p)) (\<lambda>a.
     returnM (alloc_json a))))))))"

definition extra_tests :: "(string \<times> ('w, json) hprog) list" where
  "extra_tests = [(''24-cpu-only-webhook'', h_plain), (''25-node-selection'', h_node)]"

definition extra_run :: "hlib \<Rightarrow> ('w, unit) hprog" where
  "extra_run L = thenM (h_import L) (thenM (h_out ''extra'') (h_checks L extra_tests))"


section \<open>run-advanced-tests.py\<close>

fun jdel :: "string \<Rightarrow> json \<Rightarrow> exn + json" where                 \<comment> \<open>\<^verbatim>\<open>del v[k]\<close>\<close>
  "jdel key (JDict d) = (if key \<in> fst ` set d then Inr (JDict (dict_pop d key)) else Inl (KeyError key))"
| "jdel key (JList xs) = Inl (TypeError ''list indices must be integers or slices, not str'')"
| "jdel key v = Inl (TypeError (quoted (type_name v) @ '' object does not support item deletion''))"

definition limits_of_first :: "acc list" where
  "limits_of_first = [Sub ''spec'', Sub ''containers'', Idx 0, Sub ''resources'', Sub ''limits'']"

definition h_implicit :: "('w, json) hprog" where
  "h_implicit =
    (bindM getG (\<lambda>g.
     bindM (read_text (H_ROOT g @ ''/evidence/matrix/02-webhook-allocation-runtime-basic-input.json'')) (\<lambda>t.
     bindM (py_loads t) (\<lambda>src.
     bindM (liftE (jupd [Sub ''metadata''] (\<lambda>m. jset m ''name'' (JStr ''implicit-gpu'')) src)) (\<lambda>named.
     bindM (liftE (jupd limits_of_first (jdel ''nvidia.com/gpu'') named)) (\<lambda>doc.
     thenM (h_write ''implicit-input.json'' (dumps_indent doc)) (
     thenM (h_create [''kubectl'', ''apply'', ''-f'', ''-''] ''implicit-gpu'' doc) (
     bindM (h_ready ''implicit-gpu'') (\<lambda>p.
     bindM (liftE (andE (eqE (jpath (limits_of_first @ [Sub ''nvidia.com/gpu'']) p) (JStr ''1''))
         (bindE (h_alloc p) (\<lambda>a. Inr (length a = 1))))) (\<lambda>b.
     thenM (assertM [] b) (
     returnM (JStr ''Webhook adds gpu=1 when only gpumem/gpucores are requested''))))))))))))"

definition h_defaults :: "('w, json) hprog" where
  "h_defaults =
    (bindM (h_start ''default-gpu'' (on_W1\<lparr>p_mem := None, p_cores := None\<rparr>)) (\<lambda>p.
     bindM (liftE (h_alloc p)) (\<lambda>a.
     bindM (liftE (alloc_at p 0 2)) (\<lambda>mem.
     thenM (assertM [] (mem = ''40960'')) (
     returnM (JDict [(''allocation'', alloc_json a), (''meaning'', JStr ''GPU count alone receives full device memory'')]))))))"

definition helm_args :: "string \<Rightarrow> string list \<Rightarrow> string list" where
  "helm_args root extra = [''helm'', ''upgrade'', ''hami'', root @ ''/src/HAMi/charts/hami'', ''-n'',
      ''hami-system'', ''-f'', root @ ''/hami-values.yaml'']
     @ extra @ [''--wait'', ''--timeout'', ''120s'']"

definition h_helm :: "string list \<Rightarrow> ('w, unit) hprog" where
  "h_helm extra =
    (bindM getG (\<lambda>g.
     bindM (h_cmd (helm_args (H_ROOT g) extra) None) (\<lambda>t.
     h_write (if extra = [] then ''helm-restore.log'' else ''helm-scale.log'') t)))"

definition h_waitmem :: "int \<Rightarrow> ('w, unit) hprog" where
  "h_waitmem want = bindM monotonic (\<lambda>t0. loopM (bindM monotonic (\<lambda>t.
     if t < t0 + 65000
     then
       (bindM (bindM (h_cmd [''kubectl'', ''get'', ''node'', W1, ''-o'', ''json''] None) py_loads) (\<lambda>p.
        bindM (liftE (bindE (registration p) jiter)) (\<lambda>ds.
        bindM (liftE (everyE (\<lambda>d. eqE (jsub d ''devmem'') (JInt want)) ds)) (\<lambda>b.
        if b then returnM (Some ()) else thenM (sleep 1000) (returnM None)))))
     else raiseM (AssertionError ''Registration memory did not converge''))))"

definition h_oversub :: "('w, json) hprog" where
  "h_oversub =
    (thenM (h_helm [''--set'', ''devicePlugin.deviceMemoryScaling=2'']) (
     thenM (h_waitmem 81920) (
     bindM (h_start ''oversub'' (on_W1\<lparr>p_mem := Some 61440\<rparr>)) (\<lambda>p.
     bindM (liftE (alloc_at p 0 2)) (\<lambda>mem.
     thenM (assertM [] (mem = ''61440'')) (
     thenM (h_delete ''oversub'') (
     returnM (JStr ''2x scaling advertises 81920 MiB and admits 61440 MiB on physical 40960 MiB; scheduling only, no real memory allocation''))))))))"

definition h_unscale :: "('w, unit) hprog" where
  "h_unscale =
    (bindM getG (\<lambda>g.
     thenM (forM (ACTIVE g) (\<lambda>n. thenM (h_save n) (h_delete n))) (
     thenM (h_helm []) (
     h_waitmem 40960))))"

definition h_scaling :: "('w, json) hprog" where
  "h_scaling = finallyM h_oversub h_unscale"

definition hami_advanced_tests :: "(string \<times> ('w, json) hprog) list" where
  "hami_advanced_tests =
     [(''30-implicit-gpu'', h_implicit), (''31-default-full-memory'', h_defaults), (''32-memory-oversubscription'', h_scaling)]"

text \<open>The module imports \<^verbatim>\<open>run-final-tests.py\<close>, which sets and creates its own directory first.\<close>

definition hami_advanced_run :: "hlib \<Rightarrow> ('w, unit) hprog" where
  "hami_advanced_run L = thenM (h_import L) (thenM (h_out ''final'') (thenM (h_out ''advanced'') (h_checks L hami_advanced_tests)))"


section \<open>The scripts end\<close>

lemma base_nodes_runs [runs_intros]: "runs os now (base_nodes ns ids)"
  by (induction ns ids rule: base_nodes.induct) (auto intro!: runs_intros)

lemma h_waitmem_runs [runs_intros]:
  assumes "clock_ok os now"
  shows "runs os now (h_waitmem want)"
  unfolding h_waitmem_def
  by (intro runs_intros runs_timed_loopM ticks_bindM ticks_if ticks_sleep ticks_returnM assms; simp add: raiseM_def)

lemma h_parts_run [runs_intros]:
  assumes "clock_ok os now"
  shows "runs os now (h_start name a)" "runs os now (h_refused name a)" "runs os now (h_rollout resource)" "runs os now (h_helm extra)"
  unfolding h_start_def h_refused_def h_rollout_def h_helm_def by (intro runs_intros assms)+

lemmas hami_defs = h_base_def h_basic_def h_shared_def h_multi_def h_percent_def h_reject_def h_budget_def
  h_exclusive_def h_select_def h_policy_def h_multicontainer_def h_slots_def h_restart_def h_plain_def h_node_def
  h_implicit_def h_defaults_def h_oversub_def h_unscale_def h_scaling_def

lemma hami_tests_run:
  assumes "clock_ok os now"
  shows "list_all (\<lambda>(_, fn). runs os now fn) hami_tests" "list_all (\<lambda>(_, fn). runs os now fn) extra_tests"
    "list_all (\<lambda>(_, fn). runs os now fn) hami_advanced_tests"
  unfolding hami_tests_def extra_tests_def hami_advanced_tests_def list.pred_inject prod.case hami_defs Let_def
  by (intro conjI runs_intros assms TrueI; simp)+

lemma h_checks_run:
  assumes "clock_ok os now" and "list_all (\<lambda>(_, fn). runs os now fn) tests"
  shows "runs os now (h_checks L tests)"
  unfolding h_checks_def using assms by (auto simp: list_all_iff intro!: runs_intros h_check_runs)

lemma hami_runs:
  assumes "clock_ok os now"
  shows "runs os now (hami_run L)" "runs os now (extra_run L)" "runs os now (hami_advanced_run L)"
  unfolding hami_run_def hami_main_def extra_run_def hami_advanced_run_def
  by (intro runs_intros h_checks_run hami_tests_run assms)+

end
