(* ===== verification/HamiSafety.thy ===== *)
theory HamiSafety
  imports HamiRun
begin

text \<open>
  What \<^verbatim>\<open>check\<close> of \<^verbatim>\<open>hami-mock-gpu/run-tests.py\<close> guarantees: the verdict it records is the outcome of the test, and no Pod of a test
  is lost: the list \<^verbatim>\<open>active\<close> has every Pod that was created and not deleted, and \<^verbatim>\<open>check\<close> empties it or says why not.
\<close>

section \<open>The harness and the module variables\<close>

abbreviation untouched :: "(hami \<Rightarrow> bool) \<Rightarrow> ('w, hami) st \<Rightarrow> bool" where
  "untouched I \<equiv> confined I (\<lambda>_. True)"

lemma h_run_keeps [keeps_intros]: "keeps os (untouched I) (h_run args data check)"
  unfolding h_run_def checked_def by (intro keeps_intros) simp

lemma h_base_keep [keeps_intros]:
  "keeps os (untouched I) (h_cmd args data)" "keeps os (untouched I) (h_k args)" "keeps os (untouched I) (h_obj name)"
  "keeps os (untouched I) (h_write name t)" "keeps os (untouched I) (h_write_case name t)" "keeps os (untouched I) (h_events name)"
  unfolding h_cmd_def h_k_def h_obj_def h_write_def h_write_case_def h_events_def by (intro keeps_intros; simp)+

lemma h_save_keeps [keeps_intros]: "keeps os (untouched I) (h_save name)"
  unfolding h_save_def h_save_log_def by (intro keeps_intros)

lemma h_base_emit [emits_intros]:
  assumes "\<And>args data r. P (Ran args data r)" and "\<And>p x. P (Wrote p x)"
  shows "emits os P (h_run args data check)" "emits os P (h_cmd args data)" "emits os P (h_k args)" "emits os P (h_obj name)"
    "emits os P (h_write name t)" "emits os P (h_write_case name t)" "emits os P (h_events name)" "emits os P (h_save_log name c)"
  unfolding h_defs by (intro emits_intros; simp add: assms)+

lemma h_save_emits [emits_intros]:
  assumes "\<And>args data r. P (Ran args data r)" and "\<And>p x. P (Wrote p x)"
  shows "emits os P (h_save name)" "emits os P (h_delete name)"
  unfolding h_save_def h_delete_def by (intro emits_intros; simp add: assms)+


section \<open>The clean-up after a test\<close>

lemma h_delete_active:
  assumes "h_delete name os s = Some (Inr u, s')"
  shows "globals s' = (globals s)\<lparr>ACTIVE := remove1 name (ACTIVE (globals s))\<rparr>"
proof -
  obtain t s1 where "h_k [''delete'', ''pod'', name, ''--wait=true'', ''--timeout=30s''] os s = Some (Inr t, s1)"
    and rest: "bindM getG (\<lambda>g. if name \<in> set (ACTIVE g) then modG (\<lambda>g. g\<lparr>ACTIVE := remove1 name (ACTIVE g)\<rparr>)
       else raiseM (ValueError ''list.remove(x): x not in list'')) os s1 = Some (Inr u, s')"
    using assms unfolding h_delete_def by (rule thenM_InrE)
  from keepsD [OF h_base_keep(2) [of os "\<lambda>g. g = globals s"] _ this(1)] have "globals s1 = globals s"
    by (simp add: confined_def list_all_iff)
  with rest show ?thesis by (auto simp: run_simps split: if_splits)
qed

text \<open>One Pod of the list is deleted, or the failure is printed.\<close>

lemma cleanup_one_cases:
  assumes "cleanup_one name os s = Some (Inr (), s')"
  shows "\<exists>es. trace s' = trace s @ es \<and>
    (globals s' = (globals s)\<lparr>ACTIVE := remove1 name (ACTIVE (globals s))\<rparr> \<or> (\<exists>e. Printed (''cleanup '' @ exn_str e) \<in> set es))"
  using assms unfolding cleanup_one_def
proof (cases rule: catchM_SomeE)
  case 1
  then obtain p s1 where save: "h_save name os s = Some (Inr p, s1)" and del: "h_delete name os s1 = Some (Inr (), s')"
    by (blast elim: thenM_InrE)
  have "globals s1 = globals s"
    using keepsD [OF h_save_keeps [of os "\<lambda>g. g = globals s"] _ save] by (simp add: confined_def list_all_iff)
  with h_delete_active [OF del] have "globals s' = (globals s)\<lparr>ACTIVE := remove1 name (ACTIVE (globals s))\<rparr>" by simp
  moreover have "emits os (\<lambda>_. True) (thenM (h_save name) (h_delete name))" by (intro emits_intros) simp_all
  ultimately show ?thesis using 1(1) by (auto elim: emitsD)
next
  case (2 e s1 p)
  have "emits os (\<lambda>_. True) (thenM (h_save name) (h_delete name))" by (intro emits_intros) simp_all
  then obtain es where "trace s1 = trace s @ es" using 2(1) by (rule emitsD)
  moreover have "trace s' = trace s1 @ [Printed (''cleanup '' @ exn_str e)]"
    using 2(2,3) by (auto simp: on_any_def py_print_def elim!: prim_SomeE split: exn.splits)
  ultimately show ?thesis by auto
qed

lemma cleanup_empties:
  assumes "forM xs cleanup_one os s = Some (Inr (), s')" and "ACTIVE (globals s) = xs"
  shows "\<exists>es. trace s' = trace s @ es \<and> (ACTIVE (globals s') = [] \<or> (\<exists>e. Printed (''cleanup '' @ exn_str e) \<in> set es))"
  using assms
proof (induction xs arbitrary: s)
  case Nil
  then show ?case by (auto simp: run_simps)
next
  case (Cons name xs)
  then obtain s1 where one: "cleanup_one name os s = Some (Inr (), s1)" and rest: "forM xs cleanup_one os s1 = Some (Inr (), s')"
    by (auto elim!: thenM_InrE)
  have "emits os (\<lambda>_. True) (forM xs cleanup_one)" unfolding cleanup_one_def by (intro emits_intros) simp_all
  then obtain fs where fs: "trace s' = trace s1 @ fs" using rest by (rule emitsD)
  from cleanup_one_cases [OF one] obtain es where es: "trace s1 = trace s @ es"
    and or: "globals s1 = (globals s)\<lparr>ACTIVE := remove1 name (ACTIVE (globals s))\<rparr> \<or> (\<exists>e. Printed (''cleanup '' @ exn_str e) \<in> set es)"
    by blast
  from or show ?case
  proof
    assume "globals s1 = (globals s)\<lparr>ACTIVE := remove1 name (ACTIVE (globals s))\<rparr>"
    with Cons.prems(2) have "ACTIVE (globals s1) = xs" by simp
    from Cons.IH [OF rest this] es show ?thesis by auto
  next
    assume "\<exists>e. Printed (''cleanup '' @ exn_str e) \<in> set es"
    with es fs show ?thesis by auto
  qed
qed

lemma h_cleanup_keeps: "(\<And>g a. I g \<Longrightarrow> I (g\<lparr>ACTIVE := a\<rparr>)) \<Longrightarrow> keeps os (untouched I) h_cleanup"
  unfolding h_cleanup_def cleanup_one_def h_delete_def by (intro keeps_intros) simp_all



section \<open>The verdict\<close>

lemma h_attempt_Inr:
  assumes "h_attempt fn os s = Some (Inr v, s')"
  shows "\<exists>r. fn os s = Some (r, s') \<and> v = (case r of Inr d \<Rightarrow> (''PASS'', d) | Inl e \<Rightarrow> (''FAIL'', JStr (exn_str e)))"
  using catch_any_Inr [OF assms [unfolded h_attempt_def]] by (auto simp: run_simps split: option.splits sum.splits)

lemma h_attempt_keeps: "keeps os (untouched I) fn \<Longrightarrow> keeps os (untouched I) (h_attempt fn)"
  unfolding h_attempt_def by (intro keeps_intros)

lemma h_record_results:
  assumes "h_record L verdict d os s = Some (Inr (), s')"
  shows "globals s' = (globals s)\<lparr>H_RESULTS := H_RESULTS (globals s) @ [check_row L (H_CASE (globals s)) verdict d]\<rparr>"
    and "\<exists>es. trace s' = trace s @ es"
  using assms unfolding h_record_def h_write_def write_text_def py_print_def sleep_def
  by (auto simp: run_simps prim_def split: prod.splits sum.splits)

lemma h_checkE:
  assumes "h_check L test fn os s = Some (Inr (), s')"
  obtains t s0 verdict s1 s2 t' s3 where "check_start test os s = Some (Inr t, s0)" "h_attempt fn os s0 = Some (Inr verdict, s1)"
    "h_cleanup os s1 = Some (Inr (), s2)" "monotonic os s2 = Some (Inr t', s3)" "h_record L verdict (t' - t) os s3 = Some (Inr (), s')"
proof -
  obtain t s0 verdict s2 t' s3 where *: "check_start test os s = Some (Inr t, s0)"
    "finallyM (h_attempt fn) h_cleanup os s0 = Some (Inr verdict, s2)"
    "monotonic os s2 = Some (Inr t', s3)" "h_record L verdict (t' - t) os s3 = Some (Inr (), s')"
    using assms unfolding h_check_def by (elim bindM_InrE)
  from *(2) obtain r1 s1 rc where "h_attempt fn os s0 = Some (r1, s1)" "h_cleanup os s1 = Some (rc, s2)"
    "Inr verdict = (case rc of Inl e \<Rightarrow> Inl e | Inr _ \<Rightarrow> r1)" by (rule finallyM_SomeE)
  then have "h_attempt fn os s0 = Some (Inr verdict, s1)" "h_cleanup os s1 = Some (Inr (), s2)" by (auto split: sum.splits)
  with *(1) show ?thesis using *(3,4) by (rule that)
qed

lemma check_start_state:
  assumes "check_start test os s = Some (Inr t, s0)"
  shows "globals s0 = (globals s)\<lparr>H_CASE := test\<rparr>" "\<exists>es. trace s0 = trace s @ es"
  using assms unfolding check_start_def monotonic_def by (auto simp: run_simps prim_def split: prod.splits)

text \<open>
  C38: the verdict \<^verbatim>\<open>check\<close> records is the outcome of the test, and no Pod is left behind in silence. When \<^verbatim>\<open>check\<close> returns, exactly one
  row was added to \<^verbatim>\<open>results\<close>, under the name of the test: \<^verbatim>\<open>PASS\<close> with the value the test returned, or \<^verbatim>\<open>FAIL\<close> with the text of the exception it
  raised; and the list \<^verbatim>\<open>active\<close> is empty, or the clean-up has printed the error of the Pod it could not save or delete.
\<close>

theorem check_verdict:
  assumes "\<And>c rows. keeps os (untouched (\<lambda>g. H_CASE g = c \<and> H_RESULTS g = rows)) fn"
    and "h_check L test fn os s = Some (Inr (), s')"
  shows "\<exists>row t s0 r s1 es. check_start test os s = Some (Inr t, s0) \<and> fn os s0 = Some (r, s1) \<and>
    H_RESULTS (globals s') = H_RESULTS (globals s) @ [row] \<and> jsub row ''case'' = Inr (JStr test) \<and>
    jsub row ''status'' = Inr (JStr (case r of Inr _ \<Rightarrow> ''PASS'' | Inl _ \<Rightarrow> ''FAIL'')) \<and>
    jsub row ''detail'' = Inr (case r of Inr d \<Rightarrow> d | Inl e \<Rightarrow> JStr (exn_str e)) \<and>
    trace s' = trace s1 @ es \<and> (ACTIVE (globals s') = [] \<or> (\<exists>e. Printed (''cleanup '' @ exn_str e) \<in> set es))"
  using assms(2)
proof (rule h_checkE)
  fix t s0 verdict s1 s2 t' s3
  assume start: "check_start test os s = Some (Inr t, s0)" and att: "h_attempt fn os s0 = Some (Inr verdict, s1)"
    and clean: "h_cleanup os s1 = Some (Inr (), s2)" and clock: "monotonic os s2 = Some (Inr t', s3)"
    and rec: "h_record L verdict (t' - t) os s3 = Some (Inr (), s')"
  let ?I = "\<lambda>g. H_CASE g = test \<and> H_RESULTS g = H_RESULTS (globals s)"
  have "untouched ?I s0" using check_start_state(1) [OF start] by (simp add: confined_def list_all_iff)
  then have "untouched ?I s1" by (rule keepsD [OF h_attempt_keeps [OF assms(1)] _ att])
  then have "untouched ?I s2" using keepsD [OF h_cleanup_keeps [of ?I] _ clean] by simp
  then have g3: "?I (globals s3)" using clock by (simp add: confined_def monotonic_def prim_globals)
  obtain r where r: "fn os s0 = Some (r, s1)"
    "verdict = (case r of Inr d \<Rightarrow> (''PASS'', d) | Inl e \<Rightarrow> (''FAIL'', JStr (exn_str e)))" using h_attempt_Inr [OF att] by blast
  obtain es where es: "trace s2 = trace s1 @ es"
    "ACTIVE (globals s2) = [] \<or> (\<exists>e. Printed (''cleanup '' @ exn_str e) \<in> set es)"
    using cleanup_empties [OF _ refl] clean by (fastforce simp: h_cleanup_def run_simps)
  obtain fs where "trace s' = trace s3 @ fs" using h_record_results(2) [OF rec] by blast
  moreover have "globals s3 = globals s2" "\<exists>ds. trace s3 = trace s2 @ ds"
    using clock by (auto simp: monotonic_def elim!: prim_SomeE)
  ultimately obtain gs where gs: "trace s' = trace s1 @ es @ gs" using es(1) by auto
  show ?thesis
    using start r h_record_results(1) [OF rec] g3 gs es(2) \<open>globals s3 = globals s2\<close>
    by (intro exI [of _ "check_row L (H_CASE (globals s3)) verdict (t' - t)"] exI [of _ t] exI [of _ s0] exI [of _ r] exI [of _ s1]
        exI [of _ "es @ gs"]) (auto simp: check_row_def split: sum.splits)
qed



text \<open>A world with the two nodes of the lab, in which the first test passes.\<close>

definition demo_device :: "string \<Rightarrow> json" where
  "demo_device uuid = JDict [(''id'', JStr uuid), (''devmem'', JInt 40960), (''health'', JBool True), (''count'', JInt 10)]"

definition demo_node :: "string \<Rightarrow> string \<Rightarrow> json" where
  "demo_node name u = JDict [(''metadata'', JDict [(''name'', JStr name), (''annotations'', JDict
      [(''hami.io/node-nvidia-register'', JStr (dumps (JList [demo_device (u @ ''0''), demo_device (u @ ''1'')])))])]),
    (''status'', JDict [(''allocatable'', JDict [(''nvidia.com/gpu'', JStr ''20'')])])]"

definition demo_hami :: "string list \<Rightarrow> nat \<Rightarrow> proc" where
  "demo_hami args w = printed 0 (JDict [(''items'', JList [demo_node W1 ''a'', demo_node W2 ''b''])])"

definition demo_hlib :: hlib where
  "demo_hlib = \<lparr>resolve = (\<lambda>p. p), tenths = (\<lambda>d. ''0.0'')\<rparr>"

definition demo_vars :: hami where
  "demo_vars = \<lparr>H_ROOT = ''/lab'', H_ENV = [], H_OUT = ''/lab/evidence/matrix'', H_CASE = [], H_RESULTS = [], ACTIVE = []\<rparr>"

lemma demo_nodes_loads: "loads (dumps (JDict [(''items'', JList [demo_node W1 ''a'', demo_node W2 ''b''])])) =
    Inr (JDict [(''items'', JList [demo_node W1 ''a'', demo_node W2 ''b''])])"
  by (rule loads_dumps) (simp add: demo_node_def)

lemma demo_base_node: "name = W1 \<or> name = W2 \<Longrightarrow>
    base_nodes (demo_node name u # ns) ids = base_nodes ns (ids @ [JStr (u @ ''0''), JStr (u @ ''1'')])"
  by (intro ext) (auto simp: run_simps registration_def demo_device_def registered_def demo_node_def eqE_def andE_def assertM_def)

lemma demo_base: "gives (demo_os demo_hami) h_base (\<lambda>_. True)"
  unfolding h_base_def h_cmd_def h_run_def
  by (intro gives_intros; simp add: demo_hami_def demo_nodes_loads demo_base_node del: base_nodes.simps(2);
      intro gives_intros; simp add: set_add_def assertM_def; intro gives_intros; simp)

lemma base_nodes_keep [keeps_intros]: "keeps os (untouched I) (base_nodes ns ids)"
  by (induction ns ids rule: base_nodes.induct) (auto intro!: keeps_intros)

lemma base_keeps: "keeps os (untouched I) h_base"
  unfolding h_base_def by (intro keeps_intros)

lemma demo_check: "\<exists>s'. h_check demo_hlib ''01-device-registration'' h_base (demo_os demo_hami) (demo_start demo_vars) = Some (Inr (), s')"
proof -
  let ?os = "demo_os demo_hami" and ?test = "''01-device-registration''"
  obtain t s0 where start: "check_start ?test ?os (demo_start demo_vars) = Some (Inr t, s0)"
    by (auto simp: check_start_def run_simps monotonic_def prim_def demo_os_def)
  obtain d s1 where fn: "h_base ?os s0 = Some (Inr d, s1)" using demo_base by (rule givesE)
  have "ACTIVE (globals s0) = []" using check_start_state(1) [OF start] by (simp add: demo_start_def demo_vars_def)
  then have "ACTIVE (globals s1) = []"
    using keepsD [OF base_keeps [of ?os "\<lambda>g. ACTIVE g = []"] _ fn] by (simp add: confined_def list_all_iff)
  then have "finallyM (h_attempt h_base) h_cleanup ?os s0 = Some (Inr (''PASS'', d), s1)"
    using fn by (simp add: finallyM_def h_attempt_def h_cleanup_def catchM_def bindM_def getG_def returnM_def)
  moreover have "gives ?os (bindM monotonic (\<lambda>t'. h_record demo_hlib (''PASS'', d) (t' - t))) (\<lambda>_. True)"
    unfolding h_record_def h_write_def by (intro gives_intros TrueI)
  then obtain s' where "bindM monotonic (\<lambda>t'. h_record demo_hlib (''PASS'', d) (t' - t)) ?os s1 = Some (Inr (), s')"
    by (rule givesE) simp
  ultimately show ?thesis using start by (simp add: h_check_def bindM_def [of "check_start ?test"] bindM_def [of "finallyM _ _"])
qed

theorem check_verdict_witness:
  "\<exists>s' row. h_check demo_hlib ''01-device-registration'' h_base (demo_os demo_hami) (demo_start demo_vars) = Some (Inr (), s') \<and>
     H_RESULTS (globals s') = [row] \<and> jsub row ''case'' = Inr (JStr ''01-device-registration'')"
proof -
  obtain s' where run: "h_check demo_hlib ''01-device-registration'' h_base (demo_os demo_hami) (demo_start demo_vars) = Some (Inr (), s')"
    using demo_check by blast
  from check_verdict [OF base_keeps run] obtain row where "H_RESULTS (globals s') = H_RESULTS demo_vars @ [row]"
    "jsub row ''case'' = Inr (JStr ''01-device-registration'')" by (auto simp: demo_start_def)
  with run show ?thesis by (auto simp: demo_vars_def)
qed


section \<open>No Pod is forgotten\<close>

definition applied :: "string \<Rightarrow> event \<Rightarrow> bool" where       \<comment> \<open>a Pod of this name was created\<close>
  "applied name e = (case e of
     Ran args (Some d) (Inr q) \<Rightarrow> returncode q = 0 \<and> ''apply'' \<in> set args \<and>
       (case loads d of Inr v \<Rightarrow> jsub v ''kind'' = Inr (JStr ''Pod'') \<and> jpath [Sub ''metadata'', Sub ''name''] v = Inr (JStr name)
        | Inl _ \<Rightarrow> False)
   | _ \<Rightarrow> False)"

definition deleted :: "string \<Rightarrow> event \<Rightarrow> bool" where
  "deleted name e = (case e of
     Ran args i (Inr q) \<Rightarrow> returncode q = 0 \<and> args = [''kubectl'', ''--context'', ''kind-hami-test'', ''-n'', H_NS,
       ''delete'', ''pod'', name, ''--wait=true'', ''--timeout=30s'']
   | _ \<Rightarrow> False)"

definition tracked :: "('w, hami) st \<Rightarrow> bool" where
  "tracked s \<longleftrightarrow> (\<forall>name. name \<notin> set (ACTIVE (globals s)) \<longrightarrow> followed (applied name) (deleted name) (trace s))"

lemma applied_simps [simp]:
  "\<not> applied n (Ran args None r)" "\<not> applied n (Ran args d (Inl x))" "\<not> applied n (Clock c)" "\<not> applied n (Slept ms)"
  "\<not> applied n (Wrote p t)" "\<not> applied n (MadeDir p)" "\<not> applied n (Printed t)" "\<not> applied n (ReadFile p c')"
  "returncode q \<noteq> 0 \<Longrightarrow> \<not> applied n (Ran args d (Inr q))"
  by (simp_all add: applied_def split: option.splits)

lemma tracked_snoc:
  assumes "tracked s" and "trace s' = trace s @ [e]"
    and "\<And>n. n \<notin> set (ACTIVE (globals s')) \<Longrightarrow> \<not> applied n e \<and> (n \<notin> set (ACTIVE (globals s)) \<or> deleted n e)"
  shows "tracked s'"
  using assms unfolding tracked_def by (auto intro!: followed_snoc)

lemma tracked_prim: "(\<And>r n. \<not> applied n (ev r)) \<Longrightarrow> keeps os tracked (prim ev f)"
  by (rule keepsI) (auto elim!: prim_SomeE tracked_snoc)

lemma tracked_prims [keeps_intros]:
  "keeps os tracked (run_process args None tmo)" "keeps os tracked monotonic" "keeps os tracked (sleep ms)"
  "keeps os tracked (write_text p t)" "keeps os tracked (mkdir p)" "keeps os tracked (py_print t)" "keeps os tracked (read_text p)"
  by (auto simp: prim_defs intro!: tracked_prim)

lemma tracked_modG [keeps_intros]: "(\<And>g. ACTIVE (h g) = ACTIVE g) \<Longrightarrow> keeps os tracked (modG h)"
  by (rule keepsI) (auto simp: run_simps tracked_def)

lemma tracked_base [keeps_intros]:
  "keeps os tracked (checked check fail r)" "keeps os tracked (h_run args None check)" "keeps os tracked (h_cmd args None)"
  "keeps os tracked (h_k args)" "keeps os tracked (h_obj name)" "keeps os tracked (h_write name t)"
  "keeps os tracked (h_write_case name t)" "keeps os tracked (h_events name)" "keeps os tracked (h_save_log name c)"
  unfolding h_defs checked_def by (intro keeps_intros)+

lemma tracked_waits [keeps_intros]:
  "keeps os tracked (h_save name)" "keeps os tracked (h_ready name)" "keeps os tracked (h_pending name)"
  unfolding h_save_def h_ready_def h_pending_def by (intro keeps_intros)+

text \<open>A command is one event; it returns exactly when it succeeded.\<close>

lemma h_cmd_event:
  assumes "h_cmd args data os s = Some (r, s')"
  shows "\<exists>p. trace s' = trace s @ [Ran args data p] \<and> globals s' = globals s \<and>
    ((\<exists>t. r = Inr t) \<longleftrightarrow> (\<exists>q. p = Inr q \<and> returncode q = 0))"
  using assms unfolding h_cmd_def h_run_def run_process_def checked_def
  by (auto simp: run_simps prim_def split: prod.splits sum.splits if_splits)

lemma tracked_create [keeps_intros]:
  assumes "wf_json doc" and "jpath [Sub ''metadata'', Sub ''name''] doc = Inr (JStr name)"
  shows "keeps os tracked (h_create args name doc)"
proof (rule keepsI)
  fix s r s'
  assume s: "tracked s" and "h_create args name doc os s = Some (r, s')"
  then have run: "bindM (h_cmd args (Some (dumps doc))) (\<lambda>_. h_track name) os s = Some (r, s')"
    by (simp add: h_create_def thenM_def)
  have only: "applied n (Ran args (Some (dumps doc)) p) \<Longrightarrow> n = name" for n p
    using assms by (auto simp: applied_def split: sum.splits)
  from run show "tracked s'"
  proof (cases rule: bindM_SomeE)
    case (1 e)
    obtain p where p: "trace s' = trace s @ [Ran args (Some (dumps doc)) p]" "globals s' = globals s" "\<not> (\<exists>q. p = Inr q \<and> returncode q = 0)"
      using h_cmd_event [OF 1(1)] by auto
    then have "\<not> applied n (Ran args (Some (dumps doc)) p)" for n by (cases p) auto
    then show ?thesis using s p(1,2) by (auto elim!: tracked_snoc)
  next
    case (2 t s1)
    obtain p where "trace s1 = trace s @ [Ran args (Some (dumps doc)) p]" "globals s1 = globals s"
      using h_cmd_event [OF 2(1)] by auto
    moreover have "trace s' = trace s1" "ACTIVE (globals s') = ACTIVE (globals s1) @ [name]"
      using 2(2) by (auto simp: h_track_def run_simps)
    ultimately show ?thesis using s only by (auto elim!: tracked_snoc)
  qed
qed

lemma tracked_delete [keeps_intros]: "keeps os tracked (h_delete name)"
proof (rule keepsI)
  fix s r s'
  assume s: "tracked s" and "h_delete name os s = Some (r, s')"
  then have run: "bindM (h_k [''delete'', ''pod'', name, ''--wait=true'', ''--timeout=30s''])
      (\<lambda>_. bindM getG (\<lambda>g. if name \<in> set (ACTIVE g) then modG (\<lambda>g. g\<lparr>ACTIVE := remove1 name (ACTIVE g)\<rparr>)
         else raiseM (ValueError ''list.remove(x): x not in list''))) os s = Some (r, s')"
    by (simp add: h_delete_def thenM_def)
  let ?args = "[''kubectl'', ''--context'', ''kind-hami-test'', ''-n'', H_NS, ''delete'', ''pod'', name, ''--wait=true'', ''--timeout=30s'']"
  from run show "tracked s'"
  proof (cases rule: bindM_SomeE)
    case (1 e)
    then show ?thesis using keepsD [OF tracked_base(4) s 1(1)] by simp
  next
    case (2 t s1)
    obtain p where p: "trace s1 = trace s @ [Ran ?args None p]" "globals s1 = globals s" "\<exists>q. p = Inr q \<and> returncode q = 0"
      using h_cmd_event [of ?args None os s "Inr t" s1] 2(1) by (auto simp: h_k_def)
    then have "deleted name (Ran ?args None p)" by (auto simp: deleted_def)
    moreover have "trace s' = trace s1" using 2(2) by (auto simp: run_simps split: if_splits)
    moreover have "n \<notin> set (ACTIVE (globals s')) \<Longrightarrow> n \<notin> set (ACTIVE (globals s)) \<or> n = name" for n
      using 2(2) p(2) by (cases "n = name") (auto simp: run_simps split: if_splits)
    ultimately show ?thesis using p(1) by (auto intro!: tracked_snoc [OF s])
  qed
qed

lemma manifest_wf: "distinct (map fst (p_ann a)) \<Longrightarrow> wf_json (h_manifest name a)"
  by (auto simp: h_manifest_def h_container_def h_limits_def comp_def case_prod_unfold split: option.splits)

lemma tracked_pod [keeps_intros]:
  assumes "distinct (map fst (p_ann a))"
  shows "keeps os tracked (h_pod name a)"
proof -
  have "jpath [Sub ''metadata'', Sub ''name''] (h_manifest name a) = Inr (JStr name)" by (simp add: h_manifest_def)
  then show ?thesis unfolding h_pod_def by (intro keeps_intros manifest_wf assms)
qed

lemma tracked_start [keeps_intros]:
  assumes "distinct (map fst (p_ann a))"
  shows "keeps os tracked (h_start name a)" "keeps os tracked (h_refused name a)"
  unfolding h_start_def h_refused_def by (intro keeps_intros assms)+

lemma tracked_rollout [keeps_intros]: "keeps os tracked (h_rollout resource)"
  unfolding h_rollout_def by (intro keeps_intros)

lemma tracked_base_nodes [keeps_intros]: "keeps os tracked (base_nodes ns ids)"
  by (induction ns ids rule: base_nodes.induct) (auto intro!: keeps_intros)

lemma tests_tracked:
  "list_all (\<lambda>(_, fn). keeps os tracked fn) hami_tests" "list_all (\<lambda>(_, fn). keeps os tracked fn) extra_tests"
  unfolding hami_tests_def extra_tests_def list.pred_inject prod.case hami_defs Let_def
  by (intro conjI keeps_intros TrueI; simp add: pod0_def on_W1_def on_U0_def plain_pod_def)+

lemma tracked_check:
  assumes "keeps os tracked fn"
  shows "keeps os tracked (h_check L test fn)"
  unfolding h_check_def check_start_def h_attempt_def h_cleanup_def cleanup_one_def h_record_def
  by (intro keeps_intros assms) simp_all

lemma tracked_checks: "list_all (\<lambda>(_, fn). keeps os tracked fn) tests \<Longrightarrow> keeps os tracked (h_checks L tests)"
  unfolding h_checks_def by (auto simp: list_all_iff intro!: keeps_forM tracked_check)

text \<open>
  C39: no Pod is forgotten. Throughout the main program and the extra tests, whatever fails on the way, the list \<^verbatim>\<open>active\<close> has every Pod that a
  successful \<^verbatim>\<open>apply\<close> created and no later command deleted; so the next clean-up tries again what an earlier one could not delete.
\<close>

theorem pods_tracked: "keeps os tracked (hami_main L) \<and> keeps os tracked (h_checks L extra_tests)"
  unfolding hami_main_def by (intro conjI keeps_intros tracked_checks tests_tracked)

end
