(* ===== verification/LifecycleRun.thy ===== *)
theory LifecycleRun
  imports Kubectl Invariant Cleanup PyNum Demo
begin

text \<open>
  \<^verbatim>\<open>pod-lifecycle-source/run.py\<close>, which follows one Pod through readiness, restarts, the loss of its sandbox and its replacement, and
  \<^verbatim>\<open>failure-paths.py\<close>, which imports it. The module variables are the environment it sets and \<^verbatim>\<open>timeline\<close>, the rows of identities it has recorded. The
  text of a function object in the message of a timeout is given as \<^verbatim>\<open><function>\<close>, \<^verbatim>\<open>time.time()\<close> is the wall clock in seconds and fractions.
\<close>

section \<open>The harness\<close>

record life =
  LC_ENV :: "(string \<times> string) list"
  TIMELINE :: "json list"

type_synonym ('w, 'a) lprog = "('w, life, 'a) prog"

definition LC_OUT :: string where
  "LC_OUT = ''pod-lifecycle-source/evidence''"

definition LC_NS :: string where
  "LC_NS = ''lifecycle-lab''"

definition LC_NODE :: string where
  "LC_NODE = ''pod-lifecycle-worker''"

definition lc_import :: "('w, unit) lprog" where
  "lc_import = thenM (mkdir LC_OUT)
     (modG (\<lambda>_. \<lparr>LC_ENV = [(''KUBECONFIG'', ''tmp/pod-lifecycle/kubeconfig'')], TIMELINE = []\<rparr>))"

text \<open>\<^verbatim>\<open>subprocess.check_output\<close> and \<^verbatim>\<open>subprocess.run(...).returncode == 0\<close>.\<close>

definition lc_command :: "string list \<Rightarrow> ('w, string) lprog" where
  "lc_command args = bindM (bindM (run_process args None None) (checked True (\<lambda>r. CalledProcessError (returncode r))))
     (\<lambda>r. returnM (stdout r))"

definition lc_succeeds :: "string list \<Rightarrow> ('w, bool) lprog" where
  "lc_succeeds args = bindM (run_process args None None) (\<lambda>r. returnM (returncode r = 0))"

definition lc_kubectl :: "string list \<Rightarrow> ('w, string) lprog" where
  "lc_kubectl args = lc_command (''kubectl'' # ''-n'' # LC_NS # args)"

definition lc_get :: "string \<Rightarrow> string option \<Rightarrow> ('w, json) lprog" where
  "lc_get resource name = bindM (lc_kubectl ([''get'', resource]
       @ (case name of None \<Rightarrow> [] | Some n \<Rightarrow> if n = [] then [] else [n]) @ [''-o'', ''json'']))
     py_loads"

abbreviation lc_pod :: "string \<Rightarrow> ('w, json) lprog" where
  "lc_pod name \<equiv> lc_get ''pod'' (Some name)"

definition lc_save :: "string \<Rightarrow> json \<Rightarrow> ('w, unit) lprog" where
  "lc_save name data = write_text (LC_OUT @ ''/'' @ name @ ''.json'') (dumps_raw_indent data @ [CHR 0x0A])"

definition lc_expired :: "int \<Rightarrow> exn" where
  "lc_expired timeout = TimeoutError ''Condition did not become true: <function>''"

definition lc_wait :: "('a \<Rightarrow> bool) \<Rightarrow> ('w, 'g, 'a) prog \<Rightarrow> int \<Rightarrow> ('w, 'g, 'a) prog" where
  "lc_wait ok fn timeout = bindM monotonic (\<lambda>t0. loopM (bindM monotonic (\<lambda>t.
     if t < t0 + 1000 * timeout
     then bindM fn (\<lambda>r. if ok r then returnM (Some r) else thenM (sleep 500) (returnM None))
     else raiseM (lc_expired timeout))))"

definition lc_until :: "('w, bool) lprog \<Rightarrow> ('w, unit) lprog" where
  "lc_until fn = ign (lc_wait (\<lambda>b. b) fn 240)"

definition bothM :: "('w, bool) lprog \<Rightarrow> ('w, bool) lprog \<Rightarrow> ('w, bool) lprog" where   \<comment> \<open>\<^verbatim>\<open>a and b\<close>\<close>
  "bothM a b = bindM a (\<lambda>x. if x then b else returnM False)"

definition lc_ready :: "json \<Rightarrow> exn + bool" where
  "lc_ready p = bindE (bindE (jpath [Sub ''status'', Get ''conditions'' (JList [])] p) jiter)
     (anyE (\<lambda>c. andE (eqE (jsub c ''type'') (JStr ''Ready'')) (eqE (jsub c ''status'') (JStr ''True''))))"

definition lc_is_ready :: "string \<Rightarrow> ('w, bool) lprog" where       \<comment> \<open>\<^verbatim>\<open>ready(get("pod", name))\<close>\<close>
  "lc_is_ready name = bindM (lc_pod name) (\<lambda>p. liftE (lc_ready p))"

definition lc_counts :: "json \<Rightarrow> exn + bool" where
  "lc_counts p = andE (eqE (jpath [Sub ''metadata'', Get ''labels'' emptyD, get0 ''app''] p) (JStr ''lifecycle''))
     (andE (bindE (jpath [Sub ''metadata'', get0 ''deletionTimestamp''] p) (\<lambda>v. Inr (\<not> truth v))) (lc_ready p))"

definition lc_active_pod :: "('w, json) lprog" where
  "lc_active_pod =
    (bindM (lc_get ''pods'' None) (\<lambda>doc.
     bindM (liftE (bindE (bindE (jsub doc ''items'') jiter) (filterE lc_counts))) (\<lambda>pods.
     returnM (case pods of [p] \<Rightarrow> p | _ \<Rightarrow> JNull))))"

definition lc_app_status :: "json \<Rightarrow> exn + json" where
  "lc_app_status p = bindE (bindE (jpath [Sub ''status'', Sub ''containerStatuses''] p) jiter)
     (nextE (\<lambda>c. eqE (jsub c ''name'') (JStr ''app'')))"

text \<open>\<^verbatim>\<open>app_status(p)["containerID"].split("://", 1)[1]\<close>.\<close>

definition lc_container_id :: "json \<Rightarrow> exn + string" where
  "lc_container_id p = bindE (bindE (lc_app_status p) (\<lambda>c. jsub c ''containerID'')) (\<lambda>v. bindE (str_method ''split'' v)
     (\<lambda>s. case after_sep ''://'' s of None \<Rightarrow> Inl (IndexError ''list index out of range'') | Some t \<Rightarrow> Inr t))"

definition lc_cri :: "string list \<Rightarrow> ('w, json) lprog" where
  "lc_cri args = bindM (lc_command (''docker'' # ''exec'' # LC_NODE # ''crictl'' # args)) py_loads"

definition lc_items :: "string \<Rightarrow> string list \<Rightarrow> ('w, json list) lprog" where   \<comment> \<open>\<^verbatim>\<open>cri(...)[key]\<close>, iterated over\<close>
  "lc_items key args = bindM (lc_cri args) (\<lambda>doc. liftE (bindE (jsub doc key) jiter))"

definition ready_sandbox :: "json \<Rightarrow> json \<Rightarrow> exn + bool" where
  "ready_sandbox uid x = andE (eqE (jpath [Sub ''metadata'', Sub ''uid''] x) uid) (eqE (jsub x ''state'') (JStr ''SANDBOX_READY''))"

definition lc_sandbox :: "json \<Rightarrow> ('w, json) lprog" where
  "lc_sandbox p = bindM (lc_items ''items'' [''pods'', ''-o'', ''json''])
     (\<lambda>items. liftE (nextE (\<lambda>x. bindE (jpath [Sub ''metadata'', Sub ''uid''] p) (\<lambda>uid. ready_sandbox uid x)) items))"


section \<open>Snapshots\<close>

definition lc_shell :: "string \<Rightarrow> string \<Rightarrow> string" where
  "lc_shell pid uid = (''set -eu'' @ [CHR 0x0A] @ ''printf '' @ [CHR 0x27] @ ''namespaces'' @ [CHR 0x5C] @ ''n'' @ [CHR 0x27] @ [CHR 0x0A] @ ''ls -l /proc/'') @ pid @ (''/ns/'' @ [CHR 0x0A] @ ''printf '' @ [CHR 0x27] @ ''cgroup'' @ [CHR 0x5C] @ ''n'' @ [CHR 0x27] @ [CHR 0x0A] @ ''cat /proc/'') @ pid
     @ (''/cgroup'' @ [CHR 0x0A] @ ''cg=$(cut -d: -f3 /proc/'') @ pid
     @ (''/cgroup)'' @ [CHR 0x0A] @ ''for f in cpu.max cpu.weight memory.max pids.max; do'' @ [CHR 0x0A] @ ''  printf '' @ [CHR 0x27] @ ''%s='' @ [CHR 0x27] @ '' \"$f\"'' @ [CHR 0x0A] @ ''  cat \"/sys/fs/cgroup$cg/$f\"'' @ [CHR 0x0A] @ ''done'' @ [CHR 0x0A] @ ''printf '' @ [CHR 0x27] @ ''network'' @ [CHR 0x5C] @ ''n'' @ [CHR 0x27] @ [CHR 0x0A] @ ''nsenter -t '')
     @ pid @ ('' -n ip -j address'' @ [CHR 0x0A] @ ''printf '' @ [CHR 0x27] @ ''pod-directory'' @ [CHR 0x5C] @ ''n'' @ [CHR 0x27] @ [CHR 0x0A] @ ''find /var/lib/kubelet/pods/'') @ uid
     @ ('' -maxdepth 3 -type d'' @ [CHR 0x0A] @ ''printf '' @ [CHR 0x27] @ ''mounts'' @ [CHR 0x5C] @ ''n'' @ [CHR 0x27] @ [CHR 0x0A] @ ''cat /proc/'') @ pid @ (''/mountinfo'' @ [CHR 0x0A])"

definition init_entry :: "json \<Rightarrow> exn + json" where
  "init_entry c = bindE (jsub c ''name'') (\<lambda>n. bindE (jget c ''containerID'' JNull) (\<lambda>i. bindE (jsub c ''restartCount'') (\<lambda>r.
     Inr (JDict [(''name'', n), (''containerID'', i), (''restartCount'', r)]))))"

text \<open>The row that is recorded, with the sandbox and the container found on the node.\<close>

definition lc_row :: "string \<Rightarrow> string \<Rightarrow> json \<Rightarrow> json \<Rightarrow> string \<Rightarrow> string \<Rightarrow> json \<Rightarrow> exn + json" where
  "lc_row stage now p uid sid cid pid =
     bindE (jpath [Sub ''metadata'', Sub ''name''] p) (\<lambda>name.
     bindE (bindE (lc_app_status p) (\<lambda>c. jsub c ''restartCount'')) (\<lambda>restarts.
     bindE (jpath [Sub ''status'', get0 ''podIP''] p) (\<lambda>ip.
     bindE (bindE (bindE (jpath [Sub ''status'', Get ''initContainerStatuses'' (JList [])] p) jiter) (mapE init_entry)) (\<lambda>inits.
       Inr (JDict [(''stage'', JStr stage), (''time'', JFloat now), (''pod'', name), (''uid'', uid), (''sandbox'', JStr sid),
         (''container'', JStr cid), (''restartCount'', restarts), (''podIP'', ip), (''pid'', pid), (''initContainers'', JList inits)])))))"

definition lc_append :: "json \<Rightarrow> ('w, unit) lprog" where             \<comment> \<open>\<^verbatim>\<open>timeline.append(row)\<close>\<close>
  "lc_append row = modG (\<lambda>g. g\<lparr>TIMELINE := TIMELINE g @ [row]\<rparr>)"

definition lc_snapshot :: "string \<Rightarrow> json \<Rightarrow> ('w, json) lprog" where
  "lc_snapshot stage p =
    (bindM (liftE (jpath [Sub ''metadata'', Sub ''uid''] p)) (\<lambda>uid.
     bindM (lc_sandbox p) (\<lambda>box.
     bindM (liftE (bindE (jsub box ''id'') jstr)) (\<lambda>sid.
     bindM (liftE (lc_container_id p)) (\<lambda>cid.
     bindM (lc_cri [''inspect'', cid]) (\<lambda>container.
     bindM (lc_cri [''inspectp'', sid]) (\<lambda>pod_sandbox.
     thenM (lc_save (stage @ ''-pod'') p) (
     thenM (lc_save (stage @ ''-container'') container) (
     thenM (lc_save (stage @ ''-sandbox'') pod_sandbox) (
     bindM (lc_get ''endpointslices'' None) (\<lambda>ep.
     thenM (lc_save (stage @ ''-endpoints'') ep) (
     bindM (lc_get ''pvc'' None) (\<lambda>pvc.
     thenM (lc_save (stage @ ''-pvc'') pvc) (
     bindM (lc_get ''pv'' None) (\<lambda>pv.
     thenM (lc_save (stage @ ''-pv'') pv) (
     bindM (liftE (jpath [Sub ''info'', Sub ''pid''] container)) (\<lambda>pid.
     bindM (lc_command [''docker'', ''exec'', LC_NODE, ''sh'', ''-c'',
           lc_shell (py_str pid) (py_str uid)]) (\<lambda>node.
     thenM (write_text (LC_OUT @ ''/'' @ stage @ ''-node.txt'') node) (
     bindM (wallclock ''%s.%f'') (\<lambda>now.
     bindM (liftE (lc_row stage now p uid sid cid pid)) (\<lambda>row.
     thenM (lc_append row) (
     bindM getG (\<lambda>g.
     thenM (lc_save ''timeline'' (JList (TIMELINE g))) (
     returnM row))))))))))))))))))))))))"

definition lc_exec :: "json \<Rightarrow> string list \<Rightarrow> ('w, string) lprog" where
  "lc_exec p args =
    (bindM (liftE (bindE (jpath [Sub ''metadata'', Sub ''name''] p) jstr)) (\<lambda>name.
     lc_kubectl ([''exec'', name, ''-c'', ''app'', ''--''] @ args)))"

definition lc_http_probe :: string where
  "lc_http_probe = (''import urllib.request; urllib.request.urlopen('' @ [CHR 0x27] @ ''http://127.0.0.1:8000/'' @ [CHR 0x27] @ '', timeout=2)'')"

definition lc_wait_http :: "string \<Rightarrow> ('w, unit) lprog" where
  "lc_wait_http name = lc_until (lc_succeeds [''kubectl'', ''-n'', LC_NS, ''exec'', name, ''-c'',
      ''app'', ''--'', ''python'', ''-c'', lc_http_probe])"

definition endpoints_of :: "json \<Rightarrow> json \<Rightarrow> exn + json list" where
  "endpoints_of uid sl = bindE (bindE (jget sl ''endpoints'' (JList [])) jiter)
     (filterE (\<lambda>e. eqE (jpath [Get ''targetRef'' emptyD, get0 ''uid''] e) uid))"

definition lc_endpoint_ready :: "json \<Rightarrow> bool \<Rightarrow> ('w, bool) lprog" where
  "lc_endpoint_ready uid expected =
    (bindM (lc_get ''endpointslices'' None) (\<lambda>doc.
     bindM (liftE (bindE (bindE (jsub doc ''items'') jiter) (\<lambda>ss. bindE (mapE (endpoints_of uid) ss) (\<lambda>xss. Inr (concat xss))))) (\<lambda>eps.
     liftE (andE (Inr (eps \<noteq> [])) (everyE (\<lambda>e. eqE (jpath [Sub ''conditions'', get0 ''ready''] e) (JBool expected)) eps)))))"

definition trace_lines :: "string \<Rightarrow> string" where
  "trace_lines logs = join [CHR 0x0A] (filter (\<lambda>line. contains line ''LIFECYCLE '') (splitlines logs)) @ [CHR 0x0A]"

definition lc_collect_logs :: "('w, unit) lprog" where
  "lc_collect_logs =
    (thenM (forM [''pod-lifecycle-control-plane'', LC_NODE] (\<lambda>node.
         (bindM (lc_command [''docker'', ''exec'', node, ''journalctl'', ''-u'', ''kubelet'',
             ''--no-pager'', ''-o'', ''short-iso-precise'']) (\<lambda>logs.
          write_text (LC_OUT @ ''/'' @ node @ ''-trace.log'') (trace_lines logs))))) (
     thenM (forM [''kube-apiserver'', ''kube-scheduler'', ''kube-controller-manager''] (\<lambda>part.
         (bindM (lc_command [''kubectl'', ''-n'', ''kube-system'', ''logs'',
             part @ ''-pod-lifecycle-control-plane'', ''--timestamps'']) (\<lambda>logs.
          write_text (LC_OUT @ ''/'' @ part @ ''-trace.log'') (trace_lines logs))))) (
     bindM (lc_get ''events'' None) (\<lambda>ev.
     lc_save ''events'' ev))))"


section \<open>The life of a Pod\<close>

text \<open>\<^verbatim>\<open>a[k] == b[k]\<close> of two rows.\<close>

definition same_at :: "acc list \<Rightarrow> json \<Rightarrow> json \<Rightarrow> exn + bool" where
  "same_at path a b = bindE (jpath path a) (\<lambda>x. bindE (jpath path b) (\<lambda>y. Inr (py_eq x y)))"

definition lc_assert :: "exn + bool \<Rightarrow> ('w, unit) lprog" where
  "lc_assert r = bindM (liftE r) (assertM [])"

definition lc_create :: "('w, json \<times> string \<times> json \<times> json) lprog" where
  "lc_create =
    (thenM (unlink (LC_OUT @ ''/result.json'')) (
     thenM (lc_kubectl [''apply'', ''-f'', ''pod-lifecycle-source/workload.yaml'']) (
     bindM (lc_wait truth lc_active_pod 240) (\<lambda>p.
     bindM (liftE (bindE (jpath [Sub ''metadata'', Sub ''name''] p) jstr)) (\<lambda>name.
     bindM (liftE (jpath [Sub ''metadata'', Sub ''uid''] p)) (\<lambda>uid.
     thenM (lc_until (lc_endpoint_ready uid True)) (
     bindM (lc_snapshot ''01-created'' p) (\<lambda>initial.
     thenM (lc_exec p [''sh'', ''-c'',
           ''echo retained > /work/marker; echo retained > /memory/marker; echo persistent > /data/user-marker'']) (
     returnM (p, name, uid, initial))))))))))"

definition lc_unready :: "json \<Rightarrow> string \<Rightarrow> json \<Rightarrow> json \<Rightarrow> ('w, json) lprog" where
  "lc_unready p name uid initial =
    (thenM (lc_exec p [''rm'', ''/work/ready'']) (
     thenM (lc_until (bindM (lc_is_ready name) (\<lambda>b. returnM (\<not> b)))) (
     thenM (lc_until (lc_endpoint_ready uid False)) (
     bindM (lc_pod name) (\<lambda>q.
     bindM (lc_snapshot ''02-unready'' q) (\<lambda>unready.
     thenM (lc_assert (same_at [Sub ''container''] unready initial)) (
     thenM (lc_exec p [''touch'', ''/work/ready'']) (
     thenM (lc_until (lc_is_ready name)) (
     returnM unready)))))))))"

definition other_container :: "string \<Rightarrow> json \<Rightarrow> ('w, bool) lprog" where    \<comment> \<open>the container ID is not that of the row\<close>
  "other_container name row =
    (bindM (lc_pod name) (\<lambda>q.
     bindM (liftE (lc_container_id q)) (\<lambda>cid.
     liftE (notE (eqE (jsub row ''container'') (JStr cid))))))"

definition more_restarts :: "string \<Rightarrow> json \<Rightarrow> ('w, bool) lprog" where
  "more_restarts name row =
    (bindM (lc_pod name) (\<lambda>q.
     liftE (bindE (bindE (lc_app_status q) (\<lambda>c. jsub c ''restartCount'')) (\<lambda>n. bindE (jsub row ''restartCount'') (jgt n)))))"

definition lc_snapshot_of :: "string \<Rightarrow> string \<Rightarrow> ('w, json) lprog" where     \<comment> \<open>after \<^verbatim>\<open>wait_http\<close>\<close>
  "lc_snapshot_of stage name = thenM (lc_wait_http name) (bindM (lc_pod name) (lc_snapshot stage))"

definition lc_crash :: "string \<Rightarrow> json \<Rightarrow> json \<Rightarrow> json \<Rightarrow> ('w, json) lprog" where
  "lc_crash name uid initial unready =
    (bindM (liftE (jsub unready ''pid'')) (\<lambda>pid.
     thenM (lc_command [''docker'', ''exec'', LC_NODE, ''kill'', ''-KILL'', py_str pid]) (
     thenM (lc_until (bothM (lc_is_ready name) (other_container name initial))) (
     bindM (lc_snapshot_of ''03-crash-restarted'' name) (\<lambda>crashed.
     thenM (lc_assert (andE (eqE (jsub crashed ''uid'') uid) (same_at [Sub ''sandbox''] crashed initial))) (
     thenM (lc_assert (bindE (jsub crashed ''restartCount'') (\<lambda>n. bindE (jsub initial ''restartCount'') (jgt n)))) (
     thenM (lc_assert (same_at [Sub ''initContainers''] crashed initial)) (
     returnM crashed))))))))"

definition lc_liveness :: "json \<Rightarrow> string \<Rightarrow> json \<Rightarrow> json \<Rightarrow> ('w, json) lprog" where
  "lc_liveness p name initial crashed =
    (thenM (lc_exec p [''rm'', ''/work/live'']) (
     thenM (lc_until (bothM (lc_is_ready name) (more_restarts name crashed))) (
     bindM (lc_snapshot_of ''04-liveness-restarted'' name) (\<lambda>probed.
     thenM (lc_assert (same_at [Sub ''sandbox''] probed initial)) (
     bindM (lc_exec p [''cat'', ''/work/marker'', ''/memory/marker'', ''/data/user-marker'']) (\<lambda>t.
     thenM (assertM [] (t = (''retained'' @ [CHR 0x0A] @ ''retained'' @ [CHR 0x0A] @ ''persistent'' @ [CHR 0x0A]))) (
     returnM probed)))))))"

definition init_id :: "int \<Rightarrow> acc list" where
  "init_id i = [Sub ''initContainers'', Idx i, Sub ''containerID'']"

definition lc_restart_all :: "json \<Rightarrow> string \<Rightarrow> json \<Rightarrow> json \<Rightarrow> json \<Rightarrow> ('w, json) lprog" where
  "lc_restart_all p name uid initial probed =
    (thenM (lc_exec p [''sh'', ''-c'', ''kill -USR1 1'']) (
     thenM (lc_until (bothM (lc_is_ready name) (other_container name probed))) (
     bindM (lc_snapshot_of ''04b-all-containers-restarted'' name) (\<lambda>all_restarted.
     thenM (lc_assert (andE (eqE (jsub all_restarted ''uid'') uid) (same_at [Sub ''sandbox''] all_restarted initial))) (
     thenM (lc_assert (notE (same_at (init_id 0) all_restarted probed))) (
     thenM (lc_assert (notE (same_at (init_id 1) all_restarted probed))) (
     bindM (lc_exec p [''cat'', ''/work/marker'', ''/memory/marker'']) (\<lambda>t.
     thenM (assertM [] (t = (''retained'' @ [CHR 0x0A] @ ''retained'' @ [CHR 0x0A]))) (
     returnM all_restarted)))))))))"

definition sandbox_recovered :: "string \<Rightarrow> json \<Rightarrow> json \<Rightarrow> ('w, bool) lprog" where
  "sandbox_recovered name uid row =
    (bindM (lc_pod name) (\<lambda>current.
     bindM (lc_items ''items'' [''pods'', ''-o'', ''json'']) (\<lambda>items.
     liftE (andE (lc_ready current)
         (andE (anyE (\<lambda>x. andE (ready_sandbox uid x) (notE (bindE (jsub x ''id'') (\<lambda>i. eqE (jsub row ''sandbox'') i)))) items)
           (bindE (lc_container_id current) (\<lambda>cid. notE (eqE (jsub row ''container'') (JStr cid)))))))))"

definition lc_lose_sandbox :: "json \<Rightarrow> string \<Rightarrow> json \<Rightarrow> json \<Rightarrow> json \<Rightarrow> ('w, json) lprog" where
  "lc_lose_sandbox p name uid probed all_restarted =
    (bindM (liftE (bindE (jsub all_restarted ''sandbox'') jstr)) (\<lambda>sid.
     thenM (lc_command [''docker'', ''exec'', LC_NODE, ''crictl'', ''stopp'', sid]) (
     thenM (lc_until (sandbox_recovered name uid all_restarted)) (
     bindM (lc_snapshot_of ''05-sandbox-recreated'' name) (\<lambda>recovered.
     thenM (lc_assert (andE (eqE (jsub recovered ''uid'') uid) (notE (same_at [Sub ''sandbox''] recovered probed)))) (
     bindM (lc_exec p [''cat'', ''/work/marker'', ''/memory/marker'']) (\<lambda>t.
     thenM (assertM [] (t = (''retained'' @ [CHR 0x0A] @ ''retained'' @ [CHR 0x0A]))) (
     returnM recovered))))))))"

definition pod_phase_in :: "string \<Rightarrow> string list \<Rightarrow> ('w, bool) lprog" where
  "pod_phase_in name phases = bindM (lc_pod name)
     (\<lambda>q. liftE (bindE (jpath [Sub ''status'', get0 ''phase''] q) (\<lambda>ph. Inr (list_ex (\<lambda>x. py_eq ph (JStr x)) phases))))"

definition pod_dir_gone :: "json \<Rightarrow> ('w, bool) lprog" where
  "pod_dir_gone uid = lc_succeeds [''docker'', ''exec'', LC_NODE, ''test'', ''!'', ''-d'',
      ''/var/lib/kubelet/pods/'' @ py_str uid]"

definition hold_patch :: string where
  "hold_patch = (''{\"metadata\":{\"finalizers\":[\"lab.example.com/observe\"]}}'')"

definition free_patch :: string where
  "free_patch = (''{\"metadata\":{\"finalizers\":null}}'')"

definition lc_replace :: "string \<Rightarrow> json \<Rightarrow> ('w, json) lprog" where
  "lc_replace name uid =
    (thenM (lc_kubectl [''patch'', ''pod'', name, ''--type=merge'', ''-p'', hold_patch]) (
     thenM (lc_kubectl [''delete'', ''pod'', name, ''--wait=false'']) (
     thenM (lc_wait truth (bindM (lc_pod name) (\<lambda>q. liftE (jpath [Sub ''metadata'', get0 ''deletionTimestamp''] q))) 240) (
     thenM (lc_until (lc_endpoint_ready uid False)) (
     thenM (bindM (lc_pod name) (lc_save ''06-deleting-pod'')) (
     thenM (bindM (lc_get ''endpointslices'' None) (lc_save ''06-deleting-endpoints'')) (
     bindM (lc_wait truth lc_active_pod 240) (\<lambda>new_pod.
     thenM (lc_assert (notE (eqE (jpath [Sub ''metadata'', Sub ''uid''] new_pod) uid))) (
     bindM (lc_snapshot ''07-controller-recreated'' new_pod) (\<lambda>new.
     bindM (lc_exec new_pod [''cat'', ''/data/user-marker'']) (\<lambda>t.
     thenM (assertM [] (t = (''persistent'' @ [CHR 0x0A]))) (
     bindM (lc_exec new_pod [''sh'', ''-c'',
           ''test ! -e /work/marker && test ! -e /memory/marker && echo cleared'']) (\<lambda>c.
     thenM (assertM [] (strip c = ''cleared'')) (
     thenM (lc_until (pod_phase_in name [''Succeeded'', ''Failed''])) (
     thenM (bindM (lc_pod name) (lc_save ''08-finalizer-held-pod'')) (
     thenM (lc_kubectl [''patch'', ''pod'', name, ''--type=merge'', ''-p'', free_patch]) (
     thenM (lc_kubectl [''wait'', ''--for=delete'', ''pod/'' @ name, ''--timeout=180s'']) (
     thenM (lc_until (pod_dir_gone uid)) (
     returnM new)))))))))))))))))))"

definition lc_terminal :: "string \<Rightarrow> ('w, unit) lprog" where
  "lc_terminal name =
    (bindM (lc_pod name) (\<lambda>terminal.
     thenM (lc_assert (eqE (jpath [Sub ''status'', Sub ''containerStatuses'', Idx 0, Sub ''restartCount''] terminal) (JInt 0))) (
     lc_save (''10-'' @ name) terminal)))"

definition lc_checks :: json where
  "lc_checks = (JList
    [JStr ''readiness does not restart'',
     JStr ''crash restart keeps sandbox'',
     JStr ''liveness restart keeps volumes'',
     JStr ''sandbox recreation keeps UID and emptyDir'',
     JStr ''controller replacement changes UID'',
     JStr ''replacement clears emptyDir and retains PVC data'',
     JStr ''finalizer holds API object after process exit'',
     JStr ''Pod directories removed'',
     JStr ''referenced objects survive Pod deletion''])"

definition lc_finish :: "json \<Rightarrow> json \<Rightarrow> ('w, unit) lprog" where
  "lc_finish uid new =
    (thenM (lc_kubectl [''scale'', ''deployment'', ''app'', ''--replicas=0'']) (
     thenM (lc_kubectl [''wait'', ''--for=delete'', ''pod'', ''-l'', ''app=lifecycle'', ''--timeout=180s'']) (
     bindM (liftE (jsub new ''uid'')) (\<lambda>new_uid.
     thenM (lc_until (pod_dir_gone new_uid)) (
     thenM (bindM (lc_get ''deployment,replicaset,service,endpointslice,pvc,configmap,serviceaccount'' None) (lc_save ''09-after-pod-deletion'')) (
     thenM (bindM (lc_cri [''pods'', ''-o'', ''json'']) (lc_save ''09-runtime-sandboxes'')) (
     thenM (bindM (lc_cri [''ps'', ''-a'', ''-o'', ''json'']) (lc_save ''09-runtime-containers'')) (
     thenM (lc_kubectl [''apply'', ''-f'', ''pod-lifecycle-source/terminal-pods.yaml'']) (
     thenM (lc_until (pod_phase_in ''completed'' [''Succeeded''])) (
     thenM (lc_until (pod_phase_in ''failed'' [''Failed''])) (
     thenM (forM [''completed'', ''failed''] lc_terminal) (
     bindM (lc_command [''kubectl'', ''version'', ''-o'', ''json'']) (\<lambda>t.
     thenM (bindM (py_loads t) (lc_save ''version'')) (
     bindM getG (\<lambda>g.
     lc_save ''result'' (JDict [(''passed'', JBool True), (''stages'', JInt (int (length (TIMELINE g)))), (''oldUID'', uid),
         (''newUID'', new_uid), (''checks'', lc_checks)]))))))))))))))))"

definition lc_run :: "('w, unit) lprog" where
  "lc_run = bindM lc_create (\<lambda>(p, name, uid, initial).
    (bindM (lc_unready p name uid initial) (\<lambda>unready.
     bindM (lc_crash name uid initial unready) (\<lambda>crashed.
     bindM (lc_liveness p name initial crashed) (\<lambda>probed.
     bindM (lc_restart_all p name uid initial probed) (\<lambda>all_restarted.
     bindM (lc_lose_sandbox p name uid probed all_restarted) (\<lambda>recovered.
     bindM (lc_replace name uid) (\<lambda>new.
     lc_finish uid new))))))))"

definition lifecycle_run :: "('w, unit) lprog" where
  "lifecycle_run = thenM lc_import (finallyM lc_run lc_collect_logs)"


section \<open>failure-paths.py\<close>

definition runtime_removed :: "json list \<Rightarrow> ('w, bool) lprog" where
  "runtime_removed uids =
    (bindM (lc_items ''items'' [''pods'', ''-o'', ''json'']) (\<lambda>sandboxes.
     bindM (lc_items ''containers'' [''ps'', ''-a'', ''-o'', ''json'']) (\<lambda>containers.
     liftE (andE (notE (anyE (\<lambda>x. bindE (jpath [Sub ''metadata'', Sub ''uid''] x) (\<lambda>u. in_setE u uids)) sandboxes))
         (notE (anyE (\<lambda>c. bindE (jpath [Get ''labels'' emptyD, get0 ''io.kubernetes.pod.uid''] c) (\<lambda>u. in_setE u uids)) containers))))))"

definition lc_netns_gone :: "json \<Rightarrow> ('w, unit) lprog" where
  "lc_netns_gone path =
    (bindM (liftE (jstr path)) (\<lambda>p.
     bindM (lc_succeeds [''docker'', ''exec'', LC_NODE, ''test'', ''!'', ''-e'', p]) (\<lambda>ok.
     assertM p ok)))"

definition linux :: "string \<Rightarrow> acc list" where
  "linux key = [Sub ''info'', Sub ''runtimeSpec'', Sub ''linux'', Sub key]"

definition lc_cleanup_row :: "json \<Rightarrow> ('w, json) lprog" where
  "lc_cleanup_row row =
    (bindM (liftE (jsub row ''stage'')) (\<lambda>stage.
     bindM (read_text (LC_OUT @ ''/'' @ py_str stage @ ''-sandbox.json'')) (\<lambda>t.
     bindM (py_loads t) (\<lambda>inspection.
     bindM (liftE (bindE (bindE (jpath (linux ''namespaces'') inspection) jiter)
         (filterE (\<lambda>ns. eqE (jsub ns ''type'') (JStr ''network''))))) (\<lambda>spaces.
     bindM (liftE (mapE (\<lambda>ns. jsub ns ''path'') spaces)) (\<lambda>paths.
     bindM (liftE (jpath (linux ''cgroupsPath'') inspection)) (\<lambda>cgroup.
     thenM (forM paths lc_netns_gone) (
     bindM (liftE (bindE (jsub row ''uid'') (str_method ''replace''))) (\<lambda>uid.
     bindM (lc_command [''docker'', ''exec'', LC_NODE, ''find'', ''/sys/fs/cgroup'', ''-type'',
           ''d'', ''-name'',
           ''*'' @ map (\<lambda>c. if c = CHR ''-'' then CHR ''_'' else c) uid @ ''*'']) (\<lambda>found.
     thenM (assertM found (strip found = [])) (
     bindM (liftE (jsub row ''sandbox'')) (\<lambda>box.
     returnM (JDict [(''uid'', JStr uid), (''sandbox'', box), (''formerNetns'', JList paths), (''formerCgroup'', cgroup),
         (''netnsRemoved'', JBool True), (''podCgroupRemoved'', JBool True)])))))))))))))"

definition lc_runtime_gc :: "('w, unit) lprog" where
  "lc_runtime_gc =
    (thenM (unlink (LC_OUT @ ''/failure-paths-result.json'')) (
     bindM (read_text (LC_OUT @ ''/timeline.json'')) (\<lambda>t.
     bindM (bindM (py_loads t) (\<lambda>v. liftE (jiter v))) (\<lambda>previous.
     bindM (liftE (set_of (\<lambda>row. jsub row ''uid'') [] previous)) (\<lambda>uids.
     thenM (lc_wait (\<lambda>b. b) (runtime_removed uids) 300) (
     bindM (lc_cri [''pods'', ''-o'', ''json'']) (\<lambda>sandboxes.
     bindM (lc_cri [''ps'', ''-a'', ''-o'', ''json'']) (\<lambda>containers.
     thenM (lc_save ''11-runtime-after-gc'' (JDict [(''sandboxes'', sandboxes), (''containers'', containers)])) (
     bindM (mapM previous lc_cleanup_row) (\<lambda>cleanup.
     lc_save ''11-resource-cleanup'' (JList cleanup)))))))))))"

definition lc_unscheduled :: "('w, unit) lprog" where
  "lc_unscheduled =
    (thenM (lc_kubectl [''apply'', ''-f'', ''pod-lifecycle-source/failure-paths.yaml'']) (
     thenM (lc_until (bindM (lc_pod ''unscheduled'') (\<lambda>p. liftE (bindE (bindE (jpath [Sub ''status'', Get ''conditions'' (JList [])] p) jiter)
         (anyE (\<lambda>c. andE (eqE (jsub c ''type'') (JStr ''PodScheduled'')) (eqE (jsub c ''status'') (JStr ''False'')))))))) (
     bindM (lc_pod ''unscheduled'') (\<lambda>pending.
     thenM (lc_assert (bindE (jpath [Sub ''spec'', get0 ''nodeName''] pending) (\<lambda>v. Inr (\<not> truth v)))) (
     lc_save ''12-unscheduled'' pending)))))"

definition lc_failed_mount :: "json \<Rightarrow> ('w, bool) lprog" where
  "lc_failed_mount uid = bindM (lc_get ''events'' None) (\<lambda>doc. liftE (bindE (bindE (jsub doc ''items'') jiter)
     (anyE (\<lambda>e. andE (eqE (jget e ''reason'' JNull) (JStr ''FailedMount'')) (eqE (jpath [Sub ''involvedObject'', Sub ''uid''] e) uid)))))"

definition lc_mount_blocked :: "('w, unit) lprog" where
  "lc_mount_blocked =
    (thenM (lc_wait truth (bindM (lc_pod ''mount-blocked'') (\<lambda>p. liftE (jpath [Sub ''spec'', get0 ''nodeName''] p))) 240) (
     bindM (lc_pod ''mount-blocked'') (\<lambda>blocked.
     bindM (liftE (jpath [Sub ''metadata'', Sub ''uid''] blocked)) (\<lambda>uid.
     thenM (lc_until (lc_failed_mount uid)) (
     bindM (lc_items ''items'' [''pods'', ''-o'', ''json'']) (\<lambda>items.
     thenM (lc_assert (notE (anyE (\<lambda>x. eqE (jpath [Sub ''metadata'', Sub ''uid''] x) uid) items))) (
     thenM (bindM (lc_pod ''mount-blocked'') (lc_save ''13-mount-blocked'')) (
     thenM (lc_kubectl [''create'', ''configmap'', ''supplied-later'', ''--from-literal=value=ready'']) (
     thenM (lc_until (lc_is_ready ''mount-blocked'')) (
     bindM (lc_pod ''mount-blocked'') (\<lambda>mounted.
     thenM (lc_assert (eqE (jpath [Sub ''metadata'', Sub ''uid''] mounted) uid)) (
     lc_save ''14-mount-recovered'' mounted))))))))))))"

definition oom_recovered :: "('w, bool) lprog" where
  "oom_recovered =
    (bindM (lc_pod ''memory-limit'') (\<lambda>p.
     bindM (liftE (jpath [Sub ''status'', Get ''containerStatuses'' (JList [])] p)) (\<lambda>statuses.
     liftE (andE (lc_ready p) (andE (Inr (truth statuses))
         (bindE (jpath [Idx 0, Sub ''restartCount''] statuses) (\<lambda>n. jgt n (JInt 0))))))))"

definition lc_oom :: "('w, unit) lprog" where
  "lc_oom =
    (thenM (lc_until oom_recovered) (
     bindM (lc_pod ''memory-limit'') (\<lambda>oom.
     thenM (lc_assert (eqE (jpath [Sub ''status'', Sub ''containerStatuses'', Idx 0, Sub ''lastState'', Sub ''terminated'', Sub ''reason''] oom)
         (JStr ''OOMKilled''))) (
     lc_save ''15-oom-recovered'' oom))))"

definition failure_result :: json where
  "failure_result = (JDict
    [(''passed'', JBool True),
     (''checks'',
       JList
         [JStr ''runtime GC'',
          JStr ''netns removal'',
          JStr ''Pod cgroup removal'',
          JStr ''unschedulable before node assignment'',
          JStr ''mount failure before sandbox creation'',
          JStr ''same UID recovers after ConfigMap creation'',
          JStr ''OOMKilled triggers OnFailure restart''])])"

definition failure_paths :: "('w, unit) lprog" where
  "failure_paths = thenM lc_runtime_gc (thenM lc_unscheduled (thenM lc_mount_blocked (thenM lc_oom
     (lc_save ''failure-paths-result'' failure_result))))"

definition failure_paths_run :: "('w, unit) lprog" where
  "failure_paths_run = thenM lc_import (finallyM failure_paths lc_collect_logs)"


section \<open>The scripts end\<close>

lemma lc_wait_poll: "lc_wait ok fn timeout = poll ok fn (1000 * timeout) 500 (lc_expired timeout)"
  by (simp add: lc_wait_def poll_def poll_round_def)

interpretation lifecycle: poller lc_wait 500 lc_expired
  by unfold_locales (simp_all add: lc_wait_poll)

lemmas lc_base_defs = lc_command_def lc_succeeds_def lc_kubectl_def lc_get_def lc_save_def lc_is_ready_def lc_active_pod_def lc_cri_def
  lc_items_def lc_sandbox_def lc_append_def lc_exec_def lc_endpoint_ready_def other_container_def more_restarts_def
  sandbox_recovered_def pod_phase_in_def pod_dir_gone_def runtime_removed_def lc_failed_mount_def oom_recovered_def lc_assert_def

lemma lc_base_runs [runs_intros]:
  assumes "clock_ok os now"
  shows "runs os now (lc_command args)" "runs os now (lc_succeeds args)" "runs os now (lc_kubectl args)" "runs os now (lc_get resource nm)"
    "runs os now (lc_save name data)" "runs os now (lc_is_ready name)" "runs os now lc_active_pod" "runs os now (lc_cri args)"
    "runs os now (lc_items key args)" "runs os now (lc_sandbox p)" "runs os now (lc_append row)" "runs os now (lc_exec p args)"
    "runs os now (lc_endpoint_ready uid b)" "runs os now (other_container name row)" "runs os now (more_restarts name row)"
    "runs os now (sandbox_recovered name uid row)" "runs os now (pod_phase_in name phases)" "runs os now (pod_dir_gone uid)"
    "runs os now (runtime_removed uids)" "runs os now (lc_failed_mount uid)" "runs os now oom_recovered" "runs os now (lc_assert r)"
  unfolding lc_base_defs by (intro runs_intros assms)+

lemma lc_until_runs [runs_intros]:
  assumes "clock_ok os now" and "runs os now fn"
  shows "runs os now (lc_until fn)"
  unfolding lc_until_def by (intro runs_intros lifecycle.wait_runs assms)

lemma bothM_runs [runs_intros]: "runs os now a \<Longrightarrow> runs os now b \<Longrightarrow> runs os now (bothM a b)"
  unfolding bothM_def by (intro runs_intros)

lemma lc_parts_run [runs_intros]:
  assumes "clock_ok os now"
  shows "runs os now (lc_wait_http name)" "runs os now (lc_snapshot stage p)" "runs os now lc_collect_logs" "runs os now (lc_terminal name)"
    "runs os now (lc_netns_gone path)" "runs os now lc_import"
  unfolding lc_wait_http_def lc_snapshot_def lc_collect_logs_def lc_terminal_def lc_netns_gone_def lc_import_def
  by (intro runs_intros assms)+

lemma lc_rows_run [runs_intros]:
  assumes "clock_ok os now"
  shows "runs os now (lc_snapshot_of stage name)" "runs os now (lc_cleanup_row row)"
  unfolding lc_snapshot_of_def lc_cleanup_row_def by (intro runs_intros assms)+

lemmas lc_phase_defs = lc_create_def lc_unready_def lc_crash_def lc_liveness_def lc_restart_all_def lc_lose_sandbox_def lc_replace_def lc_finish_def

lemma lc_phases_run [runs_intros]:
  assumes "clock_ok os now"
  shows "runs os now lc_create" "runs os now (lc_unready p name uid initial)" "runs os now (lc_crash name uid initial unready)"
    "runs os now (lc_liveness p name initial crashed)" "runs os now (lc_restart_all p name uid initial probed)"
    "runs os now (lc_lose_sandbox p name uid probed all_restarted)" "runs os now (lc_replace name uid)" "runs os now (lc_finish uid new)"
  unfolding lc_phase_defs by (intro runs_intros lifecycle.wait_runs assms)+

lemma lifecycle_runs:
  assumes "clock_ok os now"
  shows "runs os now lifecycle_run" "runs os now failure_paths_run"
  unfolding lifecycle_run_def lc_run_def failure_paths_run_def failure_paths_def lc_runtime_gc_def lc_unscheduled_def lc_mount_blocked_def lc_oom_def
  by (intro runs_intros lifecycle.wait_runs assms)+

end
