(* ===== verification/LifecycleSeen.thy ===== *)
theory LifecycleSeen
  imports LifecycleRun
begin

text \<open>
  What the timeline of \<^verbatim>\<open>pod-lifecycle-source/run.py\<close> shows when the script returns normally: the rows it has recorded, in order, with the
  relations between the identities of Pod, sandbox and containers that its result claims.
\<close>

section \<open>What leaves the timeline alone\<close>

abbreviation lc_quiet :: "(life \<Rightarrow> bool) \<Rightarrow> ('w, life) st \<Rightarrow> bool" where
  "lc_quiet I \<equiv> confined I (\<lambda>_. True)"

lemma checked_keeps [keeps_intros]: "keeps os J (checked check fail r)"
  unfolding checked_def by (intro keeps_intros)

lemma lc_base_keep [keeps_intros]:
  "keeps os (lc_quiet I) (lc_command args)" "keeps os (lc_quiet I) (lc_succeeds args)" "keeps os (lc_quiet I) (lc_kubectl args)"
  "keeps os (lc_quiet I) (lc_get resource nm)" "keeps os (lc_quiet I) (lc_save name data)" "keeps os (lc_quiet I) (lc_is_ready name)"
  "keeps os (lc_quiet I) lc_active_pod" "keeps os (lc_quiet I) (lc_cri args)" "keeps os (lc_quiet I) (lc_items key args)"
  "keeps os (lc_quiet I) (lc_sandbox p)" "keeps os (lc_quiet I) (lc_exec p args)" "keeps os (lc_quiet I) (lc_endpoint_ready uid b)"
  "keeps os (lc_quiet I) (other_container name row)" "keeps os (lc_quiet I) (more_restarts name row)"
  "keeps os (lc_quiet I) (sandbox_recovered name uid row)" "keeps os (lc_quiet I) (pod_phase_in name phases)"
  "keeps os (lc_quiet I) (pod_dir_gone uid)" "keeps os (lc_quiet I) (lc_assert r)"
  unfolding lc_base_defs by (intro keeps_intros; simp)+

lemma lc_waits_keep [keeps_intros]:
  "keeps os (lc_quiet I) fn \<Longrightarrow> keeps os (lc_quiet I) (lc_wait ok fn timeout)"
  "keeps os (lc_quiet I) cond \<Longrightarrow> keeps os (lc_quiet I) (lc_until cond)"
  "keeps os (lc_quiet I) a \<Longrightarrow> keeps os (lc_quiet I) b \<Longrightarrow> keeps os (lc_quiet I) (bothM a b)"
  unfolding lc_until_def lc_wait_def bothM_def by (intro keeps_intros; simp)+

lemma lc_parts_keep [keeps_intros]:
  "keeps os (lc_quiet I) (lc_wait_http name)" "keeps os (lc_quiet I) (lc_terminal name)"
  unfolding lc_wait_http_def lc_terminal_def by (intro keeps_intros)+

lemma lc_finish_keeps: "keeps os (lc_quiet I) (lc_finish uid new)"
  unfolding lc_finish_def by (intro keeps_intros)

text \<open>So they can be passed over.\<close>

lemma lc_skip [gwp_intros]:
  "(\<And>v. Q1 v g) \<Longrightarrow> gwp os (lc_command args) Q1 g" "(\<And>v. Q1 v g) \<Longrightarrow> gwp os (lc_kubectl args) Q1 g"
  "(\<And>v. Q2 v g) \<Longrightarrow> gwp os (lc_get resource nm) Q2 g" "Q3 () g \<Longrightarrow> gwp os (lc_save name data) Q3 g"
  "(\<And>v. Q2 v g) \<Longrightarrow> gwp os (lc_cri args) Q2 g" "(\<And>v. Q2 v g) \<Longrightarrow> gwp os (lc_sandbox p) Q2 g"
  "(\<And>v. Q1 v g) \<Longrightarrow> gwp os (lc_exec p args) Q1 g" "Q3 () g \<Longrightarrow> gwp os (lc_wait_http name) Q3 g"
  "Q3 () g \<Longrightarrow> gwp os (write_text path t) Q3 g" "(\<And>v. Q1 v g) \<Longrightarrow> gwp os (wallclock fmt) Q1 g"
  "Q3 () g \<Longrightarrow> gwp os (unlink path) Q3 g"
  by (rule gwp_frame, intro keeps_intros, simp_all)+

lemma lc_skip_wait [gwp_intros]:
  "(\<And>I. keeps os (lc_quiet I) fn) \<Longrightarrow> (\<And>v. Q v g) \<Longrightarrow> gwp os (lc_wait ok fn timeout) Q g"
  by (rule gwp_frame) (intro keeps_intros)

lemma lc_skip_until [gwp_intros]: "(\<And>I. keeps os (lc_quiet I) fn) \<Longrightarrow> Q () g \<Longrightarrow> gwp os (lc_until fn) Q g"
  by (rule gwp_frame) (intro keeps_intros, simp_all)

lemma lc_assert_gwp [gwp_intros]: "(r = Inr True \<Longrightarrow> Q () g) \<Longrightarrow> gwp os (lc_assert r) Q g"
  unfolding lc_assert_def by (intro gwp_intros) auto

lemma andE_True [simp]: "andE a b = Inr True \<longleftrightarrow> a = Inr True \<and> b = Inr True"
  by (cases a) (auto simp: andE_def)

lemma notE_True [simp]: "notE r = Inr True \<longleftrightarrow> r = Inr False"
  by (cases r) (auto simp: notE_def)

text \<open>A snapshot appends its row, which is returned: its stage and the identity of the Pod it was taken of.\<close>

lemma lc_row_fields:
  "lc_row stage now p uid sid cid pid = Inr row \<Longrightarrow> jsub row ''stage'' = Inr (JStr stage) \<and> jsub row ''uid'' = Inr uid"
  unfolding lc_row_def by (auto simp: bindE_Inr_iff)

lemma lc_snapshot_gwp [gwp_intros]:
  assumes "\<And>row. jsub row ''stage'' = Inr (JStr stage) \<Longrightarrow> jsub row ''uid'' = jpath [Sub ''metadata'', Sub ''uid''] p \<Longrightarrow>
    Q row (g\<lparr>TIMELINE := TIMELINE g @ [row]\<rparr>)"
  shows "gwp os (lc_snapshot stage p) Q g"
  unfolding lc_snapshot_def lc_append_def
  by (intro gwp_intros assms) (auto dest: lc_row_fields)



section \<open>The phases\<close>

lemma lc_create_gwp [gwp_intros]:
  assumes "\<And>p name uid row. jsub row ''stage'' = Inr (JStr ''01-created'') \<Longrightarrow> jsub row ''uid'' = Inr uid \<Longrightarrow>
    Q (p, name, uid, row) (g\<lparr>TIMELINE := TIMELINE g @ [row]\<rparr>)"
  shows "gwp os lc_create Q g"
  unfolding lc_create_def by (intro gwp_intros keeps_intros assms) auto

lemma lc_unready_gwp [gwp_intros]:
  assumes "\<And>row. jsub row ''stage'' = Inr (JStr ''02-unready'') \<Longrightarrow> same_at [Sub ''container''] row initial = Inr True \<Longrightarrow>
    Q row (g\<lparr>TIMELINE := TIMELINE g @ [row]\<rparr>)"
  shows "gwp os (lc_unready p name uid initial) Q g"
  unfolding lc_unready_def by (intro gwp_intros keeps_intros assms)

text \<open>\<^verbatim>\<open>a["restartCount"] > b["restartCount"]\<close>.\<close>

definition restarted_since :: "json \<Rightarrow> json \<Rightarrow> bool" where
  "restarted_since a b \<longleftrightarrow> bindE (jsub a ''restartCount'') (\<lambda>n. bindE (jsub b ''restartCount'') (jgt n)) = Inr True"

lemma lc_crash_gwp [gwp_intros]:
  assumes "\<And>row. jsub row ''stage'' = Inr (JStr ''03-crash-restarted'') \<Longrightarrow> eqE (jsub row ''uid'') uid = Inr True \<Longrightarrow>
    same_at [Sub ''sandbox''] row initial = Inr True \<Longrightarrow> restarted_since row initial \<Longrightarrow>
    same_at [Sub ''initContainers''] row initial = Inr True \<Longrightarrow> Q row (g\<lparr>TIMELINE := TIMELINE g @ [row]\<rparr>)"
  shows "gwp os (lc_crash name uid initial unready) Q g"
  unfolding lc_crash_def lc_snapshot_of_def by (intro gwp_intros keeps_intros assms) (simp_all add: restarted_since_def)

lemma lc_liveness_gwp [gwp_intros]:
  assumes "\<And>row. jsub row ''stage'' = Inr (JStr ''04-liveness-restarted'') \<Longrightarrow> same_at [Sub ''sandbox''] row initial = Inr True \<Longrightarrow>
    Q row (g\<lparr>TIMELINE := TIMELINE g @ [row]\<rparr>)"
  shows "gwp os (lc_liveness p name initial crashed) Q g"
  unfolding lc_liveness_def lc_snapshot_of_def by (intro gwp_intros keeps_intros assms)

lemma lc_restart_all_gwp [gwp_intros]:
  assumes "\<And>row. jsub row ''stage'' = Inr (JStr ''04b-all-containers-restarted'') \<Longrightarrow> eqE (jsub row ''uid'') uid = Inr True \<Longrightarrow>
    same_at [Sub ''sandbox''] row initial = Inr True \<Longrightarrow> same_at (init_id 0) row probed = Inr False \<Longrightarrow>
    same_at (init_id 1) row probed = Inr False \<Longrightarrow> Q row (g\<lparr>TIMELINE := TIMELINE g @ [row]\<rparr>)"
  shows "gwp os (lc_restart_all p name uid initial probed) Q g"
  unfolding lc_restart_all_def lc_snapshot_of_def by (intro gwp_intros keeps_intros assms) simp_all

lemma lc_lose_sandbox_gwp [gwp_intros]:
  assumes "\<And>row. jsub row ''stage'' = Inr (JStr ''05-sandbox-recreated'') \<Longrightarrow> eqE (jsub row ''uid'') uid = Inr True \<Longrightarrow>
    same_at [Sub ''sandbox''] row probed = Inr False \<Longrightarrow> Q row (g\<lparr>TIMELINE := TIMELINE g @ [row]\<rparr>)"
  shows "gwp os (lc_lose_sandbox p name uid probed all_restarted) Q g"
  unfolding lc_lose_sandbox_def lc_snapshot_of_def by (intro gwp_intros keeps_intros assms) simp_all

lemma lc_replace_gwp [gwp_intros]:
  assumes "\<And>row. jsub row ''stage'' = Inr (JStr ''07-controller-recreated'') \<Longrightarrow> eqE (jsub row ''uid'') uid = Inr False \<Longrightarrow>
    Q row (g\<lparr>TIMELINE := TIMELINE g @ [row]\<rparr>)"
  shows "gwp os (lc_replace name uid) Q g"
  unfolding lc_replace_def by (intro gwp_intros keeps_intros assms) simp_all

definition lifecycle_shown :: "json list \<Rightarrow> bool" where
  "lifecycle_shown rows \<longleftrightarrow> (\<exists>created unready crashed probed all_restarted recovered new uid.
     rows = [created, unready, crashed, probed, all_restarted, recovered, new] \<and>
     map (\<lambda>row. jsub row ''stage'') rows = map (\<lambda>stage. Inr (JStr stage)) [''01-created'', ''02-unready'', ''03-crash-restarted'',
       ''04-liveness-restarted'', ''04b-all-containers-restarted'', ''05-sandbox-recreated'', ''07-controller-recreated''] \<and>
     jsub created ''uid'' = Inr uid \<and> same_at [Sub ''container''] unready created = Inr True \<and>
     eqE (jsub crashed ''uid'') uid = Inr True \<and> same_at [Sub ''sandbox''] crashed created = Inr True \<and>
     restarted_since crashed created \<and> same_at [Sub ''initContainers''] crashed created = Inr True \<and>
     same_at [Sub ''sandbox''] probed created = Inr True \<and>
     eqE (jsub all_restarted ''uid'') uid = Inr True \<and> same_at [Sub ''sandbox''] all_restarted created = Inr True \<and>
     same_at (init_id 0) all_restarted probed = Inr False \<and> same_at (init_id 1) all_restarted probed = Inr False \<and>
     eqE (jsub recovered ''uid'') uid = Inr True \<and> same_at [Sub ''sandbox''] recovered probed = Inr False \<and>
     eqE (jsub new ''uid'') uid = Inr False)"

text \<open>
  C40: the timeline supports the result. When the lifecycle script returns normally it has recorded exactly seven rows, in the order of the
  experiment: the Pod that failed its readiness probe has the container it was created with; after the crash it has the same identity, sandbox and
  init containers and a higher restart count; after the failed liveness probe the same sandbox; after the restart of all containers the same identity and sandbox but new
  init containers; after the loss of its sandbox the same identity and another sandbox; and the Pod of the controller is another one.
\<close>

theorem lifecycle_timeline:
  "gwp os lc_run (\<lambda>_ h. \<exists>rows. TIMELINE h = TIMELINE g @ rows \<and> lifecycle_shown rows) g"
  unfolding lc_run_def
  by (intro gwp_intros gwp_frame [OF lc_finish_keeps])
    (auto simp: lifecycle_shown_def)

end
