(* ===== verification/Spec2Isabelle.thy ===== *)
theory Spec2Isabelle
  imports DeepDiveSafety ControlSafety ApiSafety AdmissionWebhook CrdRun PvcRun JobRun WatchRun ImageRun HpaPass VolcanoSafety VolcanoReport HamiSafety LifecycleSeen
begin

text \<open>
  A verification of the Python programs of the repository: scripts that run experiments on Kubernetes
  clusters and write down what they saw, the two webhooks they deploy, and the tool that
  collects results. A script talks to the world through kubectl and docker processes, HTTP requests, files and
  the clock; it polls until a condition holds, checks what it reads with assertions, and prints \<^verbatim>\<open>PASS\<close>. What
  makes such a program correct is therefore: it ends; it touches only its own cluster, and only after it has
  recognised it; it undoes what it injected; and \<^verbatim>\<open>PASS\<close> is only printed when the observations
  were made. The webhooks and the collector are functions on JSON values with the usual functional properties.

  \<^bold>\<open>The language.\<close> \<open>Prelude\<close> has the strings and dicts of Python, \<open>PyValue\<close> the values \<^verbatim>\<open>json.loads\<close> returns, the exceptions
  and the expressions on values, \<open>JsonCodec\<close> an executable \<^verbatim>\<open>json.dumps\<close> and \<^verbatim>\<open>json.loads\<close> with their round trips,
  \<open>PyNum\<close> integers, \<open>Http\<close> the requests of the webhooks and base64. \<open>PyProg\<close> is the
  monad of programs: a statement maps the interface to the world (the record \<open>os\<close>, a parameter nothing is assumed of) and a
  state (the world, the trace of every call with its reply, the script's global variables) to a value or an exception, or to no
  result when it runs forever. Chinese messages of exceptions are given in English;
  paths are relative to the root of the repository; times are milliseconds.

  \<^bold>\<open>The judgements\<close> the component theories work with, each with a collection of rules: \<open>emits\<close> (every event a program adds satisfies
  a predicate, \<open>PyProg\<close>), \<open>wp\<close> (what the trace holds after a normal return, \<open>PyProg\<close>), \<open>keeps\<close> (an invariant of the whole state) and \<open>gwp\<close> (what the module variables are after a normal return), both in \<open>Invariant\<close>,
  \<open>leaves\<close> with \<open>followed\<close> (every start is followed by a stop, however the run ends, \<open>Cleanup\<close>), \<open>runs\<close> (a program ends and the clock has not gone
  back, \<open>Polling\<close>; \<open>within\<close> is for loops that look at their deadline at the end of a round), \<open>observes\<close> (a normal return has seen these answers in this order, \<open>Observe\<close>; with
  \<open>observes_any\<close> they depend on a value the run has found), and for the concrete world of the witnesses
  \<open>succeeds\<close> (symbolic execution) and \<open>gives\<close> (a normal return from every state), both in \<open>Demo\<close>.

  \<^bold>\<open>The interfaces\<close> are locales, interpreted on the definitions of the code: \<open>poller\<close> (the \<^verbatim>\<open>wait\<close> functions, \<open>Polling\<close>),
  \<open>pinned_kubectl\<close> (a runner of kubectl bound to a context), \<open>lab_api\<close> (evidence files and objects of a \<^verbatim>\<open>Lab\<close>) and \<open>guarded_setup\<close>
  (a constructor that checks before it changes), all in \<open>Kubectl\<close>; \<open>trace_closed\<close> in \<open>Cleanup\<close>; \<open>hpa_events\<close> and \<open>hpa_all_events\<close>, the
  contract of the autoscaling harness towards its scenarios, in \<open>HpaLab\<close> and \<open>HpaSafety\<close>.

  \<^bold>\<open>The components.\<close>
  \<^item> \<open>ArticleLab\<close>: \<^verbatim>\<open>article-next-common/lab.py\<close>; \<open>DeepDiveLab\<close>: \<^verbatim>\<open>deep-dive-common/lab.py\<close>. The harnesses the experiments share: runner,
    polling, the class \<^verbatim>\<open>Lab\<close> (a record of namespace and directory; \<^verbatim>\<open>Lab.__init__\<close> is \<open>lab_init\<close>, with its checks in \<open>lab_guard\<close>). Shown: nothing is changed
    before the cluster is recognised, polling ends and is a bounded loop, evidence reads back as the value saved.
  \<^item> \<open>CrdWebhook\<close>: \<^verbatim>\<open>article-crd-conversion/webhook.py\<close>; \<open>AdmissionWebhook\<close>: \<^verbatim>\<open>article-api-admission/webhook.py\<close>. Shown: conversion there and back gives the stored object
    with a normalised spec, objects are of the requested version, a response has all objects or none, every request is answered, the mutation keeps the
    other annotations, the denial is exact.
  \<^item> \<open>CrdRun\<close>, \<open>PvcRun\<close>, \<open>JobRun\<close>, \<open>WatchRun\<close>: the \<^verbatim>\<open>run.py\<close> of \<^verbatim>\<open>article-crd-conversion\<close>, \<^verbatim>\<open>article-pvc-expansion\<close>, \<^verbatim>\<open>article-job-cronjob\<close> and
    \<^verbatim>\<open>article-watch-consistency\<close>, a definition per phase in the order of the script. Shown: they end (\<open>WatchRun\<close> when the server ends its streams), their
    commands go to the lab's context, and what a \<^verbatim>\<open>PASS\<close> has observed; for the conversion script also that it deletes a CRD before
    the checks; for the watch script that its proxy is stopped, that its proxy and its probe, and nothing else, ignore \<^verbatim>\<open>ARTICLE_CONTEXT\<close>, and that its loop
    implements the contract of a watch. \<open>yields\<close> of \<open>Observe\<close> is the judgement that gives a phase's answers in order, with the URLs and responses they belong to.
  \<^item> \<open>DeepDiveRuns\<close>: the \<^verbatim>\<open>run.py\<close> of \<^verbatim>\<open>deep-dive-reconcile\<close>, \<^verbatim>\<open>-pdb\<close>, \<^verbatim>\<open>-network-policy\<close>, \<^verbatim>\<open>-probes\<close> and \<^verbatim>\<open>-pod-stages\<close>; \<open>DeepDiveSeen\<close> shows
    the sequence of answers a normal return rests on.
  \<^item> \<open>DeepDiveMore\<close>: the \<^verbatim>\<open>run.py\<close> of \<^verbatim>\<open>deep-dive-ephemeral\<close>, \<^verbatim>\<open>-node-failure\<close>, \<^verbatim>\<open>-scheduling\<close>, \<^verbatim>\<open>-secret-refresh\<close>, \<^verbatim>\<open>-storage\<close> and \<^verbatim>\<open>-terminating\<close>;
    \<open>DeepDiveSafety\<close> shows that what three of them do to a node is undone however they end (the locale \<open>dd_events\<close> is what the harness promises for that), and what all
    six have seen.
  \<^item> \<open>ImageRun\<close>: \<^verbatim>\<open>article-image-lifecycle/run.py\<close>, with its own runner and polling. Shown besides the same: the bounds of the
    computed image size and that the file written has exactly that size.
  \<^item> \<open>HpaLab\<close>, \<open>HpaRun\<close>: the harness and the scenarios of \<^verbatim>\<open>hpa/advanced/run.py\<close>; its module variables are the record \<open>hpa\<close>, the global state of
    its programs. \<open>HpaSafety\<close> shows that injected failures are taken back, the proxy is stopped and everything stays within the lab, \<open>HpaPass\<close> that the
    verdict in the evidence file is the outcome and what a \<^verbatim>\<open>PASS\<close> has observed; termination is in \<open>HpaRun\<close>.
  \<^item> \<open>VolcanoLab\<close>: the harness of \<^verbatim>\<open>volcano-hami/run-tests.py\<close>, whose function \<^verbatim>\<open>case\<close> runs a test and records its verdict; \<open>VolcanoRun\<close> its 19 tests,
    \<open>VolcanoMore\<close> those of \<^verbatim>\<open>run-advanced.py\<close>, \<^verbatim>\<open>run-boundaries.py\<close> and \<^verbatim>\<open>run-startup-probe.py\<close>, which use that harness. The module variables are the record \<open>vol\<close>; the record
    \<open>pylib\<close> has the libraries that are not modelled: PyYAML, the text of a traceback, the rounded seconds. Shown: a verdict is the outcome (\<open>VolcanoLab\<close>); what a test that
    passes has seen, and what is left behind (\<open>VolcanoSafety\<close>); what a script reports is what the collector publishes (\<open>VolcanoReport\<close>).
  \<^item> \<open>HamiLab\<close>, \<open>HamiRun\<close>: the harness and the tests of \<^verbatim>\<open>hami-mock-gpu/run-tests.py\<close>, \<^verbatim>\<open>run-extra-tests.py\<close> and \<^verbatim>\<open>run-advanced-tests.py\<close>; their module variables are
    the record \<open>hami\<close>, \<open>hlib\<close> has \<^verbatim>\<open>Path.resolve\<close> and the rounded seconds. \<open>HamiSafety\<close> shows that a verdict is the outcome and that no Pod is forgotten.
  \<^item> \<open>LifecycleRun\<close>: \<^verbatim>\<open>pod-lifecycle-source/run.py\<close> and \<^verbatim>\<open>failure-paths.py\<close>; their module variables are the record \<open>life\<close>. \<open>LifecycleSeen\<close> shows what the
    recorded timeline says after a normal return.
  \<^item> \<open>ControlRun\<close>: the scripts of \<^verbatim>\<open>article-control-ha\<close>, \<^verbatim>\<open>article-control-gc\<close> and \<^verbatim>\<open>article-control-rollout\<close>; the list of the nodes whose manifest is away is the record
    \<open>ctl\<close>. \<open>ControlSafety\<close> shows that they end, that the manifests come back (an invariant of the whole state, since the clean-up reads that list) and what they have
    seen.
  \<^item> \<open>ApiRun\<close>: the \<^verbatim>\<open>run.py\<close> of \<^verbatim>\<open>article-api-apply\<close>, \<^verbatim>\<open>-quota\<close>, \<^verbatim>\<open>-rbac\<close> and \<^verbatim>\<open>-admission\<close>. \<open>ApiSafety\<close> shows that they end, that they recognise their cluster first, that credentials and webhooks are
    removed, and what they have seen.
  \<^item> \<open>Collect\<close>: the functions of \<^verbatim>\<open>volcano-hami/collect-results.py\<close>: the summary has for each case the attempt that is latest by the times of the files and the history
    has all of them, stripping a manifest is idempotent.
  This theory holds the properties that span components.

  \<^bold>\<open>Loops and bounds.\<close> A \<^verbatim>\<open>while\<close> loop is a \<open>partial_function\<close> in the option monad, so not ending is a value and the termination theorems are statements
  about it. They assume \<open>clock_ok\<close>: reading the clock is monotonic and \<^verbatim>\<open>time.sleep(d)\<close> lets \<open>d\<close> pass; no bound on what a process answers or how
  long it takes is needed. The parser of \<open>JsonCodec\<close> has fuel, the length of the text, which its round trips show to be enough.

  \<^bold>\<open>Not modelled.\<close> Scripts that compute with floats, for which the values here have only literals: the scenarios \<^verbatim>\<open>requests\<close> and \<^verbatim>\<open>bandwidth\<close> of the autoscaling
  script, \<^verbatim>\<open>deep-dive-cpu\<close>, \<^verbatim>\<open>deep-dive-hpa-bottleneck\<close> and \<^verbatim>\<open>run-final-tests.py\<close> of \<^verbatim>\<open>hami-mock-gpu\<close>; \<^verbatim>\<open>plot.py\<close> draws, \<^verbatim>\<open>check-upload.py\<close> sends requests with bodies, which the model of \<^verbatim>\<open>urlopen\<close> does not carry,
  \<^verbatim>\<open>prepare-plugin.py\<close> rewrites YAML, \<^verbatim>\<open>cuda-control.py\<close> calls a native library, \<^verbatim>\<open>pod-network-calico/verify.py\<close> reads packet captures from pipes with \<^verbatim>\<open>select\<close>,
  the short \<^verbatim>\<open>article-resources-*\<close> scripts assert fields of a Pod's status and \<^verbatim>\<open>article-upgrade\<close> drives \<^verbatim>\<open>kubeadm\<close>, over further copies of the modelled runners. TLS sockets, closing of
  files and responses, the environment passed to \<^verbatim>\<open>docker build\<close>, the variable \<^verbatim>\<open>KUBECONFIG\<close> the control-plane scripts set, and the encoding of standard output are left out of the modelled scripts.
\<close>

section \<open>The shared harness\<close>

definition guarded :: "string \<Rightarrow> (event list \<Rightarrow> bool) \<Rightarrow> event list \<Rightarrow> bool" where
  "guarded dir evidence es \<longleftrightarrow> (\<exists>fs gs. es = MadeDir dir # fs @ gs \<and> list_all (\<lambda>e. \<not> mutates e) fs \<and> (gs \<noteq> [] \<longrightarrow> evidence fs))"

text \<open>
  C6: the constructors of the article and of the deep-dive \<^verbatim>\<open>Lab\<close> change nothing on a cluster before they have seen that it is
  the right one. Whatever the run's outcome, after the directory is made the commands up to the first that is not a \<^verbatim>\<open>get\<close> or
  \<^verbatim>\<open>version\<close> change nothing, and anything after them happens only if they have shown the right cluster: for the article lab \<^verbatim>\<open>KUBECONFIG\<close> is set and a
  listing of the nodes had one whose name starts with \<^verbatim>\<open>article-next-\<close>; for the deep-dive lab the first node listed was one of \<^verbatim>\<open>deep-dive-\<close>.
  The four API scripts, which have no \<^verbatim>\<open>Lab\<close>, do nothing but make directories and ask for the current context until it was seen to be
  theirs, with \<^verbatim>\<open>KUBECONFIG\<close> set explicitly.
\<close>

theorem lab_namespace_guarded:
  "leaves os (guarded (out (lab_of topic)) (lab_evidence os)) (lab_init topic) \<and>
   leaves os (guarded (out (dd_of topic)) (dd_evidence os)) (dd_init topic) \<and>
   leaves os (cautious os ''kind-article-api'') (apply_run home) \<and> leaves os (cautious os ''kind-article-api'') (quota_run home) \<and>
   leaves os (cautious os ''kind-article-api'') (rbac_run home) \<and> leaves os (cautious os ''kind-article-api'') (admission_run home)"
proof (intro conjI api_cautious [unfolded API_CONTEXT_def])
  show "leaves os (guarded (out (lab_of topic)) (lab_evidence os)) (lab_init topic)"
    by (rule leavesI) (drule article_init.init_guarded, auto simp: guarded_def)
  show "leaves os (guarded (out (dd_of topic)) (dd_evidence os)) (dd_init topic)"
    by (rule leavesI) (drule deepdive_init.init_guarded, auto simp: guarded_def)
qed

text \<open>
  C7: polling with the article harness ends, within its deadline plus one check: it returns a value
  that the check returned and that is true, or it raises what the check raised, or the timeout error,
  and then only once the whole timeout has passed on the clock.
\<close>

theorem lab_wait_contract:
  assumes "clock_ok os now" and "runs os now fn"
  shows "\<exists>r s'. lab_wait ok fn timeout os s = Some (r, s') \<and> now (world s) \<le> now (world s') \<and>
    (case r of
       Inr v \<Rightarrow> ok v \<and> (\<exists>t. fn os t = Some (Inr v, s'))
     | Inl e \<Rightarrow> (\<exists>t. fn os t = Some (Inl e, s')) \<or>
         (e = not_converged timeout \<and> now (world s) + 1000 * timeout \<le> now (world s')))"
proof -
  obtain r s' where run: "lab_wait ok fn timeout os s = Some (r, s')" "now (world s) \<le> now (world s')"
    using article.wait_runs [OF assms] by (rule runsE)
  then show ?thesis
    using article.wait_returns [of ok fn timeout os s _ s'] article.wait_raises [OF assms, of ok timeout s _ s']
    by (cases r) auto
qed

theorem lab_wait_contract_witness:
  "\<exists>s'. lab_wait (\<lambda>b. b) (returnM False) 3 (demo_os demo_crd) (demo_start ()) = Some (Inl (not_converged 3), s') \<and>
    3000 \<le> int (world s')"
proof -
  have "runs (demo_os demo_crd) int (returnM False :: (nat, unit, bool) prog)" by (rule runs_intros)
  from lab_wait_contract [OF demo_clock this, of "\<lambda>b. b" 3 "demo_start ()"]
  obtain r s' where run: "lab_wait (\<lambda>b. b) (returnM False) 3 (demo_os demo_crd) (demo_start ()) = Some (r, s')"
    and r: "case r of Inr v \<Rightarrow> v \<and> (\<exists>t. returnM False (demo_os demo_crd) t = Some (Inr v, s'))
      | Inl e \<Rightarrow> (\<exists>t. returnM False (demo_os demo_crd) t = Some (Inl e :: exn + bool, s')) \<or>
          (e = not_converged 3 \<and> int (world (demo_start ())) + 1000 * 3 \<le> int (world s'))"
    by blast
  then show ?thesis by (cases r) (auto simp: returnM_def)
qed

text \<open>
  C30: polling is a bounded loop. On a clock that \<^verbatim>\<open>time.sleep\<close> advances, the harness's \<^verbatim>\<open>while\<close> loop with its deadline
  does the same as a \<^verbatim>\<open>for\<close> loop of at most half as many rounds as the timeout has seconds, plus one, whose
  \<^verbatim>\<open>else\<close> branch, here any program, is never reached.
\<close>

theorem lab_wait_bounded_loop:
  assumes "clock_ok os now" and "runs os now fn" and "timeout \<le> 2 * int n"
  shows "lab_wait ok fn timeout os s =
    bindM monotonic (\<lambda>t0. repeatM (Suc n) (poll_round ok fn (t0 + 1000 * timeout) 2000 (not_converged timeout)) els) os s"
  using assms(1,2) by (rule article.wait_bounded) (use assms(3) in simp)

theorem lab_wait_bounded_loop_witness:
  "lab_wait (\<lambda>b. b) (returnM False) 4 (demo_os demo_crd) (demo_start ()) =
     bindM monotonic (\<lambda>t0. repeatM 3 (poll_round (\<lambda>b. b) (returnM False) (t0 + 4000) 2000 (not_converged 4))
       (raiseM StopIteration)) (demo_os demo_crd) (demo_start ())"
proof -
  have "runs (demo_os demo_crd) int (returnM False :: (nat, unit, bool) prog)" by (rule runs_intros)
  from lab_wait_bounded_loop [OF demo_clock this, of 4 2 "\<lambda>b. b" "demo_start ()" "raiseM StopIteration"]
  show ?thesis by (simp add: eval_nat_numeral)
qed

text \<open>
  C12: the scripts end, whatever the cluster answers, on every clock that
  \<^verbatim>\<open>time.sleep\<close> advances: each of their loops has a deadline, or a bound on its rounds: the producer of the autoscaling script stops after at most 60
  requests however long each of them takes, and the loop of the image script that
  writes the random file ends because every round writes a part of the chunk that \<^verbatim>\<open>os.urandom\<close> returned. The outage, the failover and the
  admission script poll without \<^verbatim>\<open>time.sleep\<close>; they end when running a process takes some time (\<open>busy\<close>).
\<close>

theorem scripts_terminate:
  assumes "clock_ok os now" and "length chunk = 1024 * 1024"
  shows "image_run chunk os s \<noteq> None \<and> crd_run os s \<noteq> None \<and> pvc_run os s \<noteq> None \<and> job_run os s \<noteq> None \<and>
    reconcile_run os s \<noteq> None \<and> pdb_run os s \<noteq> None \<and> network_policy_run os s \<noteq> None \<and> probes_run os s \<noteq> None \<and>
    pod_stages_run os s \<noteq> None \<and> ephemeral_run os s \<noteq> None \<and> node_failure_run secs os s \<noteq> None \<and>
    scheduling_run os s \<noteq> None \<and> secret_refresh_run os s \<noteq> None \<and> storage_run os s \<noteq> None \<and> terminating_run os s \<noteq> None \<and>
    volcano_run Y only os t \<noteq> None \<and> advanced_run Y only os t \<noteq> None \<and> boundaries_run Y only os t \<noteq> None \<and>
    startup_probe_run Y os t \<noteq> None \<and> hpa_main c path os h \<noteq> None \<and>
    hami_run L os u \<noteq> None \<and> extra_run L os u \<noteq> None \<and> hami_advanced_run L os u \<noteq> None \<and>
    lifecycle_run os l \<noteq> None \<and> failure_paths_run os l \<noteq> None \<and>
    components_run os k \<noteq> None \<and> gc_run os s \<noteq> None \<and> rollout_run os s \<noteq> None \<and> capacity_run os s \<noteq> None \<and>
    apply_run home os s \<noteq> None \<and> quota_run home os s \<noteq> None \<and> rbac_run home os s \<noteq> None \<and>
    (busy os now \<longrightarrow> api_outage os k \<noteq> None \<and> failover_run os k \<noteq> None \<and> admission_run home os s \<noteq> None)"
  by (intro conjI impI image_run_runs [OF assms, THEN runs_returns] crd_runs [OF assms(1), THEN runs_returns]
      pvc_runs [OF assms(1), THEN runs_returns] job_runs [OF assms(1), THEN runs_returns] deep_dive_runs [OF assms(1), THEN runs_returns]
      deep_dive_more_runs [OF assms(1), THEN runs_returns]
      volcano_runs [OF assms(1), THEN runs_returns] hpa_runs [OF assms(1), THEN runs_returns] hami_runs [OF assms(1), THEN runs_returns]
      lifecycle_runs [OF assms(1), THEN runs_returns] control_runs [OF assms(1), THEN runs_returns] api_runs [OF assms(1), THEN runs_returns])

theorem scripts_terminate_witness:
  "image_run demo_chunk (demo_os demo_job) (demo_start ()) \<noteq> None \<and> crd_run (demo_os demo_job) (demo_start ()) \<noteq> None \<and>
   node_failure_run (\<lambda>_. ''1.5'') (demo_os demo_job) (demo_start ()) \<noteq> None \<and>
   volcano_run demo_lib [] (demo_os demo_job) (demo_start \<lparr>CASE = [], RESULTS = []\<rparr>) \<noteq> None \<and>
   hpa_main Real ''evidence'' (demo_os demo_job) (demo_start \<lparr>STAGE = [], OUT = [], PROXY_PORT = 0, log_procs = []\<rparr>) \<noteq> None \<and>
   hami_run demo_hlib (demo_os demo_job) (demo_start demo_vars) \<noteq> None \<and>
   lifecycle_run (demo_os demo_job) (demo_start \<lparr>LC_ENV = [], TIMELINE = []\<rparr>) \<noteq> None \<and>
   components_run (demo_os demo_job) (demo_start \<lparr>DISABLED = []\<rparr>) \<noteq> None \<and>
   api_outage (demo_os demo_job) (demo_start \<lparr>DISABLED = []\<rparr>) \<noteq> None \<and>
   admission_run ''/root'' (demo_os demo_job) (demo_start ()) \<noteq> None"
  using scripts_terminate [where os = "demo_os demo_job" and s = "demo_start ()" and secs = "\<lambda>_. ''1.5''" and Y = demo_lib and only = "[]"
      and t = "demo_start \<lparr>CASE = [], RESULTS = []\<rparr>" and c = Real and path = "''evidence''"
      and h = "demo_start \<lparr>STAGE = [], OUT = [], PROXY_PORT = 0, log_procs = []\<rparr>" and L = demo_hlib and u = "demo_start demo_vars"
      and l = "demo_start \<lparr>LC_ENV = [], TIMELINE = []\<rparr>" and k = "demo_start \<lparr>DISABLED = []\<rparr>" and home = "''/root''",
      OF demo_clock demo_chunk_length] demo_busy
  by (elim conjE) (intro conjI, (assumption | blast)+)

text \<open>
  C13: no script leaves its cluster: every process it starts is kubectl with the context of its lab as the first option,
  except for \<^verbatim>\<open>openssl\<close> in the conversion experiment, \<^verbatim>\<open>docker\<close> and \<^verbatim>\<open>kind\<close> in the image experiment, and \<^verbatim>\<open>docker\<close> in the node failure and
  the deletion experiment. No
  command reaches a cluster that happens to be the current context.
\<close>

theorem scripts_pinned:
  "emits os (on_context [''openssl''] (CONTEXT os)) crd_run \<and>
   emits os (on_context [] (CONTEXT os)) pvc_run \<and> emits os (on_context [] (CONTEXT os)) job_run \<and>
   emits os (on_context [''docker'', KIND os] ''kind-article-image'') (image_run chunk) \<and>
   emits os (on_context [] ''kind-deep-dive'') reconcile_run \<and> emits os (on_context [] ''kind-deep-dive'') pdb_run \<and>
   emits os (on_context [] ''kind-deep-dive'') network_policy_run \<and> emits os (on_context [] ''kind-deep-dive'') probes_run \<and>
   emits os (on_context [] ''kind-deep-dive'') pod_stages_run \<and> emits os (on_context [] ''kind-deep-dive'') ephemeral_run \<and>
   emits os (on_context [''docker''] ''kind-deep-dive'') (node_failure_run secs) \<and> emits os (on_context [] ''kind-deep-dive'') scheduling_run \<and>
   emits os (on_context [] ''kind-deep-dive'') secret_refresh_run \<and> emits os (on_context [] ''kind-deep-dive'') storage_run \<and>
   emits os (on_context [''docker''] ''kind-deep-dive'') terminating_run \<and>
   emits os (on_context [] ''kind-volcano-lab'') (volcano_run Y only) \<and> emits os (on_context [] ''kind-volcano-lab'') (advanced_run Y only) \<and>
   emits os (on_context [] ''kind-volcano-lab'') (boundaries_run Y only) \<and> emits os (on_context [] ''kind-volcano-lab'') (startup_probe_run Y)"
  by (intro conjI crd_pinned pvc_pinned job_pinned image_pinned deep_dive_emits deep_dive_more_emits volcano_emits;
      simp add: CTX_def V_CTX_def on_context_tool)

text \<open>
  C14: what is saved as evidence can be read back: the text written for a value parses to that value,
  and it is written to the lab's evidence directory under the given name.
\<close>

theorem evidence_round_trip:
  assumes "wf_json v" and "lab_save L name v os s = Some (r, s')"
  shows "\<exists>t. Wrote (out L @ ''/'' @ name @ ''.json'') t \<in> set (trace s') \<and> loads t = Inr v"
  using assms by (rule article_lab.save_roundtrip)

theorem evidence_round_trip_witness:
  "\<exists>s' t. lab_save (lab_of ''t'') ''demo'' demo_document (demo_os demo_crd) (demo_start ()) = Some (Inr (), s') \<and>
     Wrote ''article-t/evidence/demo.json'' t \<in> set (trace s') \<and> loads t = Inr demo_document"
proof -
  have "\<exists>w'. succeeds (demo_os demo_crd) (lab_save (lab_of ''t'') ''demo'' demo_document) 0 () w'"
    using lab_save_succeeds by blast
  then obtain s' where run:
    "lab_save (lab_of ''t'') ''demo'' demo_document (demo_os demo_crd) (demo_start ()) = Some (Inr (), s')"
    by (rule demo_succeeds)
  from evidence_round_trip [OF demo_document_wf run] show ?thesis using run by (simp add: lab_of_def)
qed


section \<open>Injected failures and permissions\<close>




end
